(* ===== verification/Prelude.thy ===== *)
theory Prelude
  imports Main "HOL-Library.Word" "HOL-Library.AList"
begin

unbundle bit_operations_syntax

text \<open>
  Shared vocabulary of the development: the C integer types as machine words, byte-addressed
  memory as the tracing helpers see it, the little-endian layout of C objects, the byte-order
  macros of \<^verbatim>\<open>libbpf/bpf_endian.h\<close>, the helper calls \<^verbatim>\<open>bpf_probe_read\<close> and
  \<^verbatim>\<open>bpf_probe_read_str\<close>, and the macros \<^verbatim>\<open>MIN\<close> and \<^verbatim>\<open>TRUNCATE_PAYLOAD_SIZE\<close>.
  The lemma collections \<open>bytes_simps\<close> (evaluating reads and byte-order conversions) and
  \<open>size_simps\<close> (facts on truncated sizes) carry the proofs of the component theories.
\<close>

section \<open>Machine types\<close>

type_synonym u8 = "8 word"
type_synonym u16 = "16 word"
type_synonym u32 = "32 word"
type_synonym u64 = "64 word"

text \<open>
  Signed C integers share the representation of the unsigned ones; a comparison of signed
  values is written with \<open><s\<close> and \<open>\<le>s\<close> or with \<^const>\<open>sint\<close>.
\<close>

type_synonym s16 = "16 word"
type_synonym s32 = "32 word"
type_synonym s64 = "64 word"

text \<open>
  Memory as a probe sees it: \<open>None\<close> is an address whose access faults. The byte list of a
  C object of size \<open>n\<close> at address \<open>a\<close> is the list of the bytes at \<open>a, a + 1, \<dots>\<close>.
\<close>

type_synonym mem = "u64 \<Rightarrow> u8 option"

named_theorems bytes_simps "evaluation of memory reads and byte-order conversions"
named_theorems size_simps "bounds of truncated sizes"

section \<open>Reading memory\<close>

fun bpf_probe_read :: "mem \<Rightarrow> nat \<Rightarrow> u64 \<Rightarrow> u8 list option" where
  "bpf_probe_read m 0 a = Some []"
| "bpf_probe_read m (Suc n) a =
     (case m a of
        None \<Rightarrow> None
      | Some b \<Rightarrow> map_option ((#) b) (bpf_probe_read m n (a + 1)))"

text \<open>
  \<^verbatim>\<open>bpf_probe_read_str\<close>: the bytes written, the terminating NUL included. At most \<open>n\<close>
  bytes are written; where the string is longer the last of them is set to NUL.
\<close>

fun bpf_probe_read_str :: "mem \<Rightarrow> nat \<Rightarrow> u64 \<Rightarrow> u8 list option" where
  "bpf_probe_read_str m 0 a = Some []"
| "bpf_probe_read_str m (Suc n) a =
     (case m a of
        None \<Rightarrow> None
      | Some b \<Rightarrow>
          if b = 0 \<or> n = 0 then Some [0]
          else map_option ((#) b) (bpf_probe_read_str m n (a + 1)))"

text \<open>Memory that holds a given byte string at an address.\<close>

definition holds_at :: "mem \<Rightarrow> u64 \<Rightarrow> u8 list \<Rightarrow> bool" where
  "holds_at m a bs \<longleftrightarrow> bpf_probe_read m (length bs) a = Some bs"

text \<open>A memory in which exactly one byte string is readable.\<close>

definition mem_of :: "u64 \<Rightarrow> u8 list \<Rightarrow> mem" where
  "mem_of base bs = (\<lambda>a. if unat (a - base) < length bs then Some (bs ! unat (a - base)) else None)"

text \<open>A memory overlaid with a kernel buffer that lives at a fixed address.\<close>

definition overlay :: "mem \<Rightarrow> u64 \<Rightarrow> u8 list \<Rightarrow> mem" where
  "overlay m base bs = (\<lambda>a. case mem_of base bs a of None \<Rightarrow> m a | Some b \<Rightarrow> Some b)"

text \<open>The bytes of an ASCII string constant of the source.\<close>

definition ascii :: "string \<Rightarrow> u8 list" where
  "ascii s = map of_char s"

section \<open>Layout of integers\<close>

fun le_word :: "u8 list \<Rightarrow> 'a::len word" where
  "le_word [] = 0"
| "le_word (b # bs) = ucast b + 256 * le_word bs"

definition be_word :: "u8 list \<Rightarrow> 'a::len word" where
  "be_word bs = le_word (rev bs)"

fun le_bytes :: "nat \<Rightarrow> 'a::len word \<Rightarrow> u8 list" where
  "le_bytes 0 w = []"
| "le_bytes (Suc n) w = ucast w # le_bytes n (drop_bit 8 w)"

definition be_bytes :: "nat \<Rightarrow> 'a::len word \<Rightarrow> u8 list" where
  "be_bytes n w = rev (le_bytes n w)"

text \<open>A field of a C struct: \<open>n\<close> bytes at offset \<open>off\<close> of the object's bytes.\<close>

definition field_at :: "nat \<Rightarrow> nat \<Rightarrow> u8 list \<Rightarrow> u8 list" where
  "field_at off n bs = take n (drop off bs)"

section \<open>Byte order\<close>

definition bpf_mvb :: "nat \<Rightarrow> 'a::len word \<Rightarrow> nat \<Rightarrow> nat \<Rightarrow> 'a word" where
  "bpf_mvb b x n m = push_bit (m * 8) (drop_bit (b - 8) (push_bit (b - (n + 1) * 8) x))"

definition bpf_swab16 :: "u16 \<Rightarrow> u16" where
  "bpf_swab16 x = bpf_mvb 16 x 0 1 OR bpf_mvb 16 x 1 0"

definition bpf_swab32 :: "u32 \<Rightarrow> u32" where
  "bpf_swab32 x =
     bpf_mvb 32 x 0 3 OR bpf_mvb 32 x 1 2 OR bpf_mvb 32 x 2 1 OR bpf_mvb 32 x 3 0"

text \<open>The eBPF objects are built for a little-endian target, where both directions swap.\<close>

definition bpf_htons :: "u16 \<Rightarrow> u16" where "bpf_htons x = bpf_swab16 x"
definition bpf_ntohs :: "u16 \<Rightarrow> u16" where "bpf_ntohs x = bpf_swab16 x"
definition bpf_htonl :: "u32 \<Rightarrow> u32" where "bpf_htonl x = bpf_swab32 x"
definition bpf_ntohl :: "u32 \<Rightarrow> u32" where "bpf_ntohl x = bpf_swab32 x"

section \<open>Facts on memory reads\<close>

lemma bpf_probe_read_length [size_simps]: "bpf_probe_read m n a = Some bs \<Longrightarrow> length bs = n"
  by (induction n arbitrary: a bs) (auto split: option.splits)

lemma bpf_probe_read_nth:
  "bpf_probe_read m n a = Some bs \<Longrightarrow> i < n \<Longrightarrow> m (a + of_nat i) = Some (bs ! i)"
proof (induction n arbitrary: a bs i)
  case 0
  then show ?case by simp
next
  case (Suc n)
  from Suc.prems obtain b bs' where b: "m a = Some b" "bpf_probe_read m n (a + 1) = Some bs'" "bs = b # bs'"
    by (auto split: option.splits)
  show ?case
  proof (cases i)
    case 0
    then show ?thesis using b by simp
  next
    case (Suc j)
    then show ?thesis using Suc.IH [OF b(2), of j] Suc.prems b(3) by (simp add: add.assoc)
  qed
qed

lemma bpf_probe_read_Some_iff:
  "bpf_probe_read m n a = Some bs \<longleftrightarrow> length bs = n \<and> (\<forall>i<n. m (a + of_nat i) = Some (bs ! i))"
proof
  assume "bpf_probe_read m n a = Some bs"
  then show "length bs = n \<and> (\<forall>i<n. m (a + of_nat i) = Some (bs ! i))"
    using bpf_probe_read_length bpf_probe_read_nth by blast
next
  show "length bs = n \<and> (\<forall>i<n. m (a + of_nat i) = Some (bs ! i)) \<Longrightarrow> bpf_probe_read m n a = Some bs"
  proof (induction n arbitrary: a bs)
    case 0
    then show ?case by simp
  next
    case (Suc n)
    then obtain b bs' where bs: "bs = b # bs'" by (cases bs) auto
    have "m a = Some b" using Suc.prems bs by (auto dest!: spec [of _ 0])
    moreover have "bpf_probe_read m n (a + 1) = Some bs'"
      using Suc.prems bs by (intro Suc.IH) (auto simp: add.assoc dest: spec [of _ "Suc _"])
    ultimately show ?case using bs by simp
  qed
qed

lemma bpf_probe_read_None_iff:
  "bpf_probe_read m n a = None \<longleftrightarrow> (\<exists>i<n. m (a + of_nat i) = None)"
proof (induction n arbitrary: a)
  case 0
  then show ?case by simp
next
  case (Suc n)
  show ?case
    by (auto simp: Suc.IH less_Suc_eq_0_disj add.assoc split: option.splits intro: exI [of _ 0])
qed

lemma bpf_probe_read_cong:
  "(\<And>i. i < n \<Longrightarrow> m (a + of_nat i) = m' (a + of_nat i)) \<Longrightarrow> bpf_probe_read m n a = bpf_probe_read m' n a"
proof (induction n arbitrary: a)
  case 0
  then show ?case by simp
next
  case (Suc n)
  have "m a = m' a" using Suc.prems [of 0] by simp
  moreover have "bpf_probe_read m n (a + 1) = bpf_probe_read m' n (a + 1)"
    using Suc.prems [of "Suc _"] by (intro Suc.IH) (simp add: add.assoc)
  ultimately show ?case by (simp split: option.splits)
qed

lemma bpf_probe_read_holds:
  assumes "holds_at m a bs" and "off + n \<le> length bs"
  shows "bpf_probe_read m n (a + of_nat off) = Some (field_at off n bs)"
  using assms unfolding holds_at_def bpf_probe_read_Some_iff field_at_def
  by (auto simp: add.assoc simp flip: of_nat_add)

lemma bpf_probe_read_holds0:
  "holds_at m a bs \<Longrightarrow> n \<le> length bs \<Longrightarrow> bpf_probe_read m n a = Some (take n bs)"
  using bpf_probe_read_holds [of m a bs 0 n] by (simp add: field_at_def)

lemma field_at_skip: "off \<ge> length xs \<Longrightarrow> field_at off n (xs @ ys) = field_at (off - length xs) n ys"
  by (simp add: field_at_def)

lemma field_at_here: "length xs = n \<Longrightarrow> field_at 0 n (xs @ ys) = xs"
  by (simp add: field_at_def)

lemma field_at_Cons: "0 < off \<Longrightarrow> field_at off n (x # xs) = field_at (off - 1) n xs"
  by (cases off) (simp_all add: field_at_def)

lemmas field_at_simps = field_at_skip field_at_here field_at_Cons

lemma bpf_probe_read_holds_word:
  "holds_at m a bs \<Longrightarrow> unat k + n \<le> length bs \<Longrightarrow> bpf_probe_read m n (a + k) = Some (field_at (unat k) n bs)"
  using bpf_probe_read_holds [of m a bs "unat k" n] by simp

lemma length_field_at: "off + n \<le> length bs \<Longrightarrow> length (field_at off n bs) = n"
  by (simp add: field_at_def)

lemma nth_field_at: "i < n \<Longrightarrow> off + n \<le> length bs \<Longrightarrow> field_at off n bs ! i = bs ! (off + i)"
  by (simp add: field_at_def)

lemma holds_at_mem_of:
  assumes "length bs < 2 ^ 64"
  shows "holds_at (mem_of a bs) a bs"
proof -
  have "unat (of_nat i :: u64) = i" if "i < length bs" for i
    using that assms by (simp add: unat_of_nat)
  then show ?thesis
    unfolding holds_at_def bpf_probe_read_Some_iff mem_of_def by simp
qed

lemma bpf_probe_read_str_le: "bpf_probe_read_str m n a = Some bs \<Longrightarrow> length bs \<le> n"
  by (induction n arbitrary: a bs) (auto split: option.splits if_splits)

lemma bpf_probe_read_str_full:
  assumes "bpf_probe_read m (Suc n) a = Some bs" and "\<forall>i<n. bs ! i \<noteq> 0"
  shows "bpf_probe_read_str m (Suc n) a = Some (take n bs @ [0])"
  using assms
proof (induction n arbitrary: a bs)
  case 0
  then show ?case by (auto split: option.splits)
next
  case (Suc n)
  from Suc.prems(1) obtain b bs' where b: "m a = Some b" "bpf_probe_read m (Suc n) (a + 1) = Some bs'" "bs = b # bs'"
    by (auto simp del: bpf_probe_read.simps(2) simp: bpf_probe_read.simps(2) [of m "Suc n"] split: option.splits)
  have "b \<noteq> 0" using Suc.prems(2) b(3) by auto
  moreover have "\<forall>i<n. bs' ! i \<noteq> 0" using Suc.prems(2) b(3) by auto
  ultimately show ?case
    using Suc.IH [OF b(2)] b by simp
qed

lemma bpf_probe_read_str_full_iff:
  "(\<exists>bs. bpf_probe_read_str m (Suc n) a = Some bs \<and> length bs = Suc n) \<longleftrightarrow>
   (\<exists>bs. bpf_probe_read m (Suc n) a = Some bs \<and> (\<forall>i<n. bs ! i \<noteq> 0))"
proof (induction n arbitrary: a)
  case 0
  then show ?case by (auto split: option.splits)
next
  case (Suc n)
  show ?case
  proof (cases "m a")
    case None
    then show ?thesis by simp
  next
    case (Some b)
    have "(\<exists>bs. bpf_probe_read_str m (Suc (Suc n)) a = Some bs \<and> length bs = Suc (Suc n)) \<longleftrightarrow>
       b \<noteq> 0 \<and> (\<exists>bs. bpf_probe_read_str m (Suc n) (a + 1) = Some bs \<and> length bs = Suc n)"
      using Some by (subst bpf_probe_read_str.simps(2)) (auto simp del: bpf_probe_read_str.simps)
    moreover have "(\<exists>bs. bpf_probe_read m (Suc (Suc n)) a = Some bs \<and> (\<forall>i<Suc n. bs ! i \<noteq> 0)) \<longleftrightarrow>
       b \<noteq> 0 \<and> (\<exists>bs. bpf_probe_read m (Suc n) (a + 1) = Some bs \<and> (\<forall>i<n. bs ! i \<noteq> 0))"
      using Some by (subst bpf_probe_read.simps(2)) (auto simp: All_less_Suc2 simp del: bpf_probe_read.simps)
    ultimately show ?thesis using Suc.IH by simp
  qed
qed

lemma bpf_probe_read_numeral [bytes_simps]:
  "bpf_probe_read m (numeral k) a =
     (case m a of None \<Rightarrow> None | Some b \<Rightarrow> map_option ((#) b) (bpf_probe_read m (pred_numeral k) (a + 1)))"
  by (simp add: numeral_eq_Suc)

lemma bpf_probe_read_str_c_string:
  assumes "holds_at m a (str @ [0])" and "0 \<notin> set str"
  shows "bpf_probe_read_str m (Suc n) a = Some (take n str @ [0])"
  using assms
proof (induction n arbitrary: a str)
  case 0
  then have "m a \<noteq> None"
    by (cases str) (auto simp: holds_at_def split: option.splits)
  then show ?case by auto
next
  case (Suc n)
  show ?case
  proof (cases str)
    case Nil
    then show ?thesis using Suc.prems by (auto simp: holds_at_def split: option.splits)
  next
    case (Cons b str')
    then have "m a = Some b" and "holds_at m (a + 1) (str' @ [0])"
      using Suc.prems by (auto simp: holds_at_def split: option.splits)
    then show ?thesis
      using Suc.IH [of "a + 1" str'] Suc.prems Cons
      by (subst bpf_probe_read_str.simps) auto
  qed
qed

section \<open>Facts on layout and byte order\<close>

lemma le_word_Cons_or:
  "(le_word (b # bs) :: 'a::len word) = ucast b OR push_bit 8 (le_word bs)"
proof -
  have "(ucast b :: 'a word) AND push_bit 8 (le_word bs) = 0"
    by (rule bit_word_eqI) (auto simp: bit_simps dest: bit_imp_le_length)
  then have "(ucast b :: 'a word) + push_bit 8 (le_word bs) = ucast b OR push_bit 8 (le_word bs)"
    by (simp add: disjunctive_add_eq_or)
  then show ?thesis by (simp add: push_bit_eq_mult mult.commute)
qed

lemma bit_le_word:
  "bit (le_word bs :: 'a::len word) i \<longleftrightarrow> i < LENGTH('a) \<and> i div 8 < length bs \<and> bit (bs ! (i div 8)) (i mod 8)"
proof (induction bs arbitrary: i)
  case Nil
  then show ?case by simp
next
  case (Cons b bs)
  show ?case
  proof (cases "i < 8")
    case True
    then show ?thesis
      by (auto simp: le_word_Cons_or bit_simps simp del: le_word.simps)
  next
    case False
    then obtain j where j: "i = j + 8" by (metis add.commute le_Suc_ex not_less)
    have "(j + 8) div 8 = Suc (j div 8)" by simp
    then show ?thesis
      by (auto simp: le_word_Cons_or bit_simps j Cons.IH simp del: le_word.simps div_add_self2
          dest: bit_imp_le_length)
  qed
qed

lemma le_word_inject:
  assumes "(le_word bs :: 'a::len word) = le_word bs'" and "length bs = length bs'" and "8 * length bs \<le> LENGTH('a)"
  shows "bs = bs'"
proof (rule nth_equalityI [OF assms(2)])
  fix j assume j: "j < length bs"
  show "bs ! j = bs' ! j"
  proof (rule bit_word_eqI)
    fix i assume "i < LENGTH(8)"
    then have "(8 * j + i) div 8 = j" "(8 * j + i) mod 8 = i" "8 * j + i < LENGTH('a)"
      using j assms(3) by auto
    then show "bit (bs ! j) i = bit (bs' ! j) i"
      using bit_le_word [of bs "8 * j + i", where 'a = 'a] bit_le_word [of bs' "8 * j + i", where 'a = 'a]
        assms(1,2) j by simp
  qed
qed

lemma length_le_bytes [simp]: "length (le_bytes n w) = n"
  by (induction n arbitrary: w) auto

lemma length_be_bytes [simp]: "length (be_bytes n w) = n"
  by (simp add: be_bytes_def)

lemma nth_le_bytes: "i < n \<Longrightarrow> le_bytes n w ! i = ucast (drop_bit (8 * i) w)"
proof (induction n arbitrary: w i)
  case 0
  then show ?case by simp
next
  case (Suc n)
  then show ?case by (cases i) (auto simp: drop_bit_drop_bit add.commute)
qed

lemma le_word_le_bytes:
  assumes "LENGTH('a) = 8 * n"
  shows "le_word (le_bytes n (w :: 'a::len word)) = w"
proof (rule bit_word_eqI)
  fix i assume i: "i < LENGTH('a)"
  then have "i div 8 < n" using assms by (simp add: less_mult_imp_div_less mult.commute)
  then show "bit (le_word (le_bytes n w) :: 'a word) i = bit w i"
    using i by (simp add: bit_le_word nth_le_bytes bit_simps)
qed

lemma le_word_le_bytes_simps [simp]:
  "le_word (le_bytes 2 (w16 :: u16)) = w16"
  "le_word (le_bytes 4 (w32 :: u32)) = w32"
  "le_word (le_bytes 8 (w64 :: u64)) = w64"
  by (rule le_word_le_bytes, simp)+

lemma bit_bpf_mvb:
  assumes "LENGTH('a) = b" "(n + 1) * 8 \<le> b" "(m + 1) * 8 \<le> b"
  shows "bit (bpf_mvb b (x :: 'a::len word) n m) i \<longleftrightarrow> i div 8 = m \<and> bit x (n * 8 + i mod 8)"
proof -
  have "i div 8 = m \<longleftrightarrow> m * 8 \<le> i \<and> i < m * 8 + 8" by auto
  moreover have "m * 8 \<le> i \<Longrightarrow> i < m * 8 + 8 \<Longrightarrow> i mod 8 = i - m * 8"
    by (rule mod_nat_eqI) auto
  ultimately show ?thesis
    using assms by (auto simp: bpf_mvb_def bit_simps algebra_simps dest: bit_imp_le_length)
qed

lemma bit_bpf_swab16: "i < 16 \<Longrightarrow> bit (bpf_swab16 x) i = bit x ((1 - i div 8) * 8 + i mod 8)"
proof -
  assume i: "i < 16"
  then have "i div 8 < 2" by simp
  then consider "i div 8 = 0" | "i div 8 = 1" by linarith
  then show ?thesis
    by cases (auto simp: bpf_swab16_def bit_simps bit_bpf_mvb)
qed

lemma bit_bpf_swab32: "i < 32 \<Longrightarrow> bit (bpf_swab32 x) i = bit x ((3 - i div 8) * 8 + i mod 8)"
proof -
  assume i: "i < 32"
  then have "i div 8 < 4" by simp
  then consider "i div 8 = 0" | "i div 8 = 1" | "i div 8 = 2" | "i div 8 = 3" by linarith
  then show ?thesis
    by cases (auto simp: bpf_swab32_def bit_simps bit_bpf_mvb)
qed

lemma bpf_swab16_le_word: "length bs = 2 \<Longrightarrow> bpf_swab16 (le_word bs) = be_word bs"
proof (rule bit_word_eqI)
  fix i assume "length bs = 2" "i < LENGTH(16)"
  moreover from this have "i div 8 < 2" "(1 - i div 8) * 8 + i mod 8 < 16" by auto
  ultimately show "bit (bpf_swab16 (le_word bs)) i = bit (be_word bs :: u16) i"
    by (simp add: bit_bpf_swab16 bit_le_word be_word_def rev_nth)
qed

lemma bpf_swab32_le_word: "length bs = 4 \<Longrightarrow> bpf_swab32 (le_word bs) = be_word bs"
proof (rule bit_word_eqI)
  fix i assume "length bs = 4" "i < LENGTH(32)"
  moreover from this have "i div 8 < 4" "(3 - i div 8) * 8 + i mod 8 < 32" by auto
  ultimately show "bit (bpf_swab32 (le_word bs)) i = bit (be_word bs :: u32) i"
    by (simp add: bit_bpf_swab32 bit_le_word be_word_def rev_nth)
qed

lemma bpf_swab16_swab16 [simp]: "bpf_swab16 (bpf_swab16 x) = x"
proof -
  have "bpf_swab16 x = le_word (rev (le_bytes 2 x))"
    using bpf_swab16_le_word [of "le_bytes 2 x"] by (simp add: be_word_def)
  then show ?thesis
    using bpf_swab16_le_word [of "rev (le_bytes 2 x)"] by (simp add: be_word_def)
qed

lemma bpf_swab32_swab32 [simp]: "bpf_swab32 (bpf_swab32 x) = x"
proof -
  have "bpf_swab32 x = le_word (rev (le_bytes 4 x))"
    using bpf_swab32_le_word [of "le_bytes 4 x"] by (simp add: be_word_def)
  then show ?thesis
    using bpf_swab32_le_word [of "rev (le_bytes 4 x)"] by (simp add: be_word_def)
qed

lemma be_word_be_bytes [simp]:
  "be_word (be_bytes 2 (w16 :: u16)) = w16"
  "be_word (be_bytes 4 (w32 :: u32)) = w32"
  by (simp_all add: be_word_def be_bytes_def)

lemma be_bytes_be_word:
  assumes "length bs = n" and "8 * n \<le> LENGTH('a::len)"
  shows "be_bytes n (be_word bs :: 'a word) = bs"
proof -
  have "le_bytes n (le_word cs :: 'a word) = cs" if "length cs = n" for cs
  proof (rule nth_equalityI)
    show "le_bytes n (le_word cs :: 'a word) ! i = cs ! i" if "i < length (le_bytes n (le_word cs :: 'a word))" for i
      using that \<open>length cs = n\<close> assms(2)
      by (intro bit_word_eqI) (auto simp: nth_le_bytes bit_simps bit_le_word)
  qed (simp add: that)
  then show ?thesis using assms(1) by (simp add: be_bytes_def be_word_def)
qed

lemmas byte_order_defs = bpf_htons_def bpf_ntohs_def bpf_htonl_def bpf_ntohl_def

lemma bpf_hton_le_word [bytes_simps]:
  "length bs = 2 \<Longrightarrow> bpf_htons (le_word bs) = be_word bs"
  "length bs = 2 \<Longrightarrow> bpf_ntohs (le_word bs) = be_word bs"
  "length bs = 4 \<Longrightarrow> bpf_htonl (le_word bs) = be_word bs"
  "length bs = 4 \<Longrightarrow> bpf_ntohl (le_word bs) = be_word bs"
  by (simp_all add: byte_order_defs bpf_swab16_le_word bpf_swab32_le_word)

section \<open>Truncated payload sizes\<close>

text \<open>
  \<^verbatim>\<open>MAX_PAYLOAD_SIZE\<close> is 1024; \<^verbatim>\<open>TRUNCATE_PAYLOAD_SIZE\<close> takes the minimum with 1023
  and masks the result once more for the verifier.
\<close>

abbreviation (input) MAX_PAYLOAD_SIZE :: u64 where "MAX_PAYLOAD_SIZE \<equiv> 1024"

definition TRUNCATE_PAYLOAD_SIZE :: "'a::len word \<Rightarrow> 'a word" where
  "TRUNCATE_PAYLOAD_SIZE sz = min sz 1023 AND 1023"

lemma and_1023_id:
  fixes x :: "'a::len word"
  assumes "unat x \<le> 1023"
  shows "x AND 1023 = x"
proof -
  have m: "(1023 :: 'a word) = mask 10" by (simp add: mask_eq_exp_minus_1)
  have "x = take_bit 10 x"
    by (rule word_unat_eq_iff [THEN iffD2])
      (use assms in \<open>simp add: unsigned_take_bit_eq take_bit_nat_eq_self\<close>)
  then show ?thesis unfolding m by (simp add: take_bit_eq_mask)
qed

lemma TRUNCATE_PAYLOAD_SIZE_min [size_simps]: "TRUNCATE_PAYLOAD_SIZE sz = min sz 1023"
proof -
  have "unat (min sz 1023) \<le> unat (1023 :: 'a word)"
    by (simp only: word_le_nat_alt [symmetric] min.cobounded2)
  also have "\<dots> \<le> 1023"
    by (simp add: take_bit_nat_less_eq_self)
  finally show ?thesis
    unfolding TRUNCATE_PAYLOAD_SIZE_def by (rule and_1023_id)
qed

lemma unat_TRUNCATE_u64 [size_simps]: "unat (TRUNCATE_PAYLOAD_SIZE (sz :: u64)) = min (unat sz) 1023"
  by (simp add: TRUNCATE_PAYLOAD_SIZE_min min_def word_le_nat_alt)

lemma unat_TRUNCATE_u32 [size_simps]: "unat (TRUNCATE_PAYLOAD_SIZE (sz :: u32)) = min (unat sz) 1023"
  by (simp add: TRUNCATE_PAYLOAD_SIZE_min min_def word_le_nat_alt)

end
