(* ===== verification/Bpf_Maps.thy ===== *)
theory Bpf_Maps
  imports Prelude
begin

text \<open>
  The eBPF map types the programs declare, and the execution environment of a handler.

  \<^item> \<^verbatim>\<open>BPF_MAP_TYPE_HASH\<close>: an association list with a capacity; an insertion of a new key into
    a full map fails and leaves the map as it was.
  \<^item> \<^verbatim>\<open>BPF_MAP_TYPE_LRU_HASH\<close>: an insertion of a new key may discard other entries. Which
    ones is the kernel's choice, so it is a parameter (\<open>ev\<close>, a predicate on positions).
  \<^item> \<^verbatim>\<open>BPF_MAP_TYPE_PERCPU_ARRAY\<close> with one entry: a function from the CPU number, whose
    lookup succeeds for index 0 only.
  \<^item> \<^verbatim>\<open>BPF_MAP_TYPE_PERF_EVENT_ARRAY\<close>: the list of the records submitted, in order.

  The operations follow the documentation of the helpers in \<^verbatim>\<open>libbpf/bpf_helper_defs.h\<close>. The
  locales \<open>bpf_map\<close> and \<open>bpf_hash\<close> state what a client may rely on; both map types are
  interpretations of them. The locale \<open>step_invariant\<close> is for the programs of an object file as a
  transition system.
\<close>

section \<open>Operations\<close>

type_synonym ('k, 'v) bpf_map = "('k \<times> 'v) list"

datatype update_flag = BPF_ANY | BPF_NOEXIST | BPF_EXIST

definition bpf_map_lookup_elem :: "('k, 'v) bpf_map \<Rightarrow> 'k \<Rightarrow> 'v option" where
  "bpf_map_lookup_elem m k = map_of m k"

definition bpf_map_delete_elem :: "('k, 'v) bpf_map \<Rightarrow> 'k \<Rightarrow> ('k, 'v) bpf_map" where
  "bpf_map_delete_elem m k = AList.delete k m"

text \<open>The condition \<^verbatim>\<open>flags\<close> puts on the presence of the key (\<^verbatim>\<open>-EEXIST\<close>, \<^verbatim>\<open>-ENOENT\<close>).\<close>

definition flag_error :: "update_flag \<Rightarrow> bool \<Rightarrow> int" where
  "flag_error f present =
     (if f = BPF_NOEXIST \<and> present then -17 else if f = BPF_EXIST \<and> \<not> present then -2 else 0)"

definition bpf_hash_update_elem ::
  "nat \<Rightarrow> ('k, 'v) bpf_map \<Rightarrow> 'k \<Rightarrow> 'v \<Rightarrow> update_flag \<Rightarrow> int \<times> ('k, 'v) bpf_map" where
  "bpf_hash_update_elem max_entries m k v f =
     (let present = (bpf_map_lookup_elem m k \<noteq> None); err = flag_error f present in
      if err \<noteq> 0 then (err, m)
      else if \<not> present \<and> length m \<ge> max_entries then (-7, m)
      else (0, AList.update k v m))"

fun evict_entries :: "(nat \<Rightarrow> bool) \<Rightarrow> 'a list \<Rightarrow> 'a list" where
  "evict_entries ev [] = []"
| "evict_entries ev (x # xs) =
     (if ev 0 then evict_entries (\<lambda>i. ev (Suc i)) xs
      else x # evict_entries (\<lambda>i. ev (Suc i)) xs)"

text \<open>
  An insertion discards what the policy \<open>ev\<close> chooses; if the map is still full the entries
  inserted longest ago go too.
\<close>

definition bpf_lru_update_elem ::
  "nat \<Rightarrow> (nat \<Rightarrow> bool) \<Rightarrow> ('k, 'v) bpf_map \<Rightarrow> 'k \<Rightarrow> 'v \<Rightarrow> update_flag \<Rightarrow> int \<times> ('k, 'v) bpf_map" where
  "bpf_lru_update_elem max_entries ev m k v f =
     (let present = (bpf_map_lookup_elem m k \<noteq> None); err = flag_error f present in
      if err \<noteq> 0 then (err, m)
      else if present then (0, AList.update k v m)
      else (let kept = evict_entries ev m in
            (0, drop (Suc (length kept) - max_entries) kept @ [(k, v)])))"

text \<open>A store through the pointer a lookup returned.\<close>

definition bpf_map_modify :: "('v \<Rightarrow> 'v) \<Rightarrow> 'k \<Rightarrow> ('k, 'v) bpf_map \<Rightarrow> ('k, 'v) bpf_map" where
  "bpf_map_modify g k m = map (\<lambda>(k', v). (k', if k' = k then g v else v)) m"

definition bpf_percpu_lookup :: "(u32 \<Rightarrow> 'v) \<Rightarrow> u32 \<Rightarrow> u32 \<Rightarrow> 'v option" where
  "bpf_percpu_lookup h cpu k = (if k < 1 then Some (h cpu) else None)"

text \<open>
  The idiom of the statistics handlers: look the counter up, create it at its initial value
  when it is missing, look it up again, and add to it if it is there now.
\<close>

definition lookup_or_init_add ::
  "nat \<Rightarrow> ('v \<Rightarrow> 'v) \<Rightarrow> 'v \<Rightarrow> ('k, 'v) bpf_map \<Rightarrow> 'k \<Rightarrow> ('k, 'v) bpf_map" where
  "lookup_or_init_add max_entries add init m k =
     (case bpf_map_lookup_elem m k of
        Some _ \<Rightarrow> bpf_map_modify add k m
      | None \<Rightarrow>
          (let m' = snd (bpf_hash_update_elem max_entries m k init BPF_ANY) in
           case bpf_map_lookup_elem m' k of
             None \<Rightarrow> m'
           | Some _ \<Rightarrow> bpf_map_modify add k m'))"

text \<open>Well-formed contents: one entry per key, and no more entries than declared.\<close>

definition map_wf :: "nat \<Rightarrow> ('k, 'v) bpf_map \<Rightarrow> bool" where
  "map_wf max_entries m \<longleftrightarrow> distinct (map fst m) \<and> length m \<le> max_entries"

section \<open>The environment of a handler\<close>

text \<open>
  What a program gets from the helpers and the kernel during one run: the current thread
  (\<^verbatim>\<open>bpf_get_current_pid_tgid\<close>), the clock (\<^verbatim>\<open>bpf_ktime_get_ns\<close>), the CPU
  (\<^verbatim>\<open>bpf_get_smp_processor_id\<close>), the readable memory, the address of this CPU's
  \<^verbatim>\<open>iovec_buf_heap\<close> value, the bytes C leaves unspecified (uninitialised stack bytes, the
  destination of a failed read), and the eviction choices of the LRU maps.
\<close>

datatype lru_map =
    Actual_Destinations | Connection_Id_By_Socket | Active_Connections | Active_L7_Requests
  | Active_Reads

record bpf_env =
  env_pid_tgid :: u64
  env_ktime :: u64
  env_cpu :: u32
  env_mem :: mem
  env_iovec_buf :: u64
  env_junk :: "nat \<Rightarrow> u8"
  env_evict :: "lru_map \<Rightarrow> nat \<Rightarrow> bool"

text \<open>An environment in which no memory is readable and nothing is evicted, for examples.\<close>

definition plain_env :: "u64 \<Rightarrow> u64 \<Rightarrow> bpf_env" where
  "plain_env pid_tgid t =
     \<lparr>env_pid_tgid = pid_tgid, env_ktime = t, env_cpu = 0, env_mem = (\<lambda>_. None), env_iovec_buf = 0,
      env_junk = (\<lambda>_. 0), env_evict = (\<lambda>_ _. False)\<rparr>"

definition pid_of :: "u64 \<Rightarrow> u32" where
  "pid_of pid_tgid = ucast (drop_bit 32 pid_tgid)"

definition tid_of :: "u64 \<Rightarrow> u32" where
  "tid_of pid_tgid = ucast pid_tgid"

text \<open>
  The registers of a probed function (\<^verbatim>\<open>ebpf/vmlinux.h\<close>, x86-64) and the accessors of
  \<^verbatim>\<open>libbpf/bpf_tracing.h\<close> for its arguments and result.
\<close>

record pt_regs =
  r15 :: u64
  r14 :: u64
  r13 :: u64
  r12 :: u64
  bp :: u64
  bx :: u64
  r11 :: u64
  r10 :: u64
  r9 :: u64
  r8 :: u64
  ax :: u64
  cx :: u64
  dx :: u64
  si :: u64
  di :: u64
  orig_ax :: u64
  ip :: u64
  cs :: u64
  flags :: u64
  sp :: u64
  ss :: u64

definition PT_REGS_PARM1 :: "pt_regs \<Rightarrow> u64" where "PT_REGS_PARM1 x = di x"
definition PT_REGS_PARM2 :: "pt_regs \<Rightarrow> u64" where "PT_REGS_PARM2 x = si x"
definition PT_REGS_PARM3 :: "pt_regs \<Rightarrow> u64" where "PT_REGS_PARM3 x = dx x"
definition PT_REGS_PARM4 :: "pt_regs \<Rightarrow> u64" where "PT_REGS_PARM4 x = cx x"
definition PT_REGS_RC :: "pt_regs \<Rightarrow> u64" where "PT_REGS_RC x = ax x"

lemmas pt_regs_defs =
  PT_REGS_PARM1_def PT_REGS_PARM2_def PT_REGS_PARM3_def PT_REGS_PARM4_def PT_REGS_RC_def

definition zero_regs :: pt_regs where
  "zero_regs =
     \<lparr>r15 = 0, r14 = 0, r13 = 0, r12 = 0, bp = 0, bx = 0, r11 = 0, r10 = 0, r9 = 0, r8 = 0, ax = 0,
      cx = 0, dx = 0, si = 0, di = 0, orig_ax = 0, ip = 0, cs = 0, flags = 0, sp = 0, ss = 0\<rparr>"

section \<open>The interfaces\<close>

locale bpf_map =
  fixes lookup :: "'m \<Rightarrow> 'k \<Rightarrow> 'v option"
    and update :: "'m \<Rightarrow> 'k \<Rightarrow> 'v \<Rightarrow> update_flag \<Rightarrow> int \<times> 'm"
    and delete :: "'m \<Rightarrow> 'k \<Rightarrow> 'm"
    and modify :: "('v \<Rightarrow> 'v) \<Rightarrow> 'k \<Rightarrow> 'm \<Rightarrow> 'm"
    and wf :: "'m \<Rightarrow> bool"
  assumes update_ok: "fst (update m k v f) = 0 \<Longrightarrow> lookup (snd (update m k v f)) k = Some v"
    and update_error: "fst (update m k v f) \<noteq> 0 \<Longrightarrow> snd (update m k v f) = m"
    and update_noexist: "lookup m k \<noteq> None \<Longrightarrow> fst (update m k v BPF_NOEXIST) \<noteq> 0"
    and update_present: "lookup m k \<noteq> None \<Longrightarrow> fst (update m k v BPF_ANY) = 0"
    and update_other: "wf m \<Longrightarrow> k' \<noteq> k \<Longrightarrow>
      lookup (snd (update m k v f)) k' = lookup m k' \<or> lookup (snd (update m k v f)) k' = None"
    and lookup_delete: "lookup (delete m k) = (lookup m)(k := None)"
    and lookup_modify: "lookup (modify g k m) = (lookup m)(k := map_option g (lookup m k))"
    and wf_update: "wf m \<Longrightarrow> wf (snd (update m k v f))"
    and wf_delete: "wf m \<Longrightarrow> wf (delete m k)"
    and wf_modify: "wf m \<Longrightarrow> wf (modify g k m)"
begin

lemma update_noexist_keeps: "lookup m k \<noteq> None \<Longrightarrow> snd (update m k v BPF_NOEXIST) = m"
  by (rule update_error) (rule update_noexist)

lemma update_same:
  "lookup (snd (update m k v f)) k = Some v \<or> snd (update m k v f) = m"
  using update_ok [of m k v f] update_error [of m k v f] by blast

text \<open>No operation but an update of \<open>k\<close> itself makes an entry for \<open>k\<close> appear or changes it.\<close>

lemma update_other_SomeD:
  "wf m \<Longrightarrow> lookup (snd (update m k v f)) k' = Some w \<Longrightarrow> k' \<noteq> k \<Longrightarrow> lookup m k' = Some w"
  using update_other [of m k' k v f] by auto

lemma update_SomeD:
  "wf m \<Longrightarrow> lookup (snd (update m k v f)) k' = Some w \<Longrightarrow> lookup m k' = Some w \<or> k' = k \<and> w = v"
  using update_other_SomeD [of m k v f k' w] update_same [of m k v f] by (cases "k' = k") auto

lemma delete_SomeD: "lookup (delete m k) k' = Some w \<Longrightarrow> lookup m k' = Some w \<and> k' \<noteq> k"
  by (simp add: lookup_delete split: if_splits)

lemma modify_SomeD:
  "lookup (modify g k m) k' = Some w \<Longrightarrow>
   \<exists>w0. lookup m k' = Some w0 \<and> w = (if k' = k then g w0 else w0)"
  by (auto simp: lookup_modify split: if_splits)

lemmas SomeD = update_SomeD delete_SomeD modify_SomeD

lemmas wf_intros = wf_update wf_delete wf_modify

end

text \<open>A map without eviction: other keys are untouched, and room for the key is all it takes.\<close>

locale bpf_hash = bpf_map +
  fixes room :: "'a \<Rightarrow> 'b \<Rightarrow> bool"
  assumes update_frame: "k' \<noteq> k \<Longrightarrow> lookup (snd (update m k v f)) k' = lookup m k'"
    and update_room: "room m k \<Longrightarrow> fst (update m k v BPF_ANY) = 0"
    and room_present: "lookup m k \<noteq> None \<Longrightarrow> room m k"
begin

lemma lookup_update_any:
  "room m k \<Longrightarrow> lookup (snd (update m k v BPF_ANY)) = (lookup m)(k := Some v)"
  using update_ok [OF update_room] update_frame by (auto simp: fun_eq_iff)

lemma lookup_update_delete:
  "room m k \<Longrightarrow> lookup (delete (snd (update m k v BPF_ANY)) k) = (lookup m)(k := None)"
  by (simp add: lookup_delete lookup_update_any)

end

section \<open>Both map types provide them\<close>

lemmas bpf_map_defs =
  bpf_map_lookup_elem_def bpf_map_delete_elem_def bpf_hash_update_elem_def
  bpf_lru_update_elem_def bpf_map_modify_def

lemma set_evict_entries: "set (evict_entries ev xs) \<subseteq> set xs"
  by (induction ev xs rule: evict_entries.induct) auto

lemma distinct_fst_evict: "distinct (map fst xs) \<Longrightarrow> distinct (map fst (evict_entries ev xs))"
proof (induction ev xs rule: evict_entries.induct)
  case (2 ev x xs)
  then show ?case using set_evict_entries [of "\<lambda>i. ev (Suc i)" xs] by auto
qed simp

lemma map_of_modify:
  "map_of (bpf_map_modify g k m) = (map_of m)(k := map_option g (map_of m k))"
  by (induction m) (auto simp: bpf_map_modify_def fun_eq_iff)

lemma map_fst_modify [simp]: "map fst (bpf_map_modify g k m) = map fst m"
  by (induction m) (auto simp: bpf_map_modify_def)

lemma length_modify [simp]: "length (bpf_map_modify g k m) = length m"
  by (simp add: bpf_map_modify_def)

lemma length_alist_update:
  "length (AList.update k v m) = (if map_of m k = None then Suc (length m) else length m)"
  by (induction m) auto

lemma map_of_subset:
  "distinct (map fst ys) \<Longrightarrow> distinct (map fst xs) \<Longrightarrow> set xs \<subseteq> set ys \<Longrightarrow>
   map_of xs k = map_of ys k \<or> map_of xs k = None"
  by (cases "map_of xs k") (auto dest!: map_of_SomeD intro!: map_of_is_SomeI [symmetric])

lemma map_wf_hash_update:
  "map_wf n m \<Longrightarrow> map_wf n (snd (bpf_hash_update_elem n m k v f))"
  by (auto simp: bpf_hash_update_elem_def map_wf_def Let_def bpf_map_lookup_elem_def
      length_alist_update distinct_update split: if_splits)

lemma map_wf_lru_update:
  assumes "map_wf n m" and "0 < n"
  shows "map_wf n (snd (bpf_lru_update_elem n ev m k v f))"
proof -
  let ?kept = "evict_entries ev m"
  let ?new = "drop (Suc (length ?kept) - n) ?kept"
  have d: "distinct (map fst ?new)"
    using assms distinct_fst_evict [of m ev] by (metis distinct_drop drop_map map_wf_def)
  have s: "set ?new \<subseteq> set m"
    by (rule order_trans [OF set_drop_subset set_evict_entries])
  have "k \<notin> fst ` set ?new" if "map_of m k = None"
    using that s by (auto simp: map_of_eq_None_iff)
  then show ?thesis
    using assms d by (auto simp: bpf_lru_update_elem_def map_wf_def Let_def bpf_map_lookup_elem_def
        length_alist_update distinct_update)
qed

lemma lookup_lru_update_other:
  assumes wf: "map_wf n m" and ne: "k' \<noteq> k"
  shows "map_of (snd (bpf_lru_update_elem n ev m k v f)) k' = map_of m k' \<or>
    map_of (snd (bpf_lru_update_elem n ev m k v f)) k' = None"
proof (cases "map_of m k = None")
  case False
  then show ?thesis
    using ne by (auto simp: bpf_lru_update_elem_def Let_def bpf_map_lookup_elem_def update_conv')
next
  case True
  let ?new = "drop (Suc (length (evict_entries ev m)) - n) (evict_entries ev m)"
  have "distinct (map fst ?new)"
    using wf distinct_fst_evict [of m ev] by (metis distinct_drop drop_map map_wf_def)
  moreover have "set ?new \<subseteq> set m"
    by (rule order_trans [OF set_drop_subset set_evict_entries])
  ultimately have "map_of ?new k' = map_of m k' \<or> map_of ?new k' = None"
    using wf map_of_subset [of m ?new k'] by (simp add: map_wf_def)
  then show ?thesis
    using ne True
    by (auto simp: bpf_lru_update_elem_def bpf_map_lookup_elem_def Let_def map_add_def
        split: option.splits)
qed

lemma lookup_lru_update_same:
  "fst (bpf_lru_update_elem n ev m k v f) = 0 \<Longrightarrow>
   map_of m k = None \<Longrightarrow> map_of (snd (bpf_lru_update_elem n ev m k v f)) k = Some v"
proof -
  assume k: "map_of m k = None" "fst (bpf_lru_update_elem n ev m k v f) = 0"
  have "set (drop (Suc (length (evict_entries ev m)) - n) (evict_entries ev m)) \<subseteq> set m"
    by (rule order_trans [OF set_drop_subset set_evict_entries])
  then have "map_of (drop (Suc (length (evict_entries ev m)) - n) (evict_entries ev m)) k = None"
    using k(1) by (auto simp: map_of_eq_None_iff)
  then show ?thesis
    using k by (auto simp: bpf_lru_update_elem_def Let_def bpf_map_lookup_elem_def map_add_def
        split: if_splits)
qed

lemmas map_wf_simps = map_wf_def distinct_delete distinct_update length_alist_update
  order_trans [OF length_delete_le]

interpretation lru: bpf_map bpf_map_lookup_elem "bpf_lru_update_elem (Suc n) ev"
  bpf_map_delete_elem bpf_map_modify "map_wf (Suc n)" for n ev
proof (unfold_locales, goal_cases)
  case (1 m k v f)
  then show ?case
    using lookup_lru_update_same [of "Suc n" ev m k v f]
    by (cases "map_of m k")
      (auto simp: bpf_lru_update_elem_def bpf_map_lookup_elem_def Let_def update_conv' split: if_splits)
next
  case (2 m k v f)
  then show ?case by (auto simp: bpf_lru_update_elem_def Let_def split: if_splits)
next
  case (5 m k' k v f)
  then show ?case unfolding bpf_map_lookup_elem_def by (rule lookup_lru_update_other)
next
  case (8 m k v f)
  then show ?case by (simp add: map_wf_lru_update)
qed (auto simp: bpf_lru_update_elem_def flag_error_def Let_def bpf_map_lookup_elem_def
    bpf_map_delete_elem_def delete_conv' map_of_modify map_wf_simps fun_eq_iff)

interpretation hash: bpf_hash bpf_map_lookup_elem "bpf_hash_update_elem n"
  bpf_map_delete_elem bpf_map_modify "map_wf n"
  "\<lambda>m k. bpf_map_lookup_elem m k \<noteq> None \<or> length m < n" for n
proof (unfold_locales, goal_cases)
  case (8 m k v f)
  then show ?case by (rule map_wf_hash_update)
qed (auto simp: bpf_hash_update_elem_def bpf_map_lookup_elem_def bpf_map_delete_elem_def Let_def
    flag_error_def update_conv' delete_conv' map_of_modify map_wf_simps fun_eq_iff split: if_splits)

text \<open>
  An unconditional update of an LRU map always succeeds. While the kernel evicts nothing and
  there is room it has no effect on other keys.
\<close>

lemma lru_update_any_ok [simp]: "fst (bpf_lru_update_elem n ev m k v BPF_ANY) = 0"
  by (simp add: bpf_lru_update_elem_def flag_error_def Let_def)

lemma lru_update_any_same [simp]:
  "bpf_map_lookup_elem (snd (bpf_lru_update_elem n ev m k v BPF_ANY)) k = Some v"
  using lookup_lru_update_same [of n ev m k v BPF_ANY]
  by (cases "map_of m k")
    (simp_all add: bpf_map_lookup_elem_def bpf_lru_update_elem_def flag_error_def Let_def update_conv')

lemma evict_entries_none [simp]: "evict_entries (\<lambda>_. False) xs = xs"
  by (induction xs) auto

lemma lru_update_calm:
  "length m < n \<Longrightarrow> bpf_map_lookup_elem (snd (bpf_lru_update_elem n (\<lambda>_. False) m k v BPF_ANY)) =
     (bpf_map_lookup_elem m)(k \<mapsto> v)"
  by (auto simp: bpf_lru_update_elem_def flag_error_def Let_def bpf_map_lookup_elem_def update_conv'
      map_add_def fun_eq_iff split: option.splits)

lemma length_evict_entries: "length (evict_entries ev xs) \<le> length xs"
  by (induction ev xs rule: evict_entries.induct) auto

lemma length_lru_update: "length (snd (bpf_lru_update_elem n ev m k v f)) \<le> Suc (length m)"
  using length_evict_entries [of ev m]
  by (auto simp: bpf_lru_update_elem_def Let_def length_alist_update)

lemma length_map_delete: "length (bpf_map_delete_elem m k) \<le> length m"
  by (simp add: bpf_map_delete_elem_def length_delete_le)

lemma lru_update_SomeD:
  "map_wf n m \<Longrightarrow> bpf_map_lookup_elem (snd (bpf_lru_update_elem n ev m k v f)) k' = Some w \<Longrightarrow>
   bpf_map_lookup_elem m k' = Some w \<or> k' = k \<and> w = v"
proof (cases n)
  case 0
  assume "map_wf n m" "bpf_map_lookup_elem (snd (bpf_lru_update_elem n ev m k v f)) k' = Some w"
  then show ?thesis
    using 0 by (auto simp: map_wf_def bpf_map_lookup_elem_def bpf_lru_update_elem_def Let_def
        split: if_splits)
next
  case (Suc n')
  assume "map_wf n m" "bpf_map_lookup_elem (snd (bpf_lru_update_elem n ev m k v f)) k' = Some w"
  then show ?thesis unfolding Suc by (rule lru.update_SomeD)
qed

text \<open>The entries after an operation.\<close>

lemma set_alist_update: "set (AList.update k v m) \<subseteq> insert (k, v) (set m)"
  by (induction m) auto

lemma set_hash_update: "set (snd (bpf_hash_update_elem n m k v f)) \<subseteq> insert (k, v) (set m)"
  using set_alist_update [of k v m] by (auto simp: bpf_hash_update_elem_def Let_def)

lemma set_lru_update: "set (snd (bpf_lru_update_elem n ev m k v f)) \<subseteq> insert (k, v) (set m)"
  by (auto simp: bpf_lru_update_elem_def Let_def dest!: in_set_dropD subsetD [OF set_evict_entries]
      subsetD [OF set_alist_update])

lemma set_map_delete: "set (bpf_map_delete_elem m k) \<subseteq> set m"
  by (induction m) (auto simp: bpf_map_delete_elem_def)

section \<open>The statistics idiom\<close>

lemma lookup_or_init_add_lookup:
  "bpf_map_lookup_elem (lookup_or_init_add n add init m k) k' =
     (if k' = k
      then (case bpf_map_lookup_elem m k of
              Some v \<Rightarrow> Some (add v)
            | None \<Rightarrow> if length m < n then Some (add init) else None)
      else bpf_map_lookup_elem m k')"
  by (auto simp: lookup_or_init_add_def bpf_hash_update_elem_def bpf_map_lookup_elem_def Let_def
      flag_error_def update_conv' map_of_modify split: option.splits)

lemma map_wf_lookup_or_init_add: "map_wf n m \<Longrightarrow> map_wf n (lookup_or_init_add n add init m k)"
  by (auto simp: lookup_or_init_add_def Let_def intro: hash.wf_intros split: option.splits)

lemma lookup_or_init_add_room:
  "bpf_map_lookup_elem m k \<noteq> None \<or> length m < n \<Longrightarrow>
   bpf_map_lookup_elem (lookup_or_init_add n add init m k) =
     (bpf_map_lookup_elem m)(k \<mapsto> add (case bpf_map_lookup_elem m k of Some v \<Rightarrow> v | None \<Rightarrow> init))"
  by (auto simp: fun_eq_iff lookup_or_init_add_lookup split: option.splits)

section \<open>Keys and room\<close>

text \<open>A map whose keys come from a set no larger than its capacity never refuses one of them.\<close>

definition map_within :: "nat \<Rightarrow> 'k set \<Rightarrow> ('k, 'v) bpf_map \<Rightarrow> bool" where
  "map_within n K m \<longleftrightarrow> map_wf n m \<and> fst ` set m \<subseteq> K \<and> finite K \<and> card K \<le> n"

lemma map_within_room:
  assumes "map_within n K m" and "k \<in> K"
  shows "bpf_map_lookup_elem m k \<noteq> None \<or> length m < n"
proof (cases "bpf_map_lookup_elem m k")
  case None
  then have "fst ` set m \<subseteq> K - {k}"
    using assms by (auto simp: map_within_def bpf_map_lookup_elem_def map_of_eq_None_iff)
  then have "card (fst ` set m) \<le> card (K - {k})"
    using assms by (intro card_mono) (auto simp: map_within_def)
  moreover have "length m = card (fst ` set m)"
    using assms distinct_card [of "map fst m"] by (simp add: map_within_def map_wf_def)
  moreover have "card (K - {k}) < card K"
    using assms by (intro psubset_card_mono) (auto simp: map_within_def)
  ultimately show ?thesis using assms by (simp add: map_within_def)
qed simp

lemma fst_set_modify [simp]: "fst ` set (bpf_map_modify g k m) = fst ` set m"
  by (metis list.set_map map_fst_modify)

lemma fst_set_hash_update:
  "fst ` set (snd (bpf_hash_update_elem n m k v f)) \<subseteq> insert k (fst ` set m)"
  by (auto simp: bpf_hash_update_elem_def Let_def update_conv' dom_map_of_conv_image_fst [symmetric]
      split: if_splits)

lemma fst_set_delete: "fst ` set (bpf_map_delete_elem m k) \<subseteq> fst ` set m"
  by (auto simp: bpf_map_delete_elem_def dom_map_of_conv_image_fst [symmetric] delete_conv')

lemma map_within_update:
  "map_within n K m \<Longrightarrow> k \<in> K \<Longrightarrow> map_within n K (snd (bpf_hash_update_elem n m k v f))"
  using fst_set_hash_update [of n m k v f] hash.wf_update [of n m k v f]
  by (auto simp: map_within_def)

lemma map_within_delete: "map_within n K m \<Longrightarrow> map_within n K (bpf_map_delete_elem m k)"
  using fst_set_delete [of m k] hash.wf_delete [of n m k] by (auto simp: map_within_def)

lemma map_within_modify: "map_within n K m \<Longrightarrow> map_within n K (bpf_map_modify g k m)"
  using hash.wf_modify [of n m g k] by (auto simp: map_within_def)

lemma map_within_lookup_or_init_add:
  "map_within n K m \<Longrightarrow> k \<in> K \<Longrightarrow> map_within n K (lookup_or_init_add n add init m k)"
  by (auto simp: lookup_or_init_add_def Let_def split: option.splits
      intro: map_within_update map_within_modify)

lemma lookup_update_within:
  "map_within n K m \<Longrightarrow> k \<in> K \<Longrightarrow>
   bpf_map_lookup_elem (snd (bpf_hash_update_elem n m k v BPF_ANY)) = (bpf_map_lookup_elem m)(k \<mapsto> v)"
  by (rule hash.lookup_update_any) (rule map_within_room)

lemma lookup_or_init_add_within:
  "map_within n K m \<Longrightarrow> k \<in> K \<Longrightarrow>
   bpf_map_lookup_elem (lookup_or_init_add n add init m k) =
     (bpf_map_lookup_elem m)(k \<mapsto> add (case bpf_map_lookup_elem m k of Some v \<Rightarrow> v | None \<Rightarrow> init))"
  by (rule lookup_or_init_add_room) (rule map_within_room)

lemmas within_simps = lookup_update_within lookup_or_init_add_within hash.lookup_delete

lemmas map_within_intros =
  map_within_update map_within_delete map_within_modify map_within_lookup_or_init_add

section \<open>Invariants of a set of programs\<close>

text \<open>
  The programs of an object file and what user space does to their maps, as a step relation, with
  a property every step keeps.
\<close>

locale step_invariant =
  fixes step :: "'s \<Rightarrow> 's \<Rightarrow> bool" and inv :: "'s \<Rightarrow> bool"
  assumes step_inv: "step s s' \<Longrightarrow> inv s \<Longrightarrow> inv s'"
begin

lemma reachable_inv: "step\<^sup>*\<^sup>* s s' \<Longrightarrow> inv s \<Longrightarrow> inv s'"
  by (induction rule: rtranclp_induct) (auto intro: step_inv)

end

end
