(* ===== verification/Runtime_Stats.thy ===== *)
theory Runtime_Stats
  imports Bpf_Maps
begin

text \<open>
  \<^verbatim>\<open>nodejs.c\<close> and \<^verbatim>\<open>python.c\<close>: uprobes that measure how long a Node.js event loop is
  blocked and how long Python threads wait for a lock. Each measurement is a pair of handlers:
  one stores a timestamp, the other adds the elapsed time to a counter of the process. The
  locale \<open>interval_timer\<close> is the contract of such a pair; its lemma \<open>run_total\<close> says that
  over any interleaving of handler runs the counter grows by exactly the sum of the measured
  intervals. The three pairs of the source are interpretations of it.
\<close>

section \<open>State\<close>

record nodejs_proc_stats =
  event_loop_blocked_time :: u64

record nodejs_maps =
  nodejs_prev_event_loop_iter :: "(u64, u64) bpf_map"
  nodejs_current_io_cb :: "(u64, u64) bpf_map"
  nodejs_stats :: "(u64, nodejs_proc_stats) bpf_map"

record python_proc_stats =
  thread_lock_wait_time :: u64

record python_maps = nodejs_maps +
  python_stats :: "(u64, python_proc_stats) bpf_map"
  python_thread_locks :: "(u64, u64) bpf_map"

abbreviation (input) STATS_ENTRIES :: nat where "STATS_ENTRIES \<equiv> 10240"

section \<open>Handlers of nodejs.c\<close>

definition uv_io_poll_exit :: "bpf_env \<Rightarrow> 'a nodejs_maps_scheme \<Rightarrow> 'a nodejs_maps_scheme" where
  "uv_io_poll_exit env s =
     (let pid_tgid = env_pid_tgid env; pid = drop_bit 32 pid_tgid; timestamp = env_ktime env in
      if (ucast pid_tgid :: u32) \<noteq> ucast pid then s
      else s\<lparr>nodejs_prev_event_loop_iter :=
        snd (bpf_hash_update_elem STATS_ENTRIES (nodejs_prev_event_loop_iter s) pid timestamp BPF_ANY)\<rparr>)"

definition uv_io_poll_enter :: "bpf_env \<Rightarrow> 'a nodejs_maps_scheme \<Rightarrow> 'a nodejs_maps_scheme" where
  "uv_io_poll_enter env s =
     (let pid_tgid = env_pid_tgid env; pid = drop_bit 32 pid_tgid in
      if (ucast pid_tgid :: u32) \<noteq> ucast pid then s
      else case bpf_map_lookup_elem (nodejs_prev_event_loop_iter s) pid of
        None \<Rightarrow> s
      | Some prev \<Rightarrow>
          (let duration = env_ktime env - prev;
               s = s\<lparr>nodejs_prev_event_loop_iter :=
                     bpf_map_delete_elem (nodejs_prev_event_loop_iter s) pid\<rparr> in
           s\<lparr>nodejs_stats :=
             lookup_or_init_add STATS_ENTRIES
               (\<lambda>st. st\<lparr>event_loop_blocked_time := event_loop_blocked_time st + duration\<rparr>)
               \<lparr>event_loop_blocked_time = 0\<rparr> (nodejs_stats s) pid\<rparr>))"

definition uv_io_cb_enter :: "bpf_env \<Rightarrow> 'a nodejs_maps_scheme \<Rightarrow> 'a nodejs_maps_scheme" where
  "uv_io_cb_enter env s =
     (let pid_tgid = env_pid_tgid env; pid = drop_bit 32 pid_tgid in
      if (ucast pid_tgid :: u32) \<noteq> ucast pid then s
      else (let timestamp = env_ktime env in
        s\<lparr>nodejs_current_io_cb :=
          snd (bpf_hash_update_elem STATS_ENTRIES (nodejs_current_io_cb s) pid timestamp BPF_ANY)\<rparr>))"

definition uv_io_cb_exit :: "bpf_env \<Rightarrow> 'a nodejs_maps_scheme \<Rightarrow> 'a nodejs_maps_scheme" where
  "uv_io_cb_exit env s =
     (let pid_tgid = env_pid_tgid env; pid = drop_bit 32 pid_tgid in
      if (ucast pid_tgid :: u32) \<noteq> ucast pid then s
      else case bpf_map_lookup_elem (nodejs_current_io_cb s) pid of
        None \<Rightarrow> s
      | Some start \<Rightarrow>
          (let duration = env_ktime env - start;
               s = s\<lparr>nodejs_current_io_cb :=
                     bpf_map_delete_elem (nodejs_current_io_cb s) pid\<rparr> in
           s\<lparr>nodejs_stats :=
             lookup_or_init_add STATS_ENTRIES
               (\<lambda>st. st\<lparr>event_loop_blocked_time := event_loop_blocked_time st + duration\<rparr>)
               \<lparr>event_loop_blocked_time = 0\<rparr> (nodejs_stats s) pid\<rparr>))"

section \<open>Handlers of python.c\<close>

definition pthread_cond_timedwait_enter ::
  "bpf_env \<Rightarrow> 'a python_maps_scheme \<Rightarrow> 'a python_maps_scheme" where
  "pthread_cond_timedwait_enter env s =
     (let pid_tgid = env_pid_tgid env; timestamp = env_ktime env in
      s\<lparr>python_thread_locks :=
        snd (bpf_hash_update_elem STATS_ENTRIES (python_thread_locks s) pid_tgid timestamp BPF_ANY)\<rparr>)"

definition pthread_cond_timedwait_exit ::
  "bpf_env \<Rightarrow> 'a python_maps_scheme \<Rightarrow> 'a python_maps_scheme" where
  "pthread_cond_timedwait_exit env s =
     (let pid_tgid = env_pid_tgid env in
      case bpf_map_lookup_elem (python_thread_locks s) pid_tgid of
        None \<Rightarrow> s
      | Some timestamp \<Rightarrow>
          (let duration = env_ktime env - timestamp;
               s = s\<lparr>python_thread_locks := bpf_map_delete_elem (python_thread_locks s) pid_tgid\<rparr>;
               pid = drop_bit 32 pid_tgid in
           s\<lparr>python_stats :=
             lookup_or_init_add STATS_ENTRIES
               (\<lambda>st. st\<lparr>thread_lock_wait_time := thread_lock_wait_time st + duration\<rparr>)
               \<lparr>thread_lock_wait_time = 0\<rparr> (python_stats s) pid\<rparr>))"

section \<open>The contract of a timer\<close>

datatype timer_event = Start bpf_env | Stop bpf_env

fun timer_env :: "timer_event \<Rightarrow> bpf_env" where
  "timer_env (Start e) = e"
| "timer_env (Stop e) = e"

fun timer_run ::
  "(bpf_env \<Rightarrow> 's \<Rightarrow> 's) \<Rightarrow> (bpf_env \<Rightarrow> 's \<Rightarrow> 's) \<Rightarrow> timer_event list \<Rightarrow> 's \<Rightarrow> 's" where
  "timer_run start stop [] s = s"
| "timer_run start stop (Start e # evs) s = timer_run start stop evs (start e s)"
| "timer_run start stop (Stop e # evs) s = timer_run start stop evs (stop e s)"

text \<open>
  What the pair of handlers is meant to compute: for process \<open>p\<close>, the sum over all completed
  intervals of the time between the last \<open>Start\<close> and the \<open>Stop\<close> of the same key. A run
  by a thread without a key is ignored.
\<close>

fun elapsed ::
  "(bpf_env \<Rightarrow> u64 option) \<Rightarrow> (u64 \<Rightarrow> u64) \<Rightarrow> timer_event list \<Rightarrow> (u64 \<Rightarrow> u64 option) \<Rightarrow> u64 \<Rightarrow> u64" where
  "elapsed key proc [] st p = 0"
| "elapsed key proc (Start e # evs) st p =
     (case key e of
        None \<Rightarrow> elapsed key proc evs st p
      | Some k \<Rightarrow> elapsed key proc evs (st(k \<mapsto> env_ktime e)) p)"
| "elapsed key proc (Stop e # evs) st p =
     (case key e of
        None \<Rightarrow> elapsed key proc evs st p
      | Some k \<Rightarrow>
          (case st k of
             None \<Rightarrow> elapsed key proc evs st p
           | Some t \<Rightarrow>
               (if proc k = p then env_ktime e - t else 0) +
               elapsed key proc evs (st(k := None)) p))"

locale interval_timer =
  fixes start stop :: "bpf_env \<Rightarrow> 's \<Rightarrow> 's"
    and started :: "'s \<Rightarrow> u64 \<Rightarrow> u64 option"
    and total :: "'s \<Rightarrow> u64 \<Rightarrow> u64"
    and key :: "bpf_env \<Rightarrow> u64 option"
    and proc :: "u64 \<Rightarrow> u64"
    and fits :: "u64 set \<Rightarrow> 's \<Rightarrow> bool"
  assumes start_ignored: "key e = None \<Longrightarrow> start e s = s"
    and stop_ignored: "key e = None \<Longrightarrow> stop e s = s"
    and start_started: "fits K s \<Longrightarrow> key e = Some k \<Longrightarrow> k \<in> K \<Longrightarrow>
      started (start e s) = (started s)(k \<mapsto> env_ktime e)"
    and start_total: "total (start e s) = total s"
    and stop_idle: "key e = Some k \<Longrightarrow> started s k = None \<Longrightarrow> stop e s = s"
    and stop_started: "key e = Some k \<Longrightarrow> started s k = Some t \<Longrightarrow>
      started (stop e s) = (started s)(k := None)"
    and stop_total: "fits K s \<Longrightarrow> key e = Some k \<Longrightarrow> k \<in> K \<Longrightarrow> started s k = Some t \<Longrightarrow>
      total (stop e s) = (total s)(proc k := total s (proc k) + (env_ktime e - t))"
    and fits_start: "fits K s \<Longrightarrow> key e = Some k \<Longrightarrow> k \<in> K \<Longrightarrow> fits K (start e s)"
    and fits_stop: "fits K s \<Longrightarrow> key e = Some k \<Longrightarrow> k \<in> K \<Longrightarrow> fits K (stop e s)"
begin

lemma step_elapsed:
  assumes "fits K s" and "\<forall>k. key (timer_env ev) = Some k \<longrightarrow> k \<in> K"
  shows "total (timer_run start stop [ev] s) p + elapsed key proc evs (started (timer_run start stop [ev] s)) p
    = total s p + elapsed key proc (ev # evs) (started s) p"
proof (cases "key (timer_env ev)")
  case None
  then show ?thesis by (cases ev) (auto simp: start_ignored stop_ignored)
next
  case (Some k)
  then have k: "k \<in> K" using assms by auto
  show ?thesis
  proof (cases ev)
    case (Start e)
    then show ?thesis using Some k assms(1) by (simp add: start_started start_total)
  next
    case (Stop e)
    then show ?thesis
      using Some k assms(1)
      by (cases "started s k") (auto simp: stop_idle stop_started stop_total add.assoc)
  qed
qed

lemma step_fits:
  "fits K s \<Longrightarrow> \<forall>k. key (timer_env ev) = Some k \<longrightarrow> k \<in> K \<Longrightarrow> fits K (timer_run start stop [ev] s)"
  by (cases ev; cases "key (timer_env ev)")
    (auto simp: start_ignored stop_ignored intro: fits_start fits_stop)

lemma run_total:
  assumes "fits K s" and "\<forall>ev \<in> set evs. \<forall>k. key (timer_env ev) = Some k \<longrightarrow> k \<in> K"
  shows "total (timer_run start stop evs s) p = total s p + elapsed key proc evs (started s) p"
  using assms
proof (induction evs arbitrary: s)
  case Nil
  then show ?case by simp
next
  case (Cons ev evs)
  have "timer_run start stop (ev # evs) s = timer_run start stop evs (timer_run start stop [ev] s)"
    by (cases ev) auto
  then show ?case
    using Cons step_fits [of K s ev] step_elapsed [of K s ev p evs] by simp
qed

end

text \<open>Two timers that add to the same counter, with their events interleaved.\<close>

fun pair_run ::
  "(bpf_env \<Rightarrow> 's \<Rightarrow> 's) \<Rightarrow> (bpf_env \<Rightarrow> 's \<Rightarrow> 's) \<Rightarrow> (bpf_env \<Rightarrow> 's \<Rightarrow> 's) \<Rightarrow> (bpf_env \<Rightarrow> 's \<Rightarrow> 's) \<Rightarrow>
   (timer_event + timer_event) list \<Rightarrow> 's \<Rightarrow> 's" where
  "pair_run a1 a2 b1 b2 [] s = s"
| "pair_run a1 a2 b1 b2 (Inl ev # evs) s = pair_run a1 a2 b1 b2 evs (timer_run a1 a2 [ev] s)"
| "pair_run a1 a2 b1 b2 (Inr ev # evs) s = pair_run a1 a2 b1 b2 evs (timer_run b1 b2 [ev] s)"

fun lefts :: "('a + 'b) list \<Rightarrow> 'a list" where
  "lefts [] = []"
| "lefts (Inl x # xs) = x # lefts xs"
| "lefts (Inr y # xs) = lefts xs"

fun rights :: "('a + 'b) list \<Rightarrow> 'b list" where
  "rights [] = []"
| "rights (Inl x # xs) = rights xs"
| "rights (Inr y # xs) = y # rights xs"

fun pair_env :: "timer_event + timer_event \<Rightarrow> bpf_env" where
  "pair_env (Inl ev) = timer_env ev"
| "pair_env (Inr ev) = timer_env ev"

locale shared_counter =
  a: interval_timer start1 stop1 started1 total key proc fits1 +
  b: interval_timer start2 stop2 started2 total key proc fits2
  for start1 stop1 started1 start2 stop2 started2
    and total :: "'s \<Rightarrow> u64 \<Rightarrow> u64" and key proc fits1 fits2 +
  assumes frame1: "started2 (start1 e s) = started2 s" "started2 (stop1 e s) = started2 s"
    and frame2: "started1 (start2 e s) = started1 s" "started1 (stop2 e s) = started1 s"
    and fits_frame1: "fits1 K s \<and> fits2 K s \<Longrightarrow> key e = Some k \<Longrightarrow> k \<in> K \<Longrightarrow>
      fits2 K (start1 e s) \<and> fits2 K (stop1 e s)"
    and fits_frame2: "fits1 K s \<and> fits2 K s \<Longrightarrow> key e = Some k \<Longrightarrow> k \<in> K \<Longrightarrow>
      fits1 K (start2 e s) \<and> fits1 K (stop2 e s)"
begin

lemma step1:
  assumes "fits1 K s" "fits2 K s" "\<forall>k. key (timer_env ev) = Some k \<longrightarrow> k \<in> K"
  shows "started2 (timer_run start1 stop1 [ev] s) = started2 s"
    and "fits1 K (timer_run start1 stop1 [ev] s) \<and> fits2 K (timer_run start1 stop1 [ev] s)"
  using assms fits_frame1 [of K s "timer_env ev"]
  by (cases ev; cases "key (timer_env ev)";
      auto simp: frame1 a.start_ignored a.stop_ignored a.fits_start a.fits_stop)+

lemma step2:
  assumes "fits1 K s" "fits2 K s" "\<forall>k. key (timer_env ev) = Some k \<longrightarrow> k \<in> K"
  shows "started1 (timer_run start2 stop2 [ev] s) = started1 s"
    and "fits1 K (timer_run start2 stop2 [ev] s) \<and> fits2 K (timer_run start2 stop2 [ev] s)"
  using assms fits_frame2 [of K s "timer_env ev"]
  by (cases ev; cases "key (timer_env ev)";
      auto simp: frame2 b.start_ignored b.stop_ignored b.fits_start b.fits_stop)+

lemma pair_run_total:
  assumes "fits1 K s" "fits2 K s"
    and "\<forall>ev \<in> set evs. \<forall>k. key (pair_env ev) = Some k \<longrightarrow> k \<in> K"
  shows "total (pair_run start1 stop1 start2 stop2 evs s) p = total s p
    + elapsed key proc (lefts evs) (started1 s) p + elapsed key proc (rights evs) (started2 s) p"
  using assms
proof (induction evs arbitrary: s)
  case Nil
  then show ?case by simp
next
  case (Cons x evs)
  show ?case
  proof (cases x)
    case (Inl ev)
    have k: "\<forall>k. key (timer_env ev) = Some k \<longrightarrow> k \<in> K" using Cons.prems(3) Inl by auto
    note st = step1 [OF Cons.prems(1,2) k]
    show ?thesis
      using Cons.IH [of "timer_run start1 stop1 [ev] s"] Cons.prems st
        a.step_elapsed [OF Cons.prems(1) k, of p "lefts evs"] Inl by simp
  next
    case (Inr ev)
    have k: "\<forall>k. key (timer_env ev) = Some k \<longrightarrow> k \<in> K" using Cons.prems(3) Inr by auto
    note st = step2 [OF Cons.prems(1,2) k]
    show ?thesis
      using Cons.IH [of "timer_run start2 stop2 [ev] s"] Cons.prems st
        b.step_elapsed [OF Cons.prems(2) k, of p "rights evs"] Inr by (simp add: algebra_simps)
  qed
qed

end

section \<open>The three timers of the source\<close>

definition main_thread_key :: "bpf_env \<Rightarrow> u64 option" where
  "main_thread_key env =
     (let pid_tgid = env_pid_tgid env; pid = drop_bit 32 pid_tgid in
      if (ucast pid_tgid :: u32) \<noteq> ucast pid then None else Some pid)"

definition blocked_time :: "'a nodejs_maps_scheme \<Rightarrow> u64 \<Rightarrow> u64" where
  "blocked_time s p =
     (case bpf_map_lookup_elem (nodejs_stats s) p of None \<Rightarrow> 0 | Some st \<Rightarrow> event_loop_blocked_time st)"

definition lock_wait_time :: "'a python_maps_scheme \<Rightarrow> u64 \<Rightarrow> u64" where
  "lock_wait_time s p =
     (case bpf_map_lookup_elem (python_stats s) p of None \<Rightarrow> 0 | Some st \<Rightarrow> thread_lock_wait_time st)"

definition loop_fits :: "u64 set \<Rightarrow> 'a nodejs_maps_scheme \<Rightarrow> bool" where
  "loop_fits K s \<longleftrightarrow> map_within STATS_ENTRIES K (nodejs_prev_event_loop_iter s) \<and>
     map_within STATS_ENTRIES K (nodejs_stats s)"

definition cb_fits :: "u64 set \<Rightarrow> 'a nodejs_maps_scheme \<Rightarrow> bool" where
  "cb_fits K s \<longleftrightarrow> map_within STATS_ENTRIES K (nodejs_current_io_cb s) \<and>
     map_within STATS_ENTRIES K (nodejs_stats s)"

definition lock_fits :: "u64 set \<Rightarrow> 'a python_maps_scheme \<Rightarrow> bool" where
  "lock_fits K s \<longleftrightarrow> map_within STATS_ENTRIES K (python_thread_locks s) \<and>
     map_within STATS_ENTRIES (drop_bit 32 ` K) (python_stats s)"

lemmas timer_defs = main_thread_key_def blocked_time_def lock_wait_time_def
  uv_io_poll_exit_def uv_io_poll_enter_def uv_io_cb_enter_def uv_io_cb_exit_def
  pthread_cond_timedwait_enter_def pthread_cond_timedwait_exit_def

interpretation loop_timer: interval_timer uv_io_poll_exit uv_io_poll_enter
  "\<lambda>s. bpf_map_lookup_elem (nodejs_prev_event_loop_iter s)" blocked_time main_thread_key "\<lambda>p. p" loop_fits
  by unfold_locales
    (auto simp: timer_defs loop_fits_def Let_def within_simps fun_eq_iff
      intro: map_within_intros split: if_splits option.splits)

interpretation io_cb_timer: interval_timer uv_io_cb_enter uv_io_cb_exit
  "\<lambda>s. bpf_map_lookup_elem (nodejs_current_io_cb s)" blocked_time main_thread_key "\<lambda>p. p" cb_fits
  by unfold_locales
    (auto simp: timer_defs cb_fits_def Let_def within_simps fun_eq_iff
      intro: map_within_intros split: if_splits option.splits)

interpretation lock_timer: interval_timer pthread_cond_timedwait_enter pthread_cond_timedwait_exit
  "\<lambda>s. bpf_map_lookup_elem (python_thread_locks s)" lock_wait_time "\<lambda>env. Some (env_pid_tgid env)"
  "drop_bit 32" lock_fits
  by unfold_locales
    (auto simp: timer_defs lock_fits_def Let_def within_simps fun_eq_iff
      intro: map_within_intros split: if_splits option.splits)

interpretation node_timers: shared_counter uv_io_poll_exit uv_io_poll_enter
  "\<lambda>s. bpf_map_lookup_elem (nodejs_prev_event_loop_iter s)"
  uv_io_cb_enter uv_io_cb_exit "\<lambda>s. bpf_map_lookup_elem (nodejs_current_io_cb s)"
  blocked_time main_thread_key "\<lambda>p. p" loop_fits cb_fits
  by unfold_locales
    (auto simp: timer_defs loop_fits_def cb_fits_def Let_def
      intro: map_within_intros split: if_splits option.splits)

section \<open>Properties\<close>

text \<open>
  C30. Python lock waits are measured exactly: over any sequence of runs of the two
  \<^verbatim>\<open>pthread_cond_timedwait\<close> probes by threads from a set no larger than the maps, the
  counter of each process grows by the sum, over its threads' completed waits, of the time
  between entry and exit (modulo \<open>2 ^ 64\<close>).
\<close>

theorem python_lock_wait_total:
  assumes "lock_fits K s" and "\<forall>ev \<in> set evs. env_pid_tgid (timer_env ev) \<in> K"
  shows "lock_wait_time (timer_run pthread_cond_timedwait_enter pthread_cond_timedwait_exit evs s) p =
    lock_wait_time s p +
    elapsed (\<lambda>env. Some (env_pid_tgid env)) (drop_bit 32) evs
      (bpf_map_lookup_elem (python_thread_locks s)) p"
  using lock_timer.run_total [OF assms(1), of evs p] assms(2) by simp

definition empty_python_maps :: python_maps where
  "empty_python_maps =
     \<lparr>nodejs_prev_event_loop_iter = [], nodejs_current_io_cb = [], nodejs_stats = [],
      python_stats = [], python_thread_locks = []\<rparr>"

theorem python_lock_wait_total_witness:
  "lock_wait_time
     (timer_run pthread_cond_timedwait_enter pthread_cond_timedwait_exit
        [Start (plain_env 0x700000007 100), Start (plain_env 0x700000008 110),
         Stop (plain_env 0x700000007 130), Stop (plain_env 0x700000008 200)] empty_python_maps) 7 = 120"
proof -
  have "lock_fits {0x700000007, 0x700000008} empty_python_maps"
    by (simp add: lock_fits_def map_within_def map_wf_def empty_python_maps_def)
  then show ?thesis
    by (subst python_lock_wait_total)
      (auto simp: plain_env_def lock_wait_time_def bpf_map_lookup_elem_def empty_python_maps_def)
qed

text \<open>
  C29. The blocked time of a Node.js process is the time its main thread spends outside the
  poll plus the time it spends in I/O callbacks: over any interleaving of the four
  \<^verbatim>\<open>uv_io\<close> probes the shared counter grows by the sum of both measurements, and runs on
  other threads count for nothing.
\<close>

theorem nodejs_blocked_total:
  assumes "loop_fits K s" and "cb_fits K s"
    and "\<forall>ev \<in> set evs. \<forall>k. main_thread_key (pair_env ev) = Some k \<longrightarrow> k \<in> K"
  shows "blocked_time
      (pair_run uv_io_poll_exit uv_io_poll_enter uv_io_cb_enter uv_io_cb_exit evs s) p =
    blocked_time s p
    + elapsed main_thread_key (\<lambda>p. p) (lefts evs)
        (bpf_map_lookup_elem (nodejs_prev_event_loop_iter s)) p
    + elapsed main_thread_key (\<lambda>p. p) (rights evs)
        (bpf_map_lookup_elem (nodejs_current_io_cb s)) p"
  using node_timers.pair_run_total [OF assms] .

theorem nodejs_blocked_total_witness:
  "blocked_time
     (pair_run uv_io_poll_exit uv_io_poll_enter uv_io_cb_enter uv_io_cb_exit
        [Inl (Start (plain_env 0x700000007 100)), Inr (Start (plain_env 0x700000007 110)),
         Inr (Start (plain_env 0x700000009 115)),
         Inr (Stop (plain_env 0x700000007 130)), Inl (Stop (plain_env 0x700000007 200))]
        empty_python_maps) 7 = 120"
proof -
  have "loop_fits {7} empty_python_maps" "cb_fits {7} empty_python_maps"
    by (simp_all add: loop_fits_def cb_fits_def map_within_def map_wf_def empty_python_maps_def)
  then show ?thesis
    by (subst nodejs_blocked_total)
      (auto simp: plain_env_def main_thread_key_def blocked_time_def bpf_map_lookup_elem_def
        empty_python_maps_def)
qed

end
