(* ===== verification/Proc_Events.thy ===== *)
theory Proc_Events
  imports Runtime_Stats
begin

unbundle bit_operations_syntax

text \<open>
  \<^verbatim>\<open>proc.c\<close>: process start, process exit and OOM-kill tracepoints. The state adds the
  perf buffer \<^verbatim>\<open>proc_events\<close> and the hash map \<^verbatim>\<open>oom_info\<close>. The abstract machine at the
  end keeps only the set of processes marked as OOM victims; the handlers refine it.
\<close>

section \<open>State\<close>

record proc_event =
  pe_type :: u32
  pe_pid :: u32
  pe_reason :: u32

record proc_maps = python_maps +
  proc_events :: "proc_event list"
  oom_info :: "(u32, u32) bpf_map"

abbreviation (input) EVENT_TYPE_PROCESS_START :: u32 where "EVENT_TYPE_PROCESS_START \<equiv> 1"
abbreviation (input) EVENT_TYPE_PROCESS_EXIT :: u32 where "EVENT_TYPE_PROCESS_EXIT \<equiv> 2"
abbreviation (input) EVENT_REASON_OOM_KILL :: u32 where "EVENT_REASON_OOM_KILL \<equiv> 1"
abbreviation (input) CLONE_THREAD :: u64 where "CLONE_THREAD \<equiv> 0x00010000"
abbreviation (input) OOM_ENTRIES :: nat where "OOM_ENTRIES \<equiv> 10240"

record task_newtask_args =
  nt_pid :: u32
  nt_clone_flags :: u64

record process_exit_args =
  px_pid :: u32

record mark_victim_args =
  mv_pid :: s32

section \<open>Handlers\<close>

definition task_newtask :: "task_newtask_args \<Rightarrow> 'a proc_maps_scheme \<Rightarrow> 'a proc_maps_scheme" where
  "task_newtask args s =
     (if nt_clone_flags args AND CLONE_THREAD \<noteq> 0 then s
      else (let e = \<lparr>pe_type = EVENT_TYPE_PROCESS_START, pe_pid = nt_pid args, pe_reason = 0\<rparr> in
            s\<lparr>proc_events := proc_events s @ [e]\<rparr>))"

definition sched_process_exit ::
  "bpf_env \<Rightarrow> process_exit_args \<Rightarrow> 'a proc_maps_scheme \<Rightarrow> 'a proc_maps_scheme" where
  "sched_process_exit env args s =
     (let id = env_pid_tgid env; pid = drop_bit 32 id in
      if pid \<noteq> ucast (ucast id :: u32) then s
      else
        (let s = s\<lparr>python_stats := bpf_map_delete_elem (python_stats s) pid,
                   nodejs_stats := bpf_map_delete_elem (nodejs_stats s) pid,
                   nodejs_prev_event_loop_iter := bpf_map_delete_elem (nodejs_prev_event_loop_iter s) pid,
                   nodejs_current_io_cb := bpf_map_delete_elem (nodejs_current_io_cb s) pid\<rparr>;
             e = \<lparr>pe_type = EVENT_TYPE_PROCESS_EXIT, pe_pid = px_pid args, pe_reason = 0\<rparr> in
         case bpf_map_lookup_elem (oom_info s) (pe_pid e) of
           Some _ \<Rightarrow>
             (let e = e\<lparr>pe_reason := EVENT_REASON_OOM_KILL\<rparr>;
                  s = s\<lparr>oom_info := bpf_map_delete_elem (oom_info s) (pe_pid e)\<rparr> in
              s\<lparr>proc_events := proc_events s @ [e]\<rparr>)
         | None \<Rightarrow> s\<lparr>proc_events := proc_events s @ [e]\<rparr>))"

definition oom_mark_victim :: "mark_victim_args \<Rightarrow> 'a proc_maps_scheme \<Rightarrow> 'a proc_maps_scheme" where
  "oom_mark_victim args s =
     (let pid = mv_pid args in
      s\<lparr>oom_info := snd (bpf_hash_update_elem OOM_ENTRIES (oom_info s) pid pid BPF_ANY)\<rparr>)"

lemmas proc_handler_defs = task_newtask_def sched_process_exit_def oom_mark_victim_def

section \<open>Thread ids\<close>

lemma main_thread_iff:
  "drop_bit 32 (x :: u64) = ucast (ucast x :: u32) \<longleftrightarrow> pid_of x = tid_of x"
proof -
  have "(ucast (drop_bit 32 x) :: u32) = ucast x \<longleftrightarrow> drop_bit 32 x = ucast (ucast x :: u32)"
  proof
    assume "(ucast (drop_bit 32 x) :: u32) = ucast x"
    then have "(ucast (ucast (drop_bit 32 x) :: u32) :: u64) = ucast (ucast x :: u32)" by simp
    moreover have "(ucast (ucast (drop_bit 32 x) :: u32) :: u64) = drop_bit 32 x"
      by (rule bit_word_eqI) (auto simp: bit_simps dest: bit_imp_le_length)
    ultimately show "drop_bit 32 x = ucast (ucast x :: u32)" by simp
  next
    assume "drop_bit 32 x = ucast (ucast x :: u32)"
    moreover have "(ucast (ucast (ucast x :: u32) :: u64) :: u32) = ucast x"
      by (rule bit_word_eqI) (auto simp: bit_simps)
    ultimately show "(ucast (drop_bit 32 x) :: u32) = ucast x" by simp
  qed
  then show ?thesis by (simp add: pid_of_def tid_of_def)
qed

section \<open>Runs of the tracepoints\<close>

definition empty_proc_maps :: proc_maps where
  "empty_proc_maps =
     \<lparr>nodejs_prev_event_loop_iter = [], nodejs_current_io_cb = [], nodejs_stats = [],
      python_stats = [], python_thread_locks = [], proc_events = [], oom_info = []\<rparr>"

datatype proc_trace =
    Newtask task_newtask_args
  | Exit bpf_env process_exit_args
  | Victim mark_victim_args

fun proc_step :: "proc_trace \<Rightarrow> 'a proc_maps_scheme \<Rightarrow> 'a proc_maps_scheme" where
  "proc_step (Newtask a) s = task_newtask a s"
| "proc_step (Exit env a) s = sched_process_exit env a s"
| "proc_step (Victim a) s = oom_mark_victim a s"

text \<open>
  The abstract machine: its state is the set of marked processes; threads are invisible, and a
  process exit reports the mark and forgets it.
\<close>

fun spec_step :: "proc_trace \<Rightarrow> u32 set \<Rightarrow> u32 set \<times> proc_event list" where
  "spec_step (Newtask a) V =
     (V, if nt_clone_flags a AND CLONE_THREAD \<noteq> 0 then [] else [\<lparr>pe_type = 1, pe_pid = nt_pid a, pe_reason = 0\<rparr>])"
| "spec_step (Exit env a) V =
     (if pid_of (env_pid_tgid env) \<noteq> tid_of (env_pid_tgid env) then (V, [])
      else (V - {px_pid a},
            [\<lparr>pe_type = 2, pe_pid = px_pid a, pe_reason = (if px_pid a \<in> V then 1 else 0)\<rparr>]))"
| "spec_step (Victim a) V = (insert (mv_pid a) V, [])"

fun spec_run :: "proc_trace list \<Rightarrow> u32 set \<Rightarrow> u32 set \<times> proc_event list" where
  "spec_run [] V = (V, [])"
| "spec_run (x # xs) V =
     (let (V', out) = spec_step x V; (V'', out') = spec_run xs V' in (V'', out @ out'))"

definition victims :: "'a proc_maps_scheme \<Rightarrow> u32 set" where
  "victims s = {p. bpf_map_lookup_elem (oom_info s) p \<noteq> None}"

lemma proc_step_refines:
  assumes "map_within OOM_ENTRIES K (oom_info s)" and "\<forall>a. x = Victim a \<longrightarrow> mv_pid a \<in> K"
  shows "spec_step x (victims s) = (victims (proc_step x s), drop (length (proc_events s)) (proc_events (proc_step x s)))"
    and "take (length (proc_events s)) (proc_events (proc_step x s)) = proc_events s"
    and "map_within OOM_ENTRIES K (oom_info (proc_step x s))"
proof -
  show "spec_step x (victims s) = (victims (proc_step x s), drop (length (proc_events s)) (proc_events (proc_step x s)))"
    using assms
    by (cases x)
      (auto simp: proc_handler_defs victims_def main_thread_iff Let_def within_simps split: option.splits)
  show "take (length (proc_events s)) (proc_events (proc_step x s)) = proc_events s"
    by (cases x) (auto simp: proc_handler_defs Let_def split: option.splits)
  show "map_within OOM_ENTRIES K (oom_info (proc_step x s))"
    using assms
    by (cases x)
      (auto simp: proc_handler_defs Let_def intro: map_within_intros split: option.splits)
qed

text \<open>
  C20. The stream of process events is the one the abstract machine produces: over any trace
  of the three tracepoints whose OOM victims come from a set no larger than \<^verbatim>\<open>oom_info\<close>,
  the events appended and the marks left are those of \<open>spec_run\<close>.
\<close>

theorem proc_events_refine:
  assumes "map_within OOM_ENTRIES K (oom_info s)"
    and "\<forall>a. Victim a \<in> set xs \<longrightarrow> mv_pid a \<in> K"
  shows "proc_events (fold proc_step xs s) = proc_events s @ snd (spec_run xs (victims s)) \<and>
    victims (fold proc_step xs s) = fst (spec_run xs (victims s))"
  using assms
proof (induction xs arbitrary: s)
  case Nil
  then show ?case by simp
next
  case (Cons x xs)
  have x: "\<forall>a. x = Victim a \<longrightarrow> mv_pid a \<in> K" using Cons.prems(2) by auto
  note step = proc_step_refines [OF Cons.prems(1) x]
  have "proc_events (proc_step x s) = proc_events s @ snd (spec_step x (victims s))"
    using step(1,2) by (metis append_take_drop_id snd_conv)
  moreover have "victims (proc_step x s) = fst (spec_step x (victims s))"
    using step(1) by simp
  ultimately show ?case
    using Cons.IH [OF step(3)] Cons.prems(2) by (auto simp: Let_def split_beta)
qed

theorem proc_events_refine_witness:
  "proc_events (fold proc_step
     [Victim \<lparr>mv_pid = 7\<rparr>, Newtask \<lparr>nt_pid = 9, nt_clone_flags = 0x10000\<rparr>,
      Exit (plain_env 0x700000008 1) \<lparr>px_pid = 8\<rparr>, Exit (plain_env 0x700000007 2) \<lparr>px_pid = 7\<rparr>,
      Exit (plain_env 0x700000007 3) \<lparr>px_pid = 7\<rparr>] empty_proc_maps) =
   [\<lparr>pe_type = 2, pe_pid = 7, pe_reason = 1\<rparr>, \<lparr>pe_type = 2, pe_pid = 7, pe_reason = 0\<rparr>]"
proof -
  have "map_within OOM_ENTRIES {7} (oom_info empty_proc_maps)"
    by (simp add: map_within_def map_wf_def empty_proc_maps_def)
  then show ?thesis
    by (subst proc_events_refine [THEN conjunct1])
      (auto simp: victims_def empty_proc_maps_def bpf_map_lookup_elem_def plain_env_def pid_of_def
        tid_of_def)
qed

end
