(* ===== verification/File_Events.thy ===== *)
theory File_Events
  imports Proc_Events "HOL-Library.Sublist"
begin

unbundle bit_operations_syntax

text \<open>
  \<^verbatim>\<open>file.c\<close>: files opened for writing. \<^verbatim>\<open>sys_enter_open(at)\<close> notes the thread when the
  path qualifies, the kprobe on \<^verbatim>\<open>path_get\<close> adds the mount, \<^verbatim>\<open>sys_exit_open(at)\<close> emits the
  event and forgets the thread. The path test looks at the first nine characters one by one;
  \<open>path_class\<close> is the same test on the C string, and the abstract machine
  \<open>open_spec_step\<close> is the three-step protocol without maps or memory.
\<close>

section \<open>State\<close>

record file_event =
  fe_type :: u32
  fe_pid :: u32
  fe_fd :: u64
  fe_mnt :: u64
  fe_log :: u64

record file_info =
  fi_mnt :: u64
  fi_log :: u64

record file_maps = proc_maps +
  file_events :: "file_event list"
  open_file_info :: "(u64, file_info) bpf_map"

abbreviation (input) EVENT_TYPE_FILE_OPEN :: u32 where "EVENT_TYPE_FILE_OPEN \<equiv> 8"
abbreviation (input) O_ACCMODE :: u64 where "O_ACCMODE \<equiv> 3"
abbreviation (input) O_WRONLY :: u64 where "O_WRONLY \<equiv> 1"
abbreviation (input) O_RDWR :: u64 where "O_RDWR \<equiv> 2"
abbreviation (input) OPEN_ENTRIES :: nat where "OPEN_ENTRIES \<equiv> 10240"

record sys_enter_open_ctx =
  seo_filename :: u64
  seo_flags :: s64

record sys_exit_ctx =
  sx_ret :: s64

section \<open>Handlers\<close>

definition path_get :: "bpf_env \<Rightarrow> pt_regs \<Rightarrow> 'a file_maps_scheme \<Rightarrow> 'a file_maps_scheme" where
  "path_get env ctx s =
     (let id = env_pid_tgid env in
      case bpf_map_lookup_elem (open_file_info s) id of
        None \<Rightarrow> s
      | Some _ \<Rightarrow>
          (case bpf_probe_read (env_mem env) 8 (PT_REGS_PARM1 ctx) of
             None \<Rightarrow> s
           | Some p \<Rightarrow>
               s\<lparr>open_file_info :=
                 bpf_map_modify (\<lambda>i. i\<lparr>fi_mnt := le_word p\<rparr>) id (open_file_info s)\<rparr>))"

text \<open>
  The ten bytes \<^verbatim>\<open>char p[10]\<close> after \<^verbatim>\<open>bpf_probe_read_str\<close>, whose result the code does not
  look at: bytes the helper did not write are unspecified.
\<close>

definition path_buf :: "bpf_env \<Rightarrow> u64 \<Rightarrow> nat \<Rightarrow> u8" where
  "path_buf env filename i =
     (case bpf_probe_read_str (env_mem env) 10 filename of
        None \<Rightarrow> env_junk env i
      | Some bs \<Rightarrow> if i < length bs then bs ! i else env_junk env i)"

definition trace_enter_open ::
  "bpf_env \<Rightarrow> s64 \<Rightarrow> u64 \<Rightarrow> 'a file_maps_scheme \<Rightarrow> 'a file_maps_scheme" where
  "trace_enter_open env fl filename s =
     (if fl AND O_ACCMODE AND (O_WRONLY OR O_RDWR) = 0 then s
      else (let p = path_buf env filename; c = (\<lambda>i x. p i = of_char x) in
        if \<not> c 0 CHR ''/'' then s
        else if c 1 CHR ''p'' \<and> c 2 CHR ''r'' \<and> c 3 CHR ''o'' \<and> c 4 CHR ''c'' \<and> c 5 CHR ''/'' then s
        else if c 1 CHR ''d'' \<and> c 2 CHR ''e'' \<and> c 3 CHR ''v'' \<and> c 4 CHR ''/'' then s
        else if c 1 CHR ''s'' \<and> c 2 CHR ''y'' \<and> c 3 CHR ''s'' \<and> c 4 CHR ''/'' then s
        else
          (let i = \<lparr>fi_mnt = 0, fi_log = 0\<rparr>;
               i = (if c 1 CHR ''v'' \<and> c 2 CHR ''a'' \<and> c 3 CHR ''r'' \<and> c 4 CHR ''/'' \<and> c 5 CHR ''l'' \<and>
                       c 6 CHR ''o'' \<and> c 7 CHR ''g'' \<and> c 8 CHR ''/''
                    then i\<lparr>fi_log := 1\<rparr> else i);
               id = env_pid_tgid env in
           s\<lparr>open_file_info :=
             snd (bpf_hash_update_elem OPEN_ENTRIES (open_file_info s) id i BPF_ANY)\<rparr>)))"

definition trace_exit_open ::
  "bpf_env \<Rightarrow> sys_exit_ctx \<Rightarrow> 'a file_maps_scheme \<Rightarrow> 'a file_maps_scheme" where
  "trace_exit_open env ctx s =
     (let id = env_pid_tgid env in
      case bpf_map_lookup_elem (open_file_info s) id of
        None \<Rightarrow> s
      | Some i \<Rightarrow>
          if sx_ret ctx <s 0 \<or> fi_mnt i = 0
          then s\<lparr>open_file_info := bpf_map_delete_elem (open_file_info s) id\<rparr>
          else
            (let e = \<lparr>fe_type = EVENT_TYPE_FILE_OPEN, fe_pid = ucast (drop_bit 32 id),
                      fe_fd = sx_ret ctx, fe_mnt = fi_mnt i, fe_log = fi_log i\<rparr>;
                 s = s\<lparr>file_events := file_events s @ [e]\<rparr> in
             s\<lparr>open_file_info := bpf_map_delete_elem (open_file_info s) id\<rparr>))"

definition sys_enter_open ::
  "bpf_env \<Rightarrow> sys_enter_open_ctx \<Rightarrow> 'a file_maps_scheme \<Rightarrow> 'a file_maps_scheme" where
  "sys_enter_open env ctx s = trace_enter_open env (seo_flags ctx) (seo_filename ctx) s"

definition sys_exit_open ::
  "bpf_env \<Rightarrow> sys_exit_ctx \<Rightarrow> 'a file_maps_scheme \<Rightarrow> 'a file_maps_scheme" where
  "sys_exit_open env ctx s = trace_exit_open env ctx s"

definition sys_enter_openat ::
  "bpf_env \<Rightarrow> sys_enter_open_ctx \<Rightarrow> 'a file_maps_scheme \<Rightarrow> 'a file_maps_scheme" where
  "sys_enter_openat env ctx s = trace_enter_open env (seo_flags ctx) (seo_filename ctx) s"

definition sys_exit_openat ::
  "bpf_env \<Rightarrow> sys_exit_ctx \<Rightarrow> 'a file_maps_scheme \<Rightarrow> 'a file_maps_scheme" where
  "sys_exit_openat env ctx s = trace_exit_open env ctx s"

section \<open>The path test on C strings\<close>

text \<open>
  \<open>path_class p\<close> for the path \<open>p\<close>: \<open>None\<close> when the file is of no interest, otherwise
  whether it lies under \<^verbatim>\<open>/var/log/\<close>.
\<close>

definition path_class :: "u8 list \<Rightarrow> bool option" where
  "path_class p =
     (if \<not> prefix (ascii ''/'') p \<or> prefix (ascii ''/proc/'') p \<or> prefix (ascii ''/dev/'') p \<or>
         prefix (ascii ''/sys/'') p then None
      else Some (prefix (ascii ''/var/log/'') p))"

lemma path_buf_prefix:
  assumes "holds_at (env_mem env) a (str @ [0])" and "0 \<notin> set str"
    and "0 \<notin> set pat" and "length pat \<le> 9"
  shows "(\<forall>j<length pat. path_buf env a j = pat ! j) \<longleftrightarrow> prefix pat str"
proof -
  have "bpf_probe_read_str (env_mem env) (Suc 9) a = Some (take 9 str @ [0])"
    using assms(1,2) by (rule bpf_probe_read_str_c_string)
  then have rd: "bpf_probe_read_str (env_mem env) 10 a = Some (take 9 str @ [0])"
    by (simp add: numeral_eq_Suc)
  have buf: "path_buf env a j = str ! j" if "j < length str" "j < 9" for j
    using that by (auto simp: path_buf_def rd nth_append)
  have z: "path_buf env a (length str) = 0" if "length str < 9"
    using that by (simp add: path_buf_def rd nth_append)
  show ?thesis
  proof
    assume eq: "\<forall>j<length pat. path_buf env a j = pat ! j"
    have "length pat \<le> length str"
    proof (rule ccontr)
      assume "\<not> length pat \<le> length str"
      then have "pat ! length str = 0" using eq z assms(4) by auto
      then show False using \<open>\<not> length pat \<le> length str\<close> assms(3) by (metis not_le nth_mem)
    qed
    then have "take (length pat) str = pat"
      using eq buf assms(4) by (intro nth_equalityI) auto
    then show "prefix pat str" by (metis take_is_prefix)
  next
    assume "prefix pat str"
    then obtain r where "str = pat @ r" by (auto simp: prefix_def)
    then show "\<forall>j<length pat. path_buf env a j = pat ! j"
      using buf assms(4) by (simp add: nth_append)
  qed
qed

lemma trace_enter_open_class:
  assumes "holds_at (env_mem env) a (str @ [0])" and "0 \<notin> set str"
  shows "trace_enter_open env fl a s =
    (if fl AND 3 = 0 then s
     else case path_class str of
       None \<Rightarrow> s
     | Some lg \<Rightarrow> s\<lparr>open_file_info :=
         snd (bpf_hash_update_elem OPEN_ENTRIES (open_file_info s) (env_pid_tgid env)
           \<lparr>fi_mnt = 0, fi_log = (if lg then 1 else 0)\<rparr> BPF_ANY)\<rparr>)"
proof -
  note pre = path_buf_prefix [OF assms, symmetric]
  have pats: "prefix (ascii ''/'') str \<longleftrightarrow> path_buf env a 0 = of_char CHR ''/''"
    "prefix (ascii ''/proc/'') str \<longleftrightarrow> path_buf env a 0 = of_char CHR ''/'' \<and> path_buf env a 1 = of_char CHR ''p'' \<and>
      path_buf env a 2 = of_char CHR ''r'' \<and> path_buf env a 3 = of_char CHR ''o'' \<and>
      path_buf env a 4 = of_char CHR ''c'' \<and> path_buf env a 5 = of_char CHR ''/''"
    "prefix (ascii ''/dev/'') str \<longleftrightarrow> path_buf env a 0 = of_char CHR ''/'' \<and> path_buf env a 1 = of_char CHR ''d'' \<and>
      path_buf env a 2 = of_char CHR ''e'' \<and> path_buf env a 3 = of_char CHR ''v'' \<and>
      path_buf env a 4 = of_char CHR ''/''"
    "prefix (ascii ''/sys/'') str \<longleftrightarrow> path_buf env a 0 = of_char CHR ''/'' \<and> path_buf env a 1 = of_char CHR ''s'' \<and>
      path_buf env a 2 = of_char CHR ''y'' \<and> path_buf env a 3 = of_char CHR ''s'' \<and>
      path_buf env a 4 = of_char CHR ''/''"
    "prefix (ascii ''/var/log/'') str \<longleftrightarrow> path_buf env a 0 = of_char CHR ''/'' \<and> path_buf env a 1 = of_char CHR ''v'' \<and>
      path_buf env a 2 = of_char CHR ''a'' \<and> path_buf env a 3 = of_char CHR ''r'' \<and>
      path_buf env a 4 = of_char CHR ''/'' \<and> path_buf env a 5 = of_char CHR ''l'' \<and>
      path_buf env a 6 = of_char CHR ''o'' \<and> path_buf env a 7 = of_char CHR ''g'' \<and>
      path_buf env a 8 = of_char CHR ''/''"
    using pre [of "ascii ''/''"] pre [of "ascii ''/proc/''"] pre [of "ascii ''/dev/''"]
      pre [of "ascii ''/sys/''"] pre [of "ascii ''/var/log/''"]
    by (simp_all add: ascii_def) (simp_all add: All_less_Suc2 numeral_eq_Suc)
  have fl: "fl AND O_ACCMODE AND (O_WRONLY OR O_RDWR) = fl AND 3"
    by (simp add: and.assoc)
  show ?thesis
    unfolding trace_enter_open_def path_class_def fl Let_def pats by simp
qed

text \<open>
  C37. Which opens are traced: a thread that opens a file for writing is noted if and only if
  the path is absolute and lies outside \<^verbatim>\<open>/proc/\<close>, \<^verbatim>\<open>/dev/\<close> and \<^verbatim>\<open>/sys/\<close>, with the
  log flag set exactly for paths under \<^verbatim>\<open>/var/log/\<close>. The bytes of the stack buffer behind
  the end of the string have no influence.
\<close>

theorem open_noted_iff:
  assumes "holds_at (env_mem env) a (str @ [0])" and "0 \<notin> set str"
    and "bpf_map_lookup_elem (open_file_info s) (env_pid_tgid env) = None"
    and "length (open_file_info s) < OPEN_ENTRIES"
  shows "bpf_map_lookup_elem (open_file_info (trace_enter_open env fl a s)) (env_pid_tgid env) =
    (if fl AND 3 = 0 then None
     else map_option (\<lambda>lg. \<lparr>fi_mnt = 0, fi_log = (if lg then 1 else 0)\<rparr>) (path_class str))"
  using assms(3,4)
  by (simp add: trace_enter_open_class [OF assms(1,2)] hash.lookup_update_any split: option.splits)

definition empty_file_maps :: file_maps where
  "empty_file_maps =
     \<lparr>nodejs_prev_event_loop_iter = [], nodejs_current_io_cb = [], nodejs_stats = [],
      python_stats = [], python_thread_locks = [], proc_events = [], oom_info = [],
      file_events = [], open_file_info = []\<rparr>"

theorem open_noted_iff_witness:
  "bpf_map_lookup_elem (open_file_info (trace_enter_open
      ((plain_env 5 0)\<lparr>env_mem := mem_of 0x1000 (ascii ''/var/log/syslog'' @ [0])\<rparr>) 1 0x1000
      empty_file_maps)) 5 = Some \<lparr>fi_mnt = 0, fi_log = 1\<rparr>"
proof -
  let ?env = "(plain_env 5 0)\<lparr>env_mem := mem_of 0x1000 (ascii ''/var/log/syslog'' @ [0])\<rparr>"
  have "holds_at (env_mem ?env) 0x1000 (ascii ''/var/log/syslog'' @ [0])"
    by (simp add: holds_at_mem_of ascii_def)
  moreover have "0 \<notin> set (ascii ''/var/log/syslog'')" by (simp add: ascii_def)
  ultimately show ?thesis
    using open_noted_iff [where env = ?env and a = "0x1000" and str = "ascii ''/var/log/syslog''"
        and s = empty_file_maps and fl = 1]
    by (simp add: plain_env_def empty_file_maps_def bpf_map_lookup_elem_def path_class_def ascii_def)
qed

section \<open>The open protocol\<close>

datatype file_trace =
    OpenEnter bpf_env s64 u64 "u8 list"
  | PathGet bpf_env pt_regs
  | OpenExit bpf_env sys_exit_ctx

fun file_step :: "file_trace \<Rightarrow> 'a file_maps_scheme \<Rightarrow> 'a file_maps_scheme" where
  "file_step (OpenEnter env fl a str) s = trace_enter_open env fl a s"
| "file_step (PathGet env ctx) s = path_get env ctx s"
| "file_step (OpenExit env ctx) s = trace_exit_open env ctx s"

text \<open>
  The protocol itself: per thread, what is known of the open in progress. A qualifying entry
  starts it afresh, each \<^verbatim>\<open>path_get\<close> during it replaces the mount, the exit ends it and
  reports it when it succeeded on a known mount.
\<close>

fun open_spec_step :: "file_trace \<Rightarrow> (u64 \<Rightarrow> file_info option) \<Rightarrow>
    (u64 \<Rightarrow> file_info option) \<times> file_event list" where
  "open_spec_step (OpenEnter env fl a str) T =
     (if fl AND 3 = 0 then T
      else case path_class str of
        None \<Rightarrow> T
      | Some lg \<Rightarrow> T(env_pid_tgid env \<mapsto> \<lparr>fi_mnt = 0, fi_log = (if lg then 1 else 0)\<rparr>), [])"
| "open_spec_step (PathGet env ctx) T =
     (case (T (env_pid_tgid env), bpf_probe_read (env_mem env) 8 (PT_REGS_PARM1 ctx)) of
        (Some i, Some p) \<Rightarrow> T(env_pid_tgid env \<mapsto> i\<lparr>fi_mnt := le_word p\<rparr>)
      | _ \<Rightarrow> T, [])"
| "open_spec_step (OpenExit env ctx) T =
     (T(env_pid_tgid env := None),
      case T (env_pid_tgid env) of
        None \<Rightarrow> []
      | Some i \<Rightarrow>
          if 0 \<le>s sx_ret ctx \<and> fi_mnt i \<noteq> 0
          then [\<lparr>fe_type = EVENT_TYPE_FILE_OPEN, fe_pid = pid_of (env_pid_tgid env),
                 fe_fd = sx_ret ctx, fe_mnt = fi_mnt i, fe_log = fi_log i\<rparr>]
          else [])"

fun open_spec_run :: "file_trace list \<Rightarrow> (u64 \<Rightarrow> file_info option) \<Rightarrow>
    (u64 \<Rightarrow> file_info option) \<times> file_event list" where
  "open_spec_run [] T = (T, [])"
| "open_spec_run (x # xs) T =
     (let (T', out) = open_spec_step x T; (T'', out') = open_spec_run xs T' in (T'', out @ out'))"

text \<open>A trace is sound for a set of threads when the paths are where it says they are.\<close>

fun file_trace_ok :: "u64 set \<Rightarrow> file_trace \<Rightarrow> bool" where
  "file_trace_ok K (OpenEnter env fl a str) \<longleftrightarrow>
     env_pid_tgid env \<in> K \<and> holds_at (env_mem env) a (str @ [0]) \<and> 0 \<notin> set str"
| "file_trace_ok K _ \<longleftrightarrow> True"

lemma file_step_refines:
  assumes "map_within OPEN_ENTRIES K (open_file_info s)" and "file_trace_ok K x"
  shows "bpf_map_lookup_elem (open_file_info (file_step x s)) =
      fst (open_spec_step x (bpf_map_lookup_elem (open_file_info s)))"
    and "file_events (file_step x s) =
      file_events s @ snd (open_spec_step x (bpf_map_lookup_elem (open_file_info s)))"
    and "map_within OPEN_ENTRIES K (open_file_info (file_step x s))"
proof -
  show "bpf_map_lookup_elem (open_file_info (file_step x s)) =
      fst (open_spec_step x (bpf_map_lookup_elem (open_file_info s)))"
    using assms
    by (cases x)
      (auto simp: trace_enter_open_class path_get_def trace_exit_open_def Let_def within_simps
        hash.lookup_modify fun_eq_iff split: option.splits)
  show "file_events (file_step x s) =
      file_events s @ snd (open_spec_step x (bpf_map_lookup_elem (open_file_info s)))"
    using assms
    by (cases x)
      (auto simp: trace_enter_open_class path_get_def trace_exit_open_def Let_def pid_of_def
        signed.not_less split: option.splits)
  show "map_within OPEN_ENTRIES K (open_file_info (file_step x s))"
    using assms
    by (cases x)
      (auto simp: trace_enter_open_class path_get_def trace_exit_open_def Let_def
        intro: map_within_intros split: option.splits)
qed

text \<open>
  C19. File-open events follow the open protocol: over any interleaving of the open, path and
  exit probes by threads from a set no larger than \<^verbatim>\<open>open_file_info\<close>, exactly the events of
  \<open>open_spec_run\<close> are emitted and exactly its opens are pending afterwards.
\<close>

theorem file_events_refine:
  assumes "map_within OPEN_ENTRIES K (open_file_info s)" and "list_all (file_trace_ok K) xs"
  shows "file_events (fold file_step xs s) =
      file_events s @ snd (open_spec_run xs (bpf_map_lookup_elem (open_file_info s))) \<and>
    bpf_map_lookup_elem (open_file_info (fold file_step xs s)) =
      fst (open_spec_run xs (bpf_map_lookup_elem (open_file_info s)))"
  using assms
proof (induction xs arbitrary: s)
  case Nil
  then show ?case by simp
next
  case (Cons x xs)
  then have "file_trace_ok K x" by simp
  note step = file_step_refines [OF Cons.prems(1) this]
  show ?case
    using Cons.IH [OF step(3)] Cons.prems(2) step(1,2) by (simp add: Let_def split_beta)
qed

theorem file_events_refine_witness:
  "file_events (fold file_step
     [OpenEnter ((plain_env 0x700000005 0)\<lparr>env_mem := mem_of 0x1000 (ascii ''/tmp/x'' @ [0])\<rparr>) 2 0x1000
        (ascii ''/tmp/x''),
      PathGet ((plain_env 0x700000005 0)\<lparr>env_mem := mem_of 0x2000 [9, 0, 0, 0, 0, 0, 0, 0]\<rparr>)
        (zero_regs\<lparr>di := 0x2000\<rparr>),
      OpenExit (plain_env 0x700000005 0) \<lparr>sx_ret = 3\<rparr>,
      OpenExit (plain_env 0x700000005 0) \<lparr>sx_ret = 4\<rparr>] empty_file_maps) =
   [\<lparr>fe_type = 8, fe_pid = 7, fe_fd = 3, fe_mnt = 9, fe_log = 0\<rparr>]"
proof -
  have "map_within OPEN_ENTRIES {0x700000005} (open_file_info empty_file_maps)"
    by (simp add: map_within_def map_wf_def empty_file_maps_def)
  moreover have "holds_at (mem_of 0x1000 (ascii ''/tmp/x'' @ [0])) 0x1000 (ascii ''/tmp/x'' @ [0])"
    by (rule holds_at_mem_of) (simp add: ascii_def)
  ultimately show ?thesis
    by (subst file_events_refine [THEN conjunct1])
      (auto simp: plain_env_def empty_file_maps_def bpf_map_lookup_elem_def ascii_def path_class_def
        pt_regs_defs zero_regs_def bytes_simps mem_of_def pid_of_def word_sle_eq)
qed

end
