(* ===== verification/Conntrack.thy ===== *)
theory Conntrack
  imports File_Events
begin

unbundle bit_operations_syntax

text \<open>
  \<^verbatim>\<open>tcp/conntrack.c\<close>: the destinations behind address translation. On every conntrack event
  \<^verbatim>\<open>handle_ct\<close> takes the reply tuple of the connection, in which the client is the destination
  and the server that really answers is the source, and stores the server under the client's
  address. The record \<open>nf_conn\<close> is read from the bytes of the kernel object.
\<close>

section \<open>State\<close>

abbreviation (input) IPPROTO_TCP :: nat where "IPPROTO_TCP \<equiv> 6"
abbreviation (input) AF_INET :: u16 where "AF_INET \<equiv> 2"
abbreviation (input) AF_INET6 :: u16 where "AF_INET6 \<equiv> 10"

record nf_conntrack_man =
  man_addr :: "u8 list"
  man_port :: u16
  man_l3num :: u16

record nf_conntrack_dst =
  dst_addr :: "u8 list"
  dst_port :: u16
  dst_protonum :: u8
  dst_dir :: u8

record nf_conntrack_tuple =
  tuple_src :: nf_conntrack_man
  tuple_dst :: nf_conntrack_dst

record nf_conn =
  ct_orig :: nf_conntrack_tuple
  ct_repl :: nf_conntrack_tuple

record ipPort =
  ipp_ip :: "u8 list"
  ipp_port :: u16

record conntrack_maps = file_maps +
  actual_destinations :: "(ipPort, ipPort) bpf_map"

abbreviation (input) DESTINATION_ENTRIES :: nat where "DESTINATION_ENTRIES \<equiv> 10240"

text \<open>
  The layout: a tuple is 40 bytes (two addresses of 16, the ports in network byte order), each
  \<^verbatim>\<open>tuplehash\<close> has 16 bytes before its tuple, and \<^verbatim>\<open>nf_conn\<close> 16 before both: 128 in all.
\<close>

definition tuple_of_bytes :: "u8 list \<Rightarrow> nf_conntrack_tuple" where
  "tuple_of_bytes bs =
     \<lparr>tuple_src = \<lparr>man_addr = field_at 0 16 bs, man_port = le_word (field_at 16 2 bs),
                   man_l3num = le_word (field_at 18 2 bs)\<rparr>,
      tuple_dst = \<lparr>dst_addr = field_at 20 16 bs, dst_port = le_word (field_at 36 2 bs),
                   dst_protonum = le_word (field_at 38 1 bs), dst_dir = le_word (field_at 39 1 bs)\<rparr>\<rparr>"

definition nf_conn_of_bytes :: "u8 list \<Rightarrow> nf_conn" where
  "nf_conn_of_bytes bs =
     \<lparr>ct_orig = tuple_of_bytes (field_at 32 40 bs), ct_repl = tuple_of_bytes (field_at 88 40 bs)\<rparr>"

section \<open>Handlers\<close>

definition v4_mapped :: "u8 list \<Rightarrow> u8 list" where
  "v4_mapped addr = replicate 10 0 @ [0xff, 0xff] @ take 4 addr"

definition handle_ct :: "bpf_env \<Rightarrow> nf_conn \<Rightarrow> 'a conntrack_maps_scheme \<Rightarrow> 'a conntrack_maps_scheme" where
  "handle_ct env conn s =
     (let repl = ct_repl conn in
      if unat (dst_protonum (tuple_dst repl)) \<noteq> IPPROTO_TCP then s
      else
        (let (src_ip, actual_ip) =
               (if man_l3num (tuple_src repl) = AF_INET
                then (v4_mapped (dst_addr (tuple_dst repl)), v4_mapped (man_addr (tuple_src repl)))
                else if man_l3num (tuple_src repl) = AF_INET6
                then (take 16 (dst_addr (tuple_dst repl)), take 16 (man_addr (tuple_src repl)))
                else (replicate 16 0, replicate 16 0));
             src = \<lparr>ipp_ip = src_ip, ipp_port = bpf_ntohs (dst_port (tuple_dst repl))\<rparr>;
             actualDst = \<lparr>ipp_ip = actual_ip, ipp_port = bpf_ntohs (man_port (tuple_src repl))\<rparr> in
         s\<lparr>actual_destinations :=
           snd (bpf_lru_update_elem DESTINATION_ENTRIES (env_evict env Actual_Destinations)
                  (actual_destinations s) src actualDst BPF_ANY)\<rparr>))"

definition nf_ct_deliver_cached_events ::
  "bpf_env \<Rightarrow> pt_regs \<Rightarrow> 'a conntrack_maps_scheme \<Rightarrow> 'a conntrack_maps_scheme" where
  "nf_ct_deliver_cached_events env ctx s =
     (case bpf_probe_read (env_mem env) 128 (PT_REGS_PARM1 ctx) of
        None \<Rightarrow> s
      | Some bs \<Rightarrow> handle_ct env (nf_conn_of_bytes bs) s)"

section \<open>What a delivered event records\<close>

text \<open>The bytes of a tuple in the kernel, and of a whole object with some padding.\<close>

definition tuple_bytes :: "u16 \<Rightarrow> u8 \<Rightarrow> u8 \<Rightarrow> u8 list \<Rightarrow> u16 \<Rightarrow> u8 list \<Rightarrow> u16 \<Rightarrow> u8 list" where
  "tuple_bytes l3num protonum dir src sport dst dport =
     src @ be_bytes 2 sport @ le_bytes 2 l3num @ dst @ be_bytes 2 dport @ [protonum, dir]"

definition nf_conn_bytes :: "u8 list \<Rightarrow> u8 list \<Rightarrow> u8 list \<Rightarrow> u8 list \<Rightarrow> u8 list \<Rightarrow> u8 list" where
  "nf_conn_bytes pad pad0 orig pad1 repl = pad @ pad0 @ orig @ pad1 @ repl"

text \<open>An address in the 16-byte form of the maps.\<close>

definition addr16 :: "u16 \<Rightarrow> u8 list \<Rightarrow> u8 list" where
  "addr16 l3num addr = (if l3num = AF_INET then v4_mapped addr else addr)"

lemma tuple_of_tuple_bytes:
  assumes "length src = 16" and "length dst = 16"
  shows "tuple_of_bytes (tuple_bytes l3num protonum dir src sport dst dport) =
    \<lparr>tuple_src = \<lparr>man_addr = src, man_port = bpf_htons sport, man_l3num = l3num\<rparr>,
     tuple_dst = \<lparr>dst_addr = dst, dst_port = bpf_htons dport, dst_protonum = protonum, dst_dir = dir\<rparr>\<rparr>"
proof -
  have be: "le_word (be_bytes 2 w) = bpf_htons w" for w :: u16
    using bpf_swab16_le_word [of "le_bytes 2 w"]
    by (simp add: bpf_htons_def be_bytes_def be_word_def)
  have "field_at 38 1 (tuple_bytes l3num protonum dir src sport dst dport) = [protonum]"
    and "field_at 39 1 (tuple_bytes l3num protonum dir src sport dst dport) = [dir]"
    using assms by (simp_all add: tuple_bytes_def field_at_skip) (simp_all add: field_at_def)
  then show ?thesis
    using assms by (simp add: tuple_of_bytes_def) (simp add: tuple_bytes_def field_at_simps be)
qed

lemma nf_conn_of_nf_conn_bytes:
  assumes "length pad = 16" "length pad0 = 16" "length orig = 40" "length pad1 = 16" "length repl = 40"
  shows "nf_conn_of_bytes (nf_conn_bytes pad pad0 orig pad1 repl) =
    \<lparr>ct_orig = tuple_of_bytes orig, ct_repl = tuple_of_bytes repl\<rparr>"
  using assms field_at_here [of repl 40 "[]"]
  by (simp add: nf_conn_of_bytes_def nf_conn_bytes_def field_at_simps)

lemma length_tuple_bytes:
  "length src = 16 \<Longrightarrow> length dst = 16 \<Longrightarrow>
   length (tuple_bytes l3num protonum dir src sport dst dport) = 40"
  by (simp add: tuple_bytes_def)

text \<open>
  A TCP event makes the client's address lead to the server that answers, whatever the kernel
  evicts; a non-TCP event changes nothing.
\<close>

lemma deliver_records:
  fixes s :: "'a conntrack_maps_scheme"
  assumes mem: "holds_at (env_mem env) (PT_REGS_PARM1 ctx)
      (nf_conn_bytes pad pad0 orig pad1 (tuple_bytes l3num 6 dir srv sport cl cport))"
    and len: "length pad = 16" "length pad0 = 16" "length orig = 40" "length pad1 = 16"
      "length srv = 16" "length cl = 16"
    and fam: "l3num = AF_INET \<or> l3num = AF_INET6"
  shows "bpf_map_lookup_elem (actual_destinations (nf_ct_deliver_cached_events env ctx s))
      \<lparr>ipp_ip = addr16 l3num cl, ipp_port = cport\<rparr> = Some \<lparr>ipp_ip = addr16 l3num srv, ipp_port = sport\<rparr>"
proof -
  let ?bs = "nf_conn_bytes pad pad0 orig pad1 (tuple_bytes l3num 6 dir srv sport cl cport)"
  have "length ?bs = 128" using len by (simp add: nf_conn_bytes_def length_tuple_bytes)
  then have "bpf_probe_read (env_mem env) 128 (PT_REGS_PARM1 ctx) = Some ?bs"
    using mem by (simp add: holds_at_def)
  then have "nf_ct_deliver_cached_events env ctx s = handle_ct env (nf_conn_of_bytes ?bs) s"
    by (simp add: nf_ct_deliver_cached_events_def)
  also have "nf_conn_of_bytes ?bs = \<lparr>ct_orig = tuple_of_bytes orig,
      ct_repl = \<lparr>tuple_src = \<lparr>man_addr = srv, man_port = bpf_htons sport, man_l3num = l3num\<rparr>,
        tuple_dst = \<lparr>dst_addr = cl, dst_port = bpf_htons cport, dst_protonum = 6, dst_dir = dir\<rparr>\<rparr>\<rparr>"
    using len by (simp add: nf_conn_of_nf_conn_bytes length_tuple_bytes tuple_of_tuple_bytes)
  finally have st: "nf_ct_deliver_cached_events env ctx s = s\<lparr>actual_destinations :=
      snd (bpf_lru_update_elem DESTINATION_ENTRIES (env_evict env Actual_Destinations) (actual_destinations s)
        \<lparr>ipp_ip = addr16 l3num cl, ipp_port = cport\<rparr> \<lparr>ipp_ip = addr16 l3num srv, ipp_port = sport\<rparr>
        BPF_ANY)\<rparr>"
    using fam len by (auto simp: handle_ct_def addr16_def byte_order_defs)
  show ?thesis
    unfolding st by simp
qed

lemma handle_ct_not_tcp:
  "dst_protonum (tuple_dst (ct_repl conn)) \<noteq> 6 \<Longrightarrow> handle_ct env conn s = s"
  by (auto simp: handle_ct_def word_unat_eq_iff)

text \<open>
  The client of the reply tuple and the server that answers it. An event of another client, a
  repeated event of the same connection and a non-TCP event keep what is recorded for a client.
\<close>

definition reply_addr :: "nf_conn \<Rightarrow> u8 list \<Rightarrow> u8 list" where
  "reply_addr conn addr =
     (if man_l3num (tuple_src (ct_repl conn)) = AF_INET then v4_mapped addr
      else if man_l3num (tuple_src (ct_repl conn)) = AF_INET6 then take 16 addr else replicate 16 0)"

definition reply_client :: "nf_conn \<Rightarrow> ipPort" where
  "reply_client conn =
     \<lparr>ipp_ip = reply_addr conn (dst_addr (tuple_dst (ct_repl conn))),
      ipp_port = bpf_ntohs (dst_port (tuple_dst (ct_repl conn)))\<rparr>"

definition reply_server :: "nf_conn \<Rightarrow> ipPort" where
  "reply_server conn =
     \<lparr>ipp_ip = reply_addr conn (man_addr (tuple_src (ct_repl conn))),
      ipp_port = bpf_ntohs (man_port (tuple_src (ct_repl conn)))\<rparr>"

lemma handle_ct_tcp:
  "dst_protonum (tuple_dst (ct_repl conn)) = 6 \<Longrightarrow>
   handle_ct env conn s = s\<lparr>actual_destinations :=
     snd (bpf_lru_update_elem DESTINATION_ENTRIES (env_evict env Actual_Destinations) (actual_destinations s)
       (reply_client conn) (reply_server conn) BPF_ANY)\<rparr>"
  by (simp add: handle_ct_def reply_client_def reply_server_def reply_addr_def Let_def)

definition keeps_destination :: "ipPort \<Rightarrow> ipPort \<Rightarrow> bpf_env \<Rightarrow> pt_regs \<Rightarrow> bool" where
  "keeps_destination client server env ctx \<longleftrightarrow>
     env_evict env Actual_Destinations = (\<lambda>_. False) \<and>
     (case bpf_probe_read (env_mem env) 128 (PT_REGS_PARM1 ctx) of
        None \<Rightarrow> True
      | Some bs \<Rightarrow>
          (let conn = nf_conn_of_bytes bs in
           dst_protonum (tuple_dst (ct_repl conn)) \<noteq> 6 \<or> reply_client conn \<noteq> client \<or> reply_server conn = server))"

definition destination_known :: "nat \<Rightarrow> ipPort \<Rightarrow> ipPort \<Rightarrow> (ipPort, ipPort) bpf_map \<Rightarrow> bool" where
  "destination_known n client server m \<longleftrightarrow>
     bpf_map_lookup_elem m client = Some server \<and> length m + n \<le> DESTINATION_ENTRIES"

lemma deliver_keeps_destination:
  assumes "destination_known (Suc n) client server (actual_destinations s)" and "keeps_destination client server env ctx"
  shows "destination_known n client server (actual_destinations (nf_ct_deliver_cached_events env ctx s))"
proof -
  have "destination_known n client server (actual_destinations (handle_ct env conn s))"
    if "dst_protonum (tuple_dst (ct_repl conn)) \<noteq> 6 \<or> reply_client conn \<noteq> client \<or> reply_server conn = server" for conn
  proof (cases "dst_protonum (tuple_dst (ct_repl conn)) = 6")
    case True
    have "length (actual_destinations s) < DESTINATION_ENTRIES" using assms(1) by (simp add: destination_known_def)
    then show ?thesis
      using assms that True length_lru_update [of DESTINATION_ENTRIES "\<lambda>_. False" "actual_destinations s"
          "reply_client conn" "reply_server conn" BPF_ANY]
      by (auto simp: handle_ct_tcp keeps_destination_def destination_known_def lru_update_calm)
  next
    case False
    then show ?thesis using assms(1) by (simp add: handle_ct_not_tcp destination_known_def)
  qed
  then show ?thesis
    using assms
    by (auto simp: nf_ct_deliver_cached_events_def keeps_destination_def destination_known_def Let_def
        split: option.splits)
qed

end
