(* ===== verification/Tcp_State.thy ===== *)
theory Tcp_State
  imports Conntrack
begin

unbundle bit_operations_syntax

text \<open>
  \<^verbatim>\<open>tcp/state.c\<close> and \<^verbatim>\<open>tcp/retransmit.c\<close>: the life of connections and listening sockets.
  \<^verbatim>\<open>sys_enter_connect\<close> notes the descriptor of the connecting thread; the transition of the
  socket to \<^verbatim>\<open>SYN_SENT\<close> turns it into an entry of \<^verbatim>\<open>connection_id_by_socket\<close> and
  \<^verbatim>\<open>active_connections\<close>; the transition out of \<^verbatim>\<open>SYN_SENT\<close> reports the connection as open or
  failed; \<^verbatim>\<open>sys_enter_close\<close> reports its traffic and forgets it. \<^verbatim>\<open>sys_exit_connect\<close> covers
  sockets that are not TCP. A tracepoint argument block is an option: \<open>None\<close> when reading it
  from the context fails.
\<close>

section \<open>State\<close>

record tcp_event =
  te_fd :: u64
  te_timestamp :: u64
  te_duration :: u64
  te_type :: u32
  te_pid :: u32
  te_bytes_sent :: u64
  te_bytes_received :: u64
  te_sport :: u16
  te_dport :: u16
  te_aport :: u16
  te_saddr :: "u8 list"
  te_daddr :: "u8 list"
  te_aaddr :: "u8 list"

definition zero_tcp_event :: tcp_event where
  "zero_tcp_event =
     \<lparr>te_fd = 0, te_timestamp = 0, te_duration = 0, te_type = 0, te_pid = 0, te_bytes_sent = 0,
      te_bytes_received = 0, te_sport = 0, te_dport = 0, te_aport = 0, te_saddr = replicate 16 0,
      te_daddr = replicate 16 0, te_aaddr = replicate 16 0\<rparr>"

record connection_id =
  cid_fd :: u64
  cid_pid :: u32

record connection =
  c_timestamp :: u64
  c_bytes_sent :: u64
  c_bytes_received :: u64

record l7_request_key =
  k_fd :: u64
  k_pid :: u32
  k_is_tls :: u16
  k_stream_id :: s16

record l7_request =
  req_ns :: u64
  req_protocol :: u8
  req_partial :: u8
  req_request_type :: u8
  req_request_id :: s32
  req_payload_size :: u64
  req_payload :: "u8 list"

record tcp_maps = conntrack_maps +
  tcp_listen_events :: "tcp_event list"
  tcp_connect_events :: "tcp_event list"
  fd_by_pid_tgid :: "(u64, u64) bpf_map"
  connection_id_by_socket :: "(u64, connection_id) bpf_map"
  active_connections :: "(connection_id, connection) bpf_map"
  active_l7_requests :: "(l7_request_key, l7_request) bpf_map"

record retransmit_maps = tcp_maps +
  tcp_retransmit_events :: "tcp_event list"

abbreviation (input) MAX_CONNECTIONS :: nat where "MAX_CONNECTIONS \<equiv> 1000000"
abbreviation (input) FD_ENTRIES :: nat where "FD_ENTRIES \<equiv> 10240"
abbreviation (input) L7_REQUEST_ENTRIES :: nat where "L7_REQUEST_ENTRIES \<equiv> 32768"

abbreviation (input) EVENT_TYPE_CONNECTION_OPEN :: u32 where "EVENT_TYPE_CONNECTION_OPEN \<equiv> 3"
abbreviation (input) EVENT_TYPE_CONNECTION_CLOSE :: u32 where "EVENT_TYPE_CONNECTION_CLOSE \<equiv> 4"
abbreviation (input) EVENT_TYPE_CONNECTION_ERROR :: u32 where "EVENT_TYPE_CONNECTION_ERROR \<equiv> 5"
abbreviation (input) EVENT_TYPE_LISTEN_OPEN :: u32 where "EVENT_TYPE_LISTEN_OPEN \<equiv> 6"
abbreviation (input) EVENT_TYPE_LISTEN_CLOSE :: u32 where "EVENT_TYPE_LISTEN_CLOSE \<equiv> 7"
abbreviation (input) EVENT_TYPE_TCP_RETRANSMIT :: u32 where "EVENT_TYPE_TCP_RETRANSMIT \<equiv> 9"

abbreviation (input) BPF_TCP_ESTABLISHED :: s32 where "BPF_TCP_ESTABLISHED \<equiv> 1"
abbreviation (input) BPF_TCP_SYN_SENT :: s32 where "BPF_TCP_SYN_SENT \<equiv> 2"
abbreviation (input) BPF_TCP_FIN_WAIT1 :: s32 where "BPF_TCP_FIN_WAIT1 \<equiv> 4"
abbreviation (input) BPF_TCP_CLOSE :: s32 where "BPF_TCP_CLOSE \<equiv> 7"
abbreviation (input) BPF_TCP_CLOSE_WAIT :: s32 where "BPF_TCP_CLOSE_WAIT \<equiv> 8"
abbreviation (input) BPF_TCP_LISTEN :: s32 where "BPF_TCP_LISTEN \<equiv> 10"

record sock_set_state_args =
  ss_skaddr :: u64
  ss_oldstate :: s32
  ss_newstate :: s32
  ss_sport :: u16
  ss_dport :: u16
  ss_family :: u16
  ss_protocol :: u16
  ss_saddr :: "u8 list"
  ss_daddr :: "u8 list"
  ss_saddr_v6 :: "u8 list"
  ss_daddr_v6 :: "u8 list"

record args_with_fd =
  awf_fd :: u64

record retransmit_args =
  rt_skbaddr :: u64
  rt_skaddr :: u64
  rt_state :: s32
  rt_sport :: u16
  rt_dport :: u16
  rt_saddr :: "u8 list"
  rt_daddr :: "u8 list"
  rt_saddr_v6 :: "u8 list"
  rt_daddr_v6 :: "u8 list"

section \<open>Socket state changes\<close>

text \<open>A connect in progress reaches \<^verbatim>\<open>SYN_SENT\<close>.\<close>

definition set_state_syn_sent ::
  "bpf_env \<Rightarrow> sock_set_state_args \<Rightarrow> 'a tcp_maps_scheme \<Rightarrow> 'a tcp_maps_scheme" where
  "set_state_syn_sent env args s =
     (let id = env_pid_tgid env in
      case bpf_map_lookup_elem (fd_by_pid_tgid s) id of
        None \<Rightarrow> s
      | Some fd \<Rightarrow>
          (let cid = \<lparr>cid_fd = fd, cid_pid = pid_of id\<rparr>;
               conn = \<lparr>c_timestamp = env_ktime env, c_bytes_sent = 0, c_bytes_received = 0\<rparr>;
               s = s\<lparr>fd_by_pid_tgid := bpf_map_delete_elem (fd_by_pid_tgid s) id\<rparr>;
               s = s\<lparr>connection_id_by_socket :=
                 snd (bpf_lru_update_elem MAX_CONNECTIONS (env_evict env Connection_Id_By_Socket)
                        (connection_id_by_socket s) (ss_skaddr args) cid BPF_ANY)\<rparr> in
           s\<lparr>active_connections :=
             snd (bpf_lru_update_elem MAX_CONNECTIONS (env_evict env Active_Connections)
                    (active_connections s) cid conn BPF_ANY)\<rparr>))"

text \<open>
  The locals \<^verbatim>\<open>fd\<close>, \<^verbatim>\<open>type\<close>, \<^verbatim>\<open>timestamp\<close>, \<^verbatim>\<open>duration\<close>, \<^verbatim>\<open>pid\<close> of the handler, and the block
  for a socket leaving \<^verbatim>\<open>SYN_SENT\<close>, which gives up (\<open>None\<close>) when the connection is unknown.
  The values behind \<^verbatim>\<open>cid\<close> and \<^verbatim>\<open>conn\<close> are read after the deletion of their entries; the
  memory of a deleted element keeps its contents within the run.
\<close>

record set_state_locals =
  loc_fd :: u64
  loc_type :: u32
  loc_timestamp :: u64
  loc_duration :: u64
  loc_pid :: u32

definition set_state_leave_syn_sent ::
  "bpf_env \<Rightarrow> sock_set_state_args \<Rightarrow> set_state_locals \<Rightarrow> 'a tcp_maps_scheme \<Rightarrow>
   (set_state_locals \<times> 'a tcp_maps_scheme) option" where
  "set_state_leave_syn_sent env args l s =
     (case bpf_map_lookup_elem (connection_id_by_socket s) (ss_skaddr args) of
        None \<Rightarrow> None
      | Some cid \<Rightarrow>
          (case bpf_map_lookup_elem (active_connections s) cid of
             None \<Rightarrow> None
           | Some conn \<Rightarrow>
               (let (l, s) =
                  (if ss_newstate args = BPF_TCP_ESTABLISHED
                   then (l\<lparr>loc_timestamp := c_timestamp conn, loc_type := EVENT_TYPE_CONNECTION_OPEN\<rparr>, s)
                   else if ss_newstate args = BPF_TCP_CLOSE
                   then (l\<lparr>loc_type := EVENT_TYPE_CONNECTION_ERROR\<rparr>,
                         s\<lparr>connection_id_by_socket :=
                             bpf_map_delete_elem (connection_id_by_socket s) (ss_skaddr args),
                           active_connections := bpf_map_delete_elem (active_connections s) cid\<rparr>)
                   else (l, s)) in
                Some (l\<lparr>loc_duration := env_ktime env - c_timestamp conn, loc_pid := cid_pid cid,
                        loc_fd := cid_fd cid\<rparr>, s))))"

text \<open>The event, completed with the destination behind address translation.\<close>

definition set_state_event ::
  "sock_set_state_args \<Rightarrow> set_state_locals \<Rightarrow> 'a tcp_maps_scheme \<Rightarrow> tcp_event" where
  "set_state_event args l s =
     (let e = zero_tcp_event\<lparr>te_type := loc_type l, te_duration := loc_duration l,
                te_timestamp := loc_timestamp l, te_pid := loc_pid l, te_sport := ss_sport args,
                te_dport := ss_dport args, te_fd := loc_fd l, te_saddr := ss_saddr_v6 args,
                te_daddr := ss_daddr_v6 args\<rparr>;
          src = \<lparr>ipp_ip = ss_saddr_v6 args, ipp_port = ss_sport args\<rparr> in
      case bpf_map_lookup_elem (actual_destinations s) src of
        None \<Rightarrow> e
      | Some actualDst \<Rightarrow> e\<lparr>te_aport := ipp_port actualDst, te_aaddr := ipp_ip actualDst\<rparr>)"

definition inet_sock_set_state ::
  "bpf_env \<Rightarrow> sock_set_state_args option \<Rightarrow> 'a tcp_maps_scheme \<Rightarrow> 'a tcp_maps_scheme" where
  "inet_sock_set_state env ctx s =
     (case ctx of
        None \<Rightarrow> s
      | Some args \<Rightarrow>
          if unat (ss_protocol args) \<noteq> IPPROTO_TCP then s
          else if ss_oldstate args = BPF_TCP_CLOSE \<and> ss_newstate args = BPF_TCP_SYN_SENT
          then set_state_syn_sent env args s
          else
            (let l = \<lparr>loc_fd = 0, loc_type = 0, loc_timestamp = 0, loc_duration = 0,
                      loc_pid = pid_of (env_pid_tgid env)\<rparr> in
             case (if ss_oldstate args = BPF_TCP_SYN_SENT then set_state_leave_syn_sent env args l s
                   else Some (l, s)) of
               None \<Rightarrow> s
             | Some (l, s) \<Rightarrow>
                 (let s = (if ss_oldstate args = BPF_TCP_ESTABLISHED \<and>
                              (ss_newstate args = BPF_TCP_FIN_WAIT1 \<or> ss_newstate args = BPF_TCP_CLOSE_WAIT)
                           then s\<lparr>connection_id_by_socket :=
                                    bpf_map_delete_elem (connection_id_by_socket s) (ss_skaddr args)\<rparr>
                           else s);
                      (l, listen) =
                        (if ss_oldstate args = BPF_TCP_CLOSE \<and> ss_newstate args = BPF_TCP_LISTEN
                         then (l\<lparr>loc_type := EVENT_TYPE_LISTEN_OPEN\<rparr>, True) else (l, False));
                      (l, listen) =
                        (if ss_oldstate args = BPF_TCP_LISTEN \<and> ss_newstate args = BPF_TCP_CLOSE
                         then (l\<lparr>loc_type := EVENT_TYPE_LISTEN_CLOSE\<rparr>, True) else (l, listen)) in
                  if loc_type l = 0 then s
                  else if listen
                  then s\<lparr>tcp_listen_events := tcp_listen_events s @ [set_state_event args l s]\<rparr>
                  else s\<lparr>tcp_connect_events := tcp_connect_events s @ [set_state_event args l s]\<rparr>)))"

section \<open>System calls\<close>

definition sys_enter_connect ::
  "bpf_env \<Rightarrow> args_with_fd option \<Rightarrow> 'a tcp_maps_scheme \<Rightarrow> 'a tcp_maps_scheme" where
  "sys_enter_connect env ctx s =
     (case ctx of
        None \<Rightarrow> s
      | Some args \<Rightarrow>
          s\<lparr>fd_by_pid_tgid :=
            snd (bpf_hash_update_elem FD_ENTRIES (fd_by_pid_tgid s) (env_pid_tgid env) (awf_fd args)
                   BPF_ANY)\<rparr>)"

definition sys_exit_connect ::
  "bpf_env \<Rightarrow> sys_exit_ctx \<Rightarrow> 'a tcp_maps_scheme \<Rightarrow> 'a tcp_maps_scheme" where
  "sys_exit_connect env ctx s =
     (let id = env_pid_tgid env in
      case bpf_map_lookup_elem (fd_by_pid_tgid s) id of
        None \<Rightarrow> s
      | Some fd \<Rightarrow>
          (let cid = \<lparr>cid_fd = fd, cid_pid = pid_of id\<rparr>;
               s = (if bpf_map_lookup_elem (active_connections s) cid = None \<and> sx_ret ctx = 0
                    then s\<lparr>active_connections :=
                      snd (bpf_lru_update_elem MAX_CONNECTIONS (env_evict env Active_Connections)
                             (active_connections s) cid
                             \<lparr>c_timestamp = env_ktime env, c_bytes_sent = 0, c_bytes_received = 0\<rparr>
                             BPF_ANY)\<rparr>
                    else s);
               k = \<lparr>k_fd = cid_fd cid, k_pid = cid_pid cid, k_is_tls = 0, k_stream_id = -1\<rparr>;
               s = s\<lparr>active_l7_requests := bpf_map_delete_elem (active_l7_requests s) k\<rparr>;
               k = k\<lparr>k_is_tls := 1\<rparr>;
               s = s\<lparr>active_l7_requests := bpf_map_delete_elem (active_l7_requests s) k\<rparr> in
           s\<lparr>fd_by_pid_tgid := bpf_map_delete_elem (fd_by_pid_tgid s) id\<rparr>))"

definition sys_enter_close ::
  "bpf_env \<Rightarrow> args_with_fd option \<Rightarrow> 'a tcp_maps_scheme \<Rightarrow> 'a tcp_maps_scheme" where
  "sys_enter_close env ctx s =
     (case ctx of
        None \<Rightarrow> s
      | Some args \<Rightarrow>
          (let cid = \<lparr>cid_fd = awf_fd args, cid_pid = pid_of (env_pid_tgid env)\<rparr> in
           case bpf_map_lookup_elem (active_connections s) cid of
             None \<Rightarrow> s
           | Some conn \<Rightarrow>
               (let e = zero_tcp_event\<lparr>te_type := EVENT_TYPE_CONNECTION_CLOSE, te_pid := cid_pid cid,
                          te_fd := cid_fd cid, te_bytes_sent := c_bytes_sent conn,
                          te_bytes_received := c_bytes_received conn, te_timestamp := c_timestamp conn\<rparr>;
                    s = s\<lparr>tcp_connect_events := tcp_connect_events s @ [e]\<rparr> in
                s\<lparr>active_connections := bpf_map_delete_elem (active_connections s) cid\<rparr>)))"

definition tcp_retransmit_skb ::
  "retransmit_args \<Rightarrow> 'a retransmit_maps_scheme \<Rightarrow> 'a retransmit_maps_scheme" where
  "tcp_retransmit_skb args s =
     (let e = zero_tcp_event\<lparr>te_type := EVENT_TYPE_TCP_RETRANSMIT, te_sport := rt_sport args,
                te_dport := rt_dport args, te_saddr := rt_saddr_v6 args, te_daddr := rt_daddr_v6 args\<rparr> in
      s\<lparr>tcp_retransmit_events := tcp_retransmit_events s @ [e]\<rparr>)"

section \<open>A connection among others\<close>

datatype tcp_trace =
    CtEvent bpf_env pt_regs
  | SetState bpf_env "sock_set_state_args option"
  | EnterConnect bpf_env "args_with_fd option"
  | ExitConnect bpf_env sys_exit_ctx
  | EnterClose bpf_env "args_with_fd option"

fun tcp_step :: "tcp_trace \<Rightarrow> 'a tcp_maps_scheme \<Rightarrow> 'a tcp_maps_scheme" where
  "tcp_step (CtEvent env ctx) s = nf_ct_deliver_cached_events env ctx s"
| "tcp_step (SetState env ctx) s = inet_sock_set_state env ctx s"
| "tcp_step (EnterConnect env ctx) s = sys_enter_connect env ctx s"
| "tcp_step (ExitConnect env ctx) s = sys_exit_connect env ctx s"
| "tcp_step (EnterClose env ctx) s = sys_enter_close env ctx s"

fun tcp_env :: "tcp_trace \<Rightarrow> bpf_env" where
  "tcp_env (CtEvent env _) = env"
| "tcp_env (SetState env _) = env"
| "tcp_env (EnterConnect env _) = env"
| "tcp_env (ExitConnect env _) = env"
| "tcp_env (EnterClose env _) = env"

definition calm :: "bpf_env \<Rightarrow> bool" where
  "calm env \<longleftrightarrow> env_evict env Connection_Id_By_Socket = (\<lambda>_. False) \<and>
     env_evict env Active_Connections = (\<lambda>_. False)"

text \<open>
  The probe of another socket or another descriptor, as far as the connection \<open>cid\<close> of the
  socket \<open>sk\<close> is concerned.
\<close>

fun foreign :: "u64 \<Rightarrow> connection_id \<Rightarrow> tcp_trace \<Rightarrow> bool" where
  "foreign sk cid (CtEvent env ctx) \<longleftrightarrow> True"
| "foreign sk cid (SetState env ctx) \<longleftrightarrow> (\<forall>a. ctx = Some a \<longrightarrow> ss_skaddr a \<noteq> sk)"
| "foreign sk cid (EnterConnect env ctx) \<longleftrightarrow>
     (\<forall>a. ctx = Some a \<longrightarrow> \<lparr>cid_fd = awf_fd a, cid_pid = pid_of (env_pid_tgid env)\<rparr> \<noteq> cid)"
| "foreign sk cid (ExitConnect env ctx) \<longleftrightarrow> True"
| "foreign sk cid (EnterClose env ctx) \<longleftrightarrow>
     (\<forall>a. ctx = Some a \<longrightarrow> \<lparr>cid_fd = awf_fd a, cid_pid = pid_of (env_pid_tgid env)\<rparr> \<noteq> cid)"

text \<open>
  No thread but those of \<open>I\<close> is connecting on the descriptor, and no other socket is taken for
  it. All of this is about three maps only.
\<close>

definition unclaimed :: "u64 \<Rightarrow> u64 set \<Rightarrow> connection_id \<Rightarrow> (u64, u64) bpf_map \<Rightarrow>
    (u64, connection_id) bpf_map \<Rightarrow> bool" where
  "unclaimed sk I cid fds socks \<longleftrightarrow>
     (\<forall>sk'. bpf_map_lookup_elem socks sk' = Some cid \<longrightarrow> sk' = sk) \<and>
     (\<forall>t fd. bpf_map_lookup_elem fds t = Some fd \<longrightarrow>
        \<lparr>cid_fd = fd, cid_pid = pid_of t\<rparr> = cid \<longrightarrow> t \<in> I)"

text \<open>The connection is known under its socket, with room for \<open>n\<close> more in the maps.\<close>

definition tracked_in :: "nat \<Rightarrow> u64 \<Rightarrow> connection_id \<Rightarrow> connection \<Rightarrow> (u64, u64) bpf_map \<Rightarrow>
    (u64, connection_id) bpf_map \<Rightarrow> (connection_id, connection) bpf_map \<Rightarrow> bool" where
  "tracked_in n sk cid conn fds socks conns \<longleftrightarrow>
     bpf_map_lookup_elem socks sk = Some cid \<and> bpf_map_lookup_elem conns cid = Some conn \<and>
     unclaimed sk {} cid fds socks \<and>
     length socks + n \<le> MAX_CONNECTIONS \<and> length conns + n \<le> MAX_CONNECTIONS"

abbreviation tracked :: "nat \<Rightarrow> u64 \<Rightarrow> connection_id \<Rightarrow> connection \<Rightarrow> 'a tcp_maps_scheme \<Rightarrow> bool" where
  "tracked n sk cid conn s \<equiv>
     tracked_in n sk cid conn (fd_by_pid_tgid s) (connection_id_by_socket s) (active_connections s)"

lemma lookup_hash_update_cases:
  "bpf_map_lookup_elem (snd (bpf_hash_update_elem n m k v f)) k' = Some w \<Longrightarrow>
   k' = k \<and> w = v \<or> bpf_map_lookup_elem m k' = Some w"
  using hash.update_frame [of k' k n m v f] hash.update_same [of n m k v f]
  by (cases "k' = k") auto

lemmas tcp_handler_defs =
  inet_sock_set_state_def set_state_syn_sent_def set_state_leave_syn_sent_def sys_enter_connect_def
  sys_exit_connect_def sys_enter_close_def nf_ct_deliver_cached_events_def handle_ct_def

lemma tracked_syn_sent:
  assumes "tracked (Suc n) sk cid conn s" and "calm env" and "ss_skaddr a \<noteq> sk"
  shows "tracked n sk cid conn (set_state_syn_sent env a s)"
proof -
  have len: "length (snd (bpf_lru_update_elem N ev m k v f)) + n \<le> N"
    if "length m + Suc n \<le> N" for N ev f k v and m :: "('k, 'v) bpf_map"
    using that length_lru_update [of N ev m k v f] by simp
  show ?thesis
    using assms
    by (auto simp: tracked_in_def unclaimed_def set_state_syn_sent_def Let_def calm_def lru_update_calm
        hash.lookup_delete len split: option.splits)
qed

lemma tracked_less:
  "tracked_in (Suc n) sk cid conn fds socks conns \<Longrightarrow> tracked_in n sk cid conn fds socks conns"
  by (simp add: tracked_in_def)

lemma tracked_drop_socket:
  "tracked_in n sk cid conn fds socks conns \<Longrightarrow> sk' \<noteq> sk \<Longrightarrow>
   tracked_in n sk cid conn fds (bpf_map_delete_elem socks sk') conns"
  using length_map_delete [of socks sk']
  by (auto simp: tracked_in_def unclaimed_def hash.lookup_delete)

lemma tracked_drop_connection:
  "tracked_in n sk cid conn fds socks conns \<Longrightarrow> cid' \<noteq> cid \<Longrightarrow>
   tracked_in n sk cid conn fds socks (bpf_map_delete_elem conns cid')"
  using length_map_delete [of conns cid']
  by (auto simp: tracked_in_def unclaimed_def hash.lookup_delete)

lemma tracked_drop_fd:
  "tracked_in n sk cid conn fds socks conns \<Longrightarrow>
   tracked_in n sk cid conn (bpf_map_delete_elem fds t) socks conns"
  by (auto simp: tracked_in_def unclaimed_def hash.lookup_delete)

lemma tracked_add_fd:
  "tracked_in n sk cid conn fds socks conns \<Longrightarrow> \<lparr>cid_fd = fd, cid_pid = pid_of t\<rparr> \<noteq> cid \<Longrightarrow>
   tracked_in n sk cid conn (snd (bpf_hash_update_elem N fds t fd f)) socks conns"
  by (auto simp: tracked_in_def unclaimed_def dest!: lookup_hash_update_cases)

lemma tracked_add_connection:
  assumes "tracked_in (Suc n) sk cid conn fds socks conns" and "cid' \<noteq> cid" and "calm env"
  shows "tracked_in n sk cid conn fds socks
     (snd (bpf_lru_update_elem MAX_CONNECTIONS (env_evict env Active_Connections) conns cid' conn' BPF_ANY))"
  using assms length_lru_update [of MAX_CONNECTIONS "\<lambda>_. False" conns cid' conn' BPF_ANY]
  by (simp add: calm_def tracked_in_def lru_update_calm)

lemma tracked_leave_syn_sent:
  assumes "tracked n sk cid conn s" and "ss_skaddr a \<noteq> sk"
    and "set_state_leave_syn_sent env a l s = Some (l', s')"
  shows "tracked n sk cid conn s'"
proof -
  obtain cid' where cid': "bpf_map_lookup_elem (connection_id_by_socket s) (ss_skaddr a) = Some cid'"
    using assms(3) by (auto simp: set_state_leave_syn_sent_def split: option.splits)
  then have "cid' \<noteq> cid" using assms(1,2) by (auto simp: tracked_in_def unclaimed_def)
  then show ?thesis
    using assms cid' tracked_drop_connection [OF tracked_drop_socket [OF assms(1,2)], of cid']
    by (auto simp: set_state_leave_syn_sent_def Let_def split: option.splits if_splits)
qed

lemma tracked_set_state:
  assumes "tracked (Suc n) sk cid conn s" and "calm env" and "ss_skaddr a \<noteq> sk"
  shows "tracked n sk cid conn (inet_sock_set_state env (Some a) s)"
proof -
  note t = tracked_less [OF assms(1)]
  show ?thesis
    using t tracked_syn_sent [OF assms] tracked_leave_syn_sent [OF t assms(3)]
    by (auto simp: inet_sock_set_state_def Let_def intro!: tracked_drop_socket assms(3)
        split: option.splits prod.splits if_splits)
qed

lemma tracked_exit_connect:
  assumes "tracked (Suc n) sk cid conn s" and "calm env"
  shows "tracked n sk cid conn (sys_exit_connect env ctx s)"
proof (cases "bpf_map_lookup_elem (fd_by_pid_tgid s) (env_pid_tgid env)")
  case None
  then show ?thesis using tracked_less [OF assms(1)] by (simp add: sys_exit_connect_def Let_def)
next
  case (Some fd)
  then have "\<lparr>cid_fd = fd, cid_pid = pid_of (env_pid_tgid env)\<rparr> \<noteq> cid"
    using assms(1) by (auto simp: tracked_in_def unclaimed_def)
  note add = tracked_add_connection [OF assms(1) this assms(2)]
  show ?thesis
    using Some tracked_drop_fd [OF tracked_less [OF assms(1)], where t = "env_pid_tgid env"]
      tracked_drop_fd [OF add, where t = "env_pid_tgid env"]
    by (auto simp: sys_exit_connect_def Let_def)
qed

text \<open>Foreign probes keep the connection, whatever they are and in whatever order.\<close>

lemma tracked_step:
  assumes "tracked (Suc n) sk cid conn s" and "calm (tcp_env x)" and "foreign sk cid x"
  shows "tracked n sk cid conn (tcp_step x s)"
proof (cases x)
  case (CtEvent env ctx)
  then show ?thesis
    using tracked_less [OF assms(1)]
    by (auto simp: nf_ct_deliver_cached_events_def handle_ct_def Let_def split: option.splits)
next
  case (SetState env ctx)
  then show ?thesis
    using tracked_less [OF assms(1)] tracked_set_state [OF assms(1)] assms(2,3)
    by (cases ctx) (auto simp: inet_sock_set_state_def)
next
  case (EnterConnect env ctx)
  then show ?thesis
    using tracked_less [OF assms(1)] assms(3)
    by (auto simp: sys_enter_connect_def intro!: tracked_add_fd split: option.splits)
next
  case (ExitConnect env ctx)
  then show ?thesis using tracked_exit_connect [OF assms(1)] assms(2) by simp
next
  case (EnterClose env ctx)
  then show ?thesis
    using tracked_less [OF assms(1)] assms(3)
    by (auto simp: sys_enter_close_def Let_def intro!: tracked_drop_connection split: option.splits)
qed

lemma tracked_run:
  "tracked (length xs + n) sk cid conn s \<Longrightarrow>
   list_all (\<lambda>x. calm (tcp_env x) \<and> foreign sk cid x) xs \<Longrightarrow>
   tracked n sk cid conn (fold tcp_step xs s)"
proof (induction xs arbitrary: s)
  case (Cons x xs)
  then show ?case using tracked_step [of "length xs + n" sk cid conn s x] by simp
qed simp

lemma syn_sent_tracked:
  assumes "bpf_map_lookup_elem (fd_by_pid_tgid s) (env_pid_tgid env) = Some fd"
    and "unclaimed sk {env_pid_tgid env} \<lparr>cid_fd = fd, cid_pid = pid_of (env_pid_tgid env)\<rparr>
      (fd_by_pid_tgid s) (connection_id_by_socket s)"
    and "length (connection_id_by_socket s) + Suc n \<le> MAX_CONNECTIONS"
    and "length (active_connections s) + Suc n \<le> MAX_CONNECTIONS"
    and "calm env" and "ss_skaddr a = sk"
  shows "tracked n sk \<lparr>cid_fd = fd, cid_pid = pid_of (env_pid_tgid env)\<rparr>
    \<lparr>c_timestamp = env_ktime env, c_bytes_sent = 0, c_bytes_received = 0\<rparr> (set_state_syn_sent env a s)"
proof -
  let ?cid = "\<lparr>cid_fd = fd, cid_pid = pid_of (env_pid_tgid env)\<rparr>"
  let ?conn = "\<lparr>c_timestamp = env_ktime env, c_bytes_sent = 0, c_bytes_received = 0\<rparr>"
  have "length (snd (bpf_lru_update_elem 1000000 (\<lambda>_. False) (connection_id_by_socket s) sk ?cid BPF_ANY))
      + n \<le> 1000000"
    and "length (snd (bpf_lru_update_elem 1000000 (\<lambda>_. False) (active_connections s) ?cid ?conn BPF_ANY))
      + n \<le> 1000000"
    using assms(3,4) length_lru_update [of 1000000 "\<lambda>_. False" "connection_id_by_socket s" sk ?cid BPF_ANY]
      length_lru_update [of 1000000 "\<lambda>_. False" "active_connections s" ?cid ?conn BPF_ANY] by simp_all
  then show ?thesis
    using assms
    by (auto simp: set_state_syn_sent_def Let_def calm_def tracked_in_def unclaimed_def
        lru_update_calm hash.lookup_delete)
qed

abbreviation (input) cid_at :: "bpf_env \<Rightarrow> u64 \<Rightarrow> connection_id" where
  "cid_at env fd \<equiv> \<lparr>cid_fd = fd, cid_pid = pid_of (env_pid_tgid env)\<rparr>"

definition handshake_event ::
  "bpf_env \<Rightarrow> bpf_env \<Rightarrow> u64 \<Rightarrow> sock_set_state_args \<Rightarrow> ipPort option \<Rightarrow> tcp_event" where
  "handshake_event env0 env1 fd a dest =
     \<lparr>te_fd = fd,
      te_timestamp = (if ss_newstate a = BPF_TCP_ESTABLISHED then env_ktime env0 else 0),
      te_duration = env_ktime env1 - env_ktime env0,
      te_type = (if ss_newstate a = BPF_TCP_ESTABLISHED then EVENT_TYPE_CONNECTION_OPEN
                 else EVENT_TYPE_CONNECTION_ERROR),
      te_pid = pid_of (env_pid_tgid env0), te_bytes_sent = 0, te_bytes_received = 0,
      te_sport = ss_sport a, te_dport = ss_dport a,
      te_aport = (case dest of None \<Rightarrow> 0 | Some d \<Rightarrow> ipp_port d),
      te_saddr = ss_saddr_v6 a, te_daddr = ss_daddr_v6 a,
      te_aaddr = (case dest of None \<Rightarrow> replicate 16 0 | Some d \<Rightarrow> ipp_ip d)\<rparr>"

lemma leave_syn_sent_tracked:
  assumes "tracked n sk \<lparr>cid_fd = fd, cid_pid = pid_of (env_pid_tgid env0)\<rparr>
      \<lparr>c_timestamp = env_ktime env0, c_bytes_sent = bs, c_bytes_received = br\<rparr> s"
    and "ss_skaddr a = sk" and "ss_protocol a = 6" and "ss_oldstate a = BPF_TCP_SYN_SENT"
    and "ss_newstate a = BPF_TCP_ESTABLISHED \<or> ss_newstate a = BPF_TCP_CLOSE"
  shows "tcp_connect_events (inet_sock_set_state env1 (Some a) s) = tcp_connect_events s @
      [handshake_event env0 env1 fd a (bpf_map_lookup_elem (actual_destinations s)
         \<lparr>ipp_ip = ss_saddr_v6 a, ipp_port = ss_sport a\<rparr>)]"
  using assms
  by (auto simp: inet_sock_set_state_def set_state_leave_syn_sent_def Let_def tracked_in_def
      set_state_event_def zero_tcp_event_def handshake_event_def split: option.splits)

text \<open>
  C15. Every connection attempt is reported with the right identity and times. A thread calls
  \<^verbatim>\<open>connect\<close> on \<open>fd\<close>, the socket reaches \<^verbatim>\<open>SYN_SENT\<close>, any probes of other sockets and other
  descriptors run, and the socket leaves \<^verbatim>\<open>SYN_SENT\<close>: exactly one event is emitted, an open
  or an error as the new state says, carrying the process and descriptor of the caller (not of
  whoever runs the last probe), the start of the handshake and its duration. After an error the
  connection is forgotten, after an open it is kept with its start time.
\<close>

theorem connection_attempt_reported:
  fixes s :: "'a tcp_maps_scheme"
  assumes "bpf_map_lookup_elem (fd_by_pid_tgid s) (env_pid_tgid env0) = Some fd"
    and "unclaimed sk {env_pid_tgid env0} (cid_at env0 fd) (fd_by_pid_tgid s) (connection_id_by_socket s)"
    and "length (connection_id_by_socket s) + length xs < MAX_CONNECTIONS"
    and "length (active_connections s) + length xs < MAX_CONNECTIONS"
    and "calm env0" and "list_all (\<lambda>x. calm (tcp_env x) \<and> foreign sk (cid_at env0 fd) x) xs"
    and "ss_skaddr a0 = sk \<and> ss_protocol a0 = 6 \<and> ss_oldstate a0 = BPF_TCP_CLOSE \<and>
      ss_newstate a0 = BPF_TCP_SYN_SENT"
    and "ss_skaddr a1 = sk \<and> ss_protocol a1 = 6 \<and> ss_oldstate a1 = BPF_TCP_SYN_SENT \<and>
      (ss_newstate a1 = BPF_TCP_ESTABLISHED \<or> ss_newstate a1 = BPF_TCP_CLOSE)"
    and "s2 = fold tcp_step xs (inet_sock_set_state env0 (Some a0) s)"
  shows "tcp_connect_events (inet_sock_set_state env1 (Some a1) s2) = tcp_connect_events s2 @
      [handshake_event env0 env1 fd a1 (bpf_map_lookup_elem (actual_destinations s2)
         \<lparr>ipp_ip = ss_saddr_v6 a1, ipp_port = ss_sport a1\<rparr>)] \<and>
    bpf_map_lookup_elem (active_connections (inet_sock_set_state env1 (Some a1) s2)) (cid_at env0 fd) =
      (if ss_newstate a1 = BPF_TCP_ESTABLISHED
       then Some \<lparr>c_timestamp = env_ktime env0, c_bytes_sent = 0, c_bytes_received = 0\<rparr> else None)"
proof -
  have "tracked (length xs) sk (cid_at env0 fd)
      \<lparr>c_timestamp = env_ktime env0, c_bytes_sent = 0, c_bytes_received = 0\<rparr>
      (inet_sock_set_state env0 (Some a0) s)"
    using assms(1-5,7) syn_sent_tracked [of s env0 fd sk "length xs" a0]
    by (simp add: inet_sock_set_state_def)
  then have t: "tracked 0 sk (cid_at env0 fd)
      \<lparr>c_timestamp = env_ktime env0, c_bytes_sent = 0, c_bytes_received = 0\<rparr> s2"
    using tracked_run [of xs 0 sk "cid_at env0 fd"] assms(6,9) by simp
  then show ?thesis
    using assms(8) leave_syn_sent_tracked [OF t, of a1 env1]
    by (auto simp: inet_sock_set_state_def set_state_leave_syn_sent_def Let_def tracked_in_def
        hash.lookup_delete split: option.splits)
qed

definition empty_tcp_maps :: tcp_maps where
  "empty_tcp_maps = file_maps.extend empty_file_maps
     \<lparr>actual_destinations = [], tcp_listen_events = [], tcp_connect_events = [], fd_by_pid_tgid = [],
      connection_id_by_socket = [], active_connections = [], active_l7_requests = []\<rparr>"

text \<open>A state change of socket \<^verbatim>\<open>0x100\<close> from 127.0.0.1:1000 to 127.0.0.2:80, for examples.\<close>

definition sample_state_args :: "s32 \<Rightarrow> s32 \<Rightarrow> sock_set_state_args" where
  "sample_state_args st st' =
     \<lparr>ss_skaddr = 0x100, ss_oldstate = st, ss_newstate = st', ss_sport = 1000, ss_dport = 80,
      ss_family = 2, ss_protocol = 6, ss_saddr = [127, 0, 0, 1], ss_daddr = [127, 0, 0, 2],
      ss_saddr_v6 = v4_mapped [127, 0, 0, 1], ss_daddr_v6 = v4_mapped [127, 0, 0, 2]\<rparr>"

theorem connection_attempt_reported_witness:
  "tcp_connect_events
     (inet_sock_set_state (plain_env 0 25) (Some (sample_state_args 2 1))
       (fold tcp_step [EnterConnect (plain_env 0x900000009 5) (Some \<lparr>awf_fd = 3\<rparr>)]
         (inet_sock_set_state (plain_env 0x700000008 10) (Some (sample_state_args 7 2))
           (sys_enter_connect (plain_env 0x700000008 9) (Some \<lparr>awf_fd = 3\<rparr>) empty_tcp_maps)))) =
   [zero_tcp_event\<lparr>te_type := 3, te_pid := 7, te_fd := 3, te_timestamp := 10, te_duration := 15,
      te_sport := 1000, te_dport := 80, te_saddr := v4_mapped [127, 0, 0, 1],
      te_daddr := v4_mapped [127, 0, 0, 2]\<rparr>]"
proof -
  let ?s = "sys_enter_connect (plain_env 0x700000008 9) (Some \<lparr>awf_fd = 3\<rparr>) empty_tcp_maps"
  let ?xs = "[EnterConnect (plain_env 0x900000009 5) (Some \<lparr>awf_fd = 3\<rparr>)]"
  let ?s2 = "fold tcp_step ?xs
    (inet_sock_set_state (plain_env 0x700000008 10) (Some (sample_state_args 7 2)) ?s)"
  have s: "?s = empty_tcp_maps\<lparr>fd_by_pid_tgid := [(0x700000008, 3)]\<rparr>"
    by (simp add: sys_enter_connect_def empty_tcp_maps_def file_maps.defs empty_file_maps_def
        plain_env_def bpf_hash_update_elem_def bpf_map_lookup_elem_def flag_error_def)
  have ev: "tcp_connect_events ?s2 = []" and ad: "actual_destinations ?s2 = []"
    unfolding s
    by (simp_all add: tcp_handler_defs Let_def sample_state_args_def plain_env_def empty_tcp_maps_def
        file_maps.defs empty_file_maps_def bpf_map_lookup_elem_def)
  have "tcp_connect_events (inet_sock_set_state (plain_env 0 25) (Some (sample_state_args 2 1)) ?s2) =
      tcp_connect_events ?s2 @ [handshake_event (plain_env 0x700000008 10) (plain_env 0 25) 3
        (sample_state_args 2 1) (bpf_map_lookup_elem (actual_destinations ?s2)
          \<lparr>ipp_ip = ss_saddr_v6 (sample_state_args 2 1), ipp_port = ss_sport (sample_state_args 2 1)\<rparr>)]"
    by (rule connection_attempt_reported
        [where sk = "0x100" and xs = ?xs and s = ?s, THEN conjunct1])
      (unfold s, simp_all add: sample_state_args_def plain_env_def calm_def pid_of_def unclaimed_def
        empty_tcp_maps_def file_maps.defs empty_file_maps_def bpf_map_lookup_elem_def)
  then show ?thesis
    unfolding ev ad
    by (simp add: sample_state_args_def handshake_event_def zero_tcp_event_def bpf_map_lookup_elem_def
        plain_env_def pid_of_def)
qed

section \<open>Translated destinations\<close>

text \<open>Other probes keep the destination recorded for a client.\<close>

fun other_destinations :: "ipPort \<Rightarrow> ipPort \<Rightarrow> tcp_trace \<Rightarrow> bool" where
  "other_destinations client server (CtEvent env ctx) \<longleftrightarrow> keeps_destination client server env ctx"
| "other_destinations client server _ \<longleftrightarrow> True"

lemma destination_step:
  assumes "destination_known (Suc n) client server (actual_destinations s)" and "other_destinations client server x"
  shows "destination_known n client server (actual_destinations (tcp_step x s))"
proof (cases x)
  case (CtEvent env ctx)
  then show ?thesis using deliver_keeps_destination [OF assms(1)] assms(2) by simp
next
  case (SetState env ctx)
  have "actual_destinations (inet_sock_set_state env ctx s) = actual_destinations s"
    by (auto simp: inet_sock_set_state_def set_state_syn_sent_def set_state_leave_syn_sent_def Let_def
        split: option.splits prod.splits if_splits)
  then show ?thesis using assms(1) SetState by (simp add: destination_known_def)
qed (use assms(1) in \<open>auto simp: sys_enter_connect_def sys_exit_connect_def sys_enter_close_def Let_def
    destination_known_def split: option.splits\<close>)

lemma destination_run:
  "destination_known (length xs + n) client server (actual_destinations s) \<Longrightarrow>
   list_all (other_destinations client server) xs \<Longrightarrow>
   destination_known n client server (actual_destinations (fold tcp_step xs s))"
proof (induction xs arbitrary: s)
  case (Cons x xs)
  then show ?case using destination_step [of "length xs + n" client server s x] by simp
qed simp

text \<open>
  C26. Connections through address translation are reported with the server that answers.
  Conntrack delivers the reply tuple of a TCP connection over IPv4 or IPv6, in which the source
  is the server that answers and the destination is the client; any probes of other sockets,
  descriptors and clients run; then the socket with this client's address and port goes from
  \<^verbatim>\<open>SYN_SENT\<close> to \<^verbatim>\<open>ESTABLISHED\<close>. The event carries the server's address in 16-byte form and its port
  in host byte order next to the destination the client asked for. The connection is known under
  its socket and no other thread is connecting on its descriptor; the kernel evicts nothing from
  the maps in between, and they have room for the probes.
\<close>

theorem translated_destination_reported:
  fixes s :: "'a tcp_maps_scheme"
  assumes "holds_at (env_mem env) (PT_REGS_PARM1 ctx)
      (nf_conn_bytes pad pad0 orig pad1 (tuple_bytes l3num 6 dir srv sport cl cport))"
    and "length pad = 16" "length pad0 = 16" "length orig = 40" "length pad1 = 16"
      "length srv = 16" "length cl = 16"
    and "l3num = AF_INET \<or> l3num = AF_INET6"
    and "tracked (length xs) (ss_skaddr a) cid conn s"
    and "length (actual_destinations s) + length xs < DESTINATION_ENTRIES"
    and "list_all (\<lambda>x. calm (tcp_env x) \<and> foreign (ss_skaddr a) cid x) xs"
    and "list_all (other_destinations \<lparr>ipp_ip = addr16 l3num cl, ipp_port = cport\<rparr>
        \<lparr>ipp_ip = addr16 l3num srv, ipp_port = sport\<rparr>) xs"
    and "ss_protocol a = 6 \<and> ss_oldstate a = BPF_TCP_SYN_SENT \<and> ss_newstate a = BPF_TCP_ESTABLISHED"
    and "ss_saddr_v6 a = addr16 l3num cl \<and> ss_sport a = cport"
    and "s1 = fold tcp_step xs (nf_ct_deliver_cached_events env ctx s)"
  shows "\<exists>e. tcp_connect_events (inet_sock_set_state env1 (Some a) s1) = tcp_connect_events s1 @ [e] \<and>
    te_type e = EVENT_TYPE_CONNECTION_OPEN \<and> te_fd e = cid_fd cid \<and> te_pid e = cid_pid cid \<and>
    te_daddr e = ss_daddr_v6 a \<and> te_dport e = ss_dport a \<and>
    te_aaddr e = addr16 l3num srv \<and> te_aport e = sport"
proof -
  let ?s = "nf_ct_deliver_cached_events env ctx s"
  let ?client = "\<lparr>ipp_ip = addr16 l3num cl, ipp_port = cport\<rparr>"
  let ?server = "\<lparr>ipp_ip = addr16 l3num srv, ipp_port = sport\<rparr>"
  have same: "fd_by_pid_tgid ?s = fd_by_pid_tgid s" "connection_id_by_socket ?s = connection_id_by_socket s"
    "active_connections ?s = active_connections s"
    "length (actual_destinations ?s) \<le> Suc (length (actual_destinations s))"
    by (auto simp: nf_ct_deliver_cached_events_def handle_ct_def Let_def length_lru_update split: option.splits)
  have "tracked 0 (ss_skaddr a) cid conn s1"
    using tracked_run [of xs 0 "ss_skaddr a" cid conn ?s] same(1-3) assms(9,11,15) by simp
  then have known: "bpf_map_lookup_elem (connection_id_by_socket s1) (ss_skaddr a) = Some cid"
    "bpf_map_lookup_elem (active_connections s1) cid = Some conn" by (simp_all add: tracked_in_def)
  have "destination_known (length xs + 0) ?client ?server (actual_destinations ?s)"
    using deliver_records [OF assms(1-8), where s = s] same(4) assms(10) by (simp add: destination_known_def)
  then have "bpf_map_lookup_elem (actual_destinations s1) ?client = Some ?server"
    using destination_run [OF _ assms(12)] assms(15) unfolding destination_known_def by blast
  then show ?thesis
    using known assms(13,14)
    by (auto simp: inet_sock_set_state_def set_state_leave_syn_sent_def Let_def set_state_event_def)
qed

text \<open>
  The client 127.0.0.1:1000 connects to 127.0.0.2:80, and 10.0.0.9:8080 answers. In between another
  process starts to connect, and the same conntrack event is delivered once more.
\<close>

definition sample_ct_env :: bpf_env where
  "sample_ct_env = (plain_env 0 20)\<lparr>env_mem := mem_of 0x4000 (nf_conn_bytes (replicate 16 0) (replicate 16 0)
     (replicate 40 0) (replicate 16 0)
     (tuple_bytes 2 6 1 ([10, 0, 0, 9] @ replicate 12 0) 8080 ([127, 0, 0, 1] @ replicate 12 0) 1000))\<rparr>"

definition sample_handshake :: tcp_maps where
  "sample_handshake = empty_tcp_maps\<lparr>connection_id_by_socket := [(0x100, \<lparr>cid_fd = 3, cid_pid = 7\<rparr>)],
     active_connections := [(\<lparr>cid_fd = 3, cid_pid = 7\<rparr>, \<lparr>c_timestamp = 10, c_bytes_sent = 0, c_bytes_received = 0\<rparr>)]\<rparr>"

lemma sample_ct_memory:
  "holds_at (env_mem sample_ct_env) (PT_REGS_PARM1 (zero_regs\<lparr>di := 0x4000\<rparr>)) (nf_conn_bytes (replicate 16 0)
     (replicate 16 0) (replicate 40 0) (replicate 16 0)
     (tuple_bytes 2 6 1 ([10, 0, 0, 9] @ replicate 12 0) 8080 ([127, 0, 0, 1] @ replicate 12 0) 1000))"
  by (simp add: sample_ct_env_def PT_REGS_PARM1_def holds_at_mem_of nf_conn_bytes_def tuple_bytes_def)

lemma sample_ct_repeated:
  "keeps_destination \<lparr>ipp_ip = v4_mapped [127, 0, 0, 1], ipp_port = 1000\<rparr>
     \<lparr>ipp_ip = v4_mapped [10, 0, 0, 9], ipp_port = 8080\<rparr> sample_ct_env (zero_regs\<lparr>di := 0x4000\<rparr>)"
proof -
  let ?repl = "tuple_bytes 2 6 1 ([10, 0, 0, 9] @ replicate 12 0) 8080 ([127, 0, 0, 1] @ replicate 12 0) 1000"
  let ?bs = "nf_conn_bytes (replicate 16 0) (replicate 16 0) (replicate 40 0) (replicate 16 0) ?repl"
  have "bpf_probe_read (env_mem sample_ct_env) 128 (PT_REGS_PARM1 (zero_regs\<lparr>di := 0x4000\<rparr>)) = Some ?bs"
    using sample_ct_memory by (simp add: holds_at_def nf_conn_bytes_def length_tuple_bytes)
  moreover have "reply_server (nf_conn_of_bytes ?bs) = \<lparr>ipp_ip = v4_mapped [10, 0, 0, 9], ipp_port = 8080\<rparr>"
    by (simp add: nf_conn_of_nf_conn_bytes length_tuple_bytes tuple_of_tuple_bytes reply_server_def reply_addr_def
        v4_mapped_def byte_order_defs)
  ultimately show ?thesis
    by (simp add: keeps_destination_def Let_def sample_ct_env_def plain_env_def)
qed

theorem translated_destination_reported_witness:
  "\<exists>e. tcp_connect_events (inet_sock_set_state (plain_env 0 25) (Some (sample_state_args 2 1))
     (fold tcp_step [EnterConnect (plain_env 0x900000009 5) (Some \<lparr>awf_fd = 3\<rparr>),
         CtEvent sample_ct_env (zero_regs\<lparr>di := 0x4000\<rparr>)]
       (nf_ct_deliver_cached_events sample_ct_env (zero_regs\<lparr>di := 0x4000\<rparr>) sample_handshake))) = [e] \<and>
     te_pid e = 7 \<and> te_daddr e = v4_mapped [127, 0, 0, 2] \<and> te_dport e = 80 \<and>
     te_aaddr e = v4_mapped [10, 0, 0, 9] \<and> te_aport e = 8080"
proof -
  let ?xs = "[EnterConnect (plain_env 0x900000009 5) (Some \<lparr>awf_fd = 3\<rparr>), CtEvent sample_ct_env (zero_regs\<lparr>di := 0x4000\<rparr>)]"
  let ?cid = "\<lparr>cid_fd = 3, cid_pid = 7\<rparr>"
  let ?conn = "\<lparr>c_timestamp = 10, c_bytes_sent = 0, c_bytes_received = 0\<rparr>"
  let ?s1 = "fold tcp_step ?xs (nf_ct_deliver_cached_events sample_ct_env (zero_regs\<lparr>di := 0x4000\<rparr>) sample_handshake)"
  have maps: "tracked (length ?xs) (ss_skaddr (sample_state_args 2 1)) ?cid ?conn sample_handshake"
    "length (actual_destinations sample_handshake) + length ?xs < DESTINATION_ENTRIES"
    "list_all (\<lambda>x. calm (tcp_env x) \<and> foreign (ss_skaddr (sample_state_args 2 1)) ?cid x) ?xs"
    by (simp_all add: tracked_in_def unclaimed_def sample_handshake_def sample_state_args_def empty_tcp_maps_def
        file_maps.defs empty_file_maps_def bpf_map_lookup_elem_def calm_def pid_of_def plain_env_def sample_ct_env_def)
  have ev: "tcp_connect_events ?s1 = []"
    by (auto simp: sys_enter_connect_def nf_ct_deliver_cached_events_def handle_ct_def Let_def sample_handshake_def
        empty_tcp_maps_def file_maps.defs empty_file_maps_def split: option.splits)
  have "\<exists>e. tcp_connect_events (inet_sock_set_state (plain_env 0 25) (Some (sample_state_args 2 1)) ?s1) =
      tcp_connect_events ?s1 @ [e] \<and>
    te_type e = EVENT_TYPE_CONNECTION_OPEN \<and> te_fd e = cid_fd ?cid \<and> te_pid e = cid_pid ?cid \<and>
    te_daddr e = ss_daddr_v6 (sample_state_args 2 1) \<and> te_dport e = ss_dport (sample_state_args 2 1) \<and>
    te_aaddr e = addr16 2 ([10, 0, 0, 9] @ replicate 12 0) \<and> te_aport e = 8080"
    by (rule translated_destination_reported [OF sample_ct_memory _ _ _ _ _ _ _ maps _ _ _ refl])
      (use sample_ct_repeated in \<open>simp_all add: addr16_def v4_mapped_def sample_state_args_def\<close>)
  then show ?thesis
    unfolding ev by (auto simp: addr16_def v4_mapped_def sample_state_args_def)
qed

end
