(* ===== verification/L7_Text.thy ===== *)
theory L7_Text
  imports Prelude "HOL-Library.Sublist"
begin

unbundle bit_operations_syntax

text \<open>
  The classifiers of the text protocols: \<^verbatim>\<open>l7/http.c\<close>, \<^verbatim>\<open>l7/redis.c\<close>, \<^verbatim>\<open>l7/memcached.c\<close> and
  \<^verbatim>\<open>l7/nats.c\<close>. A classifier looks at a payload of \<open>buf_size\<close> bytes at the address \<open>buf\<close> of
  the traced process. One that reports through a pointer takes the value behind the pointer and
  returns it, updated or not, beside its verdict. A read that fails ends it with the verdict 0
  (macro \<^verbatim>\<open>bpf_read\<close>).

  The locale \<open>classifier\<close> is what the tracer relies on: a verdict is a function of the bytes in
  a window behind \<open>buf\<close>, wherever they lie.
\<close>

section \<open>Constants and character tests\<close>

abbreviation (input) STATUS_UNKNOWN :: s32 where "STATUS_UNKNOWN \<equiv> 0"
abbreviation (input) STATUS_OK :: s32 where "STATUS_OK \<equiv> 200"
abbreviation (input) STATUS_FAILED :: s32 where "STATUS_FAILED \<equiv> 500"
abbreviation (input) METHOD_UNKNOWN :: u8 where "METHOD_UNKNOWN \<equiv> 0"
abbreviation (input) METHOD_PRODUCE :: u8 where "METHOD_PRODUCE \<equiv> 1"
abbreviation (input) METHOD_CONSUME :: u8 where "METHOD_CONSUME \<equiv> 2"
abbreviation (input) METHOD_STATEMENT_PREPARE :: u8 where "METHOD_STATEMENT_PREPARE \<equiv> 3"
abbreviation (input) METHOD_STATEMENT_CLOSE :: u8 where "METHOD_STATEMENT_CLOSE \<equiv> 4"
abbreviation (input) METHOD_HTTP2_CLIENT_FRAMES :: u8 where "METHOD_HTTP2_CLIENT_FRAMES \<equiv> 5"
abbreviation (input) METHOD_HTTP2_SERVER_FRAMES :: u8 where "METHOD_HTTP2_SERVER_FRAMES \<equiv> 6"

abbreviation (input) ch :: "u8 list \<Rightarrow> nat \<Rightarrow> char \<Rightarrow> bool" where
  "ch b i c \<equiv> b ! i = of_char c"

text \<open>\<^verbatim>\<open>c >= '0' && c <= '9'\<close>; a byte from 128 on is no digit under either signedness of char.\<close>

definition digit :: "u8 \<Rightarrow> bool" where
  "digit b \<longleftrightarrow> 48 \<le> b \<and> b \<le> 57"

text \<open>\<^verbatim>\<open>buf + buf_size - n\<close> after \<^verbatim>\<open>TRUNCATE_PAYLOAD_SIZE(buf_size)\<close>.\<close>

definition tail_addr :: "u64 \<Rightarrow> u64 \<Rightarrow> u64 \<Rightarrow> u64" where
  "tail_addr buf buf_size n = buf + TRUNCATE_PAYLOAD_SIZE buf_size - n"

section \<open>HTTP\<close>

definition is_http_request :: "mem \<Rightarrow> u64 \<Rightarrow> bool" where
  "is_http_request m buf =
     (case bpf_probe_read_str m 16 buf of
        None \<Rightarrow> False
      | Some b \<Rightarrow>
          if length b < 16 then False
          else if ch b 0 CHR ''G'' \<and> ch b 1 CHR ''E'' \<and> ch b 2 CHR ''T'' then True
          else if ch b 0 CHR ''P'' \<and> ch b 1 CHR ''O'' \<and> ch b 2 CHR ''S'' \<and> ch b 3 CHR ''T'' then True
          else if ch b 0 CHR ''H'' \<and> ch b 1 CHR ''E'' \<and> ch b 2 CHR ''A'' \<and> ch b 3 CHR ''D'' then True
          else if ch b 0 CHR ''P'' \<and> ch b 1 CHR ''U'' \<and> ch b 2 CHR ''T'' then True
          else if ch b 0 CHR ''D'' \<and> ch b 1 CHR ''E'' \<and> ch b 2 CHR ''L'' \<and> ch b 3 CHR ''E'' \<and>
            ch b 4 CHR ''T'' \<and> ch b 5 CHR ''E'' then True
          else if ch b 0 CHR ''C'' \<and> ch b 1 CHR ''O'' \<and> ch b 2 CHR ''N'' \<and> ch b 3 CHR ''N'' \<and>
            ch b 4 CHR ''E'' \<and> ch b 5 CHR ''C'' \<and> ch b 6 CHR ''T'' then True
          else if ch b 0 CHR ''O'' \<and> ch b 1 CHR ''P'' \<and> ch b 2 CHR ''T'' \<and> ch b 3 CHR ''I'' \<and>
            ch b 4 CHR ''O'' \<and> ch b 5 CHR ''N'' \<and> ch b 6 CHR ''S'' then True
          else if ch b 0 CHR ''P'' \<and> ch b 1 CHR ''A'' \<and> ch b 2 CHR ''T'' \<and> ch b 3 CHR ''C'' \<and>
            ch b 4 CHR ''H'' then True
          else False)"

definition is_http_response :: "mem \<Rightarrow> u64 \<Rightarrow> s32 \<Rightarrow> bool \<times> s32" where
  "is_http_response m buf status =
     (case bpf_probe_read_str m 16 buf of
        None \<Rightarrow> (False, status)
      | Some b \<Rightarrow>
          if length b < 16 then (False, status)
          else if \<not> ch b 0 CHR ''H'' \<or> \<not> ch b 1 CHR ''T'' \<or> \<not> ch b 2 CHR ''T'' \<or> \<not> ch b 3 CHR ''P'' \<or>
            \<not> ch b 4 CHR ''/'' then (False, status)
          else if \<not> digit (b ! 5) then (False, status)
          else if \<not> ch b 6 CHR ''.'' then (False, status)
          else if \<not> digit (b ! 7) then (False, status)
          else if \<not> ch b 8 CHR '' '' then (False, status)
          else if \<not> digit (b ! 9) \<or> \<not> digit (b ! 10) \<or> \<not> digit (b ! 11) then (False, status)
          else (True, (ucast (b ! 9) - 48) * 100 + (ucast (b ! 10) - 48) * 10 + (ucast (b ! 11) - 48)))"

section \<open>Redis\<close>

definition is_redis_query :: "mem \<Rightarrow> u64 \<Rightarrow> u64 \<Rightarrow> bool" where
  "is_redis_query m buf buf_size =
     (if buf_size < 5 then False
      else case bpf_probe_read m 5 buf of
        None \<Rightarrow> False
      | Some b \<Rightarrow>
          if \<not> ch b 0 CHR ''*'' \<or> \<not> digit (b ! 1) then False
          else if b ! 2 = 13 \<and> b ! 3 = 10 then True
          else if digit (b ! 2) \<and> b ! 3 = 13 \<and> b ! 4 = 10 then True
          else False)"

definition is_redis_response :: "mem \<Rightarrow> u64 \<Rightarrow> u64 \<Rightarrow> s32 \<Rightarrow> bool \<times> s32" where
  "is_redis_response m buf buf_size status =
     (case bpf_probe_read m 1 buf of
        None \<Rightarrow> (False, status)
      | Some type \<Rightarrow>
          (case bpf_probe_read m 2 (tail_addr buf buf_size 2) of
             None \<Rightarrow> (False, status)
           | Some en \<Rightarrow>
               if en ! 0 \<noteq> 13 \<or> en ! 1 \<noteq> 10 then (False, status)
               else if ch type 0 CHR ''*'' \<or> ch type 0 CHR '':'' \<or> ch type 0 CHR ''$'' \<or> ch type 0 CHR ''+''
               then (True, STATUS_OK)
               else if ch type 0 CHR ''-'' then (True, STATUS_FAILED)
               else (False, status)))"

section \<open>Memcached\<close>

definition is_memcached_query :: "mem \<Rightarrow> u64 \<Rightarrow> u64 \<Rightarrow> bool" where
  "is_memcached_query m buf buf_size =
     (if buf_size < 9 then False
      else case bpf_probe_read m 7 buf of
        None \<Rightarrow> False
      | Some b \<Rightarrow>
          (case bpf_probe_read m 2 (tail_addr buf buf_size 2) of
             None \<Rightarrow> False
           | Some en \<Rightarrow>
               if en ! 0 \<noteq> 13 \<or> en ! 1 \<noteq> 10 then False
               else if ch b 0 CHR ''s'' \<and> ch b 1 CHR ''e'' \<and> ch b 2 CHR ''t'' \<and> ch b 3 CHR '' '' then True
               else if ch b 0 CHR ''a'' \<and> ch b 1 CHR ''d'' \<and> ch b 2 CHR ''d'' \<and> ch b 3 CHR '' '' then True
               else if ch b 0 CHR ''c'' \<and> ch b 1 CHR ''a'' \<and> ch b 2 CHR ''s'' \<and> ch b 3 CHR '' '' then True
               else if ch b 0 CHR ''g'' \<and> (ch b 1 CHR ''a'' \<or> ch b 1 CHR ''e'') \<and> ch b 2 CHR ''t'' \<and>
                 (ch b 3 CHR '' '' \<or> ch b 3 CHR ''s'') then True
               else if ch b 0 CHR ''i'' \<and> ch b 1 CHR ''n'' \<and> ch b 2 CHR ''c'' \<and> ch b 3 CHR ''r'' \<and>
                 ch b 4 CHR '' '' then True
               else if ch b 0 CHR ''d'' \<and> ch b 1 CHR ''e'' \<and> ch b 2 CHR ''c'' \<and> ch b 3 CHR ''r'' \<and>
                 ch b 4 CHR '' '' then True
               else if ch b 0 CHR ''t'' \<and> ch b 1 CHR ''o'' \<and> ch b 2 CHR ''u'' \<and> ch b 3 CHR ''c'' \<and>
                 ch b 4 CHR ''h'' \<and> ch b 5 CHR '' '' then True
               else if ch b 0 CHR ''d'' \<and> ch b 1 CHR ''e'' \<and> ch b 2 CHR ''l'' \<and> ch b 3 CHR ''e'' \<and>
                 ch b 4 CHR ''t'' \<and> ch b 5 CHR ''e'' \<and> ch b 6 CHR '' '' then True
               else if ch b 0 CHR ''a'' \<and> ch b 1 CHR ''p'' \<and> ch b 2 CHR ''p'' \<and> ch b 3 CHR ''e'' \<and>
                 ch b 4 CHR ''n'' \<and> ch b 5 CHR ''d'' \<and> ch b 6 CHR '' '' then True
               else if ch b 0 CHR ''p'' \<and> ch b 1 CHR ''r'' \<and> ch b 2 CHR ''e'' \<and> ch b 3 CHR ''p'' \<and>
                 ch b 4 CHR ''e'' \<and> ch b 5 CHR ''n'' \<and> ch b 6 CHR ''d'' then True
               else if ch b 0 CHR ''r'' \<and> ch b 1 CHR ''e'' \<and> ch b 2 CHR ''p'' \<and> ch b 3 CHR ''l'' \<and>
                 ch b 4 CHR ''a'' \<and> ch b 5 CHR ''c'' \<and> ch b 6 CHR ''e'' then True
               else False))"

definition is_memcached_response :: "mem \<Rightarrow> u64 \<Rightarrow> u64 \<Rightarrow> s32 \<Rightarrow> bool \<times> s32" where
  "is_memcached_response m buf buf_size status =
     (case bpf_probe_read m 3 buf of
        None \<Rightarrow> (False, status)
      | Some r \<Rightarrow>
          (case bpf_probe_read m 2 (tail_addr buf buf_size 2) of
             None \<Rightarrow> (False, status)
           | Some en \<Rightarrow>
               if en ! 0 \<noteq> 13 \<or> en ! 1 \<noteq> 10 then (False, status)
               else if ch r 0 CHR ''V'' \<and> ch r 1 CHR ''A'' \<and> ch r 2 CHR ''L'' then (True, STATUS_OK)
               else if ch r 0 CHR ''S'' \<and> ch r 1 CHR ''T'' \<and> ch r 2 CHR ''O'' then (True, STATUS_OK)
               else if ch r 0 CHR ''D'' \<and> ch r 1 CHR ''E'' \<and> ch r 2 CHR ''L'' then (True, STATUS_OK)
               else if ch r 0 CHR ''T'' \<and> ch r 1 CHR ''O'' \<and> ch r 2 CHR ''C'' then (True, STATUS_OK)
               else if ch r 0 CHR ''N'' \<and> ch r 1 CHR ''O'' \<and> ch r 2 CHR ''T'' then (True, STATUS_OK)
               else if ch r 0 CHR ''E'' \<and> ch r 1 CHR ''X'' \<and> ch r 2 CHR ''I'' then (True, STATUS_OK)
               else if ch r 0 CHR ''E'' \<and> ch r 1 CHR ''R'' \<and> ch r 2 CHR ''R'' then (True, STATUS_FAILED)
               else if ch r 0 CHR ''C'' \<and> ch r 1 CHR ''L'' \<and> ch r 2 CHR ''I'' then (True, STATUS_FAILED)
               else if ch r 0 CHR ''S'' \<and> ch r 1 CHR ''E'' \<and> ch r 2 CHR ''R'' then (True, STATUS_FAILED)
               else if digit (r ! 0) then (True, STATUS_OK)
               else (False, status)))"

section \<open>NATS\<close>

definition nats_method :: "mem \<Rightarrow> u64 \<Rightarrow> u64 \<Rightarrow> u8" where
  "nats_method m buf buf_size =
     (if buf_size < 7 then METHOD_UNKNOWN
      else case bpf_probe_read m 5 buf of
        None \<Rightarrow> METHOD_UNKNOWN
      | Some b \<Rightarrow>
          (case bpf_probe_read m 2 (tail_addr buf buf_size 2) of
             None \<Rightarrow> METHOD_UNKNOWN
           | Some en \<Rightarrow>
               if en ! 0 \<noteq> 13 \<or> en ! 1 \<noteq> 10 then METHOD_UNKNOWN
               else if ch b 0 CHR ''P'' \<and> ch b 1 CHR ''U'' \<and> ch b 2 CHR ''B'' \<and>
                 (ch b 3 CHR '' '' \<or> b ! 3 = 9) then METHOD_PRODUCE
               else if ch b 0 CHR ''H'' \<and> ch b 1 CHR ''P'' \<and> ch b 2 CHR ''U'' \<and> ch b 3 CHR ''B'' \<and>
                 (ch b 4 CHR '' '' \<or> b ! 4 = 9) then METHOD_PRODUCE
               else if ch b 0 CHR ''M'' \<and> ch b 1 CHR ''S'' \<and> ch b 2 CHR ''G'' \<and>
                 (ch b 3 CHR '' '' \<or> b ! 3 = 9) then METHOD_CONSUME
               else if ch b 0 CHR ''H'' \<and> ch b 1 CHR ''M'' \<and> ch b 2 CHR ''S'' \<and> ch b 3 CHR ''G'' \<and>
                 (ch b 4 CHR '' '' \<or> b ! 4 = 9) then METHOD_CONSUME
               else METHOD_UNKNOWN))"

section \<open>Verdicts depend on the payload only\<close>

text \<open>Two memories that agree, from two addresses on, over \<open>w\<close> bytes (faults included).\<close>

definition window_eq :: "nat \<Rightarrow> mem \<Rightarrow> u64 \<Rightarrow> mem \<Rightarrow> u64 \<Rightarrow> bool" where
  "window_eq w m a m' a' \<longleftrightarrow> (\<forall>i<w. m (a + of_nat i) = m' (a' + of_nat i))"

text \<open>The furthest a classifier looks: the truncated size, or the 39 bytes of a ClickHouse head.\<close>

abbreviation (input) WINDOW :: nat where "WINDOW \<equiv> 1088"

locale classifier =
  fixes cls :: "mem \<Rightarrow> u64 \<Rightarrow> u64 \<Rightarrow> 'r"
  assumes local_verdict: "window_eq WINDOW m a m' a' \<Longrightarrow> 5 \<le> sz \<Longrightarrow> cls m a sz = cls m' a' sz"
begin

text \<open>In particular the same payload gets the same verdict at every address.\<close>

lemma verdict_of_payload:
  assumes "holds_at m a bs" and "holds_at m' a' bs" and "WINDOW \<le> length bs" and "5 \<le> sz"
  shows "cls m a sz = cls m' a' sz"
proof (rule local_verdict)
  show "window_eq WINDOW m a m' a'"
    using assms(1-3) unfolding window_eq_def holds_at_def bpf_probe_read_Some_iff by auto
qed (rule assms(4))

end

lemma window_eq_read:
  assumes "window_eq w m a m' a'" and "off + n \<le> w"
  shows "bpf_probe_read m n (a + of_nat off) = bpf_probe_read m' n (a' + of_nat off)"
proof -
  have ag: "m (a + of_nat off + of_nat i) = m' (a' + of_nat off + of_nat i)" if "i < n" for i
    using assms that by (simp add: window_eq_def add.assoc flip: of_nat_add)
  show ?thesis
  proof (cases "bpf_probe_read m n (a + of_nat off)")
    case None
    then have "bpf_probe_read m' n (a' + of_nat off) = None"
      using ag by (auto simp: bpf_probe_read_None_iff)
    then show ?thesis using None by simp
  next
    case (Some bs)
    then have "bpf_probe_read m' n (a' + of_nat off) = Some bs"
      using ag by (auto simp: bpf_probe_read_Some_iff)
    then show ?thesis using Some by simp
  qed
qed

lemma window_eq_read_start:
  "window_eq w m a m' a' \<Longrightarrow> n \<le> w \<Longrightarrow> bpf_probe_read m n a = bpf_probe_read m' n a'"
  using window_eq_read [of w m a m' a' 0 n] by simp

lemma window_eq_read_word:
  assumes "window_eq w m a m' a'" and "unat k + n \<le> w"
  shows "bpf_probe_read m n (a + k) = bpf_probe_read m' n (a' + k)"
  using window_eq_read [OF assms] by simp

lemma tail_addr_offset:
  assumes "5 \<le> sz" and "k \<le> 5"
  shows "tail_addr a sz k = a + of_nat (min (unat sz) 1023 - unat k)"
proof -
  have "5 \<le> unat sz" and "unat k \<le> 5"
    using assms by (simp_all add: word_le_nat_alt)
  then have "unat k \<le> unat (TRUNCATE_PAYLOAD_SIZE sz)" by (simp add: unat_TRUNCATE_u64)
  then have "of_nat (unat (TRUNCATE_PAYLOAD_SIZE sz) - unat k) = (TRUNCATE_PAYLOAD_SIZE sz - k :: u64)"
    by (simp add: of_nat_diff)
  then show ?thesis by (simp add: tail_addr_def add_diff_eq flip: unat_TRUNCATE_u64)
qed

lemma window_eq_read_tail:
  assumes "window_eq w m a m' a'" and "5 \<le> sz" and "k \<le> 5" and "1023 + n \<le> w"
  shows "bpf_probe_read m n (tail_addr a sz k) = bpf_probe_read m' n (tail_addr a' sz k)"
  unfolding tail_addr_offset [OF assms(2,3)]
  using assms(4) by (intro window_eq_read [OF assms(1)]) simp

lemma window_eq_read_str:
  "window_eq w m a m' a' \<Longrightarrow> n \<le> w \<Longrightarrow> bpf_probe_read_str m n a = bpf_probe_read_str m' n a'"
proof (induction n arbitrary: a a' w)
  case (Suc n)
  then obtain w' where w: "w = Suc w'" by (cases w) auto
  have hd: "m a = m' a'" using Suc.prems by (auto simp: window_eq_def w dest!: spec [of _ 0])
  have "window_eq w' m (a + 1) m' (a' + 1)"
    unfolding window_eq_def
  proof (intro allI impI)
    fix i assume "i < w'"
    then have "m (a + of_nat (Suc i)) = m' (a' + of_nat (Suc i))"
      using Suc.prems(1) by (simp only: window_eq_def w Suc_less_eq)
    then show "m (a + 1 + of_nat i) = m' (a' + 1 + of_nat i)" by (simp add: add.assoc)
  qed
  then have "bpf_probe_read_str m n (a + 1) = bpf_probe_read_str m' n (a' + 1)"
    using Suc.prems(2) w by (intro Suc.IH) auto
  then show ?case by (simp add: hd split: option.split)
qed simp

lemma window_eq_byte: "window_eq WINDOW m a m' a' \<Longrightarrow> m a = m' a'"
  by (auto simp: window_eq_def dest!: spec [of _ 0])

lemma window_eq_byte_word: "window_eq w m a m' a' \<Longrightarrow> unat k < w \<Longrightarrow> m (a + k) = m' (a' + k)"
  by (auto simp: window_eq_def dest!: spec [of _ "unat k"])

lemmas window_reads =
  window_eq_read_start [of WINDOW] window_eq_read_tail [of WINDOW] window_eq_read_str [of WINDOW]
  window_eq_read_word [of WINDOW] window_eq_byte
  window_eq_byte_word [of WINDOW]

interpretation http_request: classifier "\<lambda>m a _. is_http_request m a"
proof (unfold_locales, goal_cases)
  case (1 m a m' a' sz)
  then show ?case by (simp add: is_http_request_def window_reads [OF 1(1)] cong: option.case_cong)
qed

interpretation http_response: classifier "\<lambda>m a _. is_http_response m a st" for st
proof (unfold_locales, goal_cases)
  case (1 m a m' a' sz)
  then show ?case by (simp add: is_http_response_def window_reads [OF 1(1)] cong: option.case_cong)
qed

interpretation redis_query: classifier is_redis_query
proof (unfold_locales, goal_cases)
  case (1 m a m' a' sz)
  then show ?case by (simp add: is_redis_query_def window_reads [OF 1(1)] cong: option.case_cong)
qed

interpretation redis_response: classifier "\<lambda>m a sz. is_redis_response m a sz st" for st
proof (unfold_locales, goal_cases)
  case (1 m a m' a' sz)
  then show ?case by (simp add: is_redis_response_def window_reads [OF 1(1)] cong: option.case_cong)
qed

interpretation memcached_query: classifier is_memcached_query
proof (unfold_locales, goal_cases)
  case (1 m a m' a' sz)
  then show ?case by (simp add: is_memcached_query_def window_reads [OF 1(1)] cong: option.case_cong)
qed

interpretation memcached_response: classifier "\<lambda>m a sz. is_memcached_response m a sz st" for st
proof (unfold_locales, goal_cases)
  case (1 m a m' a' sz)
  then show ?case by (simp add: is_memcached_response_def window_reads [OF 1(1)] cong: option.case_cong)
qed

interpretation nats: classifier nats_method
proof (unfold_locales, goal_cases)
  case (1 m a m' a' sz)
  then show ?case by (simp add: nats_method_def window_reads [OF 1(1)] cong: option.case_cong)
qed

section \<open>What the classifiers accept\<close>

lemma prefix_nth: "prefix p bs \<longleftrightarrow> length p \<le> length bs \<and> (\<forall>i<length p. bs ! i = p ! i)"
proof
  assume "prefix p bs"
  then show "length p \<le> length bs \<and> (\<forall>i<length p. bs ! i = p ! i)"
    by (auto simp: prefix_def nth_append)
next
  assume "length p \<le> length bs \<and> (\<forall>i<length p. bs ! i = p ! i)"
  then have "p = take (length p) bs" by (intro nth_equalityI) auto
  then show "prefix p bs" by (metis take_is_prefix)
qed

text \<open>A literal at a position, compared character by character as the source does.\<close>

fun lit :: "u8 list \<Rightarrow> nat \<Rightarrow> string \<Rightarrow> bool" where
  "lit b i [] \<longleftrightarrow> True"
| "lit b i (c # cs) \<longleftrightarrow> b ! i = of_char c \<and> lit b (i + 1) cs"

lemma lit_nth: "lit b i cs \<longleftrightarrow> (\<forall>j<length cs. b ! (i + j) = of_char (cs ! j))"
proof (induction cs arbitrary: i)
  case (Cons c cs)
  show ?case by (simp add: Cons.IH All_less_Suc2)
qed simp

lemma prefix_lit: "length cs \<le> length bs \<Longrightarrow> prefix (ascii cs) bs \<longleftrightarrow> lit bs 0 cs"
  by (simp add: prefix_nth lit_nth ascii_def)

lemma lit_cong: "(\<And>j. j < length cs \<Longrightarrow> b ! (i + j) = b' ! (i + j)) \<Longrightarrow> lit b i cs = lit b' i cs"
  by (simp add: lit_nth)

lemma read_str_16:
  assumes "holds_at m a bs" and "16 \<le> length bs"
  shows "0 \<notin> set (take 15 bs) \<Longrightarrow> bpf_probe_read_str m 16 a = Some (take 15 bs @ [0])"
    and "0 \<in> set (take 15 bs) \<Longrightarrow> bpf_probe_read_str m 16 a = Some b \<Longrightarrow> length b < 16"
proof -
  have r: "bpf_probe_read m (Suc 15) a = Some (take 16 bs)"
    using bpf_probe_read_holds0 [OF assms(1), of 16] assms(2) by simp
  have nz: "0 \<notin> set (take 15 bs) \<longleftrightarrow> (\<forall>i<15. take 16 bs ! i \<noteq> 0)"
    using assms(2) by (auto simp: in_set_conv_nth)
  show "bpf_probe_read_str m 16 a = Some (take 15 bs @ [0])" if "0 \<notin> set (take 15 bs)"
    using bpf_probe_read_str_full [OF r] that nz by (simp add: min_def)
  show "length b < 16" if "0 \<in> set (take 15 bs)" "bpf_probe_read_str m 16 a = Some b"
  proof -
    have "bpf_probe_read_str m (Suc 15) a = Some b" using that(2) by simp
    moreover have "\<not> (\<forall>i<15. take 16 bs ! i \<noteq> 0)" using that(1) nz by blast
    ultimately have "length b \<noteq> Suc 15"
      using bpf_probe_read_str_full_iff [of m 15 a] r by (metis option.inject)
    moreover have "length b \<le> 16" using that(2) by (rule bpf_probe_read_str_le)
    ultimately show ?thesis by linarith
  qed
qed

definition http_methods :: "u8 list list" where
  "http_methods = map ascii [''GET'', ''POST'', ''HEAD'', ''PUT'', ''DELETE'', ''CONNECT'', ''OPTIONS'', ''PATCH'']"

text \<open>
  C38. HTTP requests: a payload of at least 16 readable bytes is taken for a request if and only
  if it begins with one of the eight method names and has no NUL among its first 15 bytes.
\<close>

theorem http_request_iff:
  assumes "holds_at m a bs" and "16 \<le> length bs"
  shows "is_http_request m a \<longleftrightarrow> 0 \<notin> set (take 15 bs) \<and> (\<exists>p\<in>set http_methods. prefix p bs)"
proof (cases "0 \<in> set (take 15 bs)")
  case True
  then show ?thesis
    using read_str_16(2) [OF assms True] by (auto simp: is_http_request_def split: option.splits)
next
  case False
  have pre: "prefix (ascii cs) bs \<longleftrightarrow> lit (take 15 bs @ [0]) 0 cs" if "length cs \<le> 15" for cs
    using that assms(2) by (simp add: prefix_lit) (rule lit_cong, simp add: nth_append)
  show ?thesis
    using False assms(2) read_str_16(1) [OF assms False]
    by (simp add: is_http_request_def http_methods_def pre min_def del: One_nat_def)
qed

theorem http_request_iff_witness:
  "is_http_request (mem_of 0x1000 (ascii ''GET /index.html HTTP/1.1'')) 0x1000"
  using http_request_iff [OF holds_at_mem_of, of "ascii ''GET /index.html HTTP/1.1''" "0x1000"]
  by (simp add: ascii_def http_methods_def)

text \<open>A status line up to the code: \<^verbatim>\<open>HTTP/<major>.<minor> <nnn>\<close>.\<close>

definition status_line :: "nat \<Rightarrow> nat \<Rightarrow> nat \<Rightarrow> u8 list" where
  "status_line major minor n = ascii ''HTTP/'' @ [of_nat (48 + major)] @ ascii ''.'' @ [of_nat (48 + minor)] @
     ascii '' '' @ [of_nat (48 + n div 100), of_nat (48 + n div 10 mod 10), of_nat (48 + n mod 10)]"

lemma digit_iff: "digit b \<longleftrightarrow> (\<exists>d<10. b = of_nat (48 + d))"
proof
  assume "digit b"
  then have "48 \<le> unat b" "unat b \<le> 57" by (simp_all add: digit_def word_le_nat_alt)
  then show "\<exists>d<10. b = of_nat (48 + d)"
    by (intro exI [of _ "unat b - 48"]) (simp add: of_nat_diff)
next
  assume "\<exists>d<10. b = of_nat (48 + d)"
  then obtain d where d: "d < 10" "b = of_nat (48 + d)" by blast
  have "unat b = 48 + d" unfolding d(2) using d(1) by (subst unat_of_nat) simp
  then show "digit b" using d(1) by (simp add: digit_def word_le_nat_alt)
qed

lemma digit_value: "d < 10 \<Longrightarrow> ucast (of_nat (48 + d) :: u8) - 48 = (of_nat d :: s32)"
proof -
  assume "d < 10"
  then have "d = 0 \<or> d = 1 \<or> d = 2 \<or> d = 3 \<or> d = 4 \<or> d = 5 \<or> d = 6 \<or> d = 7 \<or> d = 8 \<or> d = 9"
    by auto
  then show ?thesis by (elim disjE) simp_all
qed

lemma three_digits:
  assumes "d1 < 10" "d2 < 10" "d3 < (10::nat)" and "n = 100 * d1 + 10 * d2 + d3"
  shows "n < 1000" "n div 100 = d1" "n div 10 mod 10 = d2" "n mod 10 = d3"
proof -
  have n: "n = d3 + 10 * (d2 + 10 * d1)" using assms(4) by simp
  show "n < 1000" "n div 100 = d1" using assms by auto
  have "n div 10 = d2 + 10 * d1" using assms(3) unfolding n by (simp del: mult_Suc_right)
  then show "n div 10 mod 10 = d2" using assms(2) by simp
  show "n mod 10 = d3" using assms(3) unfolding n mod_mult_self2 by simp
qed

lemma digits_of:
  assumes "n < (1000::nat)"
  shows "n div 100 < 10" "n div 10 mod 10 < 10" "n mod 10 < 10"
    and "n = 100 * (n div 100) + 10 * (n div 10 mod 10) + n mod 10"
proof -
  show "n div 100 < 10" "n div 10 mod 10 < 10" "n mod 10 < 10" using assms by auto
  have "n div 10 div 10 = n div 100" by (simp add: div_mult2_eq [symmetric])
  then show "n = 100 * (n div 100) + 10 * (n div 10 mod 10) + n mod 10"
    using mult_div_mod_eq [of 10 n] mult_div_mod_eq [of 10 "n div 10"] by linarith
qed

lemma prefix_status_line:
  assumes "16 \<le> length bs"
  shows "prefix (status_line major minor n) bs \<longleftrightarrow> lit bs 0 ''HTTP/'' \<and> bs ! 5 = of_nat (48 + major) \<and>
    lit bs 6 ''.'' \<and> bs ! 7 = of_nat (48 + minor) \<and> lit bs 8 '' '' \<and> bs ! 9 = of_nat (48 + n div 100) \<and>
    bs ! 10 = of_nat (48 + n div 10 mod 10) \<and> bs ! 11 = of_nat (48 + n mod 10)"
proof -
  have "length (status_line major minor n) = 12" by (simp add: status_line_def ascii_def)
  then have "prefix (status_line major minor n) bs \<longleftrightarrow> (\<forall>i<12. bs ! i = status_line major minor n ! i)"
    using assms by (simp add: prefix_nth)
  also have "\<dots> \<longleftrightarrow> (\<forall>i\<in>set [0..<12]. bs ! i = status_line major minor n ! i)" by (simp add: atLeast0LessThan lessThan_def)
  also have "[0..<12] = [0, 1, 2, 3, 4, 5, 6, 7, 8, 9, 10, 11]" by (simp add: upt_rec numeral_eq_Suc)
  finally show ?thesis by (simp add: status_line_def ascii_def del: One_nat_def)
qed

text \<open>
  C39. HTTP responses: a payload of at least 16 readable bytes is taken for a response if and
  only if it begins with a status line and has no NUL among its first 15 bytes, and then the
  status is the three-digit number of that line.
\<close>

theorem http_response_iff:
  assumes "holds_at m a bs" and "16 \<le> length bs"
  shows "is_http_response m a st = (True, st') \<longleftrightarrow> 0 \<notin> set (take 15 bs) \<and>
    (\<exists>major<10. \<exists>minor<10. \<exists>n<1000. prefix (status_line major minor n) bs \<and> st' = of_nat n)"
proof (cases "0 \<in> set (take 15 bs)")
  case True
  then show ?thesis
    using read_str_16(2) [OF assms True] by (auto simp: is_http_response_def split: option.splits)
next
  case False
  let ?b = "take 15 bs @ [0]"
  have nth: "?b ! i = bs ! i" if "i < 15" for i using that assms(2) by (simp add: nth_append)
  let ?hd = "lit bs 0 ''HTTP/'' \<and> digit (bs ! 5) \<and> lit bs 6 ''.'' \<and> digit (bs ! 7) \<and> lit bs 8 '' '' \<and>
    digit (bs ! 9) \<and> digit (bs ! 10) \<and> digit (bs ! 11)"
  let ?val = "(ucast (bs ! 9) - 48) * 100 + (ucast (bs ! 10) - 48) * 10 + (ucast (bs ! 11) - 48) :: s32"
  have "is_http_response m a st = (if ?hd then (True, ?val) else (False, st))"
    using assms(2) read_str_16(1) [OF assms False]
    by (simp add: is_http_response_def min_def nth del: One_nat_def)
  then have "is_http_response m a st = (True, st') \<longleftrightarrow> ?hd \<and> st' = ?val" by auto
  also have "\<dots> \<longleftrightarrow> (\<exists>major<10. \<exists>minor<10. \<exists>n<1000. prefix (status_line major minor n) bs \<and> st' = of_nat n)"
  proof (intro iffI)
    assume r: "?hd \<and> st' = ?val"
    then obtain major minor d1 d2 d3 where d: "major < 10" "minor < 10" "d1 < 10" "d2 < 10" "d3 < 10"
      "bs ! 5 = of_nat (48 + major)" "bs ! 7 = of_nat (48 + minor)" "bs ! 9 = of_nat (48 + d1)"
      "bs ! 10 = of_nat (48 + d2)" "bs ! 11 = of_nat (48 + d3)"
      unfolding digit_iff by blast
    have "st' = of_nat (100 * d1 + 10 * d2 + d3)"
      using r d by (simp only: digit_value) (simp add: mult.commute)
    then show "\<exists>major<10. \<exists>minor<10. \<exists>n<1000. prefix (status_line major minor n) bs \<and> st' = of_nat n"
      using r d three_digits [OF d(3-5) refl]
      by (intro exI [of _ major] exI [of _ minor] exI [of _ "100 * d1 + 10 * d2 + d3"] conjI)
        (simp_all only: prefix_status_line [OF assms(2)] simp_thms)
  next
    assume "\<exists>major<10. \<exists>minor<10. \<exists>n<1000. prefix (status_line major minor n) bs \<and> st' = of_nat n"
    then obtain major minor n where n: "major < 10" "minor < 10" "n < 1000"
      "prefix (status_line major minor n) bs" "st' = of_nat n" by blast
    note dg = digits_of [OF n(3)]
    have "?val = of_nat (100 * (n div 100) + 10 * (n div 10 mod 10) + n mod 10)"
      using n(4) dg(1-3) by (simp only: prefix_status_line [OF assms(2)] digit_value) (simp add: mult.commute)
    then have "?val = of_nat n" using dg(4) by metis
    then show "?hd \<and> st' = ?val"
      using n dg(1-3) by (auto simp only: prefix_status_line [OF assms(2)] digit_iff)
  qed
  finally show ?thesis using False by simp
qed

theorem http_response_iff_witness:
  "is_http_response (mem_of 0x1000 (ascii ''HTTP/1.1 404 Not Found'')) 0x1000 0 = (True, 404)"
proof -
  let ?bs = "ascii ''HTTP/1.1 404 Not Found''"
  have "prefix (status_line 1 1 404) ?bs" by (simp add: status_line_def ascii_def)
  then have "\<exists>major<10. \<exists>minor<10. \<exists>n<1000. prefix (status_line major minor n) ?bs \<and> (404 :: s32) = of_nat n"
    by - (rule exI [of _ 1], rule conjI, simp, rule exI [of _ 1], rule conjI, simp, rule exI [of _ 404], simp)
  then show ?thesis
    using http_response_iff [OF holds_at_mem_of, of ?bs "0x1000" 0 404] by (simp add: ascii_def)
qed

text \<open>
  The bytes the line-based protocols take for the end of the payload: the last \<open>k\<close> of it, or
  those before position 1023 when it is longer.
\<close>

definition payload_end :: "nat \<Rightarrow> u8 list \<Rightarrow> u8 list" where
  "payload_end k bs = take k (drop (min (length bs) 1023 - k) bs)"

lemma read_payload_end:
  assumes "holds_at m a bs" and "5 \<le> length bs" and "length bs < 2 ^ 64" and "k \<le> 5"
  shows "bpf_probe_read m k (tail_addr a (of_nat (length bs)) (of_nat k)) = Some (payload_end k bs)"
proof -
  have u: "unat (of_nat (length bs) :: u64) = length bs" "unat (of_nat k :: u64) = k"
    using assms(3,4) by (simp_all add: unat_of_nat)
  have "(5 :: u64) \<le> of_nat (length bs)" "(of_nat k :: u64) \<le> 5"
    using assms(2,4) u by (simp_all add: word_le_nat_alt)
  then have "tail_addr a (of_nat (length bs)) (of_nat k) = a + of_nat (min (length bs) 1023 - k)"
    by (simp add: tail_addr_offset u)
  then show ?thesis
    using bpf_probe_read_holds [OF assms(1), of "min (length bs) 1023 - k" k] assms(2,4)
    by (simp add: payload_end_def field_at_def)
qed

lemma two_bytes: "length en = 2 \<Longrightarrow> (en ! 0 = x \<and> en ! 1 = y) \<longleftrightarrow> en = [x, y]"
  by (auto simp: length_Suc_conv numeral_2_eq_2)

lemma length_payload_end: "k \<le> length bs \<Longrightarrow> k \<le> 1023 \<Longrightarrow> length (payload_end k bs) = k"
  by (simp add: payload_end_def)

definition crlf :: "u8 list" where "crlf = [13, 10]"

definition memcached_commands :: "u8 list list" where
  "memcached_commands = map ascii [''set '', ''add '', ''cas '', ''gat '', ''gats'', ''get '', ''gets'', ''incr '',
     ''decr '', ''touch '', ''delete '', ''append '', ''prepend'', ''replace'']"

lemma memcached_query_iff:
  assumes "holds_at m a bs" and "length bs < 2 ^ 64"
  shows "is_memcached_query m a (of_nat (length bs)) \<longleftrightarrow>
    9 \<le> length bs \<and> payload_end 2 bs = crlf \<and> (\<exists>c\<in>set memcached_commands. prefix c bs)"
proof (cases "9 \<le> length bs")
  case False
  then have "(of_nat (length bs) :: u64) < 9" using assms(2) by (simp add: word_less_nat_alt unat_of_nat)
  then show ?thesis using False by (simp add: is_memcached_query_def)
next
  case True
  then have sz: "\<not> (of_nat (length bs) :: u64) < 9"
    using assms(2) by (simp add: word_less_nat_alt unat_of_nat)
  have rd: "bpf_probe_read m 7 a = Some (take 7 bs)"
    using True by (intro bpf_probe_read_holds0 [OF assms(1)]) simp
  have en: "bpf_probe_read m 2 (tail_addr a (of_nat (length bs)) 2) = Some (payload_end 2 bs)"
    using read_payload_end [OF assms(1) _ assms(2), of 2] True by simp
  have pre: "prefix (ascii cs) bs \<longleftrightarrow> lit (take 7 bs) 0 cs" if "length cs \<le> 7" for cs
    using that True by (simp add: prefix_lit) (rule lit_cong, simp)
  have "payload_end 2 bs = crlf \<longleftrightarrow> payload_end 2 bs ! 0 = 13 \<and> payload_end 2 bs ! 1 = 10"
    using True two_bytes [of "payload_end 2 bs" 13 10] by (simp add: crlf_def length_payload_end)
  then show ?thesis
    using True sz by (simp add: is_memcached_query_def memcached_commands_def rd en pre del: One_nat_def) blast
qed

definition nats_produce :: "u8 list list" where
  "nats_produce = [ascii ''PUB '', ascii ''PUB'' @ [9], ascii ''HPUB '', ascii ''HPUB'' @ [9]]"

definition nats_consume :: "u8 list list" where
  "nats_consume = [ascii ''MSG '', ascii ''MSG'' @ [9], ascii ''HMSG '', ascii ''HMSG'' @ [9]]"

lemma prefix_lit_tab:
  "length cs < length bs \<Longrightarrow> prefix (ascii cs @ [9]) bs \<longleftrightarrow> lit bs 0 cs \<and> bs ! length cs = 9"
  by (auto simp: prefix_nth lit_nth ascii_def nth_append less_Suc_eq)

lemma nats_method_eq:
  assumes "holds_at m a bs" and "length bs < 2 ^ 64"
  shows "nats_method m a (of_nat (length bs)) =
    (if length bs < 7 \<or> payload_end 2 bs \<noteq> crlf then METHOD_UNKNOWN
     else if \<exists>c\<in>set nats_produce. prefix c bs then METHOD_PRODUCE
     else if \<exists>c\<in>set nats_consume. prefix c bs then METHOD_CONSUME else METHOD_UNKNOWN)"
proof (cases "7 \<le> length bs")
  case False
  then have "(of_nat (length bs) :: u64) < 7" using assms(2) by (simp add: word_less_nat_alt unat_of_nat)
  then show ?thesis using False by (simp add: nats_method_def)
next
  case True
  then have sz: "\<not> (of_nat (length bs) :: u64) < 7"
    using assms(2) by (simp add: word_less_nat_alt unat_of_nat)
  have rd: "bpf_probe_read m 5 a = Some (take 5 bs)"
    using True by (intro bpf_probe_read_holds0 [OF assms(1)]) simp
  have en: "bpf_probe_read m 2 (tail_addr a (of_nat (length bs)) 2) = Some (payload_end 2 bs)"
    using read_payload_end [OF assms(1) _ assms(2), of 2] True by simp
  have pre: "prefix (ascii cs) bs \<longleftrightarrow> lit (take 5 bs) 0 cs" if "length cs \<le> 5" for cs
    using that True by (simp add: prefix_lit) (rule lit_cong, simp)
  have tab: "prefix (ascii cs @ [9]) bs \<longleftrightarrow> lit (take 5 bs) 0 cs \<and> take 5 bs ! k = 9"
    if "length cs = k" "k < 5" for cs k
    using that True lit_cong [of cs bs 0 "take 5 bs"] prefix_lit_tab [of cs bs] by simp
  have "payload_end 2 bs = crlf \<longleftrightarrow> payload_end 2 bs ! 0 = 13 \<and> payload_end 2 bs ! 1 = 10"
    using True two_bytes [of "payload_end 2 bs" 13 10] by (simp add: crlf_def length_payload_end)
  then show ?thesis
    using True sz
    by (simp add: nats_method_def nats_produce_def nats_consume_def rd en pre tab [of _ 3] tab [of _ 4]
        del: One_nat_def) blast
qed

text \<open>An array header of one or two digits.\<close>

definition redis_array :: "u8 list \<Rightarrow> bool" where
  "redis_array bs \<longleftrightarrow>
     (\<exists>d r. digit d \<and> bs = [42, d, 13, 10] @ r) \<or> (\<exists>d e r. digit d \<and> digit e \<and> bs = [42, d, e, 13, 10] @ r)"

lemma redis_query_iff:
  assumes "holds_at m a bs" and "length bs < 2 ^ 64"
  shows "is_redis_query m a (of_nat (length bs)) \<longleftrightarrow> 5 \<le> length bs \<and> redis_array bs"
proof (cases "5 \<le> length bs")
  case False
  then have "(of_nat (length bs) :: u64) < 5" using assms(2) by (simp add: word_less_nat_alt unat_of_nat)
  then show ?thesis using False by (simp add: is_redis_query_def)
next
  case True
  then have sz: "\<not> (of_nat (length bs) :: u64) < 5"
    using assms(2) by (simp add: word_less_nat_alt unat_of_nat)
  obtain b0 b1 b2 b3 b4 r where bs: "bs = [b0, b1, b2, b3, b4] @ r"
    using True by (auto simp: numeral_eq_Suc Suc_le_length_iff)
  have "bpf_probe_read m 5 a = Some [b0, b1, b2, b3, b4]"
    using bpf_probe_read_holds0 [OF assms(1), of 5] bs by simp
  then show ?thesis
    using sz True unfolding bs by (auto simp: is_redis_query_def redis_array_def)
qed

text \<open>
  Line-based protocols: Memcached and Redis requests and NATS messages are recognised by
  exactly these forms. For payloads up to 1023 bytes the terminating CRLF is the one at the end
  of the payload; for longer ones it is looked for just before position 1023.
\<close>

theorem line_protocols_iff:
  assumes "holds_at m a bs" and "length bs < 2 ^ 64"
  shows "(is_memcached_query m a (of_nat (length bs)) \<longleftrightarrow>
      9 \<le> length bs \<and> payload_end 2 bs = crlf \<and> (\<exists>c\<in>set memcached_commands. prefix c bs)) \<and>
    (is_redis_query m a (of_nat (length bs)) \<longleftrightarrow> 5 \<le> length bs \<and> redis_array bs) \<and>
    (nats_method m a (of_nat (length bs)) = METHOD_PRODUCE \<longleftrightarrow>
      7 \<le> length bs \<and> payload_end 2 bs = crlf \<and> (\<exists>c\<in>set nats_produce. prefix c bs)) \<and>
    (nats_method m a (of_nat (length bs)) = METHOD_CONSUME \<longleftrightarrow>
      7 \<le> length bs \<and> payload_end 2 bs = crlf \<and> (\<exists>c\<in>set nats_consume. prefix c bs))"
proof -
  have "\<not> ((\<exists>c\<in>set nats_produce. prefix c bs) \<and> (\<exists>c\<in>set nats_consume. prefix c bs))"
    by (auto simp: nats_produce_def nats_consume_def ascii_def prefix_def)
  then show ?thesis
    using memcached_query_iff [OF assms] redis_query_iff [OF assms] nats_method_eq [OF assms]
    by (simp split: if_splits) blast+
qed

theorem line_protocols_iff_witness:
  "is_memcached_query (mem_of 0x1000 (ascii ''get k'' @ [32, 32, 13, 10])) 0x1000 9 \<and>
   is_redis_query (mem_of 0x1000 (ascii ''*12'' @ [13, 10])) 0x1000 5 \<and>
   nats_method (mem_of 0x1000 (ascii ''MSG a'' @ [13, 10])) 0x1000 7 = METHOD_CONSUME"
  using line_protocols_iff [OF holds_at_mem_of, of "ascii ''get k'' @ [32, 32, 13, 10]" "0x1000"]
    line_protocols_iff [OF holds_at_mem_of, of "ascii ''*12'' @ [13, 10]" "0x1000"]
    line_protocols_iff [OF holds_at_mem_of, of "ascii ''MSG a'' @ [13, 10]" "0x1000"]
  by (simp add: ascii_def payload_end_def crlf_def memcached_commands_def nats_consume_def
      redis_array_def digit_def)

end
