(* ===== verification/L7_Binary.thy ===== *)
theory L7_Binary
  imports L7_Text
begin

unbundle bit_operations_syntax

text \<open>
  The classifiers of the binary protocols: \<^verbatim>\<open>l7/postgres.c\<close>, \<^verbatim>\<open>mysql.c\<close>, \<^verbatim>\<open>mongo.c\<close>,
  \<^verbatim>\<open>kafka.c\<close>, \<^verbatim>\<open>cassandra.c\<close>, \<^verbatim>\<open>rabbitmq.c\<close>, \<^verbatim>\<open>http2.c\<close>, \<^verbatim>\<open>dubbo2.c\<close>, \<^verbatim>\<open>dns.c\<close>, \<^verbatim>\<open>clickhouse.c\<close>
  and \<^verbatim>\<open>zookeeper.c\<close>. The conventions are those of \<open>L7_Text\<close>. A C struct read from the payload
  is a record with a function that decodes it. Values of type \<^verbatim>\<open>int\<close> that are compared with
  the 64-bit size are sign-extended, as C converts them. A verdict that can be 2 (a partial
  response) is a natural number. Where a read into a caller's variable fails, the kernel has
  cleared the variable.
\<close>

section \<open>PostgreSQL\<close>

abbreviation (input) POSTGRES_FRAME_SIMPLE_QUERY :: u8 where "POSTGRES_FRAME_SIMPLE_QUERY \<equiv> 81"
abbreviation (input) POSTGRES_FRAME_PARSE :: u8 where "POSTGRES_FRAME_PARSE \<equiv> 80"
abbreviation (input) POSTGRES_FRAME_CLOSE :: u8 where "POSTGRES_FRAME_CLOSE \<equiv> 67"

definition is_postgres_query :: "mem \<Rightarrow> u64 \<Rightarrow> u64 \<Rightarrow> u8 \<Rightarrow> bool \<times> u8" where
  "is_postgres_query m buf buf_size request_type =
     (if buf_size < 5 then (False, request_type)
      else case bpf_probe_read m 1 buf of
        None \<Rightarrow> (False, request_type)
      | Some c \<Rightarrow>
          (case bpf_probe_read m 4 (buf + 1) of
             None \<Rightarrow> (False, request_type)
           | Some l \<Rightarrow>
               (let f_cmd = c ! 0; f_length = bpf_htonl (le_word l); request_type = f_cmd in
                if (f_cmd = POSTGRES_FRAME_SIMPLE_QUERY \<or> f_cmd = POSTGRES_FRAME_CLOSE) \<and>
                   scast (f_length + 1) = buf_size
                then (True, request_type)
                else case bpf_probe_read m 5 (tail_addr buf buf_size 5) of
                  None \<Rightarrow> (False, request_type)
                | Some sync \<Rightarrow>
                    (ch sync 0 CHR ''S'' \<and> sync ! 1 = 0 \<and> sync ! 2 = 0 \<and> sync ! 3 = 0 \<and> sync ! 4 = 4,
                     request_type))))"

definition is_postgres_response :: "mem \<Rightarrow> u64 \<Rightarrow> u64 \<Rightarrow> s32 \<Rightarrow> bool \<times> s32" where
  "is_postgres_response m buf buf_size status =
     (case bpf_probe_read m 1 buf of
        None \<Rightarrow> (False, status)
      | Some c \<Rightarrow>
          (case bpf_probe_read m 4 (buf + 1) of
             None \<Rightarrow> (False, status)
           | Some l \<Rightarrow>
               (let length' = bpf_htonl (le_word l);
                    verdict = (\<lambda>cmd. if cmd = of_char CHR ''E'' then (True, STATUS_FAILED)
                                else if cmd = of_char CHR ''t'' \<or> cmd = of_char CHR ''T'' \<or>
                                        cmd = of_char CHR ''D'' \<or> cmd = of_char CHR ''C''
                                then (True, STATUS_OK) else (False, status)) in
                if scast (length' + 1) > buf_size then (False, status)
                else if (ch c 0 CHR ''1'' \<or> ch c 0 CHR ''2'') \<and> length' = 4 \<and> buf_size \<ge> 10
                then (case bpf_probe_read m 1 (buf + 5) of
                        None \<Rightarrow> (False, status)
                      | Some c' \<Rightarrow>
                          (case bpf_probe_read m 4 (buf + 5 + 1) of
                             None \<Rightarrow> (False, status)
                           | Some _ \<Rightarrow> verdict (c' ! 0)))
                else verdict (c ! 0))))"

section \<open>MySQL\<close>

abbreviation (input) MYSQL_COM_QUERY :: u8 where "MYSQL_COM_QUERY \<equiv> 3"
abbreviation (input) MYSQL_COM_STMT_PREPARE :: u8 where "MYSQL_COM_STMT_PREPARE \<equiv> 0x16"
abbreviation (input) MYSQL_COM_STMT_EXECUTE :: u8 where "MYSQL_COM_STMT_EXECUTE \<equiv> 0x17"
abbreviation (input) MYSQL_COM_STMT_CLOSE :: u8 where "MYSQL_COM_STMT_CLOSE \<equiv> 0x19"
abbreviation (input) MYSQL_RESPONSE_OK :: u8 where "MYSQL_RESPONSE_OK \<equiv> 0x00"
abbreviation (input) MYSQL_RESPONSE_EOF :: u8 where "MYSQL_RESPONSE_EOF \<equiv> 0xfe"
abbreviation (input) MYSQL_RESPONSE_ERROR :: u8 where "MYSQL_RESPONSE_ERROR \<equiv> 0xff"

definition mysql_length :: "u8 list \<Rightarrow> s32" where
  "mysql_length b = ucast (b ! 0) OR push_bit 8 (ucast (b ! 1)) OR push_bit 16 (ucast (b ! 2))"

definition is_mysql_query :: "mem \<Rightarrow> u64 \<Rightarrow> u64 \<Rightarrow> u8 \<Rightarrow> bool \<times> u8" where
  "is_mysql_query m buf buf_size request_type =
     (if buf_size < 5 then (False, request_type)
      else case bpf_probe_read m 5 buf of
        None \<Rightarrow> (False, request_type)
      | Some b \<Rightarrow>
          if scast (mysql_length b + 4) \<noteq> buf_size \<or> b ! 3 \<noteq> 0 then (False, request_type)
          else if b ! 4 = MYSQL_COM_QUERY \<or> b ! 4 = MYSQL_COM_STMT_EXECUTE then (True, request_type)
          else if b ! 4 = MYSQL_COM_STMT_CLOSE then (True, MYSQL_COM_STMT_CLOSE)
          else if b ! 4 = MYSQL_COM_STMT_PREPARE then (True, MYSQL_COM_STMT_PREPARE)
          else (False, request_type))"

definition is_mysql_response ::
  "mem \<Rightarrow> u64 \<Rightarrow> u64 \<Rightarrow> u8 \<Rightarrow> u32 \<Rightarrow> s32 \<Rightarrow> bool \<times> u32 \<times> s32" where
  "is_mysql_response m buf buf_size request_type statement_id status =
     (case bpf_probe_read m 5 buf of
        None \<Rightarrow> (False, statement_id, status)
      | Some b \<Rightarrow>
          if b ! 3 < 1 then (False, statement_id, status)
          else if mysql_length b = 1 \<or> b ! 4 = MYSQL_RESPONSE_EOF then (True, statement_id, STATUS_OK)
          else if b ! 4 = MYSQL_RESPONSE_OK then
            (if request_type = MYSQL_COM_STMT_PREPARE
             then (case bpf_probe_read m 4 (buf + 5) of
                     None \<Rightarrow> (False, 0, status)
                   | Some w \<Rightarrow> (True, le_word w, STATUS_OK))
             else (True, statement_id, STATUS_OK))
          else if b ! 4 = MYSQL_RESPONSE_ERROR then (True, statement_id, STATUS_FAILED)
          else (False, statement_id, status))"

section \<open>MongoDB\<close>

abbreviation (input) MONGO_OP_COMPRESSED :: s32 where "MONGO_OP_COMPRESSED \<equiv> 2012"
abbreviation (input) MONGO_OP_MSG :: s32 where "MONGO_OP_MSG \<equiv> 2013"

record mongo_header =
  mh_length :: s32
  mh_request_id :: s32
  mh_response_to :: s32
  mh_op_code :: s32

definition mongo_header_of :: "u8 list \<Rightarrow> mongo_header" where
  "mongo_header_of b =
     \<lparr>mh_length = le_word (field_at 0 4 b), mh_request_id = le_word (field_at 4 4 b),
      mh_response_to = le_word (field_at 8 4 b), mh_op_code = le_word (field_at 12 4 b)\<rparr>"

definition is_mongo_query :: "mem \<Rightarrow> u64 \<Rightarrow> u64 \<Rightarrow> bool" where
  "is_mongo_query m buf buf_size =
     (if buf_size < 16 then False
      else case bpf_probe_read m 16 buf of
        None \<Rightarrow> False
      | Some b \<Rightarrow>
          (let h = mongo_header_of b in
           mh_response_to h = 0 \<and> (mh_op_code h = MONGO_OP_MSG \<or> mh_op_code h = MONGO_OP_COMPRESSED)))"

definition is_mongo_response :: "mem \<Rightarrow> u64 \<Rightarrow> u64 \<Rightarrow> u8 \<Rightarrow> nat" where
  "is_mongo_response m buf buf_size partial =
     (if partial = 0 \<and> buf_size = 4 then 2
      else
        (let h = (if partial \<noteq> 0
                  then (case bpf_probe_read m 4 (buf + 4) of
                          None \<Rightarrow> None
                        | Some rt \<Rightarrow>
                            (case bpf_probe_read m 4 (buf + 8) of
                               None \<Rightarrow> None
                             | Some oc \<Rightarrow> Some \<lparr>mh_length = 0, mh_request_id = 0,
                                                mh_response_to = le_word rt, mh_op_code = le_word oc\<rparr>))
                  else map_option mongo_header_of (bpf_probe_read m 16 buf)) in
         case h of
           None \<Rightarrow> 0
         | Some h \<Rightarrow>
             if mh_response_to h = 0 then 0
             else if mh_op_code h = MONGO_OP_MSG \<or> mh_op_code h = MONGO_OP_COMPRESSED then 1 else 0))"

section \<open>Kafka\<close>

record kafka_request_header =
  krq_length :: s32
  krq_api_key :: s16
  krq_api_version :: s16
  krq_correlation_id :: s32

record kafka_response_header =
  krs_length :: s32
  krs_correlation_id :: s32

definition kafka_request_header_of :: "u8 list \<Rightarrow> kafka_request_header" where
  "kafka_request_header_of b =
     \<lparr>krq_length = le_word (field_at 0 4 b), krq_api_key = le_word (field_at 4 2 b),
      krq_api_version = le_word (field_at 6 2 b), krq_correlation_id = le_word (field_at 8 4 b)\<rparr>"

definition kafka_response_header_of :: "u8 list \<Rightarrow> kafka_response_header" where
  "kafka_response_header_of b =
     \<lparr>krs_length = le_word (field_at 0 4 b), krs_correlation_id = le_word (field_at 4 4 b)\<rparr>"

definition is_kafka_request :: "mem \<Rightarrow> u64 \<Rightarrow> u64 \<Rightarrow> s32 \<Rightarrow> bool \<times> s32" where
  "is_kafka_request m buf buf_size request_id =
     (if buf_size < 12 then (False, request_id)
      else case bpf_probe_read m 12 buf of
        None \<Rightarrow> (False, request_id)
      | Some b \<Rightarrow>
          (let h = kafka_request_header_of b; h = h\<lparr>krq_length := bpf_htonl (krq_length h)\<rparr> in
           if scast (krq_length h + 4) \<noteq> buf_size then (False, request_id)
           else
             (let h = h\<lparr>krq_api_key := bpf_htons (krq_api_key h)\<rparr>;
                  h = h\<lparr>krq_correlation_id := bpf_htonl (krq_correlation_id h)\<rparr> in
              if 0 <s krq_correlation_id h \<and> 0 \<le>s krq_api_key h \<and> krq_api_key h \<le>s 67
              then (True, krq_correlation_id h) else (False, request_id))))"

definition is_kafka_response :: "mem \<Rightarrow> u64 \<Rightarrow> s32 \<Rightarrow> bool" where
  "is_kafka_response m buf request_id =
     (case bpf_probe_read m 8 buf of
        None \<Rightarrow> False
      | Some b \<Rightarrow> bpf_htonl (krs_correlation_id (kafka_response_header_of b)) = request_id)"

section \<open>Cassandra\<close>

abbreviation (input) CASSANDRA_REQUEST_FRAME :: u8 where "CASSANDRA_REQUEST_FRAME \<equiv> 0x04"
abbreviation (input) CASSANDRA_RESPONSE_FRAME :: u8 where "CASSANDRA_RESPONSE_FRAME \<equiv> 0x84"
abbreviation (input) CASSANDRA_OPCODE_ERROR :: u8 where "CASSANDRA_OPCODE_ERROR \<equiv> 0x00"
abbreviation (input) CASSANDRA_OPCODE_QUERY :: u8 where "CASSANDRA_OPCODE_QUERY \<equiv> 0x07"
abbreviation (input) CASSANDRA_OPCODE_RESULT :: u8 where "CASSANDRA_OPCODE_RESULT \<equiv> 0x08"
abbreviation (input) CASSANDRA_OPCODE_EXECUTE :: u8 where "CASSANDRA_OPCODE_EXECUTE \<equiv> 0x0A"
abbreviation (input) CASSANDRA_OPCODE_BATCH :: u8 where "CASSANDRA_OPCODE_BATCH \<equiv> 0x0D"

record cassandra_header =
  csh_version :: u8
  csh_flags :: u8
  csh_stream_id :: s16
  csh_opcode :: u8

definition cassandra_header_of :: "u8 list \<Rightarrow> cassandra_header" where
  "cassandra_header_of b =
     \<lparr>csh_version = b ! 0, csh_flags = b ! 1, csh_stream_id = le_word (field_at 2 2 b), csh_opcode = b ! 4\<rparr>"

definition is_cassandra_request :: "mem \<Rightarrow> u64 \<Rightarrow> u64 \<Rightarrow> s16 \<Rightarrow> bool \<times> s16" where
  "is_cassandra_request m buf buf_size stream_id =
     (if buf_size < 6 then (False, stream_id)
      else case bpf_probe_read m 6 buf of
        None \<Rightarrow> (False, stream_id)
      | Some b \<Rightarrow>
          (let h = cassandra_header_of b in
           if csh_version h \<noteq> CASSANDRA_REQUEST_FRAME then (False, stream_id)
           else if csh_opcode h = CASSANDRA_OPCODE_QUERY \<or> csh_opcode h = CASSANDRA_OPCODE_EXECUTE \<or>
                   csh_opcode h = CASSANDRA_OPCODE_BATCH
           then (True, csh_stream_id h) else (False, stream_id)))"

definition is_cassandra_response :: "mem \<Rightarrow> u64 \<Rightarrow> u64 \<Rightarrow> s16 \<Rightarrow> s32 \<Rightarrow> bool \<times> s16 \<times> s32" where
  "is_cassandra_response m buf buf_size stream_id status =
     (if buf_size < 6 then (False, stream_id, status)
      else case bpf_probe_read m 6 buf of
        None \<Rightarrow> (False, stream_id, status)
      | Some b \<Rightarrow>
          (let h = cassandra_header_of b in
           if csh_version h \<noteq> CASSANDRA_RESPONSE_FRAME then (False, stream_id, status)
           else if csh_opcode h = CASSANDRA_OPCODE_RESULT then (True, csh_stream_id h, STATUS_OK)
           else if csh_opcode h = CASSANDRA_OPCODE_ERROR then (True, csh_stream_id h, STATUS_FAILED)
           else (False, stream_id, status)))"

section \<open>RabbitMQ\<close>

abbreviation (input) RABBITMQ_FRAME_TYPE_METHOD :: u8 where "RABBITMQ_FRAME_TYPE_METHOD \<equiv> 1"
abbreviation (input) RABBITMQ_FRAME_END :: u8 where "RABBITMQ_FRAME_END \<equiv> 0xCE"
abbreviation (input) RABBITMQ_CLASS_BASIC :: u16 where "RABBITMQ_CLASS_BASIC \<equiv> 60"
abbreviation (input) RABBITMQ_METHOD_PUBLISH :: u16 where "RABBITMQ_METHOD_PUBLISH \<equiv> 40"
abbreviation (input) RABBITMQ_METHOD_DELIVER :: u16 where "RABBITMQ_METHOD_DELIVER \<equiv> 60"

definition rabbitmq_method_is :: "mem \<Rightarrow> u64 \<Rightarrow> u64 \<Rightarrow> u16 \<Rightarrow> bool" where
  "rabbitmq_method_is m buf buf_size expected_method =
     (if buf_size < 12 then False
      else case bpf_probe_read m 1 buf of
        None \<Rightarrow> False
      | Some type \<Rightarrow>
          if type ! 0 \<noteq> RABBITMQ_FRAME_TYPE_METHOD then False
          else (case bpf_probe_read m 4 (buf + 3) of
            None \<Rightarrow> False
          | Some w \<Rightarrow>
              (let sz = bpf_htonl (le_word w) in
               if ucast (7 + sz + 1) > buf_size then False
               else (case bpf_probe_read m 1 (buf + 7 + ucast (TRUNCATE_PAYLOAD_SIZE sz)) of
                 None \<Rightarrow> False
               | Some en \<Rightarrow>
                   if en ! 0 \<noteq> RABBITMQ_FRAME_END then False
                   else (case bpf_probe_read m 2 (buf + 7) of
                     None \<Rightarrow> False
                   | Some cl \<Rightarrow>
                       if bpf_htons (le_word cl) \<noteq> RABBITMQ_CLASS_BASIC then False
                       else (case bpf_probe_read m 2 (buf + 9) of
                         None \<Rightarrow> False
                       | Some method \<Rightarrow> bpf_htons (le_word method) = expected_method))))))"

definition is_rabbitmq_produce :: "mem \<Rightarrow> u64 \<Rightarrow> u64 \<Rightarrow> bool" where
  "is_rabbitmq_produce m buf buf_size = rabbitmq_method_is m buf buf_size RABBITMQ_METHOD_PUBLISH"

definition is_rabbitmq_consume :: "mem \<Rightarrow> u64 \<Rightarrow> u64 \<Rightarrow> bool" where
  "is_rabbitmq_consume m buf buf_size = rabbitmq_method_is m buf buf_size RABBITMQ_METHOD_DELIVER"

section \<open>HTTP/2\<close>

definition HTTP2_CLIENT_INITIATED_STREAM :: "u32 \<Rightarrow> bool" where
  "HTTP2_CLIENT_INITIATED_STREAM stream_id \<longleftrightarrow> stream_id AND 0x01000000 \<noteq> 0"

abbreviation (input) HTTP2_SETTINGS_FRAME :: u8 where "HTTP2_SETTINGS_FRAME \<equiv> 4"

definition is_client_preface :: "mem \<Rightarrow> u64 \<Rightarrow> u64 \<Rightarrow> u8 \<Rightarrow> bool" where
  "is_client_preface m buf sz method =
     (if method \<noteq> METHOD_HTTP2_CLIENT_FRAMES \<or> sz < 24 then False
      else case bpf_probe_read m 5 buf of
        None \<Rightarrow> False
      | Some b \<Rightarrow> ch b 0 CHR ''P'' \<and> ch b 1 CHR ''R'' \<and> ch b 2 CHR ''I'' \<and> ch b 3 CHR '' '' \<and> ch b 4 CHR ''*'')"

definition is_server_preface :: "u8 \<Rightarrow> u32 \<Rightarrow> u8 \<Rightarrow> bool" where
  "is_server_preface frame_type stream_id method \<longleftrightarrow>
     method = METHOD_HTTP2_SERVER_FRAMES \<and> frame_type = HTTP2_SETTINGS_FRAME \<and> stream_id = 0"

definition looks_like_http2_frame :: "mem \<Rightarrow> u64 \<Rightarrow> u64 \<Rightarrow> u8 \<Rightarrow> bool" where
  "looks_like_http2_frame m buf sz method =
     (case bpf_probe_read m 4 buf of
        None \<Rightarrow> False
      | Some w \<Rightarrow>
          (let frame_length = drop_bit 8 (bpf_htonl (le_word w)) in
           if ucast (frame_length + 9) > sz then is_client_preface m buf sz method
           else (case bpf_probe_read m 1 (buf + 3) of
             None \<Rightarrow> False
           | Some t \<Rightarrow>
               (let frame_type = t ! 0 in
                if frame_type > 9 then is_client_preface m buf sz method
                else (case bpf_probe_read m 4 (buf + 5) of
                  None \<Rightarrow> False
                | Some i \<Rightarrow>
                    (let stream_id = le_word i in
                     if \<not> HTTP2_CLIENT_INITIATED_STREAM stream_id
                     then is_server_preface frame_type stream_id method
                     else True))))))"

section \<open>Dubbo\<close>

abbreviation (input) DUBBO_HEADER_LENGTH :: u64 where "DUBBO_HEADER_LENGTH \<equiv> 16"
abbreviation (input) DUBBO_MAGIC_HIGH :: u8 where "DUBBO_MAGIC_HIGH \<equiv> 0xda"
abbreviation (input) DUBBO_MAGIC_LOW :: u8 where "DUBBO_MAGIC_LOW \<equiv> 0xbb"
abbreviation (input) DUBBO_SERIALMASK :: u8 where "DUBBO_SERIALMASK \<equiv> 0x1f"
abbreviation (input) DUBBO_FLAG_REQUEST :: u8 where "DUBBO_FLAG_REQUEST \<equiv> 0x80"
abbreviation (input) DUBBO_TWO_WAY :: u8 where "DUBBO_TWO_WAY \<equiv> 0x40"
abbreviation (input) DUBBO_HEARTBEAT_EVENT :: u8 where "DUBBO_HEARTBEAT_EVENT \<equiv> 0x20"
abbreviation (input) DUBBO_RESPONSE_OK :: u8 where "DUBBO_RESPONSE_OK \<equiv> 20"
abbreviation (input) DUBBO_RESPONSE_CLIENT_TIMEOUT :: u8 where "DUBBO_RESPONSE_CLIENT_TIMEOUT \<equiv> 30"
abbreviation (input) DUBBO_RESPONSE_SERVER_TIMEOUT :: u8 where "DUBBO_RESPONSE_SERVER_TIMEOUT \<equiv> 31"
abbreviation (input) DUBBO_RESPONSE_BAD_REQUEST :: u8 where "DUBBO_RESPONSE_BAD_REQUEST \<equiv> 40"
abbreviation (input) DUBBO_RESPONSE_BAD_RESPONSE :: u8 where "DUBBO_RESPONSE_BAD_RESPONSE \<equiv> 50"
abbreviation (input) DUBBO_RESPONSE_SERVICE_NOT_FOUND :: u8 where "DUBBO_RESPONSE_SERVICE_NOT_FOUND \<equiv> 60"
abbreviation (input) DUBBO_RESPONSE_SERVICE_ERROR :: u8 where "DUBBO_RESPONSE_SERVICE_ERROR \<equiv> 70"
abbreviation (input) DUBBO_RESPONSE_SERVER_ERROR :: u8 where "DUBBO_RESPONSE_SERVER_ERROR \<equiv> 80"
abbreviation (input) DUBBO_RESPONSE_CLIENT_ERROR :: u8 where "DUBBO_RESPONSE_CLIENT_ERROR \<equiv> 90"
abbreviation (input) DUBBO_RESPONSE_SERVER_THREADPOOL_EXHAUSTED_ERROR :: u8 where
  "DUBBO_RESPONSE_SERVER_THREADPOOL_EXHAUSTED_ERROR \<equiv> 100"

definition is_dubbo2_request :: "mem \<Rightarrow> u64 \<Rightarrow> u64 \<Rightarrow> bool" where
  "is_dubbo2_request m buf buf_size =
     (if buf_size < DUBBO_HEADER_LENGTH then False
      else case bpf_probe_read m 16 buf of
        None \<Rightarrow> False
      | Some b \<Rightarrow>
          if b ! 0 \<noteq> DUBBO_MAGIC_HIGH \<or> b ! 1 \<noteq> DUBBO_MAGIC_LOW then False
          else if b ! 2 AND DUBBO_SERIALMASK = 0 \<or> b ! 2 AND DUBBO_FLAG_REQUEST = 0 \<or>
                  b ! 2 AND DUBBO_TWO_WAY = 0 \<or> b ! 2 AND DUBBO_HEARTBEAT_EVENT \<noteq> 0 then False
          else True)"

definition is_dubbo2_response :: "mem \<Rightarrow> u64 \<Rightarrow> s32 \<Rightarrow> bool \<times> s32" where
  "is_dubbo2_response m buf status =
     (case bpf_probe_read m 16 buf of
        None \<Rightarrow> (False, status)
      | Some b \<Rightarrow>
          if b ! 0 \<noteq> DUBBO_MAGIC_HIGH \<or> b ! 1 \<noteq> DUBBO_MAGIC_LOW then (False, status)
          else if b ! 2 AND DUBBO_SERIALMASK = 0 \<or> b ! 2 AND DUBBO_FLAG_REQUEST \<noteq> 0 \<or>
                  b ! 2 AND DUBBO_HEARTBEAT_EVENT \<noteq> 0 then (False, status)
          else if b ! 3 = DUBBO_RESPONSE_OK then (True, STATUS_OK)
          else if b ! 3 = DUBBO_RESPONSE_CLIENT_TIMEOUT \<or> b ! 3 = DUBBO_RESPONSE_SERVER_TIMEOUT
          then (True, STATUS_FAILED)
          else if b ! 3 = DUBBO_RESPONSE_BAD_REQUEST \<or> b ! 3 = DUBBO_RESPONSE_CLIENT_ERROR \<or>
                  b ! 3 = DUBBO_RESPONSE_SERVICE_NOT_FOUND then (True, STATUS_FAILED)
          else if b ! 3 = DUBBO_RESPONSE_BAD_RESPONSE \<or> b ! 3 = DUBBO_RESPONSE_SERVICE_ERROR \<or>
                  b ! 3 = DUBBO_RESPONSE_SERVER_ERROR \<or>
                  b ! 3 = DUBBO_RESPONSE_SERVER_THREADPOOL_EXHAUSTED_ERROR then (True, STATUS_FAILED)
          else (True, STATUS_UNKNOWN))"

section \<open>DNS\<close>

abbreviation (input) DNS_QR_RESPONSE :: u8 where "DNS_QR_RESPONSE \<equiv> 0x80"
abbreviation (input) DNS_OPCODE :: u8 where "DNS_OPCODE \<equiv> 0x78"
abbreviation (input) DNS_Z :: u8 where "DNS_Z \<equiv> 0xf0"
abbreviation (input) DNS_RCODE :: u8 where "DNS_RCODE \<equiv> 0x0f"

record dns_header =
  dh_id :: s16
  dh_bits0 :: u8
  dh_bits1 :: u8
  dh_qdcount :: s16

definition dns_header_of :: "u8 list \<Rightarrow> dns_header" where
  "dns_header_of b =
     \<lparr>dh_id = le_word (field_at 0 2 b), dh_bits0 = b ! 2, dh_bits1 = b ! 3,
      dh_qdcount = le_word (field_at 4 2 b)\<rparr>"

definition is_dns_request :: "mem \<Rightarrow> u64 \<Rightarrow> u64 \<Rightarrow> s16 \<Rightarrow> bool \<times> s16" where
  "is_dns_request m buf buf_size stream_id =
     (if buf_size < 6 then (False, stream_id)
      else case bpf_probe_read m 6 buf of
        None \<Rightarrow> (False, stream_id)
      | Some b \<Rightarrow>
          (let h = dns_header_of b in
           if dh_bits0 h AND DNS_QR_RESPONSE \<noteq> 0 then (False, stream_id)
           else if dh_bits0 h AND DNS_OPCODE \<noteq> 0 then (False, stream_id)
           else
             (let h = h\<lparr>dh_qdcount := bpf_ntohs (dh_qdcount h)\<rparr> in
              if dh_qdcount h \<noteq> 1 then (False, stream_id) else (True, dh_id h))))"

definition is_dns_response :: "mem \<Rightarrow> u64 \<Rightarrow> u64 \<Rightarrow> s16 \<Rightarrow> s32 \<Rightarrow> bool \<times> s16 \<times> s32" where
  "is_dns_response m buf buf_size stream_id status =
     (if buf_size < 6 then (False, stream_id, status)
      else case bpf_probe_read m 6 buf of
        None \<Rightarrow> (False, stream_id, status)
      | Some b \<Rightarrow>
          (let h = dns_header_of b in
           if dh_bits0 h AND DNS_QR_RESPONSE = 0 then (False, stream_id, status)
           else if dh_bits0 h AND DNS_OPCODE \<noteq> 0 then (False, stream_id, status)
           else
             (let h = h\<lparr>dh_qdcount := bpf_ntohs (dh_qdcount h)\<rparr> in
              if dh_qdcount h \<noteq> 1 then (False, stream_id, status)
              else (True, dh_id h, ucast (dh_bits1 h AND DNS_RCODE)))))"

section \<open>ClickHouse\<close>

abbreviation (input) CLICKHOUSE_QUERY_ID_SIZE :: nat where "CLICKHOUSE_QUERY_ID_SIZE \<equiv> 36"
abbreviation (input) CLICKHOUSE_QUERY_KIND_INITIAL :: u8 where "CLICKHOUSE_QUERY_KIND_INITIAL \<equiv> 1"
abbreviation (input) CLICKHOUSE_QUERY_KIND_SECONDARY :: u8 where "CLICKHOUSE_QUERY_KIND_SECONDARY \<equiv> 2"
abbreviation (input) CLICKHOUSE_CLIENT_CODE_QUERY :: u8 where "CLICKHOUSE_CLIENT_CODE_QUERY \<equiv> 1"
abbreviation (input) CLICKHOUSE_SERVER_CODE_DATA :: u8 where "CLICKHOUSE_SERVER_CODE_DATA \<equiv> 1"
abbreviation (input) CLICKHOUSE_SERVER_CODE_EXCEPTION :: u8 where "CLICKHOUSE_SERVER_CODE_EXCEPTION \<equiv> 2"
abbreviation (input) CLICKHOUSE_SERVER_CODE_END_OF_STREAM :: u8 where
  "CLICKHOUSE_SERVER_CODE_END_OF_STREAM \<equiv> 5"

definition is_clickhouse_query :: "mem \<Rightarrow> u64 \<Rightarrow> u64 \<Rightarrow> bool" where
  "is_clickhouse_query m buf buf_size =
     (case bpf_probe_read m 39 buf of
        None \<Rightarrow> False
      | Some b \<Rightarrow>
          if b ! 0 \<noteq> CLICKHOUSE_CLIENT_CODE_QUERY then False
          else
            (let offset = (if b ! 1 = 0 then Some 2
                           else if unat (b ! 1) = CLICKHOUSE_QUERY_ID_SIZE
                           then Some (2 + CLICKHOUSE_QUERY_ID_SIZE) else None) in
             case offset of
               None \<Rightarrow> False
             | Some offset \<Rightarrow>
                 if b ! offset \<noteq> CLICKHOUSE_QUERY_KIND_INITIAL \<and> b ! offset \<noteq> CLICKHOUSE_QUERY_KIND_SECONDARY
                 then False else True))"

definition is_clickhouse_response :: "mem \<Rightarrow> u64 \<Rightarrow> s32 \<Rightarrow> bool \<times> s32" where
  "is_clickhouse_response m buf status =
     (case bpf_probe_read m 1 buf of
        None \<Rightarrow> (False, status)
      | Some code \<Rightarrow>
          if code ! 0 = CLICKHOUSE_SERVER_CODE_DATA \<or> code ! 0 = CLICKHOUSE_SERVER_CODE_END_OF_STREAM
          then (True, STATUS_OK)
          else if code ! 0 = CLICKHOUSE_SERVER_CODE_EXCEPTION then (True, STATUS_FAILED)
          else (False, status))"

section \<open>ZooKeeper\<close>

abbreviation (input) ZK_OP_NOTIFY :: s32 where "ZK_OP_NOTIFY \<equiv> 0"
abbreviation (input) ZK_OP_CREATE_CONTAINER :: s32 where "ZK_OP_CREATE_CONTAINER \<equiv> 19"
abbreviation (input) ZK_OP_CREATE_TTL :: s32 where "ZK_OP_CREATE_TTL \<equiv> 21"
abbreviation (input) ZK_OP_CLOSE :: s32 where "ZK_OP_CLOSE \<equiv> - 11"
abbreviation (input) ZK_OP_SET_AUTH :: s32 where "ZK_OP_SET_AUTH \<equiv> 100"
abbreviation (input) ZK_OP_SET_WATCHES :: s32 where "ZK_OP_SET_WATCHES \<equiv> 101"
abbreviation (input) ZK_OP_ERROR :: s32 where "ZK_OP_ERROR \<equiv> - 1"
abbreviation (input) ZK_ERR_RECONFIG_DISABLED :: s32 where "ZK_ERR_RECONFIG_DISABLED \<equiv> - 123"

record zk_request_header =
  zrq_length :: u32
  zrq_xid :: u32
  zrq_op_code :: u32

record zk_response_header =
  zrs_length :: u32
  zrs_xid :: u32
  zrs_zxid :: u64
  zrs_err_code :: u32

definition zk_request_header_of :: "u8 list \<Rightarrow> zk_request_header" where
  "zk_request_header_of b =
     \<lparr>zrq_length = le_word (field_at 0 4 b), zrq_xid = le_word (field_at 4 4 b),
      zrq_op_code = le_word (field_at 8 4 b)\<rparr>"

text \<open>The 64-bit \<^verbatim>\<open>zxid\<close> is aligned to 8, so the struct has 24 bytes.\<close>

definition zk_response_header_of :: "u8 list \<Rightarrow> zk_response_header" where
  "zk_response_header_of b =
     \<lparr>zrs_length = le_word (field_at 0 4 b), zrs_xid = le_word (field_at 4 4 b),
      zrs_zxid = le_word (field_at 8 8 b), zrs_err_code = le_word (field_at 16 4 b)\<rparr>"

definition is_zk_request :: "mem \<Rightarrow> u64 \<Rightarrow> u64 \<Rightarrow> bool" where
  "is_zk_request m buf buf_size =
     (case bpf_probe_read m 12 buf of
        None \<Rightarrow> False
      | Some b \<Rightarrow>
          (let req = zk_request_header_of b; xid = bpf_ntohl (zrq_xid req); op = bpf_ntohl (zrq_op_code req) in
           if ucast (bpf_ntohl (zrq_length req) + 4) \<noteq> buf_size then False
           else if xid <s 0 \<and> xid \<noteq> - 1 \<and> xid \<noteq> - 2 then False
           else if ZK_OP_NOTIFY \<le>s op \<and> op \<le>s ZK_OP_CREATE_CONTAINER then True
           else if op = ZK_OP_CREATE_TTL \<or> op = ZK_OP_CLOSE \<or> op = ZK_OP_SET_AUTH \<or>
                   op = ZK_OP_SET_WATCHES \<or> op = ZK_OP_ERROR then True
           else False))"

definition is_zk_response :: "mem \<Rightarrow> u64 \<Rightarrow> u64 \<Rightarrow> s32 \<Rightarrow> u8 \<Rightarrow> nat \<times> s32" where
  "is_zk_response m buf buf_size status partial =
     (if partial = 0 \<and> buf_size = 4 then (2, status)
      else
        (let resp = (if partial \<noteq> 0
                     then (case bpf_probe_read m 4 buf of
                             None \<Rightarrow> None
                           | Some x \<Rightarrow>
                               (case bpf_probe_read m 4 (buf + 12) of
                                  None \<Rightarrow> None
                                | Some e \<Rightarrow> Some \<lparr>zrs_length = 0, zrs_xid = le_word x, zrs_zxid = 0,
                                                  zrs_err_code = le_word e\<rparr>))
                     else (case bpf_probe_read m 24 buf of
                             None \<Rightarrow> None
                           | Some b \<Rightarrow>
                               (let resp = zk_response_header_of b in
                                if ucast (bpf_ntohl (zrs_length resp) + 4) \<noteq> buf_size then None
                                else Some resp))) in
         case resp of
           None \<Rightarrow> (0, status)
         | Some resp \<Rightarrow>
             (let xid = bpf_ntohl (zrs_xid resp) in
              if xid <s 0 \<and> xid \<noteq> - 1 \<and> xid \<noteq> - 2 then (0, status)
              else
                (let status = bpf_ntohl (zrs_err_code resp) in
                 if 0 <s status \<or> status <s ZK_ERR_RECONFIG_DISABLED then (0, status) else (1, status)))))"

section \<open>Verdicts depend on the payload only\<close>

interpretation postgres_query: classifier "\<lambda>m a sz. is_postgres_query m a sz rt" for rt
proof (unfold_locales, goal_cases)
  case (1 m a m' a' sz)
  then show ?case by (simp add: is_postgres_query_def Let_def window_reads [OF 1(1)] cong: option.case_cong if_cong)
qed

interpretation postgres_response: classifier "\<lambda>m a sz. is_postgres_response m a sz st" for st
proof (unfold_locales, goal_cases)
  case (1 m a m' a' sz)
  then show ?case
    by (simp add: is_postgres_response_def add.assoc Let_def window_reads [OF 1(1)] cong: option.case_cong if_cong)
qed

interpretation mysql_query: classifier "\<lambda>m a sz. is_mysql_query m a sz rt" for rt
proof (unfold_locales, goal_cases)
  case (1 m a m' a' sz)
  then show ?case by (simp add: is_mysql_query_def Let_def window_reads [OF 1(1)] cong: option.case_cong if_cong)
qed

interpretation mysql_response: classifier "\<lambda>m a sz. is_mysql_response m a sz rt si st" for rt si st
proof (unfold_locales, goal_cases)
  case (1 m a m' a' sz)
  then show ?case by (simp add: is_mysql_response_def Let_def window_reads [OF 1(1)] cong: option.case_cong if_cong)
qed

interpretation mongo_query: classifier is_mongo_query
proof (unfold_locales, goal_cases)
  case (1 m a m' a' sz)
  then show ?case by (simp add: is_mongo_query_def Let_def window_reads [OF 1(1)] cong: option.case_cong if_cong)
qed

interpretation mongo_response: classifier "\<lambda>m a sz. is_mongo_response m a sz pt" for pt
proof (unfold_locales, goal_cases)
  case (1 m a m' a' sz)
  then show ?case
    by (simp add: is_mongo_response_def Let_def window_reads [OF 1(1)] cong: option.case_cong if_cong)
qed

interpretation kafka_request: classifier "\<lambda>m a sz. is_kafka_request m a sz rid" for rid
proof (unfold_locales, goal_cases)
  case (1 m a m' a' sz)
  then show ?case by (simp add: is_kafka_request_def Let_def window_reads [OF 1(1)] cong: option.case_cong if_cong)
qed

interpretation kafka_response: classifier "\<lambda>m a _. is_kafka_response m a rid" for rid
proof (unfold_locales, goal_cases)
  case (1 m a m' a' sz)
  then show ?case by (simp add: is_kafka_response_def Let_def window_reads [OF 1(1)] cong: option.case_cong if_cong)
qed

interpretation cassandra_request: classifier "\<lambda>m a sz. is_cassandra_request m a sz sid" for sid
proof (unfold_locales, goal_cases)
  case (1 m a m' a' sz)
  then show ?case by (simp add: is_cassandra_request_def Let_def window_reads [OF 1(1)] cong: option.case_cong if_cong)
qed

interpretation cassandra_response: classifier "\<lambda>m a sz. is_cassandra_response m a sz sid st" for sid st
proof (unfold_locales, goal_cases)
  case (1 m a m' a' sz)
  then show ?case by (simp add: is_cassandra_response_def Let_def window_reads [OF 1(1)] cong: option.case_cong if_cong)
qed

lemma window_eq_rabbitmq_end:
  assumes "window_eq WINDOW m a m' a'"
  shows "m (a + (7 + ucast (TRUNCATE_PAYLOAD_SIZE (sz :: u32)))) =
    m' (a' + (7 + ucast (TRUNCATE_PAYLOAD_SIZE sz)))"
proof (rule window_eq_byte_word [OF assms])
  have "unat (ucast (TRUNCATE_PAYLOAD_SIZE sz) :: u64) \<le> unat (TRUNCATE_PAYLOAD_SIZE sz)"
    by (simp add: unsigned_ucast_eq)
  also have "\<dots> \<le> 1023" by (simp add: unat_TRUNCATE_u32)
  finally have "unat (ucast (TRUNCATE_PAYLOAD_SIZE sz) :: u64) \<le> 1023" .
  then show "unat (7 + ucast (TRUNCATE_PAYLOAD_SIZE sz) :: u64) < 1088"
    by (simp add: unat_word_ariths)
qed

interpretation rabbitmq: classifier "\<lambda>m a sz. rabbitmq_method_is m a sz em" for em
proof (unfold_locales, goal_cases)
  case (1 m a m' a' sz)
  then show ?case
    by (simp add: rabbitmq_method_is_def add.assoc window_eq_rabbitmq_end [OF 1(1)] Let_def window_reads [OF 1(1)]
        cong: option.case_cong if_cong)
qed

interpretation http2: classifier "\<lambda>m a sz. looks_like_http2_frame m a sz mt" for mt
proof (unfold_locales, goal_cases)
  case (1 m a m' a' sz)
  then show ?case
    by (simp add: looks_like_http2_frame_def is_client_preface_def Let_def window_reads [OF 1(1)]
        cong: option.case_cong if_cong)
qed

interpretation dubbo2_request: classifier is_dubbo2_request
proof (unfold_locales, goal_cases)
  case (1 m a m' a' sz)
  then show ?case by (simp add: is_dubbo2_request_def Let_def window_reads [OF 1(1)] cong: option.case_cong if_cong)
qed

interpretation dubbo2_response: classifier "\<lambda>m a _. is_dubbo2_response m a st" for st
proof (unfold_locales, goal_cases)
  case (1 m a m' a' sz)
  then show ?case by (simp add: is_dubbo2_response_def Let_def window_reads [OF 1(1)] cong: option.case_cong if_cong)
qed

interpretation dns_request: classifier "\<lambda>m a sz. is_dns_request m a sz sid" for sid
proof (unfold_locales, goal_cases)
  case (1 m a m' a' sz)
  then show ?case by (simp add: is_dns_request_def Let_def window_reads [OF 1(1)] cong: option.case_cong if_cong)
qed

interpretation dns_response: classifier "\<lambda>m a sz. is_dns_response m a sz sid st" for sid st
proof (unfold_locales, goal_cases)
  case (1 m a m' a' sz)
  then show ?case by (simp add: is_dns_response_def Let_def window_reads [OF 1(1)] cong: option.case_cong if_cong)
qed

interpretation clickhouse_query: classifier is_clickhouse_query
proof (unfold_locales, goal_cases)
  case (1 m a m' a' sz)
  then show ?case by (simp add: is_clickhouse_query_def Let_def window_reads [OF 1(1)] cong: option.case_cong if_cong)
qed

interpretation clickhouse_response: classifier "\<lambda>m a _. is_clickhouse_response m a st" for st
proof (unfold_locales, goal_cases)
  case (1 m a m' a' sz)
  then show ?case by (simp add: is_clickhouse_response_def Let_def window_reads [OF 1(1)] cong: option.case_cong if_cong)
qed

interpretation zk_request: classifier is_zk_request
proof (unfold_locales, goal_cases)
  case (1 m a m' a' sz)
  then show ?case by (simp add: is_zk_request_def Let_def window_reads [OF 1(1)] cong: option.case_cong if_cong)
qed

interpretation zk_response: classifier "\<lambda>m a sz. is_zk_response m a sz st pt" for st pt
proof (unfold_locales, goal_cases)
  case (1 m a m' a' sz)
  then show ?case
    by (simp add: is_zk_response_def Let_def window_reads [OF 1(1)] cong: option.case_cong if_cong)
qed

end
