(* ===== verification/L7_Wire.thy ===== *)
theory L7_Wire
  imports L7_Binary
begin

unbundle bit_operations_syntax

text \<open>
  What the binary classifiers make of well-formed messages. For each protocol the messages are
  written down as the protocol's documentation defines them, and the theorems state the verdict
  and the fields the classifiers return: correlation and stream identifiers, statuses, statement
  numbers, and the equivalence of a response read in one piece and in two.
\<close>

section \<open>Sizes and fields\<close>

lemma scast_of_nat_u64:
  assumes "n < 2 ^ 31"
  shows "scast (of_nat n :: s32) = (of_nat n :: u64)"
proof -
  have "sint (of_nat n :: s32) = int n"
    using assms by (simp add: signed_of_nat signed_take_bit_int_eq_self)
  then show ?thesis by (metis of_int_of_nat_eq of_int_sint)
qed

lemma of_nat_less_u64: "n < 2 ^ 64 \<Longrightarrow> (of_nat n :: u64) < numeral k \<longleftrightarrow> n < unat (numeral k :: u64)"
  by (simp add: word_less_nat_alt unat_of_nat)

lemma bpf_htonl_be_bytes [simp]: "bpf_htonl (le_word (be_bytes 4 (w :: u32))) = w"
  by (simp add: bytes_simps)

lemma bpf_htons_be_bytes [simp]: "bpf_htons (le_word (be_bytes 2 (w :: u16))) = w"
  by (simp add: bytes_simps)

lemma bpf_ntohl_be_bytes [simp]: "bpf_ntohl (le_word (be_bytes 4 (w :: u32))) = w"
  by (simp add: bytes_simps)

lemma holds_start: "holds_at m a (bs @ r) \<Longrightarrow> length bs = n \<Longrightarrow> bpf_probe_read m n a = Some bs"
  using bpf_probe_read_holds0 [of m a "bs @ r" n] by simp

section \<open>Kafka\<close>

text \<open>A request: length, API key, API version, correlation id, the rest of the header and the body.\<close>

definition kafka_request :: "s16 \<Rightarrow> s16 \<Rightarrow> s32 \<Rightarrow> u8 list \<Rightarrow> u8 list" where
  "kafka_request api_key api_version corr body =
     (be_bytes 4 (of_nat (8 + length body) :: u32) @ be_bytes 2 api_key @ be_bytes 2 api_version @
      be_bytes 4 corr) @ body"

definition kafka_response :: "s32 \<Rightarrow> u8 list \<Rightarrow> u8 list" where
  "kafka_response corr body =
     (be_bytes 4 (of_nat (4 + length body) :: u32) @ be_bytes 4 corr) @ body"

text \<open>
  C31. Kafka requests and responses are matched by correlation id: a well-formed request with a
  known API key and a positive correlation id is recognised and yields that id, and a response
  is accepted for a remembered request if and only if it carries the same id.
\<close>

theorem kafka_correlation:
  assumes "0 <s corr" and "0 \<le>s api_key" and "api_key \<le>s 67" and "12 + length body < 2 ^ 31"
    and "holds_at m a (kafka_request api_key api_version corr body)"
    and "holds_at m' a' (kafka_response corr' body')"
  shows "is_kafka_request m a (of_nat (length (kafka_request api_key api_version corr body))) rid = (True, corr) \<and>
    (is_kafka_response m' a' corr \<longleftrightarrow> corr' = corr)"
proof -
  let ?h = "be_bytes 4 (of_nat (8 + length body) :: u32) @ be_bytes 2 api_key @ be_bytes 2 api_version @
      be_bytes 4 corr"
  have rd: "bpf_probe_read m 12 a = Some ?h"
    by (rule holds_start) (use assms(5) in \<open>simp_all add: kafka_request_def\<close>)
  have f: "field_at 0 4 ?h = be_bytes 4 (of_nat (8 + length body) :: u32)" "field_at 4 2 ?h = be_bytes 2 api_key"
    "field_at 8 4 ?h = be_bytes 4 corr"
    using field_at_here [of "be_bytes 4 corr" 4 "[]"] by (simp_all add: field_at_simps)
  have len: "length (kafka_request api_key api_version corr body) = 12 + length body"
    by (simp add: kafka_request_def)
  have "(of_nat (8 + length body) + 4 :: s32) = of_nat (12 + length body)" by simp
  then have sz: "scast (of_nat (8 + length body) + 4 :: s32) = (of_nat (12 + length body) :: u64)"
    using scast_of_nat_u64 [OF assms(4)] by simp
  have ge: "\<not> (of_nat (12 + length body) :: u64) < 12"
    using of_nat_less_u64 [of "12 + length body"] assms(4) by simp
  have "is_kafka_request m a (of_nat (12 + length body)) rid = (True, corr)"
    using rd ge sz assms(1-3)
    by (simp add: is_kafka_request_def kafka_request_header_of_def Let_def f del: of_nat_add)
  moreover have "bpf_probe_read m' 8 a' =
      Some (be_bytes 4 (of_nat (4 + length body') :: u32) @ be_bytes 4 corr')"
    by (rule holds_start) (use assms(6) in \<open>simp_all add: kafka_response_def\<close>)
  then have "is_kafka_response m' a' corr \<longleftrightarrow> corr' = corr"
    using field_at_here [of "be_bytes 4 corr'" 4 "[]"]
    by (simp add: is_kafka_response_def kafka_response_header_of_def field_at_simps)
  ultimately show ?thesis by (simp only: len simp_thms)
qed

theorem kafka_correlation_witness:
  "is_kafka_request (mem_of 0x1000 (kafka_request 1 4 77 [])) 0x1000 12 0 = (True, 77) \<and>
   is_kafka_response (mem_of 0x2000 (kafka_response 77 [])) 0x2000 77 \<and>
   \<not> is_kafka_response (mem_of 0x2000 (kafka_response 78 [])) 0x2000 77"
proof -
  have h: "holds_at (mem_of 0x1000 (kafka_request 1 4 77 [])) 0x1000 (kafka_request 1 4 77 [])"
    "holds_at (mem_of 0x2000 (kafka_response c [])) 0x2000 (kafka_response c [])" for c
    by (simp_all add: holds_at_mem_of kafka_request_def kafka_response_def)
  show ?thesis
    using kafka_correlation [of 77 1 "[]" "mem_of 0x1000 (kafka_request 1 4 77 [])" "0x1000" 4
        "mem_of 0x2000 (kafka_response 77 [])" "0x2000" 77 "[]" 0]
      kafka_correlation [of 77 1 "[]" "mem_of 0x1000 (kafka_request 1 4 77 [])" "0x1000" 4
        "mem_of 0x2000 (kafka_response 78 [])" "0x2000" 78 "[]" 0] h
    by (simp add: kafka_request_def word_sless_alt word_sle_eq)
qed

section \<open>Cassandra and DNS\<close>

text \<open>
  A Cassandra frame (version, flags, stream, opcode, body length, body) and the start of a DNS
  message (id, two flag bytes, question count, the rest).
\<close>

definition cassandra_frame :: "u8 \<Rightarrow> u8 \<Rightarrow> s16 \<Rightarrow> u8 \<Rightarrow> u8 list \<Rightarrow> u8 list" where
  "cassandra_frame version flgs stream opcode body =
     [version, flgs] @ be_bytes 2 stream @ [opcode] @ be_bytes 4 (of_nat (length body) :: u32) @ body"

definition dns_message :: "s16 \<Rightarrow> u8 \<Rightarrow> u8 \<Rightarrow> u16 \<Rightarrow> u8 list \<Rightarrow> u8 list" where
  "dns_message ident bits0 bits1 qdcount rest =
     be_bytes 2 ident @ [bits0, bits1] @ be_bytes 2 qdcount @ rest"

lemma be_bytes_2_Cons: "\<exists>x y. be_bytes 2 (w :: u16) = [x, y]"
  by (simp add: be_bytes_def numeral_2_eq_2)

lemma le_word_be_bytes_inj: "(le_word (be_bytes 2 (v :: u16)) :: u16) = le_word (be_bytes 2 w) \<longleftrightarrow> v = w"
  using bpf_htons_be_bytes [of v] bpf_htons_be_bytes [of w] by metis

lemma read_cassandra_frame:
  assumes "holds_at m a (cassandra_frame version flgs stream opcode body)"
  shows "\<exists>b. bpf_probe_read m 6 a = Some b \<and> cassandra_header_of b =
    \<lparr>csh_version = version, csh_flags = flgs, csh_stream_id = le_word (be_bytes 2 stream), csh_opcode = opcode\<rparr>"
proof -
  obtain x y where xy: "be_bytes 2 stream = [x, y]" using be_bytes_2_Cons by blast
  obtain l0 l where l: "be_bytes 4 (of_nat (length body) :: u32) = l0 # l"
    by (metis length_be_bytes list.exhaust list.size(3) zero_neq_numeral)
  have "bpf_probe_read m 6 a = Some [version, flgs, x, y, opcode, l0]"
    by (rule holds_start [where r = "l @ body"]) (use assms in \<open>simp_all add: cassandra_frame_def xy l\<close>)
  then show ?thesis by (simp add: cassandra_header_of_def field_at_def xy)
qed

lemma read_dns_message:
  assumes "holds_at m a (dns_message ident bits0 bits1 qdcount rest)"
  shows "\<exists>b. bpf_probe_read m 6 a = Some b \<and> dns_header_of b =
    \<lparr>dh_id = le_word (be_bytes 2 ident), dh_bits0 = bits0, dh_bits1 = bits1,
     dh_qdcount = le_word (be_bytes 2 qdcount)\<rparr>"
proof -
  obtain x y where xy: "be_bytes 2 ident = [x, y]" using be_bytes_2_Cons by blast
  obtain u v where uv: "be_bytes 2 qdcount = [u, v]" using be_bytes_2_Cons by blast
  have "bpf_probe_read m 6 a = Some [x, y, bits0, bits1, u, v]"
    by (rule holds_start [where r = rest]) (use assms in \<open>simp_all add: dns_message_def xy uv\<close>)
  then show ?thesis by (simp add: dns_header_of_def field_at_def xy uv)
qed

lemma bpf_ntohs_be_bytes [simp]: "bpf_ntohs (le_word (be_bytes 2 (w :: u16))) = w"
  by (simp add: bytes_simps)

lemmas cassandra_dns_defs =
  is_cassandra_request_def is_cassandra_response_def is_dns_request_def is_dns_response_def

text \<open>
  C32. Multiplexed protocols: a Cassandra query, execute or batch frame and a one-question DNS
  query are recognised, as are their answers, and the identifiers extracted from a request and
  from an answer are equal exactly when the messages carry the same stream number or message id.
  The status is \<^verbatim>\<open>OK\<close> or \<^verbatim>\<open>FAILED\<close> by the Cassandra opcode, and the DNS response code.
\<close>

theorem stream_ids_match:
  assumes "holds_at mq q (cassandra_frame 0x04 f stream opcode body)" and "opcode \<in> {0x07, 0x0A, 0x0D}"
    and "holds_at mr r (cassandra_frame 0x84 f' stream' opcode' body')" and "opcode' \<in> {0x08, 0x00}"
    and "holds_at nq u (dns_message ident b0 b1 1 rest)" and "b0 AND 0xF8 = 0"
    and "holds_at nr v (dns_message ident' b0' b1' 1 rest')" and "b0' AND 0xF8 = 0x80"
    and "6 \<le> sz"
  shows "\<exists>i j k l. is_cassandra_request mq q sz sid = (True, i) \<and>
    is_cassandra_response mr r sz sid st = (True, j, if opcode' = 0x08 then STATUS_OK else STATUS_FAILED) \<and>
    (i = j \<longleftrightarrow> stream = stream') \<and>
    is_dns_request nq u sz sid = (True, k) \<and>
    is_dns_response nr v sz sid st = (True, l, ucast (b1' AND 0x0F)) \<and>
    (k = l \<longleftrightarrow> ident = ident')"
proof -
  have sz: "\<not> sz < 6" using assms(9) by simp
  have "b0 AND 0x80 = (b0 AND 0xF8) AND 0x80" "b0 AND 0x78 = (b0 AND 0xF8) AND 0x78"
    "b0' AND 0x80 = (b0' AND 0xF8) AND 0x80" "b0' AND 0x78 = (b0' AND 0xF8) AND 0x78"
    by (simp_all add: and.assoc)
  then have bits: "b0 AND 0x80 = 0" "b0 AND 0x78 = 0" "b0' AND 0x80 = 0x80" "b0' AND 0x78 = 0"
    using assms(6,8) by simp_all
  show ?thesis
    using read_cassandra_frame [OF assms(1)] read_cassandra_frame [OF assms(3)] read_dns_message [OF assms(5)]
      read_dns_message [OF assms(7)] assms(2,4) sz bits
    by (auto simp: cassandra_dns_defs Let_def le_word_be_bytes_inj)
qed

theorem stream_ids_match_witness:
  "\<exists>i. is_cassandra_request (mem_of 0x1000 (cassandra_frame 0x04 0 7 0x07 [])) 0x1000 9 0 = (True, i) \<and>
     is_cassandra_response (mem_of 0x1000 (cassandra_frame 0x84 0 7 0x00 [])) 0x1000 9 0 0 = (True, i, 500)"
proof -
  have h: "holds_at (mem_of 0x1000 (cassandra_frame v 0 7 oc [])) 0x1000 (cassandra_frame v 0 7 oc [])"
    "holds_at (mem_of 0x1000 (dns_message 5 x y 1 [])) 0x1000 (dns_message 5 x y 1 [])" for v oc x y
    by (simp_all add: holds_at_mem_of cassandra_frame_def dns_message_def)
  obtain i j k l where
    "is_cassandra_request (mem_of 0x1000 (cassandra_frame 0x04 0 7 0x07 [])) 0x1000 9 0 = (True, i)"
    "is_cassandra_response (mem_of 0x1000 (cassandra_frame 0x84 0 7 0x00 [])) 0x1000 9 0 0 =
      (True, j, if (0x00 :: u8) = 0x08 then STATUS_OK else STATUS_FAILED)" "i = j \<longleftrightarrow> (7 :: s16) = 7"
    using stream_ids_match [OF h(1) _ h(1) _ h(2) _ h(2), of "0x07" "0x00" 0 "0x80" 9 0 0 0 3] by auto
  then show ?thesis by simp
qed

section \<open>Responses read in two pieces\<close>

text \<open>
  A ZooKeeper reply: the length of what follows in network byte order, transaction, zxid (8
  bytes), error, body. A reply with an error has no body. A MongoDB message: the length of the
  whole in little-endian order, its number, the number it answers, the operation, the documents.
\<close>

definition zk_reply :: "s32 \<Rightarrow> u8 list \<Rightarrow> s32 \<Rightarrow> u8 list \<Rightarrow> u8 list" where
  "zk_reply xid zxid err body =
     be_bytes 4 (of_nat (16 + length body) :: u32) @ be_bytes 4 xid @ zxid @ be_bytes 4 err @ body"

definition mongo_message :: "s32 \<Rightarrow> s32 \<Rightarrow> s32 \<Rightarrow> u8 list \<Rightarrow> u8 list" where
  "mongo_message rid response_to op_code docs =
     le_bytes 4 (of_nat (16 + length docs) :: u32) @ le_bytes 4 rid @ le_bytes 4 response_to @
     le_bytes 4 op_code @ docs"

lemma zk_reply_split:
  assumes mem: "holds_at m a (zk_reply xid zxid err body @ after)" and zxid: "length zxid = 8"
    and len: "4 \<le> length body + length after" "20 + length body < 2 ^ 32" and "p \<noteq> 0"
  shows "is_zk_response m (a + 4) sz st p = is_zk_response m a (of_nat (20 + length body)) st 0"
    and "is_zk_response m a (of_nat (20 + length body)) st 0 =
      (if xid <s 0 \<and> xid \<noteq> - 1 \<and> xid \<noteq> - 2 then (0, st)
       else if 0 <s err \<or> err <s - 123 then (0, err) else (1, err))"
proof -
  let ?bs = "zk_reply xid zxid err body @ after" and ?n = "20 + length body"
  have rd: "bpf_probe_read m n (a + k) = Some (field_at (unat k) n ?bs)" if "unat k + n \<le> 24" for n k
    using that len zxid by (intro bpf_probe_read_holds_word [OF mem]) (simp add: zk_reply_def)
  have rd0: "bpf_probe_read m n a = Some (field_at 0 n ?bs)" if "n \<le> 24" for n
    using rd [of 0 n] that by simp
  have ff: "field_at off n (field_at 0 k bs) = field_at off n bs" if "off + n \<le> k" for off n k bs
    using that by (simp add: field_at_def drop_take take_take min_def)
  have f: "field_at 0 4 ?bs = be_bytes 4 (of_nat (16 + length body) :: u32)"
    "field_at 4 4 ?bs = be_bytes 4 xid" "field_at 16 4 ?bs = be_bytes 4 err"
    using zxid by (simp_all add: zk_reply_def field_at_skip field_at_here)
  have four: "(of_nat ?n :: u64) \<noteq> 4"
    using len(2) by (simp only: word_unat_eq_iff unat_of_nat) simp
  have "(ucast (of_nat ?n :: u32) :: u64) = of_nat ?n"
    using len(2) by (simp only: word_unat_eq_iff unsigned_ucast_eq unat_of_nat) (simp add: take_bit_nat_eq_self)
  moreover have "(of_nat (16 + length body) + 4 :: u32) = of_nat ?n" by simp
  ultimately have size: "(ucast (of_nat (16 + length body) + 4 :: u32) :: u64) = of_nat ?n" by metis
  show "is_zk_response m a (of_nat ?n) st 0 =
      (if xid <s 0 \<and> xid \<noteq> - 1 \<and> xid \<noteq> - 2 then (0, st)
       else if 0 <s err \<or> err <s - 123 then (0, err) else (1, err))"
    using four size
    by (simp add: is_zk_response_def zk_response_header_of_def Let_def rd0 ff f del: of_nat_add)
  moreover have "is_zk_response m (a + 4) sz st p =
      (if xid <s 0 \<and> xid \<noteq> - 1 \<and> xid \<noteq> - 2 then (0, st)
       else if 0 <s err \<or> err <s - 123 then (0, err) else (1, err))"
    using \<open>p \<noteq> 0\<close> by (simp add: is_zk_response_def Let_def add.assoc rd f)
  ultimately show "is_zk_response m (a + 4) sz st p = is_zk_response m a (of_nat ?n) st 0" by simp
qed

lemma mongo_message_split:
  assumes mem: "holds_at m a (mongo_message rid response_to op_code docs)"
    and len: "16 + length docs < 2 ^ 64" and "p \<noteq> 0"
  shows "is_mongo_response m (a + 4) sz p = is_mongo_response m a (of_nat (16 + length docs)) 0"
    and "is_mongo_response m a (of_nat (16 + length docs)) 0 =
      (if response_to \<noteq> 0 \<and> (op_code = 2013 \<or> op_code = 2012) then 1 else 0)"
proof -
  let ?bs = "mongo_message rid response_to op_code docs" and ?n = "16 + length docs"
  have rd: "bpf_probe_read m n (a + k) = Some (field_at (unat k) n ?bs)" if "unat k + n \<le> 16" for n k
    using that by (intro bpf_probe_read_holds_word [OF mem]) (simp add: mongo_message_def)
  have rd0: "bpf_probe_read m n a = Some (field_at 0 n ?bs)" if "n \<le> 16" for n
    using rd [of 0 n] that by simp
  have ff: "field_at off n (field_at 0 k bs) = field_at off n bs" if "off + n \<le> k" for off n k bs
    using that by (simp add: field_at_def drop_take take_take min_def)
  have f: "field_at 8 4 ?bs = le_bytes 4 response_to" "field_at 12 4 ?bs = le_bytes 4 op_code"
    by (simp_all add: mongo_message_def field_at_skip field_at_here)
  have four: "(of_nat ?n :: u64) \<noteq> 4"
    using len by (simp only: word_unat_eq_iff unat_of_nat) simp
  show "is_mongo_response m a (of_nat ?n) 0 =
      (if response_to \<noteq> 0 \<and> (op_code = 2013 \<or> op_code = 2012) then 1 else 0)"
    using four
    by (simp add: is_mongo_response_def mongo_header_of_def Let_def rd0 ff f del: of_nat_add)
  moreover have "is_mongo_response m (a + 4) sz p =
      (if response_to \<noteq> 0 \<and> (op_code = 2013 \<or> op_code = 2012) then 1 else 0)"
    using \<open>p \<noteq> 0\<close> by (simp add: is_mongo_response_def Let_def add.assoc rd f)
  ultimately show "is_mongo_response m (a + 4) sz p = is_mongo_response m a (of_nat ?n) 0" by simp
qed

text \<open>
  C25. A ZooKeeper or MongoDB client may read the four-byte length first and the rest with a
  second call. The first piece is reported as partial (verdict 2), and the second piece, which
  begins four bytes later, gets the verdict and the status the whole message would have got in
  one piece, whatever size is passed for it. A ZooKeeper reply is accepted with its error as
  the status if and only if its transaction is not negative or one of \<open>-1\<close> (a watch) and \<open>-2\<close> (a
  ping) and the error lies between \<open>-123\<close> and 0; a MongoDB message if and only if it answers
  another one and its operation is \<^verbatim>\<open>OP_MSG\<close> or \<^verbatim>\<open>OP_COMPRESSED\<close>. The whole ZooKeeper reply is
  read as a struct of 24 bytes, so 24 bytes have to be readable; the reply itself may be the 20
  bytes of an error.
\<close>

theorem split_response_same_verdict:
  assumes "holds_at m a (zk_reply xid zxid err body @ after)" and "length zxid = 8"
    and "4 \<le> length body + length after" and "20 + length body < 2 ^ 32"
    and "holds_at m' a' (mongo_message rid response_to op_code docs)" and "16 + length docs < 2 ^ 64"
    and "p \<noteq> 0"
  shows "is_zk_response m a 4 st 0 = (2, st) \<and>
    is_zk_response m (a + 4) sz st p = is_zk_response m a (of_nat (20 + length body)) st 0 \<and>
    (is_zk_response m a (of_nat (20 + length body)) st 0 = (1, err) \<longleftrightarrow>
      (0 \<le>s xid \<or> xid = - 1 \<or> xid = - 2) \<and> - 123 \<le>s err \<and> err \<le>s 0) \<and>
    is_mongo_response m' a' 4 0 = 2 \<and>
    is_mongo_response m' (a' + 4) sz p = is_mongo_response m' a' (of_nat (16 + length docs)) 0 \<and>
    (is_mongo_response m' a' (of_nat (16 + length docs)) 0 = 1 \<longleftrightarrow>
      response_to \<noteq> 0 \<and> (op_code = 2013 \<or> op_code = 2012))"
  using zk_reply_split [OF assms(1-4,7)] mongo_message_split [OF assms(5-7)]
  by (auto simp: is_zk_response_def [of m a 4] is_mongo_response_def [of m' a' 4] signed.not_less)

text \<open>A ZooKeeper error reply without a body (no such node), and the MongoDB answer to request 5.\<close>

theorem split_response_same_verdict_witness:
  "is_zk_response (mem_of 0x1000 (zk_reply 9 (replicate 8 0) (- 101) [] @ replicate 4 0)) 0x1000 4 7 0 = (2, 7) \<and>
   is_zk_response (mem_of 0x1000 (zk_reply 9 (replicate 8 0) (- 101) [] @ replicate 4 0)) 0x1000 20 7 0 =
     (1, - 101) \<and>
   is_zk_response (mem_of 0x1000 (zk_reply 9 (replicate 8 0) (- 101) [] @ replicate 4 0)) 0x1004 16 7 1 =
     (1, - 101) \<and>
   is_mongo_response (mem_of 0x1000 (mongo_message 6 5 2013 [0, 0, 0, 0])) 0x1000 20 0 = 1 \<and>
   is_mongo_response (mem_of 0x1000 (mongo_message 6 5 2013 [0, 0, 0, 0])) 0x1004 16 1 = 1"
proof -
  have "holds_at (mem_of 0x1000 (zk_reply 9 (replicate 8 0) (- 101) [] @ replicate 4 0)) 0x1000
      (zk_reply 9 (replicate 8 0) (- 101) [] @ replicate 4 0)"
    and "holds_at (mem_of 0x1000 (mongo_message 6 5 2013 [0, 0, 0, 0])) 0x1000 (mongo_message 6 5 2013 [0, 0, 0, 0])"
    by (simp_all add: holds_at_mem_of zk_reply_def mongo_message_def)
  then show ?thesis
    using split_response_same_verdict [of _ "0x1000" 9 "replicate 8 0" "- 101" "[]" "replicate 4 0"
        _ "0x1000" 6 5 2013 "[0, 0, 0, 0]" 1 7 16]
    by (simp add: word_sle_eq)
qed

section \<open>RabbitMQ\<close>

text \<open>A method frame: type 1, channel, size, class, method, arguments, the end octet.\<close>

definition amqp_method_frame :: "u16 \<Rightarrow> u16 \<Rightarrow> u16 \<Rightarrow> u8 list \<Rightarrow> u8 list" where
  "amqp_method_frame channel cl method args =
     [1] @ be_bytes 2 channel @ be_bytes 4 (of_nat (4 + length args) :: u32) @ be_bytes 2 cl @
     be_bytes 2 method @ args @ [0xCE]"

lemma rabbitmq_frame_iff:
  assumes "holds_at m a (amqp_method_frame channel cl method args @ rest)" and "length args \<le> 1019"
    and "length args + length rest < 2 ^ 32"
  shows "rabbitmq_method_is m a (of_nat (12 + length args + length rest)) em \<longleftrightarrow> cl = 60 \<and> method = em"
proof -
  let ?bs = "amqp_method_frame channel cl method args @ rest"
  let ?n = "12 + length args + length rest"
  have len: "length ?bs = ?n" by (simp add: amqp_method_frame_def)
  have rd: "bpf_probe_read m n (a + k) = Some (field_at (unat k) n ?bs)" if "unat k + n \<le> ?n" for n k
    using that len by (intro bpf_probe_read_holds_word [OF assms(1)]) simp
  have sz: "unat (of_nat (4 + length args) :: u32) = 4 + length args"
    using assms(2) by (subst unat_of_nat) simp
  have n: "unat (of_nat ?n :: u64) = ?n"
    using assms(3) by (subst unat_of_nat) simp
  have tr: "unat (ucast (TRUNCATE_PAYLOAD_SIZE (of_nat (4 + length args) :: u32)) :: u64) = 4 + length args"
    using assms(2) sz by (simp add: unsigned_ucast_eq unat_TRUNCATE_u32 take_bit_nat_eq_self)
  then have off: "unat (7 + ucast (TRUNCATE_PAYLOAD_SIZE (of_nat (4 + length args) :: u32)) :: u64) = 11 + length args"
    using assms(2) by (simp add: unat_word_ariths)
  have "(7 + of_nat (4 + length args) + 1 :: u32) = of_nat (12 + length args)" by simp
  moreover have "unat (of_nat (12 + length args) :: u32) = 12 + length args"
    using assms(2) by (subst unat_of_nat) simp
  ultimately have "unat (7 + of_nat (4 + length args) + 1 :: u32) = 12 + length args" by simp
  then have fit: "\<not> ucast (7 + of_nat (4 + length args) + 1 :: u32) > (of_nat ?n :: u64)"
    using n assms(2) by (simp add: word_less_nat_alt unsigned_ucast_eq take_bit_nat_eq_self)
  have small: "\<not> (of_nat ?n :: u64) < 12" using n by (simp add: word_less_nat_alt)
  have f: "field_at 0 1 ?bs = [1]" "field_at 3 4 ?bs = be_bytes 4 (of_nat (4 + length args) :: u32)"
    "field_at 7 2 ?bs = be_bytes 2 cl" "field_at 9 2 ?bs = be_bytes 2 method"
    "field_at (11 + length args) 1 ?bs = [0xCE]"
    using field_at_here [of "[1]" 1] field_at_here [of "be_bytes 4 (of_nat (4 + length args) :: u32)" 4]
      field_at_here [of "be_bytes 2 cl" 2] field_at_here [of "be_bytes 2 method" 2] field_at_here [of "[0xCE]" 1 rest]
    by (simp_all add: amqp_method_frame_def field_at_skip field_at_Cons)
  show ?thesis
    using small fit f off rd [of 0 1] rd [of 3 4] rd [of 7 2] rd [of 9 2]
      rd [of "7 + ucast (TRUNCATE_PAYLOAD_SIZE (of_nat (4 + length args) :: u32))" 1]
    by (simp add: rabbitmq_method_is_def Let_def add.assoc del: of_nat_add bpf_probe_read.simps One_nat_def)
qed

text \<open>The size field of a frame, and what a payload accepted with a small one looks like.\<close>

lemma amqp_size_field:
  "be_word (field_at 3 4 (amqp_method_frame channel cl method args @ rest)) = (of_nat (4 + length args) :: u32)"
  by (simp add: amqp_method_frame_def field_at_skip field_at_Cons field_at_here del: of_nat_add)

lemma amqp_method_field:
  "be_word (field_at 9 2 (amqp_method_frame channel cl method args @ rest)) = method"
  by (simp add: amqp_method_frame_def field_at_skip field_at_Cons field_at_here del: of_nat_add)

lemma rabbitmq_accepted:
  assumes mem: "holds_at m a bs" and len: "length bs < 2 ^ 32"
    and size: "be_word (field_at 3 4 bs) \<le> (1023 :: u32)"
    and ok: "rabbitmq_method_is m a (of_nat (length bs)) em"
    and n: "n = unat (be_word (field_at 3 4 bs) :: u32)"
  shows "12 \<le> length bs" "n + 8 \<le> length bs" "bs ! 0 = 1" "bs ! (7 + n) = 0xCE"
    "field_at 7 2 bs = be_bytes 2 (60 :: u16)" "field_at 9 2 bs = be_bytes 2 em"
proof -
  let ?sz = "be_word (field_at 3 4 bs) :: u32"
  have n1023: "n \<le> 1023" using size by (simp add: n word_le_nat_alt)
  have l: "unat (of_nat (length bs) :: u64) = length bs" using len by (subst unat_of_nat) simp
  show l12: "12 \<le> length bs"
    using ok l by (auto simp: rabbitmq_method_is_def word_less_nat_alt split: if_splits)
  have rd: "bpf_probe_read m k (a + i) = Some (field_at (unat i) k bs)" if "unat i + k \<le> length bs" for i k
    using that by (rule bpf_probe_read_holds_word [OF mem])
  have sw: "bpf_htonl (le_word (field_at 3 4 bs)) = ?sz"
    using l12 by (simp add: bpf_hton_le_word length_field_at)
  have "unat (7 + ?sz + 1) = n + 8" using n1023 by (simp add: n unat_word_ariths)
  then have "unat (ucast (7 + ?sz + 1) :: u64) = n + 8"
    using n1023 by (simp add: unsigned_ucast_eq take_bit_nat_eq_self)
  moreover have "\<not> ucast (7 + ?sz + 1) > (of_nat (length bs) :: u64)"
    using ok l12 rd [of 0 1] rd [of 3 4]
    by (auto simp: rabbitmq_method_is_def Let_def sw simp del: bpf_probe_read.simps split: if_splits)
  ultimately show fit: "n + 8 \<le> length bs" using l by (simp add: word_less_nat_alt)
  have "unat (ucast (TRUNCATE_PAYLOAD_SIZE ?sz) :: u64) = n"
    using n1023 by (simp add: n unsigned_ucast_eq unat_TRUNCATE_u32 take_bit_nat_eq_self)
  then have off: "unat (7 + ucast (TRUNCATE_PAYLOAD_SIZE ?sz) :: u64) = 7 + n"
    using n1023 by (simp add: unat_word_ariths)
  have "field_at 0 1 bs ! 0 = 1 \<and> field_at (7 + n) 1 bs ! 0 = 0xCE \<and>
      bpf_htons (le_word (field_at 7 2 bs)) = (60 :: u16) \<and> bpf_htons (le_word (field_at 9 2 bs)) = em"
    using ok l12 fit off rd [of 0 1] rd [of 3 4] rd [of 7 2] rd [of 9 2]
      rd [of "7 + ucast (TRUNCATE_PAYLOAD_SIZE ?sz)" 1]
    by (auto simp: rabbitmq_method_is_def Let_def sw add.assoc simp del: bpf_probe_read.simps split: if_splits)
  then show "bs ! 0 = 1" "bs ! (7 + n) = 0xCE"
    "field_at 7 2 bs = be_bytes 2 (60 :: u16)" "field_at 9 2 bs = be_bytes 2 em"
    using l12 fit be_bytes_be_word [of "field_at 7 2 bs" 2, where 'a = 16]
      be_bytes_be_word [of "field_at 9 2 bs" 2, where 'a = 16]
    by (auto simp: nth_field_at length_field_at bpf_hton_le_word)
qed

lemma rabbitmq_accepted_size:
  assumes "field_at 7 2 bs = be_bytes 2 (60 :: u16)" "field_at 9 2 bs = be_bytes 2 (em :: u16)"
    and "em = 40 \<or> em = 60" and "bs ! (7 + n) = 0xCE" and "12 \<le> length bs"
  shows "4 \<le> n"
proof (rule ccontr)
  assume "\<not> 4 \<le> n"
  then consider "n = 0" | "n = 1" | "n = 2" | "n = 3" by linarith
  moreover have "be_bytes 2 (60 :: u16) = [0, 60]" "be_bytes 2 (40 :: u16) = [0, 40]"
    using be_bytes_be_word [of "[0, 60]" 2, where 'a = 16] be_bytes_be_word [of "[0, 40]" 2, where 'a = 16]
    by (simp_all add: be_word_def)
  then have "bs ! 7 = 0" "bs ! 8 = 60" "bs ! 9 = 0" "bs ! 10 = 40 \<or> bs ! 10 = 60"
    using assms(1-3,5) nth_field_at [of 0 2 7 bs] nth_field_at [of 1 2 7 bs] nth_field_at [of 0 2 9 bs]
      nth_field_at [of 1 2 9 bs]
    by auto
  ultimately show False using assms(4) by cases auto
qed

lemma rabbitmq_frame_of:
  assumes mem: "holds_at m a bs" and len: "length bs < 2 ^ 32"
    and size: "be_word (field_at 3 4 bs) \<le> (1023 :: u32)"
    and ok: "rabbitmq_method_is m a (of_nat (length bs)) em" and em: "em = 40 \<or> em = 60"
  shows "\<exists>channel args rest. bs = amqp_method_frame channel 60 em args @ rest"
proof -
  define n where "n = unat (be_word (field_at 3 4 bs) :: u32)"
  note acc = rabbitmq_accepted [OF mem len size ok n_def]
  have n4: "4 \<le> n" using rabbitmq_accepted_size acc em by blast
  define args where "args = take (n - 4) (drop 11 bs)"
  have la: "length args = n - 4" using acc(2) n4 by (simp add: args_def)
  have "of_nat (4 + length args) = (be_word (field_at 3 4 bs) :: u32)"
    using n4 unfolding la by (simp add: n_def del: of_nat_add)
  then have sz: "field_at 3 4 bs = be_bytes 4 (of_nat (4 + length args) :: u32)"
    using acc(1) be_bytes_be_word [of "field_at 3 4 bs" 4, where 'a = 32] by (simp add: length_field_at)
  have cut: "drop i bs = field_at i k bs @ drop (i + k) bs" for i k
    by (metis append_take_drop_id drop_drop add.commute field_at_def)
  have "bs = field_at 0 1 bs @ field_at 1 2 bs @ field_at 3 4 bs @ field_at 7 2 bs @ field_at 9 2 bs @
      field_at 11 (n - 4) bs @ field_at (7 + n) 1 bs @ drop (8 + n) bs"
    using cut [of 0 1] cut [of 1 2] cut [of 3 4] cut [of 7 2] cut [of 9 2] cut [of 11 "n - 4"]
      cut [of "7 + n" 1] n4
    by (simp add: numeral_3_eq_3)
  moreover have "field_at 0 1 bs = [1]" "field_at (7 + n) 1 bs = [0xCE]"
    using acc(1-4) by (simp_all add: field_at_def take_Suc hd_drop_conv_nth hd_conv_nth flip: length_0_conv)
  moreover have "field_at 1 2 bs = be_bytes 2 (be_word (field_at 1 2 bs) :: u16)"
    using acc(1) by (simp add: be_bytes_be_word length_field_at)
  ultimately have "bs = amqp_method_frame (be_word (field_at 1 2 bs)) 60 em args @ drop (8 + n) bs"
    using acc(5,6) sz by (simp add: amqp_method_frame_def args_def field_at_def)
  then show ?thesis by blast
qed

lemma rabbitmq_method_iff:
  assumes "holds_at m a bs" and "length bs < 2 ^ 32" and "be_word (field_at 3 4 bs) \<le> (1023 :: u32)"
    and "em = 40 \<or> em = 60"
  shows "rabbitmq_method_is m a (of_nat (length bs)) em \<longleftrightarrow>
    (\<exists>channel args rest. bs = amqp_method_frame channel 60 em args @ rest)"
proof
  assume "\<exists>channel args rest. bs = amqp_method_frame channel 60 em args @ rest"
  then obtain channel args rest where bs: "bs = amqp_method_frame channel 60 em args @ rest" by blast
  have l: "length bs = 12 + length args + length rest" by (simp add: bs amqp_method_frame_def)
  have "unat (of_nat (4 + length args) :: u32) \<le> 1023"
    using assms(3) unfolding bs amqp_size_field by (simp add: word_le_nat_alt del: of_nat_add)
  moreover have "unat (of_nat (4 + length args) :: u32) = 4 + length args"
    using assms(2) l by (subst unat_of_nat) simp
  ultimately show "rabbitmq_method_is m a (of_nat (length bs)) em"
    using rabbitmq_frame_iff [of m a channel 60 em args rest em] assms(1,2) bs l by simp
qed (use rabbitmq_frame_of [OF assms(1-3) _ assms(4)] in blast)

text \<open>
  C40. RabbitMQ: a payload whose size field (bytes 3 to 6) is at most 1023 is taken for a produce
  if and only if it begins with a complete AMQP method frame of \<^verbatim>\<open>basic.publish\<close>, end octet
  included, and for a consume if and only if it begins with one of \<^verbatim>\<open>basic.deliver\<close>, whatever
  follows the frame. With a larger size field the code looks for the end octet at a fixed place,
  and the comparison with the payload can wrap around (below).
\<close>

theorem rabbitmq_produce_consume_iff:
  assumes "holds_at m a bs" and "length bs < 2 ^ 32" and "be_word (field_at 3 4 bs) \<le> (1023 :: u32)"
  shows "(is_rabbitmq_produce m a (of_nat (length bs)) \<longleftrightarrow>
      (\<exists>channel args rest. bs = amqp_method_frame channel 60 40 args @ rest)) \<and>
    (is_rabbitmq_consume m a (of_nat (length bs)) \<longleftrightarrow>
      (\<exists>channel args rest. bs = amqp_method_frame channel 60 60 args @ rest))"
  unfolding is_rabbitmq_produce_def is_rabbitmq_consume_def
  using rabbitmq_method_iff [OF assms, of 40] rabbitmq_method_iff [OF assms, of 60] by simp

theorem rabbitmq_produce_consume_iff_witness:
  "is_rabbitmq_produce (mem_of 0x1000 (amqp_method_frame 1 60 40 [0, 0] @ [7])) 0x1000 15 \<and>
   \<not> is_rabbitmq_consume (mem_of 0x1000 (amqp_method_frame 1 60 40 [0, 0] @ [7])) 0x1000 15"
proof -
  let ?bs = "amqp_method_frame 1 60 40 [0, 0] @ [7]"
  have h: "holds_at (mem_of 0x1000 ?bs) 0x1000 ?bs"
    by (rule holds_at_mem_of) (simp add: amqp_method_frame_def)
  have l: "length ?bs = 15" and s: "be_word (field_at 3 4 ?bs) \<le> (1023 :: u32)"
    unfolding amqp_size_field by (simp_all add: amqp_method_frame_def)
  have "\<nexists>channel args rest. ?bs = amqp_method_frame channel 60 60 args @ rest"
  proof (intro notI, elim exE)
    fix channel args rest assume "?bs = amqp_method_frame channel 60 60 args @ rest"
    then have "(40 :: u16) = 60"
      using amqp_method_field [of 1 60 40 "[0, 0]" "[7]"] amqp_method_field [of channel 60 60 args rest] by metis
    then show False by simp
  qed
  then show ?thesis using rabbitmq_produce_consume_iff [OF h _ s] l by auto
qed

text \<open>
  The comparison of the frame with the payload is made in 32 bits: a size field of
  \<^verbatim>\<open>0xfffffff8\<close> or more wraps around and passes for any payload of at least 12 bytes, and the
  end octet is then looked for at position 1030.
\<close>

theorem rabbitmq_size_check_wraps:
  "\<exists>m a. bpf_probe_read m 4 (a + 3) = Some (be_bytes 4 (0xfffffff8 :: u32)) \<and> is_rabbitmq_produce m a 12"
proof -
  let ?bs = "[1, 0, 1] @ be_bytes 4 (0xfffffff8 :: u32) @ be_bytes 2 (60 :: u16) @ be_bytes 2 (40 :: u16) @
    replicate 1019 0 @ [0xCE]"
  have h: "holds_at (mem_of 0x1000 ?bs) 0x1000 ?bs" by (simp add: holds_at_mem_of)
  have rd: "bpf_probe_read (mem_of 0x1000 ?bs) n (0x1000 + k) = Some (field_at (unat k) n ?bs)"
    if "unat k + n \<le> 1031" for n k
    using that by (intro bpf_probe_read_holds_word [OF h]) simp
  have f: "field_at 0 1 ?bs = [1]" "field_at 3 4 ?bs = be_bytes 4 (0xfffffff8 :: u32)"
    "field_at 7 2 ?bs = be_bytes 2 (60 :: u16)" "field_at 9 2 ?bs = be_bytes 2 (40 :: u16)"
    "field_at 1030 1 ?bs = [0xCE]"
    using field_at_here [of "[1]" 1] field_at_here [of "be_bytes 4 (0xfffffff8 :: u32)" 4]
      field_at_here [of "be_bytes 2 (60 :: u16)" 2] field_at_here [of "be_bytes 2 (40 :: u16)" 2]
      field_at_here [of "[0xCE]" 1 "[]"]
    by (simp_all add: field_at_skip field_at_Cons)
  have "TRUNCATE_PAYLOAD_SIZE (0xfffffff8 :: u32) = 1023" by (simp add: TRUNCATE_PAYLOAD_SIZE_def)
  then have "is_rabbitmq_produce (mem_of 0x1000 ?bs) 0x1000 12"
    using rd [of 0 1] rd [of 3 4] rd [of 7 2] rd [of 9 2] rd [of 1030 1] f
    by (simp add: is_rabbitmq_produce_def rabbitmq_method_is_def Let_def del: bpf_probe_read.simps)
  then show ?thesis using rd [of 3 4] f(2) by (intro exI [of _ "mem_of 0x1000 ?bs"] exI [of _ "0x1000"]) simp
qed

section \<open>HTTP/2\<close>

text \<open>A frame: 24-bit length, type, flags, the reserved bit and the stream number, payload.\<close>

definition http2_frame :: "u8 \<times> u8 \<times> u8 \<Rightarrow> u8 \<Rightarrow> u8 \<Rightarrow> u8 \<times> u8 \<times> u8 \<times> u8 \<Rightarrow> u8 list \<Rightarrow> u8 list" where
  "http2_frame len type flgs stream payload =
     (case (len, stream) of ((l0, l1, l2), (s0, s1, s2, s3)) \<Rightarrow>
        [l0, l1, l2, type, flgs, s0, s1, s2, s3] @ payload)"

definition http2_length :: "u8 \<times> u8 \<times> u8 \<Rightarrow> nat" where
  "http2_length len = (case len of (l0, l1, l2) \<Rightarrow> unat l0 * 65536 + unat l1 * 256 + unat l2)"

lemma u8_lt: "unat (x :: u8) < 256" using unsigned_less [of x] by simp

lemma unat_frame_length: "unat (drop_bit 8 (be_word [l0, l1, l2, t] :: u32)) = http2_length (l0, l1, l2)"
proof -
  have "drop_bit 8 (be_word [l0, l1, l2, t] :: u32) = le_word [l2, l1, l0]"
  proof (rule bit_word_eqI)
    fix i assume "i < LENGTH(32)"
    moreover have "(8 + i) div 8 = Suc (i div 8)" by simp
    ultimately show "bit (drop_bit 8 (be_word [l0, l1, l2, t] :: u32)) i = bit (le_word [l2, l1, l0] :: u32) i"
      by (auto simp: bit_drop_bit_eq be_word_def bit_le_word simp del: le_word.simps)
  qed
  moreover have "unat (le_word [l2, l1, l0] :: u32) = unat l0 * 65536 + unat l1 * 256 + unat l2"
  proof -
    have "(le_word [l2, l1, l0] :: u32) = of_nat (unat l0 * 65536 + unat l1 * 256 + unat l2)"
      by (simp add: algebra_simps)
    moreover have "unat l0 * 65536 + unat l1 * 256 + unat l2 < 2 ^ 32"
      using u8_lt [of l0] u8_lt [of l1] u8_lt [of l2] by simp
    ultimately show ?thesis by (simp add: unat_of_nat del: of_nat_add of_nat_mult le_word.simps)
  qed
  ultimately show ?thesis by (simp add: http2_length_def)
qed

lemma client_stream_odd: "HTTP2_CLIENT_INITIATED_STREAM (le_word [s0, s1, s2, s3]) \<longleftrightarrow> odd s3"
proof -
  have "(0x01000000 :: u32) = 2 ^ 24" by simp
  then have "HTTP2_CLIENT_INITIATED_STREAM (le_word [s0, s1, s2, s3]) \<longleftrightarrow>
      bit (le_word [s0, s1, s2, s3] :: u32) 24"
    unfolding HTTP2_CLIENT_INITIATED_STREAM_def by (metis and_exp_eq_0_iff_not_bit)
  also have "\<dots> \<longleftrightarrow> odd s3" by (simp add: bit_le_word bit_0 del: le_word.simps)
  finally show ?thesis .
qed

lemma le_word_4_eq_0: "(le_word [s0, s1, s2, s3] :: u32) = 0 \<longleftrightarrow> s0 = 0 \<and> s1 = 0 \<and> s2 = 0 \<and> s3 = 0"
proof
  assume z: "(le_word [s0, s1, s2, s3] :: u32) = 0"
  have "\<not> bit ([s0, s1, s2, s3] ! j) i" if "i < 8" "j < 4" for i j
  proof -
    have "\<not> bit (le_word [s0, s1, s2, s3] :: u32) (8 * j + i)" using z by simp
    moreover have "(8 * j + i) div 8 = j" "(8 * j + i) mod 8 = i" "8 * j + i < 32" using that by auto
    ultimately show ?thesis using that by (simp add: bit_le_word del: le_word.simps)
  qed
  from this [of _ 0] this [of _ 1] this [of _ 2] this [of _ 3]
  show "s0 = 0 \<and> s1 = 0 \<and> s2 = 0 \<and> s3 = 0" by (auto intro!: bit_word_eqI)
qed simp

text \<open>
  HTTP/2: a complete frame of a known type is recognised if and only if its stream is
  client-initiated (an odd number) or it is the settings frame on stream 0 with which a server
  begins. Any other payload is recognised only as the connection preface of a client.
\<close>

theorem http2_frame_iff:
  assumes "holds_at m a (http2_frame len type flgs (s0, s1, s2, s3) payload)"
    and "n = 9 + length payload" and "n < 2 ^ 32"
  shows "looks_like_http2_frame m a (of_nat n) method \<longleftrightarrow>
    (if http2_length len \<le> length payload \<and> type \<le> 9
     then odd s3 \<or> method = METHOD_HTTP2_SERVER_FRAMES \<and> type = 4 \<and> s0 = 0 \<and> s1 = 0 \<and> s2 = 0 \<and> s3 = 0
     else method = METHOD_HTTP2_CLIENT_FRAMES \<and> 24 \<le> n \<and>
       take 5 (http2_frame len type flgs (s0, s1, s2, s3) payload) = ascii ''PRI *'')"
proof -
  obtain l0 l1 l2 where l: "len = (l0, l1, l2)" by (cases len)
  let ?bs = "[l0, l1, l2, type, flgs, s0, s1, s2, s3] @ payload"
  have h: "holds_at m a ?bs" using assms(1) by (simp add: http2_frame_def l)
  have rd: "bpf_probe_read m 4 a = Some [l0, l1, l2, type]" "bpf_probe_read m 5 a = Some [l0, l1, l2, type, flgs]"
    using bpf_probe_read_holds0 [OF h, of 4] bpf_probe_read_holds0 [OF h, of 5] by simp_all
  have rd': "bpf_probe_read m 1 (a + 3) = Some [type]" "bpf_probe_read m 4 (a + 5) = Some [s0, s1, s2, s3]"
    using bpf_probe_read_holds_word [OF h, of 3 1] bpf_probe_read_holds_word [OF h, of 5 4]
    by (simp_all add: field_at_def del: bpf_probe_read.simps)
  have n: "unat (of_nat n :: u64) = n" using assms(3) by (subst unat_of_nat) simp
  have fl: "unat (drop_bit 8 (bpf_htonl (le_word [l0, l1, l2, type]))) = http2_length len"
    using unat_frame_length [of l0 l1 l2 type] by (simp add: bytes_simps l del: le_word.simps)
  moreover have "http2_length len < 2 ^ 24"
    using u8_lt [of l0] u8_lt [of l1] u8_lt [of l2] by (simp add: http2_length_def l)
  ultimately have "unat (drop_bit 8 (bpf_htonl (le_word [l0, l1, l2, type])) + 9) = http2_length len + 9"
    by (simp add: unat_word_ariths del: le_word.simps)
  then have fit: "ucast (drop_bit 8 (bpf_htonl (le_word [l0, l1, l2, type])) + 9) > (of_nat n :: u64) \<longleftrightarrow>
      \<not> http2_length len \<le> length payload"
    using n assms(2) \<open>http2_length len < 2 ^ 24\<close>
    by (auto simp: word_less_nat_alt unsigned_ucast_eq take_bit_nat_eq_self simp del: le_word.simps)
  have pre: "is_client_preface m a (of_nat n) method \<longleftrightarrow> method = METHOD_HTTP2_CLIENT_FRAMES \<and> 24 \<le> n \<and>
      take 5 (http2_frame len type flgs (s0, s1, s2, s3) payload) = ascii ''PRI *''"
    using rd(2) n by (auto simp: is_client_preface_def word_less_nat_alt http2_frame_def l ascii_def)
  show ?thesis
    unfolding pre [symmetric]
    using rd(1) rd' fit le_word_4_eq_0 [of s0 s1 s2 s3]
    by (auto simp: looks_like_http2_frame_def Let_def client_stream_odd is_server_preface_def
        simp del: le_word.simps bpf_probe_read.simps)
qed

theorem http2_frame_iff_witness:
  "looks_like_http2_frame (mem_of 0x1000 (http2_frame (0, 0, 1) 1 4 (0, 0, 0, 3) [0])) 0x1000 10
     METHOD_HTTP2_CLIENT_FRAMES \<and>
   \<not> looks_like_http2_frame (mem_of 0x1000 (http2_frame (0, 0, 1) 1 4 (0, 0, 0, 2) [0])) 0x1000 10
     METHOD_HTTP2_CLIENT_FRAMES"
proof -
  have h: "holds_at (mem_of 0x1000 (http2_frame (0, 0, 1) 1 4 (0, 0, 0, s) [0])) 0x1000
      (http2_frame (0, 0, 1) 1 4 (0, 0, 0, s) [0])" for s
    by (rule holds_at_mem_of) (simp add: http2_frame_def)
  show ?thesis
    using http2_frame_iff [OF h, of 10 3 METHOD_HTTP2_CLIENT_FRAMES]
      http2_frame_iff [OF h, of 10 2 METHOD_HTTP2_CLIENT_FRAMES]
    by (simp add: http2_length_def)
qed

section \<open>PostgreSQL and MySQL\<close>

text \<open>
  A PostgreSQL message (type, length with itself but without the type, contents) and a MySQL
  packet with sequence number 0 (24-bit length, number, command, arguments).
\<close>

definition pg_message :: "u8 \<Rightarrow> u8 list \<Rightarrow> u8 list" where
  "pg_message type body = [type] @ be_bytes 4 (of_nat (4 + length body) :: u32) @ body"

definition mysql_packet :: "u8 \<Rightarrow> u8 list \<Rightarrow> u8 list" where
  "mysql_packet cmd args = take 3 (le_bytes 4 (of_nat (1 + length args) :: u32)) @ [0, cmd] @ args"

lemma pg_simple_query:
  assumes "holds_at m a (pg_message type body)" and "5 + length body < 2 ^ 31" and "type = 81 \<or> type = 67"
  shows "is_postgres_query m a (of_nat (5 + length body)) rt = (True, type)"
proof -
  let ?l = "be_bytes 4 (of_nat (4 + length body) :: u32)"
  have rd: "bpf_probe_read m 1 a = Some [type]" "bpf_probe_read m 4 (a + 1) = Some ?l"
    using bpf_probe_read_holds0 [OF assms(1), of 1] bpf_probe_read_holds_word [OF assms(1), of 1 4]
    by (simp_all add: pg_message_def field_at_def del: bpf_probe_read.simps)
  have "(of_nat (4 + length body) + 1 :: s32) = of_nat (5 + length body)" by simp
  then have sz: "scast (of_nat (4 + length body) + 1 :: s32) = (of_nat (5 + length body) :: u64)"
    using scast_of_nat_u64 [OF assms(2)] by simp
  have "\<not> (of_nat (5 + length body) :: u64) < 5"
    using of_nat_less_u64 [of "5 + length body"] assms(2) by simp
  then show ?thesis
    using rd sz assms(3) by (auto simp: is_postgres_query_def Let_def simp del: of_nat_add bpf_probe_read.simps)
qed

lemma mysql_length_packet:
  assumes "n < 2 ^ 24" and "take 3 b = take 3 (le_bytes 4 (of_nat n :: u32))" and "3 \<le> length b"
  shows "mysql_length b = of_nat n"
proof -
  have nth: "b ! i = ucast (drop_bit (8 * i) (of_nat n :: u32))" if "i < 3" for i
    using that arg_cong [OF assms(2), of "\<lambda>xs. xs ! i"] assms(3) by (simp add: nth_le_bytes)
  have hi: "\<not> bit (of_nat n :: u32) i" if "24 \<le> i" for i
  proof -
    have "n = take_bit 24 n" using assms(1) by (simp add: take_bit_nat_eq_self)
    then have "\<not> bit n i" using that by (metis bit_take_bit_iff not_less)
    then show ?thesis by (simp add: bit_simps)
  qed
  show ?thesis
  proof (rule bit_word_eqI)
    fix i assume "i < LENGTH(32)"
    then show "bit (mysql_length b) i = bit (of_nat n :: u32) i"
      using hi [of i] by (cases "24 \<le> i") (auto simp: mysql_length_def nth bit_simps)
  qed
qed

text \<open>
  SQL requests: a PostgreSQL simple query or close message and a MySQL query, execute,
  prepare or close packet are recognised. PostgreSQL reports the message type, MySQL the command
  for prepare and close; for MySQL queries and executions the request type keeps its old value.
\<close>

theorem sql_requests_recognised:
  assumes "holds_at m a (pg_message type body)" and "5 + length body < 2 ^ 31" and "type \<in> {81, 67}"
    and "holds_at m' a' (mysql_packet cmd args)" and "1 + length args < 2 ^ 24"
    and "cmd \<in> {3, 0x16, 0x17, 0x19}"
  shows "is_postgres_query m a (of_nat (length (pg_message type body))) rt = (True, type) \<and>
    is_mysql_query m' a' (of_nat (length (mysql_packet cmd args))) rt =
      (True, if cmd \<in> {0x16, 0x19} then cmd else rt)"
proof -
  have len: "length (pg_message type body) = 5 + length body" "length (mysql_packet cmd args) = 5 + length args"
    by (simp_all add: pg_message_def mysql_packet_def)
  let ?b = "take 3 (le_bytes 4 (of_nat (1 + length args) :: u32)) @ [0, cmd]"
  have rd: "bpf_probe_read m' 5 a' = Some ?b"
    by (rule holds_start [where r = args]) (use assms(4) in \<open>simp_all add: mysql_packet_def\<close>)
  have ml: "mysql_length ?b = of_nat (1 + length args)"
    using assms(5) by (rule mysql_length_packet) simp_all
  have "(of_nat (1 + length args) + 4 :: s32) = of_nat (5 + length args)" by simp
  then have sz: "scast (of_nat (1 + length args) + 4 :: s32) = (of_nat (5 + length args) :: u64)"
    using scast_of_nat_u64 [of "5 + length args"] assms(5) by simp
  have ge: "\<not> (of_nat (5 + length args) :: u64) < 5"
    using of_nat_less_u64 [of "5 + length args"] assms(5) by simp
  have "is_mysql_query m' a' (of_nat (5 + length args)) rt = (True, if cmd \<in> {0x16, 0x19} then cmd else rt)"
    using ge rd ml sz assms(6)
    by (auto simp: is_mysql_query_def nth_append simp del: of_nat_add)
  then show ?thesis
    unfolding len using pg_simple_query [OF assms(1,2), of rt] assms(3) by simp
qed

theorem sql_requests_recognised_witness:
  "is_postgres_query (mem_of 0x1000 (pg_message 81 [])) 0x1000 5 7 = (True, 81) \<and>
   is_mysql_query (mem_of 0x2000 (mysql_packet 0x16 [])) 0x2000 5 7 = (True, 0x16)"
proof -
  have h: "holds_at (mem_of 0x1000 (pg_message 81 [])) 0x1000 (pg_message 81 [])"
    "holds_at (mem_of 0x2000 (mysql_packet 0x16 [])) 0x2000 (mysql_packet 0x16 [])"
    by (simp_all add: holds_at_mem_of pg_message_def mysql_packet_def)
  show ?thesis
    using sql_requests_recognised [OF h(1) _ _ h(2), of 7] by (simp add: pg_message_def mysql_packet_def)
qed

end
