(* ===== verification/Foundationdb.thy ===== *)
theory Foundationdb
  imports L7_Binary
begin

unbundle bit_operations_syntax

text \<open>
  \<^verbatim>\<open>l7/foundationdb.c\<close>: packets are recognised by the FlatBuffers file identifier of the message,
  at offset 32 (with checksum) or 24 (over TLS), possibly behind a connect packet. The tables of
  identifiers are the source's, in its order.
\<close>

section \<open>File identifiers\<close>

abbreviation (input) FDB_RECRUITSTORAGEREQUEST :: u32 where "FDB_RECRUITSTORAGEREQUEST \<equiv> 905920"
abbreviation (input) FDB_COMMITTRANSACTIONREQUEST :: u32 where "FDB_COMMITTRANSACTIONREQUEST \<equiv> 93948"
abbreviation (input) FDB_GETREADVERSIONREQUEST :: u32 where "FDB_GETREADVERSIONREQUEST \<equiv> 838566"
abbreviation (input) FDB_OPENDATABASECOORDREQUEST :: u32 where "FDB_OPENDATABASECOORDREQUEST \<equiv> 214728"
abbreviation (input) FDB_GLOBALCONFIGREFRESHREQUEST :: u32 where "FDB_GLOBALCONFIGREFRESHREQUEST \<equiv> 2828131"
abbreviation (input) FDB_GETKEYSERVERLOCATIONSREQUEST :: u32 where "FDB_GETKEYSERVERLOCATIONSREQUEST \<equiv> 9144680"
abbreviation (input) FDB_GETVALUEREQUEST :: u32 where "FDB_GETVALUEREQUEST \<equiv> 8454530"
abbreviation (input) FDB_GETKEYVALUESREQUEST :: u32 where "FDB_GETKEYVALUESREQUEST \<equiv> 6795746"
abbreviation (input) FDB_GETKEYVALUESSTREAMREQUEST :: u32 where "FDB_GETKEYVALUESSTREAMREQUEST \<equiv> 6795746"
abbreviation (input) FDB_CHANGEFEEDSTREAMREQUEST :: u32 where "FDB_CHANGEFEEDSTREAMREQUEST \<equiv> 6795746"
abbreviation (input) FDB_GETMAPPEDKEYVALUESREQUEST :: u32 where "FDB_GETMAPPEDKEYVALUESREQUEST \<equiv> 6795747"
abbreviation (input) FDB_SETREQUEST :: u32 where "FDB_SETREQUEST \<equiv> 7554186"
abbreviation (input) FDB_CLEARREQUEST :: u32 where "FDB_CLEARREQUEST \<equiv> 8500026"
abbreviation (input) FDB_GETKEYREQUEST :: u32 where "FDB_GETKEYREQUEST \<equiv> 10457870"
abbreviation (input) FDB_WATCHVALUEREQUEST :: u32 where "FDB_WATCHVALUEREQUEST \<equiv> 14747733"
abbreviation (input) FDB_INITIALIZESTORAGEREQUEST :: u32 where "FDB_INITIALIZESTORAGEREQUEST \<equiv> 16665642"
abbreviation (input) FDB_INITIALIZEGRVPROXYREQUEST :: u32 where "FDB_INITIALIZEGRVPROXYREQUEST \<equiv> 8265613"
abbreviation (input) FDB_INITIALIZECOMMITPROXYREQUEST :: u32 where "FDB_INITIALIZECOMMITPROXYREQUEST \<equiv> 10344153"
abbreviation (input) FDB_INITIALIZETLOGREQUEST :: u32 where "FDB_INITIALIZETLOGREQUEST \<equiv> 15604392"
abbreviation (input) FDB_INITIALIZERATEKEEPERREQUEST :: u32 where "FDB_INITIALIZERATEKEEPERREQUEST \<equiv> 6416816"
abbreviation (input) FDB_TLOGCOMMITREQUEST :: u32 where "FDB_TLOGCOMMITREQUEST \<equiv> 4022206"
abbreviation (input) FDB_TLOGPEEKREQUEST :: u32 where "FDB_TLOGPEEKREQUEST \<equiv> 11001131"
abbreviation (input) FDB_TLOGPEEKSTREAMREQUEST :: u32 where "FDB_TLOGPEEKSTREAMREQUEST \<equiv> 10072821"
abbreviation (input) FDB_GETSTORAGEMETRICSREQUEST :: u32 where "FDB_GETSTORAGEMETRICSREQUEST \<equiv> 13290999"
abbreviation (input) FDB_GETSERVERDBINFOREQUEST :: u32 where "FDB_GETSERVERDBINFOREQUEST \<equiv> 9467439"
abbreviation (input) FDB_UPDATESERVERDBINFOREQUEST :: u32 where "FDB_UPDATESERVERDBINFOREQUEST \<equiv> 9467438"
abbreviation (input) FDB_REGISTERWORKERREQUEST :: u32 where "FDB_REGISTERWORKERREQUEST \<equiv> 14332605"
abbreviation (input) FDB_GETWORKERSREQUEST :: u32 where "FDB_GETWORKERSREQUEST \<equiv> 1254174"
abbreviation (input) FDB_STATUSREQUEST :: u32 where "FDB_STATUSREQUEST \<equiv> 14419140"
abbreviation (input) FDB_PINGREQUEST :: u32 where "FDB_PINGREQUEST \<equiv> 4707015"
abbreviation (input) FDB_ECHOREQUEST :: u32 where "FDB_ECHOREQUEST \<equiv> 10624019"
abbreviation (input) FDB_NETWORKTESTREQUEST :: u32 where "FDB_NETWORKTESTREQUEST \<equiv> 4146513"
abbreviation (input) FDB_RECRUITBLOBWORKERREQUEST :: u32 where "FDB_RECRUITBLOBWORKERREQUEST \<equiv> 72435"
abbreviation (input) FDB_INITIALIZEBLOBWORKERREQUEST :: u32 where "FDB_INITIALIZEBLOBWORKERREQUEST \<equiv> 5838547"
abbreviation (input) FDB_INITIALIZEBLOBMANAGERREQUEST :: u32 where "FDB_INITIALIZEBLOBMANAGERREQUEST \<equiv> 2567474"
abbreviation (input) FDB_HALTBLOBWORKERREQUEST :: u32 where "FDB_HALTBLOBWORKERREQUEST \<equiv> 1985879"
abbreviation (input) FDB_HALTBLOBMANAGERREQUEST :: u32 where "FDB_HALTBLOBMANAGERREQUEST \<equiv> 4149140"
abbreviation (input) FDB_BLOBGRANULEFILEREQUEST :: u32 where "FDB_BLOBGRANULEFILEREQUEST \<equiv> 4150141"
abbreviation (input) FDB_GETBLOBGRANULELOCATIONSREQUEST :: u32 where "FDB_GETBLOBGRANULELOCATIONSREQUEST \<equiv> 2508597"
abbreviation (input) FDB_ASSIGNBLOBRANGEREQUEST :: u32 where "FDB_ASSIGNBLOBRANGEREQUEST \<equiv> 905381"
abbreviation (input) FDB_REVOKEBLOBRANGEREQUEST :: u32 where "FDB_REVOKEBLOBRANGEREQUEST \<equiv> 4844288"
abbreviation (input) FDB_INITIALIZEBLOBMIGRATORREQUEST :: u32 where "FDB_INITIALIZEBLOBMIGRATORREQUEST \<equiv> 7932681"
abbreviation (input) FDB_HALTBLOBMIGRATORREQUEST :: u32 where "FDB_HALTBLOBMIGRATORREQUEST \<equiv> 4980139"
abbreviation (input) FDB_INITIALIZEENCRYPTKEYPROXYREQUEST :: u32 where "FDB_INITIALIZEENCRYPTKEYPROXYREQUEST \<equiv> 4180191"
abbreviation (input) FDB_HALTENCRYPTKEYPROXYREQUEST :: u32 where "FDB_HALTENCRYPTKEYPROXYREQUEST \<equiv> 2378138"
abbreviation (input) FDB_CONFIGTRANSACTIONGETREQUEST :: u32 where "FDB_CONFIGTRANSACTIONGETREQUEST \<equiv> 923040"
abbreviation (input) FDB_CONFIGTRANSACTIONCOMMITREQUEST :: u32 where "FDB_CONFIGTRANSACTIONCOMMITREQUEST \<equiv> 103841"
abbreviation (input) FDB_CONFIGFOLLOWERGETCHANGESREQUEST :: u32 where "FDB_CONFIGFOLLOWERGETCHANGESREQUEST \<equiv> 178935"
abbreviation (input) FDB_CONFIGBROADCASTCHANGESREQUEST :: u32 where "FDB_CONFIGBROADCASTCHANGESREQUEST \<equiv> 601281"
abbreviation (input) FDB_INITIALIZECONSISTENCYSCANREQUEST :: u32 where "FDB_INITIALIZECONSISTENCYSCANREQUEST \<equiv> 3104275"
abbreviation (input) FDB_HALTCONSISTENCYSCANREQUEST :: u32 where "FDB_HALTCONSISTENCYSCANREQUEST \<equiv> 2323417"
abbreviation (input) FDB_GETVALUEREPLY :: u32 where "FDB_GETVALUEREPLY \<equiv> 1378929"
abbreviation (input) FDB_GETKEYVALUESREPLY :: u32 where "FDB_GETKEYVALUESREPLY \<equiv> 1783066"
abbreviation (input) FDB_GETKEYVALUESSTREAMREPLY :: u32 where "FDB_GETKEYVALUESSTREAMREPLY \<equiv> 1783066"
abbreviation (input) FDB_CHANGEFEEDSTREAMREPLY :: u32 where "FDB_CHANGEFEEDSTREAMREPLY \<equiv> 1783066"
abbreviation (input) FDB_GETMAPPEDKEYVALUESREPLY :: u32 where "FDB_GETMAPPEDKEYVALUESREPLY \<equiv> 1783067"
abbreviation (input) FDB_GETKEYREPLY :: u32 where "FDB_GETKEYREPLY \<equiv> 11226513"
abbreviation (input) FDB_GETREADVERSIONREPLY :: u32 where "FDB_GETREADVERSIONREPLY \<equiv> 15709388"
abbreviation (input) FDB_TLOGCOMMITREPLY :: u32 where "FDB_TLOGCOMMITREPLY \<equiv> 3"
abbreviation (input) FDB_TLOGPEEKREPLY :: u32 where "FDB_TLOGPEEKREPLY \<equiv> 11365689"
abbreviation (input) FDB_TLOGPEEKSTREAMREPLY :: u32 where "FDB_TLOGPEEKSTREAMREPLY \<equiv> 10072848"
abbreviation (input) FDB_ACKNOWLEDGEMENTREPLY :: u32 where "FDB_ACKNOWLEDGEMENTREPLY \<equiv> 1389929"
abbreviation (input) FDB_VERSIONREPLY :: u32 where "FDB_VERSIONREPLY \<equiv> 3"
abbreviation (input) FDB_CHECKREPLY :: u32 where "FDB_CHECKREPLY \<equiv> 11"
abbreviation (input) FDB_WATCHVALUEREPLY :: u32 where "FDB_WATCHVALUEREPLY \<equiv> 3"
abbreviation (input) FDB_GETSTORAGEMETRICSREPLY :: u32 where "FDB_GETSTORAGEMETRICSREPLY \<equiv> 15491478"
abbreviation (input) FDB_INITIALIZESTORAGEREPLY :: u32 where "FDB_INITIALIZESTORAGEREPLY \<equiv> 10390645"
abbreviation (input) FDB_RECRUITSTORAGEREPLY :: u32 where "FDB_RECRUITSTORAGEREPLY \<equiv> 15877089"
abbreviation (input) FDB_GETCOMMITVERSIONREPLY :: u32 where "FDB_GETCOMMITVERSIONREPLY \<equiv> 3568822"
abbreviation (input) FDB_GETSERVERDBINFOREPLY :: u32 where "FDB_GETSERVERDBINFOREPLY \<equiv> 9467439"
abbreviation (input) FDB_STATUSREPLY :: u32 where "FDB_STATUSREPLY \<equiv> 9980504"
abbreviation (input) FDB_LOADEDREPLY :: u32 where "FDB_LOADEDREPLY \<equiv> 9956350"
abbreviation (input) FDB_REGISTERWORKERREPLY :: u32 where "FDB_REGISTERWORKERREPLY \<equiv> 16475696"
abbreviation (input) FDB_NETWORKTESTREPLY :: u32 where "FDB_NETWORKTESTREPLY \<equiv> 14465374"
abbreviation (input) FDB_ECHOSERVERINTERFACE :: u32 where "FDB_ECHOSERVERINTERFACE \<equiv> 3152015"
abbreviation (input) FDB_RECRUITBLOBWORKERREPLY :: u32 where "FDB_RECRUITBLOBWORKERREPLY \<equiv> 9908409"
abbreviation (input) FDB_INITIALIZEBLOBWORKERREPLY :: u32 where "FDB_INITIALIZEBLOBWORKERREPLY \<equiv> 6095215"
abbreviation (input) FDB_BLOBGRANULEFILEREPLY :: u32 where "FDB_BLOBGRANULEFILEREPLY \<equiv> 6858612"
abbreviation (input) FDB_GETBLOBGRANULELOCATIONSREPLY :: u32 where "FDB_GETBLOBGRANULELOCATIONSREPLY \<equiv> 2923309"
abbreviation (input) FDB_MINBLOBVERSIONREPLY :: u32 where "FDB_MINBLOBVERSIONREPLY \<equiv> 6857512"
abbreviation (input) FDB_GLOBALCONFIGREFRESHREPLY :: u32 where "FDB_GLOBALCONFIGREFRESHREPLY \<equiv> 12680327"
abbreviation (input) FDB_GETKEYSERVERLOCATIONSREPLY :: u32 where "FDB_GETKEYSERVERLOCATIONSREPLY \<equiv> 10636023"
abbreviation (input) FDB_CONFIGTRANSACTIONGETREPLY :: u32 where "FDB_CONFIGTRANSACTIONGETREPLY \<equiv> 2034110"
abbreviation (input) FDB_CONFIGTRANSACTIONGETGENERATIONREPLY :: u32 where "FDB_CONFIGTRANSACTIONGETGENERATIONREPLY \<equiv> 2934851"
abbreviation (input) FDB_CONFIGFOLLOWERGETCHANGESREPLY :: u32 where "FDB_CONFIGFOLLOWERGETCHANGESREPLY \<equiv> 234859"
abbreviation (input) FDB_CONFIGBROADCASTCHANGESREPLY :: u32 where "FDB_CONFIGBROADCASTCHANGESREPLY \<equiv> 4014928"
abbreviation (input) FDB_GETHEALTHMETRICSREPLY :: u32 where "FDB_GETHEALTHMETRICSREPLY \<equiv> 11544290"
abbreviation (input) FDB_SPLITMETRICSREPLY :: u32 where "FDB_SPLITMETRICSREPLY \<equiv> 11530792"
abbreviation (input) FDB_PROTOCOLINFOREPLY :: u32 where "FDB_PROTOCOLINFOREPLY \<equiv> 7784298"
abbreviation (input) FDB_CHECKDESCRIPTORMUTABLEREPLY :: u32 where "FDB_CHECKDESCRIPTORMUTABLEREPLY \<equiv> 7784299"
abbreviation (input) FDB_STORAGESERVERINTERFACE :: u32 where "FDB_STORAGESERVERINTERFACE \<equiv> 15302073"
abbreviation (input) FDB_GRVPROXYINTERFACE :: u32 where "FDB_GRVPROXYINTERFACE \<equiv> 8743216"
abbreviation (input) FDB_COMMITPROXYINTERFACE :: u32 where "FDB_COMMITPROXYINTERFACE \<equiv> 8954922"
abbreviation (input) FDB_MASTERINTERFACE :: u32 where "FDB_MASTERINTERFACE \<equiv> 5979145"
abbreviation (input) FDB_RATEKEEPERINTERFACE :: u32 where "FDB_RATEKEEPERINTERFACE \<equiv> 5983305"
abbreviation (input) FDB_DATADISTRIBUTORINTERFACE :: u32 where "FDB_DATADISTRIBUTORINTERFACE \<equiv> 12383874"
abbreviation (input) FDB_TLOGINTERFACE :: u32 where "FDB_TLOGINTERFACE \<equiv> 16308510"
abbreviation (input) FDB_RESOLVERINTERFACE :: u32 where "FDB_RESOLVERINTERFACE \<equiv> 1755944"
abbreviation (input) FDB_BLOBWORKERINTERFACE :: u32 where "FDB_BLOBWORKERINTERFACE \<equiv> 8358753"
abbreviation (input) FDB_BLOBMANAGERINTERFACE :: u32 where "FDB_BLOBMANAGERINTERFACE \<equiv> 369169"
abbreviation (input) FDB_ENCRYPTKEYPROXYINTERFACE :: u32 where "FDB_ENCRYPTKEYPROXYINTERFACE \<equiv> 1303419"
abbreviation (input) FDB_CONSISTENCYSCANINTERFACE :: u32 where "FDB_CONSISTENCYSCANINTERFACE \<equiv> 4983265"
abbreviation (input) FDB_WORKERINTERFACE :: u32 where "FDB_WORKERINTERFACE \<equiv> 14712718"
abbreviation (input) FDB_CLUSTERINTERFACE :: u32 where "FDB_CLUSTERINTERFACE \<equiv> 15888863"
abbreviation (input) FDB_PROCESSINTERFACE :: u32 where "FDB_PROCESSINTERFACE \<equiv> 985636"
abbreviation (input) FDB_CLIENTDBINFO :: u32 where "FDB_CLIENTDBINFO \<equiv> 5355080"
abbreviation (input) FDB_SERVERDBINFO :: u32 where "FDB_SERVERDBINFO \<equiv> 13838807"
abbreviation (input) FDB_COMMITID :: u32 where "FDB_COMMITID \<equiv> 14254927"
abbreviation (input) FDB_RANGERESULTREF :: u32 where "FDB_RANGERESULTREF \<equiv> 3985192"
abbreviation (input) FDB_UNIQUEGENERATION :: u32 where "FDB_UNIQUEGENERATION \<equiv> 16684234"
abbreviation (input) FDB_VOID :: u32 where "FDB_VOID \<equiv> 2010442"

definition fdb_operations :: "u32 list" where
  "fdb_operations =
     [FDB_GETVALUEREQUEST, FDB_GETKEYVALUESREQUEST, FDB_GETMAPPEDKEYVALUESREQUEST,
      FDB_COMMITTRANSACTIONREQUEST, FDB_GETREADVERSIONREQUEST, FDB_SETREQUEST, FDB_CLEARREQUEST,
      FDB_GETKEYREQUEST, FDB_WATCHVALUEREQUEST, FDB_OPENDATABASECOORDREQUEST,
      FDB_GLOBALCONFIGREFRESHREQUEST, FDB_GETKEYSERVERLOCATIONSREQUEST, FDB_GETSERVERDBINFOREQUEST,
      FDB_UPDATESERVERDBINFOREQUEST, FDB_REGISTERWORKERREQUEST, FDB_GETWORKERSREQUEST,
      FDB_RECRUITSTORAGEREQUEST, FDB_INITIALIZESTORAGEREQUEST, FDB_INITIALIZEGRVPROXYREQUEST,
      FDB_INITIALIZECOMMITPROXYREQUEST, FDB_INITIALIZETLOGREQUEST, FDB_INITIALIZERATEKEEPERREQUEST,
      FDB_TLOGCOMMITREQUEST, FDB_TLOGPEEKREQUEST, FDB_TLOGPEEKSTREAMREQUEST,
      FDB_GETSTORAGEMETRICSREQUEST, FDB_STATUSREQUEST, FDB_PINGREQUEST, FDB_ECHOREQUEST,
      FDB_NETWORKTESTREQUEST, FDB_RECRUITBLOBWORKERREQUEST, FDB_INITIALIZEBLOBWORKERREQUEST,
      FDB_INITIALIZEBLOBMANAGERREQUEST, FDB_HALTBLOBWORKERREQUEST, FDB_HALTBLOBMANAGERREQUEST,
      FDB_BLOBGRANULEFILEREQUEST, FDB_GETBLOBGRANULELOCATIONSREQUEST, FDB_ASSIGNBLOBRANGEREQUEST,
      FDB_REVOKEBLOBRANGEREQUEST, FDB_INITIALIZEBLOBMIGRATORREQUEST, FDB_HALTBLOBMIGRATORREQUEST,
      FDB_INITIALIZEENCRYPTKEYPROXYREQUEST, FDB_HALTENCRYPTKEYPROXYREQUEST,
      FDB_CONFIGTRANSACTIONGETREQUEST, FDB_CONFIGTRANSACTIONCOMMITREQUEST,
      FDB_CONFIGFOLLOWERGETCHANGESREQUEST, FDB_CONFIGBROADCASTCHANGESREQUEST,
      FDB_INITIALIZECONSISTENCYSCANREQUEST, FDB_HALTCONSISTENCYSCANREQUEST, FDB_STORAGESERVERINTERFACE,
      FDB_GRVPROXYINTERFACE, FDB_COMMITPROXYINTERFACE, FDB_MASTERINTERFACE, FDB_RATEKEEPERINTERFACE,
      FDB_DATADISTRIBUTORINTERFACE, FDB_TLOGINTERFACE, FDB_RESOLVERINTERFACE, FDB_BLOBWORKERINTERFACE,
      FDB_BLOBMANAGERINTERFACE, FDB_ENCRYPTKEYPROXYINTERFACE, FDB_CONSISTENCYSCANINTERFACE,
      FDB_WORKERINTERFACE, FDB_CLUSTERINTERFACE, FDB_PROCESSINTERFACE]"

definition fdb_replies :: "u32 list" where
  "fdb_replies =
     [FDB_GETVALUEREPLY, FDB_GETKEYVALUESREPLY, FDB_GETMAPPEDKEYVALUESREPLY, FDB_GETKEYREPLY,
      FDB_GETREADVERSIONREPLY, FDB_ACKNOWLEDGEMENTREPLY, FDB_VERSIONREPLY, FDB_CHECKREPLY,
      FDB_TLOGPEEKREPLY, FDB_TLOGPEEKSTREAMREPLY, FDB_GETSTORAGEMETRICSREPLY,
      FDB_INITIALIZESTORAGEREPLY, FDB_RECRUITSTORAGEREPLY, FDB_GETCOMMITVERSIONREPLY,
      FDB_GETSERVERDBINFOREPLY, FDB_STATUSREPLY, FDB_LOADEDREPLY, FDB_REGISTERWORKERREPLY,
      FDB_NETWORKTESTREPLY, FDB_ECHOSERVERINTERFACE, FDB_RECRUITBLOBWORKERREPLY,
      FDB_INITIALIZEBLOBWORKERREPLY, FDB_BLOBGRANULEFILEREPLY, FDB_GETBLOBGRANULELOCATIONSREPLY,
      FDB_MINBLOBVERSIONREPLY, FDB_GLOBALCONFIGREFRESHREPLY, FDB_GETKEYSERVERLOCATIONSREPLY,
      FDB_CONFIGTRANSACTIONGETREPLY, FDB_CONFIGTRANSACTIONGETGENERATIONREPLY,
      FDB_CONFIGFOLLOWERGETCHANGESREPLY, FDB_CONFIGBROADCASTCHANGESREPLY, FDB_GETHEALTHMETRICSREPLY,
      FDB_SPLITMETRICSREPLY, FDB_PROTOCOLINFOREPLY, FDB_CHECKDESCRIPTORMUTABLEREPLY, FDB_COMMITID,
      FDB_RANGERESULTREF, FDB_CLIENTDBINFO, FDB_SERVERDBINFO, FDB_UNIQUEGENERATION, FDB_VOID]"

section \<open>Packets\<close>

definition is_known_fdb_operation :: "u32 \<Rightarrow> bool" where
  "is_known_fdb_operation file_id \<longleftrightarrow> file_id \<in> set fdb_operations"

definition is_known_reply_file_id :: "u32 \<Rightarrow> bool" where
  "is_known_reply_file_id file_id =
     (let base_id = file_id AND 0x00FFFFFF in base_id \<in> set fdb_replies)"

definition is_foundationdb_connect_packet :: "mem \<Rightarrow> u64 \<Rightarrow> bool" where
  "is_foundationdb_connect_packet m payload =
     (case bpf_probe_read m 2 (payload + 10) of
        Some w \<Rightarrow> (let version_magic = le_word w in version_magic = (0x1FDB :: u16))
      | None \<Rightarrow> False)"

definition fdb_file_id_valid :: "bool \<Rightarrow> u8 list option \<Rightarrow> bool" where
  "fdb_file_id_valid is_request rd =
     (case rd of
        None \<Rightarrow> False
      | Some w \<Rightarrow>
          (let file_id = le_word w in
           if is_request then is_known_fdb_operation file_id else is_known_reply_file_id file_id))"

definition parse_fdb_packet :: "mem \<Rightarrow> u64 \<Rightarrow> bool \<Rightarrow> bool" where
  "parse_fdb_packet m packet_start is_request =
     (if fdb_file_id_valid is_request (bpf_probe_read m 4 (packet_start + 32)) then True
      else if fdb_file_id_valid is_request (bpf_probe_read m 4 (packet_start + 24)) then True
      else False)"

definition is_foundationdb_request :: "mem \<Rightarrow> u64 \<Rightarrow> u64 \<Rightarrow> bool" where
  "is_foundationdb_request m payload sz =
     (if is_foundationdb_connect_packet m payload
      then (case bpf_probe_read m 4 payload of
              None \<Rightarrow> False
            | Some l \<Rightarrow>
                (let connect_length = le_word l; actual_connect_size = (connect_length + 4 :: u32) in
                 if sz = ucast actual_connect_size then False
                 else if sz > ucast actual_connect_size
                 then parse_fdb_packet m (payload + ucast actual_connect_size) True
                 else False))
      else parse_fdb_packet m payload True)"

definition is_foundationdb_response :: "mem \<Rightarrow> u64 \<Rightarrow> u64 \<Rightarrow> s32 \<Rightarrow> nat \<times> s32" where
  "is_foundationdb_response m payload sz status =
     (let status = STATUS_OK in
      if is_foundationdb_connect_packet m payload
      then (case bpf_probe_read m 4 payload of
              None \<Rightarrow> (0, status)
            | Some l \<Rightarrow>
                (let connect_length = le_word l; actual_connect_size = (connect_length + 4 :: u32) in
                 if sz > ucast actual_connect_size
                 then (of_bool (parse_fdb_packet m (payload + ucast actual_connect_size) False), status)
                 else (2, status)))
      else (of_bool (parse_fdb_packet m payload False), status))"

interpretation fdb_packet: classifier "\<lambda>m a _. parse_fdb_packet m a rq" for rq
proof (unfold_locales, goal_cases)
  case (1 m a m' a' sz)
  then show ?case by (simp add: parse_fdb_packet_def window_reads [OF 1(1)])
qed

section \<open>Requests and replies on the wire\<close>

text \<open>
  A packet without TLS (length, checksum, endpoint token, root offset, file identifier, message)
  and with TLS (no checksum), and a connect packet, whose protocol version ends with the bytes
  \<^verbatim>\<open>DB 1F\<close>.
\<close>

definition fdb_plain :: "u32 \<Rightarrow> u8 list \<Rightarrow> u8 list \<Rightarrow> u32 \<Rightarrow> u32 \<Rightarrow> u8 list \<Rightarrow> u8 list" where
  "fdb_plain len checksum token root file_id msg =
     le_bytes 4 len @ checksum @ token @ le_bytes 4 root @ le_bytes 4 file_id @ msg"

definition fdb_tls :: "u32 \<Rightarrow> u8 list \<Rightarrow> u32 \<Rightarrow> u32 \<Rightarrow> u8 list \<Rightarrow> u8 list" where
  "fdb_tls len token root file_id msg = le_bytes 4 len @ token @ le_bytes 4 root @ le_bytes 4 file_id @ msg"

definition fdb_connect :: "u8 list \<Rightarrow> u8 list \<Rightarrow> u8 list" where
  "fdb_connect version rest =
     le_bytes 4 (of_nat (8 + length rest) :: u32) @ version @ [0xDB, 0x1F] @ rest"

lemma read_le4:
  assumes "holds_at m a bs" and "field_at (unat k) 4 bs = le_bytes 4 (w :: u32)" and "unat k + 4 \<le> length bs"
  shows "map_option le_word (bpf_probe_read m 4 (a + k)) = Some w"
  using bpf_probe_read_holds_word [OF assms(1,3)] assms(2) by simp

lemma parse_plain:
  assumes "holds_at m a (fdb_plain len checksum token root file_id msg)"
    and "length checksum = 8" and "length token = 16"
    and "if rq then is_known_fdb_operation file_id else is_known_reply_file_id file_id"
  shows "parse_fdb_packet m a rq"
proof -
  have "map_option le_word (bpf_probe_read m 4 (a + 32)) = Some file_id"
    by (rule read_le4 [OF assms(1)]) (use assms(2,3) in \<open>simp_all add: fdb_plain_def field_at_simps\<close>)
  then show ?thesis using assms(4) by (auto simp: parse_fdb_packet_def fdb_file_id_valid_def)
qed

lemma parse_tls:
  assumes "holds_at m a (fdb_tls len token root file_id msg)" and "length token = 16"
    and "if rq then is_known_fdb_operation file_id else is_known_reply_file_id file_id"
  shows "parse_fdb_packet m a rq"
proof -
  have "map_option le_word (bpf_probe_read m 4 (a + 24)) = Some file_id"
    by (rule read_le4 [OF assms(1)]) (use assms(2) in \<open>simp_all add: fdb_tls_def field_at_simps\<close>)
  then show ?thesis using assms(3) by (auto simp: parse_fdb_packet_def fdb_file_id_valid_def)
qed

lemma connect_packet:
  assumes "holds_at m a (fdb_connect version rest @ after)" and "length version = 6"
    and "8 + length rest + 4 < 2 ^ 32"
  shows "is_foundationdb_connect_packet m a"
    and "map_option le_word (bpf_probe_read m 4 a) = Some (of_nat (8 + length rest) :: u32)"
    and "ucast (of_nat (8 + length rest) + 4 :: u32) = (of_nat (length (fdb_connect version rest)) :: u64)"
proof -
  let ?bs = "fdb_connect version rest @ after"
  have "field_at 10 2 ?bs = [0xDB, 0x1F]"
    using assms(2) field_at_here [of "[0xDB, 0x1F]" 2 "rest @ after"]
    by (simp add: fdb_connect_def field_at_skip)
  then have "bpf_probe_read m 2 (a + 10) = Some [0xDB, 0x1F]"
    using bpf_probe_read_holds_word [OF assms(1), of 10 2] assms(2) by (simp add: fdb_connect_def)
  then show "is_foundationdb_connect_packet m a" by (simp add: is_foundationdb_connect_packet_def)
  show "map_option le_word (bpf_probe_read m 4 a) = Some (of_nat (8 + length rest) :: u32)"
    using read_le4 [OF assms(1), of 0] by (simp add: fdb_connect_def field_at_simps)
  have "(of_nat (8 + length rest) + 4 :: u32) = of_nat (12 + length rest)" by simp
  moreover have "(ucast (of_nat (12 + length rest) :: u32) :: u64) = of_nat (12 + length rest)"
    using assms(3) by (simp add: word_unat_eq_iff unsigned_ucast_eq unat_of_nat take_bit_nat_eq_self del: of_nat_add)
  ultimately show "ucast (of_nat (8 + length rest) + 4 :: u32) = (of_nat (length (fdb_connect version rest)) :: u64)"
    using assms(2) by (simp add: fdb_connect_def)
qed

lemma holds_at_append:
  assumes "holds_at m a (xs @ ys)"
  shows "holds_at m (a + of_nat (length xs)) ys"
  using bpf_probe_read_holds [OF assms, of "length xs" "length ys"]
  by (simp add: holds_at_def field_at_def)

text \<open>
  FoundationDB requests: a packet with the identifier of a known operation is recognised
  with and without TLS, and also when it follows a connect packet in the same write. A connect
  packet alone is no request, and as a response it is reported as partial.
\<close>

theorem foundationdb_requests:
  assumes op: "is_known_fdb_operation file_id"
    and plain: "holds_at m a (fdb_plain len checksum token root file_id msg)" "\<not> is_foundationdb_connect_packet m a"
    and tls: "holds_at m' a' (fdb_tls len token root file_id msg)" "\<not> is_foundationdb_connect_packet m' a'"
    and con: "holds_at n b (fdb_connect version rest @ fdb_plain len checksum token root file_id msg)"
    and lens: "length checksum = 8" "length token = 16" "length version = 6"
      "length rest + length msg + 48 < 2 ^ 32"
  shows "is_foundationdb_request m a sz \<and> is_foundationdb_request m' a' sz \<and>
    is_foundationdb_request n b
      (of_nat (length (fdb_connect version rest) + length (fdb_plain len checksum token root file_id msg))) \<and>
    \<not> is_foundationdb_request n b (of_nat (length (fdb_connect version rest))) \<and>
    is_foundationdb_response n b (of_nat (length (fdb_connect version rest))) st = (2, STATUS_OK)"
proof -
  let ?c = "length (fdb_connect version rest)" and ?p = "length (fdb_plain len checksum token root file_id msg)"
  have "8 + length rest + 4 < 2 ^ 32" using lens(4) by simp
  note cp = connect_packet [OF con lens(3) this]
  have pp: "parse_fdb_packet n (b + of_nat ?c) True"
    by (rule parse_plain [OF holds_at_append [OF con]]) (use lens op in simp_all)
  have "?c + ?p < 2 ^ 64" using lens by (simp add: fdb_connect_def fdb_plain_def)
  then have u: "unat (of_nat ?c :: u64) = ?c" "unat (of_nat (?c + ?p) :: u64) = ?c + ?p"
    by (simp_all add: unat_of_nat del: of_nat_add)
  have "0 < ?p" by (simp add: fdb_plain_def)
  then have gt: "(of_nat (?c + ?p) :: u64) > of_nat ?c" using u by (simp add: word_less_nat_alt del: of_nat_add)
  obtain l where l: "bpf_probe_read n 4 b = Some l" "le_word l = (of_nat (8 + length rest) :: u32)"
    using cp(2) by (auto simp del: of_nat_add)
  have "is_foundationdb_request n b (of_nat (?c + ?p))"
    using cp(1,3) pp gt l by (simp add: is_foundationdb_request_def Let_def del: of_nat_add)
  moreover have "\<not> is_foundationdb_request n b (of_nat ?c)"
    using cp(1,3) l by (simp add: is_foundationdb_request_def Let_def del: of_nat_add)
  moreover have "is_foundationdb_response n b (of_nat ?c) st = (2, STATUS_OK)"
    using cp(1,3) l by (simp add: is_foundationdb_response_def Let_def del: of_nat_add)
  moreover have "parse_fdb_packet m a True"
    by (rule parse_plain [OF plain(1)]) (use lens op in simp_all)
  moreover have "parse_fdb_packet m' a' True"
    by (rule parse_tls [OF tls(1)]) (use lens op in simp_all)
  ultimately show ?thesis
    using plain(2) tls(2) by (simp add: is_foundationdb_request_def del: of_nat_add)
qed

lemma fdb_operations_small: "x \<in> set fdb_operations \<Longrightarrow> x < 0x01000000"
  by (auto simp: fdb_operations_def)

text \<open>
  FoundationDB replies: a packet with the identifier of a known reply in its \<^verbatim>\<open>ErrorOr\<close>
  wrapper is recognised, with status OK, and such an identifier is never that of an operation. Of
  the operations, only \<^verbatim>\<open>GetServerDBInfo\<close> shares its bare identifier with a reply.
\<close>

theorem foundationdb_replies:
  assumes "base \<in> set fdb_replies" and "file_id = 0x02000000 OR base"
    and "holds_at m a (fdb_plain len checksum token root file_id msg)" "\<not> is_foundationdb_connect_packet m a"
    and "length checksum = 8" and "length token = 16" and "op \<in> set fdb_operations"
  shows "is_foundationdb_response m a sz st = (1, STATUS_OK) \<and> \<not> is_known_fdb_operation file_id \<and>
    (is_known_reply_file_id op \<longleftrightarrow> op = FDB_GETSERVERDBINFOREQUEST)"
proof -
  have rep: "\<forall>x\<in>set fdb_replies. x AND 0x00FFFFFF = x \<and> x < 0x01000000" by (simp add: fdb_replies_def)
  have "file_id AND 0x00FFFFFF = base"
    using rep assms(1) unfolding assms(2) by (simp add: bit.conj_disj_distrib2)
  then have known: "is_known_reply_file_id file_id" using assms(1) by (simp add: is_known_reply_file_id_def)
  have "bit file_id 25" unfolding assms(2) by (simp add: bit_or_iff)
  moreover have "\<not> bit x 25" if "x < (0x01000000 :: u32)" for x
  proof -
    have "unat x < 2 ^ 25" using that by (simp add: word_less_nat_alt)
    then have "\<not> bit (unat x) 25" by (simp add: bit_iff_odd)
    then show ?thesis by (simp add: bit_unsigned_iff)
  qed
  ultimately have "file_id \<notin> set fdb_operations" using fdb_operations_small by blast
  moreover have "\<forall>op\<in>set fdb_operations. is_known_reply_file_id op \<longleftrightarrow> op = FDB_GETSERVERDBINFOREQUEST"
    by (simp add: fdb_operations_def is_known_reply_file_id_def fdb_replies_def)
  moreover have "parse_fdb_packet m a False"
    by (rule parse_plain [OF assms(3,5,6)]) (use known in simp)
  ultimately show ?thesis
    using assms(4,7) by (simp add: is_foundationdb_response_def Let_def is_known_fdb_operation_def)
qed

theorem foundationdb_requests_witness:
  "is_foundationdb_request
     (mem_of 0x1000 (fdb_plain 40 (replicate 8 1) (replicate 16 2) 12 FDB_GETVALUEREQUEST [])) 0x1000 36 \<and>
   \<not> is_foundationdb_request (mem_of 0x1000 (fdb_connect (replicate 6 0) [] @
       fdb_plain 40 (replicate 8 1) (replicate 16 2) 12 FDB_GETVALUEREQUEST [])) 0x1000 12"
proof -
  let ?p = "fdb_plain 40 (replicate 8 1) (replicate 16 2) 12 FDB_GETVALUEREQUEST []"
  let ?t = "fdb_tls 40 (replicate 16 2) 12 FDB_GETVALUEREQUEST []"
  let ?c = "fdb_connect (replicate 6 0) []"
  have h: "holds_at (mem_of 0x1000 ?p) 0x1000 ?p" "holds_at (mem_of 0x1000 ?t) 0x1000 ?t"
    "holds_at (mem_of 0x1000 (?c @ ?p)) 0x1000 (?c @ ?p)"
    by (simp_all add: holds_at_mem_of fdb_plain_def fdb_tls_def fdb_connect_def)
  have "field_at 10 2 ?p = [1, 1]" "field_at 10 2 ?t = [2, 2]"
    by (simp_all add: fdb_plain_def fdb_tls_def field_at_skip) (simp_all add: field_at_def numeral_2_eq_2)
  then have rd: "bpf_probe_read (mem_of 0x1000 ?p) 2 (0x1000 + 10) = Some [1, 1]"
    "bpf_probe_read (mem_of 0x1000 ?t) 2 (0x1000 + 10) = Some [2, 2]"
    using bpf_probe_read_holds_word [OF h(1), of 10 2] bpf_probe_read_holds_word [OF h(2), of 10 2]
    by (simp_all add: fdb_plain_def fdb_tls_def)
  then have nc: "\<not> is_foundationdb_connect_packet (mem_of 0x1000 ?p) 0x1000"
    "\<not> is_foundationdb_connect_packet (mem_of 0x1000 ?t) 0x1000"
    by (simp_all add: is_foundationdb_connect_packet_def)
  have op: "is_known_fdb_operation FDB_GETVALUEREQUEST" by (simp add: is_known_fdb_operation_def fdb_operations_def)
  have "length ?c = 12" by (simp add: fdb_connect_def)
  then show ?thesis
    using foundationdb_requests [OF op h(1) nc(1) h(2) nc(2) h(3), of 36 0] by simp
qed

theorem foundationdb_replies_witness:
  "is_foundationdb_response
     (mem_of 0x1000 (fdb_plain 40 (replicate 8 1) (replicate 16 2) 12 (0x02000000 OR FDB_GETVALUEREPLY) []))
     0x1000 36 0 = (1, 200)"
proof -
  let ?p = "fdb_plain 40 (replicate 8 1) (replicate 16 2) 12 (0x02000000 OR FDB_GETVALUEREPLY) []"
  have h: "holds_at (mem_of 0x1000 ?p) 0x1000 ?p" by (rule holds_at_mem_of) (simp add: fdb_plain_def)
  have "field_at 10 2 ?p = [1, 1]" by (simp add: fdb_plain_def field_at_skip) (simp add: field_at_def numeral_2_eq_2)
  then have "bpf_probe_read (mem_of 0x1000 ?p) 2 (0x1000 + 10) = Some [1, 1]"
    using bpf_probe_read_holds_word [OF h, of 10 2] by (simp add: fdb_plain_def)
  then have nc: "\<not> is_foundationdb_connect_packet (mem_of 0x1000 ?p) 0x1000"
    by (simp add: is_foundationdb_connect_packet_def)
  have "FDB_GETVALUEREPLY \<in> set fdb_replies" "FDB_GETVALUEREQUEST \<in> set fdb_operations"
    by (simp_all add: fdb_replies_def fdb_operations_def)
  then show ?thesis
    using foundationdb_replies [OF _ refl h nc, of FDB_GETVALUEREQUEST 36 0] by simp
qed

end
