(* ===== verification/L7.thy ===== *)
theory L7
  imports Tcp_State L7_Wire Foundationdb
begin

unbundle bit_operations_syntax

text \<open>
  \<^verbatim>\<open>l7/l7.c\<close>: the tracing of requests and responses. A write on a tracked connection is
  classified; a request is kept in \<^verbatim>\<open>active_l7_requests\<close>, some messages are reported at once.
  A read is noted on entry (\<^verbatim>\<open>active_reads\<close>) and on exit matched with the kept request of its
  connection, which is then reported. The values behind \<^verbatim>\<open>l7_event_heap\<close>, \<^verbatim>\<open>l7_request_heap\<close>
  and \<^verbatim>\<open>iovec_buf_heap\<close> are per CPU and keep what earlier runs left in them.

  The two long handlers are cut along their blocks: \<open>read_iovec\<close>, \<open>classify_write\<close>,
  \<open>exit_read_payload\<close>, \<open>find_request\<close> and \<open>match_response\<close> are pieces of them.
\<close>

section \<open>State\<close>

abbreviation (input) PROTOCOL_UNKNOWN :: u8 where "PROTOCOL_UNKNOWN \<equiv> 0"
abbreviation (input) PROTOCOL_HTTP :: u8 where "PROTOCOL_HTTP \<equiv> 1"
abbreviation (input) PROTOCOL_POSTGRES :: u8 where "PROTOCOL_POSTGRES \<equiv> 2"
abbreviation (input) PROTOCOL_REDIS :: u8 where "PROTOCOL_REDIS \<equiv> 3"
abbreviation (input) PROTOCOL_MEMCACHED :: u8 where "PROTOCOL_MEMCACHED \<equiv> 4"
abbreviation (input) PROTOCOL_MYSQL :: u8 where "PROTOCOL_MYSQL \<equiv> 5"
abbreviation (input) PROTOCOL_MONGO :: u8 where "PROTOCOL_MONGO \<equiv> 6"
abbreviation (input) PROTOCOL_KAFKA :: u8 where "PROTOCOL_KAFKA \<equiv> 7"
abbreviation (input) PROTOCOL_CASSANDRA :: u8 where "PROTOCOL_CASSANDRA \<equiv> 8"
abbreviation (input) PROTOCOL_RABBITMQ :: u8 where "PROTOCOL_RABBITMQ \<equiv> 9"
abbreviation (input) PROTOCOL_NATS :: u8 where "PROTOCOL_NATS \<equiv> 10"
abbreviation (input) PROTOCOL_HTTP2 :: u8 where "PROTOCOL_HTTP2 \<equiv> 11"
abbreviation (input) PROTOCOL_DUBBO2 :: u8 where "PROTOCOL_DUBBO2 \<equiv> 12"
abbreviation (input) PROTOCOL_DNS :: u8 where "PROTOCOL_DNS \<equiv> 13"
abbreviation (input) PROTOCOL_CLICKHOUSE :: u8 where "PROTOCOL_CLICKHOUSE \<equiv> 14"
abbreviation (input) PROTOCOL_ZOOKEEPER :: u8 where "PROTOCOL_ZOOKEEPER \<equiv> 15"
abbreviation (input) PROTOCOL_FOUNDATIONDB :: u8 where "PROTOCOL_FOUNDATIONDB \<equiv> 16"

abbreviation (input) IOVEC_BUF_SIZE :: nat where "IOVEC_BUF_SIZE \<equiv> 2048"
abbreviation (input) MAX_IOVEC_SIZE :: nat where "MAX_IOVEC_SIZE \<equiv> 32"
abbreviation (input) READ_ENTRIES :: nat where "READ_ENTRIES \<equiv> 10240"

record l7_event =
  ev_fd :: u64
  ev_connection_timestamp :: u64
  ev_pid :: u32
  ev_status :: s32
  ev_duration :: u64
  ev_protocol :: u8
  ev_method :: u8
  ev_padding :: u16
  ev_statement_id :: u32
  ev_payload_size :: u64
  ev_payload :: "u8 list"

record read_args =
  ra_fd :: u64
  ra_buf :: u64
  ra_ret :: u64
  ra_iovlen :: u64

record l7_maps = retransmit_maps +
  l7_event_heap :: "u32 \<Rightarrow> l7_event"
  l7_events :: "l7_event list"
  active_reads :: "(u64, read_args) bpf_map"
  l7_request_heap :: "u32 \<Rightarrow> l7_request"
  iovec_buf_heap :: "u32 \<Rightarrow> u8 list"

record sys_enter_rw_ctx =
  rw_fd :: u64
  rw_buf :: u64
  rw_size :: u64

text \<open>The iovec descriptor and the parts of a message header the handlers use.\<close>

record iovec =
  iov_buf :: u64
  iov_size :: u64

record user_msghdr =
  msg_iov :: u64
  msg_iovlen :: u64

definition iovec_of :: "u8 list \<Rightarrow> iovec" where
  "iovec_of b = \<lparr>iov_buf = le_word (field_at 0 8 b), iov_size = le_word (field_at 8 8 b)\<rparr>"

definition user_msghdr_of :: "u8 list \<Rightarrow> user_msghdr" where
  "user_msghdr_of b = \<lparr>msg_iov = le_word (field_at 16 8 b), msg_iovlen = le_word (field_at 24 8 b)\<rparr>"

text \<open>Memory with this CPU's iovec buffer in place; and storing a per-CPU value back.\<close>

definition kmem_with :: "bpf_env \<Rightarrow> u8 list \<Rightarrow> mem" where
  "kmem_with env b = overlay (env_mem env) (env_iovec_buf env) b"

definition kmem :: "bpf_env \<Rightarrow> 'a l7_maps_scheme \<Rightarrow> mem" where
  "kmem env s = kmem_with env (iovec_buf_heap s (env_cpu env))"

definition put_event :: "bpf_env \<Rightarrow> l7_event \<Rightarrow> 'a l7_maps_scheme \<Rightarrow> 'a l7_maps_scheme" where
  "put_event env e s = s\<lparr>l7_event_heap := (l7_event_heap s)(env_cpu env := e)\<rparr>"

definition put_request :: "bpf_env \<Rightarrow> l7_request \<Rightarrow> 'a l7_maps_scheme \<Rightarrow> 'a l7_maps_scheme" where
  "put_request env req s = s\<lparr>l7_request_heap := (l7_request_heap s)(env_cpu env := req)\<rparr>"

definition put_iovec_buf :: "bpf_env \<Rightarrow> u8 list \<Rightarrow> 'a l7_maps_scheme \<Rightarrow> 'a l7_maps_scheme" where
  "put_iovec_buf env b s = s\<lparr>iovec_buf_heap := (iovec_buf_heap s)(env_cpu env := b)\<rparr>"

section \<open>Copying payloads\<close>

text \<open>
  \<^verbatim>\<open>bpf_probe_read(buf + offset, n, src)\<close> into a buffer: success and the new contents. When it
  fails, what it was to write is unspecified.
\<close>

definition read_into :: "bpf_env \<Rightarrow> mem \<Rightarrow> u8 list \<Rightarrow> nat \<Rightarrow> nat \<Rightarrow> u64 \<Rightarrow> bool \<times> u8 list" where
  "read_into env m dst offset n src =
     (case bpf_probe_read m n src of
        Some bs \<Rightarrow> (True, take offset dst @ bs @ drop (offset + n) dst)
      | None \<Rightarrow> (False, take offset dst @ map (env_junk env) [0..<n] @ drop (offset + n) dst))"

definition COPY_PAYLOAD :: "bpf_env \<Rightarrow> mem \<Rightarrow> u8 list \<Rightarrow> u64 \<Rightarrow> u64 \<Rightarrow> bool \<times> u8 list" where
  "COPY_PAYLOAD env m dst sz src = read_into env m dst 0 (unat (TRUNCATE_PAYLOAD_SIZE sz)) src"

text \<open>
  The loop of \<^verbatim>\<open>read_iovec\<close> with \<open>n\<close> iterations left, at index \<open>i\<close>. The result is the number
  of bytes assembled (0 after a failed read), the sum of the sizes, and the buffer.
\<close>

fun read_iovec_loop ::
  "bpf_env \<Rightarrow> u64 \<Rightarrow> u64 \<Rightarrow> u64 \<Rightarrow> nat \<Rightarrow> nat \<Rightarrow> u64 \<Rightarrow> u64 \<Rightarrow> u8 list \<Rightarrow> u64 \<times> u64 \<times> u8 list" where
  "read_iovec_loop env iov iovlen max' 0 i offset total_size b = (offset, total_size, b)"
| "read_iovec_loop env iov iovlen max' (Suc n) i offset total_size b =
     (if of_nat i \<ge> iovlen then (offset, total_size, b)
      else case bpf_probe_read (kmem_with env b) 16 (iov + of_nat (i * 16)) of
        None \<Rightarrow> (0, total_size, b)
      | Some d \<Rightarrow>
          (let v = iovec_of d in
           if iov_size v \<le> 0 then read_iovec_loop env iov iovlen max' n (Suc i) offset total_size b
           else
             (let total_size = total_size + iov_size v in
              if offset < max' then
                (let sz = TRUNCATE_PAYLOAD_SIZE (min (iov_size v) (max' - offset));
                     offset = TRUNCATE_PAYLOAD_SIZE offset;
                     (ok, b) = read_into env (kmem_with env b) b (unat offset) (unat sz) (iov_buf v) in
                 if ok then read_iovec_loop env iov iovlen max' n (Suc i) (offset + sz) total_size b
                 else (0, total_size, b))
              else read_iovec_loop env iov iovlen max' n (Suc i) offset total_size b)))"

definition read_iovec ::
  "bpf_env \<Rightarrow> u64 \<Rightarrow> u64 \<Rightarrow> u64 \<Rightarrow> u8 list \<Rightarrow> u64 \<Rightarrow> u64 \<times> u64 \<times> u8 list" where
  "read_iovec env iov iovlen ret b total_size =
     (let max' = (if ret \<noteq> 0 then min ret MAX_PAYLOAD_SIZE else MAX_PAYLOAD_SIZE) in
      read_iovec_loop env iov iovlen max' MAX_IOVEC_SIZE 0 0 total_size b)"

section \<open>Writes\<close>

definition send_event ::
  "bpf_env \<Rightarrow> l7_event \<Rightarrow> connection_id \<Rightarrow> connection \<Rightarrow> 'a l7_maps_scheme \<Rightarrow> 'a l7_maps_scheme" where
  "send_event env e cid conn s =
     (let e = e\<lparr>ev_connection_timestamp := c_timestamp conn, ev_fd := cid_fd cid, ev_pid := cid_pid cid\<rparr>;
          s = put_event env e s in
      s\<lparr>l7_events := l7_events s @ [e]\<rparr>)"

text \<open>
  What the chain of classifiers decides. \<open>WEvent\<close>: an event is sent at once, with the given
  protocol and method, with the time or not, with the payload or not. \<open>WRequest\<close>: the request
  (of unknown protocol if nothing matched) and its key.
\<close>

datatype write_outcome =
    WEvent u8 u8 bool bool l7_request
  | WRequest l7_request l7_request_key

definition classify_write ::
  "mem \<Rightarrow> u64 \<Rightarrow> u64 \<Rightarrow> u64 \<Rightarrow> (l7_request_key \<Rightarrow> l7_request option) \<Rightarrow> l7_request \<Rightarrow> l7_request_key \<Rightarrow>
   write_outcome" where
  "classify_write m payload sz total_size active req k =
     (if is_http_request m payload then WRequest (req\<lparr>req_protocol := PROTOCOL_HTTP\<rparr>) k
      else let (postgres, rt) = is_postgres_query m payload sz (req_request_type req);
               req = req\<lparr>req_request_type := rt\<rparr> in
      if postgres then
        (if req_request_type req = POSTGRES_FRAME_CLOSE
         then WEvent PROTOCOL_POSTGRES METHOD_STATEMENT_CLOSE False True req
         else WRequest (req\<lparr>req_protocol := PROTOCOL_POSTGRES\<rparr>) k)
      else if is_redis_query m payload sz then WRequest (req\<lparr>req_protocol := PROTOCOL_REDIS\<rparr>) k
      else if is_memcached_query m payload sz then WRequest (req\<lparr>req_protocol := PROTOCOL_MEMCACHED\<rparr>) k
      else let (mysql, rt) = is_mysql_query m payload sz (req_request_type req);
               req = req\<lparr>req_request_type := rt\<rparr> in
      if mysql then
        (if req_request_type req = MYSQL_COM_STMT_CLOSE
         then WEvent PROTOCOL_MYSQL METHOD_STATEMENT_CLOSE False True req
         else WRequest (req\<lparr>req_protocol := PROTOCOL_MYSQL\<rparr>) k)
      else if is_mongo_query m payload sz then WRequest (req\<lparr>req_protocol := PROTOCOL_MONGO\<rparr>) k
      else if is_rabbitmq_produce m payload sz then WEvent PROTOCOL_RABBITMQ METHOD_PRODUCE False False req
      else if nats_method m payload sz = METHOD_PRODUCE then WEvent PROTOCOL_NATS METHOD_PRODUCE False False req
      else let (cassandra, sid) = is_cassandra_request m payload sz (k_stream_id k); k = k\<lparr>k_stream_id := sid\<rparr> in
      if cassandra then WRequest (req\<lparr>req_protocol := PROTOCOL_CASSANDRA\<rparr>) k
      else if looks_like_http2_frame m payload sz METHOD_HTTP2_CLIENT_FRAMES
      then WEvent PROTOCOL_HTTP2 METHOD_HTTP2_CLIENT_FRAMES True True req
      else if is_clickhouse_query m payload sz then WRequest (req\<lparr>req_protocol := PROTOCOL_CLICKHOUSE\<rparr>) k
      else if is_zk_request m payload total_size then WRequest (req\<lparr>req_protocol := PROTOCOL_ZOOKEEPER\<rparr>) k
      else let (kafka, rid) = is_kafka_request m payload sz (req_request_id req);
               req = req\<lparr>req_request_id := rid\<rparr> in
      if kafka then
        (let req = req\<lparr>req_protocol := PROTOCOL_KAFKA\<rparr> in
         case active k of
           None \<Rightarrow> WRequest req k
         | Some prev_req \<Rightarrow>
             if req_protocol prev_req = PROTOCOL_KAFKA then WRequest (req\<lparr>req_ns := req_ns prev_req\<rparr>) k
             else WRequest req k)
      else if is_dubbo2_request m payload sz then WRequest (req\<lparr>req_protocol := PROTOCOL_DUBBO2\<rparr>) k
      else let (dns, sid) = is_dns_request m payload sz (k_stream_id k); k = k\<lparr>k_stream_id := sid\<rparr> in
      if dns then WRequest (req\<lparr>req_protocol := PROTOCOL_DNS\<rparr>) k
      else if is_foundationdb_request m payload sz
      then WRequest (req\<lparr>req_protocol := PROTOCOL_FOUNDATIONDB\<rparr>) k
      else WRequest req k)"

text \<open>The branches that report at once.\<close>

definition write_event ::
  "bpf_env \<Rightarrow> u64 \<Rightarrow> u64 \<Rightarrow> connection_id \<Rightarrow> connection \<Rightarrow> u8 \<Rightarrow> u8 \<Rightarrow> bool \<Rightarrow> bool \<Rightarrow> 'a l7_maps_scheme \<Rightarrow>
   'a l7_maps_scheme" where
  "write_event env payload sz cid conn protocol method timed copied s =
     (case bpf_percpu_lookup (l7_event_heap s) (env_cpu env) 0 of
        None \<Rightarrow> s
      | Some e \<Rightarrow>
          (let e = e\<lparr>ev_protocol := protocol, ev_method := method\<rparr>;
               e = (if timed then e\<lparr>ev_duration := env_ktime env\<rparr> else e) in
           if copied then
             (let e = e\<lparr>ev_payload_size := sz\<rparr>;
                  (ok, pl) = COPY_PAYLOAD env (kmem env s) (ev_payload e) sz payload;
                  e = e\<lparr>ev_payload := pl\<rparr> in
              if ok then send_event env e cid conn s else put_event env e s)
           else send_event env e cid conn s))"

text \<open>The payload of a write: the buffer itself, or the pieces assembled in \<^verbatim>\<open>iovec_buf_heap\<close>.\<close>

definition write_payload ::
  "bpf_env \<Rightarrow> u64 \<Rightarrow> u64 \<Rightarrow> u64 \<Rightarrow> 'a l7_maps_scheme \<Rightarrow> (u64 \<times> u64 \<times> u64 \<times> 'a l7_maps_scheme) option" where
  "write_payload env buf sz iovlen s =
     (if iovlen \<noteq> 0 then
        (case bpf_percpu_lookup (iovec_buf_heap s) (env_cpu env) 0 of
           None \<Rightarrow> None
         | Some b \<Rightarrow>
             (let (sz, total_size, b) = read_iovec env buf iovlen 0 b 0 in
              Some (env_iovec_buf env, sz, total_size, put_iovec_buf env b s)))
      else Some (buf, sz, sz, s))"

definition trace_enter_write ::
  "bpf_env \<Rightarrow> u64 \<Rightarrow> u16 \<Rightarrow> u64 \<Rightarrow> u64 \<Rightarrow> u64 \<Rightarrow> 'a l7_maps_scheme \<Rightarrow> 'a l7_maps_scheme" where
  "trace_enter_write env fd is_tls buf sz iovlen s =
     (let id = env_pid_tgid env; cid = \<lparr>cid_fd = fd, cid_pid = pid_of id\<rparr> in
      case bpf_map_lookup_elem (active_connections s) cid of
        None \<Rightarrow> s
      | Some conn \<Rightarrow>
          (case write_payload env buf sz iovlen s of
             None \<Rightarrow> s
           | Some (payload, sz, total_size, s) \<Rightarrow>
               if sz = 0 then s
               else
                 (let s = (if is_tls = 0
                           then s\<lparr>active_connections :=
                             bpf_map_modify (\<lambda>c. c\<lparr>c_bytes_sent := c_bytes_sent c + total_size\<rparr>) cid
                               (active_connections s)\<rparr>
                           else s) in
                  case bpf_percpu_lookup (l7_request_heap s) (env_cpu env) 0 of
                    None \<Rightarrow> s
                  | Some req \<Rightarrow>
                      (let req = req\<lparr>req_protocol := PROTOCOL_UNKNOWN, req_partial := 0, req_request_id := 0,
                                     req_ns := 0, req_payload_size := sz\<rparr>;
                           k = \<lparr>k_fd = cid_fd cid, k_pid = cid_pid cid, k_is_tls = is_tls, k_stream_id = -1\<rparr> in
                       case classify_write (kmem env s) payload sz total_size
                              (bpf_map_lookup_elem (active_l7_requests s)) req k of
                         WEvent protocol method timed copied req \<Rightarrow>
                           write_event env payload sz cid conn protocol method timed copied
                             (put_request env req s)
                       | WRequest req k \<Rightarrow>
                           if req_protocol req = PROTOCOL_UNKNOWN then put_request env req s
                           else
                             (let req = (if req_ns req = 0 then req\<lparr>req_ns := env_ktime env\<rparr> else req);
                                  (ok, pl) = COPY_PAYLOAD env (kmem env s) (req_payload req) sz payload;
                                  req = req\<lparr>req_payload := pl\<rparr>;
                                  s = put_request env req s in
                              if ok then
                                s\<lparr>active_l7_requests :=
                                  snd (bpf_lru_update_elem L7_REQUEST_ENTRIES (env_evict env Active_L7_Requests)
                                         (active_l7_requests s) k req BPF_NOEXIST)\<rparr>
                              else s)))))"

section \<open>Reads\<close>

definition trace_enter_read ::
  "bpf_env \<Rightarrow> u64 \<Rightarrow> u32 \<Rightarrow> u64 \<Rightarrow> u64 \<Rightarrow> u64 \<Rightarrow> u64 \<Rightarrow> 'a l7_maps_scheme \<Rightarrow> 'a l7_maps_scheme" where
  "trace_enter_read env pid_tgid pid fd buf ret iovlen s =
     (let cid = \<lparr>cid_fd = fd, cid_pid = pid\<rparr> in
      case bpf_map_lookup_elem (active_connections s) cid of
        None \<Rightarrow> s
      | Some _ \<Rightarrow>
          s\<lparr>active_reads :=
            snd (bpf_lru_update_elem READ_ENTRIES (env_evict env Active_Reads) (active_reads s) pid_tgid
                   \<lparr>ra_fd = fd, ra_buf = buf, ra_ret = ret, ra_iovlen = iovlen\<rparr> BPF_ANY)\<rparr>)"

text \<open>
  The payload of a finished read: \<open>Inl\<close> when the handler ends here, otherwise address and length
  of the payload and the total size.
\<close>

definition exit_read_payload ::
  "bpf_env \<Rightarrow> read_args \<Rightarrow> s64 \<Rightarrow> 'a l7_maps_scheme \<Rightarrow>
   'a l7_maps_scheme + u64 \<times> u64 \<times> u64 \<times> 'a l7_maps_scheme" where
  "exit_read_payload env args ret s =
     (if ret \<le>s 0 then Inl s
      else
        (case (if ra_ret args \<noteq> 0
               then (case bpf_probe_read (kmem env s) 8 (ra_ret args) of
                       None \<Rightarrow> None
                     | Some w \<Rightarrow> (let ret = le_word w in if ret \<le>s 0 then None else Some ret))
               else Some ret) of
           None \<Rightarrow> Inl s
         | Some ret \<Rightarrow>
             if ra_iovlen args \<noteq> 0 then
               (case bpf_percpu_lookup (iovec_buf_heap s) (env_cpu env) 0 of
                  None \<Rightarrow> Inl s
                | Some b \<Rightarrow>
                    (let (ret, total_size, b) = read_iovec env (ra_buf args) (ra_iovlen args) ret b 0;
                         s = put_iovec_buf env b s in
                     if ret = 0 then Inl s else Inr (env_iovec_buf env, ret, total_size, s)))
             else Inr (ra_buf args, ret, ret, s)))"

text \<open>
  The pending request of the connection, or the one with the stream number of a DNS or Cassandra
  answer: \<open>Inl\<close> when the handler ends here (DNS answers and HTTP/2 frames are reported at once),
  otherwise the request, its key, the verdict so far and the event.
\<close>

definition find_request ::
  "bpf_env \<Rightarrow> u64 \<Rightarrow> u64 \<Rightarrow> connection_id \<Rightarrow> connection \<Rightarrow> l7_request_key \<Rightarrow> l7_event \<Rightarrow> 'a l7_maps_scheme \<Rightarrow>
   'a l7_maps_scheme + l7_request \<times> l7_request_key \<times> nat \<times> l7_event" where
  "find_request env payload ret cid conn k e s =
     (case bpf_map_lookup_elem (active_l7_requests s) k of
        Some req \<Rightarrow> Inr (req, k, 0, e)
      | None \<Rightarrow>
          (let m = kmem env s;
               (dns, sid, st) = is_dns_response m payload ret (k_stream_id k) (ev_status e);
               k = k\<lparr>k_stream_id := sid\<rparr>; e = e\<lparr>ev_status := st\<rparr> in
           if dns then
             (case bpf_map_lookup_elem (active_l7_requests s) k of
                None \<Rightarrow> Inl (put_event env e s)
              | Some req \<Rightarrow>
                  (let e = e\<lparr>ev_protocol := PROTOCOL_DNS, ev_duration := env_ktime env - req_ns req,
                             ev_payload_size := ret\<rparr>;
                       (ok, pl) = COPY_PAYLOAD env m (ev_payload e) ret payload;
                       e = e\<lparr>ev_payload := pl\<rparr> in
                   if ok then
                     (let s = send_event env e cid conn s in
                      Inl (s\<lparr>active_l7_requests := bpf_map_delete_elem (active_l7_requests s) k\<rparr>))
                   else Inl (put_event env e s)))
           else
             (let (cassandra, sid, st) = is_cassandra_response m payload ret (k_stream_id k) (ev_status e);
                  k = k\<lparr>k_stream_id := sid\<rparr>; e = e\<lparr>ev_status := st\<rparr> in
              if cassandra then
                (case bpf_map_lookup_elem (active_l7_requests s) k of
                   None \<Rightarrow> Inl (put_event env e s)
                 | Some req \<Rightarrow> Inr (req, k, 1, e))
              else if looks_like_http2_frame m payload ret METHOD_HTTP2_SERVER_FRAMES then
                (let e = e\<lparr>ev_protocol := PROTOCOL_HTTP2, ev_method := METHOD_HTTP2_SERVER_FRAMES,
                           ev_duration := env_ktime env, ev_payload_size := ret\<rparr>;
                     (ok, pl) = COPY_PAYLOAD env m (ev_payload e) ret payload;
                     e = e\<lparr>ev_payload := pl\<rparr> in
                 if ok then Inl (send_event env e cid conn s) else Inl (put_event env e s))
              else Inl (put_event env e s))))"

text \<open>
  The response by protocol. The result is the verdict, whether the request is kept (the handler
  then ends), the event and the request, whose size the copy has truncated in place.
\<close>

definition match_response ::
  "mem \<Rightarrow> u64 \<Rightarrow> u64 \<Rightarrow> u64 \<Rightarrow> nat \<Rightarrow> l7_request \<Rightarrow> l7_event \<Rightarrow> nat \<times> bool \<times> l7_event \<times> l7_request" where
  "match_response m payload ret total_size response req e =
     (let e = e\<lparr>ev_protocol := req_protocol req, ev_payload_size := req_payload_size req\<rparr>;
          req = req\<lparr>req_payload_size := TRUNCATE_PAYLOAD_SIZE (req_payload_size req)\<rparr>;
          n = unat (req_payload_size req);
          e = e\<lparr>ev_payload := take n (req_payload req) @ drop n (ev_payload e)\<rparr> in
      if ev_protocol e = PROTOCOL_HTTP then
        (let (r, st) = is_http_response m payload (ev_status e) in
         (of_bool r, False, e\<lparr>ev_status := st\<rparr>, req))
      else if ev_protocol e = PROTOCOL_POSTGRES then
        (let (r, st) = is_postgres_response m payload ret (ev_status e); e = e\<lparr>ev_status := st\<rparr> in
         (of_bool r, False,
          if req_request_type req = POSTGRES_FRAME_PARSE then e\<lparr>ev_method := METHOD_STATEMENT_PREPARE\<rparr> else e, req))
      else if ev_protocol e = PROTOCOL_REDIS then
        (let (r, st) = is_redis_response m payload ret (ev_status e) in
         (of_bool r, False, e\<lparr>ev_status := st\<rparr>, req))
      else if ev_protocol e = PROTOCOL_MEMCACHED then
        (let (r, st) = is_memcached_response m payload ret (ev_status e) in
         (of_bool r, False, e\<lparr>ev_status := st\<rparr>, req))
      else if ev_protocol e = PROTOCOL_MYSQL then
        (let (r, si, st) = is_mysql_response m payload ret (req_request_type req) (ev_statement_id e) (ev_status e);
             e = e\<lparr>ev_statement_id := si, ev_status := st\<rparr> in
         (of_bool r, False,
          if req_request_type req = MYSQL_COM_STMT_PREPARE then e\<lparr>ev_method := METHOD_STATEMENT_PREPARE\<rparr> else e, req))
      else if ev_protocol e = PROTOCOL_MONGO then
        (let r = is_mongo_response m payload ret (req_partial req) in
         if r = 2 then (r, True, e, req\<lparr>req_partial := 1\<rparr>) else (r, False, e, req))
      else if ev_protocol e = PROTOCOL_KAFKA then
        (of_bool (is_kafka_response m payload (req_request_id req)), False, e, req)
      else if ev_protocol e = PROTOCOL_CLICKHOUSE then
        (let (r, st) = is_clickhouse_response m payload (ev_status e) in
         (of_bool r, \<not> r, e\<lparr>ev_status := st\<rparr>, req))
      else if ev_protocol e = PROTOCOL_ZOOKEEPER then
        (let (r, st) = is_zk_response m payload total_size (ev_status e) (req_partial req);
             e = e\<lparr>ev_status := st\<rparr> in
         if r = 2 then (r, True, e, req\<lparr>req_partial := 1\<rparr>) else (r, False, e, req))
      else if ev_protocol e = PROTOCOL_DUBBO2 then
        (let (r, st) = is_dubbo2_response m payload (ev_status e) in
         (of_bool r, False, e\<lparr>ev_status := st\<rparr>, req))
      else if ev_protocol e = PROTOCOL_FOUNDATIONDB then
        (let (r, st) = is_foundationdb_response m payload ret (ev_status e) in
         (r, r = 2, e\<lparr>ev_status := st\<rparr>, req))
      else (response, False, e, req))"

definition trace_exit_read ::
  "bpf_env \<Rightarrow> u64 \<Rightarrow> u32 \<Rightarrow> u16 \<Rightarrow> s64 \<Rightarrow> 'a l7_maps_scheme \<Rightarrow> 'a l7_maps_scheme" where
  "trace_exit_read env pid_tgid pid is_tls ret s =
     (case bpf_map_lookup_elem (active_reads s) pid_tgid of
        None \<Rightarrow> s
      | Some args \<Rightarrow>
          (let cid = \<lparr>cid_fd = ra_fd args, cid_pid = pid\<rparr> in
           case bpf_map_lookup_elem (active_connections s) cid of
             None \<Rightarrow> s\<lparr>active_reads := bpf_map_delete_elem (active_reads s) pid_tgid\<rparr>
           | Some conn \<Rightarrow>
               (let k = \<lparr>k_fd = cid_fd cid, k_pid = cid_pid cid, k_is_tls = is_tls, k_stream_id = -1\<rparr>;
                    s = s\<lparr>active_reads := bpf_map_delete_elem (active_reads s) pid_tgid\<rparr> in
                case exit_read_payload env args ret s of
                  Inl s \<Rightarrow> s
                | Inr (payload, ret, total_size, s) \<Rightarrow>
                    (let s = (if is_tls = 0
                              then s\<lparr>active_connections :=
                                bpf_map_modify (\<lambda>c. c\<lparr>c_bytes_received := c_bytes_received c + total_size\<rparr>) cid
                                  (active_connections s)\<rparr>
                              else s);
                         m = kmem env s in
                     case bpf_percpu_lookup (l7_event_heap s) (env_cpu env) 0 of
                       None \<Rightarrow> s
                     | Some e \<Rightarrow>
                         (let e = e\<lparr>ev_protocol := PROTOCOL_UNKNOWN, ev_status := STATUS_UNKNOWN,
                                    ev_method := METHOD_UNKNOWN, ev_statement_id := 0, ev_payload_size := 0\<rparr> in
                          if is_rabbitmq_consume m payload ret then
                            send_event env (e\<lparr>ev_protocol := PROTOCOL_RABBITMQ, ev_method := METHOD_CONSUME\<rparr>)
                              cid conn s
                          else if nats_method m payload ret = METHOD_CONSUME then
                            send_event env (e\<lparr>ev_protocol := PROTOCOL_NATS, ev_method := METHOD_CONSUME\<rparr>)
                              cid conn s
                          else
                            (case find_request env payload ret cid conn k e s of
                               Inl s \<Rightarrow> s
                             | Inr (req, k, response, e) \<Rightarrow>
                                 (let (response, keep, e, req) =
                                        match_response m payload ret total_size response req e;
                                      s = s\<lparr>active_l7_requests :=
                                        bpf_map_modify (\<lambda>_. req) k (active_l7_requests s)\<rparr> in
                                  if keep then put_event env e s
                                  else
                                    (let s = s\<lparr>active_l7_requests :=
                                       bpf_map_delete_elem (active_l7_requests s) k\<rparr> in
                                     if response = 0 then put_event env e s
                                     else send_event env (e\<lparr>ev_duration := env_ktime env - req_ns req\<rparr>)
                                            cid conn s))))))))"

section \<open>System calls\<close>

definition sys_enter_write :: "bpf_env \<Rightarrow> sys_enter_rw_ctx \<Rightarrow> 'a l7_maps_scheme \<Rightarrow> 'a l7_maps_scheme" where
  "sys_enter_write env ctx s = trace_enter_write env (rw_fd ctx) 0 (rw_buf ctx) (rw_size ctx) 0 s"

definition sys_enter_writev :: "bpf_env \<Rightarrow> sys_enter_rw_ctx \<Rightarrow> 'a l7_maps_scheme \<Rightarrow> 'a l7_maps_scheme" where
  "sys_enter_writev env ctx s = trace_enter_write env (rw_fd ctx) 0 (rw_buf ctx) 0 (rw_size ctx) s"

definition sys_enter_sendmsg :: "bpf_env \<Rightarrow> sys_enter_rw_ctx \<Rightarrow> 'a l7_maps_scheme \<Rightarrow> 'a l7_maps_scheme" where
  "sys_enter_sendmsg env ctx s =
     (case bpf_probe_read (kmem env s) 56 (rw_buf ctx) of
        None \<Rightarrow> s
      | Some b \<Rightarrow>
          (let msghdr = user_msghdr_of b in
           trace_enter_write env (rw_fd ctx) 0 (msg_iov msghdr) 0 (msg_iovlen msghdr) s))"

text \<open>
  Up to two messages; \<open>env i\<close> is the environment while message \<open>i\<close> is handled. A
  \<^verbatim>\<open>struct mmsghdr\<close> has 64 bytes and begins with the message header.
\<close>

fun sendmmsg_loop ::
  "(nat \<Rightarrow> bpf_env) \<Rightarrow> sys_enter_rw_ctx \<Rightarrow> nat \<Rightarrow> nat \<Rightarrow> u64 \<Rightarrow> 'a l7_maps_scheme \<Rightarrow> 'a l7_maps_scheme" where
  "sendmmsg_loop env ctx 0 i offset s = s"
| "sendmmsg_loop env ctx (Suc n) i offset s =
     (if of_nat i \<ge> rw_size ctx then s
      else case bpf_probe_read (kmem (env i) s) 64 (rw_buf ctx + offset) of
        None \<Rightarrow> s
      | Some b \<Rightarrow>
          (let h = user_msghdr_of b in
           sendmmsg_loop env ctx n (Suc i) (offset + 64)
             (trace_enter_write (env i) (rw_fd ctx) 0 (msg_iov h) 0 (msg_iovlen h) s)))"

definition sys_enter_sendmmsg ::
  "(nat \<Rightarrow> bpf_env) \<Rightarrow> sys_enter_rw_ctx \<Rightarrow> 'a l7_maps_scheme \<Rightarrow> 'a l7_maps_scheme" where
  "sys_enter_sendmmsg env ctx s = sendmmsg_loop env ctx 2 0 0 s"

definition sys_enter_sendto :: "bpf_env \<Rightarrow> sys_enter_rw_ctx \<Rightarrow> 'a l7_maps_scheme \<Rightarrow> 'a l7_maps_scheme" where
  "sys_enter_sendto env ctx s = trace_enter_write env (rw_fd ctx) 0 (rw_buf ctx) (rw_size ctx) 0 s"

definition sys_enter_read :: "bpf_env \<Rightarrow> sys_enter_rw_ctx \<Rightarrow> 'a l7_maps_scheme \<Rightarrow> 'a l7_maps_scheme" where
  "sys_enter_read env ctx s =
     trace_enter_read env (env_pid_tgid env) (pid_of (env_pid_tgid env)) (rw_fd ctx) (rw_buf ctx) 0 0 s"

definition sys_enter_readv :: "bpf_env \<Rightarrow> sys_enter_rw_ctx \<Rightarrow> 'a l7_maps_scheme \<Rightarrow> 'a l7_maps_scheme" where
  "sys_enter_readv env ctx s =
     trace_enter_read env (env_pid_tgid env) (pid_of (env_pid_tgid env)) (rw_fd ctx) (rw_buf ctx) 0 (rw_size ctx) s"

definition sys_enter_recvmsg :: "bpf_env \<Rightarrow> sys_enter_rw_ctx \<Rightarrow> 'a l7_maps_scheme \<Rightarrow> 'a l7_maps_scheme" where
  "sys_enter_recvmsg env ctx s =
     (case bpf_probe_read (kmem env s) 56 (rw_buf ctx) of
        None \<Rightarrow> s
      | Some b \<Rightarrow>
          (let msghdr = user_msghdr_of b in
           trace_enter_read env (env_pid_tgid env) (pid_of (env_pid_tgid env)) (rw_fd ctx) (msg_iov msghdr) 0
             (msg_iovlen msghdr) s))"

definition sys_enter_recvfrom :: "bpf_env \<Rightarrow> sys_enter_rw_ctx \<Rightarrow> 'a l7_maps_scheme \<Rightarrow> 'a l7_maps_scheme" where
  "sys_enter_recvfrom env ctx s =
     trace_enter_read env (env_pid_tgid env) (pid_of (env_pid_tgid env)) (rw_fd ctx) (rw_buf ctx) 0 0 s"

definition sys_exit_read :: "bpf_env \<Rightarrow> sys_exit_ctx \<Rightarrow> 'a l7_maps_scheme \<Rightarrow> 'a l7_maps_scheme" where
  "sys_exit_read env ctx s =
     trace_exit_read env (env_pid_tgid env) (pid_of (env_pid_tgid env)) 0 (sx_ret ctx) s"

definition sys_exit_readv :: "bpf_env \<Rightarrow> sys_exit_ctx \<Rightarrow> 'a l7_maps_scheme \<Rightarrow> 'a l7_maps_scheme" where
  "sys_exit_readv env ctx s =
     trace_exit_read env (env_pid_tgid env) (pid_of (env_pid_tgid env)) 0 (sx_ret ctx) s"

definition sys_exit_recvmsg :: "bpf_env \<Rightarrow> sys_exit_ctx \<Rightarrow> 'a l7_maps_scheme \<Rightarrow> 'a l7_maps_scheme" where
  "sys_exit_recvmsg env ctx s =
     trace_exit_read env (env_pid_tgid env) (pid_of (env_pid_tgid env)) 0 (sx_ret ctx) s"

definition sys_exit_recvfrom :: "bpf_env \<Rightarrow> sys_exit_ctx \<Rightarrow> 'a l7_maps_scheme \<Rightarrow> 'a l7_maps_scheme" where
  "sys_exit_recvfrom env ctx s =
     trace_exit_read env (env_pid_tgid env) (pid_of (env_pid_tgid env)) 0 (sx_ret ctx) s"

section \<open>The initial state\<close>

text \<open>All maps are empty at load time and the per-CPU values are zero.\<close>

definition zero_l7_event :: l7_event where
  "zero_l7_event =
     \<lparr>ev_fd = 0, ev_connection_timestamp = 0, ev_pid = 0, ev_status = 0, ev_duration = 0, ev_protocol = 0,
      ev_method = 0, ev_padding = 0, ev_statement_id = 0, ev_payload_size = 0, ev_payload = replicate 1024 0\<rparr>"

definition zero_l7_request :: l7_request where
  "zero_l7_request =
     \<lparr>req_ns = 0, req_protocol = 0, req_partial = 0, req_request_type = 0, req_request_id = 0,
      req_payload_size = 0, req_payload = replicate 1024 0\<rparr>"

definition init_l7_maps :: l7_maps where
  "init_l7_maps = tcp_maps.extend empty_tcp_maps
     \<lparr>tcp_retransmit_events = [], l7_event_heap = (\<lambda>_. zero_l7_event), l7_events = [], active_reads = [],
      l7_request_heap = (\<lambda>_. zero_l7_request), iovec_buf_heap = (\<lambda>_. replicate 2048 0)\<rparr>"

lemma init_l7_maps_simps [simp]:
  "nodejs_prev_event_loop_iter init_l7_maps = []" "nodejs_current_io_cb init_l7_maps = []"
  "nodejs_stats init_l7_maps = []" "python_stats init_l7_maps = []" "python_thread_locks init_l7_maps = []"
  "proc_events init_l7_maps = []" "oom_info init_l7_maps = []" "file_events init_l7_maps = []"
  "open_file_info init_l7_maps = []" "actual_destinations init_l7_maps = []"
  "tcp_listen_events init_l7_maps = []" "tcp_connect_events init_l7_maps = []"
  "fd_by_pid_tgid init_l7_maps = []" "connection_id_by_socket init_l7_maps = []"
  "active_connections init_l7_maps = []" "active_l7_requests init_l7_maps = []"
  "tcp_retransmit_events init_l7_maps = []" "l7_event_heap init_l7_maps = (\<lambda>_. zero_l7_event)"
  "l7_events init_l7_maps = []" "active_reads init_l7_maps = []"
  "l7_request_heap init_l7_maps = (\<lambda>_. zero_l7_request)" "iovec_buf_heap init_l7_maps = (\<lambda>_. replicate 2048 0)"
  by (simp_all add: init_l7_maps_def tcp_maps.defs empty_tcp_maps_def file_maps.defs empty_file_maps_def)

end
