(* ===== verification/Tls.thy ===== *)
theory Tls
  imports L7
begin

unbundle bit_operations_syntax

text \<open>
  \<^verbatim>\<open>l7/gotls.c\<close> and \<^verbatim>\<open>l7/openssl.c\<close>: probes on the TLS libraries, which see the plain text. They
  find the socket descriptor in the library's own structures and call the same
  \<^verbatim>\<open>trace_enter_write\<close>, \<^verbatim>\<open>trace_enter_read\<close> and \<^verbatim>\<open>trace_exit_read\<close> as the system calls, with the TLS
  flag set. A read in progress is kept under an identifier with the top bit set, built from the
  thread (OpenSSL) or the process and goroutine (Go). The x86-64 variants are modelled.
\<close>

section \<open>Go\<close>

definition GO_PARAM1 :: "pt_regs \<Rightarrow> u64" where "GO_PARAM1 x = ax x"
definition GO_PARAM2 :: "pt_regs \<Rightarrow> u64" where "GO_PARAM2 x = bx x"
definition GO_PARAM3 :: "pt_regs \<Rightarrow> u64" where "GO_PARAM3 x = cx x"
definition GOROUTINE :: "pt_regs \<Rightarrow> u64" where "GOROUTINE x = r14 x"

abbreviation (input) IS_TLS_READ_ID :: u64 where "IS_TLS_READ_ID \<equiv> 0x8000000000000000"

record go_interface =
  gi_type :: s64
  gi_ptr :: u64

definition go_interface_of :: "u8 list \<Rightarrow> go_interface" where
  "go_interface_of b = \<lparr>gi_type = le_word (field_at 0 8 b), gi_ptr = le_word (field_at 8 8 b)\<rparr>"

text \<open>The descriptor, or \<open>None\<close> where the function returns 1.\<close>

definition go_crypto_tls_get_fd_from_conn :: "mem \<Rightarrow> pt_regs \<Rightarrow> u32 option" where
  "go_crypto_tls_get_fd_from_conn m ctx =
     (case bpf_probe_read m 16 (GO_PARAM1 ctx) of
        None \<Rightarrow> None
      | Some b \<Rightarrow>
          (let conn = go_interface_of b in
           case bpf_probe_read m 8 (gi_ptr conn) of
             None \<Rightarrow> None
           | Some p \<Rightarrow>
               (let fd_ptr = le_word p in
                case bpf_probe_read m 4 (fd_ptr + 0x10) of
                  None \<Rightarrow> None
                | Some w \<Rightarrow> Some (le_word w))))"

definition go_crypto_tls_write_enter :: "bpf_env \<Rightarrow> pt_regs \<Rightarrow> 'a l7_maps_scheme \<Rightarrow> 'a l7_maps_scheme" where
  "go_crypto_tls_write_enter env ctx s =
     (case go_crypto_tls_get_fd_from_conn (kmem env s) ctx of
        None \<Rightarrow> s
      | Some fd \<Rightarrow>
          (let buf_ptr = GO_PARAM2 ctx; buf_size = GO_PARAM3 ctx in
           trace_enter_write env (ucast fd) 1 buf_ptr buf_size 0 s))"

definition go_read_id :: "u64 \<Rightarrow> pt_regs \<Rightarrow> u64" where
  "go_read_id pid ctx =
     (let goroutine_id = GOROUTINE ctx in push_bit 32 pid OR goroutine_id OR IS_TLS_READ_ID)"

definition go_crypto_tls_read_enter :: "bpf_env \<Rightarrow> pt_regs \<Rightarrow> 'a l7_maps_scheme \<Rightarrow> 'a l7_maps_scheme" where
  "go_crypto_tls_read_enter env ctx s =
     (case go_crypto_tls_get_fd_from_conn (kmem env s) ctx of
        None \<Rightarrow> s
      | Some fd \<Rightarrow>
          (let buf_ptr = GO_PARAM2 ctx; pid_tgid = env_pid_tgid env; pid = drop_bit 32 pid_tgid in
           trace_enter_read env (go_read_id pid ctx) (ucast pid) (ucast fd) buf_ptr 0 0 s))"

definition go_crypto_tls_read_exit :: "bpf_env \<Rightarrow> pt_regs \<Rightarrow> 'a l7_maps_scheme \<Rightarrow> 'a l7_maps_scheme" where
  "go_crypto_tls_read_exit env ctx s =
     (let pid_tgid = env_pid_tgid env; pid = drop_bit 32 pid_tgid; ret = GO_PARAM1 ctx in
      trace_exit_read env (go_read_id pid ctx) (ucast pid) 1 ret s)"

section \<open>OpenSSL\<close>

text \<open>
  The three layouts of \<^verbatim>\<open>struct bio_st\<close> differ in the pointers before the integers, of which
  \<^verbatim>\<open>num\<close>, the descriptor, is the fifth.
\<close>

datatype bio_t = bio_st | bio_st_v1_1_1 | bio_st_v3_0

fun bio_num_offset :: "bio_t \<Rightarrow> nat" where
  "bio_num_offset bio_st = 40"
| "bio_num_offset bio_st_v1_1_1 = 48"
| "bio_num_offset bio_st_v3_0 = 56"

fun bio_size :: "bio_t \<Rightarrow> nat" where
  "bio_size bio_st = 48"
| "bio_size bio_st_v1_1_1 = 56"
| "bio_size bio_st_v3_0 = 64"

record ssl_st =
  ssl_version :: s32
  ssl_method :: u64
  rbio :: u64
  wbio :: u64

definition ssl_st_of :: "u8 list \<Rightarrow> ssl_st" where
  "ssl_st_of b =
     \<lparr>ssl_version = le_word (field_at 0 4 b), ssl_method = le_word (field_at 8 8 b),
      rbio = le_word (field_at 16 8 b), wbio = le_word (field_at 24 8 b)\<rparr>"

text \<open>\<open>None\<close> where the macro makes the handler return.\<close>

definition GET_FD :: "mem \<Rightarrow> pt_regs \<Rightarrow> bio_t \<Rightarrow> (ssl_st \<Rightarrow> u64) \<Rightarrow> u32 option" where
  "GET_FD m ctx bio_t bio_rw =
     (case bpf_probe_read m 32 (PT_REGS_PARM1 ctx) of
        None \<Rightarrow> None
      | Some b \<Rightarrow>
          (let ssl = ssl_st_of b in
           case bpf_probe_read m (bio_size bio_t) (bio_rw ssl) of
             None \<Rightarrow> None
           | Some bio \<Rightarrow>
               (let fd = le_word (field_at (bio_num_offset bio_t) 4 bio) in
                if fd \<le> 2 then None else Some fd)))"

definition WRITE_ENTER :: "bpf_env \<Rightarrow> pt_regs \<Rightarrow> bio_t \<Rightarrow> 'a l7_maps_scheme \<Rightarrow> 'a l7_maps_scheme" where
  "WRITE_ENTER env ctx bio_t s =
     (case GET_FD (kmem env s) ctx bio_t wbio of
        None \<Rightarrow> s
      | Some fd \<Rightarrow>
          (let buf_ptr = PT_REGS_PARM2 ctx; buf_size = PT_REGS_PARM3 ctx in
           trace_enter_write env (ucast fd) 1 buf_ptr buf_size 0 s))"

definition READ_ENTER :: "bpf_env \<Rightarrow> pt_regs \<Rightarrow> bio_t \<Rightarrow> 'a l7_maps_scheme \<Rightarrow> 'a l7_maps_scheme" where
  "READ_ENTER env ctx bio_t s =
     (case GET_FD (kmem env s) ctx bio_t rbio of
        None \<Rightarrow> s
      | Some fd \<Rightarrow>
          (let buf_ptr = PT_REGS_PARM2 ctx; pid_tgid = env_pid_tgid env; pid = pid_of pid_tgid in
           trace_enter_read env (pid_tgid OR IS_TLS_READ_ID) pid (ucast fd) buf_ptr 0 0 s))"

definition READ_EX_ENTER :: "bpf_env \<Rightarrow> pt_regs \<Rightarrow> bio_t \<Rightarrow> 'a l7_maps_scheme \<Rightarrow> 'a l7_maps_scheme" where
  "READ_EX_ENTER env ctx bio_t s =
     (case GET_FD (kmem env s) ctx bio_t rbio of
        None \<Rightarrow> s
      | Some fd \<Rightarrow>
          (let buf_ptr = PT_REGS_PARM2 ctx; pid_tgid = env_pid_tgid env; pid = pid_of pid_tgid;
               ret_ptr = PT_REGS_PARM4 ctx in
           trace_enter_read env (pid_tgid OR IS_TLS_READ_ID) pid (ucast fd) buf_ptr ret_ptr 0 s))"

definition openssl_SSL_write_enter :: "bpf_env \<Rightarrow> pt_regs \<Rightarrow> 'a l7_maps_scheme \<Rightarrow> 'a l7_maps_scheme" where
  "openssl_SSL_write_enter env ctx s = WRITE_ENTER env ctx bio_st s"

definition openssl_SSL_write_enter_v1_1_1 :: "bpf_env \<Rightarrow> pt_regs \<Rightarrow> 'a l7_maps_scheme \<Rightarrow> 'a l7_maps_scheme" where
  "openssl_SSL_write_enter_v1_1_1 env ctx s = WRITE_ENTER env ctx bio_st_v1_1_1 s"

definition openssl_SSL_write_enter_v3_0 :: "bpf_env \<Rightarrow> pt_regs \<Rightarrow> 'a l7_maps_scheme \<Rightarrow> 'a l7_maps_scheme" where
  "openssl_SSL_write_enter_v3_0 env ctx s = WRITE_ENTER env ctx bio_st_v3_0 s"

definition openssl_SSL_read_enter :: "bpf_env \<Rightarrow> pt_regs \<Rightarrow> 'a l7_maps_scheme \<Rightarrow> 'a l7_maps_scheme" where
  "openssl_SSL_read_enter env ctx s = READ_ENTER env ctx bio_st s"

definition openssl_SSL_read_ex_enter :: "bpf_env \<Rightarrow> pt_regs \<Rightarrow> 'a l7_maps_scheme \<Rightarrow> 'a l7_maps_scheme" where
  "openssl_SSL_read_ex_enter env ctx s = READ_EX_ENTER env ctx bio_st s"

definition openssl_SSL_read_enter_v1_1_1 :: "bpf_env \<Rightarrow> pt_regs \<Rightarrow> 'a l7_maps_scheme \<Rightarrow> 'a l7_maps_scheme" where
  "openssl_SSL_read_enter_v1_1_1 env ctx s = READ_ENTER env ctx bio_st_v1_1_1 s"

definition openssl_SSL_read_ex_enter_v1_1_1 :: "bpf_env \<Rightarrow> pt_regs \<Rightarrow> 'a l7_maps_scheme \<Rightarrow> 'a l7_maps_scheme" where
  "openssl_SSL_read_ex_enter_v1_1_1 env ctx s = READ_EX_ENTER env ctx bio_st_v1_1_1 s"

definition openssl_SSL_read_enter_v3_0 :: "bpf_env \<Rightarrow> pt_regs \<Rightarrow> 'a l7_maps_scheme \<Rightarrow> 'a l7_maps_scheme" where
  "openssl_SSL_read_enter_v3_0 env ctx s = READ_ENTER env ctx bio_st_v3_0 s"

definition openssl_SSL_read_ex_enter_v3_0 :: "bpf_env \<Rightarrow> pt_regs \<Rightarrow> 'a l7_maps_scheme \<Rightarrow> 'a l7_maps_scheme" where
  "openssl_SSL_read_ex_enter_v3_0 env ctx s = READ_EX_ENTER env ctx bio_st_v3_0 s"

definition openssl_SSL_read_exit :: "bpf_env \<Rightarrow> pt_regs \<Rightarrow> 'a l7_maps_scheme \<Rightarrow> 'a l7_maps_scheme" where
  "openssl_SSL_read_exit env ctx s =
     (let pid_tgid = env_pid_tgid env; pid = pid_of pid_tgid; ret = (ucast (PT_REGS_RC ctx) :: s32) in
      trace_exit_read env (pid_tgid OR IS_TLS_READ_ID) pid 1 (scast ret) s)"

end
