(* ===== verification/L7_Requests.thy ===== *)
theory L7_Requests
  imports Tls
begin

unbundle bit_operations_syntax

text \<open>
  Requests and responses among other traffic. First what each handler of \<^verbatim>\<open>l7.c\<close> can change,
  then that a pending request survives everything other connections and other sockets do, and
  finally that an exchange is reported exactly once, with the right times and contents.
\<close>

section \<open>What classification decides\<close>

lemma classify_write_request:
  assumes "classify_write m payload sz tsz active req k = WRequest req' k'"
  shows "k_fd k' = k_fd k \<and> k_pid k' = k_pid k \<and> k_is_tls k' = k_is_tls k \<and>
    req_payload req' = req_payload req \<and> req_payload_size req' = req_payload_size req \<and>
    req_partial req' = req_partial req"
  using assms
  by (simp add: classify_write_def Let_def split_beta split: if_splits option.splits) auto

lemma classify_write_event:
  assumes "classify_write m payload sz tsz active req k = WEvent protocol method timed copied req'"
  shows "req_payload req' = req_payload req \<and> protocol \<in> {2, 5, 9, 10, 11}"
  using assms
  by (simp add: classify_write_def Let_def split_beta split: if_splits option.splits) auto

section \<open>What the handlers change\<close>

lemmas put_defs = put_event_def put_request_def put_iovec_buf_def send_event_def

text \<open>The maps of the other components, which no handler of \<^verbatim>\<open>l7.c\<close> touches.\<close>

definition same_tcp :: "'a l7_maps_scheme \<Rightarrow> 'a l7_maps_scheme \<Rightarrow> bool" where
  "same_tcp s s' \<longleftrightarrow> fd_by_pid_tgid s' = fd_by_pid_tgid s \<and>
     connection_id_by_socket s' = connection_id_by_socket s \<and>
     tcp_connect_events s' = tcp_connect_events s \<and> tcp_listen_events s' = tcp_listen_events s \<and>
     actual_destinations s' = actual_destinations s"

lemma same_tcp_refl [simp]: "same_tcp s s" by (simp add: same_tcp_def)

lemma same_tcp_trans: "same_tcp s s' \<Longrightarrow> same_tcp s' s'' \<Longrightarrow> same_tcp s s''"
  by (simp add: same_tcp_def)

lemma bpf_map_modify_id: "bpf_map_modify (\<lambda>x. x) k m = m"
  by (simp add: bpf_map_modify_def case_prod_beta)

text \<open>A change of the traffic counters of one connection.\<close>

definition counted :: "connection_id \<Rightarrow> (connection_id, connection) bpf_map \<Rightarrow>
    (connection_id, connection) bpf_map \<Rightarrow> bool" where
  "counted cid m m' \<longleftrightarrow> (\<exists>x y. m' = bpf_map_modify
     (\<lambda>c. c\<lparr>c_bytes_sent := c_bytes_sent c + x, c_bytes_received := c_bytes_received c + y\<rparr>) cid m)"

lemma counted_refl [simp]: "counted cid m m"
  unfolding counted_def by (rule exI [of _ 0], rule exI [of _ 0]) (simp add: bpf_map_modify_id)

lemma counted_sent [simp]:
  "counted cid m (bpf_map_modify (\<lambda>c. c\<lparr>c_bytes_sent := c_bytes_sent c + x\<rparr>) cid m)"
  unfolding counted_def by (rule exI [of _ x], rule exI [of _ 0]) simp

lemma counted_received [simp]:
  "counted cid m (bpf_map_modify (\<lambda>c. c\<lparr>c_bytes_received := c_bytes_received c + x\<rparr>) cid m)"
  unfolding counted_def by (rule exI [of _ 0], rule exI [of _ x]) simp

text \<open>A request kept under a key of one connection, unless one is there already.\<close>

definition request_kept :: "bpf_env \<Rightarrow> connection_id \<Rightarrow> (l7_request_key, l7_request) bpf_map \<Rightarrow>
    (l7_request_key, l7_request) bpf_map \<Rightarrow> bool" where
  "request_kept env cid m m' \<longleftrightarrow> m' = m \<or>
     (\<exists>k req. k_fd k = cid_fd cid \<and> k_pid k = cid_pid cid \<and>
        m' = snd (bpf_lru_update_elem L7_REQUEST_ENTRIES (env_evict env Active_L7_Requests) m k req BPF_NOEXIST))"

lemma request_kept_refl [simp]: "request_kept env cid m m" by (simp add: request_kept_def)

lemma request_kept_update:
  "k_fd k = cid_fd cid \<Longrightarrow> k_pid k = cid_pid cid \<Longrightarrow>
   request_kept env cid m
     (snd (bpf_lru_update_elem L7_REQUEST_ENTRIES (env_evict env Active_L7_Requests) m k req BPF_NOEXIST))"
  unfolding request_kept_def by blast

text \<open>At most one event, and that of the connection.\<close>

definition event_of :: "connection_id \<Rightarrow> l7_event \<Rightarrow> bool" where
  "event_of cid e \<longleftrightarrow> ev_fd e = cid_fd cid \<and> ev_pid e = cid_pid cid"

definition reported :: "connection_id \<Rightarrow> l7_event list \<Rightarrow> l7_event list \<Rightarrow> bool" where
  "reported cid es es' \<longleftrightarrow> es' = es \<or> (\<exists>e. event_of cid e \<and> es' = es @ [e])"

lemma reported_refl [simp]: "reported cid es es" by (simp add: reported_def)

lemma reported_send_event [simp]: "reported cid (l7_events s) (l7_events (send_event env e cid conn s))"
  by (simp add: reported_def event_of_def send_event_def put_event_def Let_def)

lemma l7_events_put [simp]: "l7_events (put_event env e s) = l7_events s"
  "l7_events (put_request env r s) = l7_events s" "l7_events (put_iovec_buf env b s) = l7_events s"
  by (simp_all add: put_event_def put_request_def put_iovec_buf_def)

lemma write_payload_frame:
  "write_payload env buf sz iovlen s = Some (payload, sz', tsz, s') \<Longrightarrow>
   same_tcp s s' \<and> active_connections s' = active_connections s \<and>
   active_l7_requests s' = active_l7_requests s \<and> active_reads s' = active_reads s \<and>
   l7_events s' = l7_events s \<and> l7_event_heap s' = l7_event_heap s \<and> l7_request_heap s' = l7_request_heap s"
  by (auto simp: write_payload_def put_iovec_buf_def same_tcp_def split: if_splits option.splits prod.splits)

lemma write_event_frame:
  "same_tcp s (write_event env payload sz cid conn protocol method timed copied s)"
  "active_connections (write_event env payload sz cid conn protocol method timed copied s) = active_connections s"
  "active_l7_requests (write_event env payload sz cid conn protocol method timed copied s) = active_l7_requests s"
  "active_reads (write_event env payload sz cid conn protocol method timed copied s) = active_reads s"
  by (simp_all add: write_event_def put_defs same_tcp_def Let_def split: option.splits prod.splits)

lemma write_event_reported:
  "reported cid (l7_events s) (l7_events (write_event env payload sz cid conn protocol method timed copied s))"
  by (simp add: write_event_def Let_def split: option.splits prod.splits)

lemma enter_write_frame:
  fixes s :: "'a l7_maps_scheme"
  defines "s' env fd is_tls buf sz iovlen \<equiv> trace_enter_write env fd is_tls buf sz iovlen s"
  shows "same_tcp s (s' env fd is_tls buf sz iovlen) \<and>
    counted (cid_at env fd) (active_connections s) (active_connections (s' env fd is_tls buf sz iovlen)) \<and>
    request_kept env (cid_at env fd) (active_l7_requests s) (active_l7_requests (s' env fd is_tls buf sz iovlen)) \<and>
    active_reads (s' env fd is_tls buf sz iovlen) = active_reads s \<and>
    reported (cid_at env fd) (l7_events s) (l7_events (s' env fd is_tls buf sz iovlen))"
proof (cases "bpf_map_lookup_elem (active_connections s) (cid_at env fd)")
  case None
  then show ?thesis by (simp add: s'_def trace_enter_write_def Let_def)
next
  case conn: (Some conn)
  show ?thesis
  proof (cases "write_payload env buf sz iovlen s")
    case None
    then show ?thesis using conn by (simp add: s'_def trace_enter_write_def Let_def)
  next
    case (Some w)
    obtain payload sz' tsz t where w: "w = (payload, sz', tsz, t)" by (cases w)
    note fr = write_payload_frame [OF Some [unfolded w]]
    have rep: "reported (cid_at env fd) (l7_events s) (l7_events (write_event env payload sz' (cid_at env fd)
        conn pr me ti co u))" if "l7_events u = l7_events s" for pr me ti co u
      using write_event_reported [of "cid_at env fd" u] that by simp
    show ?thesis
      using conn Some fr
      by (auto simp: s'_def trace_enter_write_def Let_def w bpf_percpu_lookup_def write_event_frame
          put_request_def same_tcp_def write_event_frame(1) [unfolded same_tcp_def]
          dest!: classify_write_request intro!: request_kept_update rep
          split: write_outcome.splits prod.splits if_splits)
  qed
qed

text \<open>A change of the pending requests of one connection that adds none.\<close>

definition requests_of :: "connection_id \<Rightarrow> (l7_request_key, l7_request) bpf_map \<Rightarrow>
    (l7_request_key, l7_request) bpf_map \<Rightarrow> bool" where
  "requests_of cid m m' \<longleftrightarrow> length m' \<le> length m \<and>
     (\<forall>k. \<lparr>cid_fd = k_fd k, cid_pid = k_pid k\<rparr> \<noteq> cid \<longrightarrow> bpf_map_lookup_elem m' k = bpf_map_lookup_elem m k)"

lemma requests_of_refl [simp]: "requests_of cid m m" by (simp add: requests_of_def)

lemma requests_of_delete:
  "requests_of cid m m' \<Longrightarrow> \<lparr>cid_fd = k_fd k, cid_pid = k_pid k\<rparr> = cid \<Longrightarrow>
   requests_of cid m (bpf_map_delete_elem m' k)"
  using length_map_delete [of m' k] by (auto simp: requests_of_def hash.lookup_delete)

lemma requests_of_modify:
  "requests_of cid m m' \<Longrightarrow> \<lparr>cid_fd = k_fd k, cid_pid = k_pid k\<rparr> = cid \<Longrightarrow>
   requests_of cid m (bpf_map_modify g k m')"
  by (auto simp: requests_of_def hash.lookup_modify)

lemma exit_read_payload_frame:
  "exit_read_payload env args ret s = Inr (payload, ret', tsz, s') \<or> exit_read_payload env args ret s = Inl s' \<Longrightarrow>
   same_tcp s s' \<and> active_connections s' = active_connections s \<and>
   active_l7_requests s' = active_l7_requests s \<and> active_reads s' = active_reads s \<and>
   l7_events s' = l7_events s \<and> l7_event_heap s' = l7_event_heap s"
  by (auto simp: exit_read_payload_def put_iovec_buf_def same_tcp_def Let_def
      split: if_splits option.splits prod.splits)

lemma find_request_Inl:
  assumes "find_request env payload ret cid conn k e s = Inl s'"
    and "k_fd k = cid_fd cid" and "k_pid k = cid_pid cid"
  shows "same_tcp s s' \<and> active_connections s' = active_connections s \<and> active_reads s' = active_reads s \<and>
    requests_of cid (active_l7_requests s) (active_l7_requests s') \<and>
    reported cid (l7_events s) (l7_events s')"
  using assms
  by (auto simp: find_request_def Let_def put_defs same_tcp_def reported_def event_of_def intro!: requests_of_delete
      split: option.splits prod.splits if_splits)

lemma find_request_Inr:
  assumes "find_request env payload ret cid conn k e s = Inr (req, k', r, e')"
  shows "k_fd k' = k_fd k \<and> k_pid k' = k_pid k \<and> bpf_map_lookup_elem (active_l7_requests s) k' = Some req"
  using assms
  by (auto simp: find_request_def Let_def split: option.splits prod.splits if_splits)

text \<open>The part of \<^const>\<open>trace_exit_read\<close> after the traffic has been counted.\<close>

definition match_read ::
  "bpf_env \<Rightarrow> connection_id \<Rightarrow> connection \<Rightarrow> l7_request_key \<Rightarrow> u64 \<Rightarrow> u64 \<Rightarrow> u64 \<Rightarrow> l7_event \<Rightarrow>
   'a l7_maps_scheme \<Rightarrow> 'a l7_maps_scheme" where
  "match_read env cid conn k payload ret total_size e s =
     (case find_request env payload ret cid conn k e s of
        Inl s \<Rightarrow> s
      | Inr (req, k, response, e) \<Rightarrow>
          (let (response, keep, e, req) =
                 match_response (kmem env s) payload ret total_size response req e;
               s = s\<lparr>active_l7_requests := bpf_map_modify (\<lambda>_. req) k (active_l7_requests s)\<rparr> in
           if keep then put_event env e s
           else
             (let s = s\<lparr>active_l7_requests := bpf_map_delete_elem (active_l7_requests s) k\<rparr> in
              if response = 0 then put_event env e s
              else send_event env (e\<lparr>ev_duration := env_ktime env - req_ns req\<rparr>) cid conn s)))"

definition unread_event :: "l7_event \<Rightarrow> l7_event" where
  "unread_event e = e\<lparr>ev_protocol := PROTOCOL_UNKNOWN, ev_status := STATUS_UNKNOWN,
     ev_method := METHOD_UNKNOWN, ev_statement_id := 0, ev_payload_size := 0\<rparr>"

definition count_received ::
  "u16 \<Rightarrow> connection_id \<Rightarrow> u64 \<Rightarrow> 'a l7_maps_scheme \<Rightarrow> 'a l7_maps_scheme" where
  "count_received is_tls cid n s =
     (if is_tls = 0
      then s\<lparr>active_connections :=
        bpf_map_modify (\<lambda>c. c\<lparr>c_bytes_received := c_bytes_received c + n\<rparr>) cid (active_connections s)\<rparr>
      else s)"

lemma kmem_count_received [simp]: "kmem env (count_received is_tls cid n s) = kmem env s"
  by (simp add: count_received_def kmem_def)

lemma exit_read_cases:
  assumes "bpf_map_lookup_elem (active_reads s) id' = Some args"
    and "bpf_map_lookup_elem (active_connections s) cid = Some conn" and "cid = \<lparr>cid_fd = ra_fd args, cid_pid = pid\<rparr>"
    and "s1 = s\<lparr>active_reads := bpf_map_delete_elem (active_reads s) id'\<rparr>"
  shows "trace_exit_read env id' pid is_tls ret s =
    (case exit_read_payload env args ret s1 of
       Inl t \<Rightarrow> t
     | Inr (payload, ret', tsz, t) \<Rightarrow>
         (let u = count_received is_tls cid tsz t; e = unread_event (l7_event_heap t (env_cpu env)) in
          if is_rabbitmq_consume (kmem env t) payload ret' then
            send_event env (e\<lparr>ev_protocol := PROTOCOL_RABBITMQ, ev_method := METHOD_CONSUME\<rparr>) cid conn u
          else if nats_method (kmem env t) payload ret' = METHOD_CONSUME then
            send_event env (e\<lparr>ev_protocol := PROTOCOL_NATS, ev_method := METHOD_CONSUME\<rparr>) cid conn u
          else match_read env cid conn
            \<lparr>k_fd = cid_fd cid, k_pid = cid_pid cid, k_is_tls = is_tls, k_stream_id = -1\<rparr> payload ret' tsz e u))"
  using assms
  by (auto simp: trace_exit_read_def match_read_def unread_event_def count_received_def Let_def
      bpf_percpu_lookup_def kmem_def split: sum.splits prod.splits)

lemma match_read_frame:
  assumes "k_fd k = cid_fd cid" and "k_pid k = cid_pid cid"
    and "t' = match_read env cid conn k payload ret total_size e t"
  shows "same_tcp t t' \<and> active_connections t' = active_connections t \<and> active_reads t' = active_reads t \<and>
    requests_of cid (active_l7_requests t) (active_l7_requests t') \<and>
    reported cid (l7_events t) (l7_events t')"
proof (cases "find_request env payload ret cid conn k e t")
  case (Inl t'')
  then show ?thesis using assms find_request_Inl by (simp add: match_read_def)
next
  case (Inr x)
  obtain req k' r e' where x: "x = (req, k', r, e')" by (cases x)
  note k' = find_request_Inr [OF Inr [unfolded x]]
  obtain r' keep e'' req' where m: "match_response (kmem env t) payload ret total_size r req e' = (r', keep, e'', req')"
    by (cases "match_response (kmem env t) payload ret total_size r req e'")
  have "requests_of cid (active_l7_requests t) (bpf_map_modify (\<lambda>_. req') k' (active_l7_requests t))"
    using k' assms by (intro requests_of_modify) auto
  moreover from this have "requests_of cid (active_l7_requests t)
      (bpf_map_delete_elem (bpf_map_modify (\<lambda>_. req') k' (active_l7_requests t)) k')"
    using k' assms by (intro requests_of_delete) auto
  ultimately show ?thesis
    using assms(3) Inr x m
    by (simp add: match_read_def Let_def put_defs same_tcp_def reported_def event_of_def)
qed

lemma exit_read_frame:
  fixes s :: "'a l7_maps_scheme"
  assumes args: "bpf_map_lookup_elem (active_reads s) id' = Some args"
    and cid: "cid = \<lparr>cid_fd = ra_fd args, cid_pid = pid\<rparr>" and s': "s' = trace_exit_read env id' pid is_tls ret s"
  shows "same_tcp s s' \<and> counted cid (active_connections s) (active_connections s') \<and>
    requests_of cid (active_l7_requests s) (active_l7_requests s') \<and>
    active_reads s' = bpf_map_delete_elem (active_reads s) id' \<and>
    reported cid (l7_events s) (l7_events s')"
proof (cases "bpf_map_lookup_elem (active_connections s) cid")
  case None
  then show ?thesis using args by (simp add: s' cid trace_exit_read_def Let_def same_tcp_def)
next
  case conn: (Some conn)
  let ?s1 = "s\<lparr>active_reads := bpf_map_delete_elem (active_reads s) id'\<rparr>"
  note eq = exit_read_cases [OF args conn cid refl, where env = env and is_tls = is_tls and ret = ret]
  show ?thesis
  proof (cases "exit_read_payload env args ret ?s1")
    case (Inl t)
    then show ?thesis
      using exit_read_payload_frame [OF disjI2, OF Inl] by (simp add: s' eq same_tcp_def)
  next
    case (Inr x)
    obtain payload ret' tsz t where x: "x = (payload, ret', tsz, t)" by (cases x)
    let ?u = "count_received is_tls cid tsz t" and ?e = "unread_event (l7_event_heap t (env_cpu env))"
    let ?k = "\<lparr>k_fd = cid_fd cid, k_pid = cid_pid cid, k_is_tls = is_tls, k_stream_id = -1\<rparr>"
    have u: "same_tcp s ?u \<and> counted cid (active_connections s) (active_connections ?u) \<and>
      active_l7_requests ?u = active_l7_requests s \<and> active_reads ?u = bpf_map_delete_elem (active_reads s) id' \<and>
      l7_events ?u = l7_events s"
      using exit_read_payload_frame [OF disjI1, OF Inr [unfolded x]]
      by (simp add: same_tcp_def count_received_def)
    moreover have "same_tcp ?u (send_event env e cid conn ?u) \<and>
      active_connections (send_event env e cid conn ?u) = active_connections ?u \<and>
      active_l7_requests (send_event env e cid conn ?u) = active_l7_requests ?u \<and>
      active_reads (send_event env e cid conn ?u) = active_reads ?u \<and>
      reported cid (l7_events ?u) (l7_events (send_event env e cid conn ?u))" for e
      by (simp, simp add: put_defs same_tcp_def Let_def)
    moreover note match_read_frame [of ?k cid _ env conn payload ret' tsz ?e ?u, OF _ _ refl]
    ultimately show ?thesis
      unfolding s' eq Inr x by (auto simp: Let_def intro: same_tcp_trans)
  qed
qed

end
