(* ===== verification/L7_Iovec.thy ===== *)
theory L7_Iovec
  imports L7
begin

unbundle bit_operations_syntax

text \<open>
  Vectored writes. \<^verbatim>\<open>read_iovec\<close> gathers the pieces in the per-CPU buffer; the theorems state that
  the buffer then holds the concatenation of the pieces, cut at 1024 bytes, and that a vectored
  write is traced like a plain write of that payload.
\<close>

section \<open>Memory outside the buffer\<close>

definition off_buffer :: "bpf_env \<Rightarrow> u64 \<Rightarrow> nat \<Rightarrow> bool" where
  "off_buffer env a n \<longleftrightarrow> (\<forall>i<n. IOVEC_BUF_SIZE \<le> unat (a + of_nat i - env_iovec_buf env))"

lemma read_off_buffer:
  assumes "off_buffer env a n" and "length b \<le> IOVEC_BUF_SIZE"
  shows "bpf_probe_read (kmem_with env b) n a = bpf_probe_read (env_mem env) n a"
proof (rule bpf_probe_read_cong)
  fix i assume "i < n"
  then have "\<not> unat (a + of_nat i - env_iovec_buf env) < length b"
    using assms unfolding off_buffer_def by (meson le_trans not_less)
  then show "kmem_with env b (a + of_nat i) = env_mem env (a + of_nat i)"
    by (simp add: kmem_with_def overlay_def mem_of_def)
qed

lemma read_buffer:
  assumes "length b \<le> IOVEC_BUF_SIZE" and "off + n \<le> length b"
  shows "bpf_probe_read (kmem_with env b) n (env_iovec_buf env + of_nat off) = Some (field_at off n b)"
proof -
  have "holds_at (mem_of (env_iovec_buf env) b) (env_iovec_buf env) b"
    using assms(1) by (intro holds_at_mem_of) simp
  then have "holds_at (kmem_with env b) (env_iovec_buf env) b"
    by (simp add: holds_at_def bpf_probe_read_Some_iff kmem_with_def overlay_def)
  then show ?thesis by (rule bpf_probe_read_holds) (rule assms(2))
qed

section \<open>The pieces\<close>

text \<open>Entry \<open>i\<close> of the vector describes the piece \<open>bs\<close> at address \<open>a\<close>.\<close>

fun iov_entry :: "bpf_env \<Rightarrow> u64 \<Rightarrow> nat \<Rightarrow> u64 \<times> u8 list \<Rightarrow> bool" where
  "iov_entry env iov i (a, bs) \<longleftrightarrow>
     bpf_probe_read (env_mem env) 16 (iov + of_nat (i * 16)) =
       Some (le_bytes 8 a @ le_bytes 8 (of_nat (length bs) :: u64)) \<and>
     off_buffer env (iov + of_nat (i * 16)) 16 \<and>
     holds_at (env_mem env) a bs \<and> off_buffer env a (length bs)"

definition iov_vector :: "bpf_env \<Rightarrow> u64 \<Rightarrow> (u64 \<times> u8 list) list \<Rightarrow> bool" where
  "iov_vector env iov ps \<longleftrightarrow> length ps \<le> MAX_IOVEC_SIZE \<and> (\<forall>i<length ps. iov_entry env iov i (ps ! i)) \<and>
     (\<forall>p\<in>set ps. length (snd p) < 1024)"

definition iov_data :: "(u64 \<times> u8 list) list \<Rightarrow> u8 list" where
  "iov_data ps = concat (map snd ps)"

lemma iovec_of_entry:
  "iovec_of (le_bytes 8 a @ le_bytes 8 (n :: u64)) = \<lparr>iov_buf = a, iov_size = n\<rparr>"
  using field_at_here [of "le_bytes 8 n" 8 "[]"] by (simp add: iovec_of_def field_at_simps)

lemma off_buffer_mono: "off_buffer env a n \<Longrightarrow> k \<le> n \<Longrightarrow> off_buffer env a k"
  by (simp add: off_buffer_def)

text \<open>One piece added to what is assembled so far.\<close>

lemma read_iovec_piece:
  assumes e: "iov_entry env iov i (a, bs)" and len: "length bs < 1024" and i: "i < L" "L \<le> 32"
    and b: "length b = IOVEC_BUF_SIZE" and ac: "length acc \<le> 1024" "take (length acc) b = acc"
  defines "n \<equiv> min (length bs) (1024 - length acc)"
  shows "read_iovec_loop env iov (of_nat L) 1024 (Suc k) i (of_nat (length acc)) t b =
    read_iovec_loop env iov (of_nat L) 1024 k (Suc i) (of_nat (length acc + n)) (t + of_nat (length bs))
      (acc @ take n bs @ drop (length acc + n) b)"
proof -
  have iL: "\<not> (of_nat i :: u64) \<ge> of_nat L"
    using i by (simp add: word_le_nat_alt unat_of_nat)
  have rd: "bpf_probe_read (kmem_with env b) 16 (iov + of_nat (i * 16)) =
      Some (le_bytes 8 a @ le_bytes 8 (of_nat (length bs) :: u64))"
    using e b read_off_buffer [of env _ 16 b] by simp
  have bsz: "unat (of_nat (length bs) :: u64) = length bs" using len by (subst unat_of_nat) simp
  have acc: "unat (of_nat (length acc) :: u64) = length acc" using ac(1) by (subst unat_of_nat) simp
  show ?thesis
  proof (cases "bs = []")
    case True
    have "acc @ drop (length acc) b = b" using ac(2) by (metis append_take_drop_id)
    then show ?thesis
      using True iL rd by (simp add: iovec_of_entry n_def del: of_nat_mult)
  next
    case ne: False
    then have nz: "\<not> (of_nat (length bs) :: u64) \<le> 0" using bsz by (simp add: word_le_nat_alt)
    show ?thesis
    proof (cases "length acc < 1024")
      case False
      then have "length acc = 1024" "n = 0" using ac(1) by (simp_all add: n_def)
      moreover have "acc @ drop (length acc) b = b" using ac(2) by (metis append_take_drop_id)
      ultimately show ?thesis
        using iL rd nz by (simp add: iovec_of_entry Let_def del: of_nat_mult)
    next
      case True
      then have lt: "(of_nat (length acc) :: u64) < 1024" using acc by (simp add: word_less_nat_alt)
      have sub: "unat (1024 - of_nat (length acc) :: u64) = 1024 - length acc"
        using True acc by (simp add: unat_sub word_le_nat_alt)
      have "unat (min (of_nat (length bs)) (1024 - of_nat (length acc) :: u64)) = n"
        using bsz sub by (simp add: n_def min_def word_le_nat_alt)
      moreover have "n \<le> 1023" using len by (simp add: n_def)
      ultimately have sz: "unat (TRUNCATE_PAYLOAD_SIZE (min (of_nat (length bs)) (1024 - of_nat (length acc) :: u64))) = n"
        by (simp add: unat_TRUNCATE_u64)
      then have szw: "TRUNCATE_PAYLOAD_SIZE (min (of_nat (length bs)) (1024 - of_nat (length acc) :: u64)) = of_nat n"
        by (metis of_nat_unat ucast_id)
      have "unat (TRUNCATE_PAYLOAD_SIZE (of_nat (length acc) :: u64)) = length acc"
        using True acc by (simp add: unat_TRUNCATE_u64)
      then have off: "TRUNCATE_PAYLOAD_SIZE (of_nat (length acc) :: u64) = of_nat (length acc)"
        by (metis of_nat_unat ucast_id)
      have "off_buffer env a n" using e off_buffer_mono [of env a "length bs" n] by (simp add: n_def)
      then have "bpf_probe_read (kmem_with env b) n a = Some (take n bs)"
        using e b read_off_buffer [of env a n b] bpf_probe_read_holds0 [of "env_mem env" a bs n]
        by (simp add: n_def)
      then have "read_into env (kmem_with env b) b (length acc) n a =
          (True, acc @ take n bs @ drop (length acc + n) b)"
        using ac(2) by (simp add: read_into_def)
      then show ?thesis
        using iL rd nz lt sz szw off acc
        by (simp add: iovec_of_entry Let_def del: of_nat_mult)
    qed
  qed
qed

lemma read_iovec_loop_data:
  assumes vec: "iov_vector env iov ps"
  shows "k = length ps - i \<Longrightarrow> i \<le> length ps \<Longrightarrow> length b = IOVEC_BUF_SIZE \<Longrightarrow> length acc \<le> 1024 \<Longrightarrow>
    take (length acc) b = acc \<Longrightarrow> acc' = take 1024 (acc @ iov_data (drop i ps)) \<Longrightarrow>
    read_iovec_loop env iov (of_nat (length ps)) 1024 (k + r) i (of_nat (length acc)) t b =
      (of_nat (length acc'), t + of_nat (length (iov_data (drop i ps))), acc' @ drop (length acc') b)"
proof (induction k arbitrary: i t acc b)
  case 0
  then have "i = length ps" by simp
  moreover have "acc @ drop (length acc) b = b" using 0 by (metis append_take_drop_id)
  ultimately show ?case using 0 by (cases r) (simp_all add: iov_data_def)
next
  case (Suc k)
  then have i: "i < length ps" by simp
  obtain a bs where p: "ps ! i = (a, bs)" by (cases "ps ! i")
  then have e: "iov_entry env iov i (a, bs)" and len: "length bs < 1024" and L: "length ps \<le> 32"
    using vec i unfolding iov_vector_def by (metis, metis nth_mem snd_conv, simp)
  let ?n = "min (length bs) (1024 - length acc)"
  let ?acc = "acc @ take ?n bs" and ?b = "acc @ take ?n bs @ drop (length acc + ?n) b"
  have la: "length ?acc = length acc + ?n" by simp
  have "drop i ps = (a, bs) # drop (Suc i) ps" using i p by (simp add: Cons_nth_drop_Suc [symmetric])
  then have data: "iov_data (drop i ps) = bs @ iov_data (drop (Suc i) ps)" by (simp add: iov_data_def)
  have acc': "acc' = take 1024 (?acc @ iov_data (drop (Suc i) ps))"
    using Suc.prems(4,6) by (auto simp: data min_def)
  have "read_iovec_loop env iov (of_nat (length ps)) 1024 (Suc k + r) i (of_nat (length acc)) t b =
      read_iovec_loop env iov (of_nat (length ps)) 1024 (k + r) (Suc i) (of_nat (length ?acc))
        (t + of_nat (length bs)) ?b"
    using read_iovec_piece [OF e len i L Suc.prems(3-5), of "k + r" t] unfolding la by simp
  also have "\<dots> = (of_nat (length acc'), t + of_nat (length bs) + of_nat (length (iov_data (drop (Suc i) ps))),
      acc' @ drop (length acc') ?b)"
    by (rule Suc.IH) (use Suc.prems acc' in \<open>auto simp: min_def\<close>)
  also have "drop (length acc') ?b = drop (length acc') b"
  proof -
    have "length ?acc \<le> length acc'" using Suc.prems(4) by (simp add: acc' min_def)
    then have "drop (length acc') (?acc @ drop (length ?acc) b) = drop (length acc') b" by simp
    then show ?thesis by (simp add: la)
  qed
  finally show ?case by (simp add: data add.assoc)
qed

lemma read_iovec_data:
  assumes "iov_vector env iov ps" and "length b = IOVEC_BUF_SIZE"
  shows "read_iovec env iov (of_nat (length ps)) 0 b 0 =
    (of_nat (min (length (iov_data ps)) 1024), of_nat (length (iov_data ps)),
     take 1024 (iov_data ps) @ drop (min (length (iov_data ps)) 1024) b)"
  using read_iovec_loop_data [OF assms(1), of "length ps" 0 b "[]" "take 1024 (iov_data ps)" "32 - length ps" 0] assms
  by (simp add: read_iovec_def iov_vector_def min.commute)

text \<open>
  C24. A vectored write is traced as the write of its assembled payload: for up to 32 pieces of
  together at most 1023 bytes, \<^verbatim>\<open>sys_enter_writev\<close> does exactly what \<^verbatim>\<open>sys_enter_write\<close> would do for
  the concatenation of the pieces, which is what the per-CPU buffer holds.
\<close>

theorem writev_as_write:
  fixes s :: "'a l7_maps_scheme"
  assumes "iov_vector env (rw_buf ctx) ps" and "rw_size ctx = of_nat (length ps)"
    and "0 < length (iov_data ps)" and "length (iov_data ps) \<le> 1023"
    and "length (iovec_buf_heap s (env_cpu env)) = IOVEC_BUF_SIZE"
    and "bpf_map_lookup_elem (active_connections s)
      \<lparr>cid_fd = rw_fd ctx, cid_pid = pid_of (env_pid_tgid env)\<rparr> = Some conn"
    and "s' = put_iovec_buf env (iov_data ps @ drop (length (iov_data ps)) (iovec_buf_heap s (env_cpu env))) s"
  shows "sys_enter_writev env ctx s =
      sys_enter_write env (ctx\<lparr>rw_buf := env_iovec_buf env, rw_size := of_nat (length (iov_data ps))\<rparr>) s' \<and>
    holds_at (kmem env s') (env_iovec_buf env) (iov_data ps)"
proof -
  let ?b = "iovec_buf_heap s (env_cpu env)" and ?d = "iov_data ps"
  have "ps \<noteq> []" using assms(3) by (auto simp: iov_data_def)
  moreover have "length ps \<le> 32" using assms(1) by (simp add: iov_vector_def)
  ultimately have n: "(of_nat (length ps) :: u64) \<noteq> 0" by (simp add: word_unat_eq_iff unat_of_nat)
  have "read_iovec env (rw_buf ctx) (of_nat (length ps)) 0 ?b 0 =
      (of_nat (length ?d), of_nat (length ?d), ?d @ drop (length ?d) ?b)"
    using read_iovec_data [OF assms(1,5)] assms(4) by (simp add: min_def)
  then have "write_payload env (rw_buf ctx) 0 (rw_size ctx) s =
      Some (env_iovec_buf env, of_nat (length ?d), of_nat (length ?d), s')"
    using n by (simp add: write_payload_def bpf_percpu_lookup_def assms(2,7))
  moreover have "active_connections s' = active_connections s" by (simp add: assms(7) put_iovec_buf_def)
  ultimately have "sys_enter_writev env ctx s =
      sys_enter_write env (ctx\<lparr>rw_buf := env_iovec_buf env, rw_size := of_nat (length ?d)\<rparr>) s'"
    using assms(6)
    by (simp add: sys_enter_writev_def sys_enter_write_def trace_enter_write_def write_payload_def Let_def)
  moreover have "holds_at (kmem env s') (env_iovec_buf env) ?d"
    using read_buffer [of "?d @ drop (length ?d) ?b" 0 "length ?d" env] assms(4,5)
    by (simp add: holds_at_def kmem_def assms(7) put_iovec_buf_def field_at_def)
  ultimately show ?thesis by blast
qed

text \<open>A small vector at \<^verbatim>\<open>0x1000\<close> with one piece of two bytes, and a process with one connection.\<close>

definition sample_iov_env :: bpf_env where
  "sample_iov_env = (plain_env 0x700000008 10)\<lparr>env_mem :=
     mem_of 0x1000 ((le_bytes 8 (0x1010 :: u64) @ le_bytes 8 (2 :: u64)) @ [71, 69])\<rparr>"

definition one_connection :: "u64 \<Rightarrow> u32 \<Rightarrow> u64 \<Rightarrow> l7_maps" where
  "one_connection fd pid t = init_l7_maps\<lparr>active_connections :=
     [(\<lparr>cid_fd = fd, cid_pid = pid\<rparr>, \<lparr>c_timestamp = t, c_bytes_sent = 0, c_bytes_received = 0\<rparr>)]\<rparr>"

lemma sample_iov_vector: "iov_vector sample_iov_env 0x1000 [(0x1010, [71, 69])]"
proof -
  let ?d = "le_bytes 8 (0x1010 :: u64) @ le_bytes 8 (2 :: u64)"
  have h: "holds_at (env_mem sample_iov_env) 0x1000 (?d @ [71, 69])"
    unfolding sample_iov_env_def by (simp add: holds_at_mem_of)
  have "bpf_probe_read (env_mem sample_iov_env) 16 0x1000 = Some ?d"
    by (rule holds_start [OF h]) simp
  moreover have "holds_at (env_mem sample_iov_env) 0x1010 [71, 69]"
    using holds_at_append [OF h] by simp
  moreover have "off_buffer sample_iov_env a n" if "unat a = 0x1000 \<or> unat a = 0x1010" "n \<le> 16" for a n
    unfolding off_buffer_def
  proof (intro allI impI)
    fix i assume "i < n"
    then have "unat (a + of_nat i) = unat a + i"
      using that by (auto simp: unat_word_ariths unat_of_nat)
    then show "2048 \<le> unat (a + of_nat i - env_iovec_buf sample_iov_env)"
      using that(1) by (auto simp: sample_iov_env_def plain_env_def)
  qed
  ultimately show ?thesis by (simp add: iov_vector_def)
qed

theorem writev_as_write_witness:
  "sys_enter_writev sample_iov_env \<lparr>rw_fd = 3, rw_buf = 0x1000, rw_size = 1\<rparr> (one_connection 3 7 5) =
   sys_enter_write sample_iov_env \<lparr>rw_fd = 3, rw_buf = 0, rw_size = 2\<rparr>
     (put_iovec_buf sample_iov_env ([71, 69] @ drop 2 (replicate 2048 0)) (one_connection 3 7 5))"
proof -
  have "iov_vector sample_iov_env (rw_buf \<lparr>rw_fd = 3, rw_buf = 0x1000, rw_size = 1\<rparr>) [(0x1010, [71, 69])]"
    using sample_iov_vector by simp
  moreover have "bpf_map_lookup_elem (active_connections (one_connection 3 7 5))
      \<lparr>cid_fd = rw_fd \<lparr>rw_fd = 3, rw_buf = 0x1000, rw_size = 1\<rparr>, cid_pid = pid_of (env_pid_tgid sample_iov_env)\<rparr> =
      Some \<lparr>c_timestamp = 5, c_bytes_sent = 0, c_bytes_received = 0\<rparr>"
    by (simp add: one_connection_def bpf_map_lookup_elem_def sample_iov_env_def plain_env_def pid_of_def)
  moreover have "env_iovec_buf sample_iov_env = 0" by (simp add: sample_iov_env_def plain_env_def)
  moreover have "iovec_buf_heap (one_connection 3 7 5) (env_cpu sample_iov_env) = replicate 2048 0"
    by (simp add: one_connection_def)
  ultimately show ?thesis
    using writev_as_write [of sample_iov_env "\<lparr>rw_fd = 3, rw_buf = 0x1000, rw_size = 1\<rparr>" "[(0x1010, [71, 69])]"
        "one_connection 3 7 5", OF _ _ _ _ _ _ refl]
    by (simp add: iov_data_def)
qed

end
