(* ===== verification/L7_Exchange.thy ===== *)
theory L7_Exchange
  imports L7_Requests L7_Iovec
begin

text \<open>
  Requests and responses as the probes see them: the probe \<^verbatim>\<open>trace_enter_write\<close> keeps a request,
  other probes run on any number of other threads and connections, and \<^verbatim>\<open>trace_enter_read\<close> and
  \<^verbatim>\<open>trace_exit_read\<close> of the same connection find it again. The theory has the probes as steps,
  the condition that a step does not concern a connection, the lemma that such steps keep its
  state, and the exchange itself.
\<close>

section \<open>Steps of other connections\<close>

datatype l7_trace =
    Tcp tcp_trace
  | Write bpf_env u64 u16 u64 u64 u64
  | ReadEnter bpf_env u64 u32 u64 u64 u64 u64
  | ReadExit bpf_env u64 u32 u16 s64

fun l7_step :: "l7_trace \<Rightarrow> 'a l7_maps_scheme \<Rightarrow> 'a l7_maps_scheme" where
  "l7_step (Tcp x) s = tcp_step x s"
| "l7_step (Write env fd is_tls buf sz iovlen) s = trace_enter_write env fd is_tls buf sz iovlen s"
| "l7_step (ReadEnter env pid_tgid pid fd buf ret iovlen) s = trace_enter_read env pid_tgid pid fd buf ret iovlen s"
| "l7_step (ReadExit env pid_tgid pid is_tls ret) s = trace_exit_read env pid_tgid pid is_tls ret s"

fun l7_trace_env :: "l7_trace \<Rightarrow> bpf_env" where
  "l7_trace_env (Tcp x) = tcp_env x"
| "l7_trace_env (Write env _ _ _ _ _) = env"
| "l7_trace_env (ReadEnter env _ _ _ _ _ _) = env"
| "l7_trace_env (ReadExit env _ _ _ _) = env"

definition calm_l7 :: "bpf_env \<Rightarrow> bool" where
  "calm_l7 env \<longleftrightarrow> calm env \<and> env_evict env Active_L7_Requests = (\<lambda>_. False) \<and>
     env_evict env Active_Reads = (\<lambda>_. False)"

text \<open>
  The step is not one of the connection \<open>cid\<close> nor of a read with an identifier in \<open>R\<close>. Whose
  connection a probe works on can depend on what the maps say about the thread or the socket.
\<close>

fun apart_tcp :: "connection_id \<Rightarrow> tcp_trace \<Rightarrow> 'a tcp_maps_scheme \<Rightarrow> bool" where
  "apart_tcp cid (CtEvent env ctx) s \<longleftrightarrow> True"
| "apart_tcp cid (SetState env ctx) s \<longleftrightarrow>
     (case ctx of
        None \<Rightarrow> True
      | Some a \<Rightarrow>
          if ss_oldstate a = BPF_TCP_SYN_SENT
          then bpf_map_lookup_elem (connection_id_by_socket s) (ss_skaddr a) \<noteq> Some cid
          else case bpf_map_lookup_elem (fd_by_pid_tgid s) (env_pid_tgid env) of
                 None \<Rightarrow> True | Some fd \<Rightarrow> cid_at env fd \<noteq> cid)"
| "apart_tcp cid (EnterConnect env ctx) s \<longleftrightarrow> True"
| "apart_tcp cid (ExitConnect env ctx) s \<longleftrightarrow>
     (case bpf_map_lookup_elem (fd_by_pid_tgid s) (env_pid_tgid env) of
        None \<Rightarrow> True | Some fd \<Rightarrow> cid_at env fd \<noteq> cid)"
| "apart_tcp cid (EnterClose env ctx) s \<longleftrightarrow>
     (case ctx of None \<Rightarrow> True | Some a \<Rightarrow> cid_at env (awf_fd a) \<noteq> cid)"

fun apart :: "connection_id \<Rightarrow> u64 set \<Rightarrow> l7_trace \<Rightarrow> 'a l7_maps_scheme \<Rightarrow> bool" where
  "apart cid R (Tcp x) s \<longleftrightarrow> apart_tcp cid x s"
| "apart cid R (Write env fd is_tls buf sz iovlen) s \<longleftrightarrow> cid_at env fd \<noteq> cid"
| "apart cid R (ReadEnter env pid_tgid pid fd buf ret iovlen) s \<longleftrightarrow> pid_tgid \<notin> R"
| "apart cid R (ReadExit env pid_tgid pid is_tls ret) s \<longleftrightarrow> pid_tgid \<notin> R \<and>
     (case bpf_map_lookup_elem (active_reads s) pid_tgid of
        None \<Rightarrow> True | Some args \<Rightarrow> \<lparr>cid_fd = ra_fd args, cid_pid = pid\<rparr> \<noteq> cid)"

fun apart_run :: "connection_id \<Rightarrow> u64 set \<Rightarrow> l7_trace list \<Rightarrow> 'a l7_maps_scheme \<Rightarrow> bool" where
  "apart_run cid R [] s \<longleftrightarrow> True"
| "apart_run cid R (x # xs) s \<longleftrightarrow> calm_l7 (l7_trace_env x) \<and> apart cid R x s \<and> apart_run cid R xs (l7_step x s)"

text \<open>What such steps keep, with room for \<open>n\<close> more entries in the maps.\<close>

definition room :: "nat \<Rightarrow> 'a l7_maps_scheme \<Rightarrow> bool" where
  "room n s \<longleftrightarrow> length (active_connections s) + n \<le> MAX_CONNECTIONS \<and>
     length (active_l7_requests s) + n \<le> L7_REQUEST_ENTRIES \<and> length (active_reads s) + n \<le> READ_ENTRIES"

definition keeps :: "connection_id \<Rightarrow> u64 set \<Rightarrow> 'a l7_maps_scheme \<Rightarrow> 'a l7_maps_scheme \<Rightarrow> bool" where
  "keeps cid R s s' \<longleftrightarrow>
     bpf_map_lookup_elem (active_connections s') cid = bpf_map_lookup_elem (active_connections s) cid \<and>
     (\<forall>k. \<lparr>cid_fd = k_fd k, cid_pid = k_pid k\<rparr> = cid \<longrightarrow>
        bpf_map_lookup_elem (active_l7_requests s') k = bpf_map_lookup_elem (active_l7_requests s) k) \<and>
     (\<forall>r \<in> R. bpf_map_lookup_elem (active_reads s') r = bpf_map_lookup_elem (active_reads s) r) \<and>
     filter (event_of cid) (l7_events s') = filter (event_of cid) (l7_events s)"

lemma keeps_refl [simp]: "keeps cid R s s" by (simp add: keeps_def)

lemma keeps_trans: "keeps cid R s s' \<Longrightarrow> keeps cid R s' s'' \<Longrightarrow> keeps cid R s s''"
  by (simp add: keeps_def)

lemma room_less: "room (Suc n) s \<Longrightarrow> room n s" by (simp add: room_def)

lemma calm_update_other:
  "k' \<noteq> k \<Longrightarrow> length m < N \<Longrightarrow>
   bpf_map_lookup_elem (snd (bpf_lru_update_elem N (\<lambda>_. False) m k v f)) k' = bpf_map_lookup_elem m k'"
  by (auto simp: bpf_lru_update_elem_def Let_def bpf_map_lookup_elem_def update_conv' map_add_def
      split: option.splits)

lemma calm_update_room:
  "length m + Suc n \<le> N \<Longrightarrow> length (snd (bpf_lru_update_elem N ev m k v f)) + n \<le> N"
  using length_lru_update [of N ev m k v f] by simp

lemma counted_other:
  "counted cid' m m' \<Longrightarrow> length m' = length m \<and>
   (cid \<noteq> cid' \<longrightarrow> bpf_map_lookup_elem m' cid = bpf_map_lookup_elem m cid)"
  by (auto simp: counted_def hash.lookup_modify)

lemma requests_of_other:
  "requests_of cid' m m' \<Longrightarrow> cid' \<noteq> cid \<Longrightarrow> \<lparr>cid_fd = k_fd k, cid_pid = k_pid k\<rparr> = cid \<Longrightarrow>
   bpf_map_lookup_elem m' k = bpf_map_lookup_elem m k"
  unfolding requests_of_def by metis

lemma reported_other:
  "reported cid' es es' \<Longrightarrow> cid' \<noteq> cid \<Longrightarrow> filter (event_of cid) es' = filter (event_of cid) es"
  by (cases cid; cases cid') (auto simp: reported_def event_of_def)

lemma keeps_write:
  assumes "room (Suc n) s" and "calm_l7 env" and "cid_at env fd \<noteq> cid"
    and s': "s' = trace_enter_write env fd is_tls buf sz iovlen s"
  shows "keeps cid R s s' \<and> room n s'"
proof -
  note fr = enter_write_frame [of s env fd is_tls buf sz iovlen, folded s']
  have k: "(\<forall>k. \<lparr>cid_fd = k_fd k, cid_pid = k_pid k\<rparr> = cid \<longrightarrow>
        bpf_map_lookup_elem (active_l7_requests s') k = bpf_map_lookup_elem (active_l7_requests s) k) \<and>
      length (active_l7_requests s') + n \<le> L7_REQUEST_ENTRIES"
    using fr assms(1-3)
    by (auto simp: request_kept_def calm_l7_def room_def intro!: calm_update_other calm_update_room)
  then show ?thesis
    using fr counted_other [of "cid_at env fd" _ _ cid] reported_other [of "cid_at env fd" _ _ cid] assms(1-3)
    by (auto simp: keeps_def room_def)
qed

lemma keeps_read_enter:
  assumes "room (Suc n) s" and "calm_l7 env" and "pid_tgid \<notin> R"
    and s': "s' = trace_enter_read env pid_tgid pid fd buf ret iovlen s"
  shows "keeps cid R s s' \<and> room n s'"
  using assms
  by (auto simp: trace_enter_read_def keeps_def room_def calm_l7_def Let_def
      intro!: calm_update_other calm_update_room split: option.splits)

lemma keeps_read_exit:
  assumes "room (Suc n) s" and "apart cid R (ReadExit env pid_tgid pid is_tls ret) s"
    and s': "s' = trace_exit_read env pid_tgid pid is_tls ret s"
  shows "keeps cid R s s' \<and> room n s'"
proof (cases "bpf_map_lookup_elem (active_reads s) pid_tgid")
  case None
  then show ?thesis using assms(1) s' by (simp add: trace_exit_read_def room_less)
next
  case (Some args)
  let ?cid = "\<lparr>cid_fd = ra_fd args, cid_pid = pid\<rparr>"
  have ne: "?cid \<noteq> cid" and R: "pid_tgid \<notin> R" using assms(2) Some by auto
  note fr = exit_read_frame [OF Some refl s']
  then have r: "requests_of ?cid (active_l7_requests s) (active_l7_requests s')" by simp
  have "length (active_l7_requests s') \<le> length (active_l7_requests s)" using r by (simp add: requests_of_def)
  then show ?thesis
    using fr counted_other [of ?cid _ _ cid] reported_other [of ?cid _ _ cid] assms(1) ne R
      length_map_delete [of "active_reads s" pid_tgid]
    by (auto simp: keeps_def room_def hash.lookup_delete requests_of_other [OF r ne])
qed

text \<open>
  The state changes of sockets and the end of a \<^verbatim>\<open>connect\<close> leave three maps in one of these forms.
\<close>

lemma keeps_conns:
  assumes "room (Suc n) s" and "calm env" and "cid' \<noteq> cid"
    and "active_connections s' = active_connections s \<or>
      active_connections s' = bpf_map_delete_elem (active_connections s) cid' \<or>
      (\<exists>conn. active_connections s' = snd (bpf_lru_update_elem MAX_CONNECTIONS
         (env_evict env Active_Connections) (active_connections s) cid' conn BPF_ANY))"
    and "requests_of cid' (active_l7_requests s) (active_l7_requests s')"
    and "active_reads s' = active_reads s" and "l7_events s' = l7_events s"
  shows "keeps cid R s s' \<and> room n s'"
proof -
  have "bpf_map_lookup_elem (active_connections s') cid = bpf_map_lookup_elem (active_connections s) cid \<and>
      length (active_connections s') + n \<le> MAX_CONNECTIONS"
    using assms(1-4) length_map_delete [of "active_connections s" cid']
    by (auto simp: room_def calm_def hash.lookup_delete intro!: calm_update_other calm_update_room)
  then show ?thesis
    using assms(1,5-7) requests_of_other [OF assms(5,3)] by (simp add: keeps_def room_def requests_of_def)
qed

lemma set_state_conns:
  assumes "s' = inet_sock_set_state env (Some a) s"
  shows "active_reads s' = active_reads s \<and> active_l7_requests s' = active_l7_requests s \<and>
    l7_events s' = l7_events s \<and>
   (active_connections s' = active_connections s \<or>
    (\<exists>cid'. ss_oldstate a = BPF_TCP_SYN_SENT \<and>
       bpf_map_lookup_elem (connection_id_by_socket s) (ss_skaddr a) = Some cid' \<and>
       active_connections s' = bpf_map_delete_elem (active_connections s) cid') \<or>
    (\<exists>fd conn. ss_oldstate a \<noteq> BPF_TCP_SYN_SENT \<and>
       bpf_map_lookup_elem (fd_by_pid_tgid s) (env_pid_tgid env) = Some fd \<and>
       active_connections s' = snd (bpf_lru_update_elem MAX_CONNECTIONS (env_evict env Active_Connections)
         (active_connections s) (cid_at env fd) conn BPF_ANY)))"
  unfolding assms
  by (auto simp: inet_sock_set_state_def set_state_syn_sent_def set_state_leave_syn_sent_def Let_def
      split: option.splits prod.splits if_splits)

lemma exit_connect_conns:
  assumes "bpf_map_lookup_elem (fd_by_pid_tgid s) (env_pid_tgid env) = Some fd"
    and "s' = sys_exit_connect env ctx s"
  shows "active_reads s' = active_reads s \<and> l7_events s' = l7_events s \<and>
    requests_of (cid_at env fd) (active_l7_requests s) (active_l7_requests s') \<and>
    (active_connections s' = active_connections s \<or>
     (\<exists>conn. active_connections s' = snd (bpf_lru_update_elem MAX_CONNECTIONS
        (env_evict env Active_Connections) (active_connections s) (cid_at env fd) conn BPF_ANY)))"
  using assms by (auto simp: sys_exit_connect_def Let_def intro!: requests_of_delete)

lemma keeps_set_state:
  assumes "room (Suc n) s" and "calm env" and "apart_tcp cid (SetState env (Some a)) s"
    and s': "s' = inet_sock_set_state env (Some a) s"
  shows "keeps cid R s s' \<and> room n s'"
proof -
  note fr = set_state_conns [OF s']
  then consider "active_connections s' = active_connections s"
    | cid' where "cid' \<noteq> cid" "active_connections s' = bpf_map_delete_elem (active_connections s) cid'"
    | cid' conn where "cid' \<noteq> cid" "active_connections s' = snd (bpf_lru_update_elem MAX_CONNECTIONS
        (env_evict env Active_Connections) (active_connections s) cid' conn BPF_ANY)"
    using assms(3) by auto
  then show ?thesis
  proof cases
    case 1
    then show ?thesis using fr room_less [OF assms(1)] by (simp add: keeps_def room_def)
  next
    case 2
    show ?thesis using fr 2(2) by (intro keeps_conns [OF assms(1,2) 2(1)] disjI2 disjI1) simp_all
  next
    case 3
    show ?thesis using fr by (intro keeps_conns [OF assms(1,2) 3(1)] disjI2 exI [of _ conn] 3(2)) simp_all
  qed
qed

lemma keeps_tcp:
  assumes "room (Suc n) s" and "calm_l7 (tcp_env x)" and "apart_tcp cid x s"
  shows "keeps cid R s (tcp_step x s) \<and> room n (tcp_step x s)"
proof (cases x)
  case (CtEvent env ctx)
  then show ?thesis
    using assms
    by (auto simp: nf_ct_deliver_cached_events_def handle_ct_def Let_def keeps_def room_def split: option.splits)
next
  case (SetState env ctx)
  then show ?thesis
    using assms keeps_set_state [OF assms(1) _ _ refl] room_less [OF assms(1)]
    by (cases ctx) (simp_all add: calm_l7_def, simp add: inet_sock_set_state_def)
next
  case (EnterConnect env ctx)
  then show ?thesis
    using assms by (auto simp: sys_enter_connect_def keeps_def room_def split: option.splits)
next
  case (ExitConnect env ctx)
  show ?thesis
  proof (cases "bpf_map_lookup_elem (fd_by_pid_tgid s) (env_pid_tgid env)")
    case None
    then show ?thesis using ExitConnect room_less [OF assms(1)] by (simp add: sys_exit_connect_def Let_def)
  next
    case (Some fd)
    then have "cid_at env fd \<noteq> cid" and "calm env" using assms ExitConnect by (simp_all add: calm_l7_def)
    then show ?thesis
      using keeps_conns [OF assms(1), of env "cid_at env fd" cid "sys_exit_connect env ctx s" R]
        exit_connect_conns [OF Some refl, of ctx] ExitConnect
      by (elim conjE disjE) simp_all
  qed
next
  case (EnterClose env ctx)
  show ?thesis
  proof (cases ctx)
    case None
    then show ?thesis using EnterClose room_less [OF assms(1)] by (simp add: sys_enter_close_def)
  next
    case (Some a)
    then have "cid_at env (awf_fd a) \<noteq> cid" and "calm env" using assms EnterClose by (simp_all add: calm_l7_def)
    then show ?thesis
      using keeps_conns [OF assms(1), of env "cid_at env (awf_fd a)" cid "sys_enter_close env ctx s" R]
        EnterClose Some
      by (auto simp: sys_enter_close_def Let_def split: option.splits)
  qed
qed

lemma keeps_step:
  assumes "room (Suc n) s" and "calm_l7 (l7_trace_env x)" and "apart cid R x s"
  shows "keeps cid R s (l7_step x s) \<and> room n (l7_step x s)"
  using assms
  by (cases x) (auto dest: keeps_tcp keeps_write [OF _ _ _ refl] keeps_read_enter [OF _ _ _ refl]
      keeps_read_exit [OF _ _ refl] simp del: apart.simps(4))

lemma keeps_run:
  "room (length xs + n) s \<Longrightarrow> apart_run cid R xs s \<Longrightarrow>
   keeps cid R s (fold l7_step xs s) \<and> room n (fold l7_step xs s)"
proof (induction xs arbitrary: s)
  case (Cons x xs)
  have "keeps cid R s (l7_step x s) \<and> room (length xs + n) (l7_step x s)"
    using Cons.prems by (intro keeps_step) simp_all
  then show ?case using Cons.IH [of "l7_step x s"] Cons.prems by (auto intro: keeps_trans)
qed simp

section \<open>The request\<close>

text \<open>The request in the per-CPU buffer as the classifiers find it, and the key they start from.\<close>

definition fresh_request :: "l7_request \<Rightarrow> u64 \<Rightarrow> l7_request" where
  "fresh_request req sz = req\<lparr>req_protocol := PROTOCOL_UNKNOWN, req_partial := 0, req_request_id := 0,
     req_ns := 0, req_payload_size := sz\<rparr>"

definition plain_key :: "connection_id \<Rightarrow> u16 \<Rightarrow> l7_request_key" where
  "plain_key cid is_tls = \<lparr>k_fd = cid_fd cid, k_pid = cid_pid cid, k_is_tls = is_tls, k_stream_id = -1\<rparr>"

definition count_sent ::
  "u16 \<Rightarrow> connection_id \<Rightarrow> u64 \<Rightarrow> 'a l7_maps_scheme \<Rightarrow> 'a l7_maps_scheme" where
  "count_sent is_tls cid n s =
     (if is_tls = 0
      then s\<lparr>active_connections :=
        bpf_map_modify (\<lambda>c. c\<lparr>c_bytes_sent := c_bytes_sent c + n\<rparr>) cid (active_connections s)\<rparr>
      else s)"

lemma count_sent_simps [simp]:
  "kmem env (count_sent is_tls cid n s) = kmem env s"
  "active_l7_requests (count_sent is_tls cid n s) = active_l7_requests s"
  "active_reads (count_sent is_tls cid n s) = active_reads s"
  "l7_events (count_sent is_tls cid n s) = l7_events s"
  "l7_request_heap (count_sent is_tls cid n s) = l7_request_heap s"
  by (simp_all add: count_sent_def kmem_def)

lemma lookup_noexist_calm:
  "bpf_map_lookup_elem m k = None \<Longrightarrow> length m < N \<Longrightarrow>
   bpf_map_lookup_elem (snd (bpf_lru_update_elem N (\<lambda>_. False) m k v BPF_NOEXIST)) = (bpf_map_lookup_elem m)(k \<mapsto> v)"
  by (auto simp: bpf_lru_update_elem_def flag_error_def Let_def bpf_map_lookup_elem_def
      map_add_def fun_eq_iff split: option.splits)

lemma enter_write_cases:
  assumes "bpf_map_lookup_elem (active_connections s) (cid_at env fd) = Some conn" and "sz \<noteq> 0"
  shows "trace_enter_write env fd is_tls buf sz 0 s =
    (let t = count_sent is_tls (cid_at env fd) sz s in
     case classify_write (kmem env s) buf sz sz (bpf_map_lookup_elem (active_l7_requests s))
            (fresh_request (l7_request_heap s (env_cpu env)) sz) (plain_key (cid_at env fd) is_tls) of
       WEvent protocol method timed copied req \<Rightarrow>
         write_event env buf sz (cid_at env fd) conn protocol method timed copied (put_request env req t)
     | WRequest req k \<Rightarrow>
         if req_protocol req = PROTOCOL_UNKNOWN then put_request env req t
         else
           (let req = (if req_ns req = 0 then req\<lparr>req_ns := env_ktime env\<rparr> else req);
                (ok, pl) = COPY_PAYLOAD env (kmem env s) (req_payload req) sz buf;
                req = req\<lparr>req_payload := pl\<rparr>;
                t = put_request env req t in
            if ok then
              t\<lparr>active_l7_requests := snd (bpf_lru_update_elem L7_REQUEST_ENTRIES
                 (env_evict env Active_L7_Requests) (active_l7_requests t) k req BPF_NOEXIST)\<rparr>
            else t))"
  using assms
  by (simp add: trace_enter_write_def write_payload_def bpf_percpu_lookup_def fresh_request_def plain_key_def
      Let_def flip: count_sent_def split: write_outcome.split)

text \<open>A plain write whose payload is classified as a request that is not pending yet.\<close>

lemma write_keeps_request:
  fixes s :: "'a l7_maps_scheme"
  assumes conn: "bpf_map_lookup_elem (active_connections s) (cid_at env fd) = Some conn"
    and "sz \<noteq> 0" and "calm_l7 env" and "room (Suc n) s"
    and cls: "classify_write (kmem env s) buf sz sz (bpf_map_lookup_elem (active_l7_requests s))
        (fresh_request (l7_request_heap s (env_cpu env)) sz) (plain_key (cid_at env fd) is_tls) = WRequest req k"
    and "req_protocol req \<noteq> 0" and "req_ns req = 0" and "bpf_map_lookup_elem (active_l7_requests s) k = None"
    and rd: "bpf_probe_read (kmem env s) (min (unat sz) 1023) buf = Some bs"
    and s': "s' = trace_enter_write env fd is_tls buf sz 0 s"
  shows "bpf_map_lookup_elem (active_l7_requests s') = (bpf_map_lookup_elem (active_l7_requests s))(k \<mapsto>
      req\<lparr>req_ns := env_ktime env, req_payload := bs @ drop (min (unat sz) 1023) (req_payload req)\<rparr>)"
    and "active_connections s' = active_connections (count_sent is_tls (cid_at env fd) sz s)"
    and "l7_events s' = l7_events s" and "active_reads s' = active_reads s" and "room n s'"
proof -
  have copy: "COPY_PAYLOAD env (kmem env s) dst sz buf = (True, bs @ drop (min (unat sz) 1023) dst)" for dst
    using rd by (simp add: COPY_PAYLOAD_def read_into_def unat_TRUNCATE_u64 del: bpf_probe_read.simps)
  have eq: "s' = (let req' = req\<lparr>req_ns := env_ktime env, req_payload := bs @ drop (min (unat sz) 1023) (req_payload req)\<rparr>;
      t = put_request env req' (count_sent is_tls (cid_at env fd) sz s) in
      t\<lparr>active_l7_requests := snd (bpf_lru_update_elem L7_REQUEST_ENTRIES (env_evict env Active_L7_Requests)
        (active_l7_requests t) k req' BPF_NOEXIST)\<rparr>)"
    using assms(6,7) copy cls by (simp add: s' enter_write_cases [OF conn \<open>sz \<noteq> 0\<close>] Let_def)
  show "bpf_map_lookup_elem (active_l7_requests s') = (bpf_map_lookup_elem (active_l7_requests s))(k \<mapsto>
      req\<lparr>req_ns := env_ktime env, req_payload := bs @ drop (min (unat sz) 1023) (req_payload req)\<rparr>)"
    using assms(3,4,8) by (simp add: eq Let_def put_request_def calm_l7_def room_def lookup_noexist_calm)
  show "active_connections s' = active_connections (count_sent is_tls (cid_at env fd) sz s)"
    "l7_events s' = l7_events s" "active_reads s' = active_reads s"
    by (simp_all add: eq Let_def put_request_def)
  show "room n s'"
    using assms(4) by (simp add: eq Let_def put_request_def room_def count_sent_def calm_update_room)
qed

section \<open>The response\<close>

lemma count_received_simps [simp]:
  "active_l7_requests (count_received is_tls cid n s) = active_l7_requests s"
  "active_reads (count_received is_tls cid n s) = active_reads s"
  "l7_events (count_received is_tls cid n s) = l7_events s"
  "l7_event_heap (count_received is_tls cid n s) = l7_event_heap s"
  by (simp_all add: count_received_def)

text \<open>
  A plain read that finds the pending request of its connection and a response to it.
\<close>

lemma read_reports:
  fixes s :: "'a l7_maps_scheme"
  assumes rd: "bpf_map_lookup_elem (active_reads s) id' = Some \<lparr>ra_fd = fd, ra_buf = buf, ra_ret = 0, ra_iovlen = 0\<rparr>"
    and cid: "cid = \<lparr>cid_fd = fd, cid_pid = pid\<rparr>"
    and conn: "bpf_map_lookup_elem (active_connections s) cid = Some conn"
    and req: "bpf_map_lookup_elem (active_l7_requests s) (plain_key cid is_tls) = Some req"
    and pos: "0 <s ret"
    and "\<not> is_rabbitmq_consume (kmem env s) buf ret" and "nats_method (kmem env s) buf ret \<noteq> METHOD_CONSUME"
    and m: "match_response (kmem env s) buf ret ret 0 req (unread_event (l7_event_heap s (env_cpu env))) =
      (r, False, e, req')" and "r \<noteq> 0"
    and s': "s' = trace_exit_read env id' pid is_tls ret s"
  shows "l7_events s' = l7_events s @ [e\<lparr>ev_duration := env_ktime env - req_ns req',
      ev_connection_timestamp := c_timestamp conn, ev_fd := fd, ev_pid := pid\<rparr>]"
    and "bpf_map_lookup_elem (active_l7_requests s') = (bpf_map_lookup_elem (active_l7_requests s))(plain_key cid is_tls := None)"
    and "active_connections s' = active_connections (count_received is_tls cid ret s)"
proof -
  let ?s1 = "s\<lparr>active_reads := bpf_map_delete_elem (active_reads s) id'\<rparr>"
  let ?k = "plain_key cid is_tls"
  have ret: "\<not> ret \<le>s 0" using pos by (simp add: word_sless_alt word_sle_eq)
  have eq: "s' = send_event env (e\<lparr>ev_duration := env_ktime env - req_ns req'\<rparr>) cid conn
      ((count_received is_tls cid ret ?s1)\<lparr>active_l7_requests :=
        bpf_map_delete_elem (bpf_map_modify (\<lambda>_. req') ?k (active_l7_requests s)) ?k\<rparr>)"
  proof -
    let ?e = "unread_event (l7_event_heap s (env_cpu env))"
    have pay: "exit_read_payload env \<lparr>ra_fd = fd, ra_buf = buf, ra_ret = 0, ra_iovlen = 0\<rparr> ret ?s1 =
        Inr (buf, ret, ret, ?s1)"
      using ret by (simp add: exit_read_payload_def)
    have km: "kmem env ?s1 = kmem env s" by (simp add: kmem_def)
    have cs: "trace_exit_read env id' pid is_tls ret s =
        match_read env cid conn ?k buf ret ret ?e (count_received is_tls cid ret ?s1)"
      using exit_read_cases [OF rd conn _ refl, of pid env is_tls ret] assms(6,7) cid
      by (simp add: pay km plain_key_def)
    have "find_request env buf ret cid conn ?k ?e (count_received is_tls cid ret ?s1) = Inr (req, ?k, 0, ?e)"
      using req by (simp add: find_request_def)
    then show ?thesis
      unfolding s' cs match_read_def using m \<open>r \<noteq> 0\<close> by (simp add: km)
  qed
  show "l7_events s' = l7_events s @ [e\<lparr>ev_duration := env_ktime env - req_ns req',
      ev_connection_timestamp := c_timestamp conn, ev_fd := fd, ev_pid := pid\<rparr>]"
    by (simp add: eq put_defs cid count_received_def Let_def)
  show "bpf_map_lookup_elem (active_l7_requests s') =
      (bpf_map_lookup_elem (active_l7_requests s))(?k := None)"
    by (simp add: eq put_defs Let_def fun_eq_iff hash.lookup_delete hash.lookup_modify)
  show "active_connections s' = active_connections (count_received is_tls cid ret s)"
    by (simp add: eq put_defs Let_def count_received_def)
qed

section \<open>An HTTP exchange\<close>

lemma read_str_first:
  "bpf_probe_read_str m (Suc n) a = Some b \<Longrightarrow> b ! 0 \<noteq> 0 \<Longrightarrow>
   m a = Some (b ! 0) \<and> bpf_probe_read_str m n (a + 1) = Some (tl b) \<and> b = b ! 0 # tl b"
  by (auto split: option.splits if_splits)

lemma http_response_bytes:
  assumes "is_http_response m a st = (True, st')"
  shows "m a = Some 72" and "m (a + 1) = Some 84" and "is_http_response m a st2 = (True, st')"
proof -
  obtain b where b: "bpf_probe_read_str m 16 a = Some b" "b ! 0 = 72" "b ! 1 = 84"
    using assms by (auto simp: is_http_response_def split: option.splits if_splits)
  have "bpf_probe_read_str m (Suc 15) a = Some b" using b(1) by simp
  from read_str_first [OF this] b(2) have 1: "m a = Some (b ! 0)" "b = b ! 0 # tl b"
    "bpf_probe_read_str m 15 (a + 1) = Some (tl b)" by simp_all
  have "tl b ! 0 = 84" using b(3) by (subst (asm) 1(2)) simp
  moreover have "bpf_probe_read_str m (Suc 14) (a + 1) = Some (tl b)" using 1(3) by simp
  ultimately have "m (a + 1) = Some 84" using read_str_first [of m 14 "a + 1" "tl b"] by simp
  then show "m a = Some 72" "m (a + 1) = Some 84" using 1(1) b(2) by simp_all
  show "is_http_response m a st2 = (True, st')"
    using assms by (auto simp: is_http_response_def split: option.splits if_splits)
qed

text \<open>A response is not taken for a delivery of a message broker, which is looked for first.\<close>

lemma http_response_no_delivery:
  assumes "is_http_response m a st = (True, st')"
  shows "\<not> is_rabbitmq_consume m a sz" and "nats_method m a sz \<noteq> METHOD_CONSUME"
proof -
  note h = http_response_bytes(1,2) [OF assms]
  have "bpf_probe_read m 1 a = Some [72]" using h(1) by simp
  then show "\<not> is_rabbitmq_consume m a sz"
    by (simp add: is_rabbitmq_consume_def rabbitmq_method_is_def)
  have "b ! 0 = 72 \<and> b ! 1 = 84" if "bpf_probe_read m 5 a = Some b" for b
    using that h by (auto simp: bpf_probe_read_numeral eval_nat_numeral split: option.splits)
  then show "nats_method m a sz \<noteq> METHOD_CONSUME"
    by (auto simp: nats_method_def split: option.splits)
qed

lemma match_http_response:
  assumes "req_protocol req = PROTOCOL_HTTP" and "is_http_response m buf (ev_status e) = (True, st)"
  shows "match_response m buf ret tsz r req e =
    (1, False, e\<lparr>ev_protocol := PROTOCOL_HTTP, ev_payload_size := req_payload_size req,
       ev_payload := take (min (unat (req_payload_size req)) 1023) (req_payload req) @
         drop (min (unat (req_payload_size req)) 1023) (ev_payload e), ev_status := st\<rparr>,
     req\<lparr>req_payload_size := TRUNCATE_PAYLOAD_SIZE (req_payload_size req)\<rparr>)"
  using assms by (simp add: match_response_def Let_def unat_TRUNCATE_u64)

lemma enter_read_effect:
  assumes "bpf_map_lookup_elem (active_connections s) \<lparr>cid_fd = fd, cid_pid = pid\<rparr> = Some conn"
    and "s' = trace_enter_read env id' pid fd buf ret iovlen s"
  shows "bpf_map_lookup_elem (active_reads s') id' =
    Some \<lparr>ra_fd = fd, ra_buf = buf, ra_ret = ret, ra_iovlen = iovlen\<rparr>"
  using assms by (simp add: trace_enter_read_def)

text \<open>
  A request pending on a connection, as it was written at time \<open>t\<close> with the payload \<open>bs\<close>.
\<close>

definition pending_http :: "u64 \<Rightarrow> u8 list \<Rightarrow> l7_request \<Rightarrow> bool" where
  "pending_http t bs req \<longleftrightarrow> req_protocol req = PROTOCOL_HTTP \<and> req_ns req = t \<and>
     req_payload_size req = of_nat (length bs) \<and> prefix (take 1023 bs) (req_payload req)"

lemma write_http:
  fixes s :: "'a l7_maps_scheme"
  assumes "bpf_map_lookup_elem (active_connections s) (cid_at env fd) = Some conn"
    and "bpf_map_lookup_elem (active_l7_requests s) (plain_key (cid_at env fd) is_tls) = None"
    and "room (Suc n) s" and "calm_l7 env"
    and "holds_at (kmem env s) buf bs" and "is_http_request (kmem env s) buf"
    and "0 < length bs" and "length bs < 2 ^ 64"
    and s': "s' = trace_enter_write env fd is_tls buf (of_nat (length bs)) 0 s"
  shows "\<exists>req. bpf_map_lookup_elem (active_l7_requests s') (plain_key (cid_at env fd) is_tls) = Some req \<and>
      pending_http (env_ktime env) bs req"
    and "bpf_map_lookup_elem (active_connections s') (cid_at env fd) =
      Some (if is_tls = 0 then conn\<lparr>c_bytes_sent := c_bytes_sent conn + of_nat (length bs)\<rparr> else conn)"
    and "l7_events s' = l7_events s" and "room n s'"
proof -
  let ?sz = "of_nat (length bs) :: u64" and ?k = "plain_key (cid_at env fd) is_tls"
  let ?req = "(fresh_request (l7_request_heap s (env_cpu env)) ?sz)\<lparr>req_protocol := PROTOCOL_HTTP\<rparr>"
  have un: "unat ?sz = length bs" using assms(8) by (simp add: unat_of_nat)
  then have nz: "?sz \<noteq> 0" using assms(7) by auto
  have rd: "bpf_probe_read (kmem env s) (min (unat ?sz) 1023) buf = Some (take 1023 bs)"
    using bpf_probe_read_holds0 [OF assms(5), of "min (length bs) 1023"] un
    by (simp add: min_def)
  have cls: "classify_write (kmem env s) buf ?sz ?sz (bpf_map_lookup_elem (active_l7_requests s))
      (fresh_request (l7_request_heap s (env_cpu env)) ?sz) ?k = WRequest ?req ?k"
    using assms(6) by (simp add: classify_write_def)
  note w = write_keeps_request [OF assms(1) nz assms(4,3) cls _ _ assms(2) rd s']
  show "\<exists>req. bpf_map_lookup_elem (active_l7_requests s') ?k = Some req \<and> pending_http (env_ktime env) bs req"
    using w(1) by (simp add: fresh_request_def pending_http_def)
  show "bpf_map_lookup_elem (active_connections s') (cid_at env fd) =
      Some (if is_tls = 0 then conn\<lparr>c_bytes_sent := c_bytes_sent conn + of_nat (length bs)\<rparr> else conn)"
    using w(2) assms(1) by (simp add: fresh_request_def count_sent_def hash.lookup_modify)
  show "l7_events s' = l7_events s" "room n s'" using w(3,5) by (simp_all add: fresh_request_def)
qed

lemma read_http:
  fixes s :: "'a l7_maps_scheme"
  assumes rd: "bpf_map_lookup_elem (active_reads s) id' = Some \<lparr>ra_fd = fd, ra_buf = buf, ra_ret = 0, ra_iovlen = 0\<rparr>"
    and cid: "cid = \<lparr>cid_fd = fd, cid_pid = pid\<rparr>"
    and conn: "bpf_map_lookup_elem (active_connections s) cid = Some conn"
    and req: "bpf_map_lookup_elem (active_l7_requests s) (plain_key cid is_tls) = Some req" "pending_http t bs req"
    and "length bs < 2 ^ 64" and "0 <s ret" and "is_http_response (kmem env s) buf 0 = (True, st)"
    and s': "s' = trace_exit_read env id' pid is_tls ret s"
  shows "\<exists>e. l7_events s' = l7_events s @ [e] \<and> event_of cid e \<and>
      ev_connection_timestamp e = c_timestamp conn \<and> ev_protocol e = PROTOCOL_HTTP \<and> ev_status e = st \<and>
      ev_duration e = env_ktime env - t \<and> ev_payload_size e = of_nat (length bs) \<and>
      prefix (take 1023 bs) (ev_payload e)"
    and "bpf_map_lookup_elem (active_l7_requests s') (plain_key cid is_tls) = None"
    and "bpf_map_lookup_elem (active_connections s') cid =
      Some (if is_tls = 0 then conn\<lparr>c_bytes_received := c_bytes_received conn + ret\<rparr> else conn)"
proof -
  let ?e = "unread_event (l7_event_heap s (env_cpu env))"
  have st: "is_http_response (kmem env s) buf (ev_status ?e) = (True, st)"
    using http_response_bytes(3) [OF assms(8)] .
  note p = req(2) [unfolded pending_http_def]
  note m = match_http_response [OF p [THEN conjunct1] st, where ret = ret and tsz = ret and r = 0]
  note rep = read_reports [OF rd cid conn req(1) assms(7) http_response_no_delivery [OF assms(8)] m _ s']
  have "prefix (take 1023 bs) (take (min (length bs) 1023) (req_payload req))"
    using p by (auto simp: prefix_def min_def)
  then show "\<exists>e. l7_events s' = l7_events s @ [e] \<and> event_of cid e \<and>
      ev_connection_timestamp e = c_timestamp conn \<and> ev_protocol e = PROTOCOL_HTTP \<and> ev_status e = st \<and>
      ev_duration e = env_ktime env - t \<and> ev_payload_size e = of_nat (length bs) \<and>
      prefix (take 1023 bs) (ev_payload e)"
    using rep(1) p assms(6) by (auto simp: event_of_def cid unat_of_nat intro: prefix_prefix)
  show "bpf_map_lookup_elem (active_l7_requests s') (plain_key cid is_tls) = None" using rep(2) by simp
  show "bpf_map_lookup_elem (active_connections s') cid =
      Some (if is_tls = 0 then conn\<lparr>c_bytes_received := c_bytes_received conn + ret\<rparr> else conn)"
    using rep(3) conn by (simp add: count_received_def hash.lookup_modify)
qed

text \<open>The exchange as a fact for the theories that follow it further.\<close>

lemma http_exchange:
  fixes s :: "'a l7_maps_scheme"
  assumes conn: "bpf_map_lookup_elem (active_connections s) cid = Some conn" "cid = cid_at env1 fd"
    and "bpf_map_lookup_elem (active_l7_requests s) (plain_key cid 0) = None"
    and "room (length xs + length ys + 2) s" and "calm_l7 env1" and "calm_l7 env2"
    and "holds_at (kmem env1 s) buf bs" and "is_http_request (kmem env1 s) buf"
    and "0 < length bs" and "length bs < 2 ^ 64"
    and w: "w = sys_enter_write env1 \<lparr>rw_fd = fd, rw_buf = buf, rw_size = of_nat (length bs)\<rparr> s"
    and "apart_run cid {} xs w" and s1: "s1 = fold l7_step xs w"
    and "pid_of (env_pid_tgid env2) = pid_of (env_pid_tgid env1)"
    and r: "r = sys_enter_read env2 \<lparr>rw_fd = fd, rw_buf = rbuf, rw_size = n\<rparr> s1"
    and "apart_run cid {env_pid_tgid env2} ys r" and s2: "s2 = fold l7_step ys r"
    and "env_pid_tgid env3 = env_pid_tgid env2" and "0 <s sx_ret ctx"
    and "is_http_response (kmem env3 s2) rbuf 0 = (True, st)" and s3: "s3 = sys_exit_read env3 ctx s2"
  shows "(\<exists>e. filter (event_of cid) (l7_events s3) = filter (event_of cid) (l7_events s) @ [e] \<and>
      ev_connection_timestamp e = c_timestamp conn \<and> ev_protocol e = PROTOCOL_HTTP \<and> ev_status e = st \<and>
      ev_duration e = env_ktime env3 - env_ktime env1 \<and> ev_payload_size e = of_nat (length bs) \<and>
      prefix (take 1023 bs) (ev_payload e)) \<and>
    bpf_map_lookup_elem (active_l7_requests s3) (plain_key cid 0) = None \<and>
    bpf_map_lookup_elem (active_connections s3) cid =
      Some (conn\<lparr>c_bytes_sent := c_bytes_sent conn + of_nat (length bs),
        c_bytes_received := c_bytes_received conn + sx_ret ctx\<rparr>)"
proof -
  let ?k = "plain_key cid 0" and ?id = "env_pid_tgid env2"
  let ?conn1 = "conn\<lparr>c_bytes_sent := c_bytes_sent conn + of_nat (length bs)\<rparr>"
  have rm: "room (Suc (length xs + (length ys + 1))) s" using assms(4) by (simp add: room_def)
  note wr = write_http [OF conn(1) [unfolded conn(2)] assms(3) [unfolded conn(2)] rm assms(5,7-10)
      w [unfolded sys_enter_write_def, simplified], folded conn(2)]
  obtain req where req: "bpf_map_lookup_elem (active_l7_requests w) ?k = Some req"
    "pending_http (env_ktime env1) bs req" using wr(1) by blast
  have k1: "keeps cid {} w s1" "room (Suc (length ys)) s1"
    using keeps_run [OF wr(4) assms(12)] s1 by simp_all
  have r': "r = trace_enter_read env2 ?id (cid_pid cid) fd rbuf 0 0 s1"
    using r assms(14) conn(2) by (simp add: sys_enter_read_def)
  have k2: "keeps cid {} s1 r" "room (length ys + 0) r"
    using keeps_read_enter [OF k1(2) assms(6) _ r', of "{}" cid] by simp_all
  have k3: "keeps cid {?id} r s2" using keeps_run [OF k2(2) assms(16)] s2 by simp
  have cid: "cid = \<lparr>cid_fd = fd, cid_pid = cid_pid cid\<rparr>" using conn(2) by simp
  have kk: "\<lparr>cid_fd = k_fd ?k, cid_pid = k_pid ?k\<rparr> = cid" by (simp add: plain_key_def)
  have "bpf_map_lookup_elem (active_connections s1) cid = Some ?conn1"
    using k1(1) wr(2) by (simp add: keeps_def)
  then have "bpf_map_lookup_elem (active_reads r) ?id = Some \<lparr>ra_fd = fd, ra_buf = rbuf, ra_ret = 0, ra_iovlen = 0\<rparr>"
    using enter_read_effect [OF _ r'] cid by simp
  then have rd: "bpf_map_lookup_elem (active_reads s2) ?id = Some \<lparr>ra_fd = fd, ra_buf = rbuf, ra_ret = 0, ra_iovlen = 0\<rparr>"
    using k3 by (simp add: keeps_def)
  have c2: "bpf_map_lookup_elem (active_connections s2) cid = Some ?conn1"
    and q2: "bpf_map_lookup_elem (active_l7_requests s2) ?k = Some req"
    and ev: "filter (event_of cid) (l7_events s2) = filter (event_of cid) (l7_events s)"
    using k1(1) k2(1) k3 wr(2,3) req(1) kk by (simp_all add: keeps_def)
  have s3': "s3 = trace_exit_read env3 ?id (cid_pid cid) 0 (sx_ret ctx) s2"
    using s3 assms(14,18) conn(2) by (simp add: sys_exit_read_def)
  note fin = read_http [OF rd cid c2 q2 req(2) assms(10,19,20) s3']
  then show ?thesis using ev by fastforce
qed

text \<open>
  C2. An HTTP exchange is reported exactly once, with the right times and contents. A thread
  writes a request on a known connection that has none pending; any probes of other connections
  run (\<open>xs\<close>); a thread of the same process starts a read on the connection; again any other
  probes run (\<open>ys\<close>), but not a second read of that thread; the read ends with a response. Of
  all events about the connection there is exactly one new one, with the connection's start, the
  response's status, the time from the write to the end of the read, the size of the request and
  its first 1023 bytes; no request is pending any more; and the connection's counters have grown
  by what was written and read. As long as nothing is evicted from the maps.
\<close>

theorem http_exchange_reported:
  fixes s :: "'a l7_maps_scheme"
  assumes conn: "bpf_map_lookup_elem (active_connections s) cid = Some conn" "cid = cid_at env1 fd"
    and "bpf_map_lookup_elem (active_l7_requests s) (plain_key cid 0) = None"
    and "room (length xs + length ys + 2) s" and "calm_l7 env1" and "calm_l7 env2"
    and "holds_at (kmem env1 s) buf bs" and "is_http_request (kmem env1 s) buf"
    and "0 < length bs" and "length bs < 2 ^ 64"
    and w: "w = sys_enter_write env1 \<lparr>rw_fd = fd, rw_buf = buf, rw_size = of_nat (length bs)\<rparr> s"
    and "apart_run cid {} xs w" and s1: "s1 = fold l7_step xs w"
    and "pid_of (env_pid_tgid env2) = pid_of (env_pid_tgid env1)"
    and r: "r = sys_enter_read env2 \<lparr>rw_fd = fd, rw_buf = rbuf, rw_size = n\<rparr> s1"
    and "apart_run cid {env_pid_tgid env2} ys r" and s2: "s2 = fold l7_step ys r"
    and "env_pid_tgid env3 = env_pid_tgid env2" and "0 <s sx_ret ctx"
    and "is_http_response (kmem env3 s2) rbuf 0 = (True, st)" and s3: "s3 = sys_exit_read env3 ctx s2"
  shows "(\<exists>e. filter (event_of cid) (l7_events s3) = filter (event_of cid) (l7_events s) @ [e] \<and>
      ev_connection_timestamp e = c_timestamp conn \<and> ev_protocol e = PROTOCOL_HTTP \<and> ev_status e = st \<and>
      ev_duration e = env_ktime env3 - env_ktime env1 \<and> ev_payload_size e = of_nat (length bs) \<and>
      prefix (take 1023 bs) (ev_payload e)) \<and>
    bpf_map_lookup_elem (active_l7_requests s3) (plain_key cid 0) = None \<and>
    bpf_map_lookup_elem (active_connections s3) cid =
      Some (conn\<lparr>c_bytes_sent := c_bytes_sent conn + of_nat (length bs),
        c_bytes_received := c_bytes_received conn + sx_ret ctx\<rparr>)"
  using assms by (rule http_exchange)

lemma plain_write_buffer:
  "iovec_buf_heap (trace_enter_write env fd is_tls buf sz 0 s) = iovec_buf_heap s"
  by (auto simp: trace_enter_write_def write_payload_def Let_def put_defs write_event_def
      split: option.splits prod.splits write_outcome.splits)

definition sample_request :: "u8 list" where
  "sample_request = ascii ''GET /index.html HTTP/1.1''"

definition sample_response :: "u8 list" where
  "sample_response = ascii ''HTTP/1.1 404 Not Found''"

text \<open>An environment with a byte string at \<^verbatim>\<open>0x1000\<close>, clear of the buffer for vectors.\<close>

definition env_with :: "u64 \<Rightarrow> u64 \<Rightarrow> u8 list \<Rightarrow> bpf_env" where
  "env_with pid_tgid t bs = (plain_env pid_tgid t)\<lparr>env_mem := mem_of 0x1000 bs\<rparr>"

lemma kmem_env_with:
  assumes "iovec_buf_heap s (env_cpu (env_with i t bs)) = replicate 2048 0" and "length bs < 0x10000"
  shows "holds_at (kmem (env_with i t bs) s) 0x1000 bs"
proof -
  have "off_buffer (env_with i t bs) 0x1000 (length bs)"
    unfolding off_buffer_def
  proof (intro allI impI)
    fix j assume "j < length bs"
    then have "unat (0x1000 + of_nat j :: u64) = 0x1000 + j"
      using assms(2) by (simp add: unat_word_ariths unat_of_nat)
    then show "2048 \<le> unat (0x1000 + of_nat j - env_iovec_buf (env_with i t bs))"
      by (simp add: env_with_def plain_env_def)
  qed
  moreover have "holds_at (mem_of 0x1000 bs) 0x1000 bs" using assms(2) by (intro holds_at_mem_of) simp
  ultimately show ?thesis
    using read_off_buffer [of "env_with i t bs" "0x1000" "length bs" "replicate 2048 0"] assms(1)
    by (simp add: holds_at_def kmem_def) (simp add: env_with_def)
qed

theorem http_exchange_reported_witness:
  "\<exists>e. filter (event_of \<lparr>cid_fd = 3, cid_pid = 7\<rparr>) (l7_events
      (sys_exit_read (env_with 0x70000000A 42 sample_response) \<lparr>sx_ret = 22\<rparr>
        (fold l7_step [Write (plain_env 0x900000009 13) 4 0 0x1000 5 0]
          (sys_enter_read (plain_env 0x70000000A 12) \<lparr>rw_fd = 3, rw_buf = 0x1000, rw_size = 100\<rparr>
            (fold l7_step [Tcp (EnterConnect (plain_env 0x900000009 11) (Some \<lparr>awf_fd = 3\<rparr>))]
              (sys_enter_write (env_with 0x700000008 10 sample_request)
                \<lparr>rw_fd = 3, rw_buf = 0x1000, rw_size = 24\<rparr> (one_connection 3 7 5))))))) = [e] \<and>
     ev_status e = 404 \<and> ev_duration e = 32 \<and> ev_connection_timestamp e = 5"
proof -
  let ?cid = "\<lparr>cid_fd = 3, cid_pid = 7\<rparr>"
  let ?env1 = "env_with 0x700000008 10 sample_request" and ?env2 = "plain_env 0x70000000A 12"
  let ?env3 = "env_with 0x70000000A 42 sample_response"
  let ?xs = "[Tcp (EnterConnect (plain_env 0x900000009 11) (Some \<lparr>awf_fd = 3\<rparr>))]"
  let ?ys = "[Write (plain_env 0x900000009 13) 4 0 0x1000 5 0]"
  let ?s = "one_connection 3 7 5"
  let ?w = "sys_enter_write ?env1 \<lparr>rw_fd = 3, rw_buf = 0x1000, rw_size = of_nat (length sample_request)\<rparr> ?s"
  let ?s1 = "fold l7_step ?xs ?w"
  let ?r = "sys_enter_read ?env2 \<lparr>rw_fd = 3, rw_buf = 0x1000, rw_size = 100\<rparr> ?s1"
  let ?s2 = "fold l7_step ?ys ?r"
  have len: "length sample_request = 24" by (simp add: sample_request_def ascii_def)
  have buf: "iovec_buf_heap ?s2 c = replicate 2048 0" for c
    by (simp add: plain_write_buffer sys_enter_write_def sys_enter_read_def trace_enter_read_def
        sys_enter_connect_def one_connection_def Let_def split: option.splits)
  have h1: "holds_at (kmem ?env1 ?s) 0x1000 sample_request"
    by (rule kmem_env_with) (simp_all add: one_connection_def len)
  have h3: "holds_at (kmem ?env3 ?s2) 0x1000 sample_response"
    by (rule kmem_env_with [OF buf]) (simp add: sample_response_def ascii_def)
  have rq: "is_http_request (kmem ?env1 ?s) 0x1000"
    using read_str_16(1) [OF h1] by (simp add: is_http_request_def sample_request_def ascii_def)
  have rs: "is_http_response (kmem ?env3 ?s2) 0x1000 0 = (True, 404)"
    using read_str_16(1) [OF h3] by (simp add: is_http_response_def sample_response_def ascii_def digit_def)
  have "(\<exists>e. filter (event_of ?cid) (l7_events (sys_exit_read ?env3 \<lparr>sx_ret = 22\<rparr> ?s2)) =
      filter (event_of ?cid) (l7_events ?s) @ [e] \<and>
      ev_connection_timestamp e = c_timestamp \<lparr>c_timestamp = 5, c_bytes_sent = 0, c_bytes_received = 0\<rparr> \<and>
      ev_protocol e = PROTOCOL_HTTP \<and> ev_status e = 404 \<and>
      ev_duration e = env_ktime ?env3 - env_ktime ?env1 \<and>
      ev_payload_size e = of_nat (length sample_request) \<and> prefix (take 1023 sample_request) (ev_payload e))"
    by (rule http_exchange_reported [where xs = ?xs and ys = ?ys and s = ?s and fd = 3 and buf = "0x1000"
        and rbuf = "0x1000" and n = 100 and ?env2.0 = ?env2, OF _ _ _ _ _ _ h1 rq _ _ refl _ refl _ refl _ refl
        _ _ rs refl, THEN conjunct1])
      (simp_all add: one_connection_def bpf_map_lookup_elem_def env_with_def plain_env_def pid_of_def room_def
        calm_l7_def calm_def len word_sless_alt)
  then show ?thesis by (simp add: len one_connection_def env_with_def plain_env_def) blast
qed

end
