(* ===== verification/Tracer.thy ===== *)
theory Tracer
  imports L7_Exchange
begin

unbundle bit_operations_syntax

text \<open>
  All programs of the tracer's object file (\<^verbatim>\<open>ebpf.c\<close> and what it includes) as one transition
  system: any program may run next, on any CPU, in any environment. The invariant says that the
  maps keep their form and that no copy of a payload leaves its buffer.
\<close>

section \<open>The invariant\<close>

definition base_wf :: "'a file_maps_scheme \<Rightarrow> bool" where
  "base_wf s \<longleftrightarrow>
     map_wf STATS_ENTRIES (nodejs_prev_event_loop_iter s) \<and> map_wf STATS_ENTRIES (nodejs_current_io_cb s) \<and>
     map_wf STATS_ENTRIES (nodejs_stats s) \<and> map_wf STATS_ENTRIES (python_stats s) \<and>
     map_wf STATS_ENTRIES (python_thread_locks s) \<and> map_wf OOM_ENTRIES (oom_info s) \<and>
     map_wf OPEN_ENTRIES (open_file_info s)"

text \<open>
  A payload buffer has 1024 bytes, of which the last is never written. A MySQL packet that is
  pending or reported has the size its first three bytes announce.
\<close>

definition payload_wf :: "u8 list \<Rightarrow> bool" where
  "payload_wf pl \<longleftrightarrow> length pl = 1024 \<and> pl ! 1023 = 0"

definition mysql_sized :: "u8 \<Rightarrow> u64 \<Rightarrow> u8 list \<Rightarrow> bool" where
  "mysql_sized protocol sz pl \<longleftrightarrow> (protocol = PROTOCOL_MYSQL \<longrightarrow> 5 \<le> sz \<and> scast (mysql_length pl + 4) = sz)"

definition request_wf :: "l7_request \<Rightarrow> bool" where
  "request_wf r \<longleftrightarrow> payload_wf (req_payload r) \<and> mysql_sized (req_protocol r) (req_payload_size r) (req_payload r)"

definition event_wf :: "l7_event \<Rightarrow> bool" where
  "event_wf e \<longleftrightarrow> payload_wf (ev_payload e) \<and> mysql_sized (ev_protocol e) (ev_payload_size e) (ev_payload e)"

definition net_wf :: "'a tcp_maps_scheme \<Rightarrow> bool" where
  "net_wf s \<longleftrightarrow>
     map_wf DESTINATION_ENTRIES (actual_destinations s) \<and> map_wf FD_ENTRIES (fd_by_pid_tgid s) \<and>
     map_wf MAX_CONNECTIONS (connection_id_by_socket s) \<and> map_wf MAX_CONNECTIONS (active_connections s) \<and>
     map_wf L7_REQUEST_ENTRIES (active_l7_requests s) \<and>
     (\<forall>x\<in>set (active_l7_requests s). request_wf (snd x))"

definition l7_wf :: "'a l7_maps_scheme \<Rightarrow> bool" where
  "l7_wf s \<longleftrightarrow>
     map_wf READ_ENTRIES (active_reads s) \<and> (\<forall>cpu. payload_wf (ev_payload (l7_event_heap s cpu))) \<and>
     (\<forall>cpu. payload_wf (req_payload (l7_request_heap s cpu))) \<and>
     (\<forall>cpu. length (iovec_buf_heap s cpu) = 2048) \<and> (\<forall>e\<in>set (l7_events s). event_wf e)"

definition tracer_wf :: "'a l7_maps_scheme \<Rightarrow> bool" where
  "tracer_wf s \<longleftrightarrow> base_wf s \<and> net_wf s \<and> l7_wf s"

section \<open>Statistics, processes and files\<close>

lemma base_handlers_wf:
  "base_wf s \<Longrightarrow> base_wf (uv_io_poll_exit env s)" "base_wf s \<Longrightarrow> base_wf (uv_io_poll_enter env s)"
  "base_wf s \<Longrightarrow> base_wf (uv_io_cb_enter env s)" "base_wf s \<Longrightarrow> base_wf (uv_io_cb_exit env s)"
  "base_wf s \<Longrightarrow> base_wf (pthread_cond_timedwait_enter env s)"
  "base_wf s \<Longrightarrow> base_wf (pthread_cond_timedwait_exit env s)"
  "base_wf s \<Longrightarrow> base_wf (task_newtask nt s)" "base_wf s \<Longrightarrow> base_wf (sched_process_exit env px s)"
  "base_wf s \<Longrightarrow> base_wf (oom_mark_victim mv s)" "base_wf s \<Longrightarrow> base_wf (path_get env ctx s)"
  "base_wf s \<Longrightarrow> base_wf (trace_enter_open env fl filename s)" "base_wf s \<Longrightarrow> base_wf (trace_exit_open env xctx s)"
  by (auto simp: base_wf_def uv_io_poll_exit_def uv_io_poll_enter_def uv_io_cb_enter_def uv_io_cb_exit_def
      pthread_cond_timedwait_enter_def pthread_cond_timedwait_exit_def task_newtask_def sched_process_exit_def
      oom_mark_victim_def path_get_def trace_enter_open_def trace_exit_open_def Let_def split: option.splits
      intro!: hash.wf_update hash.wf_delete hash.wf_modify map_wf_lookup_or_init_add)

lemma base_handlers_frame [simp]:
  "net_wf (uv_io_poll_exit env s) = net_wf s" "l7_wf (uv_io_poll_exit env s) = l7_wf s"
  "net_wf (uv_io_poll_enter env s) = net_wf s" "l7_wf (uv_io_poll_enter env s) = l7_wf s"
  "net_wf (uv_io_cb_enter env s) = net_wf s" "l7_wf (uv_io_cb_enter env s) = l7_wf s"
  "net_wf (uv_io_cb_exit env s) = net_wf s" "l7_wf (uv_io_cb_exit env s) = l7_wf s"
  "net_wf (pthread_cond_timedwait_enter env s) = net_wf s" "l7_wf (pthread_cond_timedwait_enter env s) = l7_wf s"
  "net_wf (pthread_cond_timedwait_exit env s) = net_wf s" "l7_wf (pthread_cond_timedwait_exit env s) = l7_wf s"
  "net_wf (task_newtask nt s) = net_wf s" "l7_wf (task_newtask nt s) = l7_wf s"
  "net_wf (sched_process_exit env px s) = net_wf s" "l7_wf (sched_process_exit env px s) = l7_wf s"
  "net_wf (oom_mark_victim mv s) = net_wf s" "l7_wf (oom_mark_victim mv s) = l7_wf s"
  "net_wf (path_get env ctx s) = net_wf s" "l7_wf (path_get env ctx s) = l7_wf s"
  "net_wf (trace_enter_open env fl filename s) = net_wf s" "l7_wf (trace_enter_open env fl filename s) = l7_wf s"
  "net_wf (trace_exit_open env xctx s) = net_wf s" "l7_wf (trace_exit_open env xctx s) = l7_wf s"
  by (simp_all add: net_wf_def l7_wf_def uv_io_poll_exit_def uv_io_poll_enter_def uv_io_cb_enter_def uv_io_cb_exit_def
      pthread_cond_timedwait_enter_def pthread_cond_timedwait_exit_def task_newtask_def sched_process_exit_def
      oom_mark_victim_def path_get_def trace_enter_open_def trace_exit_open_def Let_def split: option.splits)

section \<open>Connections\<close>

lemma requests_delete:
  "\<forall>x\<in>set m. P (snd x) \<Longrightarrow> \<forall>x\<in>set (bpf_map_delete_elem m k). P (snd x)"
  using set_map_delete [of m k] by blast

lemma map_wf_lru: "map_wf n m \<Longrightarrow> 0 < n \<Longrightarrow> map_wf n (snd (bpf_lru_update_elem n ev m k v f))"
  by (rule map_wf_lru_update)

lemmas net_intros = hash.wf_update hash.wf_delete hash.wf_modify map_wf_lru requests_delete

lemma net_handlers_wf:
  "net_wf s \<Longrightarrow> net_wf (nf_ct_deliver_cached_events env ctx s)"
  "net_wf s \<Longrightarrow> net_wf (inet_sock_set_state env st s)"
  "net_wf s \<Longrightarrow> net_wf (sys_enter_connect env fdctx s)"
  "net_wf s \<Longrightarrow> net_wf (sys_exit_connect env xctx s)"
  "net_wf s \<Longrightarrow> net_wf (sys_enter_close env fdctx s)"
  by (auto simp: net_wf_def nf_ct_deliver_cached_events_def handle_ct_def inet_sock_set_state_def
      set_state_syn_sent_def set_state_leave_syn_sent_def sys_enter_connect_def sys_exit_connect_def
      sys_enter_close_def Let_def split: option.splits prod.splits intro!: net_intros)

lemma net_handlers_frame [simp]:
  "base_wf (nf_ct_deliver_cached_events env ctx s) = base_wf s" "l7_wf (nf_ct_deliver_cached_events env ctx s) = l7_wf s"
  "base_wf (inet_sock_set_state env st s) = base_wf s" "l7_wf (inet_sock_set_state env st s) = l7_wf s"
  "base_wf (sys_enter_connect env fdctx s) = base_wf s" "l7_wf (sys_enter_connect env fdctx s) = l7_wf s"
  "base_wf (sys_exit_connect env xctx s) = base_wf s" "l7_wf (sys_exit_connect env xctx s) = l7_wf s"
  "base_wf (sys_enter_close env fdctx s) = base_wf s" "l7_wf (sys_enter_close env fdctx s) = l7_wf s"
  by (simp_all add: base_wf_def l7_wf_def nf_ct_deliver_cached_events_def handle_ct_def inet_sock_set_state_def
      set_state_syn_sent_def set_state_leave_syn_sent_def sys_enter_connect_def sys_exit_connect_def
      sys_enter_close_def Let_def split: option.splits prod.splits)

lemma retransmit_wf [simp]:
  "base_wf (tcp_retransmit_skb rt s) = base_wf s" "net_wf (tcp_retransmit_skb rt s) = net_wf s"
  "l7_wf (tcp_retransmit_skb rt s) = l7_wf s"
  by (simp_all add: tcp_retransmit_skb_def base_wf_def net_wf_def l7_wf_def)

section \<open>Payloads\<close>

lemma read_into_length:
  "read_into env m dst offset n src = (ok, dst') \<Longrightarrow> offset + n \<le> length dst \<Longrightarrow> length dst' = length dst"
  by (auto simp: read_into_def split: option.splits dest: bpf_probe_read_length)

lemma COPY_PAYLOAD_wf:
  assumes "COPY_PAYLOAD env m dst sz src = (ok, dst')" and "payload_wf dst"
  shows "payload_wf dst'"
proof -
  have n: "unat (TRUNCATE_PAYLOAD_SIZE sz) \<le> 1023" by (simp add: unat_TRUNCATE_u64)
  have "\<exists>bs. length bs = unat (TRUNCATE_PAYLOAD_SIZE sz) \<and> dst' = bs @ drop (unat (TRUNCATE_PAYLOAD_SIZE sz)) dst"
    using assms(1) by (auto simp: COPY_PAYLOAD_def read_into_def split: option.splits dest: bpf_probe_read_length)
  then show ?thesis using n assms(2) by (auto simp: payload_wf_def nth_append)
qed

lemma copied_mysql_sized:
  assumes "COPY_PAYLOAD env m dst sz src = (True, dst')" and "fst (is_mysql_query m src sz rt)"
  shows "mysql_sized p sz dst'"
proof -
  obtain b where b: "bpf_probe_read m 5 src = Some b" and sz: "5 \<le> sz" "scast (mysql_length b + 4) = sz"
    using assms(2) by (auto simp: is_mysql_query_def not_less split: if_splits option.splits)
  obtain bs where bs: "bpf_probe_read m (unat (TRUNCATE_PAYLOAD_SIZE sz)) src = Some bs" and dst': "prefix bs dst'"
    using assms(1) by (auto simp: COPY_PAYLOAD_def read_into_def split: option.splits)
  have n: "5 \<le> unat (TRUNCATE_PAYLOAD_SIZE sz)"
    using sz(1) by (simp add: unat_TRUNCATE_u64 word_le_nat_alt)
  have "b ! i = dst' ! i" if "i < 3" for i
  proof -
    have "b ! i = bs ! i" using bpf_probe_read_nth [OF b, of i] bpf_probe_read_nth [OF bs, of i] n that by simp
    then show ?thesis using dst' bpf_probe_read_length [OF bs] n that by (auto simp: prefix_def nth_append)
  qed
  then have "mysql_length dst' = mysql_length b" by (simp add: mysql_length_def)
  then show ?thesis using sz by (simp add: mysql_sized_def)
qed

text \<open>Only the classifier of MySQL gives a request or an event its protocol.\<close>

lemma classified_mysql:
  assumes "req_protocol req = PROTOCOL_UNKNOWN"
  shows "classify_write m payload sz tsz active req k = WRequest req' k' \<Longrightarrow> req_protocol req' = PROTOCOL_MYSQL \<Longrightarrow>
      \<exists>rt. fst (is_mysql_query m payload sz rt)"
    and "classify_write m payload sz tsz active req k = WEvent PROTOCOL_MYSQL meth timed copied req' \<Longrightarrow>
      copied \<and> (\<exists>rt. fst (is_mysql_query m payload sz rt))"
  using assms
  by (simp_all add: classify_write_def Let_def split_beta split: if_splits option.splits) auto

lemma read_iovec_loop_length:
  "read_iovec_loop env iov iovlen max' n i offset total_size b = (r, t, b') \<Longrightarrow> length b = 2048 \<Longrightarrow> length b' = 2048"
proof (induction n arbitrary: i offset total_size b)
  case (Suc n)
  show ?case
  proof (cases "bpf_probe_read (kmem_with env b) 16 (iov + of_nat (i * 16))")
    case None
    then show ?thesis using Suc.prems by (auto split: if_splits)
  next
    case (Some d)
    define v where "v = iovec_of d"
    let ?sz = "TRUNCATE_PAYLOAD_SIZE (min (iov_size v) (max' - offset))" and ?off = "TRUNCATE_PAYLOAD_SIZE offset"
    obtain ok b1 where r: "read_into env (kmem_with env b) b (unat ?off) (unat ?sz) (iov_buf v) = (ok, b1)" by fastforce
    have "length b1 = 2048"
      using read_into_length [OF r] Suc.prems(2) by (simp add: unat_TRUNCATE_u64)
    then show ?thesis
      using Suc.prems Suc.IH Some r by (auto simp: Let_def simp flip: v_def split: if_splits)
  qed
qed simp

lemma read_iovec_length:
  "read_iovec env iov iovlen ret b total_size = (r, t, b') \<Longrightarrow> length b = 2048 \<Longrightarrow> length b' = 2048"
  unfolding read_iovec_def Let_def by (rule read_iovec_loop_length)

lemma l7_put_wf:
  "l7_wf s \<Longrightarrow> payload_wf (ev_payload e) \<Longrightarrow> l7_wf (put_event env e s)"
  "l7_wf s \<Longrightarrow> payload_wf (req_payload r) \<Longrightarrow> l7_wf (put_request env r s)"
  "l7_wf s \<Longrightarrow> length b = 2048 \<Longrightarrow> l7_wf (put_iovec_buf env b s)"
  "l7_wf s \<Longrightarrow> event_wf e \<Longrightarrow> l7_wf (send_event env e cid conn s)"
  by (auto simp: l7_wf_def event_wf_def put_defs Let_def)

lemma put_frame [simp]:
  "base_wf (put_event env e s) = base_wf s" "base_wf (put_request env r s) = base_wf s"
  "base_wf (put_iovec_buf env b s) = base_wf s" "base_wf (send_event env e cid conn s) = base_wf s"
  "net_wf (put_event env e s) = net_wf s" "net_wf (put_request env r s) = net_wf s"
  "net_wf (put_iovec_buf env b s) = net_wf s" "net_wf (send_event env e cid conn s) = net_wf s"
  by (simp_all add: base_wf_def net_wf_def put_defs Let_def)

lemma tracer_put:
  "tracer_wf s \<Longrightarrow> payload_wf (ev_payload e) \<Longrightarrow> tracer_wf (put_event env e s)"
  "tracer_wf s \<Longrightarrow> payload_wf (req_payload r) \<Longrightarrow> tracer_wf (put_request env r s)"
  "tracer_wf s \<Longrightarrow> length b = 2048 \<Longrightarrow> tracer_wf (put_iovec_buf env b s)"
  "tracer_wf s \<Longrightarrow> event_wf e \<Longrightarrow> tracer_wf (send_event env e cid conn s)"
  by (simp_all add: tracer_wf_def l7_put_wf)

lemma tracer_heaps:
  assumes "tracer_wf s"
  shows "payload_wf (ev_payload (l7_event_heap s cpu))" "payload_wf (req_payload (l7_request_heap s cpu))"
    "length (iovec_buf_heap s cpu) = 2048"
    "bpf_map_lookup_elem (active_l7_requests s) k = Some req \<Longrightarrow> request_wf req"
  using assms
  by (auto simp: tracer_wf_def l7_wf_def net_wf_def bpf_map_lookup_elem_def dest!: map_of_SomeD)

lemma tracer_maps:
  "tracer_wf s \<Longrightarrow> tracer_wf (s\<lparr>active_connections := bpf_map_modify g cid (active_connections s)\<rparr>)"
  "tracer_wf s \<Longrightarrow> tracer_wf (s\<lparr>active_reads := bpf_map_delete_elem (active_reads s) i\<rparr>)"
  "tracer_wf s \<Longrightarrow> tracer_wf (s\<lparr>active_reads := snd (bpf_lru_update_elem READ_ENTRIES ev (active_reads s) i a f)\<rparr>)"
  "tracer_wf s \<Longrightarrow> tracer_wf (s\<lparr>active_l7_requests := bpf_map_delete_elem (active_l7_requests s) k\<rparr>)"
  by (auto simp: tracer_wf_def base_wf_def net_wf_def l7_wf_def intro!: net_intros)

lemma tracer_requests:
  assumes "tracer_wf s" and "request_wf req"
  shows "tracer_wf (s\<lparr>active_l7_requests := bpf_map_modify (\<lambda>_. req) k (active_l7_requests s)\<rparr>)"
    and "tracer_wf (s\<lparr>active_l7_requests :=
      snd (bpf_lru_update_elem L7_REQUEST_ENTRIES ev (active_l7_requests s) k req f)\<rparr>)"
proof -
  have "\<forall>x\<in>set (bpf_map_modify (\<lambda>_. req) k (active_l7_requests s)). request_wf (snd x)"
    using assms by (auto simp: bpf_map_modify_def tracer_wf_def net_wf_def)
  then show "tracer_wf (s\<lparr>active_l7_requests := bpf_map_modify (\<lambda>_. req) k (active_l7_requests s)\<rparr>)"
    using assms(1) by (auto simp: tracer_wf_def base_wf_def net_wf_def l7_wf_def intro!: net_intros)
  have "\<forall>x\<in>set (snd (bpf_lru_update_elem L7_REQUEST_ENTRIES ev (active_l7_requests s) k req f)).
      request_wf (snd x)"
    using assms set_lru_update [of L7_REQUEST_ENTRIES ev "active_l7_requests s" k req f]
    by (auto simp: tracer_wf_def net_wf_def)
  then show "tracer_wf (s\<lparr>active_l7_requests :=
      snd (bpf_lru_update_elem L7_REQUEST_ENTRIES ev (active_l7_requests s) k req f)\<rparr>)"
    using assms(1) by (auto simp: tracer_wf_def base_wf_def net_wf_def l7_wf_def intro!: net_intros)
qed

lemma map_delete_modify: "bpf_map_delete_elem (bpf_map_modify f k m) k = bpf_map_delete_elem m k"
  by (induction m) (auto simp: bpf_map_delete_elem_def bpf_map_modify_def)

lemma tracer_answered:
  "tracer_wf s \<Longrightarrow>
   tracer_wf (s\<lparr>active_l7_requests := bpf_map_delete_elem (bpf_map_modify (\<lambda>_. req) k (active_l7_requests s)) k\<rparr>)"
  using tracer_maps(4) [of s k] by (simp add: map_delete_modify)

section \<open>Requests and responses\<close>

lemma write_event_wf:
  assumes "tracer_wf s"
    and "protocol = PROTOCOL_MYSQL \<Longrightarrow> copied \<and> (\<exists>rt. fst (is_mysql_query (kmem env s) payload sz rt))"
  shows "tracer_wf (write_event env payload sz cid conn protocol meth timed copied s)"
proof -
  let ?h = "l7_event_heap s (env_cpu env)"
  have h: "payload_wf (ev_payload ?h)" using tracer_heaps(1) [OF assms(1)] .
  obtain ok pl where c: "COPY_PAYLOAD env (kmem env s) (ev_payload ?h) sz payload = (ok, pl)" by fastforce
  have pl: "payload_wf pl" using COPY_PAYLOAD_wf [OF c h] .
  have sized: "mysql_sized protocol sz pl" if "ok"
    using that c copied_mysql_sized assms(2) by (cases "protocol = PROTOCOL_MYSQL") (auto simp: mysql_sized_def)
  have other: "protocol \<noteq> PROTOCOL_MYSQL" if "\<not> copied" using that assms(2) by blast
  show ?thesis
    using assms(1) h c pl sized other
    by (auto simp: write_event_def bpf_percpu_lookup_def Let_def event_wf_def mysql_sized_def intro!: tracer_put)
qed

lemma write_payload_wf:
  assumes "tracer_wf s" and "write_payload env buf sz iovlen s = Some (payload, sz', tsz, s')"
  shows "tracer_wf s'"
  using assms tracer_heaps(3) [OF assms(1), of "env_cpu env"]
  by (auto simp: write_payload_def bpf_percpu_lookup_def split: prod.splits if_splits
      dest: read_iovec_length intro!: tracer_put)

lemma write_outcome_wf:
  assumes "tracer_wf u" and "payload_wf (req_payload req)" and "req_protocol req = PROTOCOL_UNKNOWN"
    and "req_payload_size req = sz"
  shows "tracer_wf
      (case classify_write (kmem env u) payload sz tsz active req k of
         WEvent protocol meth timed copied req \<Rightarrow>
           write_event env payload sz cid conn protocol meth timed copied (put_request env req u)
       | WRequest req k \<Rightarrow>
           if req_protocol req = PROTOCOL_UNKNOWN then put_request env req u
           else
             (let req = (if req_ns req = 0 then req\<lparr>req_ns := env_ktime env\<rparr> else req);
                  (ok, pl) = COPY_PAYLOAD env (kmem env u) (req_payload req) sz payload;
                  req = req\<lparr>req_payload := pl\<rparr>;
                  s = put_request env req u in
              if ok then
                s\<lparr>active_l7_requests := snd (bpf_lru_update_elem L7_REQUEST_ENTRIES
                   (env_evict env Active_L7_Requests) (active_l7_requests s) k req BPF_NOEXIST)\<rparr>
              else s))"
proof (cases "classify_write (kmem env u) payload sz tsz active req k")
  case (WEvent protocol meth timed copied req')
  have "tracer_wf (put_request env req' u)"
    using classify_write_event [OF WEvent] assms(1,2) by (auto intro: tracer_put)
  moreover have "copied \<and> (\<exists>rt. fst (is_mysql_query (kmem env (put_request env req' u)) payload sz rt))"
    if "protocol = PROTOCOL_MYSQL"
  proof -
    have "kmem env (put_request env req' u) = kmem env u" by (simp add: put_request_def kmem_def)
    then show ?thesis using classified_mysql(2) [OF assms(3) WEvent [unfolded that]] by simp
  qed
  ultimately show ?thesis using WEvent by (simp add: write_event_wf)
next
  case (WRequest req' k')
  note parts = classify_write_request [OF WRequest]
  let ?req = "if req_ns req' = 0 then req'\<lparr>req_ns := env_ktime env\<rparr> else req'"
  obtain ok pl where c: "COPY_PAYLOAD env (kmem env u) (req_payload req) sz payload = (ok, pl)" by fastforce
  have pl: "payload_wf pl" using COPY_PAYLOAD_wf [OF c assms(2)] .
  have "mysql_sized (req_protocol req') sz pl" if "ok"
    using that c copied_mysql_sized classified_mysql(1) [OF assms(3) WRequest]
    by (cases "req_protocol req' = PROTOCOL_MYSQL") (auto simp: mysql_sized_def)
  then have "request_wf (?req\<lparr>req_payload := pl\<rparr>)" if "ok"
    using that pl parts assms(4) by (simp add: request_wf_def)
  then show ?thesis
    using WRequest parts pl c assms(1,2) by (auto simp: Let_def intro!: tracer_put tracer_requests)
qed

lemma trace_enter_write_wf:
  assumes "tracer_wf s"
  shows "tracer_wf (trace_enter_write env fd is_tls buf sz iovlen s)"
proof (cases "bpf_map_lookup_elem (active_connections s) (cid_at env fd)")
  case None
  then show ?thesis using assms by (simp add: trace_enter_write_def Let_def)
next
  case conn: (Some conn)
  show ?thesis
  proof (cases "write_payload env buf sz iovlen s")
    case None
    then show ?thesis using conn assms by (simp add: trace_enter_write_def Let_def)
  next
    case (Some w)
    obtain payload sz' tsz t where w: "w = (payload, sz', tsz, t)" by (cases w)
    have t: "tracer_wf t" using write_payload_wf [OF assms] Some w by simp
    let ?u = "count_sent is_tls (cid_at env fd) tsz t"
    have u: "tracer_wf ?u" using t by (simp add: count_sent_def tracer_maps)
    let ?req = "fresh_request (l7_request_heap ?u (env_cpu env)) sz'"
    have req: "payload_wf (req_payload ?req)" "req_protocol ?req = PROTOCOL_UNKNOWN" "req_payload_size ?req = sz'"
      using tracer_heaps(2) [OF u] by (simp_all add: fresh_request_def)
    have "trace_enter_write env fd is_tls buf sz iovlen s =
      (if sz' = 0 then t else
       case classify_write (kmem env ?u) payload sz' tsz (bpf_map_lookup_elem (active_l7_requests ?u)) ?req
              (plain_key (cid_at env fd) is_tls) of
         WEvent protocol method timed copied req \<Rightarrow>
           write_event env payload sz' (cid_at env fd) conn protocol method timed copied (put_request env req ?u)
       | WRequest req k \<Rightarrow>
           if req_protocol req = PROTOCOL_UNKNOWN then put_request env req ?u
           else
             (let req = (if req_ns req = 0 then req\<lparr>req_ns := env_ktime env\<rparr> else req);
                  (ok, pl) = COPY_PAYLOAD env (kmem env ?u) (req_payload req) sz' payload;
                  req = req\<lparr>req_payload := pl\<rparr>;
                  s = put_request env req ?u in
              if ok then
                s\<lparr>active_l7_requests := snd (bpf_lru_update_elem L7_REQUEST_ENTRIES
                   (env_evict env Active_L7_Requests) (active_l7_requests s) k req BPF_NOEXIST)\<rparr>
              else s))"
      using conn Some w
      by (simp add: trace_enter_write_def bpf_percpu_lookup_def fresh_request_def plain_key_def
          Let_def flip: count_sent_def split: write_outcome.split)
    then show ?thesis
      using t write_outcome_wf [OF u req] by simp
  qed
qed

lemma trace_enter_read_wf: "tracer_wf s \<Longrightarrow> tracer_wf (trace_enter_read env i pid fd buf ret iovlen s)"
  by (auto simp: trace_enter_read_def Let_def split: option.splits intro!: tracer_maps)

lemma exit_read_payload_wf:
  assumes "tracer_wf s"
    and "exit_read_payload env args ret s = Inr (payload, ret', tsz, s') \<or> exit_read_payload env args ret s = Inl s'"
  shows "tracer_wf s'"
  using assms tracer_heaps(3) [OF assms(1), of "env_cpu env"]
  by (auto simp: exit_read_payload_def bpf_percpu_lookup_def Let_def split: option.splits prod.splits if_splits
      dest: read_iovec_length intro!: tracer_put)

lemma find_request_wf:
  assumes "tracer_wf s" and "payload_wf (ev_payload e)"
  shows "case find_request env payload ret cid conn k e s of
      Inl s' \<Rightarrow> tracer_wf s'
    | Inr (req, k', r, e') \<Rightarrow> request_wf req \<and> payload_wf (ev_payload e')"
  using assms tracer_heaps(4) [OF assms(1)]
  by (auto simp: find_request_def Let_def event_wf_def mysql_sized_def split: option.splits prod.splits
      dest!: COPY_PAYLOAD_wf intro!: tracer_put tracer_maps)

lemma match_response_wf:
  assumes "match_response m payload ret tsz r req e = (r', keep, e', req')"
    and "request_wf req" and "payload_wf (ev_payload e)"
  shows "event_wf e' \<and> (keep \<longrightarrow> request_wf req')"
proof -
  define n where "n = unat (TRUNCATE_PAYLOAD_SIZE (req_payload_size req))"
  have n: "n \<le> 1023" by (simp add: n_def unat_TRUNCATE_u64)
  have parts: "req_payload req' = req_payload req" "ev_payload e' = take n (req_payload req) @ drop n (ev_payload e)"
      "ev_protocol e' = req_protocol req" "ev_payload_size e' = req_payload_size req"
      "req_protocol req' = req_protocol req" "keep \<Longrightarrow> req_protocol req \<noteq> PROTOCOL_MYSQL"
    using assms(1) unfolding n_def
    by (simp_all add: match_response_def Let_def split: if_splits prod.splits) auto
  have "mysql_length (ev_payload e') = mysql_length (req_payload req)" if "5 \<le> req_payload_size req"
  proof -
    have "3 \<le> n" using that by (simp add: n_def unat_TRUNCATE_u64 word_le_nat_alt)
    then show ?thesis using assms(2) by (simp add: mysql_length_def parts nth_append request_wf_def payload_wf_def)
  qed
  moreover have "payload_wf (ev_payload e')"
    using assms(2,3) n by (auto simp: parts payload_wf_def request_wf_def nth_append)
  ultimately show ?thesis using assms(2) parts by (auto simp: event_wf_def request_wf_def mysql_sized_def)
qed

lemma match_read_wf:
  assumes "tracer_wf s" and "payload_wf (ev_payload e)"
  shows "tracer_wf (match_read env cid conn k payload ret tsz e s)"
  using find_request_wf [OF assms, of env payload ret cid conn k] assms(1)
  by (auto simp: match_read_def Let_def event_wf_def split: sum.splits prod.splits
      dest!: match_response_wf intro!: tracer_put tracer_answered tracer_requests)

lemma trace_exit_read_wf:
  assumes "tracer_wf s"
  shows "tracer_wf (trace_exit_read env i pid is_tls ret s)"
proof (cases "bpf_map_lookup_elem (active_reads s) i")
  case None
  then show ?thesis using assms by (simp add: trace_exit_read_def)
next
  case args: (Some args)
  let ?cid = "\<lparr>cid_fd = ra_fd args, cid_pid = pid\<rparr>"
  let ?s1 = "s\<lparr>active_reads := bpf_map_delete_elem (active_reads s) i\<rparr>"
  have s1: "tracer_wf ?s1" using assms by (rule tracer_maps)
  show ?thesis
  proof (cases "bpf_map_lookup_elem (active_connections s) ?cid")
    case None
    then show ?thesis using args s1 by (simp add: trace_exit_read_def Let_def)
  next
    case (Some conn)
    have "tracer_wf (count_received is_tls ?cid tsz t)" if "tracer_wf t" for tsz t
      using that by (simp add: count_received_def tracer_maps)
    then show ?thesis
      unfolding exit_read_cases [OF args Some refl refl]
      using exit_read_payload_wf [OF s1, of env args ret] tracer_heaps(1)
      by (auto simp: Let_def unread_event_def event_wf_def mysql_sized_def split: sum.splits prod.splits
          intro!: match_read_wf tracer_put)
  qed
qed

section \<open>All programs together\<close>

inductive tracer_step :: "l7_maps \<Rightarrow> l7_maps \<Rightarrow> bool" where
  poll_exit: "tracer_step s (uv_io_poll_exit env s)"
| poll_enter: "tracer_step s (uv_io_poll_enter env s)"
| cb_enter: "tracer_step s (uv_io_cb_enter env s)"
| cb_exit: "tracer_step s (uv_io_cb_exit env s)"
| lock_enter: "tracer_step s (pthread_cond_timedwait_enter env s)"
| lock_exit: "tracer_step s (pthread_cond_timedwait_exit env s)"
| newtask: "tracer_step s (task_newtask nt s)"
| process_exit: "tracer_step s (sched_process_exit env px s)"
| oom: "tracer_step s (oom_mark_victim mv s)"
| path: "tracer_step s (path_get env ctx s)"
| open_enter: "tracer_step s (sys_enter_open env octx s)"
| open_exit: "tracer_step s (sys_exit_open env xctx s)"
| openat_enter: "tracer_step s (sys_enter_openat env octx s)"
| openat_exit: "tracer_step s (sys_exit_openat env xctx s)"
| conntrack: "tracer_step s (nf_ct_deliver_cached_events env ctx s)"
| set_state: "tracer_step s (inet_sock_set_state env st s)"
| connect_enter: "tracer_step s (sys_enter_connect env fdctx s)"
| connect_exit: "tracer_step s (sys_exit_connect env xctx s)"
| close_enter: "tracer_step s (sys_enter_close env fdctx s)"
| retransmit: "tracer_step s (tcp_retransmit_skb rt s)"
| write_enter: "tracer_step s (sys_enter_write env rw s)"
| writev_enter: "tracer_step s (sys_enter_writev env rw s)"
| sendmsg: "tracer_step s (sys_enter_sendmsg env rw s)"
| sendmmsg: "tracer_step s (sys_enter_sendmmsg envs rw s)"
| sendto: "tracer_step s (sys_enter_sendto env rw s)"
| read_enter: "tracer_step s (sys_enter_read env rw s)"
| readv_enter: "tracer_step s (sys_enter_readv env rw s)"
| recvmsg_enter: "tracer_step s (sys_enter_recvmsg env rw s)"
| recvfrom_enter: "tracer_step s (sys_enter_recvfrom env rw s)"
| read_exit: "tracer_step s (sys_exit_read env xctx s)"
| readv_exit: "tracer_step s (sys_exit_readv env xctx s)"
| recvmsg_exit: "tracer_step s (sys_exit_recvmsg env xctx s)"
| recvfrom_exit: "tracer_step s (sys_exit_recvfrom env xctx s)"
| go_write: "tracer_step s (go_crypto_tls_write_enter env ctx s)"
| go_read_enter: "tracer_step s (go_crypto_tls_read_enter env ctx s)"
| go_read_exit: "tracer_step s (go_crypto_tls_read_exit env ctx s)"
| ssl_write: "tracer_step s (openssl_SSL_write_enter env ctx s)"
| ssl_read: "tracer_step s (openssl_SSL_read_enter env ctx s)"
| ssl_read_ex: "tracer_step s (openssl_SSL_read_ex_enter env ctx s)"
| ssl_write_v1_1_1: "tracer_step s (openssl_SSL_write_enter_v1_1_1 env ctx s)"
| ssl_read_v1_1_1: "tracer_step s (openssl_SSL_read_enter_v1_1_1 env ctx s)"
| ssl_read_ex_v1_1_1: "tracer_step s (openssl_SSL_read_ex_enter_v1_1_1 env ctx s)"
| ssl_write_v3_0: "tracer_step s (openssl_SSL_write_enter_v3_0 env ctx s)"
| ssl_read_v3_0: "tracer_step s (openssl_SSL_read_enter_v3_0 env ctx s)"
| ssl_read_ex_v3_0: "tracer_step s (openssl_SSL_read_ex_enter_v3_0 env ctx s)"
| ssl_read_exit: "tracer_step s (openssl_SSL_read_exit env ctx s)"

inductive_cases tracer_stepE: "tracer_step s s'"

lemma sendmmsg_loop_wf: "tracer_wf s \<Longrightarrow> tracer_wf (sendmmsg_loop envs rw n i offset s)"
  by (induction n arbitrary: i offset s) (auto simp: Let_def split: option.splits intro: trace_enter_write_wf)

lemma base_step_wf:
  "tracer_wf s \<Longrightarrow> tracer_wf (uv_io_poll_exit env s)"
  "tracer_wf s \<Longrightarrow> tracer_wf (uv_io_poll_enter env s)"
  "tracer_wf s \<Longrightarrow> tracer_wf (uv_io_cb_enter env s)"
  "tracer_wf s \<Longrightarrow> tracer_wf (uv_io_cb_exit env s)"
  "tracer_wf s \<Longrightarrow> tracer_wf (pthread_cond_timedwait_enter env s)"
  "tracer_wf s \<Longrightarrow> tracer_wf (pthread_cond_timedwait_exit env s)"
  "tracer_wf s \<Longrightarrow> tracer_wf (task_newtask nt s)"
  "tracer_wf s \<Longrightarrow> tracer_wf (sched_process_exit env px s)"
  "tracer_wf s \<Longrightarrow> tracer_wf (oom_mark_victim mv s)"
  "tracer_wf s \<Longrightarrow> tracer_wf (path_get env ctx s)"
  "tracer_wf s \<Longrightarrow> tracer_wf (trace_enter_open env fl filename s)"
  "tracer_wf s \<Longrightarrow> tracer_wf (trace_exit_open env xctx s)"
  "tracer_wf s \<Longrightarrow> tracer_wf (nf_ct_deliver_cached_events env ctx s)"
  "tracer_wf s \<Longrightarrow> tracer_wf (inet_sock_set_state env st s)"
  "tracer_wf s \<Longrightarrow> tracer_wf (sys_enter_connect env fdctx s)"
  "tracer_wf s \<Longrightarrow> tracer_wf (sys_exit_connect env xctx s)"
  "tracer_wf s \<Longrightarrow> tracer_wf (sys_enter_close env fdctx s)"
  "tracer_wf s \<Longrightarrow> tracer_wf (tcp_retransmit_skb rt s)"
  by (simp_all add: tracer_wf_def base_handlers_wf net_handlers_wf)

lemmas syscall_defs =
  sys_enter_open_def sys_exit_open_def sys_enter_openat_def sys_exit_openat_def
  sys_enter_write_def sys_enter_writev_def sys_enter_sendmsg_def sys_enter_sendmmsg_def sys_enter_sendto_def
  sys_enter_read_def sys_enter_readv_def sys_enter_recvmsg_def sys_enter_recvfrom_def
  sys_exit_read_def sys_exit_readv_def sys_exit_recvmsg_def sys_exit_recvfrom_def

lemmas tls_defs =
  go_crypto_tls_write_enter_def go_crypto_tls_read_enter_def go_crypto_tls_read_exit_def
  openssl_SSL_write_enter_def openssl_SSL_write_enter_v1_1_1_def openssl_SSL_write_enter_v3_0_def
  openssl_SSL_read_enter_def openssl_SSL_read_enter_v1_1_1_def openssl_SSL_read_enter_v3_0_def
  openssl_SSL_read_ex_enter_def openssl_SSL_read_ex_enter_v1_1_1_def openssl_SSL_read_ex_enter_v3_0_def
  openssl_SSL_read_exit_def WRITE_ENTER_def READ_ENTER_def READ_EX_ENTER_def

lemmas step_wf = base_step_wf trace_enter_write_wf trace_enter_read_wf trace_exit_read_wf sendmmsg_loop_wf

lemma tracer_step_wf: "tracer_step s s' \<Longrightarrow> tracer_wf s \<Longrightarrow> tracer_wf s'"
  by (erule tracer_stepE)
    (auto simp: syscall_defs tls_defs Let_def split: option.splits intro: step_wf)

interpretation tracer: step_invariant tracer_step tracer_wf
  by unfold_locales (rule tracer_step_wf)

lemma init_l7_maps_wf: "tracer_wf init_l7_maps"
  by (simp add: tracer_wf_def base_wf_def net_wf_def l7_wf_def map_wf_def payload_wf_def zero_l7_event_def
      zero_l7_request_def)

text \<open>
  C8. In every state the tracer reaches, by any sequence of its programs with any arguments and
  any memory of the traced processes, no map has two entries for a key or more entries than
  declared, and all payloads, those under construction, those pending and those sent, have their
  1024 bytes and the vector buffers their 2048: no copy has written past the end of its buffer, nor
  into the last byte of a payload, which stays 0. The size of every MySQL packet that is pending or
  was sent is the one the packet announces.
\<close>

theorem tracer_stays_in_bounds:
  assumes "tracer_step\<^sup>*\<^sup>* init_l7_maps s"
  shows "tracer_wf s"
  using assms init_l7_maps_wf by (rule tracer.reachable_inv)

theorem tracer_stays_in_bounds_witness:
  "tracer_wf (sys_enter_writev (plain_env 7 1) \<lparr>rw_fd = 3, rw_buf = 0x1000, rw_size = 2\<rparr>
     (sys_enter_connect (plain_env 7 0) (Some \<lparr>awf_fd = 3\<rparr>) init_l7_maps))"
proof -
  let ?s = "sys_enter_connect (plain_env 7 0) (Some \<lparr>awf_fd = 3\<rparr>) init_l7_maps"
  have "tracer_step\<^sup>*\<^sup>* init_l7_maps ?s" by (rule r_into_rtranclp) (rule connect_enter)
  moreover have "tracer_step ?s (sys_enter_writev (plain_env 7 1) \<lparr>rw_fd = 3, rw_buf = 0x1000, rw_size = 2\<rparr> ?s)"
    by (rule writev_enter)
  ultimately show ?thesis by (rule tracer_stays_in_bounds [OF rtranclp.rtrancl_into_rtrancl])
qed

end
