(* ===== verification/Tls_Apart.thy ===== *)
theory Tls_Apart
  imports Tracer
begin

unbundle bit_operations_syntax

text \<open>
  The plain text a TLS library handles and the encrypted traffic of the same connection run
  through the same probes, often in the same thread: \<^verbatim>\<open>SSL_read\<close> calls \<^verbatim>\<open>read\<close>. They are kept apart by
  the top bit of the identifier of a read in progress and by the TLS flag in the key of a request.
  The theory shows that the probes of one side leave the state of the other alone.
\<close>

section \<open>What one side sees\<close>

definition same_side :: "bool \<Rightarrow> 'a l7_maps_scheme \<Rightarrow> 'a l7_maps_scheme \<Rightarrow> bool" where
  "same_side tls s s' \<longleftrightarrow>
     (\<forall>i. bit i 63 = tls \<longrightarrow> bpf_map_lookup_elem (active_reads s') i = bpf_map_lookup_elem (active_reads s) i) \<and>
     (\<forall>k. (k_is_tls k \<noteq> 0) = tls \<longrightarrow>
        bpf_map_lookup_elem (active_l7_requests s') k = bpf_map_lookup_elem (active_l7_requests s) k) \<and>
     (\<not> tls \<longrightarrow> active_connections s' = active_connections s)"

lemma same_side_refl [simp]: "same_side tls s s" by (simp add: same_side_def)

lemma same_side_trans: "same_side tls s s' \<Longrightarrow> same_side tls s' s'' \<Longrightarrow> same_side tls s s''"
  by (simp add: same_side_def)

text \<open>
  The probes of system calls, and those of the TLS libraries. The handler of \<^verbatim>\<open>sendmmsg\<close> has an
  environment for each message. Threads and processes have numbers below 2 to the 31, so the
  identifier of a thread does not have the top bit.
\<close>

definition plain_probes ::
  "(nat \<Rightarrow> bpf_env) \<Rightarrow> sys_enter_rw_ctx \<Rightarrow> sys_exit_ctx \<Rightarrow> ('a l7_maps_scheme \<Rightarrow> 'a l7_maps_scheme) list" where
  "plain_probes env rw ctx =
     [sys_enter_write (env 0) rw, sys_enter_writev (env 0) rw, sys_enter_sendmsg (env 0) rw, sys_enter_sendmmsg env rw,
      sys_enter_sendto (env 0) rw, sys_enter_read (env 0) rw, sys_enter_readv (env 0) rw, sys_enter_recvmsg (env 0) rw,
      sys_enter_recvfrom (env 0) rw, sys_exit_read (env 0) ctx, sys_exit_readv (env 0) ctx,
      sys_exit_recvmsg (env 0) ctx, sys_exit_recvfrom (env 0) ctx]"

definition tls_probes :: "bpf_env \<Rightarrow> pt_regs \<Rightarrow> ('a l7_maps_scheme \<Rightarrow> 'a l7_maps_scheme) list" where
  "tls_probes env ctx =
     [go_crypto_tls_write_enter env ctx, go_crypto_tls_read_enter env ctx, go_crypto_tls_read_exit env ctx,
      openssl_SSL_write_enter env ctx, openssl_SSL_write_enter_v1_1_1 env ctx, openssl_SSL_write_enter_v3_0 env ctx,
      openssl_SSL_read_enter env ctx, openssl_SSL_read_enter_v1_1_1 env ctx, openssl_SSL_read_enter_v3_0 env ctx,
      openssl_SSL_read_ex_enter env ctx, openssl_SSL_read_ex_enter_v1_1_1 env ctx,
      openssl_SSL_read_ex_enter_v3_0 env ctx, openssl_SSL_read_exit env ctx]"

inductive side_step :: "bool \<Rightarrow> 'a l7_maps_scheme \<Rightarrow> 'a l7_maps_scheme \<Rightarrow> bool" where
  plain: "(\<And>i. calm_l7 (env i) \<and> \<not> bit (env_pid_tgid (env i)) 63) \<Longrightarrow> f \<in> set (plain_probes env rw ctx) \<Longrightarrow>
    side_step False s (f s)"
| tls: "calm_l7 env \<Longrightarrow> f \<in> set (tls_probes env regs) \<Longrightarrow> side_step True s (f s)"

inductive_cases side_stepE: "side_step tls s s'"

section \<open>The shared handlers\<close>

definition request_side :: "bpf_env \<Rightarrow> u16 \<Rightarrow> (l7_request_key, l7_request) bpf_map \<Rightarrow>
    (l7_request_key, l7_request) bpf_map \<Rightarrow> bool" where
  "request_side env is_tls m m' \<longleftrightarrow> m' = m \<or>
     (\<exists>k req. k_is_tls k = is_tls \<and>
        m' = snd (bpf_lru_update_elem L7_REQUEST_ENTRIES (env_evict env Active_L7_Requests) m k req BPF_NOEXIST))"

lemma request_side_refl [simp]: "request_side env is_tls m m" by (simp add: request_side_def)

lemma request_side_update:
  "k_is_tls k = is_tls \<Longrightarrow> request_side env is_tls m
     (snd (bpf_lru_update_elem L7_REQUEST_ENTRIES (env_evict env Active_L7_Requests) m k req BPF_NOEXIST))"
  unfolding request_side_def by blast

lemma enter_write_side:
  fixes s :: "'a l7_maps_scheme"
  defines "s' env fd is_tls buf sz iovlen \<equiv> trace_enter_write env fd is_tls buf sz iovlen s"
  shows "request_side env is_tls (active_l7_requests s) (active_l7_requests (s' env fd is_tls buf sz iovlen)) \<and>
    (is_tls \<noteq> 0 \<longrightarrow> active_connections (s' env fd is_tls buf sz iovlen) = active_connections s)"
proof (cases "bpf_map_lookup_elem (active_connections s) (cid_at env fd)")
  case None
  then show ?thesis by (simp add: s'_def trace_enter_write_def Let_def)
next
  case conn: (Some conn)
  show ?thesis
  proof (cases "write_payload env buf sz iovlen s")
    case None
    then show ?thesis using conn by (simp add: s'_def trace_enter_write_def Let_def)
  next
    case (Some w)
    obtain payload sz' tsz t where w: "w = (payload, sz', tsz, t)" by (cases w)
    note fr = write_payload_frame [OF Some [unfolded w]]
    show ?thesis
      using conn Some fr
      by (auto simp: s'_def trace_enter_write_def Let_def w bpf_percpu_lookup_def write_event_frame put_request_def
          dest!: classify_write_request intro!: request_side_update
          split: write_outcome.splits prod.splits if_splits)
  qed
qed

lemma write_same_side:
  assumes "room (Suc n) s" and "calm_l7 env" and "(is_tls \<noteq> 0) = (\<not> tls)"
    and s': "s' = trace_enter_write env fd is_tls buf sz iovlen s"
  shows "same_side tls s s' \<and> room n s'"
proof -
  note fr = enter_write_frame [of s env fd is_tls buf sz iovlen, folded s']
  note side = enter_write_side [of env is_tls s fd buf sz iovlen, folded s']
  have "bpf_map_lookup_elem (active_l7_requests s') k = bpf_map_lookup_elem (active_l7_requests s) k"
    if "(k_is_tls k \<noteq> 0) = tls" for k
    using side that assms(1-3)
    by (auto simp: request_side_def calm_l7_def room_def intro!: calm_update_other)
  moreover have "room n s'"
    using fr assms(1,2) counted_other [of "cid_at env fd" "active_connections s" "active_connections s'"]
    by (auto simp: room_def request_kept_def calm_l7_def intro!: calm_update_room)
  ultimately show ?thesis using fr side assms(3) by (auto simp: same_side_def)
qed

lemma read_enter_same_side:
  assumes "room (Suc n) s" and "calm_l7 env" and "bit i 63 = (\<not> tls)"
    and s': "s' = trace_enter_read env i pid fd buf ret iovlen s"
  shows "same_side tls s s' \<and> room n s'"
  using assms(1-3) unfolding s'
  by (auto simp: trace_enter_read_def Let_def same_side_def room_def calm_l7_def split: option.splits
      intro!: calm_update_other calm_update_room)

definition drop_side :: "u16 \<Rightarrow> (l7_request_key, l7_request) bpf_map \<Rightarrow>
    (l7_request_key, l7_request) bpf_map \<Rightarrow> bool" where
  "drop_side is_tls m m' \<longleftrightarrow> length m' \<le> length m \<and>
     (\<forall>k. k_is_tls k \<noteq> is_tls \<longrightarrow> bpf_map_lookup_elem m' k = bpf_map_lookup_elem m k)"

lemma drop_side_refl [simp]: "drop_side is_tls m m" by (simp add: drop_side_def)

lemma drop_side_delete: "drop_side is_tls m m' \<Longrightarrow> k_is_tls k = is_tls \<Longrightarrow> drop_side is_tls m (bpf_map_delete_elem m' k)"
  using length_map_delete [of m' k] by (auto simp: drop_side_def hash.lookup_delete)

lemma drop_side_modify: "drop_side is_tls m m' \<Longrightarrow> k_is_tls k = is_tls \<Longrightarrow> drop_side is_tls m (bpf_map_modify g k m')"
  by (auto simp: drop_side_def hash.lookup_modify)

lemma match_read_side:
  fixes t :: "'a l7_maps_scheme"
  shows "drop_side (k_is_tls k) (active_l7_requests t)
    (active_l7_requests (match_read env cid conn k payload ret total_size e t))"
proof (cases "find_request env payload ret cid conn k e t")
  case (Inl t')
  then show ?thesis
    by (auto simp: match_read_def find_request_def Let_def put_defs intro!: drop_side_delete
        split: option.splits prod.splits if_splits)
next
  case (Inr x)
  obtain req k' r e' where x: "x = (req, k', r, e')" by (cases x)
  have k': "k_is_tls k' = k_is_tls k"
    using Inr unfolding x by (auto simp: find_request_def Let_def split: option.splits prod.splits if_splits)
  obtain r' keep e'' req' where m: "match_response (kmem env t) payload ret total_size r req e' = (r', keep, e'', req')"
    by (cases "match_response (kmem env t) payload ret total_size r req e'")
  have "drop_side (k_is_tls k) (active_l7_requests t) (bpf_map_modify (\<lambda>_. req') k' (active_l7_requests t))"
    using k' by (intro drop_side_modify) simp_all
  with k' show ?thesis
    using Inr x m by (simp add: match_read_def Let_def put_defs drop_side_delete)
qed

lemma exit_read_side:
  fixes s :: "'a l7_maps_scheme"
  assumes args: "bpf_map_lookup_elem (active_reads s) i = Some args" and s': "s' = trace_exit_read env i pid is_tls ret s"
  shows "drop_side is_tls (active_l7_requests s) (active_l7_requests s') \<and>
    (is_tls \<noteq> 0 \<longrightarrow> active_connections s' = active_connections s)"
proof (cases "bpf_map_lookup_elem (active_connections s) \<lparr>cid_fd = ra_fd args, cid_pid = pid\<rparr>")
  case None
  then show ?thesis using args by (simp add: s' trace_exit_read_def Let_def)
next
  case conn: (Some conn)
  let ?cid = "\<lparr>cid_fd = ra_fd args, cid_pid = pid\<rparr>"
  let ?s1 = "s\<lparr>active_reads := bpf_map_delete_elem (active_reads s) i\<rparr>"
  note eq = exit_read_cases [OF args conn refl refl, where env = env and is_tls = is_tls and ret = ret]
  show ?thesis
  proof (cases "exit_read_payload env args ret ?s1")
    case (Inl t)
    then show ?thesis using exit_read_payload_frame [OF disjI2, OF Inl] by (simp add: s' eq)
  next
    case (Inr x)
    obtain payload ret' tsz t where x: "x = (payload, ret', tsz, t)" by (cases x)
    let ?u = "count_received is_tls ?cid tsz t" and ?e = "unread_event (l7_event_heap t (env_cpu env))"
    let ?k = "\<lparr>k_fd = cid_fd ?cid, k_pid = cid_pid ?cid, k_is_tls = is_tls, k_stream_id = -1\<rparr>"
    have u: "active_l7_requests ?u = active_l7_requests s \<and> (is_tls \<noteq> 0 \<longrightarrow> active_connections ?u = active_connections s)"
      using exit_read_payload_frame [OF disjI1, OF Inr [unfolded x]] by (simp add: count_received_def)
    moreover have "active_connections (match_read env ?cid conn ?k payload ret' tsz ?e ?u) = active_connections ?u"
      using match_read_frame [of ?k ?cid _ env conn payload ret' tsz ?e ?u, OF _ _ refl] by simp
    moreover have "active_l7_requests (send_event env e ?cid conn ?u) = active_l7_requests ?u \<and>
      active_connections (send_event env e ?cid conn ?u) = active_connections ?u" for e
      by (simp add: put_defs Let_def)
    moreover note match_read_side [of ?k ?u env ?cid conn payload ret' tsz ?e]
    ultimately show ?thesis unfolding s' eq Inr x by (simp add: Let_def)
  qed
qed

lemma read_exit_same_side:
  assumes "room (Suc n) s" and "bit i 63 = (\<not> tls)" and "(is_tls \<noteq> 0) = (\<not> tls)"
    and s': "s' = trace_exit_read env i pid is_tls ret s"
  shows "same_side tls s s' \<and> room n s'"
proof (cases "bpf_map_lookup_elem (active_reads s) i")
  case None
  then show ?thesis using assms(1) s' by (simp add: trace_exit_read_def room_less)
next
  case (Some args)
  note fr = exit_read_frame [OF Some refl s']
  note side = exit_read_side [OF Some s']
  have "length (active_connections s') = length (active_connections s)"
    using fr counted_other by blast
  then have "room n s'"
    using assms(1) fr side length_map_delete [of "active_reads s" i] by (auto simp: room_def drop_side_def)
  moreover have "same_side tls s s'"
    using fr side assms(2,3) by (auto simp: same_side_def drop_side_def hash.lookup_delete)
  ultimately show ?thesis by simp
qed

section \<open>The probes\<close>

lemma top_bit_const [simp]: "bit (IS_TLS_READ_ID) 63"
  by (simp add: bit_iff_odd_drop_bit drop_bit_eq_div)

lemma top_bit [simp]: "bit (x OR IS_TLS_READ_ID) 63" and top_bit_go [simp]: "bit (go_read_id pid ctx) 63"
  unfolding go_read_id_def Let_def bit_or_iff by (simp_all only: top_bit_const simp_thms)

lemmas enter_same_side = write_same_side [OF _ _ _ refl] read_enter_same_side [OF _ _ _ refl]

lemma tls_probe_apart:
  assumes "room (Suc n) s" and "calm_l7 env" and "f \<in> set (tls_probes env ctx)"
  shows "same_side False s (f s) \<and> room n (f s)"
  using assms(3)
  by (auto simp: tls_probes_def tls_defs Let_def room_less [OF assms(1)] enter_same_side [where tls = False, OF assms(1,2)]
      read_exit_same_side [where tls = False, OF assms(1) _ _ refl] split: option.splits)

lemma sendmmsg_loop_apart:
  "room (j + n) s \<Longrightarrow> (\<And>i. calm_l7 (env i)) \<Longrightarrow>
   same_side True s (sendmmsg_loop env ctx j i offset s) \<and> room n (sendmmsg_loop env ctx j i offset s)"
proof (induction j arbitrary: i offset s)
  case (Suc j)
  have r: "room n s" using Suc.prems(1) by (simp add: room_def)
  show ?case
  proof (cases "of_nat i \<ge> rw_size ctx \<or> bpf_probe_read (kmem (env i) s) 64 (rw_buf ctx + offset) = None")
    case True
    then show ?thesis using r by auto
  next
    case False
    then obtain b where b: "bpf_probe_read (kmem (env i) s) 64 (rw_buf ctx + offset) = Some b" by auto
    let ?w = "trace_enter_write (env i) (rw_fd ctx) 0 (msg_iov (user_msghdr_of b)) 0 (msg_iovlen (user_msghdr_of b)) s"
    have w: "same_side True s ?w \<and> room (j + n) ?w"
      using write_same_side [OF _ _ _ refl, of "j + n" s "env i" 0 True] Suc.prems by simp
    have "sendmmsg_loop env ctx (Suc j) i offset s = sendmmsg_loop env ctx j (Suc i) (offset + 64) ?w"
      using False b by (simp add: Let_def)
    then show ?thesis
      using Suc.IH [of ?w "Suc i" "offset + 64"] w Suc.prems(2) same_side_trans by metis
  qed
qed simp

lemma plain_probe_apart:
  assumes "room (n + 2) s" and env: "\<And>i. calm_l7 (env i) \<and> \<not> bit (env_pid_tgid (env i)) 63"
    and "f \<in> set (plain_probes env rw ctx)"
  shows "same_side True s (f s) \<and> room n (f s)"
proof -
  have r: "room (Suc n) s" and "room n s" and "room (2 + n) s" using assms(1) by (simp_all add: room_def)
  moreover have "same_side True s (sys_enter_sendmmsg env rw s) \<and> room n (sys_enter_sendmmsg env rw s)"
    using sendmmsg_loop_apart [of 2 n s env] env \<open>room (2 + n) s\<close> by (simp add: sys_enter_sendmmsg_def)
  ultimately show ?thesis
    using assms(3) env [of 0]
    by (auto simp: plain_probes_def syscall_defs Let_def enter_same_side [where tls = True, OF r]
        read_exit_same_side [where tls = True, OF r _ _ refl] simp del: sendmmsg_loop.simps split: option.splits)
qed

lemma side_step_apart:
  assumes "side_step (\<not> tls) s s'" and "room (n + 2) s"
  shows "same_side tls s s' \<and> room n s'"
  using assms(1)
proof (cases rule: side_step.cases)
  case (plain env f rw ctx)
  then show ?thesis using plain_probe_apart [OF assms(2) plain(3,4)] by simp
next
  case (tls env f regs)
  have "room (Suc n) s" using assms(2) by (simp add: room_def)
  then show ?thesis using tls tls_probe_apart by simp
qed

lemma run_apart:
  assumes "((side_step (\<not> tls)) ^^ n) s s'" and "room (2 * n + m) s"
  shows "same_side tls s s' \<and> room m s'"
  using assms
proof (induction n arbitrary: s' m)
  case (Suc n)
  then obtain t where t: "((side_step (\<not> tls)) ^^ n) s t" "side_step (\<not> tls) t s'" by auto
  have "same_side tls s t \<and> room (m + 2) t" using Suc.IH [OF t(1), of "m + 2"] Suc.prems(2) by (simp add: ac_simps)
  then show ?case using side_step_apart [OF t(2)] same_side_trans by blast
qed simp

text \<open>
  C10. Plain and encrypted traffic are kept apart. While only the TLS libraries' probes run, in
  any number and on any threads and connections, all reads and requests of plain system calls stay
  as they are, and no byte is counted; while only the system calls' probes run, all reads and
  requests of the TLS libraries stay as they are, also those of the same thread and the same
  descriptor. As long as nothing is evicted from the maps: a step takes at most two entries.
\<close>

theorem tls_and_plain_apart:
  assumes "((side_step (\<not> tls)) ^^ n) s s'" and "room (2 * n) s"
  shows "same_side tls s s'"
  using run_apart [OF assms(1), of 0] assms(2) by simp

text \<open>A thread inside \<^verbatim>\<open>SSL_read\<close> runs a whole \<^verbatim>\<open>read\<close> on the same descriptor.\<close>

theorem tls_and_plain_apart_witness:
  "bpf_map_lookup_elem (active_reads
     (sys_exit_read (plain_env 0x700000007 9) \<lparr>sx_ret = 20\<rparr>
       (sys_enter_read (plain_env 0x700000007 8) \<lparr>rw_fd = 3, rw_buf = 0x2000, rw_size = 99\<rparr>
         ((one_connection 3 7 5)\<lparr>active_reads :=
            [(0x8000000700000007, \<lparr>ra_fd = 3, ra_buf = 0x1000, ra_ret = 0, ra_iovlen = 0\<rparr>)]\<rparr>))))
     0x8000000700000007 = Some \<lparr>ra_fd = 3, ra_buf = 0x1000, ra_ret = 0, ra_iovlen = 0\<rparr>"
proof -
  let ?i = "0x8000000700000007 :: u64"
  let ?s = "(one_connection 3 7 5)\<lparr>active_reads := [(?i, \<lparr>ra_fd = 3, ra_buf = 0x1000, ra_ret = 0, ra_iovlen = 0\<rparr>)]\<rparr>"
  let ?rw = "\<lparr>rw_fd = 3, rw_buf = 0x2000, rw_size = 99\<rparr>" and ?x = "\<lparr>sx_ret = 20\<rparr>"
  let ?t = "sys_enter_read (plain_env 0x700000007 8) ?rw ?s"
  have env: "calm_l7 (plain_env 0x700000007 t) \<and> \<not> bit (env_pid_tgid (plain_env 0x700000007 t)) 63" for t
    by (simp add: plain_env_def calm_l7_def calm_def bit_iff_odd_drop_bit drop_bit_eq_div)
  have "side_step False ?s ?t"
    by (rule side_step.plain [of "\<lambda>_. plain_env 0x700000007 8" _ ?rw ?x, OF env]) (simp add: plain_probes_def)
  moreover have "side_step False ?t (sys_exit_read (plain_env 0x700000007 9) ?x ?t)"
    by (rule side_step.plain [of "\<lambda>_. plain_env 0x700000007 9" _ ?rw ?x, OF env]) (simp add: plain_probes_def)
  ultimately have "((side_step (\<not> True)) ^^ 2) ?s (sys_exit_read (plain_env 0x700000007 9) ?x ?t)"
    by (auto simp: numeral_2_eq_2)
  then have "same_side True ?s (sys_exit_read (plain_env 0x700000007 9) ?x ?t)"
    by (rule tls_and_plain_apart) (simp add: room_def one_connection_def)
  moreover have "bit ?i 63" by (simp add: bit_iff_odd_drop_bit drop_bit_eq_div)
  ultimately show ?thesis by (simp add: same_side_def bpf_map_lookup_elem_def)
qed

end
