(* ===== verification/Tls_Exchange.thy ===== *)
theory Tls_Exchange
  imports Tls_Apart
begin

unbundle bit_operations_syntax

text \<open>
  An HTTP exchange over OpenSSL. The library's calls see the plain text; below them the same thread
  or others write and read the encrypted records on the same descriptor, and the probes of those
  system calls run as well. The theory puts together the exchange of \<open>L7_Exchange\<close> and the
  separation of \<open>Tls_Apart\<close>.
\<close>

section \<open>System calls leave the connections known\<close>

definition same_start :: "'a l7_maps_scheme \<Rightarrow> 'a l7_maps_scheme \<Rightarrow> bool" where
  "same_start s s' \<longleftrightarrow> (\<forall>cid. map_option c_timestamp (bpf_map_lookup_elem (active_connections s') cid) =
     map_option c_timestamp (bpf_map_lookup_elem (active_connections s) cid))"

lemma same_start_refl [simp]: "same_start s s" by (simp add: same_start_def)

lemma same_start_trans: "same_start s s' \<Longrightarrow> same_start s' s'' \<Longrightarrow> same_start s s''"
  by (simp add: same_start_def)

lemma same_start_counted:
  "counted cid (active_connections s) (active_connections s') \<Longrightarrow> same_start s s'"
  by (auto simp: counted_def same_start_def hash.lookup_modify option.map_comp o_def)

lemma same_start_handlers [simp]:
  "same_start s (trace_enter_write env fd is_tls buf sz iovlen s)"
  "same_start s (trace_enter_read env i pid fd buf ret iovlen s)"
  "same_start s (trace_exit_read env i pid is_tls ret s)"
proof -
  show "same_start s (trace_enter_write env fd is_tls buf sz iovlen s)"
    using enter_write_frame [of s env fd is_tls buf sz iovlen] by (blast intro: same_start_counted)
  show "same_start s (trace_enter_read env i pid fd buf ret iovlen s)"
    by (simp add: trace_enter_read_def same_start_def Let_def split: option.split)
  show "same_start s (trace_exit_read env i pid is_tls ret s)"
  proof (cases "bpf_map_lookup_elem (active_reads s) i")
    case None
    then show ?thesis by (simp add: trace_exit_read_def)
  next
    case (Some args)
    then show ?thesis using exit_read_frame [OF Some refl refl] by (blast intro: same_start_counted)
  qed
qed

lemma same_start_sendmmsg: "same_start s (sendmmsg_loop env ctx n i offset s)"
proof (induction n arbitrary: i offset s)
  case (Suc n)
  show ?case
    by (auto simp: Let_def split: option.split intro: same_start_trans [OF _ Suc.IH])
qed simp

lemma same_start_step: "side_step False s s' \<Longrightarrow> same_start s s'"
  by (erule side_stepE)
    (auto simp: plain_probes_def syscall_defs Let_def same_start_sendmmsg simp del: sendmmsg_loop.simps split: option.split)

lemma same_start_run: "((side_step False) ^^ n) s s' \<Longrightarrow> same_start s s'"
proof (induction n arbitrary: s')
  case (Suc n)
  then show ?case by (auto intro: same_start_trans same_start_step)
qed simp

section \<open>The exchange\<close>

text \<open>What a run of system calls keeps of an exchange of the library.\<close>

lemma run_keeps_tls:
  assumes "((side_step False) ^^ n) s s'" and "room (2 * n + m) s"
  shows "bpf_map_lookup_elem (active_l7_requests s') (plain_key cid 1) = bpf_map_lookup_elem (active_l7_requests s) (plain_key cid 1)"
    and "bit i 63 \<Longrightarrow> bpf_map_lookup_elem (active_reads s') i = bpf_map_lookup_elem (active_reads s) i"
    and "room m s'" and "bpf_map_lookup_elem (active_connections s) cid = Some c \<Longrightarrow>
      \<exists>c'. bpf_map_lookup_elem (active_connections s') cid = Some c' \<and> c_timestamp c' = c_timestamp c"
proof -
  have "same_side True s s' \<and> room m s'" using run_apart [where tls = True] assms by simp
  then show "bpf_map_lookup_elem (active_l7_requests s') (plain_key cid 1) = bpf_map_lookup_elem (active_l7_requests s) (plain_key cid 1)"
    "bit i 63 \<Longrightarrow> bpf_map_lookup_elem (active_reads s') i = bpf_map_lookup_elem (active_reads s) i" "room m s'"
    by (simp_all add: same_side_def plain_key_def)
  show "\<exists>c'. bpf_map_lookup_elem (active_connections s') cid = Some c' \<and> c_timestamp c' = c_timestamp c"
    if "bpf_map_lookup_elem (active_connections s) cid = Some c"
    using same_start_run [OF assms(1)] that by (auto simp: same_start_def dest!: spec [of _ cid])
qed

text \<open>
  C3. An HTTP exchange over OpenSSL is reported although it is encrypted. A thread calls
  \<^verbatim>\<open>SSL_write\<close> with a request on a connection of which the library's structures name the descriptor;
  then any system calls run, on this descriptor or others, in this thread or others; a thread of the
  same process calls \<^verbatim>\<open>SSL_read\<close>; again any system calls run; the call returns a response. One event
  is appended, with the connection's start, the response's status, the time from the write to the
  return of the read and the first 1023 bytes of the request in plain text; nothing of the library
  stays pending. For each of the three layouts of the structures, and as long as nothing is evicted.
\<close>

theorem tls_exchange_reported:
  fixes s :: "'a l7_maps_scheme"
  assumes conn: "bpf_map_lookup_elem (active_connections s) cid = Some conn" "cid = cid_at env1 (ucast fd)"
    and none: "bpf_map_lookup_elem (active_l7_requests s) (plain_key cid 1) = None"
    and room: "room (2 * n + 2 * k + 2) s" and calm: "calm_l7 env1" "calm_l7 env2"
    and fd1: "GET_FD (kmem env1 s) ctx1 bio wbio = Some fd" and len: "PT_REGS_PARM3 ctx1 = of_nat (length bs)"
    and bs: "holds_at (kmem env1 s) (PT_REGS_PARM2 ctx1) bs" "is_http_request (kmem env1 s) (PT_REGS_PARM2 ctx1)"
      "0 < length bs" "length bs < 2 ^ 64"
    and w: "w = WRITE_ENTER env1 ctx1 bio s" and s1: "((side_step False) ^^ n) w s1"
    and pid: "pid_of (env_pid_tgid env2) = pid_of (env_pid_tgid env1)"
    and fd2: "GET_FD (kmem env2 s1) ctx2 bio rbio = Some fd"
    and r: "r = READ_ENTER env2 ctx2 bio s1" and s2: "((side_step False) ^^ k) r s2"
    and id: "env_pid_tgid env3 = env_pid_tgid env2" and ret: "0 <s (scast (ucast (PT_REGS_RC ctx3) :: s32) :: s64)"
    and resp: "is_http_response (kmem env3 s2) (PT_REGS_PARM2 ctx2) 0 = (True, st)"
    and s3: "s3 = openssl_SSL_read_exit env3 ctx3 s2"
  shows "(\<exists>e. l7_events s3 = l7_events s2 @ [e] \<and> event_of cid e \<and>
      ev_connection_timestamp e = c_timestamp conn \<and> ev_protocol e = PROTOCOL_HTTP \<and> ev_status e = st \<and>
      ev_duration e = env_ktime env3 - env_ktime env1 \<and> ev_payload_size e = of_nat (length bs) \<and>
      prefix (take 1023 bs) (ev_payload e)) \<and>
    bpf_map_lookup_elem (active_l7_requests s3) (plain_key cid 1) = None \<and>
    bpf_map_lookup_elem (active_reads s3) (env_pid_tgid env3 OR IS_TLS_READ_ID) = None"
proof -
  let ?i = "env_pid_tgid env2 OR IS_TLS_READ_ID" and ?rbuf = "PT_REGS_PARM2 ctx2"
  let ?args = "\<lparr>ra_fd = ucast fd, ra_buf = ?rbuf, ra_ret = 0, ra_iovlen = 0\<rparr>"
  have w': "w = trace_enter_write env1 (ucast fd) 1 (PT_REGS_PARM2 ctx1) (of_nat (length bs)) 0 s"
    by (simp add: w WRITE_ENTER_def fd1 len)
  have rm: "room (Suc (2 * n + (2 * k + 1))) s" using room by (simp add: room_def)
  note wr = write_http [OF conn(1) [unfolded conn(2)] none [unfolded conn(2)] rm calm(1) bs w', folded conn(2)]
  obtain req where req: "bpf_map_lookup_elem (active_l7_requests w) (plain_key cid 1) = Some req"
    "pending_http (env_ktime env1) bs req" using wr(1) by blast
  note k1 = run_keeps_tls [OF s1 wr(4)]
  obtain c1 where c1: "bpf_map_lookup_elem (active_connections s1) cid = Some c1" "c_timestamp c1 = c_timestamp conn"
    using k1(4) [of cid] wr(2) by auto
  have cid: "cid = \<lparr>cid_fd = ucast fd, cid_pid = pid_of (env_pid_tgid env2)\<rparr>" using conn(2) pid by simp
  have r': "r = trace_enter_read env2 ?i (pid_of (env_pid_tgid env2)) (ucast fd) ?rbuf 0 0 s1"
    by (simp add: r READ_ENTER_def fd2 Let_def)
  have k2: "keeps cid {} s1 r" "room (2 * k + 0) r"
    using keeps_read_enter [OF _ calm(2) _ r', of "2 * k" "{}" cid] k1(3) by simp_all
  have rd: "bpf_map_lookup_elem (active_reads r) ?i = Some ?args"
    using enter_read_effect [OF _ r'] c1(1) cid by simp
  note k3 = run_keeps_tls [OF s2 k2(2)]
  have "bpf_map_lookup_elem (active_connections r) cid = Some c1" using k2(1) c1(1) by (simp add: keeps_def)
  then obtain c2 where c2: "bpf_map_lookup_elem (active_connections s2) cid = Some c2" "c_timestamp c2 = c_timestamp conn"
    using k3(4) [of cid] c1(2) by auto
  have "\<lparr>cid_fd = k_fd (plain_key cid 1), cid_pid = k_pid (plain_key cid 1)\<rparr> = cid" by (simp add: plain_key_def)
  then have q2: "bpf_map_lookup_elem (active_l7_requests s2) (plain_key cid 1) = Some req"
    using k1(1) [of cid] k3(1) [of cid] k2(1) req(1) by (simp add: keeps_def)
  have rd2: "bpf_map_lookup_elem (active_reads s2) ?i = Some ?args" using k3(2) [of ?i] rd by simp
  have s3': "s3 = trace_exit_read env3 ?i (pid_of (env_pid_tgid env2)) 1 (scast (ucast (PT_REGS_RC ctx3) :: s32)) s2"
    by (simp add: s3 openssl_SSL_read_exit_def id Let_def)
  note fin = read_http [OF rd2 cid c2(1) q2 req(2) bs(4) ret resp s3']
  have "bpf_map_lookup_elem (active_reads s3) (env_pid_tgid env3 OR IS_TLS_READ_ID) = None"
    using exit_read_frame [OF rd2 refl s3'] id by (simp add: hash.lookup_delete)
  then show ?thesis using fin(1,2) c2(2) by simp
qed

text \<open>
  Memory from \<^verbatim>\<open>0x1000\<close> on with a \<^verbatim>\<open>struct ssl_st\<close>, a \<^verbatim>\<open>struct bio_st\<close> for descriptor 3 and a plain text.
\<close>

definition ssl_image :: "u8 list \<Rightarrow> u8 list" where
  "ssl_image bs = (replicate 16 0 @ le_bytes 8 (0x1020 :: u64) @ le_bytes 8 (0x1020 :: u64) @
     replicate 40 0 @ [3, 0, 0, 0, 0, 0, 0, 0]) @ bs"

definition ssl_call :: "u64 \<Rightarrow> pt_regs" where
  "ssl_call n = zero_regs\<lparr>di := 0x1000, si := 0x1050, dx := n\<rparr>"

lemma ssl_image_fd:
  assumes "holds_at m 0x1000 (ssl_image bs)"
  shows "GET_FD m (ssl_call n) bio_st rbio = Some 3" and "GET_FD m (ssl_call n) bio_st wbio = Some 3"
    and "holds_at m 0x1050 bs"
proof -
  have "bpf_probe_read m 32 0x1000 = Some (take 32 (ssl_image bs))"
    using bpf_probe_read_holds0 [OF assms, of 32] by (simp add: ssl_image_def)
  moreover have "bpf_probe_read m 48 0x1020 = Some (field_at 32 48 (ssl_image bs))"
    using bpf_probe_read_holds [OF assms, of 32 48] by (simp add: ssl_image_def)
  ultimately show "GET_FD m (ssl_call n) bio_st rbio = Some 3" "GET_FD m (ssl_call n) bio_st wbio = Some 3"
    by (simp_all add: GET_FD_def ssl_call_def pt_regs_defs ssl_st_of_def ssl_image_def field_at_def zero_regs_def Let_def
        del: bpf_probe_read.simps)
  show "holds_at m 0x1050 bs"
    using bpf_probe_read_holds [OF assms, of 80 "length bs"] by (simp add: ssl_image_def holds_at_def field_at_def)
qed

lemma plain_calls_step:
  assumes "rw = \<lparr>rw_fd = 3, rw_buf = 0x9000, rw_size = 50\<rparr>"
  shows "side_step False s (sys_enter_write (plain_env 0x700000008 t) rw s)"
    and "side_step False s (sys_enter_read (plain_env 0x700000008 t) rw s)"
proof -
  have env: "calm_l7 (plain_env 0x700000008 t) \<and> \<not> bit (env_pid_tgid (plain_env 0x700000008 t)) 63"
    by (simp add: plain_env_def calm_l7_def calm_def bit_iff_odd_drop_bit drop_bit_eq_div)
  note st = side_step.plain [of "\<lambda>_. plain_env 0x700000008 t" _ rw "\<lparr>sx_ret = 0\<rparr>", OF env]
  show "side_step False s (sys_enter_write (plain_env 0x700000008 t) rw s)"
    "side_step False s (sys_enter_read (plain_env 0x700000008 t) rw s)"
    by (rule st, simp add: plain_probes_def)+
qed

lemma calls_keep_buffer:
  "iovec_buf_heap (sys_enter_write env ctx s) = iovec_buf_heap s"
  "iovec_buf_heap (sys_enter_read env ctx s) = iovec_buf_heap s"
  "iovec_buf_heap (WRITE_ENTER env regs bio s) = iovec_buf_heap s"
  "iovec_buf_heap (READ_ENTER env regs bio s) = iovec_buf_heap s"
  by (simp_all add: sys_enter_write_def plain_write_buffer sys_enter_read_def trace_enter_read_def WRITE_ENTER_def
      READ_ENTER_def Let_def split: option.split)

text \<open>The encrypted request is written and the encrypted response awaited on the same descriptor.\<close>

theorem tls_exchange_reported_witness:
  "\<exists>w s1 r s2. w = WRITE_ENTER (env_with 0x700000008 10 (ssl_image sample_request)) (ssl_call 24) bio_st (one_connection 3 7 5) \<and>
     s1 = sys_enter_write (plain_env 0x700000008 11) \<lparr>rw_fd = 3, rw_buf = 0x9000, rw_size = 50\<rparr> w \<and>
     r = READ_ENTER (env_with 0x700000008 12 (ssl_image [])) (ssl_call 100) bio_st s1 \<and>
     s2 = sys_enter_read (plain_env 0x700000008 13) \<lparr>rw_fd = 3, rw_buf = 0x9000, rw_size = 50\<rparr> r \<and>
     (\<exists>e. l7_events (openssl_SSL_read_exit (env_with 0x700000008 42 (ssl_image sample_response)) (zero_regs\<lparr>ax := 22\<rparr>) s2) =
        l7_events s2 @ [e] \<and> ev_status e = 404 \<and> ev_duration e = 32 \<and> ev_connection_timestamp e = 5)"
proof -
  let ?cid = "\<lparr>cid_fd = 3, cid_pid = 7\<rparr>" and ?s = "one_connection 3 7 5" and ?rw = "\<lparr>rw_fd = 3, rw_buf = 0x9000, rw_size = 50\<rparr>"
  let ?env1 = "env_with 0x700000008 10 (ssl_image sample_request)" and ?env2 = "env_with 0x700000008 12 (ssl_image [])"
  let ?env3 = "env_with 0x700000008 42 (ssl_image sample_response)" and ?ctx3 = "zero_regs\<lparr>ax := 22\<rparr>"
  define w where "w = WRITE_ENTER ?env1 (ssl_call 24) bio_st ?s"
  define s1 where "s1 = sys_enter_write (plain_env 0x700000008 11) ?rw w"
  define r where "r = READ_ENTER ?env2 (ssl_call 100) bio_st s1"
  define s2 where "s2 = sys_enter_read (plain_env 0x700000008 13) ?rw r"
  have buf: "iovec_buf_heap ?s c = replicate 2048 0" "iovec_buf_heap s1 = iovec_buf_heap ?s"
    "iovec_buf_heap s2 = iovec_buf_heap ?s" for c
    by (simp_all add: w_def s1_def r_def s2_def calls_keep_buffer one_connection_def)
  have len: "length sample_request = 24" "length sample_response = 22" "length (ssl_image bs) = 80 + length bs" for bs
    by (simp_all add: sample_request_def sample_response_def ascii_def ssl_image_def)
  have h1: "holds_at (kmem ?env1 ?s) 0x1000 (ssl_image sample_request)"
    and h2: "holds_at (kmem ?env2 s1) 0x1000 (ssl_image [])"
    and h3: "holds_at (kmem ?env3 s2) 0x1000 (ssl_image sample_response)"
    by (rule kmem_env_with; simp add: buf len)+
  note i1 = ssl_image_fd [OF h1] and i2 = ssl_image_fd [OF h2] and i3 = ssl_image_fd [OF h3]
  have rq: "is_http_request (kmem ?env1 ?s) 0x1050"
    using read_str_16(1) [OF i1(3)] by (simp add: is_http_request_def sample_request_def ascii_def)
  have rs: "is_http_response (kmem ?env3 s2) 0x1050 0 = (True, 404)"
    using read_str_16(1) [OF i3(3)] by (simp add: is_http_response_def sample_response_def ascii_def digit_def)
  have regs: "PT_REGS_PARM2 (ssl_call n) = 0x1050" "PT_REGS_PARM3 (ssl_call n) = n" "PT_REGS_RC ?ctx3 = 22" for n
    by (simp_all add: ssl_call_def pt_regs_defs zero_regs_def)
  have st: "((side_step False) ^^ 1) w s1" "((side_step False) ^^ 1) r s2"
    unfolding s1_def s2_def relpowp_1 by (rule plain_calls_step, rule refl)+
  have "\<exists>e. l7_events (openssl_SSL_read_exit ?env3 ?ctx3 s2) = l7_events s2 @ [e] \<and> event_of ?cid e \<and>
      ev_connection_timestamp e = c_timestamp \<lparr>c_timestamp = 5, c_bytes_sent = 0, c_bytes_received = 0\<rparr> \<and>
      ev_protocol e = PROTOCOL_HTTP \<and> ev_status e = 404 \<and> ev_duration e = env_ktime ?env3 - env_ktime ?env1 \<and>
      ev_payload_size e = of_nat (length sample_request) \<and> prefix (take 1023 sample_request) (ev_payload e)"
    by (rule tls_exchange_reported [where s = ?s and fd = 3 and bio = bio_st and ?ctx1.0 = "ssl_call 24"
        and ?ctx2.0 = "ssl_call 100" and ?ctx3.0 = ?ctx3, unfolded regs,
        OF _ _ _ _ _ _ i1(2) _ i1(3) rq _ _ w_def st(1) _ i2(1) r_def st(2) _ _ rs refl, THEN conjunct1])
      (simp_all add: one_connection_def bpf_map_lookup_elem_def env_with_def plain_env_def pid_of_def room_def
        calm_l7_def calm_def len word_sless_alt)
  then have "\<exists>e. l7_events (openssl_SSL_read_exit ?env3 ?ctx3 s2) = l7_events s2 @ [e] \<and> ev_status e = 404 \<and>
      ev_duration e = 32 \<and> ev_connection_timestamp e = 5"
    by (auto simp: env_with_def plain_env_def)
  then show ?thesis using w_def s1_def r_def s2_def by blast
qed

end
