(* ===== verification/Traffic.thy ===== *)
theory Traffic
  imports Tls_Apart
begin

text \<open>
  The byte counters of a connection, kept by \<^verbatim>\<open>l7/l7.c\<close> and reported by \<^verbatim>\<open>tcp/state.c\<close> when the
  descriptor is closed. The theory has a ledger that is computed from the sequence of the system
  calls alone, and shows that the counters follow it.
\<close>

section \<open>The ledger\<close>

text \<open>Which descriptor a thread is reading from, and what a call adds to a connection's totals.\<close>

fun in_progress :: "(u64 \<rightharpoonup> u64) \<Rightarrow> l7_trace \<Rightarrow> (u64 \<rightharpoonup> u64)" where
  "in_progress r (ReadEnter env i pid fd buf ret iovlen) = r(i \<mapsto> fd)"
| "in_progress r (ReadExit env i pid is_tls ret) = r(i := None)"
| "in_progress r (Write env fd is_tls buf sz iovlen) = r"
| "in_progress r (Tcp x) = r"

fun bytes_sent :: "connection_id \<Rightarrow> l7_trace \<Rightarrow> u64" where
  "bytes_sent cid (Write env fd is_tls buf sz iovlen) = (if cid_at env fd = cid \<and> is_tls = 0 then sz else 0)"
| "bytes_sent cid _ = 0"

fun bytes_received :: "connection_id \<Rightarrow> (u64 \<rightharpoonup> u64) \<Rightarrow> l7_trace \<Rightarrow> u64" where
  "bytes_received cid r (ReadExit env i pid is_tls ret) =
     (if is_tls = 0 \<and> 0 <s ret \<and> map_option (\<lambda>fd. \<lparr>cid_fd = fd, cid_pid = pid\<rparr>) (r i) = Some cid then ret else 0)"
| "bytes_received cid r _ = 0"

fun totals :: "connection_id \<Rightarrow> (u64 \<rightharpoonup> u64) \<Rightarrow> l7_trace list \<Rightarrow> u64 \<times> u64" where
  "totals cid r [] = (0, 0)"
| "totals cid r (x # xs) =
     (let (a, b) = totals cid (in_progress r x) xs in (bytes_sent cid x + a, bytes_received cid r x + b))"

text \<open>
  The calls the ledger covers: a thread has one read at a time, reads of the TLS libraries have
  the top bit and the TLS flag, the plain calls of the connection are not vectored, and its socket
  does not change its state. Calls of other connections are arbitrary.
\<close>

fun accounts :: "connection_id \<Rightarrow> (u64 \<rightharpoonup> u64) \<Rightarrow> l7_trace \<Rightarrow> 'a l7_maps_scheme \<Rightarrow> bool" where
  "accounts cid r (Tcp x) s \<longleftrightarrow> apart_tcp cid x s"
| "accounts cid r (Write env fd is_tls buf sz iovlen) s \<longleftrightarrow> cid_at env fd = cid \<longrightarrow> is_tls \<noteq> 0 \<or> iovlen = 0"
| "accounts cid r (ReadEnter env i pid fd buf ret iovlen) s \<longleftrightarrow> bit i 63 \<or>
     pid = pid_of i \<and> r i = None \<and> (\<lparr>cid_fd = fd, cid_pid = pid\<rparr> = cid \<longrightarrow> ret = 0 \<and> iovlen = 0)"
| "accounts cid r (ReadExit env i pid is_tls ret) s \<longleftrightarrow> bit i 63 = (is_tls \<noteq> 0) \<and> (is_tls = 0 \<longrightarrow> pid = pid_of i)"

fun accounts_run :: "connection_id \<Rightarrow> (u64 \<rightharpoonup> u64) \<Rightarrow> l7_trace list \<Rightarrow> 'a l7_maps_scheme \<Rightarrow> bool" where
  "accounts_run cid r [] s \<longleftrightarrow> True"
| "accounts_run cid r (x # xs) s \<longleftrightarrow>
     calm_l7 (l7_trace_env x) \<and> accounts cid r x s \<and> accounts_run cid (in_progress r x) xs (l7_step x s)"

section \<open>The counters follow the ledger\<close>

text \<open>What the ledger and the map say about a thread.\<close>

fun agrees :: "connection_id \<Rightarrow> u64 \<Rightarrow> u64 option \<Rightarrow> read_args option \<Rightarrow> bool" where
  "agrees cid i fd None \<longleftrightarrow> map_option (\<lambda>fd. \<lparr>cid_fd = fd, cid_pid = pid_of i\<rparr>) fd \<noteq> Some cid"
| "agrees cid i fd (Some args) \<longleftrightarrow> fd = Some (ra_fd args) \<and>
     (\<lparr>cid_fd = ra_fd args, cid_pid = pid_of i\<rparr> = cid \<longrightarrow> ra_ret args = 0 \<and> ra_iovlen args = 0)"

definition tracks :: "connection_id \<Rightarrow> (u64 \<rightharpoonup> u64) \<Rightarrow> (u64, read_args) bpf_map \<Rightarrow> bool" where
  "tracks cid r m \<longleftrightarrow> (\<forall>i. \<not> bit i 63 \<longrightarrow> agrees cid i (r i) (bpf_map_lookup_elem m i))"

lemma tracks_update:
  assumes "tracks cid r m" and "\<And>j. j \<noteq> i \<Longrightarrow> bpf_map_lookup_elem m' j = bpf_map_lookup_elem m j"
    and "\<not> bit i 63 \<Longrightarrow> agrees cid i x (bpf_map_lookup_elem m' i)"
  shows "tracks cid (r(i := x)) m'"
  using assms by (simp add: tracks_def)

definition more_traffic :: "u64 \<Rightarrow> u64 \<Rightarrow> connection \<Rightarrow> connection" where
  "more_traffic a b c = c\<lparr>c_bytes_sent := c_bytes_sent c + a, c_bytes_received := c_bytes_received c + b\<rparr>"

lemma more_traffic_0 [simp]: "more_traffic 0 0 c = c" by (simp add: more_traffic_def)

lemma more_traffic_add [simp]: "more_traffic a b (more_traffic a' b' c) = more_traffic (a' + a) (b' + b) c"
  by (simp add: more_traffic_def add.assoc)

lemma write_counts:
  assumes "bpf_map_lookup_elem (active_connections s) (cid_at env fd) = Some c"
  shows "bpf_map_lookup_elem (active_connections (trace_enter_write env fd 0 buf sz 0 s)) (cid_at env fd) =
    Some (more_traffic sz 0 c)"
proof (cases "sz = 0")
  case True
  then show ?thesis using assms by (simp add: trace_enter_write_def write_payload_def)
next
  case False
  have "bpf_map_lookup_elem (active_connections (count_sent 0 (cid_at env fd) sz s)) (cid_at env fd) =
      Some (more_traffic sz 0 c)"
    using assms by (simp add: count_sent_def hash.lookup_modify more_traffic_def)
  then show ?thesis
    by (simp add: enter_write_cases [OF assms False] Let_def put_request_def write_event_frame
        split: write_outcome.split prod.split)
qed

lemma read_counts:
  fixes s :: "'a l7_maps_scheme"
  assumes args: "bpf_map_lookup_elem (active_reads s) i = Some args" "ra_ret args = 0" "ra_iovlen args = 0"
    and cid: "cid = \<lparr>cid_fd = ra_fd args, cid_pid = pid\<rparr>"
    and conn: "bpf_map_lookup_elem (active_connections s) cid = Some c"
  shows "bpf_map_lookup_elem (active_connections (trace_exit_read env i pid 0 ret s)) cid =
    Some (more_traffic 0 (if 0 <s ret then ret else 0) c)"
proof -
  let ?s1 = "s\<lparr>active_reads := bpf_map_delete_elem (active_reads s) i\<rparr>"
  let ?k = "\<lparr>k_fd = cid_fd cid, k_pid = cid_pid cid, k_is_tls = 0, k_stream_id = -1\<rparr>"
  have pay: "exit_read_payload env args ret ?s1 = (if 0 <s ret then Inr (ra_buf args, ret, ret, ?s1) else Inl ?s1)"
    using args(2,3) by (auto simp: exit_read_payload_def word_sless_alt word_sle_eq)
  have match: "active_connections (match_read env cid c ?k buf n tsz e t) = active_connections t" for buf n tsz e t
    using match_read_frame [of ?k cid "match_read env cid c ?k buf n tsz e t" env c buf n tsz e t] by simp
  have "bpf_map_lookup_elem (active_connections (count_received 0 cid ret ?s1)) cid = Some (more_traffic 0 ret c)"
    using conn by (simp add: count_received_def hash.lookup_modify more_traffic_def)
  then show ?thesis
    unfolding exit_read_cases [OF args(1) conn cid refl] pay
    using conn by (simp add: Let_def match, simp add: put_defs Let_def)
qed

text \<open>One call: the ledger is kept, the counters grow as it says.\<close>

definition follows :: "connection_id \<Rightarrow> (u64 \<rightharpoonup> u64) \<Rightarrow> connection \<Rightarrow> 'a l7_maps_scheme \<Rightarrow> bool" where
  "follows cid r c s \<longleftrightarrow> tracks cid r (active_reads s) \<and> bpf_map_lookup_elem (active_connections s) cid = Some c"

lemma follows_keeps:
  "follows cid r c s \<Longrightarrow> keeps cid UNIV s s' \<Longrightarrow> follows cid r c s'"
  by (simp add: follows_def keeps_def tracks_def)

lemma follows_write:
  assumes "follows cid r c s" and "room (Suc n) s" and "calm_l7 env"
    and "accounts cid r (Write env fd is_tls buf sz iovlen) s" and s': "s' = trace_enter_write env fd is_tls buf sz iovlen s"
  shows "follows cid r (more_traffic (bytes_sent cid (Write env fd is_tls buf sz iovlen)) 0 c) s' \<and> room n s'"
proof (cases "cid_at env fd = cid")
  case False
  then show ?thesis
    using keeps_write [OF assms(2,3) _ s', where R = UNIV and cid = cid] follows_keeps [OF assms(1)] by simp
next
  case True
  have "active_reads s' = active_reads s" using enter_write_frame [of s env fd is_tls buf sz iovlen] s' by simp
  moreover have "room n s'" using write_same_side [OF assms(2,3) _ s', where tls = "is_tls = 0"] by simp
  moreover have "is_tls \<noteq> 0 \<Longrightarrow> active_connections s' = active_connections s"
    using enter_write_side [of env is_tls s fd buf sz iovlen] s' by simp
  ultimately show ?thesis
    using assms(1,4) True write_counts [of s fd env c buf sz] s' by (auto simp: follows_def)
qed

lemma follows_read_enter:
  assumes "follows cid r c s" and "room (Suc n) s" and "calm_l7 env"
    and "accounts cid r (ReadEnter env i pid fd buf ret iovlen) s" and s': "s' = trace_enter_read env i pid fd buf ret iovlen s"
  shows "follows cid (r(i \<mapsto> fd)) c s' \<and> room n s'"
proof -
  have "room n s'" using read_enter_same_side [OF assms(2,3) _ s', where tls = "\<not> bit i 63"] by simp
  moreover have conns: "active_connections s' = active_connections s"
    using s' by (simp add: trace_enter_read_def Let_def split: option.splits)
  moreover have "tracks cid (r(i \<mapsto> fd)) (active_reads s')"
  proof (rule tracks_update)
    show "tracks cid r (active_reads s)" using assms(1) by (simp add: follows_def)
    show "bpf_map_lookup_elem (active_reads s') j = bpf_map_lookup_elem (active_reads s) j" if "j \<noteq> i" for j
      using assms(2,3) that
      by (auto simp: s' trace_enter_read_def calm_l7_def room_def split: option.split intro!: calm_update_other)
    show "agrees cid i (Some fd) (bpf_map_lookup_elem (active_reads s') i)" if "\<not> bit i 63"
    proof (cases "bpf_map_lookup_elem (active_connections s) \<lparr>cid_fd = fd, cid_pid = pid\<rparr>")
      case None
      have "agrees cid i None (bpf_map_lookup_elem (active_reads s) i)"
        using assms(1,4) that by (auto simp: follows_def tracks_def)
      then have "bpf_map_lookup_elem (active_reads s) i = None"
        by (cases "bpf_map_lookup_elem (active_reads s) i") simp_all
      then show ?thesis using None assms(1,4) that s' by (auto simp: trace_enter_read_def follows_def)
    next
      case (Some c')
      then show ?thesis using enter_read_effect [OF Some s'] assms(4) that by simp
    qed
  qed
  ultimately show ?thesis using assms(1) by (simp add: follows_def)
qed

lemma follows_read_exit:
  assumes f: "follows cid r c s" and "room (Suc n) s"
    and acc: "accounts cid r (ReadExit env i pid is_tls ret) s" and s': "s' = trace_exit_read env i pid is_tls ret s"
  shows "follows cid (r(i := None)) (more_traffic 0 (bytes_received cid r (ReadExit env i pid is_tls ret)) c) s' \<and> room n s'"
proof (cases "bpf_map_lookup_elem (active_reads s) i")
  case None
  then have "s' = s" using s' by (simp add: trace_exit_read_def)
  moreover have "tracks cid (r(i := None)) (active_reads s)"
    by (rule tracks_update [where m = "active_reads s"]) (use f None in \<open>simp_all add: follows_def\<close>)
  moreover have "bytes_received cid r (ReadExit env i pid is_tls ret) = 0"
    using f acc None by (auto simp: follows_def tracks_def)
  ultimately show ?thesis using f room_less [OF assms(2)] by (simp add: follows_def)
next
  case (Some args)
  let ?cid = "\<lparr>cid_fd = ra_fd args, cid_pid = pid\<rparr>"
  note fr = exit_read_frame [OF Some refl s']
  have "room n s'" using read_exit_same_side [OF assms(2) _ _ s', where tls = "is_tls = 0"] acc by auto
  moreover have "tracks cid (r(i := None)) (active_reads s')"
    by (rule tracks_update [where m = "active_reads s"]) (use f fr in \<open>simp_all add: follows_def hash.lookup_delete\<close>)
  moreover have "bpf_map_lookup_elem (active_connections s') cid =
      Some (more_traffic 0 (bytes_received cid r (ReadExit env i pid is_tls ret)) c)"
  proof (cases "is_tls = 0")
    case False
    then show ?thesis using exit_read_side [OF Some s'] f by (simp add: follows_def)
  next
    case plain: True
    then have ag: "agrees cid i (r i) (Some args)" and pid: "pid = pid_of i"
      using f acc Some by (auto simp: follows_def tracks_def)
    show ?thesis
    proof (cases "?cid = cid")
      case True
      then show ?thesis
        using read_counts [OF Some _ _ True [symmetric], of c env ret] f ag pid plain s' by (auto simp: follows_def)
    next
      case False
      then show ?thesis using fr counted_other [of ?cid _ _ cid] f ag pid by (auto simp: follows_def)
    qed
  qed
  ultimately show ?thesis by (simp add: follows_def)
qed

lemma follows_step:
  assumes f: "follows cid r c s" and "room (Suc n) s" and "calm_l7 (l7_trace_env x)" and acc: "accounts cid r x s"
  shows "follows cid (in_progress r x) (more_traffic (bytes_sent cid x) (bytes_received cid r x) c) (l7_step x s) \<and>
    room n (l7_step x s)"
proof (cases x)
  case (Tcp y)
  then show ?thesis using keeps_tcp [OF assms(2), of y cid UNIV] follows_keeps [OF f] assms(3) acc by simp
next
  case (Write env fd is_tls buf sz iovlen)
  then show ?thesis using follows_write [OF f assms(2) _ _ refl] assms(3) acc by (simp del: accounts.simps bytes_sent.simps)
next
  case (ReadEnter env i pid fd buf ret iovlen)
  then show ?thesis using follows_read_enter [OF f assms(2) _ _ refl] assms(3) acc by (simp del: accounts.simps)
next
  case (ReadExit env i pid is_tls ret)
  then show ?thesis
    using follows_read_exit [OF f assms(2) _ refl] acc by (simp del: accounts.simps bytes_received.simps)
qed

lemma follows_run:
  "follows cid r c s \<Longrightarrow> room (length xs) s \<Longrightarrow> accounts_run cid r xs s \<Longrightarrow> totals cid r xs = (a, b) \<Longrightarrow>
   bpf_map_lookup_elem (active_connections (fold l7_step xs s)) cid = Some (more_traffic a b c)"
proof (induction xs arbitrary: r c s a b)
  case (Cons x xs)
  obtain a' b' where t: "totals cid (in_progress r x) xs = (a', b')" by (cases "totals cid (in_progress r x) xs")
  have st: "follows cid (in_progress r x) (more_traffic (bytes_sent cid x) (bytes_received cid r x) c) (l7_step x s) \<and>
      room (length xs) (l7_step x s)"
    using Cons.prems by (intro follows_step) simp_all
  show ?case using Cons.IH [OF _ _ _ t] st Cons.prems t by auto
qed (simp add: follows_def)

text \<open>
  C7. The event for the close of a connection accounts for all its plain traffic. Between a state
  in which the connection is known and no read is in progress and the close of its descriptor, let
  any number of threads write to it and read from it, directly or through a TLS library, while
  any probes of other connections run. The plain calls on the connection are not vectored
  (\<^verbatim>\<open>read\<close>, \<^verbatim>\<open>write\<close>, \<^verbatim>\<open>recvfrom\<close>, \<^verbatim>\<open>sendto\<close>; for \<^verbatim>\<open>readv\<close> and \<^verbatim>\<open>recvmsg\<close> the code counts too much),
  and the kernel evicts nothing from the maps, which have room. The close appends one event, with
  the connection's start, and its counters have grown by the sum of the sizes of the plain writes
  and by the sum of the positive results of the plain reads that were started on it; the
  connection is forgotten.
\<close>

theorem close_reports_traffic:
  fixes s :: "'a l7_maps_scheme"
  assumes "bpf_map_lookup_elem (active_connections s) cid = Some conn" and "active_reads s = []"
    and "room (length xs) s" and "accounts_run cid Map.empty xs s" and "totals cid Map.empty xs = (sent, received)"
    and "s' = fold l7_step xs s" and "cid = cid_at env fd"
  shows "tcp_connect_events (sys_enter_close env (Some \<lparr>awf_fd = fd\<rparr>) s') = tcp_connect_events s' @
      [zero_tcp_event\<lparr>te_type := EVENT_TYPE_CONNECTION_CLOSE, te_pid := cid_pid cid, te_fd := cid_fd cid,
         te_bytes_sent := c_bytes_sent conn + sent, te_bytes_received := c_bytes_received conn + received,
         te_timestamp := c_timestamp conn\<rparr>] \<and>
    bpf_map_lookup_elem (active_connections (sys_enter_close env (Some \<lparr>awf_fd = fd\<rparr>) s')) cid = None"
proof -
  have "follows cid Map.empty conn s"
    using assms(1,2) by (simp add: follows_def tracks_def bpf_map_lookup_elem_def)
  from follows_run [OF this assms(3-5)]
  have "bpf_map_lookup_elem (active_connections s') (cid_at env fd) = Some (more_traffic sent received conn)"
    using assms(6,7) by simp
  then show ?thesis using assms(7) by (simp add: sys_enter_close_def Let_def more_traffic_def hash.lookup_delete)
qed

definition sample_traffic :: "l7_trace list" where
  "sample_traffic =
     [Write (plain_env 0x700000008 10) 3 0 0x1000 24 0, Write (plain_env 0x700000008 11) 3 1 0x1000 10 0,
      ReadEnter (plain_env 0x70000000A 12) 0x70000000A 7 3 0x1000 0 0,
      Tcp (EnterConnect (plain_env 0x900000009 13) (Some \<lparr>awf_fd = 3\<rparr>)),
      ReadExit (plain_env 0x70000000A 14) 0x70000000A 7 0 22]"

theorem close_reports_traffic_witness:
  "map (\<lambda>e. (te_bytes_sent e, te_bytes_received e, te_timestamp e))
     (tcp_connect_events (sys_enter_close (plain_env 0x700000008 15) (Some \<lparr>awf_fd = 3\<rparr>)
       (fold l7_step sample_traffic (one_connection 3 7 5)))) =
   map (\<lambda>e. (te_bytes_sent e, te_bytes_received e, te_timestamp e))
     (tcp_connect_events (fold l7_step sample_traffic (one_connection 3 7 5))) @ [(24, 22, 5)]"
proof -
  let ?cid = "\<lparr>cid_fd = 3, cid_pid = 7\<rparr>" and ?conn = "\<lparr>c_timestamp = 5, c_bytes_sent = 0, c_bytes_received = 0\<rparr>"
  have calm: "calm_l7 (plain_env i t)" for i t by (simp add: calm_l7_def calm_def plain_env_def)
  have id: "env_pid_tgid (plain_env i t) = i" for i t by (simp add: plain_env_def)
  have top: "\<not> bit (0x70000000A :: u64) 63" by (simp add: bit_iff_odd_drop_bit drop_bit_eq_div)
  have pids: "pid_of 0x700000008 = 7" "pid_of 0x70000000A = 7" by (simp_all add: pid_of_def)
  have "accounts_run ?cid Map.empty sample_traffic (one_connection 3 7 5)"
    unfolding sample_traffic_def by (simp add: calm top pids del: l7_step.simps)
  moreover have "totals ?cid Map.empty sample_traffic = (24, 22)"
    by (simp add: sample_traffic_def id pids word_sless_alt)
  moreover have "room (length sample_traffic) (one_connection 3 7 5)"
    by (simp add: room_def one_connection_def sample_traffic_def)
  moreover have "bpf_map_lookup_elem (active_connections (one_connection 3 7 5)) ?cid = Some ?conn"
    "active_reads (one_connection 3 7 5) = []"
    by (simp_all add: one_connection_def bpf_map_lookup_elem_def)
  ultimately show ?thesis
    by (subst close_reports_traffic [where cid = ?cid and conn = ?conn, OF _ _ _ _ _ refl, THEN conjunct1])
      (simp_all only: id pids, simp)
qed

end
