(* ===== verification/Multiplex.thy ===== *)
theory Multiplex
  imports L7_Exchange
begin

unbundle bit_operations_syntax

text \<open>
  Cassandra connections: many requests are pending on one connection and the answers come in any
  order, matched by the number of the stream. The theory has the frames on the wire, the
  multiplexer the code is meant to implement, and shows that the handlers of \<^verbatim>\<open>l7/l7.c\<close>
  implement it.
\<close>

section \<open>The frames\<close>

text \<open>
  A frame begins with the version, the flags, the stream number and the operation. A client's
  stream numbers are not negative, so the first bit of the number is clear. A request must not
  look like one of two protocols tried before: a PostgreSQL message with a sync at its end, or a
  MongoDB message.
\<close>

definition stream_of :: "u8 list \<Rightarrow> s16" where
  "stream_of bs = le_word (field_at 2 2 bs)"

definition cassandra_query :: "u8 list \<Rightarrow> bool" where
  "cassandra_query bs \<longleftrightarrow> 6 \<le> length bs \<and> length bs < 2 ^ 63 \<and> bs ! 0 = CASSANDRA_REQUEST_FRAME \<and> bs ! 2 AND 0x80 = 0 \<and>
     (bs ! 4 = CASSANDRA_OPCODE_QUERY \<or> bs ! 4 = CASSANDRA_OPCODE_EXECUTE \<or> bs ! 4 = CASSANDRA_OPCODE_BATCH) \<and>
     payload_end 5 bs \<noteq> [83, 0, 0, 0, 4] \<and>
     \<not> (field_at 8 4 bs = [0, 0, 0, 0] \<and> field_at 13 3 bs = [7, 0, 0])"

definition cassandra_answer :: "u8 list \<Rightarrow> bool" where
  "cassandra_answer bs \<longleftrightarrow> 6 \<le> length bs \<and> length bs < 2 ^ 63 \<and> bs ! 0 = CASSANDRA_RESPONSE_FRAME \<and> bs ! 2 AND 0x80 = 0 \<and>
     (bs ! 4 = CASSANDRA_OPCODE_RESULT \<or> bs ! 4 = CASSANDRA_OPCODE_ERROR)"

definition answer_status :: "u8 list \<Rightarrow> s32" where
  "answer_status bs = (if bs ! 4 = CASSANDRA_OPCODE_RESULT then STATUS_OK else STATUS_FAILED)"

lemma holds_nth: "holds_at m a bs \<Longrightarrow> i < length bs \<Longrightarrow> m (a + of_nat i) = Some (bs ! i)"
  unfolding holds_at_def by (rule bpf_probe_read_nth)

lemma first_byte:
  assumes "holds_at m a bs" and "i < length bs" and "bpf_probe_read m n a = Some b" and "i < n"
  shows "b ! i = bs ! i"
  using bpf_probe_read_nth [OF assms(3,4)] holds_nth [OF assms(1,2)] by simp

lemma first_byte_str:
  assumes "m a = Some c" and "bpf_probe_read_str m 16 a = Some b"
  shows "b ! 0 = c"
proof -
  have "bpf_probe_read_str m (Suc 15) a = Some b" using assms(2) by simp
  then show ?thesis unfolding bpf_probe_read_str.simps(2) using assms(1) by (auto split: if_splits)
qed

lemma five_bytes:
  "length en = 5 \<Longrightarrow> (en ! 0 = a \<and> en ! 1 = b \<and> en ! 2 = c \<and> en ! 3 = d \<and> en ! 4 = e) \<longleftrightarrow> en = [a, b, c, d, e]"
  by (auto simp: length_Suc_conv eval_nat_numeral)

lemma nats_unknown:
  assumes "\<And>b. bpf_probe_read m 5 a = Some b \<Longrightarrow> b ! 0 \<noteq> 72 \<and> b ! 0 \<noteq> 77 \<and> b ! 0 \<noteq> 80"
  shows "nats_method m a sz = METHOD_UNKNOWN"
proof (cases "bpf_probe_read m 5 a")
  case None
  then show ?thesis by (simp add: nats_method_def del: bpf_probe_read.simps)
next
  case (Some b)
  then show ?thesis using assms [OF Some] by (simp add: nats_method_def split: option.split del: bpf_probe_read.simps)
qed

lemma stream_not_plain:
  assumes "6 \<le> length bs" and "bs ! 2 AND 0x80 = 0"
  shows "stream_of bs \<noteq> - 1"
proof
  assume "stream_of bs = - 1"
  then have "bit (stream_of bs) 7" by simp
  then have "bit (bs ! 2) 7" using assms(1) by (simp add: stream_of_def bit_le_word field_at_def)
  moreover have "bit (0x80 :: u8) 7" by (simp add: bit_iff_odd_drop_bit drop_bit_eq_div)
  ultimately have "bit (bs ! 2 AND 0x80) 7" unfolding bit_and_iff by blast
  then show False using assms(2) by simp
qed

lemma query_no_mongo:
  assumes "holds_at m a bs" and "\<not> (field_at 8 4 bs = [0, 0, 0, 0] \<and> field_at 13 3 bs = [7, 0, 0])"
    and "length bs < 2 ^ 63"
  shows "\<not> is_mongo_query m a (of_nat (length bs))"
proof (cases "length bs < 16")
  case True
  then have "(of_nat (length bs) :: u64) < 16" by (simp add: word_less_nat_alt unat_of_nat)
  then show ?thesis by (simp add: is_mongo_query_def)
next
  case False
  then have rd: "bpf_probe_read m 16 a = Some (take 16 bs)" using bpf_probe_read_holds0 [OF assms(1), of 16] by simp
  have f: "field_at 8 4 (take 16 bs) = field_at 8 4 bs" "field_at 12 4 (take 16 bs) = bs ! 12 # field_at 13 3 bs"
    using False by (simp_all add: field_at_def take_Suc_conv_app_nth flip: Cons_nth_drop_Suc)
  show ?thesis
  proof
    assume "is_mongo_query m a (of_nat (length bs))"
    then have "(le_word (field_at 8 4 bs) :: s32) = le_word [0, 0, 0, 0]" and
      op: "(le_word (bs ! 12 # field_at 13 3 bs) :: s32) = le_word [0xDD, 7, 0, 0] \<or>
        (le_word (bs ! 12 # field_at 13 3 bs) :: s32) = le_word [0xDC, 7, 0, 0]"
      using rd by (auto simp: is_mongo_query_def mongo_header_of_def f Let_def split: if_splits simp del: bpf_probe_read.simps)
    moreover have len: "length (field_at 8 4 bs) = 4" "length (bs ! 12 # field_at 13 3 bs) = 4"
      using False by (simp_all add: field_at_def)
    ultimately have "field_at 8 4 bs = [0, 0, 0, 0]"
      "bs ! 12 # field_at 13 3 bs = [0xDD, 7, 0, 0] \<or> bs ! 12 # field_at 13 3 bs = [0xDC, 7, 0, 0]"
      using le_word_inject [where 'a = 32, of "field_at 8 4 bs" "[0, 0, 0, 0]"]
        le_word_inject [where 'a = 32, of "bs ! 12 # field_at 13 3 bs" "[0xDD, 7, 0, 0]"]
        le_word_inject [where 'a = 32, of "bs ! 12 # field_at 13 3 bs" "[0xDC, 7, 0, 0]"]
      by (simp_all del: le_word.simps) blast
    then show False using assms(2) by auto
  qed
qed

lemma query_classified:
  assumes "holds_at m a bs" and "cassandra_query bs"
  shows "\<exists>rt. classify_write m a (of_nat (length bs)) tsz active req k =
    WRequest (req\<lparr>req_request_type := rt, req_protocol := PROTOCOL_CASSANDRA\<rparr>) (k\<lparr>k_stream_id := stream_of bs\<rparr>)"
proof -
  let ?sz = "of_nat (length bs) :: u64"
  note q = assms(2) [unfolded cassandra_query_def]
  have un: "unat ?sz = length bs" using q by (simp add: unat_of_nat)
  have m0: "m a = Some 4" using holds_nth [OF assms(1), of 0] q by fastforce
  have fb: "b ! 0 = 4" if "bpf_probe_read m n a = Some b" "0 < n" for n b
    using first_byte [OF assms(1) _ that(1), of 0] that(2) q by fastforce
  have http: "\<not> is_http_request m a"
    using first_byte_str [of m a 4, OF m0] by (auto simp: is_http_request_def dest!: bpf_probe_read_str_le split: option.split)
  have pg: "\<exists>rt'. is_postgres_query m a ?sz rt = (False, rt')" for rt
  proof -
    have "bpf_probe_read m 5 (tail_addr a ?sz 5) = Some (payload_end 5 bs)"
      using read_payload_end [OF assms(1), of 5] q by simp
    moreover have "length (payload_end 5 bs) = 5" using q by (simp add: length_payload_end)
    ultimately have sync: "bpf_probe_read m 5 (tail_addr a ?sz 5) = Some en \<Longrightarrow>
        \<not> (en ! 0 = 83 \<and> en ! 1 = 0 \<and> en ! 2 = 0 \<and> en ! 3 = 0 \<and> en ! 4 = 4)" for en
      using q five_bytes [of en 83 0 0 0 4] by simp
    have cmd: "bpf_probe_read m 1 a = Some [4]" using m0 by simp
    show ?thesis
    proof (cases "bpf_probe_read m 5 (tail_addr a ?sz 5)")
      case None
      then show ?thesis unfolding is_postgres_query_def cmd None Let_def by (simp split: option.split)
    next
      case (Some en)
      then show ?thesis
        using sync [OF Some] unfolding is_postgres_query_def cmd Some Let_def by (simp split: option.split)
    qed
  qed
  have redis: "\<not> is_redis_query m a ?sz"
    using fb [of 5] by (cases "bpf_probe_read m 5 a") (simp_all add: is_redis_query_def del: bpf_probe_read.simps)
  have mc: "\<not> is_memcached_query m a ?sz"
    using fb [of 7]
    by (cases "bpf_probe_read m 7 a") (simp_all add: is_memcached_query_def del: bpf_probe_read.simps split: option.split)
  have rab: "\<not> is_rabbitmq_produce m a ?sz"
    using m0 by (simp add: is_rabbitmq_produce_def rabbitmq_method_is_def)
  have nats: "nats_method m a ?sz = METHOD_UNKNOWN" using fb [of 5] by (intro nats_unknown) simp
  have my: "is_mysql_query m a ?sz rt = (False, rt)" for rt
  proof -
    have "b ! 4 = bs ! 4" if "bpf_probe_read m 5 a = Some b" for b
      using first_byte [OF assms(1) _ that, of 4] q by simp
    then show ?thesis
      using q by (auto simp: is_mysql_query_def simp del: bpf_probe_read.simps split: option.split)
  qed
  have cas: "is_cassandra_request m a ?sz i = (True, stream_of bs)" for i
  proof -
    have "bpf_probe_read m 6 a = Some (take 6 bs)" using bpf_probe_read_holds0 [OF assms(1), of 6] q by simp
    moreover have "\<not> ?sz < 6" using q un by (simp add: word_less_nat_alt)
    moreover have "field_at 2 2 (take 6 bs) = field_at 2 2 bs" using q by (simp add: field_at_def drop_take)
    ultimately show ?thesis
      using q by (auto simp: is_cassandra_request_def cassandra_header_of_def stream_of_def Let_def
          simp del: bpf_probe_read.simps)
  qed
  obtain rt where rt: "is_postgres_query m a ?sz (req_request_type req) = (False, rt)" using pg by blast
  have "\<not> is_mongo_query m a ?sz" using query_no_mongo [OF assms(1)] q by blast
  then show ?thesis
    using http rt redis mc my rab nats cas by (intro exI [of _ rt]) (simp add: classify_write_def)
qed

lemma answer_classified:
  assumes "holds_at m a bs" and "cassandra_answer bs"
  shows "\<not> is_rabbitmq_consume m a sz" and "nats_method m a sz = METHOD_UNKNOWN"
    and "is_dns_response m a sz i st = (False, i, st)"
    and "is_cassandra_response m a (of_nat (length bs)) i st = (True, stream_of bs, answer_status bs)"
proof -
  note q = assms(2) [unfolded cassandra_answer_def]
  have fb: "b ! j = bs ! j" if "bpf_probe_read m n a = Some b" "j < n" "j < 6" for n b j
    using first_byte [OF assms(1) _ that(1,2)] that(3) q by simp
  show "\<not> is_rabbitmq_consume m a sz"
    using q fb [of 1 _ 0]
    by (simp add: is_rabbitmq_consume_def rabbitmq_method_is_def del: bpf_probe_read.simps split: option.split)
  show "nats_method m a sz = METHOD_UNKNOWN"
    using q fb [of 5 _ 0] by (intro nats_unknown) simp
  show "is_dns_response m a sz i st = (False, i, st)"
    using q fb [of 6 _ 2]
    by (auto simp: is_dns_response_def dns_header_of_def Let_def simp del: bpf_probe_read.simps split: option.split)
  have "bpf_probe_read m 6 a = Some (take 6 bs)" using bpf_probe_read_holds0 [OF assms(1), of 6] q by simp
  moreover have "\<not> (of_nat (length bs) :: u64) < 6" using q by (simp add: word_less_nat_alt unat_of_nat)
  moreover have "field_at 2 2 (take 6 bs) = field_at 2 2 bs" using q by (simp add: field_at_def drop_take)
  ultimately show "is_cassandra_response m a (of_nat (length bs)) i st = (True, stream_of bs, answer_status bs)"
    using q by (auto simp: is_cassandra_response_def cassandra_header_of_def stream_of_def answer_status_def Let_def
        simp del: bpf_probe_read.simps)
qed

section \<open>The multiplexer\<close>

text \<open>
  What happens around one connection: a thread of the process sends a request, the reading thread
  starts a read, its read ends with an answer, or a probe of another connection runs.
\<close>

datatype mux =
    Ask bpf_env u64 "u8 list"
  | Await bpf_env u64 u64
  | Answer bpf_env "u8 list"
  | Other l7_trace

fun mux_step :: "u64 \<Rightarrow> mux \<Rightarrow> 'a l7_maps_scheme \<Rightarrow> 'a l7_maps_scheme" where
  "mux_step fd (Ask env buf bs) s = sys_enter_write env \<lparr>rw_fd = fd, rw_buf = buf, rw_size = of_nat (length bs)\<rparr> s"
| "mux_step fd (Await env buf n) s = sys_enter_read env \<lparr>rw_fd = fd, rw_buf = buf, rw_size = n\<rparr> s"
| "mux_step fd (Answer env bs) s = sys_exit_read env \<lparr>sx_ret = of_nat (length bs)\<rparr> s"
| "mux_step fd (Other x) s = l7_step x s"

text \<open>
  The multiplexer: the start of the pending request of each stream, and the buffer of the reading
  thread while it reads. An answer to a pending request gives the status and the duration.
\<close>

type_synonym mux_state = "(s16 \<rightharpoonup> u64) \<times> u64 option"

fun mux_next :: "mux \<Rightarrow> mux_state \<Rightarrow> mux_state" where
  "mux_next (Ask env buf bs) (p, w) = (if p (stream_of bs) = None then p(stream_of bs \<mapsto> env_ktime env) else p, w)"
| "mux_next (Await env buf n) (p, w) = (p, Some buf)"
| "mux_next (Answer env bs) (p, w) = (if w = None then p else p(stream_of bs := None), None)"
| "mux_next (Other x) (p, w) = (p, w)"

fun mux_out :: "mux \<Rightarrow> mux_state \<Rightarrow> (s32 \<times> u64) list" where
  "mux_out (Answer env bs) (p, Some buf) =
     (case p (stream_of bs) of None \<Rightarrow> [] | Some t \<Rightarrow> [(answer_status bs, env_ktime env - t)])"
| "mux_out _ _ = []"

fun mux_outs :: "mux list \<Rightarrow> mux_state \<Rightarrow> (s32 \<times> u64) list" where
  "mux_outs [] m = []"
| "mux_outs (x # xs) m = mux_out x m @ mux_outs xs (mux_next x m)"

text \<open>The payloads are frames, the calls are those of the process and of its reading thread \<open>rid\<close>.\<close>

fun mux_ok :: "connection_id \<Rightarrow> u64 \<Rightarrow> mux \<Rightarrow> mux_state \<Rightarrow> 'a l7_maps_scheme \<Rightarrow> bool" where
  "mux_ok cid rid (Ask env buf bs) m s \<longleftrightarrow> calm_l7 env \<and> pid_of (env_pid_tgid env) = cid_pid cid \<and>
     cassandra_query bs \<and> holds_at (kmem env s) buf bs"
| "mux_ok cid rid (Await env buf n) m s \<longleftrightarrow> calm_l7 env \<and> env_pid_tgid env = rid"
| "mux_ok cid rid (Answer env bs) (p, w) s \<longleftrightarrow> env_pid_tgid env = rid \<and>
     (case w of None \<Rightarrow> True | Some buf \<Rightarrow> cassandra_answer bs \<and> holds_at (kmem env s) buf bs)"
| "mux_ok cid rid (Other x) m s \<longleftrightarrow> calm_l7 (l7_trace_env x) \<and> apart cid {rid} x s"

fun mux_run_ok :: "connection_id \<Rightarrow> u64 \<Rightarrow> mux list \<Rightarrow> mux_state \<Rightarrow> 'a l7_maps_scheme \<Rightarrow> bool" where
  "mux_run_ok cid rid [] m s \<longleftrightarrow> True"
| "mux_run_ok cid rid (x # xs) m s \<longleftrightarrow>
     mux_ok cid rid x m s \<and> mux_run_ok cid rid xs (mux_next x m) (mux_step (cid_fd cid) x s)"

section \<open>The handlers implement it\<close>

definition stream_key :: "connection_id \<Rightarrow> s16 \<Rightarrow> l7_request_key" where
  "stream_key cid i = (plain_key cid 0)\<lparr>k_stream_id := i\<rparr>"

lemma stream_key_simps [simp]: "stream_key cid i = stream_key cid j \<longleftrightarrow> i = j" "stream_key cid (- 1) = plain_key cid 0"
  "(plain_key cid 0)\<lparr>k_stream_id := i\<rparr> = stream_key cid i" "(stream_key cid j)\<lparr>k_stream_id := i\<rparr> = stream_key cid i"
  by (auto simp: stream_key_def plain_key_def)

definition cassandra_pending :: "connection_id \<Rightarrow> (s16 \<rightharpoonup> u64) \<Rightarrow> (l7_request_key \<rightharpoonup> l7_request) \<Rightarrow> bool" where
  "cassandra_pending cid p q \<longleftrightarrow> p (- 1) = None \<and>
     (\<forall>i. p i = map_option req_ns (q (stream_key cid i)) \<and>
        (\<forall>req. q (stream_key cid i) = Some req \<longrightarrow> req_protocol req = PROTOCOL_CASSANDRA))"

fun multiplexes :: "connection_id \<Rightarrow> u64 \<Rightarrow> mux_state \<Rightarrow> 'a l7_maps_scheme \<Rightarrow> bool" where
  "multiplexes cid rid (p, w) s \<longleftrightarrow> bpf_map_lookup_elem (active_connections s) cid \<noteq> None \<and>
     cassandra_pending cid p (bpf_map_lookup_elem (active_l7_requests s)) \<and>
     bpf_map_lookup_elem (active_reads s) rid =
       map_option (\<lambda>buf. \<lparr>ra_fd = cid_fd cid, ra_buf = buf, ra_ret = 0, ra_iovlen = 0\<rparr>) w"

definition outputs :: "connection_id \<Rightarrow> 'a l7_maps_scheme \<Rightarrow> (s32 \<times> u64) list" where
  "outputs cid s = map (\<lambda>e. (ev_status e, ev_duration e)) (filter (event_of cid) (l7_events s))"

lemma lookup_noexist:
  "length m < N \<Longrightarrow>
   bpf_map_lookup_elem (snd (bpf_lru_update_elem N (\<lambda>_. False) m k v BPF_NOEXIST)) =
     (if bpf_map_lookup_elem m k = None then (bpf_map_lookup_elem m)(k \<mapsto> v) else bpf_map_lookup_elem m)"
  using lookup_noexist_calm [of m k N v] by (auto simp: bpf_lru_update_elem_def flag_error_def Let_def)

lemma ask_effect:
  fixes s :: "'a l7_maps_scheme"
  assumes conn: "bpf_map_lookup_elem (active_connections s) cid = Some conn" and cid: "cid = cid_at env fd"
    and "room (Suc n) s" and "calm_l7 env" and "holds_at (kmem env s) buf bs" and q: "cassandra_query bs"
    and s': "s' = trace_enter_write env fd 0 buf (of_nat (length bs)) 0 s"
  shows "\<exists>req. req_protocol req = PROTOCOL_CASSANDRA \<and> req_ns req = env_ktime env \<and>
      bpf_map_lookup_elem (active_l7_requests s') =
        (if bpf_map_lookup_elem (active_l7_requests s) (stream_key cid (stream_of bs)) = None
         then (bpf_map_lookup_elem (active_l7_requests s))(stream_key cid (stream_of bs) \<mapsto> req)
         else bpf_map_lookup_elem (active_l7_requests s))"
    and "bpf_map_lookup_elem (active_connections s') cid \<noteq> None" and "l7_events s' = l7_events s"
    and "active_reads s' = active_reads s" and "room n s'"
proof -
  let ?sz = "of_nat (length bs) :: u64" and ?k = "plain_key cid 0"
  have un: "unat ?sz = length bs" "?sz \<noteq> 0" using q by (auto simp: cassandra_query_def unat_of_nat unat_eq_zero simp flip: unat_gt_0)
  obtain rt where cls: "classify_write (kmem env s) buf ?sz ?sz (bpf_map_lookup_elem (active_l7_requests s))
      (fresh_request (l7_request_heap s (env_cpu env)) ?sz) ?k =
      WRequest ((fresh_request (l7_request_heap s (env_cpu env)) ?sz)\<lparr>req_request_type := rt,
        req_protocol := PROTOCOL_CASSANDRA\<rparr>) (stream_key cid (stream_of bs))"
    using query_classified [OF assms(5) q, where k = ?k] unfolding stream_key_simps(3) by blast
  have rd: "bpf_probe_read (kmem env s) (min (unat ?sz) 1023) buf = Some (take 1023 bs)"
    using bpf_probe_read_holds0 [OF assms(5), of "min (length bs) 1023"] un by (simp add: min_def)
  have copy: "\<exists>pl. COPY_PAYLOAD env (kmem env s) dst ?sz buf = (True, pl)" for dst
    using rd by (simp add: COPY_PAYLOAD_def read_into_def unat_TRUNCATE_u64 del: bpf_probe_read.simps)
  define req where "req = (fresh_request (l7_request_heap s (env_cpu env)) ?sz)\<lparr>req_request_type := rt,
      req_protocol := PROTOCOL_CASSANDRA, req_ns := env_ktime env\<rparr>"
  obtain pl where pl: "COPY_PAYLOAD env (kmem env s) (req_payload req) ?sz buf = (True, pl)" using copy by blast
  have eq: "s' = (let t = put_request env (req\<lparr>req_payload := pl\<rparr>) (count_sent 0 cid ?sz s) in
      t\<lparr>active_l7_requests := snd (bpf_lru_update_elem L7_REQUEST_ENTRIES (env_evict env Active_L7_Requests)
        (active_l7_requests t) (stream_key cid (stream_of bs)) (req\<lparr>req_payload := pl\<rparr>) BPF_NOEXIST)\<rparr>)"
    using pl unfolding s' enter_write_cases [OF conn [unfolded cid] un(2)] Let_def cls [unfolded cid]
    by (simp add: req_def fresh_request_def cid Let_def)
  have rq: "active_l7_requests s' = snd (bpf_lru_update_elem L7_REQUEST_ENTRIES (\<lambda>_. False)
      (active_l7_requests s) (stream_key cid (stream_of bs)) (req\<lparr>req_payload := pl\<rparr>) BPF_NOEXIST)"
    using assms(4) by (simp add: eq Let_def put_request_def calm_l7_def)
  show "\<exists>req. req_protocol req = PROTOCOL_CASSANDRA \<and> req_ns req = env_ktime env \<and>
      bpf_map_lookup_elem (active_l7_requests s') =
        (if bpf_map_lookup_elem (active_l7_requests s) (stream_key cid (stream_of bs)) = None
         then (bpf_map_lookup_elem (active_l7_requests s))(stream_key cid (stream_of bs) \<mapsto> req)
         else bpf_map_lookup_elem (active_l7_requests s))"
    unfolding rq using assms(3)
    by (intro exI [of _ "req\<lparr>req_payload := pl\<rparr>"]) (simp add: lookup_noexist room_def req_def)
  show "bpf_map_lookup_elem (active_connections s') cid \<noteq> None" "l7_events s' = l7_events s"
    "active_reads s' = active_reads s"
    using conn by (simp_all add: eq Let_def put_request_def count_sent_def hash.lookup_modify)
  show "room n s'"
    using assms(3) by (simp add: eq Let_def put_request_def room_def count_sent_def calm_update_room)
qed

lemma answer_effect:
  fixes s :: "'a l7_maps_scheme"
  assumes rd: "bpf_map_lookup_elem (active_reads s) i = Some \<lparr>ra_fd = cid_fd cid, ra_buf = buf, ra_ret = 0, ra_iovlen = 0\<rparr>"
    and conn: "bpf_map_lookup_elem (active_connections s) cid = Some conn" and pid: "pid = cid_pid cid"
    and none: "bpf_map_lookup_elem (active_l7_requests s) (plain_key cid 0) = None"
    and h: "holds_at (kmem env s) buf bs" and a: "cassandra_answer bs"
    and k: "k = stream_key cid (stream_of bs)"
    and prot: "\<And>req. bpf_map_lookup_elem (active_l7_requests s) k = Some req \<Longrightarrow> req_protocol req = PROTOCOL_CASSANDRA"
    and s': "s' = trace_exit_read env i pid 0 (of_nat (length bs)) s"
  shows "bpf_map_lookup_elem (active_l7_requests s') = (bpf_map_lookup_elem (active_l7_requests s))(k := None) \<and>
    outputs cid s' = outputs cid s @ (case bpf_map_lookup_elem (active_l7_requests s) k of
        None \<Rightarrow> [] | Some req \<Rightarrow> [(answer_status bs, env_ktime env - req_ns req)])"
proof -
  let ?s1 = "s\<lparr>active_reads := bpf_map_delete_elem (active_reads s) i\<rparr>" and ?n = "of_nat (length bs) :: u64"
  let ?e = "unread_event (l7_event_heap s (env_cpu env))" and ?u = "count_received 0 cid ?n ?s1"
  have km: "kmem env ?s1 = kmem env s" by (simp add: kmem_def)
  have "0 < length bs" "length bs < 2 ^ 63" using a by (auto simp: cassandra_answer_def)
  then have "\<not> ?n \<le>s 0" by (simp add: word_sle_eq signed_of_nat signed_take_bit_int_eq_self)
  then have pay: "exit_read_payload env \<lparr>ra_fd = cid_fd cid, ra_buf = buf, ra_ret = 0, ra_iovlen = 0\<rparr> ?n ?s1 =
      Inr (buf, ?n, ?n, ?s1)"
    by (simp add: exit_read_payload_def)
  note cls = answer_classified [OF h a]
  have eq: "s' = match_read env cid conn (plain_key cid 0) buf ?n ?n ?e ?u"
    unfolding s' using exit_read_cases [OF rd conn _ refl, of pid env 0 ?n] pid
    by (simp add: pay km cls plain_key_def)
  show ?thesis
  proof (cases "bpf_map_lookup_elem (active_l7_requests s) k")
    case None
    have "find_request env buf ?n cid conn (plain_key cid 0) ?e ?u = Inl (put_event env (?e\<lparr>ev_status := answer_status bs\<rparr>) ?u)"
      using none None by (simp add: find_request_def Let_def km cls k)
    then show ?thesis
      using None by (simp add: eq match_read_def outputs_def put_event_def fun_upd_idem)
  next
    case (Some req)
    have "find_request env buf ?n cid conn (plain_key cid 0) ?e ?u = Inr (req, k, 1, ?e\<lparr>ev_status := answer_status bs\<rparr>)"
      using none Some by (simp add: find_request_def Let_def km cls k)
    moreover have "\<exists>e req'. match_response (kmem env s) buf ?n ?n 1 req (?e\<lparr>ev_status := answer_status bs\<rparr>) =
        (1, False, e, req') \<and> ev_status e = answer_status bs \<and> req_ns req' = req_ns req"
      using prot [OF Some] by (simp add: match_response_def Let_def)
    ultimately show ?thesis
      using Some by (auto simp: eq match_read_def km put_defs Let_def outputs_def event_of_def fun_eq_iff
          hash.lookup_delete hash.lookup_modify)
  qed
qed

text \<open>One step of each kind.\<close>

lemma mux_ask:
  assumes "multiplexes cid rid (p, w) s" and "room (Suc n) s" and "mux_ok cid rid (Ask env buf bs) (p, w) s"
    and s': "s' = mux_step (cid_fd cid) (Ask env buf bs) s"
  shows "multiplexes cid rid (mux_next (Ask env buf bs) (p, w)) s' \<and> room n s' \<and> outputs cid s' = outputs cid s"
proof -
  obtain conn where conn: "bpf_map_lookup_elem (active_connections s) cid = Some conn" using assms(1) by auto
  have q: "cassandra_query bs" "stream_of bs \<noteq> - 1"
    using assms(3) stream_not_plain by (auto simp: cassandra_query_def)
  have s'': "s' = trace_enter_write env (cid_fd cid) 0 buf (of_nat (length bs)) 0 s"
    using s' by (simp add: sys_enter_write_def)
  note ef = ask_effect [OF conn _ assms(2) _ _ q(1) s'']
  have "cid = cid_at env (cid_fd cid)" using assms(3) by simp
  note ef = ef [OF this]
  then obtain req where req: "req_protocol req = PROTOCOL_CASSANDRA" "req_ns req = env_ktime env"
    "bpf_map_lookup_elem (active_l7_requests s') =
       (if bpf_map_lookup_elem (active_l7_requests s) (stream_key cid (stream_of bs)) = None
        then (bpf_map_lookup_elem (active_l7_requests s))(stream_key cid (stream_of bs) \<mapsto> req)
        else bpf_map_lookup_elem (active_l7_requests s))"
    using assms(3) by auto
  have "cassandra_pending cid (fst (mux_next (Ask env buf bs) (p, w))) (bpf_map_lookup_elem (active_l7_requests s'))"
    using assms(1) req q(2) by (auto simp: cassandra_pending_def)
  then show ?thesis using ef assms(1,3) by (auto simp: outputs_def)
qed

lemma mux_await:
  assumes "multiplexes cid rid (p, w) s" and "room (Suc n) s" and "mux_ok cid rid (Await env buf k) (p, w) s"
    and "pid_of rid = cid_pid cid" and s': "s' = mux_step (cid_fd cid) (Await env buf k) s"
  shows "multiplexes cid rid (p, Some buf) s' \<and> room n s' \<and> outputs cid s' = outputs cid s"
proof -
  have s'': "s' = trace_enter_read env rid (cid_pid cid) (cid_fd cid) buf 0 0 s"
    using s' assms(3,4) by (simp add: sys_enter_read_def)
  have k: "keeps cid {} s s' \<and> room n s'" using keeps_read_enter [OF assms(2) _ _ s'', of "{}" cid] assms(3) by simp
  moreover have "active_l7_requests s' = active_l7_requests s"
    by (simp add: s'' trace_enter_read_def Let_def split: option.split)
  moreover have cid: "\<lparr>cid_fd = cid_fd cid, cid_pid = cid_pid cid\<rparr> = cid" by simp
  moreover obtain conn where "bpf_map_lookup_elem (active_connections s) cid = Some conn" using assms(1) by auto
  moreover note enter_read_effect [OF _ s'', unfolded cid, OF this]
  ultimately show ?thesis using assms(1) by (auto simp: keeps_def outputs_def)
qed

lemma mux_answer:
  assumes "multiplexes cid rid (p, w) s" and "room (Suc n) s" and "mux_ok cid rid (Answer env bs) (p, w) s"
    and pid: "pid_of rid = cid_pid cid" and s': "s' = mux_step (cid_fd cid) (Answer env bs) s"
  shows "multiplexes cid rid (mux_next (Answer env bs) (p, w)) s' \<and> room n s' \<and>
    outputs cid s' = outputs cid s @ mux_out (Answer env bs) (p, w)"
proof (cases w)
  case None
  then have "s' = s" using assms(1,3) s' by (simp add: sys_exit_read_def trace_exit_read_def)
  then show ?thesis using assms(1) None room_less [OF assms(2)] by simp
next
  case (Some buf)
  have s'': "s' = trace_exit_read env rid (cid_pid cid) 0 (of_nat (length bs)) s"
    using s' assms(3) pid by (simp add: sys_exit_read_def)
  obtain conn where conn: "bpf_map_lookup_elem (active_connections s) cid = Some conn" using assms(1) by auto
  have rd: "bpf_map_lookup_elem (active_reads s) rid =
      Some \<lparr>ra_fd = cid_fd cid, ra_buf = buf, ra_ret = 0, ra_iovlen = 0\<rparr>"
    using assms(1) Some by simp
  have pend: "cassandra_pending cid p (bpf_map_lookup_elem (active_l7_requests s))" using assms(1) by simp
  have ans: "cassandra_answer bs" "holds_at (kmem env s) buf bs" using assms(3) Some by simp_all
  then have "stream_of bs \<noteq> - 1" using stream_not_plain by (simp add: cassandra_answer_def)
  moreover have plain: "bpf_map_lookup_elem (active_l7_requests s) (plain_key cid 0) = None"
    using pend by (auto simp: cassandra_pending_def dest!: spec [of _ "- 1"])
  note ef = answer_effect [OF rd conn refl plain ans(2,1) refl _ s'']
  have "bpf_map_lookup_elem (active_l7_requests s') =
        (bpf_map_lookup_elem (active_l7_requests s))(stream_key cid (stream_of bs) := None) \<and>
      outputs cid s' = outputs cid s @ (case bpf_map_lookup_elem (active_l7_requests s) (stream_key cid (stream_of bs)) of
        None \<Rightarrow> [] | Some req \<Rightarrow> [(answer_status bs, env_ktime env - req_ns req)])"
    by (rule ef) (use pend in \<open>auto simp: cassandra_pending_def\<close>)
  moreover have cid: "cid = \<lparr>cid_fd = ra_fd \<lparr>ra_fd = cid_fd cid, ra_buf = buf, ra_ret = 0, ra_iovlen = 0\<rparr>,
      cid_pid = cid_pid cid\<rparr>" by simp
  moreover note fr = exit_read_frame [OF rd cid s'']
  moreover have "bpf_map_lookup_elem (active_connections s') cid \<noteq> None"
    using fr conn by (auto simp: counted_def hash.lookup_modify)
  moreover have "room n s'"
    using assms(2) fr counted_other length_map_delete [of "active_reads s" rid]
    by (auto simp: room_def requests_of_def)
  ultimately show ?thesis
    using Some pend by (auto simp: cassandra_pending_def hash.lookup_delete split: option.split)
qed

lemma mux_other:
  assumes "multiplexes cid rid m s" and "room (Suc n) s" and "mux_ok cid rid (Other x) m s"
  shows "multiplexes cid rid m (l7_step x s) \<and> room n (l7_step x s) \<and> outputs cid (l7_step x s) = outputs cid s"
proof -
  have k: "keeps cid {rid} s (l7_step x s) \<and> room n (l7_step x s)" using keeps_step [OF assms(2), of x cid "{rid}"] assms(3) by simp
  moreover have "\<lparr>cid_fd = k_fd (stream_key cid i), cid_pid = k_pid (stream_key cid i)\<rparr> = cid" for i
    by (simp add: stream_key_def plain_key_def)
  ultimately show ?thesis
    using assms(1) by (cases m) (auto simp: keeps_def outputs_def cassandra_pending_def)
qed

lemma mux_step_ok:
  assumes "multiplexes cid rid m s" and "room (Suc n) s" and "mux_ok cid rid x m s" and "pid_of rid = cid_pid cid"
    and "s' = mux_step (cid_fd cid) x s"
  shows "multiplexes cid rid (mux_next x m) s' \<and> room n s' \<and> outputs cid s' = outputs cid s @ mux_out x m"
proof -
  obtain p w where m: "m = (p, w)" by (cases m)
  note st = assms(1,2,3) [unfolded m]
  show ?thesis
  proof (cases x)
    case (Ask env buf bs)
    then show ?thesis using mux_ask [OF st(1,2)] st(3) assms(5) unfolding m by (simp del: mux_ok.simps mux_step.simps multiplexes.simps)
  next
    case (Await env buf k)
    then show ?thesis using mux_await [OF st(1,2)] st(3) assms(4,5) unfolding m by (simp del: mux_ok.simps mux_step.simps multiplexes.simps)
  next
    case (Answer env bs)
    then show ?thesis using mux_answer [OF st(1,2)] st(3) assms(4,5) unfolding m by (simp del: mux_ok.simps mux_step.simps multiplexes.simps mux_next.simps mux_out.simps)
  next
    case (Other y)
    then show ?thesis using mux_other [OF st(1,2)] st(3) assms(5) unfolding m by (simp del: mux_ok.simps multiplexes.simps)
  qed
qed

text \<open>
  C4. On a Cassandra connection the handlers are the multiplexer. Any threads of the process send
  requests, a reading thread takes the answers, in any order and while any probes of other
  connections run: the events of the connection are exactly those of the multiplexer, each answer
  with its own status and the time since the request of its own stream, answers to nothing ignored,
  and at the end the requests the multiplexer has pending are pending. As long as nothing is
  evicted from the maps.
\<close>

theorem cassandra_multiplexed:
  fixes s :: "'a l7_maps_scheme"
  assumes "multiplexes cid rid m s" and "room (length xs) s" and "mux_run_ok cid rid xs m s"
    and "pid_of rid = cid_pid cid" and "s' = fold (mux_step (cid_fd cid)) xs s"
  shows "outputs cid s' = outputs cid s @ mux_outs xs m \<and> multiplexes cid rid (fold mux_next xs m) s'"
  using assms(1-3) unfolding assms(5)
proof (induction xs arbitrary: s m)
  case (Cons x xs)
  have "multiplexes cid rid (mux_next x m) (mux_step (cid_fd cid) x s) \<and> room (length xs) (mux_step (cid_fd cid) x s) \<and>
      outputs cid (mux_step (cid_fd cid) x s) = outputs cid s @ mux_out x m"
    using Cons.prems assms(4) by (intro mux_step_ok) simp_all
  then show ?case using Cons.IH [of "mux_next x m" "mux_step (cid_fd cid) x s"] Cons.prems(3) by simp
qed simp

definition sample_query :: "u8 \<Rightarrow> u8 list" where
  "sample_query i = [4, 0, 0, i, 7, 0, 0, 0, 1, 65]"

definition sample_answer :: "u8 \<Rightarrow> u8 list" where
  "sample_answer i = [0x84, 0, 0, i, 8, 0, 0, 0, 0]"

text \<open>Two requests, on the streams 1 and 2, and the answer to the second.\<close>

definition sample_mux :: "mux list" where
  "sample_mux =
     [Ask (env_with 0x700000008 10 (sample_query 1)) 0x1000 (sample_query 1),
      Ask (env_with 0x700000009 11 (sample_query 2)) 0x1000 (sample_query 2),
      Await (plain_env 0x70000000A 12) 0x1000 100,
      Answer (env_with 0x70000000A 20 (sample_answer 2)) (sample_answer 2)]"

lemma sample_frames:
  "cassandra_query (sample_query 1)" "cassandra_query (sample_query 2)" "cassandra_answer (sample_answer 2)"
  "stream_of (sample_query 1) = 0x100" "stream_of (sample_query 2) = 0x200" "stream_of (sample_answer 2) = 0x200"
  by (simp_all add: sample_query_def sample_answer_def cassandra_query_def cassandra_answer_def payload_end_def
      field_at_def stream_of_def)

theorem cassandra_multiplexed_witness:
  "outputs \<lparr>cid_fd = 3, cid_pid = 7\<rparr> (fold (mux_step 3) sample_mux (one_connection 3 7 5)) = [(200, 9)]"
proof -
  let ?cid = "\<lparr>cid_fd = 3, cid_pid = 7\<rparr>" and ?m = "(Map.empty, None) :: mux_state"
  have buf: "iovec_buf_heap (one_connection 3 7 5) c = replicate 2048 0" for c
    by (simp add: one_connection_def)
  have keep: "iovec_buf_heap (sys_enter_write env ctx s) = iovec_buf_heap s"
    "iovec_buf_heap (sys_enter_read env ctx' s) = iovec_buf_heap s" for env ctx ctx' and s :: l7_maps
    by (simp_all add: sys_enter_write_def plain_write_buffer sys_enter_read_def trace_enter_read_def Let_def
        split: option.split)
  have h: "holds_at (kmem (env_with i t bs) s) 0x1000 bs"
    if "iovec_buf_heap s = iovec_buf_heap (one_connection 3 7 5)" "length bs < 100" for i t bs and s :: l7_maps
    using that buf by (intro kmem_env_with) simp_all
  have len: "length (sample_query i) < 100" "length (sample_answer i) < 100" for i
    by (simp_all add: sample_query_def sample_answer_def)
  have env: "calm_l7 (env_with i t bs)" "calm_l7 (plain_env i t)" "env_pid_tgid (env_with i t bs) = i"
    "env_pid_tgid (plain_env i t) = i" "env_ktime (env_with i t bs) = t" for i t bs
    by (simp_all add: env_with_def plain_env_def calm_l7_def calm_def)
  have pids: "pid_of 0x700000008 = 7" "pid_of 0x700000009 = 7" "pid_of 0x70000000A = 7" by (simp_all add: pid_of_def)
  have ok: "mux_run_ok ?cid 0x70000000A sample_mux ?m (one_connection 3 7 5)"
    unfolding sample_mux_def by (simp add: env pids sample_frames h keep len)
  have m: "multiplexes ?cid 0x70000000A ?m (one_connection 3 7 5)"
    by (simp add: one_connection_def cassandra_pending_def bpf_map_lookup_elem_def)
  have "room (length sample_mux) (one_connection 3 7 5)"
    by (simp add: room_def one_connection_def sample_mux_def)
  from cassandra_multiplexed [OF m this ok _ refl]
  have "outputs ?cid (fold (mux_step 3) sample_mux (one_connection 3 7 5)) =
      outputs ?cid (one_connection 3 7 5) @ mux_outs sample_mux ?m"
    by (simp add: pids)
  moreover have "outputs ?cid (one_connection 3 7 5) = []" by (simp add: outputs_def one_connection_def)
  moreover have "mux_outs sample_mux ?m = [(200, 9)]"
    by (simp add: sample_mux_def sample_frames env) (simp add: answer_status_def sample_answer_def)
  ultimately show ?thesis by simp
qed

end
