(* ===== verification/L7_Faults.thy ===== *)
theory L7_Faults
  imports Multiplex L7_Wire
begin

text \<open>
  Payloads the probes cannot read. A page of the traced process may not be in memory, and then
  every \<^verbatim>\<open>bpf_probe_read\<close> of it fails. The theory shows that no classifier accepts such a payload and
  what the handlers of \<^verbatim>\<open>l7/l7.c\<close> do about it. At the end it has a payload that is read but taken for
  another one.
\<close>

section \<open>The classifiers\<close>

text \<open>No classifier decides on a byte after the first 40 alone.\<close>

definition unreadable :: "mem \<Rightarrow> u64 \<Rightarrow> bool" where
  "unreadable m a \<longleftrightarrow> (\<forall>i<40. m (a + of_nat i) = None)"

lemma unreadable_read:
  assumes "unreadable m a" and "unat k < 40" and "0 < n"
  shows "bpf_probe_read m n (a + k) = None"
proof -
  have "m (a + k + of_nat 0) = None" using assms(1,2) by (auto simp: unreadable_def dest!: spec [of _ "unat k"])
  then show ?thesis using assms(3) unfolding bpf_probe_read_None_iff by blast
qed

lemma unreadable_start:
  "unreadable m a \<Longrightarrow> 0 < n \<Longrightarrow> bpf_probe_read m n a = None"
  "unreadable m a \<Longrightarrow> 0 < n \<Longrightarrow> bpf_probe_read_str m n a = None"
  using unreadable_read [of m a 0 n] by (auto simp: unreadable_def dest!: spec [of _ 0] gr0_implies_Suc)

lemmas unreadable_reads = unreadable_start unreadable_read

lemma unreadable_requests:
  assumes "unreadable m a"
  shows "\<not> is_http_request m a" and "is_postgres_query m a sz rt = (False, rt)" and "\<not> is_redis_query m a sz"
    and "\<not> is_memcached_query m a sz" and "is_mysql_query m a sz rt = (False, rt)" and "\<not> is_mongo_query m a sz"
    and "\<not> rabbitmq_method_is m a sz x" and "nats_method m a sz = METHOD_UNKNOWN"
    and "is_cassandra_request m a sz i = (False, i)" and "\<not> looks_like_http2_frame m a sz x'"
    and "\<not> is_clickhouse_query m a sz" and "\<not> is_zk_request m a sz" and "is_kafka_request m a sz ri = (False, ri)"
    and "\<not> is_dubbo2_request m a sz" and "is_dns_request m a sz i = (False, i)" and "\<not> is_foundationdb_request m a sz"
  using assms
  by (simp_all add: is_http_request_def is_postgres_query_def is_redis_query_def is_memcached_query_def
      is_mysql_query_def is_mongo_query_def rabbitmq_method_is_def nats_method_def is_cassandra_request_def
      looks_like_http2_frame_def is_clickhouse_query_def is_zk_request_def is_kafka_request_def
      is_dubbo2_request_def is_dns_request_def is_foundationdb_request_def is_foundationdb_connect_packet_def
      parse_fdb_packet_def fdb_file_id_valid_def unreadable_reads del: bpf_probe_read.simps)

lemma unreadable_responses:
  assumes "unreadable m a"
  shows "is_http_response m a st = (False, st)" and "is_postgres_response m a sz st = (False, st)"
    and "is_redis_response m a sz st = (False, st)" and "is_memcached_response m a sz st = (False, st)"
    and "is_mysql_response m a sz rt sid st = (False, sid, st)"
    and "is_mongo_response m a sz pt = (if pt = 0 \<and> sz = 4 then 2 else 0)"
    and "\<not> is_kafka_response m a ri" and "is_clickhouse_response m a st = (False, st)"
    and "is_zk_response m a sz st pt = (if pt = 0 \<and> sz = 4 then (2, st) else (0, st))"
    and "is_dubbo2_response m a st = (False, st)" and "is_foundationdb_response m a sz st = (0, STATUS_OK)"
    and "is_dns_response m a sz i st = (False, i, st)" and "is_cassandra_response m a sz i st = (False, i, st)"
  using assms
  by (simp_all add: is_http_response_def is_postgres_response_def is_redis_response_def is_memcached_response_def
      is_mysql_response_def is_mongo_response_def is_kafka_response_def is_clickhouse_response_def
      is_zk_response_def is_dubbo2_response_def is_foundationdb_response_def is_foundationdb_connect_packet_def
      parse_fdb_packet_def fdb_file_id_valid_def is_dns_response_def is_cassandra_response_def
      Let_def unreadable_reads del: bpf_probe_read.simps)

lemma classify_unreadable:
  "unreadable m a \<Longrightarrow> classify_write m a sz tsz active req k = WRequest req k"
  by (simp add: classify_write_def unreadable_requests is_rabbitmq_produce_def Let_def)

lemma match_unreadable:
  assumes "unreadable m a" and "match_response m a ret tsz 0 req e = (r, keep, e', req')"
  shows "(r = 0 \<or> keep) \<and> req_ns req' = req_ns req \<and> req_protocol req' = req_protocol req"
  using assms(2) unfolding match_response_def Let_def
  by (auto simp: unreadable_responses [OF assms(1)] split: if_splits)

lemma read_iovec_unreadable:
  assumes "unreadable (kmem_with env b) iov" and "iovlen \<noteq> 0"
  shows "read_iovec env iov iovlen ret b t = (0, t, b)"
proof -
  have "bpf_probe_read (kmem_with env b) 16 (iov + of_nat (0 * 16)) = None"
    using unreadable_start(1) [OF assms(1), of 16] by simp
  moreover have "MAX_IOVEC_SIZE = Suc (MAX_IOVEC_SIZE - 1)" by simp
  ultimately show ?thesis
    using assms(2) unfolding read_iovec_def Let_def
    by (metis (no_types, lifting) of_nat_0 option.simps(4) read_iovec_loop.simps(2) word_le_0_iff)
qed

section \<open>The handlers\<close>

lemma write_unreadable:
  assumes "unreadable (kmem env s) buf" and w: "w = trace_enter_write env fd is_tls buf sz iovlen s"
  shows "l7_events w = l7_events s \<and> active_l7_requests w = active_l7_requests s \<and> active_reads w = active_reads s \<and>
    bpf_map_lookup_elem (active_connections w) (cid_at env fd) =
      map_option (\<lambda>c. if is_tls = 0 \<and> iovlen = 0 then c\<lparr>c_bytes_sent := c_bytes_sent c + sz\<rparr> else c)
        (bpf_map_lookup_elem (active_connections s) (cid_at env fd))"
proof (cases "bpf_map_lookup_elem (active_connections s) (cid_at env fd)")
  case None
  then show ?thesis by (simp add: w trace_enter_write_def)
next
  case (Some c)
  show ?thesis
  proof (cases "iovlen = 0")
    case True
    then show ?thesis
      using Some assms(1)
      by (simp add: w trace_enter_write_def write_payload_def Let_def bpf_percpu_lookup_def put_request_def kmem_def
          classify_unreadable hash.lookup_modify)
  next
    case False
    then have "read_iovec env buf iovlen 0 (iovec_buf_heap s (env_cpu env)) 0 = (0, 0, iovec_buf_heap s (env_cpu env))"
      using assms(1) by (intro read_iovec_unreadable) (simp_all add: kmem_def)
    then show ?thesis
      using Some False
      by (simp add: w trace_enter_write_def write_payload_def Let_def bpf_percpu_lookup_def put_iovec_buf_def)
  qed
qed

definition kept_or_dropped :: "(l7_request_key, l7_request) bpf_map \<Rightarrow> (l7_request_key, l7_request) bpf_map \<Rightarrow> bool" where
  "kept_or_dropped m m' \<longleftrightarrow>
     (\<forall>k q'. bpf_map_lookup_elem m' k = Some q' \<longrightarrow>
        (\<exists>q. bpf_map_lookup_elem m k = Some q \<and> req_ns q' = req_ns q \<and> req_protocol q' = req_protocol q))"

lemma kept_refl [simp]: "kept_or_dropped m m" by (simp add: kept_or_dropped_def)

lemma match_read_unreadable:
  fixes t :: "'a l7_maps_scheme"
  assumes "unreadable (kmem env t) buf" and t': "t' = match_read env cid conn k buf ret tsz e t"
  shows "l7_events t' = l7_events t \<and> kept_or_dropped (active_l7_requests t) (active_l7_requests t')"
proof (cases "bpf_map_lookup_elem (active_l7_requests t) k")
  case None
  then show ?thesis
    using assms(1)
    by (simp add: t' match_read_def find_request_def unreadable_responses unreadable_requests Let_def put_event_def)
next
  case (Some req)
  obtain r keep e' req' where m: "match_response (kmem env t) buf ret tsz 0 req e = (r, keep, e', req')"
    by (cases "match_response (kmem env t) buf ret tsz 0 req e")
  note match_unreadable [OF assms(1) m]
  then show ?thesis
    using Some m
    by (auto simp: t' match_read_def find_request_def put_event_def Let_def kept_or_dropped_def
        hash.lookup_modify hash.lookup_delete split: if_splits)
qed

lemma read_unreadable:
  fixes s :: "'a l7_maps_scheme"
  assumes "unreadable (kmem env s) (ra_buf args)" and args: "bpf_map_lookup_elem (active_reads s) i = Some args"
    and s': "s' = trace_exit_read env i pid is_tls ret s"
  shows "l7_events s' = l7_events s \<and> kept_or_dropped (active_l7_requests s) (active_l7_requests s')"
proof (cases "bpf_map_lookup_elem (active_connections s) \<lparr>cid_fd = ra_fd args, cid_pid = pid\<rparr>")
  case None
  then show ?thesis using args by (simp add: s' trace_exit_read_def Let_def)
next
  case conn: (Some conn)
  let ?cid = "\<lparr>cid_fd = ra_fd args, cid_pid = pid\<rparr>"
  let ?s1 = "s\<lparr>active_reads := bpf_map_delete_elem (active_reads s) i\<rparr>"
  note eq = exit_read_cases [OF args conn refl refl, where env = env and is_tls = is_tls and ret = ret]
  show ?thesis
  proof (cases "exit_read_payload env args ret ?s1")
    case (Inl t)
    then show ?thesis using exit_read_payload_frame [OF disjI2, OF Inl] by (simp add: s' eq)
  next
    case (Inr x)
    obtain payload ret' tsz t where x: "x = (payload, ret', tsz, t)" by (cases x)
    have "ra_iovlen args = 0"
    proof (rule ccontr)
      assume "ra_iovlen args \<noteq> 0"
      then have "read_iovec env (ra_buf args) (ra_iovlen args) r (iovec_buf_heap s (env_cpu env)) 0 =
          (0, 0, iovec_buf_heap s (env_cpu env))" for r
        using assms(1) by (intro read_iovec_unreadable) (simp_all add: kmem_def)
      then show False
        using Inr \<open>ra_iovlen args \<noteq> 0\<close>
        by (auto simp: exit_read_payload_def bpf_percpu_lookup_def Let_def split: if_splits option.splits)
    qed
    then have t: "payload = ra_buf args \<and> t = ?s1"
      using Inr by (auto simp: exit_read_payload_def x Let_def split: if_splits option.splits)
    let ?u = "count_received is_tls ?cid tsz t"
    have u: "unreadable (kmem env t) payload" "unreadable (kmem env ?u) payload"
      using assms(1) t by (simp_all, simp_all add: kmem_def)
    moreover have "l7_events ?u = l7_events s \<and> active_l7_requests ?u = active_l7_requests s"
      using t by (simp add: count_received_def)
    ultimately show ?thesis
      using match_read_unreadable [OF u(2) refl]
      unfolding s' eq Inr x by (simp add: Let_def is_rabbitmq_consume_def unreadable_requests [OF u(1)])
  qed
qed

text \<open>
  C16. A payload that cannot be read is never reported. When the memory at the buffer, or at the
  vector of buffers, faults, a write sends no event and keeps no request, but its size still
  counts when it is known without the memory; and the end of a read sends no event, leaves no
  read in progress, and changes the pending requests only by dropping them or keeping them with
  their start and protocol.
\<close>

theorem unreadable_payload_not_reported:
  fixes s :: "'a l7_maps_scheme"
  assumes "unreadable (kmem env s) buf"
    and "w = trace_enter_write env fd is_tls buf sz iovlen s"
    and "bpf_map_lookup_elem (active_reads s) i = Some args" and "ra_buf args = buf"
    and "r = trace_exit_read env i pid is_tls ret s"
  shows "l7_events w = l7_events s \<and> active_l7_requests w = active_l7_requests s \<and>
    bpf_map_lookup_elem (active_connections w) (cid_at env fd) =
      map_option (\<lambda>c. if is_tls = 0 \<and> iovlen = 0 then c\<lparr>c_bytes_sent := c_bytes_sent c + sz\<rparr> else c)
        (bpf_map_lookup_elem (active_connections s) (cid_at env fd)) \<and>
    l7_events r = l7_events s \<and> bpf_map_lookup_elem (active_reads r) i = None \<and>
    kept_or_dropped (active_l7_requests s) (active_l7_requests r)"
  using write_unreadable [OF assms(1,2)] read_unreadable [OF _ assms(3,5)] assms(1,4)
    exit_read_frame [OF assms(3) refl assms(5)]
  by (simp add: hash.lookup_delete)

text \<open>A write and the end of a read with nothing in memory, while an HTTP request is pending.\<close>

theorem unreadable_payload_not_reported_witness:
  "let s = (one_connection 3 7 5)
         \<lparr>active_reads := [(0x700000008, \<lparr>ra_fd = 3, ra_buf = 0x1000, ra_ret = 0, ra_iovlen = 0\<rparr>)],
          active_l7_requests := [(plain_key \<lparr>cid_fd = 3, cid_pid = 7\<rparr> 0, zero_l7_request\<lparr>req_protocol := PROTOCOL_HTTP\<rparr>)]\<rparr>;
       env = plain_env 0x700000008 10 in
   l7_events (trace_exit_read env 0x700000008 7 0 22 s) = [] \<and>
   l7_events (trace_enter_write env 3 0 0x1000 24 0 s) = [] \<and>
   map_option c_bytes_sent (bpf_map_lookup_elem (active_connections (trace_enter_write env 3 0 0x1000 24 0 s))
     \<lparr>cid_fd = 3, cid_pid = 7\<rparr>) = Some 24"
proof -
  let ?cid = "\<lparr>cid_fd = 3, cid_pid = 7\<rparr>" and ?env = "plain_env 0x700000008 10"
  let ?args = "\<lparr>ra_fd = 3, ra_buf = 0x1000, ra_ret = 0, ra_iovlen = 0\<rparr>"
  let ?s = "(one_connection 3 7 5)\<lparr>active_reads := [(0x700000008, ?args)],
      active_l7_requests := [(plain_key ?cid 0, zero_l7_request\<lparr>req_protocol := PROTOCOL_HTTP\<rparr>)]\<rparr>"
  have "unreadable (kmem ?env ?s) 0x1000"
    unfolding unreadable_def
  proof (intro allI impI)
    fix i :: nat assume "i < 40"
    then have "unat (0x1000 + of_nat i :: u64) = 0x1000 + i" by (simp add: unat_word_ariths unat_of_nat)
    then show "kmem ?env ?s (0x1000 + of_nat i) = None"
      by (simp add: kmem_def kmem_with_def overlay_def mem_of_def plain_env_def one_connection_def)
  qed
  note unreadable_payload_not_reported [OF this refl _ _ refl, where fd = 3 and sz = 24 and iovlen = 0 and is_tls = 0
      and i = "0x700000008" and pid = 7 and ret = 22 and args = ?args]
  then show ?thesis
    by (simp add: one_connection_def bpf_map_lookup_elem_def plain_env_def pid_of_def Let_def)
qed

section \<open>A query taken for the end of a statement\<close>

text \<open>
  \<^verbatim>\<open>is_postgres_query\<close> stores the first byte of the payload as the type of the request also when it
  rejects the payload, and \<^verbatim>\<open>is_mysql_query\<close> leaves the type of a plain query alone. The first byte
  of a MySQL packet is the low byte of its length, so a query of 24 characters, whose packet has
  the length \<^verbatim>\<open>0x19\<close>, is reported as the close of a prepared statement, and its response is not
  awaited.
\<close>

lemma mysql_query_as_close:
  assumes "holds_at m a (mysql_packet MYSQL_COM_QUERY args)" and "length args = 24"
    and "drop 19 args \<noteq> [83, 0, 0, 0, 4]"
  shows "classify_write m a (of_nat (length (mysql_packet MYSQL_COM_QUERY args))) tsz active req k =
    WEvent PROTOCOL_MYSQL METHOD_STATEMENT_CLOSE False True (req\<lparr>req_request_type := MYSQL_COM_STMT_CLOSE\<rparr>)"
proof -
  let ?bs = "mysql_packet MYSQL_COM_QUERY args"
  have bs: "?bs = [0x19, 0, 0, 0, 3] @ args"
  proof -
    have "take 3 (le_bytes 4 (25 :: u32)) = [0x19, 0, 0]" by code_simp
    then show ?thesis using assms(2) by (simp add: mysql_packet_def)
  qed
  have m: "m a = Some 0x19" using holds_nth [OF assms(1), of 0] by (simp add: bs)
  have r5: "bpf_probe_read m 5 a = Some [0x19, 0, 0, 0, 3]"
    using bpf_probe_read_holds0 [OF assms(1), of 5] assms(2) by (simp add: bs)
  have fb: "b ! 0 = 0x19" if "bpf_probe_read m n a = Some b" "0 < n" for n b
    using first_byte [OF assms(1) _ that(1), of 0] that(2) by (simp add: bs)
  have sync: "bpf_probe_read m 5 (tail_addr a 29 5) = Some (drop 19 args)"
    using read_payload_end [OF assms(1), of 5] assms(2) by (simp add: bs payload_end_def)
  have len: "of_nat (length ?bs) = (29 :: u64)" using assms(2) by (simp add: bs)
  have pg: "is_postgres_query m a 29 rt = (False, 0x19)" for rt
  proof -
    have "bpf_probe_read m 1 a = Some [0x19]" using m by simp
    moreover have "bpf_probe_read m 4 (a + 1) = Some [0, 0, 0, 3]"
      using bpf_probe_read_holds_word [OF assms(1), of 1 4] assms(2) by (simp add: bs field_at_def)
    moreover have "length (drop 19 args) = 5" using assms(2) by simp
    ultimately show ?thesis
      using sync five_bytes [of "drop 19 args" 83 0 0 0 4] assms(3) by (simp add: is_postgres_query_def Let_def)
  qed
  have "\<not> is_http_request m a"
    using first_byte_str [of m a "0x19", OF m]
    by (auto simp: is_http_request_def dest!: bpf_probe_read_str_le split: option.split)
  moreover have "\<not> is_redis_query m a 29" using r5 by (simp add: is_redis_query_def)
  moreover have "\<not> is_memcached_query m a 29"
    using fb [of 7]
    by (cases "bpf_probe_read m 7 a") (simp_all add: is_memcached_query_def del: bpf_probe_read.simps split: option.split)
  moreover have "is_mysql_query m a 29 rt = (True, rt)" for rt
    using r5 by (simp add: is_mysql_query_def mysql_length_def)
  ultimately show ?thesis using pg by (simp add: classify_write_def len)
qed

end
