(* ===== verification/Profile.thy ===== *)
theory Profile
  imports Bpf_Maps
begin

unbundle bit_operations_syntax

text \<open>
  The sampling profiler, \<^verbatim>\<open>profile.bpf.c\<close> with \<^verbatim>\<open>pid.h\<close> and \<^verbatim>\<open>stacks.h\<close>: the program on the
  sampling clock, which counts stacks or hands over to the Python unwinder, and the two probes
  that report the end of a process and an \<^verbatim>\<open>exec\<close>. What the kernel gives (the current task, its
  process identifiers in the nested namespaces, the stack walk of \<^verbatim>\<open>bpf_get_stackid\<close>) is part
  of the environment; the program in slot 0 of \<^verbatim>\<open>progs\<close> is a parameter, of which the interface
  \<open>profiler_program\<close> says what the counting and the events rely on.
\<close>

section \<open>State and environment\<close>

abbreviation (input) PROFILE_MAPS_SIZE :: nat where "PROFILE_MAPS_SIZE \<equiv> 16384"
abbreviation (input) PIDS_ENTRIES :: nat where "PIDS_ENTRIES \<equiv> 2048"

abbreviation (input) BPF_F_USER_STACK :: u64 where "BPF_F_USER_STACK \<equiv> 256"
abbreviation (input) BPF_F_FAST_STACK_CMP :: u64 where "BPF_F_FAST_STACK_CMP \<equiv> 512"

definition KERN_STACKID_FLAGS :: u64 where "KERN_STACKID_FLAGS = 0 OR BPF_F_FAST_STACK_CMP"
definition USER_STACKID_FLAGS :: u64 where "USER_STACKID_FLAGS = 0 OR BPF_F_FAST_STACK_CMP OR BPF_F_USER_STACK"

abbreviation (input) SAMPLE_KEY_FLAG_PYTHON_STACK :: u32 where "SAMPLE_KEY_FLAG_PYTHON_STACK \<equiv> 1"
abbreviation (input) SAMPLE_KEY_FLAG_STACK_TRUNCATED :: u32 where "SAMPLE_KEY_FLAG_STACK_TRUNCATED \<equiv> 2"

abbreviation (input) PROFILING_TYPE_UNKNOWN :: u8 where "PROFILING_TYPE_UNKNOWN \<equiv> 1"
abbreviation (input) PROFILING_TYPE_FRAMEPOINTERS :: u8 where "PROFILING_TYPE_FRAMEPOINTERS \<equiv> 2"
abbreviation (input) PROFILING_TYPE_PYTHON :: u8 where "PROFILING_TYPE_PYTHON \<equiv> 3"
abbreviation (input) PROFILING_TYPE_ERROR :: u8 where "PROFILING_TYPE_ERROR \<equiv> 4"

abbreviation (input) OP_REQUEST_UNKNOWN_PROCESS_INFO :: u32 where "OP_REQUEST_UNKNOWN_PROCESS_INFO \<equiv> 1"
abbreviation (input) OP_PID_DEAD :: u32 where "OP_PID_DEAD \<equiv> 2"
abbreviation (input) OP_REQUEST_EXEC_PROCESS_INFO :: u32 where "OP_REQUEST_EXEC_PROCESS_INFO \<equiv> 3"

abbreviation (input) PF_KTHREAD :: s32 where "PF_KTHREAD \<equiv> 0x00200000"
abbreviation (input) PID_NESTED_NAMESPACES_MAX :: nat where "PID_NESTED_NAMESPACES_MAX \<equiv> 4"

record sample_key =
  sk_pid :: u32
  sk_flags :: u32
  sk_kern_stack :: s64
  sk_user_stack :: s64

record pid_config =
  pc_type :: u8
  pc_collect_user :: u8
  pc_collect_kernel :: u8
  pc_padding :: u8

record pid_event =
  pv_op :: u32
  pv_pid :: u32

record prof_maps =
  pids :: "(u32, pid_config) bpf_map"
  prof_events :: "pid_event list"
  counts :: "(sample_key, u32) bpf_map"

text \<open>
  The kernel's side of a run: the pointer of \<^verbatim>\<open>bpf_get_current_task\<close>, the read of the task's
  flags (\<open>None\<close> when it fails), what \<^verbatim>\<open>BPF_CORE_READ\<close> gives for the namespace level and for the
  namespace inode and the number at an index of \<^verbatim>\<open>thread_pid->numbers\<close>, the identifier
  \<^verbatim>\<open>bpf_get_stackid\<close> returns for its flags, and the architecture with the thread pointer of the
  task (used by the Python unwinder).
\<close>

datatype arch = X86 | ARM64

record prof_env = bpf_env +
  env_task :: u64
  env_task_flags :: "s32 option"
  env_level :: u32
  env_inum :: "u32 \<Rightarrow> u32"
  env_nr :: "u32 \<Rightarrow> s32"
  env_stackid :: "u64 \<Rightarrow> s64"
  env_arch :: arch
  env_thread_pointer :: "u64 option"

section \<open>The process identifier\<close>

text \<open>
  The loop over the nested namespaces at index \<open>i\<close>, \<open>n\<close> iterations left. The difference is of
  type \<^verbatim>\<open>unsigned int\<close>, so the test against zero never succeeds.
\<close>

fun current_pid_loop :: "prof_env \<Rightarrow> u64 \<Rightarrow> nat \<Rightarrow> nat \<Rightarrow> u32 \<Rightarrow> u32" where
  "current_pid_loop env ns_pid_ino 0 i pid = pid"
| "current_pid_loop env ns_pid_ino (Suc n) i pid =
     (let level = env_level env in
      if level - of_nat i < 0 then pid
      else if ucast (env_inum env (level - of_nat i)) = ns_pid_ino then env_nr env (level - of_nat i)
      else current_pid_loop env ns_pid_ino n (Suc i) pid)"

definition current_pid :: "prof_env \<Rightarrow> u64 \<Rightarrow> u32 \<Rightarrow> u32" where
  "current_pid env ns_pid_ino pid =
     (if ns_pid_ino = 0 then ucast (drop_bit 32 (env_pid_tgid env))
      else current_pid_loop env ns_pid_ino PID_NESTED_NAMESPACES_MAX 0 pid)"

section \<open>Samples\<close>

text \<open>One more sample under a key: the idiom both profilers use on \<^verbatim>\<open>counts\<close>.\<close>

definition count_sample :: "sample_key \<Rightarrow> (sample_key, u32) bpf_map \<Rightarrow> (sample_key, u32) bpf_map" where
  "count_sample key m =
     (case bpf_map_lookup_elem m key of
        Some _ \<Rightarrow> bpf_map_modify (\<lambda>v. v + 1) key m
      | None \<Rightarrow> snd (bpf_hash_update_elem PROFILE_MAPS_SIZE m key 1 BPF_NOEXIST))"

definition framepointer_key :: "prof_env \<Rightarrow> u32 \<Rightarrow> pid_config \<Rightarrow> sample_key" where
  "framepointer_key env tgid config =
     (let key = \<lparr>sk_pid = tgid, sk_flags = 0, sk_kern_stack = -1, sk_user_stack = -1\<rparr>;
          key = (if pc_collect_kernel config \<noteq> 0
                 then key\<lparr>sk_kern_stack := env_stackid env KERN_STACKID_FLAGS\<rparr> else key) in
      if pc_collect_user config \<noteq> 0
      then key\<lparr>sk_user_stack := env_stackid env USER_STACKID_FLAGS\<rparr> else key)"

text \<open>
  The program on the sampling clock. \<open>progs\<close> is the entry \<^verbatim>\<open>PROG_IDX_PYTHON\<close> of the program
  array: when it is empty the tail call fails and the program goes on.
\<close>

definition do_perf_event ::
  "u64 \<Rightarrow> (prof_env \<Rightarrow> 'a prof_maps_scheme \<Rightarrow> 'a prof_maps_scheme) option \<Rightarrow> prof_env \<Rightarrow>
   'a prof_maps_scheme \<Rightarrow> 'a prof_maps_scheme" where
  "do_perf_event ns_pid_ino progs env s =
     (let tgid = current_pid env ns_pid_ino 0 in
      if tgid = 0 \<or> env_task env = 0 then s
      else case env_task_flags env of
        None \<Rightarrow> s
      | Some fl \<Rightarrow>
          if fl AND PF_KTHREAD \<noteq> 0 then s
          else (case bpf_map_lookup_elem (pids s) tgid of
            None \<Rightarrow>
              (let unknown = \<lparr>pc_type = PROFILING_TYPE_UNKNOWN, pc_collect_user = 0, pc_collect_kernel = 0,
                              pc_padding = 0\<rparr>;
                   (err, m) = bpf_hash_update_elem PIDS_ENTRIES (pids s) tgid unknown BPF_NOEXIST in
               if err \<noteq> 0 then s
               else s\<lparr>pids := m,
                      prof_events := prof_events s @
                        [\<lparr>pv_op = OP_REQUEST_UNKNOWN_PROCESS_INFO, pv_pid = tgid\<rparr>]\<rparr>)
          | Some config \<Rightarrow>
              if pc_type config = PROFILING_TYPE_ERROR \<or> pc_type config = PROFILING_TYPE_UNKNOWN then s
              else if pc_type config = PROFILING_TYPE_PYTHON then
                (case progs of None \<Rightarrow> s | Some prog \<Rightarrow> prog env s)
              else if pc_type config = PROFILING_TYPE_FRAMEPOINTERS then
                s\<lparr>counts := count_sample (framepointer_key env tgid config) (counts s)\<rparr>
              else s))"

section \<open>The life of a process\<close>

definition disassociate_ctty ::
  "u64 \<Rightarrow> prof_env \<Rightarrow> s32 \<Rightarrow> 'a prof_maps_scheme \<Rightarrow> 'a prof_maps_scheme" where
  "disassociate_ctty ns_pid_ino env on_exit s =
     (if on_exit = 0 then s
      else
        (let pid = current_pid env ns_pid_ino 0 in
         if pid = 0 then s
         else s\<lparr>pids := bpf_map_delete_elem (pids s) pid,
                prof_events := prof_events s @ [\<lparr>pv_op = OP_PID_DEAD, pv_pid = pid\<rparr>]\<rparr>))"

definition exec_probe :: "u64 \<Rightarrow> prof_env \<Rightarrow> 'a prof_maps_scheme \<Rightarrow> 'a prof_maps_scheme" where
  "exec_probe ns_pid_ino env s =
     (let pid = current_pid env ns_pid_ino 0 in
      if pid = 0 then s
      else s\<lparr>prof_events := prof_events s @ [\<lparr>pv_op = OP_REQUEST_EXEC_PROCESS_INFO, pv_pid = pid\<rparr>]\<rparr>)"

section \<open>The identifier found\<close>

text \<open>The levels the loop looks at, innermost first.\<close>

lemma current_pid_loop_first:
  assumes "\<And>j. j < k \<Longrightarrow> ucast (env_inum env (env_level env - of_nat (i + j))) \<noteq> ns_pid_ino"
    and "k < n" and "ucast (env_inum env (env_level env - of_nat (i + k))) = ns_pid_ino"
  shows "current_pid_loop env ns_pid_ino n i pid = env_nr env (env_level env - of_nat (i + k))"
  using assms
proof (induction k arbitrary: i n)
  case 0
  then show ?case by (cases n) simp_all
next
  case (Suc k)
  then obtain n' where n: "n = Suc n'" by (cases n) auto
  have "current_pid_loop env ns_pid_ino n' (Suc i) pid = env_nr env (env_level env - of_nat (Suc i + k))"
  proof (rule Suc.IH)
    show "ucast (env_inum env (env_level env - of_nat (Suc i + j))) \<noteq> ns_pid_ino" if "j < k" for j
      using Suc.prems(1) [of "Suc j"] that by simp
  qed (use Suc.prems n in simp_all)
  then show ?case using Suc.prems(1) [of 0] n by simp
qed

lemma current_pid_loop_none:
  assumes "\<And>j. j < n \<Longrightarrow> ucast (env_inum env (env_level env - of_nat (i + j))) \<noteq> ns_pid_ino"
  shows "current_pid_loop env ns_pid_ino n i pid = pid"
  using assms
proof (induction n arbitrary: i)
  case (Suc n)
  have "current_pid_loop env ns_pid_ino n (Suc i) pid = pid"
  proof (rule Suc.IH)
    show "ucast (env_inum env (env_level env - of_nat (Suc i + j))) \<noteq> ns_pid_ino" if "j < n" for j
      using Suc.prems [of "Suc j"] that by simp
  qed
  then show ?case using Suc.prems [of 0] by simp
qed simp

text \<open>
  The process identifier is the one of the configured namespace: without an inode it is the
  one of the host; otherwise that of the innermost of the four innermost levels whose namespace
  has the inode; and when none has it the variable keeps its value, so that a program which
  initialised it with 0 gives up.
\<close>

theorem current_pid_spec:
  "current_pid env ns_pid_ino pid =
     (if ns_pid_ino = 0 then pid_of (env_pid_tgid env)
      else case find (\<lambda>l. ucast (env_inum env l) = ns_pid_ino)
             (map (\<lambda>i. env_level env - of_nat i) [0..<4]) of
        Some l \<Rightarrow> env_nr env l
      | None \<Rightarrow> pid)"
proof (cases "find (\<lambda>l. ucast (env_inum env l) = ns_pid_ino) (map (\<lambda>i. env_level env - of_nat i) [0..<4])")
  case None
  then have "ucast (env_inum env (env_level env - of_nat (0 + j))) \<noteq> ns_pid_ino" if "j < 4" for j
    using that by (auto simp: find_None_iff)
  then show ?thesis
    using None current_pid_loop_none [of 4 env 0 ns_pid_ino pid] by (simp add: current_pid_def pid_of_def)
next
  case (Some l)
  then obtain k where k: "k < 4" "l = env_level env - of_nat k" "ucast (env_inum env l) = ns_pid_ino"
    "\<And>j. j < k \<Longrightarrow> ucast (env_inum env (env_level env - of_nat j)) \<noteq> ns_pid_ino"
    by (auto simp: find_Some_iff)
  then show ?thesis
    using Some current_pid_loop_first [of k env 0 ns_pid_ino 4 pid] by (simp add: current_pid_def pid_of_def)
qed

section \<open>Samples are counted\<close>

lemma lookup_count_sample:
  "bpf_map_lookup_elem m key \<noteq> None \<or> length m < PROFILE_MAPS_SIZE \<Longrightarrow>
   bpf_map_lookup_elem (count_sample key m) =
     (bpf_map_lookup_elem m)(key \<mapsto> (case bpf_map_lookup_elem m key of Some v \<Rightarrow> v | None \<Rightarrow> 0) + 1)"
  by (auto simp: count_sample_def fun_eq_iff hash.lookup_modify bpf_hash_update_elem_def Let_def flag_error_def
      bpf_map_lookup_elem_def update_conv' map_of_modify split: option.splits)

lemma map_within_count_sample:
  "map_within PROFILE_MAPS_SIZE K m \<Longrightarrow> key \<in> K \<Longrightarrow> map_within PROFILE_MAPS_SIZE K (count_sample key m)"
  by (auto simp: count_sample_def intro: map_within_intros split: option.splits)

text \<open>A sample of a process that is profiled by frame pointers, with its configuration.\<close>

definition framepointer_sample :: "u64 \<Rightarrow> prof_env \<Rightarrow> (u32, pid_config) bpf_map \<Rightarrow> sample_key option" where
  "framepointer_sample ns_pid_ino env m =
     (let tgid = current_pid env ns_pid_ino 0 in
      if tgid = 0 \<or> env_task env = 0 then None
      else case env_task_flags env of
        None \<Rightarrow> None
      | Some fl \<Rightarrow>
          if fl AND PF_KTHREAD \<noteq> 0 then None
          else (case bpf_map_lookup_elem m tgid of
            None \<Rightarrow> None
          | Some config \<Rightarrow>
              if pc_type config = PROFILING_TYPE_FRAMEPOINTERS then Some (framepointer_key env tgid config)
              else None))"

lemma do_perf_event_sample:
  "framepointer_sample ns_pid_ino env (pids s) = Some key \<Longrightarrow>
   do_perf_event ns_pid_ino progs env s = s\<lparr>counts := count_sample key (counts s)\<rparr>"
  by (auto simp: framepointer_sample_def do_perf_event_def Let_def split: option.splits if_splits)

lemma samples_counted_run:
  assumes "map_within PROFILE_MAPS_SIZE K (counts s)"
    and "\<forall>env\<in>set envs. \<exists>key\<in>K. framepointer_sample ns_pid_ino env (pids s) = Some key"
    and "s' = fold (do_perf_event ns_pid_ino progs) envs s"
  shows "(case bpf_map_lookup_elem (counts s') key of None \<Rightarrow> 0 | Some v \<Rightarrow> v) =
      (case bpf_map_lookup_elem (counts s) key of None \<Rightarrow> 0 | Some v \<Rightarrow> v) +
      of_nat (count_list (map (\<lambda>env. framepointer_sample ns_pid_ino env (pids s)) envs) (Some key)) \<and>
    pids s' = pids s"
  using assms
proof (induction envs arbitrary: s)
  case (Cons env envs)
  then obtain k where k: "k \<in> K" "framepointer_sample ns_pid_ino env (pids s) = Some k" by auto
  let ?t = "s\<lparr>counts := count_sample k (counts s)\<rparr>"
  have "s' = fold (do_perf_event ns_pid_ino progs) envs ?t"
    using Cons.prems(3) do_perf_event_sample [OF k(2)] by simp
  moreover have "map_within PROFILE_MAPS_SIZE K (counts ?t)"
    using map_within_count_sample Cons.prems(1) k(1) by simp
  ultimately have IH: "(case bpf_map_lookup_elem (counts s') key of None \<Rightarrow> 0 | Some v \<Rightarrow> v) =
      (case bpf_map_lookup_elem (counts ?t) key of None \<Rightarrow> 0 | Some v \<Rightarrow> v) +
      of_nat (count_list (map (\<lambda>env. framepointer_sample ns_pid_ino env (pids s)) envs) (Some key)) \<and>
    pids s' = pids s"
    using Cons.IH [of ?t] Cons.prems(2) by simp
  moreover have "bpf_map_lookup_elem (counts ?t) = (bpf_map_lookup_elem (counts s))(k \<mapsto>
      (case bpf_map_lookup_elem (counts s) k of Some v \<Rightarrow> v | None \<Rightarrow> 0) + 1)"
    using lookup_count_sample map_within_room [OF Cons.prems(1) k(1)] by simp
  ultimately show ?case using k(2) by (auto split: option.splits)
qed simp

text \<open>
  C34. Every sample counts once: after any sequence of ticks on processes profiled by frame
  pointers, with room in the map for all keys that occur, the counter of each key has grown by
  the number of samples with that key (modulo 32 bits), whatever program is in the array.
\<close>

theorem samples_counted:
  assumes "map_within PROFILE_MAPS_SIZE K (counts s)"
    and "\<forall>env\<in>set envs. \<exists>key\<in>K. framepointer_sample ns_pid_ino env (pids s) = Some key"
  shows "(case bpf_map_lookup_elem (counts (fold (do_perf_event ns_pid_ino progs) envs s)) key of
        None \<Rightarrow> 0 | Some v \<Rightarrow> v) =
      (case bpf_map_lookup_elem (counts s) key of None \<Rightarrow> 0 | Some v \<Rightarrow> v) +
      of_nat (count_list (map (\<lambda>env. framepointer_sample ns_pid_ino env (pids s)) envs) (Some key))"
  using samples_counted_run [OF assms refl] by blast

definition empty_prof_maps :: prof_maps where
  "empty_prof_maps = \<lparr>pids = [], prof_events = [], counts = []\<rparr>"

text \<open>An environment of a process in the host's namespace, for examples.\<close>

definition plain_prof_env :: "u64 \<Rightarrow> prof_env" where
  "plain_prof_env pid_tgid = bpf_env.extend (plain_env pid_tgid 0)
     \<lparr>env_task = 0x9000, env_task_flags = Some 0, env_level = 0, env_inum = (\<lambda>_. 0), env_nr = (\<lambda>_. 0),
      env_stackid = (\<lambda>fl. if fl = KERN_STACKID_FLAGS then 11 else 22), env_arch = X86,
      env_thread_pointer = Some 0\<rparr>"

lemma plain_prof_env_simps [simp]:
  "env_pid_tgid (plain_prof_env i) = i" "env_cpu (plain_prof_env i) = 0"
  "env_task (plain_prof_env i) = 0x9000" "env_task_flags (plain_prof_env i) = Some 0"
  "env_stackid (plain_prof_env i) fl = (if fl = KERN_STACKID_FLAGS then 11 else 22)"
  "env_arch (plain_prof_env i) = X86" "env_thread_pointer (plain_prof_env i) = Some 0"
  by (simp_all add: plain_prof_env_def bpf_env.defs plain_env_def)

theorem samples_counted_witness:
  "bpf_map_lookup_elem (counts (fold (do_perf_event 0 None)
     [plain_prof_env 0x700000008, plain_prof_env 0x700000009]
     (empty_prof_maps\<lparr>pids := [(7, \<lparr>pc_type = 2, pc_collect_user = 1, pc_collect_kernel = 0, pc_padding = 0\<rparr>)]\<rparr>)))
     \<lparr>sk_pid = 7, sk_flags = 0, sk_kern_stack = -1, sk_user_stack = 22\<rparr> = Some 2"
proof -
  let ?s = "empty_prof_maps\<lparr>pids := [(7, \<lparr>pc_type = 2, pc_collect_user = 1, pc_collect_kernel = 0, pc_padding = 0\<rparr>)]\<rparr>"
  let ?key = "\<lparr>sk_pid = 7, sk_flags = 0, sk_kern_stack = -1, sk_user_stack = 22\<rparr>"
  let ?envs = "[plain_prof_env 0x700000008, plain_prof_env 0x700000009]"
  have ids: "current_pid (plain_prof_env 0x700000008) 0 0 = 7" "current_pid (plain_prof_env 0x700000009) 0 0 = 7"
    by (simp_all add: current_pid_def)
  have samples: "\<forall>env\<in>set ?envs. framepointer_sample 0 env (pids ?s) = Some ?key"
    using ids by (simp add: framepointer_sample_def bpf_map_lookup_elem_def framepointer_key_def
        KERN_STACKID_FLAGS_def USER_STACKID_FLAGS_def)
  have "(case bpf_map_lookup_elem (counts (fold (do_perf_event 0 None) ?envs ?s)) ?key of None \<Rightarrow> 0 | Some v \<Rightarrow> v) =
      (case bpf_map_lookup_elem (counts ?s) ?key of None \<Rightarrow> 0 | Some v \<Rightarrow> v) +
      of_nat (count_list (map (\<lambda>env. framepointer_sample 0 env (pids ?s)) ?envs) (Some ?key))"
    by (rule samples_counted [where K = "{?key}"])
      (use samples in \<open>simp_all add: map_within_def map_wf_def empty_prof_maps_def\<close>)
  then show ?thesis
    using samples by (simp add: bpf_map_lookup_elem_def empty_prof_maps_def split: option.splits)
qed

section \<open>Requests to user space\<close>

text \<open>
  What happens to the set of processes of \<^verbatim>\<open>pids\<close> and to the events: ticks, ends of processes,
  \<^verbatim>\<open>exec\<close>, user space writing a configuration (\<^verbatim>\<open>setPidConfig\<close>), and user space deleting a
  process that has no entry in \<^verbatim>\<open>/proc\<close> any more (\<^verbatim>\<open>checkStalePids\<close>).
\<close>

datatype prof_trace =
    PerfEvent prof_env
  | Disassociate prof_env s32
  | Exec prof_env
  | Configure u32 pid_config
  | Forget u32

fun prof_step ::
  "u64 \<Rightarrow> (prof_env \<Rightarrow> 'a prof_maps_scheme \<Rightarrow> 'a prof_maps_scheme) option \<Rightarrow> prof_trace \<Rightarrow>
   'a prof_maps_scheme \<Rightarrow> 'a prof_maps_scheme" where
  "prof_step ns_pid_ino progs (PerfEvent env) s = do_perf_event ns_pid_ino progs env s"
| "prof_step ns_pid_ino progs (Disassociate env on_exit) s = disassociate_ctty ns_pid_ino env on_exit s"
| "prof_step ns_pid_ino progs (Exec env) s = exec_probe ns_pid_ino env s"
| "prof_step ns_pid_ino progs (Configure pid config) s =
     s\<lparr>pids := snd (bpf_hash_update_elem PIDS_ENTRIES (pids s) pid config BPF_ANY)\<rparr>"
| "prof_step ns_pid_ino progs (Forget pid) s = s\<lparr>pids := bpf_map_delete_elem (pids s) pid\<rparr>"

text \<open>The process a tick concerns: none for kernel threads and when the kernel gives no answer.\<close>

definition sampled_process :: "u64 \<Rightarrow> prof_env \<Rightarrow> u32 option" where
  "sampled_process ns_pid_ino env =
     (let tgid = current_pid env ns_pid_ino 0 in
      case env_task_flags env of
        None \<Rightarrow> None
      | Some fl \<Rightarrow>
          if tgid \<noteq> 0 \<and> env_task env \<noteq> 0 \<and> fl AND PF_KTHREAD = 0 then Some tgid else None)"

abbreviation (input) unknown_event :: "u32 \<Rightarrow> pid_event" where
  "unknown_event pid \<equiv> \<lparr>pv_op = OP_REQUEST_UNKNOWN_PROCESS_INFO, pv_pid = pid\<rparr>"

abbreviation (input) dead_event :: "u32 \<Rightarrow> pid_event" where
  "dead_event pid \<equiv> \<lparr>pv_op = OP_PID_DEAD, pv_pid = pid\<rparr>"

abbreviation (input) exec_event :: "u32 \<Rightarrow> pid_event" where
  "exec_event pid \<equiv> \<lparr>pv_op = OP_REQUEST_EXEC_PROCESS_INFO, pv_pid = pid\<rparr>"

fun known_step :: "u64 \<Rightarrow> prof_trace \<Rightarrow> u32 set \<times> pid_event list \<Rightarrow> u32 set \<times> pid_event list" where
  "known_step ns_pid_ino (PerfEvent env) (K, es) =
     (case sampled_process ns_pid_ino env of
        None \<Rightarrow> (K, es)
      | Some pid \<Rightarrow> if pid \<in> K \<or> PIDS_ENTRIES \<le> card K then (K, es) else (insert pid K, es @ [unknown_event pid]))"
| "known_step ns_pid_ino (Disassociate env on_exit) (K, es) =
     (let pid = current_pid env ns_pid_ino 0 in
      if on_exit = 0 \<or> pid = 0 then (K, es) else (K - {pid}, es @ [dead_event pid]))"
| "known_step ns_pid_ino (Exec env) (K, es) =
     (let pid = current_pid env ns_pid_ino 0 in if pid = 0 then (K, es) else (K, es @ [exec_event pid]))"
| "known_step ns_pid_ino (Configure pid config) (K, es) =
     (if pid \<in> K \<or> card K < PIDS_ENTRIES then (insert pid K, es) else (K, es))"
| "known_step ns_pid_ino (Forget pid) (K, es) = (K - {pid}, es)"

text \<open>
  The interface of the program in the array: it leaves the processes and the events alone.
\<close>

locale profiler_program =
  fixes prog :: "prof_env \<Rightarrow> 'a prof_maps_scheme \<Rightarrow> 'a prof_maps_scheme"
  assumes prog_pids: "pids (prog env s) = pids s"
    and prog_events: "prof_events (prog env s) = prof_events s"
begin

lemma perf_event_other:
  "bpf_map_lookup_elem (pids s) pid = Some config \<Longrightarrow> sampled_process ns_pid_ino env = Some pid \<Longrightarrow>
   pids (do_perf_event ns_pid_ino (Some prog) env s) = pids s \<and>
   prof_events (do_perf_event ns_pid_ino (Some prog) env s) = prof_events s"
  by (auto simp: do_perf_event_def sampled_process_def Let_def prog_pids prog_events
      split: option.splits if_splits)

lemma known_perf_event:
  assumes "map_wf PIDS_ENTRIES (pids s)"
  shows "(fst ` set (pids (do_perf_event ns_pid_ino (Some prog) env s)),
      prof_events (do_perf_event ns_pid_ino (Some prog) env s)) =
    known_step ns_pid_ino (PerfEvent env) (fst ` set (pids s), prof_events s) \<and>
    map_wf PIDS_ENTRIES (pids (do_perf_event ns_pid_ino (Some prog) env s))"
proof (cases "sampled_process ns_pid_ino env")
  case None
  then have "do_perf_event ns_pid_ino (Some prog) env s = s"
    by (auto simp: do_perf_event_def sampled_process_def Let_def split: option.splits if_splits)
  then show ?thesis using None assms by simp
next
  case (Some pid)
  have card: "card (fst ` set (pids s)) = length (pids s)"
    using assms distinct_card [of "map fst (pids s)"] by (simp add: map_wf_def)
  show ?thesis
  proof (cases "bpf_map_lookup_elem (pids s) pid")
    case unknown: None
    then have "pid \<notin> fst ` set (pids s)" by (simp add: bpf_map_lookup_elem_def map_of_eq_None_iff)
    then show ?thesis
      using Some unknown assms card
        map_wf_hash_update [of PIDS_ENTRIES "pids s" pid
          "\<lparr>pc_type = 1, pc_collect_user = 0, pc_collect_kernel = 0, pc_padding = 0\<rparr>" BPF_NOEXIST]
      by (auto simp: do_perf_event_def sampled_process_def Let_def bpf_hash_update_elem_def flag_error_def
          dom_map_of_conv_image_fst [symmetric] update_conv' split: option.splits if_splits)
  next
    case known: (Some config)
    then have "pid \<in> fst ` set (pids s)"
      by (auto simp: bpf_map_lookup_elem_def dom_map_of_conv_image_fst [symmetric])
    then show ?thesis using perf_event_other [OF known Some] Some assms by simp
  qed
qed

lemma known_prof_step:
  assumes "map_wf PIDS_ENTRIES (pids s)"
  shows "(fst ` set (pids (prof_step ns_pid_ino (Some prog) x s)), prof_events (prof_step ns_pid_ino (Some prog) x s)) =
    known_step ns_pid_ino x (fst ` set (pids s), prof_events s) \<and>
    map_wf PIDS_ENTRIES (pids (prof_step ns_pid_ino (Some prog) x s))"
proof (cases x)
  case (PerfEvent env)
  then show ?thesis using known_perf_event [OF assms] by simp
next
  case (Disassociate env on_exit)
  then show ?thesis
    using assms hash.wf_delete [OF assms]
    by (auto simp: disassociate_ctty_def Let_def bpf_map_delete_elem_def delete_conv'
        dom_map_of_conv_image_fst [symmetric] split: if_splits)
next
  case (Exec env)
  then show ?thesis using assms by (simp add: exec_probe_def Let_def)
next
  case (Configure pid config)
  have card: "card (fst ` set (pids s)) = length (pids s)"
    using assms distinct_card [of "map fst (pids s)"] by (simp add: map_wf_def)
  have "bpf_map_lookup_elem (pids s) pid = None \<longleftrightarrow> pid \<notin> fst ` set (pids s)"
    by (simp add: bpf_map_lookup_elem_def map_of_eq_None_iff)
  then show ?thesis
    using Configure assms card map_wf_hash_update [OF assms, of pid config BPF_ANY]
    by (auto simp: bpf_hash_update_elem_def flag_error_def Let_def update_conv'
        dom_map_of_conv_image_fst [symmetric])
next
  case (Forget pid)
  then show ?thesis
    using hash.wf_delete [OF assms]
    by (auto simp: bpf_map_delete_elem_def delete_conv' dom_map_of_conv_image_fst [symmetric] split: if_splits)
qed

lemma known_run:
  "map_wf PIDS_ENTRIES (pids s) \<Longrightarrow>
   (fst ` set (pids (fold (prof_step ns_pid_ino (Some prog)) xs s)),
      prof_events (fold (prof_step ns_pid_ino (Some prog)) xs s)) =
    fold (known_step ns_pid_ino) xs (fst ` set (pids s), prof_events s)"
  by (induction xs arbitrary: s) (simp_all add: known_prof_step)

end

text \<open>
  In any run of the abstract machine a process is asked for once, and once more for every time its
  end is reported or user space deletes it.
\<close>

lemma known_step_requests:
  assumes "known_step ns_pid_ino x (K, es) = (K', es')"
    and "count_list es (unknown_event pid) + of_bool (pid \<notin> K) \<le> Suc (count_list es (dead_event pid) + n)"
  shows "count_list es' (unknown_event pid) + of_bool (pid \<notin> K')
    \<le> Suc (count_list es' (dead_event pid) + (n + of_bool (x = Forget pid)))"
  using assms by (cases x) (auto simp: Let_def split: option.splits if_splits)

lemma known_run_requests:
  "count_list es (unknown_event pid) + of_bool (pid \<notin> K) \<le> Suc (count_list es (dead_event pid) + n) \<Longrightarrow>
   fold (known_step ns_pid_ino) xs (K, es) = (K', es') \<Longrightarrow>
   count_list es' (unknown_event pid) + of_bool (pid \<notin> K')
     \<le> Suc (count_list es' (dead_event pid) + (n + count_list xs (Forget pid)))"
proof (induction xs arbitrary: K es n)
  case (Cons x xs)
  obtain K1 es1 where s: "known_step ns_pid_ino x (K, es) = (K1, es1)" by (cases "known_step ns_pid_ino x (K, es)")
  have "count_list (x # xs) (Forget pid) = of_bool (x = Forget pid) + count_list xs (Forget pid)" by simp
  then show ?case
    using Cons.IH [OF known_step_requests [OF s Cons.prems(1)]] Cons.prems(2) s by (simp add: add.assoc)
qed auto

end
