(* ===== verification/Py_Memory.thy ===== *)
theory Py_Memory
  imports Profile
begin

unbundle bit_operations_syntax

text \<open>
  How the Python unwinder reads a foreign process: the offsets user space gives it
  (\<^verbatim>\<open>pyoffsets.h\<close>), the thread-specific value of \<^verbatim>\<open>pthread_getspecific\<close> on both architectures
  (\<^verbatim>\<open>pthread_amd64.h\<close>, \<^verbatim>\<open>pthread_arm64.h\<close>) and Python's string objects (\<^verbatim>\<open>pystr.h\<close>). A read of
  user memory that fails is \<open>None\<close>; the lemmas show that a string object is read back as it
  is laid out, cut at whole code points, and that no read goes past its buffer.
\<close>

section \<open>Offsets\<close>

datatype frame_owner =
    FRAME_OWNED_BY_THREAD | FRAME_OWNED_BY_GENERATOR | FRAME_OWNED_BY_FRAME_OBJECT | FRAME_OWNED_BY_CSTACK

fun owner_code :: "frame_owner \<Rightarrow> u8" where
  "owner_code FRAME_OWNED_BY_THREAD = 0"
| "owner_code FRAME_OWNED_BY_GENERATOR = 1"
| "owner_code FRAME_OWNED_BY_FRAME_OBJECT = 2"
| "owner_code FRAME_OWNED_BY_CSTACK = 3"

record libc =
  lc_musl :: bool
  lc_pthread_size :: s16
  lc_pthread_specific1stblock :: s16

record py_offset_config =
  PyThreadState_frame :: s16
  PyThreadState_cframe :: s16
  PyCFrame_current_frame :: s16
  PyCodeObject_co_filename :: s16
  PyCodeObject_co_name :: s16
  PyCodeObject_co_varnames :: s16
  PyCodeObject_co_localsplusnames :: s16
  PyCodeObject_co_cell2arg :: s16
  PyCodeObject_co_cellvars :: s16
  PyCodeObject_co_nlocals :: s16
  PyTupleObject_ob_item :: s16
  PyVarObject_ob_size :: s16
  PyObject_ob_type :: s16
  PyTypeObject_tp_name :: s16
  VFrame_code :: s16
  VFrame_previous :: s16
  VFrame_localsplus :: s16
  PyInterpreterFrame_owner :: s16
  PyASCIIObject_size :: s16
  PyCompactUnicodeObject_size :: s16
  PyCellObject_ob_ref :: s16
  py_base :: u64
  PyCell_Type :: u64

text \<open>A pointer displaced by an offset, and reads of a pointer and of an integer at an address.\<close>

definition ptr_add :: "u64 \<Rightarrow> s16 \<Rightarrow> u64" where
  "ptr_add p off = p + scast off"

definition read_u64 :: "mem \<Rightarrow> u64 \<Rightarrow> u64 option" where
  "read_u64 m a = map_option le_word (bpf_probe_read m 8 a)"

definition read_u32 :: "mem \<Rightarrow> u64 \<Rightarrow> u32 option" where
  "read_u32 m a = map_option le_word (bpf_probe_read m 4 a)"

section \<open>Thread-specific values\<close>

definition pthread_getspecific_glibc_amd64 :: "mem \<Rightarrow> libc \<Rightarrow> s32 \<Rightarrow> u64 \<Rightarrow> u64 option" where
  "pthread_getspecific_glibc_amd64 m libc key tls_base =
     (if 32 \<le>s key then None
      else read_u64 m (ptr_add tls_base (lc_pthread_specific1stblock libc) + scast (key * 0x10) + 0x08))"

definition pthread_getspecific_musl_amd64 :: "mem \<Rightarrow> libc \<Rightarrow> s32 \<Rightarrow> u64 \<Rightarrow> u64 option" where
  "pthread_getspecific_musl_amd64 m libc key tls_base =
     (case read_u64 m tls_base of
        None \<Rightarrow> None
      | Some tmp \<Rightarrow>
          (case read_u64 m (ptr_add tmp (lc_pthread_specific1stblock libc)) of
             None \<Rightarrow> None
           | Some tmp \<Rightarrow> read_u64 m (tmp + scast (key * 0x8))))"

definition pthread_getspecific_glibc_arm64 :: "mem \<Rightarrow> libc \<Rightarrow> s32 \<Rightarrow> u64 \<Rightarrow> u64 option" where
  "pthread_getspecific_glibc_arm64 m libc key tls_base =
     (if 32 \<le>s key then None
      else
        (let tls_base = tls_base - scast (lc_pthread_size libc) in
         read_u64 m (ptr_add tls_base (lc_pthread_specific1stblock libc) + scast (key * 0x10) + 0x08)))"

definition pthread_getspecific_musl_arm64 :: "mem \<Rightarrow> libc \<Rightarrow> s32 \<Rightarrow> u64 \<Rightarrow> u64 option" where
  "pthread_getspecific_musl_arm64 m libc key tls_base =
     (case read_u64 m (ptr_add (tls_base - scast (lc_pthread_size libc)) (lc_pthread_specific1stblock libc)) of
        None \<Rightarrow> None
      | Some tmp \<Rightarrow> read_u64 m (tmp + scast (key * 0x8)))"

definition pyro_pthread_getspecific_amd64 :: "prof_env \<Rightarrow> libc \<Rightarrow> s32 \<Rightarrow> u64 option" where
  "pyro_pthread_getspecific_amd64 env libc key =
     (if key = -1 then None
      else if env_task env = 0 then None
      else case env_thread_pointer env of
        None \<Rightarrow> None
      | Some tls_base \<Rightarrow>
          if lc_musl libc then pthread_getspecific_musl_amd64 (env_mem env) libc key tls_base
          else pthread_getspecific_glibc_amd64 (env_mem env) libc key tls_base)"

definition pyro_pthread_getspecific_arm64 :: "prof_env \<Rightarrow> libc \<Rightarrow> s32 \<Rightarrow> u64 option" where
  "pyro_pthread_getspecific_arm64 env libc key =
     (if key = -1 then None
      else if env_task env = 0 then None
      else case env_thread_pointer env of
        None \<Rightarrow> None
      | Some tls_base \<Rightarrow>
          if lc_musl libc then pthread_getspecific_musl_arm64 (env_mem env) libc key tls_base
          else pthread_getspecific_glibc_arm64 (env_mem env) libc key tls_base)"

text \<open>The header chosen at compile time.\<close>

definition pyro_pthread_getspecific :: "prof_env \<Rightarrow> libc \<Rightarrow> s32 \<Rightarrow> u64 option" where
  "pyro_pthread_getspecific env libc key =
     (case env_arch env of
        X86 \<Rightarrow> pyro_pthread_getspecific_amd64 env libc key
      | ARM64 \<Rightarrow> pyro_pthread_getspecific_arm64 env libc key)"

section \<open>Strings\<close>

abbreviation (input) PYSTR_TYPE_1BYTE :: u8 where "PYSTR_TYPE_1BYTE \<equiv> 1"
abbreviation (input) PYSTR_TYPE_2BYTE :: u8 where "PYSTR_TYPE_2BYTE \<equiv> 2"
abbreviation (input) PYSTR_TYPE_4BYTE :: u8 where "PYSTR_TYPE_4BYTE \<equiv> 4"
abbreviation (input) PYSTR_TYPE_ASCII :: u8 where "PYSTR_TYPE_ASCII \<equiv> 8"
abbreviation (input) PYSTR_TYPE_UTF8 :: u8 where "PYSTR_TYPE_UTF8 \<equiv> 16"
abbreviation (input) PYSTR_TYPE_NOT_COMPACT :: u8 where "PYSTR_TYPE_NOT_COMPACT \<equiv> 32"

record py_str_type =
  pst_type :: u8
  pst_size_codepoints :: u8

text \<open>
  The first 40 bytes of a string object: \<^verbatim>\<open>length\<close> at offset 16, the bit fields of \<^verbatim>\<open>state\<close> at
  offset 32 (\<^verbatim>\<open>interned\<close> bits 0 and 1, \<^verbatim>\<open>kind\<close> bits 2 to 4, \<^verbatim>\<open>compact\<close> bit 5, \<^verbatim>\<open>ascii\<close> bit 6).
\<close>

record PyASCIIObject =
  po_length :: u64
  po_kind :: u32
  po_compact :: bool
  po_ascii :: bool

definition PyASCIIObject_of :: "u8 list \<Rightarrow> PyASCIIObject" where
  "PyASCIIObject_of bs =
     (let state = le_word (field_at 32 4 bs) :: u32 in
      \<lparr>po_length = le_word (field_at 16 8 bs), po_kind = take_bit 3 (drop_bit 2 state),
       po_compact = bit state 5, po_ascii = bit state 6\<rparr>)"

text \<open>The result: whether the reads succeeded, the buffer and the type descriptor.\<close>

definition pystr_read ::
  "prof_env \<Rightarrow> u64 \<Rightarrow> py_offset_config \<Rightarrow> u8 list \<Rightarrow> u64 \<Rightarrow> py_str_type \<Rightarrow> bool \<times> u8 list \<times> py_str_type" where
  "pystr_read env str offsets buf buf_size typ =
     (case bpf_probe_read (env_mem env) 40 str of
        None \<Rightarrow> (False, buf, typ)
      | Some bs \<Rightarrow>
          (let pystr = PyASCIIObject_of bs in
           if \<not> po_compact pystr then (True, buf, typ\<lparr>pst_type := PYSTR_TYPE_NOT_COMPACT\<rparr>)
           else
             (let kind = ucast (po_kind pystr) :: u64;
                  sz_bytes = kind * po_length pystr;
                  (sz_bytes, typ) =
                    (if sz_bytes > buf_size
                     then (buf_size, typ\<lparr>pst_size_codepoints := ucast (buf_size div kind)\<rparr>)
                     else (sz_bytes, typ\<lparr>pst_size_codepoints := ucast (po_length pystr)\<rparr>));
                  (typ, data) =
                    (if po_ascii pystr
                     then (typ\<lparr>pst_type := ucast (po_kind pystr) OR PYSTR_TYPE_ASCII\<rparr>,
                           ptr_add str (PyASCIIObject_size offsets))
                     else (typ\<lparr>pst_type := ucast (po_kind pystr)\<rparr>,
                           ptr_add str (PyCompactUnicodeObject_size offsets)));
                  n = unat sz_bytes in
              case bpf_probe_read (env_mem env) n data of
                None \<Rightarrow> (False, map (env_junk env) [0..<n] @ drop n buf, typ)
              | Some d \<Rightarrow> (True, d @ drop n buf, typ))))"

section \<open>Arrays in memory\<close>

text \<open>An array of elements that all have the same size.\<close>

lemma length_concat_map: "(\<And>x. length (f x) = k) \<Longrightarrow> length (concat (map f xs)) = k * length xs"
  by (induction xs) auto

lemma field_at_concat_map:
  assumes "\<And>x. length (f x) = k" and "i < length xs"
  shows "field_at (k * i) k (concat (map f xs)) = f (xs ! i)"
  using assms(2)
proof (induction xs arbitrary: i)
  case (Cons x xs)
  then show ?case
    using assms(1) [of x] by (cases i) (simp_all add: field_at_here field_at_skip)
qed simp

lemma read_u64_holds: "holds_at m a (le_bytes 8 v) \<Longrightarrow> read_u64 m a = Some v"
  by (simp add: read_u64_def holds_at_def)

lemma read_u64_element:
  assumes "holds_at m a (concat (map f xs))" and "\<And>x. length (f x) = k" and "i < length xs"
    and "off + 8 \<le> k" and "field_at off 8 (f (xs ! i)) = le_bytes 8 v"
  shows "read_u64 m (a + of_nat (k * i + off)) = Some v"
proof -
  let ?bs = "concat (map f xs)"
  have len: "length ?bs = k * length xs" by (rule length_concat_map) (rule assms(2))
  have "k * i + k \<le> k * length xs" using mult_le_mono2 [of "Suc i" "length xs" k] assms(3) by simp
  then have "k * i + off + 8 \<le> length ?bs" using len assms(4) by simp
  then have "bpf_probe_read m 8 (a + of_nat (k * i + off)) = Some (field_at (k * i + off) 8 ?bs)"
    by (rule bpf_probe_read_holds [OF assms(1)])
  moreover have "field_at (k * i + off) 8 ?bs = field_at off 8 (field_at (k * i) k ?bs)"
    using assms(4) by (simp add: field_at_def take_drop min_def add.commute)
  ultimately show ?thesis
    using field_at_concat_map [of f k i xs] assms(2,3,5) by (simp add: read_u64_def)
qed

section \<open>Thread-specific values are found\<close>

text \<open>
  Where the C libraries keep the values of a thread: glibc in the first block of the thread
  descriptor, an array of 32 pairs of a sequence number and the value; musl in an array the
  descriptor points to. On x86-64 the thread pointer is the address of the descriptor, whose
  first word is that address again; on AArch64 the descriptor lies below it.
\<close>

definition thread_descriptor :: "arch \<Rightarrow> libc \<Rightarrow> u64 \<Rightarrow> u64" where
  "thread_descriptor a libc tp = (case a of X86 \<Rightarrow> tp | ARM64 \<Rightarrow> tp - scast (lc_pthread_size libc))"

definition holds_values :: "arch \<Rightarrow> mem \<Rightarrow> libc \<Rightarrow> u64 \<Rightarrow> (u64 \<times> u64) list \<Rightarrow> bool" where
  "holds_values a m libc tp slots \<longleftrightarrow>
     (let block = ptr_add (thread_descriptor a libc tp) (lc_pthread_specific1stblock libc) in
      if lc_musl libc
      then (a = X86 \<longrightarrow> holds_at m tp (le_bytes 8 tp)) \<and>
        (case read_u64 m block of
           None \<Rightarrow> False
         | Some tsd \<Rightarrow> holds_at m tsd (concat (map (\<lambda>(_, v). le_bytes 8 v) slots)))
      else length slots = 32 \<and>
        holds_at m block (concat (map (\<lambda>(seq, v). le_bytes 8 seq @ le_bytes 8 v) slots)))"

lemma scast_of_nat_small: "n < 2 ^ 31 \<Longrightarrow> (scast (of_nat n :: s32) :: u64) = of_nat n"
  by (simp add: signed_of_nat signed_take_bit_int_eq_self)

lemma scast_key:
  assumes "k < 2 ^ 20"
  shows "(scast (of_nat k * 0x8 :: s32) :: u64) = of_nat (8 * k)"
    and "(scast (of_nat k * 0x10 :: s32) :: u64) = of_nat (16 * k)"
  using scast_of_nat_small [of "8 * k"] scast_of_nat_small [of "16 * k"] assms by (simp_all add: mult.commute)

lemma sless_key: "k < 2 ^ 31 \<Longrightarrow> 32 \<le>s (of_nat k :: s32) \<longleftrightarrow> 32 \<le> k"
  by (simp add: word_sle_eq signed_of_nat signed_take_bit_int_eq_self)

lemma glibc_value:
  assumes "holds_at m block (concat (map (\<lambda>(seq, v). le_bytes 8 seq @ le_bytes 8 v) slots))"
    and "length slots = 32" and "k < 32"
  shows "read_u64 m (block + scast (of_nat k * 0x10 :: s32) + 0x08) = Some (snd (slots ! k))"
  using read_u64_element [of m block _ slots 16 k 8, OF assms(1)] assms(2,3) scast_key(2) [of k]
  by (simp add: split_beta field_at_simps add.assoc) (simp add: field_at_def)

lemma musl_value:
  assumes "holds_at m tsd (concat (map (\<lambda>(_, v). le_bytes 8 v) slots))" and "k < length slots"
    and "length slots \<le> 2 ^ 20"
  shows "read_u64 m (tsd + scast (of_nat k * 0x8 :: s32)) = Some (snd (slots ! k))"
  using read_u64_element [of m tsd _ slots 8 k 0, OF assms(1)] assms(2,3) scast_key(1) [of k]
  by (simp add: split_beta field_at_def)

text \<open>
  The value of a thread-specific key is the one the thread's C library keeps, for both
  libraries and both architectures; keys of glibc from 32 on, which it keeps in other blocks,
  are refused.
\<close>

theorem getspecific_value:
  assumes "holds_values (env_arch env) (env_mem env) libc tp slots"
    and "env_task env \<noteq> 0" and "env_thread_pointer env = Some tp"
    and "if lc_musl libc then k < length slots \<and> length slots \<le> 2 ^ 20 else k < 2 ^ 31"
  shows "pyro_pthread_getspecific env libc (of_nat k) =
    (if \<not> lc_musl libc \<and> 32 \<le> k then None else Some (snd (slots ! k)))"
proof -
  have small: "k < 2 ^ 31" using assms(4) by (auto split: if_splits)
  have "(of_nat k :: s32) \<noteq> -1"
  proof
    assume "(of_nat k :: s32) = -1"
    then have "sint (of_nat k :: s32) = -1" by simp
    then show False using small by (simp add: signed_of_nat signed_take_bit_int_eq_self)
  qed
  note key = this sless_key [OF small]
  show ?thesis
  proof (cases "lc_musl libc")
    case True
    then show ?thesis
      using assms key musl_value [of "env_mem env" _ slots k]
      by (auto simp: pyro_pthread_getspecific_def pyro_pthread_getspecific_amd64_def
          pyro_pthread_getspecific_arm64_def pthread_getspecific_musl_amd64_def
          pthread_getspecific_musl_arm64_def holds_values_def Let_def thread_descriptor_def
          read_u64_holds split: arch.splits option.splits)
  next
    case False
    then show ?thesis
      using assms key glibc_value [of "env_mem env" _ slots k]
      by (auto simp: pyro_pthread_getspecific_def pyro_pthread_getspecific_amd64_def
          pyro_pthread_getspecific_arm64_def pthread_getspecific_glibc_amd64_def
          pthread_getspecific_glibc_arm64_def holds_values_def Let_def thread_descriptor_def
          split: arch.splits)
  qed
qed

text \<open>A task of glibc on x86-64 whose key 2 has the value \<^verbatim>\<open>0x5002\<close>.\<close>

theorem getspecific_value_witness:
  "pyro_pthread_getspecific
     ((plain_prof_env 7)\<lparr>env_thread_pointer := Some 0x1000,
        env_mem := mem_of 0x1310 (concat (map (\<lambda>(seq, v). le_bytes 8 seq @ le_bytes 8 v)
          (map (\<lambda>i. (1 :: u64, 0x5000 + of_nat i :: u64)) [0..<32])))\<rparr>)
     \<lparr>lc_musl = False, lc_pthread_size = 0x900, lc_pthread_specific1stblock = 0x310\<rparr> 2 = Some 0x5002"
proof -
  let ?slots = "map (\<lambda>i. (1 :: u64, 0x5000 + of_nat i :: u64)) [0..<32]"
  let ?enc = "\<lambda>(seq :: u64, v :: u64). le_bytes 8 seq @ le_bytes 8 v"
  let ?libc = "\<lparr>lc_musl = False, lc_pthread_size = 0x900, lc_pthread_specific1stblock = 0x310\<rparr>"
  let ?env = "(plain_prof_env 7)\<lparr>env_thread_pointer := Some 0x1000,
    env_mem := mem_of 0x1310 (concat (map ?enc ?slots))\<rparr>"
  have "length (concat (map ?enc ?slots)) = 16 * length ?slots"
    by (rule length_concat_map) auto
  then have "holds_at (mem_of 0x1310 (concat (map ?enc ?slots))) 0x1310 (concat (map ?enc ?slots))"
    by (intro holds_at_mem_of) (simp del: map_map)
  then have "holds_values X86 (env_mem ?env) ?libc 0x1000 ?slots"
    by (simp add: holds_values_def thread_descriptor_def ptr_add_def del: map_map)
  then have "pyro_pthread_getspecific ?env ?libc (of_nat 2) =
      (if \<not> lc_musl ?libc \<and> 32 \<le> (2 :: nat) then None else Some (snd (?slots ! 2)))"
    by (intro getspecific_value [where tp = "0x1000"]) simp_all
  then show ?thesis by simp
qed

section \<open>Strings are read back\<close>

text \<open>
  A compact string object of CPython: the header with its length and \<^verbatim>\<open>state\<close>, and the characters,
  of \<open>kind\<close> bytes each, after the header that \<open>asc\<close> selects.
\<close>

definition pystr_state :: "u32 \<Rightarrow> nat \<Rightarrow> bool \<Rightarrow> bool \<Rightarrow> u32" where
  "pystr_state interned kind compact asc =
     take_bit 2 interned OR push_bit 2 (of_nat kind) OR push_bit 5 (of_bool compact) OR push_bit 6 (of_bool asc)"

definition pystr_header :: "u8 list \<Rightarrow> u64 \<Rightarrow> u8 list \<Rightarrow> u32 \<Rightarrow> u8 list \<Rightarrow> u8 list" where
  "pystr_header ob len hash state pad = ob @ le_bytes 8 len @ hash @ le_bytes 4 state @ pad"

definition pystr_data :: "py_offset_config \<Rightarrow> bool \<Rightarrow> u64 \<Rightarrow> u64" where
  "pystr_data offsets asc str =
     ptr_add str (if asc then PyASCIIObject_size offsets else PyCompactUnicodeObject_size offsets)"

definition holds_pystr :: "mem \<Rightarrow> py_offset_config \<Rightarrow> u64 \<Rightarrow> nat \<Rightarrow> bool \<Rightarrow> u32 list \<Rightarrow> bool" where
  "holds_pystr m offsets str kind asc chars \<longleftrightarrow>
     kind \<in> {1, 2, 4} \<and> (\<forall>c\<in>set chars. unat c < 2 ^ (8 * kind)) \<and> length chars < 2 ^ 32 \<and>
     (\<exists>ob hash interned pad. length ob = 16 \<and> length hash = 8 \<and> length pad = 4 \<and>
        holds_at m str (pystr_header ob (of_nat (length chars)) hash (pystr_state interned kind True asc) pad)) \<and>
     holds_at m (pystr_data offsets asc str) (concat (map (le_bytes kind) chars))"

lemma state_bits:
  fixes kw interned :: u32 and compact asc :: bool
  assumes "kw = take_bit 3 kw"
  defines "state \<equiv> take_bit 2 interned OR push_bit 2 kw OR push_bit 5 (of_bool compact) OR push_bit 6 (of_bool asc)"
  shows "take_bit 3 (drop_bit 2 state) = kw" and "bit state 5 = compact" and "bit state 6 = asc"
proof -
  have small: "i < 3" if "bit kw i" for i
    using that assms(1) by (metis bit_take_bit_iff)
  have "bit (drop_bit 2 state) i = bit kw i" if "i < 3" for i
    using that by (auto simp: state_def bit_simps)
  then show "take_bit 3 (drop_bit 2 state) = kw"
    by (intro bit_word_eqI) (use small in \<open>auto simp: bit_take_bit_iff\<close>)
  show "bit state 5 = compact" and "bit state 6 = asc"
    using small [of 3] small [of 4] by (auto simp: state_def bit_simps)
qed

lemma PyASCIIObject_header:
  assumes "length ob = 16" and "length hash = 8" and "length pad = 4" and "kind < 8"
  shows "PyASCIIObject_of (pystr_header ob len hash (pystr_state interned kind compact asc) pad) =
    \<lparr>po_length = len, po_kind = of_nat kind, po_compact = compact, po_ascii = asc\<rparr>"
proof -
  have "(of_nat kind :: u32) = take_bit 3 (of_nat kind)"
    using assms(4) by (simp add: take_bit_nat_eq_self flip: of_nat_take_bit)
  then show ?thesis
    using assms state_bits [of "of_nat kind" interned compact asc]
    by (simp add: PyASCIIObject_of_def pystr_header_def field_at_simps flip: pystr_state_def)
qed

text \<open>The first \<open>n\<close> characters of a buffer.\<close>

definition pystr_chars :: "nat \<Rightarrow> nat \<Rightarrow> u8 list \<Rightarrow> u32 list" where
  "pystr_chars kind n buf = map (\<lambda>i. le_word (field_at (kind * i) kind buf)) [0..<n]"

lemma le_word_le_bytes_short:
  fixes c :: u32
  assumes "unat c < 2 ^ (8 * k)"
  shows "le_word (le_bytes k c) = c"
proof (rule bit_word_eqI)
  fix i assume i: "i < LENGTH(32)"
  have "\<not> bit c i" if "8 * k \<le> i"
  proof -
    have "take_bit (8 * k) c = c"
      using assms
      by (intro word_unat_eq_iff [THEN iffD2]) (simp add: unsigned_take_bit_eq take_bit_nat_eq_self)
    then show ?thesis using that by (metis bit_take_bit_iff not_less)
  qed
  moreover have "i div 8 < k \<longleftrightarrow> i < 8 * k" by (simp add: div_less_iff_less_mult mult.commute)
  ultimately show "bit (le_word (le_bytes k c) :: u32) i = bit c i"
    using i by (auto simp: bit_le_word nth_le_bytes bit_simps not_less)
qed

lemma pystr_chars_prefix:
  assumes "kind * n \<le> sz" and "n \<le> length chars" and "\<forall>c\<in>set chars. unat c < 2 ^ (8 * kind)"
  shows "pystr_chars kind n (take sz (concat (map (le_bytes kind) chars)) @ rest) = take n chars"
proof (rule nth_equalityI)
  fix i assume "i < length (pystr_chars kind n (take sz (concat (map (le_bytes kind) chars)) @ rest))"
  then have i: "i < n" by (simp add: pystr_chars_def)
  let ?data = "concat (map (le_bytes kind) chars)"
  have "kind * i + kind \<le> kind * n" using mult_le_mono2 [of "Suc i" n kind] i by simp
  moreover have "kind * n \<le> length ?data"
    using length_concat_map [of "le_bytes kind" kind chars] assms(2) by simp
  ultimately have "field_at (kind * i) kind (take sz ?data @ rest) = field_at (kind * i) kind ?data"
    using assms(1) by (auto simp: field_at_def drop_take min_def)
  also have "\<dots> = le_bytes kind (chars ! i)"
    using i assms(2) by (intro field_at_concat_map) simp_all
  finally show "pystr_chars kind n (take sz ?data @ rest) ! i = take n chars ! i"
    using i assms(2,3) by (simp add: pystr_chars_def le_word_le_bytes_short)
qed (use assms in \<open>simp add: pystr_chars_def\<close>)

lemma take_min_length: "take (min (length xs) n) xs = take n xs"
  by (simp add: min_def)

lemma pystr_read_exact:
  assumes "holds_pystr (env_mem env) offsets str kind asc chars" and "length buf = unat buf_size"
  defines "n \<equiv> min (length buf) (kind * length chars)"
  shows "pystr_read env str offsets buf buf_size typ =
    (True, take n (concat (map (le_bytes kind) chars)) @ drop n buf,
     \<lparr>pst_type = of_nat kind OR (if asc then PYSTR_TYPE_ASCII else 0),
      pst_size_codepoints = of_nat (min (length chars) (length buf div kind))\<rparr>)"
proof -
  let ?len = "length chars" and ?B = "length buf"
  let ?data = "concat (map (le_bytes kind) chars)"
  obtain ob hash interned pad where hdr: "length ob = 16" "length hash = 8" "length pad = 4"
    "holds_at (env_mem env) str (pystr_header ob (of_nat ?len) hash (pystr_state interned kind True asc) pad)"
    and data: "holds_at (env_mem env) (pystr_data offsets asc str) ?data"
    and kind: "kind \<in> {1, 2, 4}" and fit: "\<forall>c\<in>set chars. unat c < 2 ^ (8 * kind)" and len: "?len < 2 ^ 32"
    using assms(1) unfolding holds_pystr_def by blast
  have "bpf_probe_read (env_mem env) 40 str = Some (pystr_header ob (of_nat ?len) hash (pystr_state interned kind True asc) pad)"
    using hdr by (simp add: holds_at_def pystr_header_def)
  moreover have "PyASCIIObject_of (pystr_header ob (of_nat ?len) hash (pystr_state interned kind True asc) pad) =
      \<lparr>po_length = of_nat ?len, po_kind = of_nat kind, po_compact = True, po_ascii = asc\<rparr>"
    using kind by (intro PyASCIIObject_header hdr) auto
  moreover have k64: "ucast (of_nat kind :: u32) = (of_nat kind :: u64)" "ucast (of_nat kind :: u32) = (of_nat kind :: u8)"
    using kind by auto
  moreover have prod: "unat (of_nat kind * of_nat ?len :: u64) = kind * ?len"
    using kind len by (auto simp: unat_of_nat simp flip: of_nat_mult)
  moreover have gt: "buf_size < of_nat kind * of_nat ?len \<longleftrightarrow> ?B < kind * ?len"
    using prod assms(2) by (simp add: word_less_nat_alt)
  moreover have "ucast (of_nat ?len :: u64) = (of_nat ?len :: u8)"
    using len by (simp add: unsigned_of_nat take_bit_nat_eq_self)
  moreover have "ucast (buf_size div of_nat kind) = (of_nat (?B div kind) :: u8)"
  proof -
    have "unat (buf_size div of_nat kind) = ?B div kind"
      using kind assms(2) by (auto simp: unat_div)
    then show ?thesis by (metis of_nat_unat)
  qed
  moreover have cut: "min ?len (?B div kind) = (if ?B < kind * ?len then ?B div kind else ?len)"
    using kind by (auto simp: min_def)
  moreover have "bpf_probe_read (env_mem env) (min ?B (kind * ?len)) (pystr_data offsets asc str) =
      Some (take (min ?B (kind * ?len)) ?data)"
    using length_concat_map [of "le_bytes kind" kind chars] by (intro bpf_probe_read_holds0 data) simp
  ultimately show ?thesis
    unfolding n_def using cut assms(2)
    by (cases "typ"; cases asc; cases "?B < kind * ?len") (simp_all add: pystr_read_def Let_def pystr_data_def)
qed

text \<open>
  C35. A string object is read back: the descriptor gives its kind and whether it is ASCII, and
  the characters in the buffer are those of the object, all of them when they fit and otherwise
  as many whole characters as the buffer holds.
\<close>

theorem pystr_read_back:
  assumes "holds_pystr (env_mem env) offsets str kind asc chars"
    and "length buf = unat buf_size"
  shows "\<exists>buf'. pystr_read env str offsets buf buf_size typ = (True, buf',
      \<lparr>pst_type = of_nat kind OR (if asc then PYSTR_TYPE_ASCII else 0),
       pst_size_codepoints = of_nat (min (length chars) (length buf div kind))\<rparr>) \<and>
    length buf' = length buf \<and>
    pystr_chars kind (min (length chars) (length buf div kind)) buf' =
      take (length buf div kind) chars"
proof -
  let ?len = "length chars" and ?B = "length buf"
  let ?n = "min ?B (kind * ?len)"
  have "kind * min ?len (?B div kind) \<le> ?n"
    using order_trans [OF mult_le_mono2 [OF min.cobounded2] times_div_less_eq_dividend] by simp
  moreover have "\<forall>c\<in>set chars. unat c < 2 ^ (8 * kind)" using assms(1) by (simp add: holds_pystr_def)
  ultimately show ?thesis
    using pystr_read_exact [OF assms(1,2), of "typ"] pystr_chars_prefix [of kind "min ?len (?B div kind)" ?n chars]
      length_concat_map [of "le_bytes kind" kind chars] by (simp add: take_min_length)
qed

section \<open>Any object\<close>

text \<open>The test on the size holds in 64 bits; what the descriptor counts fits all the same.\<close>

lemma counted_chars_fit:
  fixes k len :: u64
  assumes "k \<in> {1, 2, 4}" and "unat (k * len) \<le> B" and "B < 256"
  shows "unat k * unat (ucast len :: u8) \<le> B"
proof -
  have low: "unat (ucast len :: u8) = unat len mod 256"
    by (simp add: unsigned_ucast_eq take_bit_eq_mod)
  obtain j where j: "unat k = 2 ^ j" "j \<le> 2" using assms(1) by (auto intro: that [of 0] that [of 1] that [of 2])
  have "unat (k * len) = (2 ^ j * unat len) mod 2 ^ 64"
    using j(1) by (simp add: unat_word_ariths)
  also have "\<dots> = 2 ^ j * (unat len mod 2 ^ (64 - j))"
    using j(2) by (simp add: mult_mod_right flip: power_add)
  finally have prod: "unat (k * len) = 2 ^ j * (unat len mod 2 ^ (64 - j))" .
  then have "unat len mod 2 ^ (64 - j) \<le> B"
    using assms(2) by (metis le_trans le_square mult_le_mono1 nat_mult_1 one_le_numeral one_le_power)
  then have "unat len mod 2 ^ (64 - j) mod 256 = unat len mod 2 ^ (64 - j)"
    using assms(3) by simp
  moreover have "unat len mod 2 ^ (64 - j) mod 2 ^ 8 = unat len mod 2 ^ 8"
    using j(2) by (intro mod_mod_cancel le_imp_power_dvd) simp
  ultimately show ?thesis using prod low j(1) assms(2) by simp
qed

lemma pystr_read_length:
  "length buf = unat buf_size \<Longrightarrow>
   length (fst (snd (pystr_read env str offsets buf buf_size typ))) = length buf"
  by (auto simp: pystr_read_def Let_def word_less_nat_alt split: option.splits dest: bpf_probe_read_length)

lemma kind_bits:
  fixes w :: u32
  shows "(ucast (take_bit 3 w) :: u8) AND 7 = ucast (take_bit 3 w)"
    and "((ucast (take_bit 3 w) :: u8) OR 8) AND 7 = ucast (take_bit 3 w)"
proof -
  have m: "(7 :: u8) = mask 3" and e: "(8 :: u8) = push_bit 3 (of_bool True)"
    by (simp_all add: mask_eq_exp_minus_1)
  show "(ucast (take_bit 3 w) :: u8) AND 7 = ucast (take_bit 3 w)"
    unfolding m by (rule bit_word_eqI) (auto simp: bit_simps)
  have "bit (((ucast (take_bit 3 w) :: u8) OR push_bit 3 (of_bool x)) AND mask 3) i =
    bit (ucast (take_bit 3 w) :: u8) i" for i x
    by (auto simp: bit_simps)
  then show "((ucast (take_bit 3 w) :: u8) OR 8) AND 7 = ucast (take_bit 3 w)"
    unfolding m e by (intro bit_word_eqI) blast
qed

lemma ucast_kind:
  fixes w :: u32
  shows "unat (ucast (take_bit 3 w) :: u8) = unat (ucast (take_bit 3 w) :: u64)"
proof -
  have "unat (take_bit 3 w) < 2 ^ 3" unfolding unsigned_take_bit_eq by (rule take_bit_nat_less_exp)
  then show ?thesis by (simp add: unsigned_ucast_eq take_bit_nat_eq_self)
qed

text \<open>
  Whatever lies at the address: the buffer keeps its size, so nothing is written past its
  end, and for the kinds CPython has the characters the descriptor counts are all in the buffer,
  also when the product of kind and length wraps around.
\<close>

theorem pystr_read_bounds:
  assumes "pystr_read env str offsets buf buf_size typ = (ok, buf', typ')"
    and "length buf = unat buf_size" and "length buf < 256"
  shows "length buf' = length buf \<and>
    (ok \<and> pst_type typ' AND 7 \<in> {1, 2, 4} \<longrightarrow>
     unat (pst_type typ' AND 7) * unat (pst_size_codepoints typ') \<le> length buf)"
proof (intro conjI impI)
  show "length buf' = length buf"
    using pystr_read_length [OF assms(2), of env str offsets "typ"] assms(1) by simp
  assume ok: "ok \<and> pst_type typ' AND 7 \<in> {1, 2, 4}"
  obtain bs where bs: "bpf_probe_read (env_mem env) 40 str = Some bs"
    using assms(1) ok by (auto simp: pystr_read_def split: option.splits)
  obtain w where w: "po_kind (PyASCIIObject_of bs) = take_bit 3 w" by (simp add: PyASCIIObject_of_def Let_def)
  let ?kind = "ucast (take_bit 3 w) :: u64" and ?len = "po_length (PyASCIIObject_of bs)"
  have compact: "po_compact (PyASCIIObject_of bs)"
    using assms(1) ok bs by (auto simp: pystr_read_def Let_def split: if_splits)
  then have kind: "pst_type typ' AND 7 = ucast (take_bit 3 w)"
    and count: "pst_size_codepoints typ' =
      (if ?kind * ?len > buf_size then ucast (buf_size div ?kind) else ucast ?len)"
    using assms(1) bs w by (auto simp: pystr_read_def Let_def kind_bits split: if_splits option.splits)
  have unat_kind: "unat (pst_type typ' AND 7) = unat ?kind"
    unfolding kind by (rule ucast_kind)
  then have k: "?kind \<in> {1, 2, 4}" using ok by (auto simp: word_unat_eq_iff)
  show "unat (pst_type typ' AND 7) * unat (pst_size_codepoints typ') \<le> length buf"
  proof (cases "?kind * ?len > buf_size")
    case True
    have "unat (buf_size div ?kind) = length buf div unat ?kind"
      using assms(2) by (simp add: unat_div)
    moreover have "length buf div unat ?kind < 2 ^ 8"
      by (rule order_le_less_trans [OF div_le_dividend]) (use assms(3) in simp)
    ultimately have "unat (ucast (buf_size div ?kind) :: u8) = length buf div unat ?kind"
      unfolding unsigned_ucast_eq by (simp add: take_bit_nat_eq_self del: unsigned_ucast_eq)
    then show ?thesis using True count unat_kind by simp
  next
    case False
    then show ?thesis
      using counted_chars_fit [OF k _ assms(3), of ?len] count unat_kind assms(2)
      by (simp add: word_le_nat_alt word_less_nat_alt not_less)
  qed
qed

definition sample_offsets :: py_offset_config where
  "sample_offsets =
     \<lparr>PyThreadState_frame = 24, PyThreadState_cframe = -1, PyCFrame_current_frame = -1,
      PyCodeObject_co_filename = 104, PyCodeObject_co_name = 112, PyCodeObject_co_varnames = 72,
      PyCodeObject_co_localsplusnames = -1, PyCodeObject_co_cell2arg = -1, PyCodeObject_co_cellvars = -1,
      PyCodeObject_co_nlocals = 24, PyTupleObject_ob_item = 24, PyVarObject_ob_size = 16,
      PyObject_ob_type = 8, PyTypeObject_tp_name = 24, VFrame_code = 32, VFrame_previous = 24,
      VFrame_localsplus = 352, PyInterpreterFrame_owner = -1, PyASCIIObject_size = 48,
      PyCompactUnicodeObject_size = 72, PyCellObject_ob_ref = 16, py_base = 0, PyCell_Type = 0x7000\<rparr>"

text \<open>A two-byte string whose length field is \<^verbatim>\<open>2^63 + 5\<close>: the product is 10, and so is what is read.\<close>

theorem pystr_read_bounds_witness:
  "pystr_read ((plain_prof_env 7)\<lparr>env_mem := mem_of 0x1000 (pystr_header (replicate 16 0) 0x8000000000000005
       (replicate 8 0) 40 (replicate 4 0) @ replicate 100 7)\<rparr>) 0x1000 sample_offsets (replicate 64 0) 64 \<lparr>pst_type = 0, pst_size_codepoints = 0\<rparr> =
     (True, replicate 10 7 @ replicate 54 0, \<lparr>pst_type = 2, pst_size_codepoints = 5\<rparr>) \<and>
   unat (2 AND 7 :: u8) * unat (5 :: u8) \<le> length (replicate 64 (0 :: u8))"
proof -
  let ?bs = "pystr_header (replicate 16 0) 0x8000000000000005 (replicate 8 0) 40 (replicate 4 0) @ replicate 100 7"
  let ?env = "(plain_prof_env 7)\<lparr>env_mem := mem_of 0x1000 ?bs\<rparr>"
  have holds: "holds_at (env_mem ?env) 0x1000 ?bs"
    by (simp add: holds_at_mem_of pystr_header_def)
  have "bpf_probe_read (env_mem ?env) 40 0x1000 = Some (take 40 ?bs)"
    by (rule bpf_probe_read_holds0 [OF holds]) (simp add: pystr_header_def)
  moreover have "bpf_probe_read (env_mem ?env) 10 (0x1000 + of_nat 72) = Some (field_at 72 10 ?bs)"
    by (rule bpf_probe_read_holds [OF holds]) (simp add: pystr_header_def)
  ultimately have run: "pystr_read ?env 0x1000 sample_offsets (replicate 64 0) 64 \<lparr>pst_type = 0, pst_size_codepoints = 0\<rparr> =
      (True, replicate 10 7 @ replicate 54 0, \<lparr>pst_type = 2, pst_size_codepoints = 5\<rparr>)"
    by (simp add: pystr_read_def Let_def PyASCIIObject_of_def pystr_header_def field_at_def sample_offsets_def
        ptr_add_def)
  show ?thesis
    using run pystr_read_bounds [OF run] by simp
qed

text \<open>A string of three two-byte characters in a buffer of five bytes.\<close>

theorem pystr_read_back_witness:
  "\<exists>buf'. pystr_read ((plain_prof_env 7)\<lparr>env_mem := mem_of 0x1000 (pystr_header (replicate 16 0) 3
       (replicate 8 0) (pystr_state 0 2 True False) (replicate 4 0) @ replicate 32 0 @
       concat (map (le_bytes 2) [0x416 :: u32, 0x417, 0x418]))\<rparr>) 0x1000 sample_offsets (replicate 5 0) 5 \<lparr>pst_type = 0, pst_size_codepoints = 0\<rparr> =
     (True, buf', \<lparr>pst_type = 2, pst_size_codepoints = 2\<rparr>) \<and> pystr_chars 2 2 buf' = [0x416, 0x417]"
proof -
  let ?hdr = "pystr_header (replicate 16 0) 3 (replicate 8 0) (pystr_state 0 2 True False) (replicate 4 0)"
  let ?chars = "[0x416, 0x417, 0x418] :: u32 list"
  let ?bs = "?hdr @ replicate 32 0 @ concat (map (le_bytes 2) ?chars)"
  let ?env = "(plain_prof_env 7)\<lparr>env_mem := mem_of 0x1000 ?bs\<rparr>"
  have len: "length ?hdr = 40" by (simp add: pystr_header_def)
  have holds: "holds_at (env_mem ?env) 0x1000 ?bs"
    using len by (simp add: holds_at_mem_of)
  have h: "holds_at (env_mem ?env) 0x1000 ?hdr"
    using bpf_probe_read_holds0 [OF holds, of 40] len by (simp add: holds_at_def)
  have d: "holds_at (env_mem ?env) (0x1000 + of_nat 72) (concat (map (le_bytes 2) ?chars))"
    using bpf_probe_read_holds [OF holds, of 72 6] len by (simp add: holds_at_def field_at_def)
  have laid: "holds_pystr (env_mem ?env) sample_offsets 0x1000 2 False ?chars"
    unfolding holds_pystr_def
  proof (intro conjI exI)
    show "holds_at (env_mem ?env) 0x1000 (pystr_header (replicate 16 0) (of_nat (length ?chars)) (replicate 8 0)
        (pystr_state 0 2 True False) (replicate 4 0))" using h by simp
    show "holds_at (env_mem ?env) (pystr_data sample_offsets False 0x1000) (concat (map (le_bytes 2) ?chars))"
      using d by (simp add: pystr_data_def sample_offsets_def ptr_add_def)
  qed simp_all
  have two: "min (length ?chars) (length (replicate 5 (0 :: u8)) div 2) = 2" by simp
  from pystr_read_back [OF laid, of "replicate 5 0" 5 "\<lparr>pst_type = 0, pst_size_codepoints = 0\<rparr>"]
  show ?thesis unfolding two by auto
qed

end
