(* ===== verification/Murmur.thy ===== *)
theory Murmur
  imports Prelude
begin

unbundle bit_operations_syntax

text \<open>
  The hash of Python stacks, \<^verbatim>\<open>hash.h\<close> of the profiler: \<^verbatim>\<open>MurmurHash64A\<close> restricted to keys whose
  length is a multiple of four and at most \<^verbatim>\<open>HASH_LIMIT\<close>. It agrees there with the published
  function, and two stacks of the same length that differ in one frame never have the same hash.
\<close>

section \<open>The code\<close>

abbreviation (input) HASH_LIMIT :: nat where "HASH_LIMIT \<equiv> 32 * 3 * 4"

definition murmur_m :: u64 where "murmur_m = 0xc6a4a7935bd1e995"

definition murmur_mix :: "u64 \<Rightarrow> u64 \<Rightarrow> u64" where
  "murmur_mix h k =
     (let k = k * murmur_m; k = k XOR drop_bit 47 k; k = k * murmur_m in (h XOR k) * murmur_m)"

text \<open>The loop from index \<open>i\<close>; \<open>key\<close> are the bytes the pointer refers to.\<close>

function murmur_loop :: "u8 list \<Rightarrow> u64 \<Rightarrow> nat \<Rightarrow> u64 \<Rightarrow> nat \<times> u64" where
  "murmur_loop key len i h =
     (if of_nat i < len div 8 \<and> i < HASH_LIMIT div 8
      then murmur_loop key len (Suc i) (murmur_mix h (le_word (field_at (8 * i) 8 key)))
      else (i, h))"
  by pat_completeness auto
termination by (relation "measure (\<lambda>(_, _, i, _). HASH_LIMIT - i)") auto

declare murmur_loop.simps [simp del]

definition murmur_finish :: "u64 \<Rightarrow> u64" where
  "murmur_finish h = (let h = h XOR drop_bit 47 h; h = h * murmur_m in h XOR drop_bit 47 h)"

definition MurmurHash64A :: "u8 list \<Rightarrow> u64 \<Rightarrow> u64 \<Rightarrow> u64" where
  "MurmurHash64A key len seed =
     (let (i, h) = murmur_loop key len 0 (seed XOR (len * murmur_m));
          h = (if len AND 7 \<noteq> 0
               then (h XOR ucast (le_word (field_at (8 * i) 4 key) :: u32)) * murmur_m else h) in
      murmur_finish h)"

section \<open>Its steps can be undone\<close>

lemma murmur_m_unit: "murmur_m * 0x5f7a0ea7e59b19bd = 1"
  by (simp add: murmur_m_def)

lemma murmur_m_cancel: "x * murmur_m = y * murmur_m \<longleftrightarrow> x = y"
proof
  assume "x * murmur_m = y * murmur_m"
  then have "x * (murmur_m * 0x5f7a0ea7e59b19bd) = y * (murmur_m * 0x5f7a0ea7e59b19bd)"
    by (simp only: mult.assoc [symmetric])
  then show "x = y" by (simp only: murmur_m_unit mult_1_right)
qed simp

lemma xorshift_involution: "(z XOR drop_bit 47 z) XOR drop_bit 47 (z XOR drop_bit 47 z) = (z :: u64)"
proof (rule bit_word_eqI)
  fix n
  have "\<not> bit z (47 + (47 + n))" using bit_imp_le_length [of z "47 + (47 + n)"] by auto
  then show "bit ((z XOR drop_bit 47 z) XOR drop_bit 47 (z XOR drop_bit 47 z)) n = bit z n"
    by (auto simp only: bit_xor_iff bit_drop_bit_eq o_def)
qed

lemma xorshift_cancel: "x XOR drop_bit 47 x = y XOR drop_bit 47 y \<longleftrightarrow> x = (y :: u64)"
proof
  assume eq: "x XOR drop_bit 47 x = y XOR drop_bit 47 y"
  have "x = (x XOR drop_bit 47 x) XOR drop_bit 47 (x XOR drop_bit 47 x)" by (simp only: xorshift_involution)
  also have "\<dots> = y" by (simp only: eq xorshift_involution)
  finally show "x = y" .
qed simp

lemma xor_cancel_left: "h XOR x = h XOR y \<longleftrightarrow> x = (y :: u64)"
proof
  assume eq: "h XOR x = h XOR y"
  have cancel: "h XOR (h XOR z) = z" for z by (rule bit_word_eqI) (auto simp only: bit_xor_iff)
  have "x = h XOR (h XOR x)" by (rule cancel [symmetric])
  also have "\<dots> = y" unfolding eq by (rule cancel)
  finally show "x = y" .
qed simp

lemma xor_cancel_right: "x XOR h = y XOR h \<longleftrightarrow> x = (y :: u64)"
  using xor_cancel_left [of h x y] by (simp only: xor.commute)

lemmas murmur_cancel = murmur_m_cancel xorshift_cancel xor_cancel_left xor_cancel_right

lemma murmur_mix_inject:
  "murmur_mix h k = murmur_mix h k' \<longleftrightarrow> k = k'" "murmur_mix h k = murmur_mix h' k \<longleftrightarrow> h = h'"
  by (simp_all add: murmur_mix_def Let_def murmur_cancel)

lemma murmur_finish_inject: "murmur_finish h = murmur_finish h' \<longleftrightarrow> h = h'"
  by (simp add: murmur_finish_def Let_def murmur_cancel)

section \<open>The published function\<close>

text \<open>
  \<^verbatim>\<open>MurmurHash64A\<close> as published for keys of any length: the blocks of eight bytes, then the up to
  seven bytes left, from the last to the first.
\<close>

definition published_block :: "u64 \<Rightarrow> u64 \<Rightarrow> u64" where
  "published_block h k =
     (let k = k * 0xc6a4a7935bd1e995; k = (k XOR drop_bit 47 k) * 0xc6a4a7935bd1e995 in
      (h XOR k) * 0xc6a4a7935bd1e995)"

definition published_tail :: "u8 list \<Rightarrow> u64 \<Rightarrow> u64" where
  "published_tail t h =
     (if t = [] then h
      else fold (\<lambda>i h. h XOR push_bit (8 * i) (ucast (t ! i))) (rev [0..<length t]) h * 0xc6a4a7935bd1e995)"

definition published_murmur :: "u8 list \<Rightarrow> u64 \<Rightarrow> u64" where
  "published_murmur key seed =
     (let n = length key div 8;
          h = seed XOR (of_nat (length key) * 0xc6a4a7935bd1e995);
          h = fold (\<lambda>i h. published_block h (le_word (field_at (8 * i) 8 key))) [0..<n] h;
          h = published_tail (drop (8 * n) key) h;
          h = (h XOR drop_bit 47 h) * 0xc6a4a7935bd1e995 in
      h XOR drop_bit 47 h)"

lemma murmur_loop_fold:
  assumes "n = min (unat len div 8) (HASH_LIMIT div 8)" and "i \<le> n"
  shows "murmur_loop key len i h =
    (n, fold (\<lambda>j h. murmur_mix h (le_word (field_at (8 * j) 8 key))) [i..<n] h)"
  using assms(2)
proof (induction "n - i" arbitrary: i h)
  case 0
  have "\<not> (of_nat i < len div 8 \<and> i < HASH_LIMIT div 8)"
    using 0 assms(1) by (auto simp: word_less_nat_alt unat_div min_def unat_of_nat split: if_splits)
  then show ?case using 0 by (subst murmur_loop.simps, subst if_not_P) simp_all
next
  case (Suc d)
  then have "i < n" by simp
  moreover have "(of_nat i :: u64) < len div 8 \<and> i < HASH_LIMIT div 8"
    using \<open>i < n\<close> assms(1) by (simp add: word_less_nat_alt unat_div unat_of_nat)
  ultimately show ?case
    using Suc by (subst murmur_loop.simps) (simp add: upt_conv_Cons)
qed

lemma bit_push_byte:
  "bit (push_bit (8 * i) (ucast (b :: u8)) :: u64) n \<longleftrightarrow> n < 64 \<and> n div 8 = i \<and> bit b (n mod 8)"
proof (cases "8 * i \<le> n \<and> n - 8 * i < 8")
  case True
  then have "n div 8 = i \<and> n mod 8 = n - 8 * i" by (auto simp: div_nat_eqI modulo_nat_def)
  then show ?thesis using True by (simp add: bit_push_bit_iff bit_unsigned_iff)
next
  case False
  moreover have "8 * i \<le> n \<and> n - 8 * i < 8" if "n div 8 = i" using that by auto
  moreover have "\<not> bit b (n - 8 * i)" if "\<not> n - 8 * i < 8"
    using that bit_imp_le_length [of b "n - 8 * i"] by auto
  ultimately show ?thesis by (auto simp: bit_push_bit_iff bit_unsigned_iff)
qed

lemma word_tail:
  assumes "length t = 4"
  shows "h XOR ucast (le_word t :: u32) = fold (\<lambda>i h. h XOR push_bit (8 * i) (ucast (t ! i))) (rev [0..<4]) (h :: u64)"
proof -
  have "rev [0..<4] = [3, 2, 1, 0 :: nat]" by (simp add: upt_rec)
  then have eq: "fold (\<lambda>i h. h XOR push_bit (8 * i) (ucast (t ! i))) (rev [0..<4]) h =
      (((h XOR push_bit (8 * 3) (ucast (t ! 3))) XOR push_bit (8 * 2) (ucast (t ! 2))) XOR
        push_bit (8 * 1) (ucast (t ! 1))) XOR push_bit (8 * 0) (ucast (t ! 0))" by simp
  have le: "bit (ucast (le_word t :: u32) :: u64) n \<longleftrightarrow> n div 8 < 4 \<and> bit (t ! (n div 8)) (n mod 8)" for n
    using assms by (auto simp: bit_unsigned_iff bit_le_word)
  show ?thesis
    unfolding eq
  proof (rule bit_word_eqI)
    fix n assume n: "n < LENGTH(64)"
    consider "n div 8 = 0" | "n div 8 = 1" | "n div 8 = 2" | "n div 8 = 3" | "4 \<le> n div 8" by linarith
    then show "bit (h XOR ucast (le_word t :: u32)) n =
      bit ((((h XOR push_bit (8 * 3) (ucast (t ! 3))) XOR push_bit (8 * 2) (ucast (t ! 2))) XOR
        push_bit (8 * 1) (ucast (t ! 1))) XOR push_bit (8 * 0) (ucast (t ! 0))) n"
      using n by cases (simp_all only: bit_xor_iff bit_push_byte le, simp_all)
  qed
qed

text \<open>
  C33. The hash is the published one: for every key whose length is a multiple of four and at
  most \<^verbatim>\<open>HASH_LIMIT\<close>, which the stacks of the profiler are, and every seed.
\<close>

theorem murmur_as_published:
  assumes "length key mod 4 = 0" and "length key \<le> HASH_LIMIT"
  shows "MurmurHash64A key (of_nat (length key)) seed = published_murmur key seed"
proof -
  let ?len = "of_nat (length key) :: u64" and ?n = "length key div 8"
  have un: "unat ?len = length key" using assms(2) by (simp add: unat_of_nat)
  have mix: "murmur_mix = published_block"
    by (simp add: fun_eq_iff murmur_mix_def published_block_def murmur_m_def Let_def)
  have n: "?n = min (unat ?len div 8) (HASH_LIMIT div 8)" using assms(2) un by simp
  note loop = murmur_loop_fold [OF n, of 0 key "seed XOR (?len * murmur_m)"]
  have "unat (?len AND 7) = length key AND 7" by (simp only: unsigned_and_eq un) simp
  also have "\<dots> = length key mod 8" using take_bit_eq_mask [of 3 "length key"] by (simp add: take_bit_eq_mod mask_numeral)
  finally have tl: "?len AND 7 = 0 \<longleftrightarrow> length key mod 8 = 0" using unat_eq_zero [of "?len AND 7"] by simp
  have "length key mod 8 = 0 \<or> length key mod 8 = 4" using assms(1) by presburger
  then have "(if ?len AND 7 \<noteq> 0 then (h XOR ucast (le_word (field_at (8 * ?n) 4 key) :: u32)) * murmur_m else h) =
      published_tail (drop (8 * ?n) key) h" for h
  proof
    assume 0: "length key mod 8 = 0"
    then have "8 * ?n = length key" by presburger
    then have "drop (8 * ?n) key = []" by simp
    then show ?thesis using 0 tl by (simp add: published_tail_def)
  next
    assume 4: "length key mod 8 = 4"
    then have "length (drop (8 * ?n) key) = 4"
      by (simp add: minus_mult_div_eq_mod [symmetric])
    then show ?thesis
      using 4 tl word_tail [of "drop (8 * ?n) key" h]
      by (auto simp: published_tail_def field_at_def murmur_m_def)
  qed
  then show ?thesis
    using loop mix
    by (simp add: MurmurHash64A_def published_murmur_def Let_def murmur_finish_def murmur_m_def)
qed

theorem murmur_as_published_witness:
  "MurmurHash64A [0, 1, 2, 3, 4, 5, 6, 7, 8, 9, 10, 11] 12 0 = 0x12091493574d6d4d"
  using murmur_as_published [of "[0, 1, 2, 3, 4, 5, 6, 7, 8, 9, 10, 11]" 0]
  by (simp add: published_murmur_def published_block_def published_tail_def field_at_def Let_def upt_rec)

section \<open>Stacks that differ in one frame\<close>

definition words_bytes :: "u32 list \<Rightarrow> u8 list" where
  "words_bytes xs = concat (map (le_bytes 4) xs)"

lemma length_words_bytes [simp]: "length (words_bytes xs) = 4 * length xs"
  by (induction xs) (auto simp: words_bytes_def)

lemma field_at_words: "field_at (4 * i) (4 * n) (words_bytes xs) = words_bytes (take n (drop i xs))"
proof -
  have d: "drop (4 * i) (words_bytes xs) = words_bytes (drop i xs)" for xs :: "u32 list" and i
    by (induction i arbitrary: xs; case_tac xs) (auto simp: words_bytes_def)
  have t: "take (4 * n) (words_bytes xs) = words_bytes (take n xs)" for xs :: "u32 list" and n
    by (induction n arbitrary: xs; case_tac xs) (auto simp: words_bytes_def)
  show ?thesis by (simp add: field_at_def d t)
qed

lemma words_bytes_Nil [simp]: "words_bytes xs = [] \<longleftrightarrow> xs = []"
  by (metis length_words_bytes length_0_conv mult_eq_0_iff zero_neq_numeral)

lemma words_bytes_Cons [simp]: "words_bytes (x # xs) = le_bytes 4 x @ words_bytes xs"
  by (simp add: words_bytes_def)

lemma words_bytes_inject: "words_bytes xs = words_bytes ys \<longleftrightarrow> xs = ys"
proof (induction xs arbitrary: ys)
  case Nil
  show ?case using words_bytes_Nil [of ys] by (auto simp: words_bytes_def)
next
  case (Cons x xs)
  have "le_bytes 4 x = le_bytes 4 y \<longleftrightarrow> x = y" for y by (metis le_word_le_bytes_simps(2))
  then show ?case using Cons.IH words_bytes_Nil [of "x # xs"] by (cases ys) (auto simp: words_bytes_def)
qed

text \<open>The two lists differ in exactly one place.\<close>

definition differ_once :: "'a list \<Rightarrow> 'a list \<Rightarrow> bool" where
  "differ_once xs ys \<longleftrightarrow> length xs = length ys \<and>
     (\<exists>i<length xs. xs ! i \<noteq> ys ! i \<and> (\<forall>j<length xs. j \<noteq> i \<longrightarrow> xs ! j = ys ! j))"

lemma fold_mix_inject:
  "fold (\<lambda>j h. murmur_mix h (g j)) js h = fold (\<lambda>j h. murmur_mix h (g j)) js h' \<longleftrightarrow> h = h'"
  by (induction js arbitrary: h h') (simp_all add: murmur_mix_inject)

lemma fold_mix_differs:
  "j < n \<Longrightarrow> g j \<noteq> g' j \<Longrightarrow> (\<And>i. i < n \<Longrightarrow> i \<noteq> j \<Longrightarrow> g i = g' i) \<Longrightarrow>
   fold (\<lambda>j h. murmur_mix h (g j)) [0..<n] h \<noteq> fold (\<lambda>j h. murmur_mix h (g' j)) [0..<n] h"
proof (induction n)
  case (Suc n)
  show ?case
  proof (cases "j = n")
    case True
    have "fold (\<lambda>j h. murmur_mix h (g j)) [0..<n] h = fold (\<lambda>j h. murmur_mix h (g' j)) [0..<n] h"
      using Suc.prems(3) True by (intro fold_cong) auto
    then show ?thesis using Suc.prems(2) True by (simp add: murmur_mix_inject)
  next
    case False
    then show ?thesis using Suc by (simp add: murmur_mix_inject)
  qed
qed simp

text \<open>The hash of a key of words: its pairs of words are mixed in, then the last one if there is one.\<close>

definition pair_at :: "u32 list \<Rightarrow> nat \<Rightarrow> u64" where
  "pair_at xs j = le_word (words_bytes (take 2 (drop (2 * j) xs)))"

lemma murmur_words:
  assumes "length xs \<le> 96"
  shows "MurmurHash64A (words_bytes xs) (of_nat (4 * length xs)) seed = murmur_finish
    (let h = fold (\<lambda>j h. murmur_mix h (pair_at xs j)) [0..<length xs div 2]
               (seed XOR (of_nat (4 * length xs) * murmur_m)) in
     if odd (length xs) then (h XOR ucast (last xs)) * murmur_m else h)"
proof -
  let ?len = "of_nat (4 * length xs) :: u64" and ?n = "length xs div 2"
  have un: "unat ?len = 4 * length xs" using assms by (subst unat_of_nat) simp
  have n: "?n = min (unat ?len div 8) (HASH_LIMIT div 8)" using assms un by simp
  have "unat (?len AND 7) = (4 * length xs) AND 7" by (simp only: unsigned_and_eq un) simp
  also have "\<dots> = 4 * length xs mod 8"
    using take_bit_eq_mask [of 3 "4 * length xs"] by (simp add: take_bit_eq_mod mask_numeral)
  finally have tl: "?len AND 7 = 0 \<longleftrightarrow> even (length xs)"
    using unat_eq_zero [of "?len AND 7"] by (simp add: mod_mult_mult1 [of 4 _ 2, simplified] even_iff_mod_2_eq_zero)
  have pair: "le_word (field_at (8 * j) 8 (words_bytes xs)) = pair_at xs j" for j
    using field_at_words [of "2 * j" 2 xs] by (simp add: pair_at_def)
  have last: "le_word (field_at (8 * ?n) 4 (words_bytes xs)) = last xs" if "odd (length xs)"
  proof -
    have i: "2 * ?n = length xs - 1" "length xs - 1 < length xs" using that by (auto elim: oddE)
    then have "drop (2 * ?n) xs = [xs ! (length xs - 1)]"
      using Cons_nth_drop_Suc [OF i(2)] by simp
    then have "take 1 (drop (2 * ?n) xs) = [last xs]" using that by (subst last_conv_nth) auto
    then show ?thesis using field_at_words [of "2 * ?n" 1 xs] by (simp add: words_bytes_def)
  qed
  show ?thesis
    using murmur_loop_fold [OF n, of 0 "words_bytes xs" "seed XOR (?len * murmur_m)"] tl last
    by (auto simp: MurmurHash64A_def Let_def pair)
qed

lemma take_pair:
  assumes "j < length zs div 2"
  shows "take 2 (drop (2 * j) zs) = [zs ! (2 * j), zs ! (2 * j + 1)]"
proof -
  have "2 * j + 1 < length zs" using assms by linarith
  then have "drop (2 * j) zs = zs ! (2 * j) # zs ! (2 * j + 1) # drop (Suc (Suc (2 * j))) zs"
    by (simp add: Cons_nth_drop_Suc)
  then show ?thesis by simp
qed

lemma pair_at_eq:
  assumes "j < length xs div 2" and len: "length ys = length xs"
  shows "pair_at xs j = pair_at ys j \<longleftrightarrow> xs ! (2 * j) = ys ! (2 * j) \<and> xs ! (2 * j + 1) = ys ! (2 * j + 1)"
proof -
  have "pair_at xs j = pair_at ys j \<longleftrightarrow> words_bytes (take 2 (drop (2 * j) xs)) = words_bytes (take 2 (drop (2 * j) ys))"
    using assms by (auto simp: pair_at_def intro!: le_word_inject)
  then show ?thesis
    using take_pair [of j xs] take_pair [of j ys] assms by (simp add: words_bytes_inject del: words_bytes_Cons)
qed

lemma ucast_u32_inject: "(ucast (a :: u32) :: u64) = ucast b \<longleftrightarrow> a = b"
proof
  assume "(ucast a :: u64) = ucast b"
  moreover have "unat (ucast c :: u64) = unat c" for c :: u32
    using unsigned_less [of c, where 'a = nat] by (simp add: unsigned_ucast_eq take_bit_nat_eq_self)
  ultimately show "a = b" by (metis of_nat_unat ucast_id)
qed simp

text \<open>
  C36. Two stacks of the same length, at most 96, that differ in exactly one frame have different
  hashes, whatever the frames and whatever the seed: every step of the hash can be undone.
\<close>

theorem murmur_tells_apart:
  assumes "differ_once xs ys" and "length xs \<le> 96"
  shows "MurmurHash64A (words_bytes xs) (of_nat (4 * length xs)) seed \<noteq>
    MurmurHash64A (words_bytes ys) (of_nat (4 * length ys)) seed"
proof -
  let ?n = "length xs div 2"
  have len: "length ys = length xs" using assms(1) by (simp add: differ_once_def)
  obtain i where i: "i < length xs" "xs ! i \<noteq> ys ! i" and "\<forall>j<length xs. j \<noteq> i \<longrightarrow> xs ! j = ys ! j"
    using assms(1) unfolding differ_once_def by blast
  then have eq: "xs ! j = ys ! j" if "j < length xs" "j \<noteq> i" for j using that by blast
  have "xs \<noteq> []" "ys \<noteq> []" using i(1) len by auto
  then have lst: "last xs = xs ! (length xs - 1)" "last ys = ys ! (length xs - 1)"
    using len by (simp_all add: last_conv_nth)
  note pair = pair_at_eq [OF _ len]
  let ?h = "seed XOR (of_nat (4 * length xs) * murmur_m)"
  let ?f = "\<lambda>zs. fold (\<lambda>j h. murmur_mix h (pair_at zs j)) [0..<?n] ?h"
  show ?thesis
  proof (cases "i < 2 * ?n")
    case True
    have "?f xs \<noteq> ?f ys"
    proof (rule fold_mix_differs [of "i div 2"])
      show "i div 2 < ?n" using True by auto
      then show "pair_at xs (i div 2) \<noteq> pair_at ys (i div 2)"
        using pair [of "i div 2"] i(2) by (cases "even i") (auto elim!: evenE oddE)
      show "pair_at xs j = pair_at ys j" if "j < ?n" "j \<noteq> i div 2" for j
        using pair [OF that(1)] eq that by auto
    qed
    moreover have "last xs = last ys" if "odd (length xs)"
    proof -
      have "length xs - 1 \<noteq> i" using True that by (auto elim: oddE)
      then show ?thesis using eq [of "length xs - 1"] i(1) lst by auto
    qed
    ultimately show ?thesis
      using murmur_words [of xs] murmur_words [of ys] assms(2) len
      by (auto simp: Let_def murmur_finish_inject murmur_cancel)
  next
    case False
    then have odd: "odd (length xs)" and il: "i = length xs - 1" using i(1) by presburger+
    have "pair_at xs j = pair_at ys j" if "j < ?n" for j
    proof -
      have "2 * j < length xs" "2 * j + 1 < length xs" "2 * j \<noteq> i" "2 * j + 1 \<noteq> i" using that False by auto
      then show ?thesis using pair [OF that] eq by blast
    qed
    then have "?f xs = ?f ys" by (intro fold_cong) auto
    moreover have "last xs \<noteq> last ys" using i il lst by simp
    ultimately show ?thesis
      using murmur_words [of xs] murmur_words [of ys] assms(2) len odd
      by (auto simp: Let_def murmur_finish_inject murmur_cancel ucast_u32_inject)
  qed
qed

theorem murmur_tells_apart_witness:
  "MurmurHash64A (words_bytes [512, 1024, 1536]) (of_nat (4 * length [512, 1024, 1536 :: u32])) 0 \<noteq>
   MurmurHash64A (words_bytes [512, 1024, 2048]) (of_nat (4 * length [512, 1024, 2048 :: u32])) 0"
  by (rule murmur_tells_apart)
    (auto simp: differ_once_def less_Suc_eq numeral_3_eq_3 intro!: exI [of _ "Suc (Suc 0)"])

end
