(* ===== verification/Pyperf.thy ===== *)
theory Pyperf
  imports Py_Memory Murmur
begin

unbundle bit_operations_syntax

text \<open>
  The Python unwinder, \<^verbatim>\<open>pyperf.bpf.c\<close>: from the thread state of the sampled thread it follows
  the chain of interpreter frames, names each one by a symbol, numbers the symbols, and counts
  the stack under the hash of its numbers. The program calls itself (a tail call) for every 32
  frames, at most three times. Reads of user memory that fail end the sample.
\<close>

section \<open>State\<close>

abbreviation (input) PYTHON_STACK_FRAMES_PER_PROG :: nat where "PYTHON_STACK_FRAMES_PER_PROG \<equiv> 32"
abbreviation (input) PYTHON_STACK_PROG_CNT :: s64 where "PYTHON_STACK_PROG_CNT \<equiv> 3"
abbreviation (input) PYTHON_STACK_MAX_LEN :: u32 where "PYTHON_STACK_MAX_LEN \<equiv> 96"
abbreviation (input) PYTHON_CLASS_NAME_LEN :: nat where "PYTHON_CLASS_NAME_LEN \<equiv> 32"
abbreviation (input) PYTHON_FUNCTION_NAME_LEN :: u64 where "PYTHON_FUNCTION_NAME_LEN \<equiv> 64"
abbreviation (input) PYTHON_FILE_NAME_LEN :: u64 where "PYTHON_FILE_NAME_LEN \<equiv> 128"
abbreviation (input) PY_NUM_CPU :: s64 where "PY_NUM_CPU \<equiv> 512"
abbreviation (input) SYMBOL_ENTRIES :: nat where "SYMBOL_ENTRIES \<equiv> 16384"
abbreviation (input) PY_PID_ENTRIES :: nat where "PY_PID_ENTRIES \<equiv> 10240"

datatype py_error =
    PY_ERROR_GENERIC | PY_ERROR_THREAD_STATE | PY_ERROR_THREAD_STATE_NULL | PY_ERROR_TOP_FRAME
  | PY_ERROR_FRAME_CODE | PY_ERROR_FRAME_PREV | PY_ERROR_SYMBOL | PY_ERROR_TLSBASE | PY_ERROR_FIRST_ARG
  | PY_ERROR_CLASS_NAME | PY_ERROR_FILE_NAME | PY_ERROR_NAME | PY_ERROR_FRAME_OWNER
  | PY_ERROR_FRAME_OWNER_INVALID

record py_version =
  ver_major :: u32
  ver_minor :: u32
  ver_patch :: u32

record py_pid_data =
  pd_offsets :: py_offset_config
  pd_version :: py_version
  pd_libc :: libc
  pd_tssKey :: s32
  pd_collect_kernel :: u8

record py_symbol =
  sym_classname :: "u8 list"
  sym_name :: "u8 list"
  sym_file :: "u8 list"
  sym_classname_type :: py_str_type
  sym_name_type :: py_str_type
  sym_file_type :: py_str_type
  sym_padding :: py_str_type

record py_event =
  pe_k :: sample_key
  pe_stack_len :: u32
  pe_stack :: "u32 list"

record py_sample_state =
  ps_symbol_counter :: s64
  ps_offsets :: py_offset_config
  ps_cur_cpu :: u32
  ps_frame_ptr :: u64
  ps_prog_call_cnt :: s64
  ps_sym :: py_symbol
  ps_event :: py_event

record py_maps = prof_maps +
  python_stacks :: "(u32, u32 list) bpf_map"
  py_state_heap :: "u32 \<Rightarrow> py_sample_state"
  py_symbols :: "(py_symbol, u32) bpf_map"
  py_pid_config :: "(u32, py_pid_data) bpf_map"

definition no_str_type :: py_str_type where
  "no_str_type = \<lparr>pst_type = 0, pst_size_codepoints = 0\<rparr>"

text \<open>
  A symbol of zero bytes: \<^verbatim>\<open>bpf_perf_prog_read_value\<close> clears its buffer when the given size is not
  that of its own structure, as it is here.
\<close>

definition zero_symbol :: py_symbol where
  "zero_symbol =
     \<lparr>sym_classname = replicate 32 0, sym_name = replicate 64 0, sym_file = replicate 128 0,
      sym_classname_type = no_str_type, sym_name_type = no_str_type, sym_file_type = no_str_type,
      sym_padding = no_str_type\<rparr>"

definition empty_str_type :: py_str_type where
  "empty_str_type = \<lparr>pst_type = PYSTR_TYPE_1BYTE OR PYSTR_TYPE_ASCII, pst_size_codepoints = 0\<rparr>"

text \<open>A pointer variable after a failed read into it.\<close>

definition junk_ptr :: "prof_env \<Rightarrow> u64" where
  "junk_ptr env = le_word (map (env_junk env) [0..<8])"

section \<open>Names\<close>

text \<open>
  \<^verbatim>\<open>check_first_arg\<close>: the symbol, whose name is used as a buffer, and, unless a read fails, whether
  the first argument is called \<^verbatim>\<open>self\<close> or \<^verbatim>\<open>cls\<close>.
\<close>

definition check_first_arg ::
  "prof_env \<Rightarrow> u64 \<Rightarrow> py_offset_config \<Rightarrow> py_symbol \<Rightarrow> py_symbol \<times> (bool \<times> bool) option" where
  "check_first_arg env code_ptr offsets symbol =
     (case read_u64 (env_mem env)
             (if PyCodeObject_co_varnames offsets = -1
              then ptr_add code_ptr (PyCodeObject_co_localsplusnames offsets)
              else ptr_add code_ptr (PyCodeObject_co_varnames offsets)) of
        None \<Rightarrow> (symbol, None)
      | Some args_ptr \<Rightarrow>
          if args_ptr = 0 then (symbol, Some (False, False))
          else (case read_u64 (env_mem env) (ptr_add args_ptr (PyVarObject_ob_size offsets)) of
            None \<Rightarrow> (symbol, None)
          | Some args_size \<Rightarrow>
              if args_size < 1 then (symbol, Some (False, False))
              else (case read_u64 (env_mem env) (ptr_add args_ptr (PyTupleObject_ob_item offsets)) of
                None \<Rightarrow> (symbol, None)
              | Some args_ptr \<Rightarrow>
                  (let (ok, name, typ) =
                         pystr_read env args_ptr offsets (replicate 8 0 @ drop 8 (sym_name symbol))
                           PYTHON_FUNCTION_NAME_LEN (sym_name_type symbol);
                       symbol = symbol\<lparr>sym_name := name, sym_name_type := typ\<rparr> in
                   if ok then (symbol, Some (take 4 name = ascii ''self'', take 4 name = ascii ''cls'' @ [0]))
                   else (symbol, None)))))"

text \<open>The loop of \<^verbatim>\<open>get_first_arg_cell\<close>: \<open>None\<close> for a failed read, otherwise the cell, 0 for none.\<close>

fun first_arg_cell_loop ::
  "prof_env \<Rightarrow> u64 \<Rightarrow> py_offset_config \<Rightarrow> s64 \<Rightarrow> u64 \<Rightarrow> s32 \<Rightarrow> nat \<Rightarrow> nat \<Rightarrow> u64 option" where
  "first_arg_cell_loop env frame_ptr offsets co_cellvars_size co_cell2arg co_nlocals 0 i = Some 0"
| "first_arg_cell_loop env frame_ptr offsets co_cellvars_size co_cell2arg co_nlocals (Suc n) i =
     (if co_cellvars_size \<le>s of_nat i then Some 0
      else case read_u64 (env_mem env) (co_cell2arg + of_nat (i * 8)) of
        None \<Rightarrow> None
      | Some argno \<Rightarrow>
          if argno \<noteq> 0
          then first_arg_cell_loop env frame_ptr offsets co_cellvars_size co_cell2arg co_nlocals n (Suc i)
          else (case read_u64 (env_mem env)
                  (ptr_add frame_ptr (VFrame_localsplus offsets) + scast (co_nlocals + of_nat i) * 8) of
            None \<Rightarrow> None
          | Some first_arg_cell \<Rightarrow>
              if first_arg_cell = 0 then Some 0
              else (case read_u64 (env_mem env) (ptr_add first_arg_cell (PyObject_ob_type offsets)) of
                None \<Rightarrow> None
              | Some ob_type \<Rightarrow> if ob_type \<noteq> PyCell_Type offsets then Some 0 else Some first_arg_cell)))"

definition get_first_arg_cell :: "prof_env \<Rightarrow> u64 \<Rightarrow> u64 \<Rightarrow> py_offset_config \<Rightarrow> u64 option" where
  "get_first_arg_cell env frame_ptr code_ptr offsets =
     (if PyCodeObject_co_cell2arg offsets = -1 \<or> PyCodeObject_co_cellvars offsets = -1 then Some 0
      else case read_u64 (env_mem env) (ptr_add code_ptr (PyCodeObject_co_cellvars offsets)) of
        None \<Rightarrow> None
      | Some co_cellvars \<Rightarrow>
          (case read_u64 (env_mem env) (ptr_add code_ptr (PyCodeObject_co_cell2arg offsets)) of
             None \<Rightarrow> None
           | Some co_cell2arg \<Rightarrow>
               (case read_u32 (env_mem env) (ptr_add code_ptr (PyCodeObject_co_nlocals offsets)) of
                  None \<Rightarrow> None
                | Some co_nlocals \<Rightarrow>
                    if co_cellvars = 0 \<or> co_cell2arg = 0 then Some 0
                    else (case read_u64 (env_mem env) (ptr_add co_cellvars (PyVarObject_ob_size offsets)) of
                      None \<Rightarrow> None
                    | Some co_cellvars_size \<Rightarrow>
                        if co_cellvars_size <s 1 then Some 0
                        else first_arg_cell_loop env frame_ptr offsets co_cellvars_size co_cell2arg co_nlocals
                               8 0))))"

text \<open>The class name read from the type object at \<open>ptr\<close>.\<close>

definition read_class_name :: "prof_env \<Rightarrow> u64 \<Rightarrow> py_offset_config \<Rightarrow> py_symbol \<Rightarrow> bool \<times> py_symbol" where
  "read_class_name env ptr offsets symbol =
     (case read_u64 (env_mem env) (ptr_add ptr (PyTypeObject_tp_name offsets)) of
        None \<Rightarrow> (False, symbol)
      | Some ptr \<Rightarrow>
          (case bpf_probe_read_str (env_mem env) PYTHON_CLASS_NAME_LEN ptr of
             None \<Rightarrow> (False, symbol\<lparr>sym_classname := map (env_junk env) [0..<PYTHON_CLASS_NAME_LEN]\<rparr>)
           | Some b \<Rightarrow>
               (True, symbol\<lparr>sym_classname := b @ drop (length b) (sym_classname symbol),
                  sym_classname_type := \<lparr>pst_type = PYSTR_TYPE_UTF8,
                    pst_size_codepoints = of_nat (length b) - 1\<rparr>\<rparr>)))"

definition get_class_name ::
  "prof_env \<Rightarrow> u64 \<Rightarrow> u64 \<Rightarrow> py_offset_config \<Rightarrow> bool \<Rightarrow> py_symbol \<Rightarrow> bool \<times> py_symbol" where
  "get_class_name env cur_frame code_ptr offsets first_self symbol =
     (case (case read_u64 (env_mem env) (ptr_add cur_frame (VFrame_localsplus offsets)) of
              None \<Rightarrow> None
            | Some ptr \<Rightarrow>
                if ptr = 0 then get_first_arg_cell env cur_frame code_ptr offsets else Some ptr) of
        None \<Rightarrow> (False, symbol)
      | Some ptr \<Rightarrow>
          if ptr = 0 then (True, symbol\<lparr>sym_classname_type := empty_str_type\<rparr>)
          else (case read_u64 (env_mem env) (ptr_add ptr (PyObject_ob_type offsets)) of
            None \<Rightarrow> (False, symbol)
          | Some ptr_ob_type \<Rightarrow>
              (case (if ptr_ob_type = PyCell_Type offsets
                     then read_u64 (env_mem env) (ptr_add ptr (PyCellObject_ob_ref offsets)) else Some ptr) of
                 None \<Rightarrow> (False, symbol)
               | Some ptr \<Rightarrow>
                   if ptr = 0 then (True, symbol\<lparr>sym_classname_type := empty_str_type\<rparr>)
                   else (case (if first_self then read_u64 (env_mem env) (ptr_add ptr (PyObject_ob_type offsets))
                               else Some ptr) of
                     None \<Rightarrow> (False, symbol)
                   | Some ptr \<Rightarrow> read_class_name env ptr offsets symbol))))"

definition get_names ::
  "prof_env \<Rightarrow> u64 \<Rightarrow> u64 \<Rightarrow> py_offset_config \<Rightarrow> py_symbol \<Rightarrow> py_error option \<times> py_symbol" where
  "get_names env cur_frame code_ptr offsets symbol =
     (case check_first_arg env code_ptr offsets symbol of
        (symbol, None) \<Rightarrow> (Some PY_ERROR_FIRST_ARG, symbol)
      | (symbol, Some (first_self, first_cls)) \<Rightarrow>
          (let symbol = zero_symbol;
               (ok, symbol) =
                 (if first_self \<or> first_cls then get_class_name env cur_frame code_ptr offsets first_self symbol
                  else (True, symbol)) in
           if \<not> ok then (Some PY_ERROR_CLASS_NAME, symbol)
           else (case read_u64 (env_mem env) (ptr_add code_ptr (PyCodeObject_co_filename offsets)) of
             None \<Rightarrow> (Some PY_ERROR_FILE_NAME, symbol)
           | Some pystr_ptr \<Rightarrow>
               (let (ok, file, typ) =
                      (if pystr_ptr = 0 then (True, sym_file symbol, empty_str_type)
                       else pystr_read env pystr_ptr offsets (sym_file symbol) PYTHON_FILE_NAME_LEN
                              (sym_file_type symbol));
                    symbol = symbol\<lparr>sym_file := file, sym_file_type := typ\<rparr> in
                if \<not> ok then (Some PY_ERROR_FILE_NAME, symbol)
                else (case read_u64 (env_mem env) (ptr_add code_ptr (PyCodeObject_co_name offsets)) of
                  None \<Rightarrow> (Some PY_ERROR_NAME, symbol)
                | Some pystr_ptr \<Rightarrow>
                    (let (ok, name, typ) =
                           pystr_read env pystr_ptr offsets (sym_name symbol) PYTHON_FUNCTION_NAME_LEN
                             (sym_name_type symbol);
                         symbol = symbol\<lparr>sym_name := name, sym_name_type := typ\<rparr> in
                     (if ok then None else Some PY_ERROR_NAME, symbol)))))))"

section \<open>Frames\<close>

text \<open>
  \<^verbatim>\<open>get_frame_data\<close>: an error, no more frames (0), or a symbol read and the pointer moved on to the
  previous frame (1).
\<close>

datatype frame_result = FrameErr py_error | FrameEnd | FrameOk

text \<open>The frame to read: the one below a frame of the C stack, and the checks of the owner.\<close>

definition skip_cstack_frame ::
  "prof_env \<Rightarrow> u64 \<Rightarrow> py_offset_config \<Rightarrow> frame_result option \<times> u64" where
  "skip_cstack_frame env cur_frame offsets =
     (if PyInterpreterFrame_owner offsets = -1 then (None, cur_frame)
      else case bpf_probe_read (env_mem env) 1 (ptr_add cur_frame (PyInterpreterFrame_owner offsets)) of
        None \<Rightarrow> (Some (FrameErr PY_ERROR_FRAME_OWNER), cur_frame)
      | Some b \<Rightarrow>
          if b ! 0 = owner_code FRAME_OWNED_BY_CSTACK then
            (case read_u64 (env_mem env) (ptr_add cur_frame (VFrame_previous offsets)) of
               None \<Rightarrow> (Some (FrameErr PY_ERROR_FRAME_PREV), junk_ptr env)
             | Some prev \<Rightarrow> (if prev = 0 then Some FrameEnd else None, prev))
          else if b ! 0 \<noteq> owner_code FRAME_OWNED_BY_THREAD \<and> b ! 0 \<noteq> owner_code FRAME_OWNED_BY_GENERATOR \<and>
            b ! 0 \<noteq> owner_code FRAME_OWNED_BY_FRAME_OBJECT
          then (Some (FrameErr PY_ERROR_FRAME_OWNER_INVALID), cur_frame)
          else (None, cur_frame))"

definition get_frame_data ::
  "prof_env \<Rightarrow> u64 \<Rightarrow> py_offset_config \<Rightarrow> py_symbol \<Rightarrow> frame_result \<times> u64 \<times> py_symbol" where
  "get_frame_data env frame_ptr offsets symbol =
     (if frame_ptr = 0 then (FrameEnd, frame_ptr, symbol)
      else case skip_cstack_frame env frame_ptr offsets of
        (Some res, frame_ptr) \<Rightarrow> (res, frame_ptr, symbol)
      | (None, cur_frame) \<Rightarrow>
          (case read_u64 (env_mem env) (ptr_add cur_frame (VFrame_code offsets)) of
             None \<Rightarrow> (FrameErr PY_ERROR_FRAME_CODE, cur_frame, symbol)
           | Some code_ptr \<Rightarrow>
               if code_ptr = 0 then (FrameEnd, cur_frame, symbol)
               else (case get_names env cur_frame code_ptr offsets symbol of
                 (Some e, symbol) \<Rightarrow> (FrameErr e, cur_frame, symbol)
               | (None, symbol) \<Rightarrow>
                   (case read_u64 (env_mem env) (ptr_add cur_frame (VFrame_previous offsets)) of
                      None \<Rightarrow> (FrameErr PY_ERROR_FRAME_PREV, junk_ptr env, symbol)
                    | Some prev \<Rightarrow> (FrameOk, prev, symbol)))))"

section \<open>Symbols\<close>

text \<open>The number of a symbol, with the counter and the map afterwards; \<open>None\<close> when the map is full.\<close>

definition get_symbol_id ::
  "py_sample_state \<Rightarrow> py_symbol \<Rightarrow> (py_symbol, u32) bpf_map \<Rightarrow>
   u32 option \<times> py_sample_state \<times> (py_symbol, u32) bpf_map" where
  "get_symbol_id st symb m =
     (case bpf_map_lookup_elem m symb of
        Some i \<Rightarrow> (Some i, st, m)
      | None \<Rightarrow>
          (let st = st\<lparr>ps_symbol_counter := ps_symbol_counter st + 1\<rparr>;
               symbol_id = ucast (ps_symbol_counter st * PY_NUM_CPU + ucast (ps_cur_cpu st)) :: u32;
               (err, m) = bpf_hash_update_elem SYMBOL_ENTRIES m symb symbol_id BPF_NOEXIST in
           if err = 0 then (Some symbol_id, st, m)
           else (bpf_map_lookup_elem m symb, st, m)))"

section \<open>Stacks\<close>

definition push_frame :: "u32 \<Rightarrow> py_event \<Rightarrow> py_event" where
  "push_frame symbol_id sample =
     (if pe_stack_len sample < PYTHON_STACK_MAX_LEN
      then sample\<lparr>pe_stack := (pe_stack sample)[unat (pe_stack_len sample) := symbol_id],
                  pe_stack_len := pe_stack_len sample + 1\<rparr>
      else sample)"

text \<open>
  The loop of \<^verbatim>\<open>read_python_stack\<close> with \<open>n\<close> iterations left: whether the frames ended (\<open>Some True\<close>),
  went on (\<open>Some False\<close>), or an error ended the sample (\<open>None\<close>).
\<close>

fun read_frames ::
  "prof_env \<Rightarrow> nat \<Rightarrow> py_sample_state \<Rightarrow> (py_symbol, u32) bpf_map \<Rightarrow>
   bool option \<times> py_sample_state \<times> (py_symbol, u32) bpf_map" where
  "read_frames env 0 st m = (Some False, st, m)"
| "read_frames env (Suc n) st m =
     (case get_frame_data env (ps_frame_ptr st) (ps_offsets st) (ps_sym st) of
        (res, frame_ptr, symb) \<Rightarrow>
          (let st = st\<lparr>ps_frame_ptr := frame_ptr, ps_sym := symb\<rparr> in
           case res of
             FrameErr e \<Rightarrow> (None, st, m)
           | FrameEnd \<Rightarrow> (Some True, st, m)
           | FrameOk \<Rightarrow>
               (case get_symbol_id st symb m of
                  (None, st, m) \<Rightarrow> (None, st, m)
                | (Some symbol_id, st, m) \<Rightarrow>
                    read_frames env n (st\<lparr>ps_event := push_frame symbol_id (ps_event st)\<rparr>) m)))"

definition put_state :: "prof_env \<Rightarrow> py_sample_state \<Rightarrow> 'a py_maps_scheme \<Rightarrow> 'a py_maps_scheme" where
  "put_state env st s = s\<lparr>py_state_heap := (py_state_heap s)(env_cpu env := st)\<rparr>"

text \<open>
  The keys of \<^verbatim>\<open>python_stacks\<close> have four bytes, so the update reads the low half of the hash.
\<close>

definition submit_sample :: "prof_env \<Rightarrow> py_sample_state \<Rightarrow> 'a py_maps_scheme \<Rightarrow> 'a py_maps_scheme" where
  "submit_sample env st s =
     (let ev = ps_event st;
          ev = (if pe_stack_len ev < PYTHON_STACK_MAX_LEN
                then ev\<lparr>pe_stack := (pe_stack ev)[unat (pe_stack_len ev) := 0]\<rparr> else ev);
          h = MurmurHash64A (words_bytes (pe_stack ev)) (ucast (pe_stack_len ev) * 4) 0;
          ev = ev\<lparr>pe_k := (pe_k ev)\<lparr>sk_user_stack := h\<rparr>\<rparr>;
          s = put_state env (st\<lparr>ps_event := ev\<rparr>) s;
          (err, m) = bpf_hash_update_elem PROFILE_MAPS_SIZE (python_stacks s) (ucast h) (pe_stack ev) BPF_ANY in
      if err \<noteq> 0 then s
      else s\<lparr>python_stacks := m, counts := count_sample (pe_k ev) (counts s)\<rparr>)"

text \<open>
  \<^verbatim>\<open>read_python_stack\<close>, with the number of tail calls the kernel still allows. When there is none
  left the call fails and the program ends.
\<close>

fun read_python_stack :: "prof_env \<Rightarrow> nat \<Rightarrow> 'a py_maps_scheme \<Rightarrow> 'a py_maps_scheme" where
  "read_python_stack env calls s =
     (case bpf_percpu_lookup (py_state_heap s) (env_cpu env) 0 of
        None \<Rightarrow> s
      | Some st \<Rightarrow>
          (case read_frames env PYTHON_STACK_FRAMES_PER_PROG
                  (st\<lparr>ps_prog_call_cnt := ps_prog_call_cnt st + 1\<rparr>) (py_symbols s) of
             (None, st, m) \<Rightarrow> put_state env st (s\<lparr>py_symbols := m\<rparr>)
           | (Some ended, st, m) \<Rightarrow>
               (let fl = (if ended then SAMPLE_KEY_FLAG_PYTHON_STACK
                          else SAMPLE_KEY_FLAG_PYTHON_STACK OR SAMPLE_KEY_FLAG_STACK_TRUNCATED);
                    st = st\<lparr>ps_event := (ps_event st)\<lparr>pe_k := (pe_k (ps_event st))\<lparr>sk_flags := fl\<rparr>\<rparr>\<rparr>;
                    s = s\<lparr>py_symbols := m\<rparr> in
                if sk_flags (pe_k (ps_event st)) =
                     SAMPLE_KEY_FLAG_PYTHON_STACK OR SAMPLE_KEY_FLAG_STACK_TRUNCATED \<and>
                   ps_prog_call_cnt st <s PYTHON_STACK_PROG_CNT
                then (case calls of
                        0 \<Rightarrow> put_state env st s
                      | Suc calls \<Rightarrow> read_python_stack env calls (put_state env st s))
                else submit_sample env st s)))"

declare read_python_stack.simps [simp del]

section \<open>The sample\<close>

definition get_top_frame :: "prof_env \<Rightarrow> py_pid_data \<Rightarrow> u64 \<Rightarrow> u64 \<Rightarrow> bool \<times> u64" where
  "get_top_frame env pid_data frame_ptr thread_state =
     (let offsets = pd_offsets pid_data in
      if PyThreadState_frame offsets = -1 then
        (case read_u64 (env_mem env) (ptr_add thread_state (PyThreadState_cframe offsets)) of
           None \<Rightarrow> (False, frame_ptr)
         | Some cframe \<Rightarrow>
             if cframe = 0 then (False, frame_ptr)
             else (case read_u64 (env_mem env) (ptr_add cframe (PyCFrame_current_frame offsets)) of
               None \<Rightarrow> (False, junk_ptr env)
             | Some fp \<Rightarrow> (True, fp)))
      else (case read_u64 (env_mem env) (ptr_add thread_state (PyThreadState_frame offsets)) of
        None \<Rightarrow> (False, junk_ptr env)
      | Some fp \<Rightarrow> (True, fp)))"

abbreviation (input) MAX_TAIL_CALL_CNT :: nat where "MAX_TAIL_CALL_CNT \<equiv> 33"

text \<open>\<open>calls\<close> is the number of tail calls left when the program starts.\<close>

definition pyperf_collect_impl :: "nat \<Rightarrow> prof_env \<Rightarrow> u32 \<Rightarrow> 'a py_maps_scheme \<Rightarrow> 'a py_maps_scheme" where
  "pyperf_collect_impl calls env pid s =
     (case bpf_map_lookup_elem (py_pid_config s) pid of
        None \<Rightarrow> s
      | Some pid_data \<Rightarrow>
          (case bpf_percpu_lookup (py_state_heap s) (env_cpu env) 0 of
             None \<Rightarrow> s
           | Some st \<Rightarrow>
               (let k = pe_k (ps_event st);
                    k = k\<lparr>sk_pid := pid,
                          sk_kern_stack := (if pd_collect_kernel pid_data \<noteq> 0
                                            then env_stackid env KERN_STACKID_FLAGS else -1)\<rparr>;
                    st = st\<lparr>ps_offsets := pd_offsets pid_data, ps_cur_cpu := env_cpu env, ps_prog_call_cnt := 0,
                            ps_frame_ptr := 0, ps_event := (ps_event st)\<lparr>pe_k := k\<rparr>\<rparr> in
                case pyro_pthread_getspecific env (pd_libc pid_data) (pd_tssKey pid_data) of
                  None \<Rightarrow> put_state env st s
                | Some thread_state \<Rightarrow>
                    (let st = st\<lparr>ps_event := (ps_event st)\<lparr>pe_stack_len := 0\<rparr>\<rparr> in
                     if thread_state = 0 then put_state env st s
                     else
                       (let (ok, fp) = get_top_frame env pid_data (ps_frame_ptr st) thread_state;
                            s = put_state env (st\<lparr>ps_frame_ptr := fp\<rparr>) s in
                        if \<not> ok then s
                        else (case calls of 0 \<Rightarrow> s | Suc calls \<Rightarrow> read_python_stack env calls s))))))"

text \<open>
  The local \<^verbatim>\<open>pid\<close> is not initialised: when no namespace matches it keeps what the stack held.
\<close>

definition pyperf_collect :: "u64 \<Rightarrow> nat \<Rightarrow> prof_env \<Rightarrow> 'a py_maps_scheme \<Rightarrow> 'a py_maps_scheme" where
  "pyperf_collect ns_pid_ino calls env s =
     (let pid = current_pid env ns_pid_ino (le_word (map (env_junk env) [0..<4])) in
      if pid = 0 then s else pyperf_collect_impl calls env pid s)"

section \<open>The unwinder in the profiler\<close>

lemma put_state_simps [simp]:
  "pids (put_state env st s) = pids s" "prof_events (put_state env st s) = prof_events s"
  "counts (put_state env st s) = counts s" "python_stacks (put_state env st s) = python_stacks s"
  "py_symbols (put_state env st s) = py_symbols s" "py_pid_config (put_state env st s) = py_pid_config s"
  "py_state_heap (put_state env st s) = (py_state_heap s)(env_cpu env := st)"
  by (simp_all add: put_state_def)

lemma submit_sample_frame [simp]:
  "pids (submit_sample env st s) = pids s" "prof_events (submit_sample env st s) = prof_events s"
  "py_symbols (submit_sample env st s) = py_symbols s"
  "py_pid_config (submit_sample env st s) = py_pid_config s"
  by (simp_all add: submit_sample_def Let_def split: prod.splits)

lemma read_python_stack_frame:
  "pids (read_python_stack env calls s) = pids s \<and>
   prof_events (read_python_stack env calls s) = prof_events s \<and>
   py_pid_config (read_python_stack env calls s) = py_pid_config s"
proof (induction calls arbitrary: s)
  case 0
  then show ?case
    by (subst (1 2 3) read_python_stack.simps) (simp add: bpf_percpu_lookup_def Let_def split: prod.splits option.splits)
next
  case (Suc calls)
  then show ?case
    by (subst (1 2 3) read_python_stack.simps) (simp add: bpf_percpu_lookup_def Let_def split: prod.splits option.splits)
qed

lemma pyperf_collect_frame:
  "pids (pyperf_collect ns_pid_ino calls env s) = pids s \<and>
   prof_events (pyperf_collect ns_pid_ino calls env s) = prof_events s \<and>
   py_pid_config (pyperf_collect ns_pid_ino calls env s) = py_pid_config s"
  by (simp add: pyperf_collect_def pyperf_collect_impl_def Let_def read_python_stack_frame
      split: option.splits prod.splits nat.splits)

interpretation python: profiler_program "pyperf_collect ns_pid_ino calls" for ns_pid_ino calls
  by unfold_locales (simp_all add: pyperf_collect_frame)

text \<open>
  C11. The profiler with the Python unwinder in its program array keeps track of processes the
  way the abstract machine does: the processes known are the keys of \<^verbatim>\<open>pids\<close>, a tick on an unknown
  process makes it known and asks user space about it if there is room, the end of a process
  forgets it and reports it, and user space adds processes by configuring them and deletes stale
  ones.
\<close>

theorem profiler_refines_known:
  assumes "map_wf PIDS_ENTRIES (pids s)"
  shows "(fst ` set (pids (fold (prof_step ns_pid_ino (Some (pyperf_collect ns_pid_ino calls))) xs s)),
      prof_events (fold (prof_step ns_pid_ino (Some (pyperf_collect ns_pid_ino calls))) xs s)) =
    fold (known_step ns_pid_ino) xs (fst ` set (pids s), prof_events s)"
  by (rule python.known_run [OF assms])

definition zero_py_state :: py_sample_state where
  "zero_py_state =
     \<lparr>ps_symbol_counter = 0, ps_offsets = sample_offsets, ps_cur_cpu = 0, ps_frame_ptr = 0, ps_prog_call_cnt = 0,
      ps_sym = zero_symbol,
      ps_event = \<lparr>pe_k = \<lparr>sk_pid = 0, sk_flags = 0, sk_kern_stack = 0, sk_user_stack = 0\<rparr>, pe_stack_len = 0,
        pe_stack = replicate 96 0\<rparr>\<rparr>"

definition empty_py_maps :: py_maps where
  "empty_py_maps =
     \<lparr>pids = [], prof_events = [], counts = [], python_stacks = [], py_state_heap = (\<lambda>_. zero_py_state),
      py_symbols = [], py_pid_config = []\<rparr>"

lemma empty_py_maps_simps [simp]:
  "pids empty_py_maps = []" "prof_events empty_py_maps = []" "counts empty_py_maps = []"
  "python_stacks empty_py_maps = []" "py_state_heap empty_py_maps = (\<lambda>_. zero_py_state)"
  "py_symbols empty_py_maps = []" "py_pid_config empty_py_maps = []"
  by (simp_all add: empty_py_maps_def)

text \<open>Process 7 is sampled twice, ends, and is sampled again under the same number.\<close>

theorem profiler_refines_known_witness:
  "(fst ` set (pids (fold (prof_step 0 (Some (pyperf_collect 0 32)))
       [PerfEvent (plain_prof_env 0x700000008), PerfEvent (plain_prof_env 0x700000008),
        Disassociate (plain_prof_env 0x700000007) 1, PerfEvent (plain_prof_env 0x700000009)] empty_py_maps)),
    prof_events (fold (prof_step 0 (Some (pyperf_collect 0 32)))
       [PerfEvent (plain_prof_env 0x700000008), PerfEvent (plain_prof_env 0x700000008),
        Disassociate (plain_prof_env 0x700000007) 1, PerfEvent (plain_prof_env 0x700000009)] empty_py_maps)) =
   ({7}, [unknown_event 7, dead_event 7, unknown_event 7])"
proof -
  have "current_pid (plain_prof_env i) 0 0 = ucast (drop_bit 32 i)" for i
    by (simp add: current_pid_def)
  then show ?thesis
    by (subst profiler_refines_known) (simp_all add: map_wf_def sampled_process_def Let_def)
qed

text \<open>
  C27. User space is asked about a process once per lifetime: in every run from empty maps the
  requests for a process outnumber the reports of its end, together with the times user space
  itself deleted it as stale, by at most one; and by none while the process is not known.
\<close>

theorem profiler_asks_once:
  assumes "pids s = []" and "prof_events s = []"
    and "s' = fold (prof_step ns_pid_ino (Some (pyperf_collect ns_pid_ino calls))) xs s"
  shows "count_list (prof_events s') (unknown_event pid) + of_bool (bpf_map_lookup_elem (pids s') pid = None)
    \<le> Suc (count_list (prof_events s') (dead_event pid) + count_list xs (Forget pid))"
proof -
  have "fold (known_step ns_pid_ino) xs ({}, []) = (fst ` set (pids s'), prof_events s')"
    using python.known_run [of s ns_pid_ino ns_pid_ino calls xs] assms by (simp add: map_wf_def)
  then show ?thesis
    using known_run_requests [of "[]" pid "{}" 0 ns_pid_ino xs "fst ` set (pids s')" "prof_events s'"]
    by (simp add: bpf_map_lookup_elem_def map_of_eq_None_iff)
qed

text \<open>Process 7 is sampled, deleted by user space, sampled twice, ends, and is sampled again.\<close>

theorem profiler_asks_once_witness:
  "let xs = [PerfEvent (plain_prof_env 0x700000008), Forget 7, PerfEvent (plain_prof_env 0x700000008),
         PerfEvent (plain_prof_env 0x700000008), Disassociate (plain_prof_env 0x700000007) 1,
         PerfEvent (plain_prof_env 0x700000009)];
       s' = fold (prof_step 0 (Some (pyperf_collect 0 32))) xs empty_py_maps in
   prof_events s' = [unknown_event 7, unknown_event 7, dead_event 7, unknown_event 7] \<and>
   count_list (prof_events s') (unknown_event 7) + of_bool (bpf_map_lookup_elem (pids s') 7 = None)
     \<le> Suc (count_list (prof_events s') (dead_event 7) + count_list xs (Forget 7))"
proof -
  let ?xs = "[PerfEvent (plain_prof_env 0x700000008), Forget 7, PerfEvent (plain_prof_env 0x700000008),
    PerfEvent (plain_prof_env 0x700000008), Disassociate (plain_prof_env 0x700000007) 1,
    PerfEvent (plain_prof_env 0x700000009)]"
  let ?s = "fold (prof_step 0 (Some (pyperf_collect 0 32))) ?xs empty_py_maps"
  have "current_pid (plain_prof_env i) 0 0 = ucast (drop_bit 32 i)" for i
    by (simp add: current_pid_def)
  then have "fold (known_step 0) ?xs ({}, []) =
      ({7}, [unknown_event 7, unknown_event 7, dead_event 7, unknown_event 7])"
    by (simp add: sampled_process_def Let_def)
  then have "prof_events ?s = [unknown_event 7, unknown_event 7, dead_event 7, unknown_event 7]"
    using python.known_run [of empty_py_maps 0 0 32 ?xs] by (simp add: map_wf_def)
  moreover have "count_list (prof_events ?s) (unknown_event 7) + of_bool (bpf_map_lookup_elem (pids ?s) 7 = None)
      \<le> Suc (count_list (prof_events ?s) (dead_event 7) + count_list ?xs (Forget 7))"
    by (rule profiler_asks_once [of empty_py_maps]) simp_all
  ultimately show ?thesis unfolding Let_def by blast
qed

end
