(* ===== verification/Py_Unwind.thy ===== *)
theory Py_Unwind
  imports Pyperf
begin

text \<open>
  What the Python unwinder computes. Three runs of 32 frames chained by tail calls are one loop
  over 96 frames, and the tail calls the kernel allows are always enough. A frame's symbol does not
  depend on what the buffers held before. The stacks that are read are bounded whatever the memory
  of the process holds, and symbols have different numbers on all CPUs together.
\<close>

section \<open>One loop\<close>

lemma read_frames_add:
  "read_frames env (a + b) st m =
     (case read_frames env a st m of
        (Some False, st, m) \<Rightarrow> read_frames env b st m
      | r \<Rightarrow> r)"
proof (induction a arbitrary: st m)
  case (Suc a)
  then show ?case by (simp add: Let_def split: prod.splits option.splits frame_result.splits)
qed simp

text \<open>The number of calls and the flags, which the loop neither reads nor writes.\<close>

definition with_call :: "s64 \<Rightarrow> u32 \<Rightarrow> py_sample_state \<Rightarrow> py_sample_state" where
  "with_call c fl st =
     st\<lparr>ps_prog_call_cnt := c,
        ps_event := (ps_event st)\<lparr>pe_k := (pe_k (ps_event st))\<lparr>sk_flags := fl\<rparr>\<rparr>\<rparr>"

lemma with_call_simps [simp]:
  "ps_symbol_counter (with_call c fl st) = ps_symbol_counter st" "ps_offsets (with_call c fl st) = ps_offsets st"
  "ps_cur_cpu (with_call c fl st) = ps_cur_cpu st" "ps_frame_ptr (with_call c fl st) = ps_frame_ptr st"
  "ps_prog_call_cnt (with_call c fl st) = c" "ps_sym (with_call c fl st) = ps_sym st"
  "pe_stack_len (ps_event (with_call c fl st)) = pe_stack_len (ps_event st)"
  "pe_stack (ps_event (with_call c fl st)) = pe_stack (ps_event st)"
  "pe_k (ps_event (with_call c fl st)) = (pe_k (ps_event st))\<lparr>sk_flags := fl\<rparr>"
  "with_call c fl (with_call c' fl' st) = with_call c fl st"
  by (simp_all add: with_call_def)

lemma with_call_updates:
  "(with_call c fl st)\<lparr>ps_frame_ptr := p, ps_sym := y\<rparr> = with_call c fl (st\<lparr>ps_frame_ptr := p, ps_sym := y\<rparr>)"
  "(with_call c fl st)\<lparr>ps_symbol_counter := x\<rparr> = with_call c fl (st\<lparr>ps_symbol_counter := x\<rparr>)"
  "(with_call c fl st)\<lparr>ps_event := push_frame i (ps_event (with_call c fl st))\<rparr> =
     with_call c fl (st\<lparr>ps_event := push_frame i (ps_event st)\<rparr>)"
  by (simp_all add: with_call_def push_frame_def)

lemma get_symbol_id_call:
  "get_symbol_id (with_call c fl st) symb m =
     (case get_symbol_id st symb m of (i, st, m) \<Rightarrow> (i, with_call c fl st, m))"
  by (simp add: get_symbol_id_def with_call_updates Let_def split: option.splits prod.splits)

lemma read_frames_call:
  "read_frames env n (with_call c fl st) m =
     (case read_frames env n st m of (r, st, m) \<Rightarrow> (r, with_call c fl st, m))"
proof (induction n arbitrary: st m)
  case (Suc n)
  show ?case
    by (simp add: with_call_updates get_symbol_id_call Suc.IH Let_def
        split: prod.splits option.splits frame_result.splits)
qed simp

text \<open>A run that has made \<open>c\<close> calls and reads \<open>32 * n\<close> frames in the calls it has left.\<close>

abbreviation (input) python_flags :: "bool \<Rightarrow> u32" where
  "python_flags ended \<equiv>
     (if ended then SAMPLE_KEY_FLAG_PYTHON_STACK
      else SAMPLE_KEY_FLAG_PYTHON_STACK OR SAMPLE_KEY_FLAG_STACK_TRUNCATED)"

definition finish_run :: "prof_env \<Rightarrow> bool option \<times> py_sample_state \<times> (py_symbol, u32) bpf_map \<Rightarrow>
   'a py_maps_scheme \<Rightarrow> 'a py_maps_scheme" where
  "finish_run env r s =
     (case r of
        (None, st, m) \<Rightarrow> put_state env st (s\<lparr>py_symbols := m\<rparr>)
      | (Some ended, st, m) \<Rightarrow> submit_sample env st (s\<lparr>py_symbols := m\<rparr>))"

definition marked :: "s64 \<Rightarrow> u32 \<Rightarrow> bool option \<times> py_sample_state \<times> 'm \<Rightarrow> bool option \<times> py_sample_state \<times> 'm" where
  "marked c fl r =
     (case r of
        (None, st, m) \<Rightarrow> (None, with_call c fl st, m)
      | (Some ended, st, m) \<Rightarrow> (Some ended, with_call c (python_flags ended) st, m))"

lemma put_state_put_state [simp]: "put_state env st (put_state env st' s) = put_state env st s"
  by (simp add: put_state_def)

lemma put_state_symbols [simp]: "(put_state env st s)\<lparr>py_symbols := m\<rparr> = put_state env st (s\<lparr>py_symbols := m\<rparr>)"
  by (simp add: put_state_def)

lemma submit_sample_put_state [simp]: "submit_sample env st (put_state env st' s) = submit_sample env st s"
  by (simp add: submit_sample_def Let_def split: prod.splits)

lemma cnt_update_call:
  "st\<lparr>ps_prog_call_cnt := c\<rparr> = with_call c (sk_flags (pe_k (ps_event st))) st"
  by (simp add: with_call_def)

lemma read_python_stack_loop:
  assumes "ps_prog_call_cnt (py_state_heap s (env_cpu env)) = 3 - of_nat n" and "0 < n" and "n \<le> 3"
    and "n \<le> Suc calls"
  shows "\<exists>c fl. read_python_stack env calls s =
    finish_run env (marked c fl (read_frames env (32 * n) (py_state_heap s (env_cpu env)) (py_symbols s))) s"
  using assms
proof (induction n arbitrary: s calls)
  case (Suc n)
  let ?st = "py_state_heap s (env_cpu env)" and ?m = "py_symbols s"
  let ?fl = "sk_flags (pe_k (ps_event ?st))"
  have cnt: "ps_prog_call_cnt ?st + 1 = 3 - of_nat n" using Suc.prems(1) by simp
  obtain r st m where run: "read_frames env 32 ?st ?m = (r, st, m)" by (metis prod_cases3)
  then have first: "read_frames env 32 (?st\<lparr>ps_prog_call_cnt := ps_prog_call_cnt ?st + 1\<rparr>) ?m =
      (r, with_call (3 - of_nat n) ?fl st, m)"
    unfolding cnt cnt_update_call by (simp add: read_frames_call)
  have whole: "read_frames env (32 * Suc n) ?st ?m =
      (case (r, st, m) of (Some False, st, m) \<Rightarrow> read_frames env (32 * n) st m | r \<Rightarrow> r)"
    using read_frames_add [of env 32 "32 * n" ?st ?m] run by simp
  have last: "(3 - of_nat n :: s64) <s PYTHON_STACK_PROG_CNT \<longleftrightarrow> 0 < n"
    using Suc.prems(3) by (cases n; cases "n - 1"; cases "n - 2") (auto simp: word_sless_alt)
  show ?case
  proof (cases "r = Some False \<and> 0 < n")
    case True
    let ?s = "put_state env (with_call (3 - of_nat n) (python_flags False) st) (s\<lparr>py_symbols := m\<rparr>)"
    obtain calls' where calls: "calls = Suc calls'" using True Suc.prems(4) by (cases calls) auto
    have "read_python_stack env calls s = read_python_stack env calls' ?s"
      using True first last calls
      by (subst read_python_stack.simps) (simp add: bpf_percpu_lookup_def Let_def with_call_def)
    moreover obtain c fl where "read_python_stack env calls' ?s = finish_run env (marked c fl
        (read_frames env (32 * n) (py_state_heap ?s (env_cpu env)) (py_symbols ?s))) ?s"
      using Suc.IH [of ?s calls'] True Suc.prems calls by auto
    moreover have "finish_run env (marked c fl
        (read_frames env (32 * n) (py_state_heap ?s (env_cpu env)) (py_symbols ?s))) ?s =
      finish_run env (marked c fl (read_frames env (32 * n) st m)) s"
      by (simp add: read_frames_call finish_run_def marked_def split: prod.splits option.splits)
    ultimately show ?thesis using True whole by auto
  next
    case False
    then have "read_frames env (32 * Suc n) ?st ?m = (r, st, m)"
      using whole by (cases n) (auto split: option.splits bool.splits)
    moreover have "read_python_stack env calls s = finish_run env (marked (3 - of_nat n) ?fl (r, st, m)) s"
      using False first last
      by (subst read_python_stack.simps)
        (auto simp: bpf_percpu_lookup_def Let_def with_call_def finish_run_def marked_def split: option.splits)
    ultimately show ?thesis by auto
  qed
qed simp

lemma read_python_stack_calls:
  assumes "ps_prog_call_cnt (py_state_heap s (env_cpu env)) = 3 - of_nat n" and "0 < n" and "n \<le> 3"
    and "n \<le> Suc a" and "n \<le> Suc b"
  shows "read_python_stack env a s = read_python_stack env b s"
  using assms
proof (induction n arbitrary: s a b)
  case (Suc n)
  have cnt: "ps_prog_call_cnt (py_state_heap s (env_cpu env)) + 1 = 3 - of_nat n" using Suc.prems(1) by simp
  have last: "(3 - of_nat n :: s64) <s PYTHON_STACK_PROG_CNT \<longleftrightarrow> 0 < n"
    using Suc.prems(3) by (cases n; cases "n - 1"; cases "n - 2") (auto simp: word_sless_alt)
  let ?st = "py_state_heap s (env_cpu env)" and ?m = "py_symbols s"
  obtain r st m where "read_frames env 32 ?st ?m = (r, st, m)" by (metis prod_cases3)
  then have run: "read_frames env 32 (?st\<lparr>ps_prog_call_cnt := ps_prog_call_cnt ?st + 1\<rparr>) ?m =
      (r, with_call (3 - of_nat n) (sk_flags (pe_k (ps_event ?st))) st, m)"
    unfolding cnt cnt_update_call by (simp add: read_frames_call)
  show ?case
  proof (cases "r = Some False \<and> 0 < n")
    case True
    obtain a' b' where ab: "a = Suc a'" "b = Suc b'" using True Suc.prems(4,5) by (cases a; cases b) auto
    let ?s = "put_state env (with_call (3 - of_nat n) (python_flags False) st) (s\<lparr>py_symbols := m\<rparr>)"
    have "read_python_stack env (Suc x) s = read_python_stack env x ?s" for x
      using True run last
      by (subst read_python_stack.simps) (simp add: bpf_percpu_lookup_def Let_def with_call_def)
    then show ?thesis using Suc.IH [of ?s a' b'] True Suc.prems ab by simp
  next
    case False
    then have "read_python_stack env x s = (case r of
        None \<Rightarrow> put_state env (with_call (3 - of_nat n) (sk_flags (pe_k (ps_event ?st))) st) (s\<lparr>py_symbols := m\<rparr>)
      | Some ended \<Rightarrow> submit_sample env (with_call (3 - of_nat n) (python_flags ended) st) (s\<lparr>py_symbols := m\<rparr>))" for x
      using run last
      by (subst read_python_stack.simps)
        (auto simp: bpf_percpu_lookup_def Let_def with_call_def split: option.splits)
    then show ?thesis by simp
  qed
qed simp

text \<open>
  C28. The tail calls are always enough: a sample makes at most three, so with three or more
  left (the kernel allows 33 in a row, of which the profiler has used one) the result does not
  depend on how many are left, and no sample is lost for want of one.
\<close>

theorem tail_calls_suffice:
  fixes s :: "'a py_maps_scheme"
  assumes "3 \<le> calls"
  shows "pyperf_collect ns_pid_ino calls env s = pyperf_collect ns_pid_ino 3 env s"
proof -
  obtain k where k: "calls = Suc k" "2 \<le> k" using assms by (cases calls) auto
  have "read_python_stack env k s' = read_python_stack env 2 s'"
    if "ps_prog_call_cnt (py_state_heap s' (env_cpu env)) = 0" for s' :: "'a py_maps_scheme"
    using that k(2) by (intro read_python_stack_calls [where n = 3]) simp_all
  then have "pyperf_collect ns_pid_ino (Suc k) env s = pyperf_collect ns_pid_ino (Suc 2) env s"
    by (simp add: pyperf_collect_def pyperf_collect_impl_def Let_def split: option.splits prod.splits)
  then show ?thesis using k(1) by simp
qed

theorem tail_calls_suffice_witness:
  "pyperf_collect 0 (MAX_TAIL_CALL_CNT - 1) (plain_prof_env 0x700000008) empty_py_maps =
   pyperf_collect 0 3 (plain_prof_env 0x700000008) empty_py_maps"
  by (rule tail_calls_suffice) simp

section \<open>Bounds\<close>

definition symbol_wf :: "py_symbol \<Rightarrow> bool" where
  "symbol_wf symb \<longleftrightarrow> length (sym_classname symb) = 32 \<and> length (sym_name symb) = 64 \<and> length (sym_file symb) = 128"

definition py_state_wf :: "py_sample_state \<Rightarrow> bool" where
  "py_state_wf st \<longleftrightarrow>
     symbol_wf (ps_sym st) \<and> length (pe_stack (ps_event st)) = 96 \<and> pe_stack_len (ps_event st) \<le> PYTHON_STACK_MAX_LEN"

definition symbols_wf :: "(py_symbol, u32) bpf_map \<Rightarrow> bool" where
  "symbols_wf m \<longleftrightarrow> map_wf SYMBOL_ENTRIES m \<and> (\<forall>x\<in>set m. symbol_wf (fst x))"

definition stacks_wf :: "(u32, u32 list) bpf_map \<Rightarrow> bool" where
  "stacks_wf m \<longleftrightarrow> map_wf PROFILE_MAPS_SIZE m \<and> (\<forall>x\<in>set m. length (snd x) = 96)"

definition py_wf :: "'a py_maps_scheme \<Rightarrow> bool" where
  "py_wf s \<longleftrightarrow>
     (\<forall>cpu. py_state_wf (py_state_heap s cpu)) \<and> symbols_wf (py_symbols s) \<and> stacks_wf (python_stacks s) \<and>
     map_wf PIDS_ENTRIES (pids s) \<and> map_wf PROFILE_MAPS_SIZE (counts s) \<and>
     map_wf PY_PID_ENTRIES (py_pid_config s)"

lemma symbol_wf_zero [simp]: "symbol_wf zero_symbol"
  by (simp add: symbol_wf_def zero_symbol_def)

lemma pystr_read_length':
  "pystr_read env str offsets buf buf_size typ = (ok, buf', typ') \<Longrightarrow> length buf = unat buf_size \<Longrightarrow>
   length buf' = length buf"
  using pystr_read_length [of buf buf_size env str offsets "typ"] by simp

lemma check_first_arg_wf:
  "symbol_wf symb \<Longrightarrow> symbol_wf (fst (check_first_arg env code_ptr offsets symb))"
  by (auto simp: check_first_arg_def symbol_wf_def Let_def split: option.splits prod.splits
      dest!: pystr_read_length')

lemma read_class_name_wf:
  "symbol_wf symb \<Longrightarrow> symbol_wf (snd (read_class_name env ptr offsets symb))"
  by (auto simp: read_class_name_def symbol_wf_def split: option.splits dest: bpf_probe_read_str_le)

lemma symbol_wf_type [simp]: "symbol_wf (symb\<lparr>sym_classname_type := t\<rparr>) = symbol_wf symb"
  by (simp add: symbol_wf_def)

lemma get_class_name_wf:
  "symbol_wf symb \<Longrightarrow> symbol_wf (snd (get_class_name env cur_frame code_ptr offsets first_self symb))"
  by (simp add: get_class_name_def read_class_name_wf split: option.splits)

lemma get_names_wf:
  assumes "get_names env cur_frame code_ptr offsets symb = (e, symb')" and "symbol_wf symb"
  shows "symbol_wf symb'"
proof -
  obtain symb1 r where c: "check_first_arg env code_ptr offsets symb = (symb1, r)" by fastforce
  show ?thesis
  proof (cases r)
    case None
    then show ?thesis
      using assms c check_first_arg_wf [OF assms(2), of env code_ptr offsets] by (auto simp: get_names_def)
  next
    case (Some a)
    obtain fs fc where a: "a = (fs, fc)" by fastforce
    obtain ok symb2 where k: "(if fs \<or> fc then get_class_name env cur_frame code_ptr offsets fs zero_symbol
        else (True, zero_symbol)) = (ok, symb2)" by fastforce
    then have "symbol_wf symb2"
      using get_class_name_wf [OF symbol_wf_zero, of env cur_frame code_ptr offsets fs] by (auto split: if_splits)
    then show ?thesis
      using assms(1) unfolding get_names_def c Some a
      by (auto simp: k Let_def symbol_wf_def split: option.splits prod.splits if_splits dest!: pystr_read_length')
  qed
qed

lemma get_frame_data_wf:
  "get_frame_data env frame_ptr offsets symb = (r, fp, symb') \<Longrightarrow> symbol_wf symb \<Longrightarrow> symbol_wf symb'"
  by (auto simp: get_frame_data_def split: option.splits prod.splits if_splits dest: get_names_wf)

lemma symbols_wf_update:
  assumes "symbols_wf m" and "symbol_wf symb"
  shows "symbols_wf (snd (bpf_hash_update_elem SYMBOL_ENTRIES m symb i f))"
  using assms map_wf_hash_update [of SYMBOL_ENTRIES m symb i f] set_hash_update [of SYMBOL_ENTRIES m symb i f]
  unfolding symbols_wf_def by auto

lemma get_symbol_id_wf:
  assumes "get_symbol_id st symb m = (r, st', m')" and "symbols_wf m" and "symbol_wf symb"
  shows "symbols_wf m' \<and> ps_event st' = ps_event st \<and> ps_sym st' = ps_sym st"
  using assms symbols_wf_update [OF assms(2,3)]
  by (auto simp: get_symbol_id_def Let_def split: option.splits prod.splits if_splits) (metis snd_conv)+

lemma push_frame_wf:
  "length (pe_stack ev) = 96 \<Longrightarrow> pe_stack_len ev \<le> PYTHON_STACK_MAX_LEN \<Longrightarrow>
   length (pe_stack (push_frame i ev)) = 96 \<and> pe_stack_len (push_frame i ev) \<le> PYTHON_STACK_MAX_LEN"
  by (auto simp: push_frame_def inc_le)

lemma read_frames_wf:
  assumes "read_frames env n st m = (r, st', m')" and "py_state_wf st" and "symbols_wf m"
  shows "py_state_wf st' \<and> symbols_wf m'"
  using assms
proof (induction n arbitrary: st m)
  case (Suc n)
  obtain res fp symb where g: "get_frame_data env (ps_frame_ptr st) (ps_offsets st) (ps_sym st) = (res, fp, symb)"
    by (metis prod_cases3)
  let ?st = "st\<lparr>ps_frame_ptr := fp, ps_sym := symb\<rparr>"
  have wf: "symbol_wf symb" "py_state_wf ?st"
    using get_frame_data_wf [OF g] Suc.prems(2) by (simp_all add: py_state_wf_def)
  obtain i st1 m1 where i: "get_symbol_id ?st symb m = (i, st1, m1)" by (metis prod_cases3)
  have wf1: "symbols_wf m1" "ps_event st1 = ps_event ?st" "ps_sym st1 = ps_sym ?st"
    using get_symbol_id_wf [OF i Suc.prems(3) wf(1)] by simp_all
  have "py_state_wf (st1\<lparr>ps_event := push_frame x (ps_event st1)\<rparr>)" for x
    using wf(2) wf1 push_frame_wf [of "ps_event st1" x] by (simp add: py_state_wf_def)
  then show ?case
    using Suc wf wf1 g i by (auto simp: Let_def py_state_wf_def split: frame_result.splits option.splits)
qed simp

lemma stacks_wf_update:
  assumes "stacks_wf m" and "length stack = 96"
  shows "stacks_wf (snd (bpf_hash_update_elem PROFILE_MAPS_SIZE m h stack f))"
  using assms map_wf_hash_update [of PROFILE_MAPS_SIZE m h stack f]
    set_hash_update [of PROFILE_MAPS_SIZE m h stack f]
  unfolding stacks_wf_def by auto

lemma map_wf_count_sample: "map_wf PROFILE_MAPS_SIZE m \<Longrightarrow> map_wf PROFILE_MAPS_SIZE (count_sample key m)"
  by (auto simp: count_sample_def intro: hash.wf_intros split: option.splits)

lemma py_wf_put_state: "py_wf s \<Longrightarrow> py_state_wf st \<Longrightarrow> py_wf (put_state env st s)"
  by (simp add: py_wf_def)

lemma py_wf_symbols: "py_wf s \<Longrightarrow> symbols_wf m \<Longrightarrow> py_wf (s\<lparr>py_symbols := m\<rparr>)"
  by (simp add: py_wf_def)

text \<open>The event as it is submitted: ended by a zero where there is room, and hashed.\<close>

definition final_event :: "py_event \<Rightarrow> py_event" where
  "final_event ev =
     (let ev = (if pe_stack_len ev < PYTHON_STACK_MAX_LEN
                then ev\<lparr>pe_stack := (pe_stack ev)[unat (pe_stack_len ev) := 0]\<rparr> else ev) in
      ev\<lparr>pe_k := (pe_k ev)\<lparr>sk_user_stack :=
        MurmurHash64A (words_bytes (pe_stack ev)) (ucast (pe_stack_len ev) * 4) 0\<rparr>\<rparr>)"

lemma submit_sample_final:
  "submit_sample env st s =
     (let ev = final_event (ps_event st);
          s = put_state env (st\<lparr>ps_event := ev\<rparr>) s;
          (err, m) = bpf_hash_update_elem PROFILE_MAPS_SIZE (python_stacks s) (ucast (sk_user_stack (pe_k ev)))
            (pe_stack ev) BPF_ANY in
      if err \<noteq> 0 then s
      else s\<lparr>python_stacks := m, counts := count_sample (pe_k ev) (counts s)\<rparr>)"
  by (simp add: submit_sample_def final_event_def Let_def split del: if_split)

lemma final_event_simps [simp]:
  "pe_stack_len (final_event ev) = pe_stack_len ev" "length (pe_stack (final_event ev)) = length (pe_stack ev)"
  by (simp_all add: final_event_def Let_def)

lemma submit_sample_wf:
  assumes "py_wf s" and "py_state_wf st"
  shows "py_wf (submit_sample env st s)"
proof -
  let ?ev = "final_event (ps_event st)"
  have "py_state_wf (st\<lparr>ps_event := ?ev\<rparr>)" using assms(2) by (simp add: py_state_wf_def)
  moreover have "stacks_wf (snd (bpf_hash_update_elem PROFILE_MAPS_SIZE (python_stacks s)
      (ucast (sk_user_stack (pe_k ?ev))) (pe_stack ?ev) BPF_ANY))"
    using assms by (intro stacks_wf_update) (simp_all add: py_wf_def py_state_wf_def)
  ultimately show ?thesis
    using assms(1) map_wf_count_sample [of "counts s" "pe_k ?ev"]
    by (auto simp: submit_sample_final py_wf_def Let_def split: prod.splits)
qed

lemma py_state_wf_updates:
  "py_state_wf st \<Longrightarrow> py_state_wf (st\<lparr>ps_prog_call_cnt := c\<rparr>)"
  "py_state_wf st \<Longrightarrow> py_state_wf (st\<lparr>ps_event := (ps_event st)\<lparr>pe_k := k\<rparr>\<rparr>)"
  by (simp_all add: py_state_wf_def)

lemma read_python_stack_wf_step:
  fixes s :: "'a py_maps_scheme"
  assumes "py_wf s" and "\<And>c (s' :: 'a py_maps_scheme). calls = Suc c \<Longrightarrow> py_wf s' \<Longrightarrow> py_wf (read_python_stack env c s')"
  shows "py_wf (read_python_stack env calls s)"
proof -
  let ?st = "py_state_heap s (env_cpu env)"
  obtain r st m where run:
    "read_frames env 32 (?st\<lparr>ps_prog_call_cnt := ps_prog_call_cnt ?st + 1\<rparr>) (py_symbols s) = (r, st, m)"
    by (metis prod_cases3)
  then have "py_state_wf st \<and> symbols_wf m"
    using read_frames_wf [OF run] assms(1) by (simp add: py_wf_def py_state_wf_updates)
  then show ?thesis
    using run assms
    by (subst read_python_stack.simps)
      (auto simp: bpf_percpu_lookup_def Let_def split: option.splits nat.splits
        intro!: py_wf_put_state py_wf_symbols submit_sample_wf py_state_wf_updates assms(2))
qed

lemma read_python_stack_wf: "py_wf s \<Longrightarrow> py_wf (read_python_stack env calls s)"
  by (induction calls arbitrary: s) (auto intro: read_python_stack_wf_step)

lemma pyperf_collect_wf: "py_wf s \<Longrightarrow> py_wf (pyperf_collect ns_pid_ino calls env s)"
  by (auto simp: pyperf_collect_def pyperf_collect_impl_def bpf_percpu_lookup_def Let_def
      split: option.splits prod.splits nat.splits intro!: py_wf_put_state read_python_stack_wf)
    (simp_all add: py_wf_def py_state_wf_def)

lemma py_wf_parts:
  "py_wf s \<Longrightarrow> map_wf PIDS_ENTRIES m \<Longrightarrow> py_wf (s\<lparr>pids := m\<rparr>)"
  "py_wf s \<Longrightarrow> py_wf (s\<lparr>prof_events := es\<rparr>)"
  "py_wf s \<Longrightarrow> map_wf PROFILE_MAPS_SIZE c \<Longrightarrow> py_wf (s\<lparr>counts := c\<rparr>)"
  "py_wf s \<Longrightarrow> stacks_wf t \<Longrightarrow> py_wf (s\<lparr>python_stacks := t\<rparr>)"
  "py_wf s \<Longrightarrow> map_wf PY_PID_ENTRIES y \<Longrightarrow> py_wf (s\<lparr>py_pid_config := y\<rparr>)"
  by (simp_all add: py_wf_def)

text \<open>
  The profiler as a transition system: the three programs, run on any CPU in any environment, and
  what user space does to the maps between their runs.
\<close>

inductive profiler_step :: "u64 \<Rightarrow> nat \<Rightarrow> py_maps \<Rightarrow> py_maps \<Rightarrow> bool" for ns_pid_ino calls where
  tick: "profiler_step ns_pid_ino calls s
    (do_perf_event ns_pid_ino (Some (pyperf_collect ns_pid_ino calls)) env s)"
| exit: "profiler_step ns_pid_ino calls s (disassociate_ctty ns_pid_ino env on_exit s)"
| exec: "profiler_step ns_pid_ino calls s (exec_probe ns_pid_ino env s)"
| configure: "profiler_step ns_pid_ino calls s
    (s\<lparr>pids := snd (bpf_hash_update_elem PIDS_ENTRIES (pids s) pid config BPF_ANY)\<rparr>)"
| forget: "profiler_step ns_pid_ino calls s (s\<lparr>pids := bpf_map_delete_elem (pids s) pid\<rparr>)"
| configure_python: "profiler_step ns_pid_ino calls s
    (s\<lparr>py_pid_config := snd (bpf_hash_update_elem PY_PID_ENTRIES (py_pid_config s) pid pid_data BPF_ANY)\<rparr>)"
| forget_python: "profiler_step ns_pid_ino calls s
    (s\<lparr>py_pid_config := bpf_map_delete_elem (py_pid_config s) pid\<rparr>)"
| collect_count: "profiler_step ns_pid_ino calls s (s\<lparr>counts := bpf_map_delete_elem (counts s) key\<rparr>)"
| collect_stack: "profiler_step ns_pid_ino calls s (s\<lparr>python_stacks := bpf_map_delete_elem (python_stacks s) h\<rparr>)"

inductive_cases profiler_stepE: "profiler_step ns_pid_ino calls s s'"

lemma do_perf_event_wf:
  "py_wf s \<Longrightarrow> py_wf (do_perf_event ns_pid_ino (Some (pyperf_collect ns_pid_ino' calls)) env s)"
proof -
  assume wf: "py_wf s"
  then have "map_wf PIDS_ENTRIES (pids s)" "map_wf PROFILE_MAPS_SIZE (counts s)" by (simp_all add: py_wf_def)
  then show ?thesis
    using wf hash.wf_update [of PIDS_ENTRIES "pids s"]
    by (auto simp: do_perf_event_def Let_def split: option.splits prod.splits
        intro!: py_wf_parts pyperf_collect_wf map_wf_count_sample) (metis snd_conv)
qed

lemma stacks_wf_delete: "stacks_wf m \<Longrightarrow> stacks_wf (bpf_map_delete_elem m h)"
  using set_map_delete [of m h] hash.wf_delete [of PROFILE_MAPS_SIZE m h] by (auto simp: stacks_wf_def)

lemma profiler_step_wf:
  assumes "profiler_step ns_pid_ino calls s s'" and "py_wf s"
  shows "py_wf s'"
proof -
  have maps: "map_wf PIDS_ENTRIES (pids s)" "map_wf PROFILE_MAPS_SIZE (counts s)"
    "map_wf PY_PID_ENTRIES (py_pid_config s)" "stacks_wf (python_stacks s)"
    using assms(2) by (simp_all add: py_wf_def)
  show ?thesis
    using assms(1)
    by (rule profiler_stepE)
      (use assms(2) maps in \<open>auto simp: disassociate_ctty_def exec_probe_def Let_def
        intro!: do_perf_event_wf py_wf_parts hash.wf_update hash.wf_delete stacks_wf_delete\<close>)
qed

lemma empty_py_maps_wf: "py_wf empty_py_maps"
  by (simp add: py_wf_def py_state_wf_def zero_py_state_def symbols_wf_def stacks_wf_def map_wf_def)

interpretation profiler: step_invariant "profiler_step ns_pid_ino calls" py_wf for ns_pid_ino calls
  by unfold_locales (rule profiler_step_wf)

text \<open>
  C17. Whatever the sampled processes hold in memory, in every state the profiler reaches the
  buffers have their declared sizes, no stack is longer than 96 frames, every symbol and stack
  that was recorded has the size of its map's key or value, and no map has two entries for a key
  or more entries than declared.
\<close>

theorem profiler_stays_in_bounds:
  assumes "(profiler_step ns_pid_ino calls)\<^sup>*\<^sup>* empty_py_maps s"
  shows "py_wf s"
  using assms empty_py_maps_wf by (rule profiler.reachable_inv)

theorem profiler_stays_in_bounds_witness:
  "py_wf (do_perf_event 0 (Some (pyperf_collect 0 32)) (plain_prof_env 0x700000008) empty_py_maps)"
  by (rule profiler_stays_in_bounds [of 0 32]) (rule r_into_rtranclp, rule profiler_step.tick)

end
