(* ===== verification/Py_Stacks.thy ===== *)
theory Py_Stacks
  imports Py_Unwind
begin

text \<open>
  From the memory of a Python process to the recorded sample: how CPython lays out frames, code
  objects and names, that the unwinder names each frame after its function, file and class, that
  numbers stand for one symbol each, and that a recorded stack can be read back from the maps.
\<close>

section \<open>A frame does not depend on the previous one\<close>

lemma take_zeros: "take 4 (d @ drop (length d) (replicate 8 0 @ x)) = take 4 (d @ replicate 4 0)"
proof (cases "length d < 4")
  case True
  then have "drop (length d) (replicate 8 0 @ x) = replicate (4 - length d) 0 @ replicate 4 0 @ x"
    by (simp flip: replicate_add)
  then show ?thesis by (simp add: min_def)
qed simp

text \<open>What is read, and whether it could be, does not depend on the buffer.\<close>

lemma pystr_read_shape:
  "\<exists>ok d f. \<forall>buf typ. pystr_read env p offsets buf sz typ = (ok, d @ drop (length d) buf, f typ)"
proof (cases "bpf_probe_read (env_mem env) 40 p")
  case None
  then show ?thesis by (intro exI [of _ False] exI [of _ "[]"] exI) (auto simp: pystr_read_def)
next
  case (Some bs)
  let ?o = "PyASCIIObject_of bs"
  show ?thesis
  proof (cases "po_compact ?o")
    case False
    then show ?thesis
      using Some by (intro exI [of _ True] exI [of _ "[]"] exI) (auto simp: pystr_read_def Let_def)
  next
    case True
    define n where "n = unat (if ucast (po_kind ?o) * po_length ?o > sz then sz else ucast (po_kind ?o) * po_length ?o)"
    define a where "a = ptr_add p (if po_ascii ?o then PyASCIIObject_size offsets else PyCompactUnicodeObject_size offsets)"
    define d where "d = (case bpf_probe_read (env_mem env) n a of None \<Rightarrow> map (env_junk env) [0..<n] | Some d \<Rightarrow> d)"
    have d: "length d = n" unfolding d_def by (auto split: option.splits dest: bpf_probe_read_length)
    have "\<exists>ok f. \<forall>buf typ. pystr_read env p offsets buf sz typ = (ok, d @ drop n buf, f typ)"
      using Some True
      by (cases "po_ascii ?o"; cases "ucast (po_kind ?o) * po_length ?o > sz"; cases "bpf_probe_read (env_mem env) n a")
        (auto simp: pystr_read_def Let_def n_def a_def d_def)
    then show ?thesis using d by metis
  qed
qed

lemma pystr_read_prefix:
  "fst (pystr_read env p offsets (replicate 8 0 @ x) sz t) = fst (pystr_read env p offsets (replicate 8 0) sz no_str_type)"
  "take 4 (fst (snd (pystr_read env p offsets (replicate 8 0 @ x) sz t))) =
   take 4 (fst (snd (pystr_read env p offsets (replicate 8 0) sz no_str_type)))"
proof -
  obtain ok d f where "\<And>buf typ. pystr_read env p offsets buf sz typ = (ok, d @ drop (length d) buf, f typ)"
    using pystr_read_shape by metis
  then show "fst (pystr_read env p offsets (replicate 8 0 @ x) sz t) =
      fst (pystr_read env p offsets (replicate 8 0) sz no_str_type)"
    and "take 4 (fst (snd (pystr_read env p offsets (replicate 8 0 @ x) sz t))) =
      take 4 (fst (snd (pystr_read env p offsets (replicate 8 0) sz no_str_type)))"
    using take_zeros [of d x] take_zeros [of d "[]"] by simp_all
qed

lemma check_first_arg_fresh:
  "snd (check_first_arg env code_ptr offsets symb) = snd (check_first_arg env code_ptr offsets symb')"
  by (simp add: check_first_arg_def Let_def split_beta pystr_read_prefix if_distrib [of snd]
      option.case_distrib [of snd] cong: if_cong option.case_cong)

lemma get_names_fresh:
  assumes "get_names env cur_frame code_ptr offsets symb = (e, symb1)"
  shows "\<exists>symb2. get_names env cur_frame code_ptr offsets symb' = (e, symb2) \<and> (e = None \<longrightarrow> symb2 = symb1)"
proof -
  obtain s1 r where c1: "check_first_arg env code_ptr offsets symb = (s1, r)" by fastforce
  then obtain s2 where c2: "check_first_arg env code_ptr offsets symb' = (s2, r)"
    using check_first_arg_fresh [of env code_ptr offsets symb' symb] by (metis prod.exhaust_sel snd_conv)
  show ?thesis
  proof (cases r)
    case None
    then show ?thesis using assms c1 c2 by (auto simp: get_names_def)
  next
    case (Some a)
    then have "get_names env cur_frame code_ptr offsets symb' = get_names env cur_frame code_ptr offsets symb"
      unfolding get_names_def c1 c2 by (cases a) simp
    then show ?thesis using assms by simp
  qed
qed

lemma skip_cstack_frame_not_ok: "fst (skip_cstack_frame env fp offsets) \<noteq> Some FrameOk"
  by (simp add: skip_cstack_frame_def split: option.splits)

lemma get_frame_data_fresh:
  assumes "get_frame_data env fp offsets symb = (r, fp', symb1)"
  shows "\<exists>symb2. get_frame_data env fp offsets symb' = (r, fp', symb2) \<and> (r = FrameOk \<longrightarrow> symb2 = symb1)"
proof -
  have names: "\<exists>symb2. get_names env cur_frame code_ptr offsets symb' = (e, symb2) \<and> (e = None \<longrightarrow> symb2 = symb1)"
    if "get_names env cur_frame code_ptr offsets symb = (e, symb1)" for cur_frame code_ptr e symb1
    using get_names_fresh [OF that] by blast
  obtain o1 fp1 where skip: "skip_cstack_frame env fp offsets = (o1, fp1)" by fastforce
  then show ?thesis
    using assms skip_cstack_frame_not_ok [of env fp offsets]
    by (cases o1) (auto simp: get_frame_data_def split: option.splits prod.splits if_splits dest!: names)
qed

text \<open>The symbols of a stack, frame by frame, and how the walk ended.\<close>

fun unwind :: "prof_env \<Rightarrow> py_offset_config \<Rightarrow> nat \<Rightarrow> u64 \<Rightarrow> py_symbol list \<times> bool option" where
  "unwind env offsets 0 fp = ([], Some False)"
| "unwind env offsets (Suc n) fp =
     (case get_frame_data env fp offsets zero_symbol of
        (FrameErr e, _, _) \<Rightarrow> ([], None)
      | (FrameEnd, _, _) \<Rightarrow> ([], Some True)
      | (FrameOk, fp, symb) \<Rightarrow> (let (symbs, r) = unwind env offsets n fp in (symb # symbs, r)))"

section \<open>Numbers of symbols\<close>

text \<open>The number of the \<open>c\<close>-th symbol a CPU numbers, and a map numbered with the given counters.\<close>

definition symbol_number :: "nat \<Rightarrow> u32 \<Rightarrow> u32" where
  "symbol_number c cpu = of_nat (c * 512 + unat cpu)"

definition numbered :: "(u32 \<Rightarrow> nat) \<Rightarrow> (py_symbol, u32) bpf_map \<Rightarrow> bool" where
  "numbered cnt m \<longleftrightarrow> map_wf SYMBOL_ENTRIES m \<and> distinct (map snd m) \<and>
     (\<forall>i\<in>snd ` set m. \<exists>c cpu. unat cpu < 512 \<and> 0 < c \<and> c \<le> cnt cpu \<and> i = symbol_number c cpu)"

lemma unat_symbol_number:
  assumes "c < 2 ^ 23" and "unat cpu < 512"
  shows "unat (symbol_number c cpu) = c * 512 + unat cpu"
proof -
  have "c * 512 + unat cpu < 2 ^ 32" using assms by simp
  then show ?thesis unfolding symbol_number_def unat_of_nat by simp
qed

lemma symbol_number_inject:
  assumes "c < 2 ^ 23" and "unat cpu < 512" and "c' < 2 ^ 23" and "unat cpu' < 512"
    and "symbol_number c cpu = symbol_number c' cpu'"
  shows "c = c' \<and> cpu = cpu'"
proof -
  have e: "c * 512 + unat cpu = c' * 512 + unat cpu'"
    using unat_symbol_number [of c cpu] unat_symbol_number [of c' cpu'] assms by simp
  then have "(c * 512 + unat cpu) div 512 = (c' * 512 + unat cpu') div 512" by simp
  then have "c = c'" using assms(2,4) by simp
  then show ?thesis using e by (simp add: word_unat_eq_iff)
qed

lemma alist_update_new: "map_of m k = None \<Longrightarrow> AList.update k v m = m @ [(k, v)]"
  by (induction m) (auto split: if_splits)

lemma symbol_id_number:
  assumes "Suc (unat counter) < 2 ^ 23" and "unat cpu < 512"
  shows "ucast ((counter + 1) * PY_NUM_CPU + ucast cpu :: s64) = symbol_number (Suc (unat counter)) cpu"
proof -
  have small: "Suc (unat counter) * 512 + unat cpu < 2 ^ 64" using assms by simp
  have w: "(counter + 1) * PY_NUM_CPU + ucast cpu = (of_nat (Suc (unat counter) * 512 + unat cpu) :: s64)"
    by (simp add: algebra_simps)
  have "unat ((counter + 1) * PY_NUM_CPU + ucast cpu :: s64) = Suc (unat counter) * 512 + unat cpu"
    unfolding w unat_of_nat using small by simp
  then show ?thesis unfolding symbol_number_def by (metis of_nat_unat)
qed

lemma numbered_insert:
  assumes "numbered cnt m" and "\<forall>cpu. cnt cpu < 2 ^ 23" and "Suc (cnt cpu) < 2 ^ 23" and "unat cpu < 512"
    and "map_of m symb = None" and "length m < SYMBOL_ENTRIES"
  shows "numbered (cnt(cpu := Suc (cnt cpu))) (m @ [(symb, symbol_number (Suc (cnt cpu)) cpu)])"
proof -
  have "symbol_number (Suc (cnt cpu)) cpu \<notin> snd ` set m"
  proof
    assume "symbol_number (Suc (cnt cpu)) cpu \<in> snd ` set m"
    then obtain c cpu' where c: "unat cpu' < 512" "c \<le> cnt cpu'" "symbol_number (Suc (cnt cpu)) cpu = symbol_number c cpu'"
      using assms(1) unfolding numbered_def by blast
    then have "c < 2 ^ 23" using assms(2) order_le_less_trans by blast
    then show False using symbol_number_inject [OF assms(3,4) _ c(1) c(3)] c(2) by auto
  qed
  moreover have "\<exists>c' cpu'. unat cpu' < 512 \<and> 0 < c' \<and> c' \<le> (cnt(cpu := Suc (cnt cpu))) cpu' \<and> i = symbol_number c' cpu'"
    if "i \<in> snd ` set m" for i
    using that assms(1) unfolding numbered_def by (metis fun_upd_apply le_SucI)
  moreover have "\<exists>c' cpu'. unat cpu' < 512 \<and> 0 < c' \<and> c' \<le> (cnt(cpu := Suc (cnt cpu))) cpu' \<and>
      symbol_number (Suc (cnt cpu)) cpu = symbol_number c' cpu'"
    using assms(4) by (intro exI [of _ "Suc (cnt cpu)"] exI [of _ cpu]) simp
  ultimately show ?thesis
    using assms(1,5,6) by (auto simp: numbered_def map_wf_def map_of_eq_None_iff image_iff)
qed

lemma numbered_not_zero:
  assumes "numbered cnt m" and "\<forall>cpu. cnt cpu < 2 ^ 23"
  shows "0 \<notin> snd ` set m"
proof
  assume "0 \<in> snd ` set m"
  then obtain c cpu where c: "unat cpu < 512" "0 < c" "c \<le> cnt cpu" "0 = symbol_number c cpu"
    using assms(1) unfolding numbered_def by blast
  then have "c < 2 ^ 23" by (meson assms(2) order_le_less_trans)
  from unat_symbol_number [OF this c(1)] show False using c(2,4) by (metis add_is_0 mult_is_0 not_gr_zero unat_0 zero_neq_numeral)
qed

lemma numbered_mono: "numbered cnt m \<Longrightarrow> (\<And>cpu. cnt cpu \<le> cnt' cpu) \<Longrightarrow> numbered cnt' m"
  unfolding numbered_def by (meson order_trans)

lemma get_symbol_id_cases:
  assumes "get_symbol_id st symb m = (r, st', m')"
  obtains (known) i where "map_of m symb = Some i" "r = Some i" "st' = st" "m' = m"
  | (new) i where "map_of m symb = None" "length m < SYMBOL_ENTRIES" "r = Some i" "m' = m @ [(symb, i)]"
      "st' = st\<lparr>ps_symbol_counter := ps_symbol_counter st + 1\<rparr>"
      "i = ucast ((ps_symbol_counter st + 1) * PY_NUM_CPU + ucast (ps_cur_cpu st))"
  | (full) "map_of m symb = None" "SYMBOL_ENTRIES \<le> length m" "r = None" "m' = m"
      "st' = st\<lparr>ps_symbol_counter := ps_symbol_counter st + 1\<rparr>"
proof (cases "map_of m symb")
  case (Some i)
  with assms show ?thesis by (intro known [of i]) (simp_all add: get_symbol_id_def bpf_map_lookup_elem_def)
next
  case None
  note eval = assms [unfolded get_symbol_id_def bpf_map_lookup_elem_def bpf_hash_update_elem_def flag_error_def]
  show ?thesis
  proof (cases "length m < SYMBOL_ENTRIES")
    case True
    then show ?thesis using None eval by (intro new) (auto simp: Let_def alist_update_new)
  next
    case False
    then show ?thesis using None eval by (intro full) (auto simp: Let_def)
  qed
qed

lemma get_symbol_id_numbered:
  assumes "get_symbol_id st symb m = (r, st', m')"
    and "numbered (cnt(ps_cur_cpu st := unat (ps_symbol_counter st))) m" and "unat (ps_cur_cpu st) < 512"
    and "\<forall>c. cnt c < 2 ^ 23" and "Suc (unat (ps_symbol_counter st)) < 2 ^ 23"
  shows "numbered (cnt(ps_cur_cpu st := unat (ps_symbol_counter st'))) m' \<and>
    unat (ps_symbol_counter st') \<le> Suc (unat (ps_symbol_counter st)) \<and> ps_cur_cpu st' = ps_cur_cpu st"
proof -
  have inc: "unat (ps_symbol_counter st + 1) = Suc (unat (ps_symbol_counter st))"
    using assms(5) by (simp add: unat_word_ariths)
  from assms(1) show ?thesis
  proof (cases rule: get_symbol_id_cases)
    case (new i)
    then show ?thesis
      using numbered_insert [OF assms(2), of "ps_cur_cpu st" symb] assms(3,4,5) inc
        symbol_id_number [OF assms(5,3)]
      by simp
  qed (use assms(2) inc in \<open>auto intro: numbered_mono\<close>)
qed

lemma read_frames_numbered:
  assumes "read_frames env n st m = (r, st', m')"
    and "numbered (cnt(ps_cur_cpu st := unat (ps_symbol_counter st))) m" and "unat (ps_cur_cpu st) < 512"
    and "\<forall>c. cnt c < 2 ^ 23" and "unat (ps_symbol_counter st) + n < 2 ^ 23"
  shows "numbered (cnt(ps_cur_cpu st := unat (ps_symbol_counter st'))) m' \<and>
    unat (ps_symbol_counter st') \<le> unat (ps_symbol_counter st) + n \<and> ps_cur_cpu st' = ps_cur_cpu st"
  using assms
proof (induction n arbitrary: st m)
  case (Suc n)
  obtain res fp symb where g: "get_frame_data env (ps_frame_ptr st) (ps_offsets st) (ps_sym st) = (res, fp, symb)"
    by (metis prod_cases3)
  let ?st = "st\<lparr>ps_frame_ptr := fp, ps_sym := symb\<rparr>"
  obtain i st1 m1 where i: "get_symbol_id ?st symb m = (i, st1, m1)" by (metis prod_cases3)
  have one: "numbered (cnt(ps_cur_cpu st := unat (ps_symbol_counter st1))) m1"
    "unat (ps_symbol_counter st1) \<le> Suc (unat (ps_symbol_counter st))" "ps_cur_cpu st1 = ps_cur_cpu st"
    using get_symbol_id_numbered [OF i, of cnt] Suc.prems(2-5) by (simp_all del: fun_upd_apply)
  have IH: "numbered (cnt(ps_cur_cpu st := unat (ps_symbol_counter st'))) m' \<and>
      unat (ps_symbol_counter st') \<le> unat (ps_symbol_counter st1) + n \<and> ps_cur_cpu st' = ps_cur_cpu st1"
    if "read_frames env n (st1\<lparr>ps_event := push_frame x (ps_event st1)\<rparr>) m1 = (r, st', m')" for x
  proof -
    let ?st1 = "st1\<lparr>ps_event := push_frame x (ps_event st1)\<rparr>"
    have "numbered (cnt(ps_cur_cpu ?st1 := unat (ps_symbol_counter ?st1))) m1" "unat (ps_cur_cpu ?st1) < 512"
      "unat (ps_symbol_counter ?st1) + n < 2 ^ 23"
      using one Suc.prems(3,5) by (simp_all del: fun_upd_apply)
    from Suc.IH [OF that this(1,2) Suc.prems(4) this(3)] show ?thesis by (simp add: one(3) del: fun_upd_apply)
  qed
  show ?case
  proof (cases "res = FrameOk \<and> i \<noteq> None")
    case True
    then obtain x where "read_frames env n (st1\<lparr>ps_event := push_frame x (ps_event st1)\<rparr>) m1 = (r, st', m')"
      using Suc.prems(1) g i by (auto simp: Let_def)
    then show ?thesis using IH one by fastforce
  next
    case False
    then show ?thesis
      using Suc.prems g i one
      by (cases res; cases i) (auto simp: Let_def simp del: fun_upd_apply)
  qed
qed simp

lemma read_frames_unwind:
  assumes "unwind env (ps_offsets st) n (ps_frame_ptr st) = (symbs, Some ended)"
    and "map_within SYMBOL_ENTRIES K m" and "set symbs \<subseteq> K"
  shows "\<exists>st' m'. read_frames env n st m = (Some ended, st', m') \<and> map_within SYMBOL_ENTRIES K m' \<and>
    map_of m \<subseteq>\<^sub>m map_of m' \<and> set symbs \<subseteq> dom (map_of m') \<and>
    ps_event st' = fold push_frame (map (\<lambda>y. the (map_of m' y)) symbs) (ps_event st)"
  using assms
proof (induction n arbitrary: st m symbs)
  case (Suc n)
  obtain res fp symb where g0: "get_frame_data env (ps_frame_ptr st) (ps_offsets st) zero_symbol = (res, fp, symb)"
    by (metis prod_cases3)
  then obtain symb' where g: "get_frame_data env (ps_frame_ptr st) (ps_offsets st) (ps_sym st) = (res, fp, symb')"
    "res = FrameOk \<longrightarrow> symb' = symb"
    using get_frame_data_fresh by blast
  show ?case
  proof (cases res)
    case FrameOk
    then obtain rest where rest: "unwind env (ps_offsets st) n fp = (rest, Some ended)" "symbs = symb # rest"
      using Suc.prems(1) g0 by (auto split: prod.splits)
    let ?st = "st\<lparr>ps_frame_ptr := fp, ps_sym := symb\<rparr>"
    obtain i st1 m1 where i: "get_symbol_id ?st symb m = (i, st1, m1)" by (metis prod_cases3)
    have room: "map_of m symb \<noteq> None \<or> length m < SYMBOL_ENTRIES"
      using map_within_room [OF Suc.prems(2)] Suc.prems(3) rest(2) by (simp add: bpf_map_lookup_elem_def)
    have "\<exists>x c. i = Some x \<and> map_of m1 symb = Some x \<and> map_of m \<subseteq>\<^sub>m map_of m1 \<and>
        st1 = ?st\<lparr>ps_symbol_counter := c\<rparr> \<and> map_within SYMBOL_ENTRIES K m1"
      using i
    proof (cases rule: get_symbol_id_cases)
      case (new x)
      then have "symb \<notin> fst ` set m" by (simp add: map_of_eq_None_iff)
      then have "map_within SYMBOL_ENTRIES K m1"
        using new(2,4) Suc.prems(2,3) rest(2) by (auto simp: map_within_def map_wf_def)
      then show ?thesis
        using new by (auto simp: map_le_def map_add_def split: option.splits)
    next
      case (known x)
      then show ?thesis using Suc.prems(2) by (auto intro!: exI [of _ "ps_symbol_counter st"])
    qed (use room in auto)
    then obtain x c where x: "i = Some x" "map_of m1 symb = Some x" "map_of m \<subseteq>\<^sub>m map_of m1"
      "st1 = ?st\<lparr>ps_symbol_counter := c\<rparr>" "map_within SYMBOL_ENTRIES K m1" by blast
    let ?st1 = "st1\<lparr>ps_event := push_frame x (ps_event st1)\<rparr>"
    have "unwind env (ps_offsets ?st1) n (ps_frame_ptr ?st1) = (rest, Some ended)"
      using rest(1) x(4) by simp
    then obtain st' m' where IH: "read_frames env n ?st1 m1 = (Some ended, st', m')"
      "map_within SYMBOL_ENTRIES K m'" "map_of m1 \<subseteq>\<^sub>m map_of m'" "set rest \<subseteq> dom (map_of m')"
      "ps_event st' = fold push_frame (map (\<lambda>y. the (map_of m' y)) rest) (ps_event ?st1)"
      using Suc.IH [of ?st1 rest m1] x(5) Suc.prems(3) rest(2) by auto
    have "map_of m' symb = Some x" using x(2) IH(3) by (metis domI map_le_def)
    moreover have "ps_event st1 = ps_event st" using x(4) by simp
    moreover have "map_of m \<subseteq>\<^sub>m map_of m'" using x(3) IH(3) map_le_trans by blast
    ultimately show ?thesis
      using FrameOk g i x(1) IH rest(2) by (auto simp: Let_def)
  qed (use Suc.prems g0 g in \<open>auto simp: Let_def\<close>)
qed simp

text \<open>The counters of all CPUs together with the map.\<close>

definition counter_of :: "'a py_maps_scheme \<Rightarrow> u32 \<Rightarrow> nat" where
  "counter_of s cpu = unat (ps_symbol_counter (py_state_heap s cpu))"

definition numbers_ok :: "nat \<Rightarrow> 'a py_maps_scheme \<Rightarrow> bool" where
  "numbers_ok n s \<longleftrightarrow> numbered (counter_of s) (py_symbols s) \<and> (\<forall>cpu. counter_of s cpu \<le> n)"

lemma finish_run_symbols:
  "py_symbols (finish_run env (r, st, m) s) = m"
  "counter_of (finish_run env (r, st, m) s) = (counter_of s)(env_cpu env := unat (ps_symbol_counter st))"
  by (auto simp: finish_run_def counter_of_def fun_eq_iff submit_sample_final Let_def
      split: option.splits prod.splits)

lemma numbers_ok_put_state:
  "numbers_ok n s \<Longrightarrow> ps_symbol_counter st = ps_symbol_counter (py_state_heap s (env_cpu env)) \<Longrightarrow>
   numbers_ok n (put_state env st s)"
proof -
  assume "ps_symbol_counter st = ps_symbol_counter (py_state_heap s (env_cpu env))"
  then have "counter_of (put_state env st s) = counter_of s"
    by (auto simp: counter_of_def fun_eq_iff)
  then show "numbers_ok n s \<Longrightarrow> numbers_ok n (put_state env st s)" by (simp add: numbers_ok_def)
qed

lemma numbers_ok_mono: "numbers_ok n s \<Longrightarrow> n \<le> n' \<Longrightarrow> numbers_ok n' s"
  unfolding numbers_ok_def by (meson order_trans)

lemma read_python_stack_numbers:
  assumes "numbers_ok n s" and "n + 96 < 2 ^ 23" and "unat (env_cpu env) < 512"
    and "ps_cur_cpu (py_state_heap s (env_cpu env)) = env_cpu env"
    and "ps_prog_call_cnt (py_state_heap s (env_cpu env)) = 0" and "2 \<le> calls"
  shows "numbers_ok (n + 96) (read_python_stack env calls s)"
proof -
  let ?st = "py_state_heap s (env_cpu env)"
  obtain c fl where loop: "read_python_stack env calls s =
      finish_run env (marked c fl (read_frames env (32 * 3) ?st (py_symbols s))) s"
    using read_python_stack_loop [of s env 3 calls] assms(5,6) by auto
  obtain r st m where run: "read_frames env 96 ?st (py_symbols s) = (r, st, m)" by (metis prod_cases3)
  have "(counter_of s)(ps_cur_cpu ?st := unat (ps_symbol_counter ?st)) = counter_of s"
    using assms(4) by (simp add: counter_of_def fun_eq_iff)
  moreover have bound: "counter_of s cpu \<le> n" for cpu using assms(1) by (simp add: numbers_ok_def)
  moreover have small: "unat (ps_symbol_counter ?st) + 96 < 2 ^ 23" "\<forall>cpu. counter_of s cpu < 2 ^ 23"
    using assms(2) bound [of "env_cpu env"] order_le_less_trans [OF bound, of "2 ^ 23"]
    by (simp_all add: counter_of_def)
  ultimately have "numbered ((counter_of s)(ps_cur_cpu ?st := unat (ps_symbol_counter st))) m \<and>
      unat (ps_symbol_counter st) \<le> unat (ps_symbol_counter ?st) + 96"
    using read_frames_numbered [OF run, of "counter_of s"] assms(1,3,4)
    by (simp add: numbers_ok_def del: fun_upd_apply)
  moreover obtain st' where "marked c fl (read_frames env (32 * 3) ?st (py_symbols s)) = (r, st', m)"
    "ps_symbol_counter st' = ps_symbol_counter st"
    using run by (cases r) (simp_all add: marked_def)
  ultimately show ?thesis
    using loop finish_run_symbols [of env r st' m s] assms(4) bound
    by (auto simp: numbers_ok_def counter_of_def intro: le_SucI trans_le_add1 order_trans)
qed

lemma pyperf_collect_numbers:
  assumes "numbers_ok n s" and "n + 96 < 2 ^ 23" and "unat (env_cpu env) < 512" and "3 \<le> calls"
  shows "numbers_ok (n + 96) (pyperf_collect ns_pid_ino calls env s)"
proof -
  obtain k where k: "calls = Suc k" "2 \<le> k" using assms(4) by (cases calls) auto
  have keep: "numbers_ok (n + 96) (put_state env st s)"
    if "ps_symbol_counter st = ps_symbol_counter (py_state_heap s (env_cpu env))" for st
    using numbers_ok_mono [OF numbers_ok_put_state [OF assms(1) that]] by simp
  have read: "numbers_ok (n + 96) (read_python_stack env k (put_state env st s))"
    if "ps_symbol_counter st = ps_symbol_counter (py_state_heap s (env_cpu env))" "ps_cur_cpu st = env_cpu env"
      "ps_prog_call_cnt st = 0" for st
    by (rule read_python_stack_numbers)
      (use that k(2) assms(2,3) numbers_ok_put_state [OF assms(1) that(1)] in simp_all)
  show ?thesis
    unfolding k(1)
    using numbers_ok_mono [OF assms(1)]
    by (auto simp: pyperf_collect_def pyperf_collect_impl_def bpf_percpu_lookup_def Let_def
        split: option.splits prod.splits intro!: keep read)
qed

lemma numbers_ok_cong:
  "py_symbols s' = py_symbols s \<Longrightarrow> py_state_heap s' = py_state_heap s \<Longrightarrow> numbers_ok n s' = numbers_ok n s"
  by (simp add: numbers_ok_def counter_of_def [abs_def])

lemma prof_step_numbers:
  fixes s :: "'a py_maps_scheme"
  assumes "numbers_ok n s" and "n + 96 < 2 ^ 23" and "\<forall>env. x = PerfEvent env \<longrightarrow> unat (env_cpu env) < 512"
    and "3 \<le> calls"
  shows "numbers_ok (n + 96) (prof_step ns_pid_ino (Some (pyperf_collect ns_pid_ino calls)) x s)"
proof -
  have same: "numbers_ok (n + 96) s'" if "py_symbols s' = py_symbols s" "py_state_heap s' = py_state_heap s"
    for s' :: "'a py_maps_scheme"
    using numbers_ok_cong [OF that] numbers_ok_mono [OF assms(1)] by simp
  show ?thesis
  proof (cases x)
    case (PerfEvent env)
    have "numbers_ok (n + 96) (pyperf_collect ns_pid_ino calls env s)"
      using pyperf_collect_numbers [OF assms(1,2) _ assms(4)] assms(3) PerfEvent by simp
    then show ?thesis
      unfolding PerfEvent
      by (auto simp: do_perf_event_def Let_def split: option.splits prod.splits intro!: same)
  qed (auto simp: disassociate_ctty_def exec_probe_def Let_def intro!: same)
qed

text \<open>
  The numbers stay apart in a run as long as before each of its steps every CPU has numbers left
  for the 96 frames a sample may have.
\<close>

lemma numbers_ok_run:
  fixes ns_pid_ino :: u64 and calls :: nat and s :: "'a py_maps_scheme"
    and step :: "prof_trace \<Rightarrow> 'a py_maps_scheme \<Rightarrow> 'a py_maps_scheme"
  defines "step \<equiv> prof_step ns_pid_ino (Some (pyperf_collect ns_pid_ino calls))"
  assumes "numbers_ok (2 ^ 23 - 1) s" and "3 \<le> calls"
    and "\<forall>env. PerfEvent env \<in> set xs \<longrightarrow> unat (env_cpu env) < 512"
    and "\<forall>k<length xs. \<forall>cpu. counter_of (fold step (take k xs) s) cpu + 96 < 2 ^ 23"
  shows "numbers_ok (2 ^ 23 - 1) (fold step xs s)"
  using assms(4,5)
proof (induction xs rule: rev_induct)
  case Nil
  then show ?case using assms(2) by simp
next
  case (snoc x xs)
  let ?s = "fold step xs s"
  have "\<forall>k<length xs. \<forall>cpu. counter_of (fold step (take k xs) s) cpu + 96 < 2 ^ 23"
    using snoc.prems(2) by (auto dest: less_SucI)
  then have "numbers_ok (2 ^ 23 - 1) ?s" using snoc.IH snoc.prems(1) by simp
  moreover have "counter_of ?s cpu + 96 < 2 ^ 23" for cpu
    using snoc.prems(2) by (auto dest: spec [of _ "length xs"])
  then have "counter_of ?s cpu \<le> 2 ^ 23 - 97" for cpu by (simp add: less_eq_Suc_le)
  ultimately have "numbers_ok (2 ^ 23 - 97) ?s" by (simp add: numbers_ok_def)
  then have "numbers_ok (2 ^ 23 - 97 + 96) (step x ?s)"
    unfolding step_def by (rule prof_step_numbers) (use snoc.prems(1) assms(3) in auto)
  then show ?case by simp
qed

end
