(* ===== verification/Py_Frames.thy ===== *)
theory Py_Frames
  imports Py_Stacks
begin

text \<open>
  The Python stack of a process as CPython lays it out in memory, and that a sample of the process
  records it: the frames are named after their functions, and the recorded numbers lead back to
  the names, since a number stands for one symbol.
\<close>

section \<open>Frames in memory\<close>

text \<open>
  A function: the name of its first argument or local variable, if it has one, its own name, its
  file, and the name of the class its receiver belongs to. All names are ASCII here; \<open>pystr_read_back\<close> covers wider
  strings.
\<close>

record py_function =
  fn_arg :: "u8 list option"
  fn_class :: "u8 list"
  fn_name :: "u8 list"
  fn_file :: "u8 list"

definition is_self :: "u8 list \<Rightarrow> bool" where
  "is_self a \<longleftrightarrow> take 4 a = ascii ''self''"

definition is_cls :: "u8 list \<Rightarrow> bool" where
  "is_cls a \<longleftrightarrow> a = ascii ''cls''"

definition holds_ascii :: "mem \<Rightarrow> py_offset_config \<Rightarrow> u64 \<Rightarrow> u8 list \<Rightarrow> bool" where
  "holds_ascii m offsets str bs \<longleftrightarrow> holds_pystr m offsets str 1 True (map ucast bs)"

text \<open>The tuple of a code object's argument names.\<close>

definition holds_arg :: "mem \<Rightarrow> py_offset_config \<Rightarrow> u64 \<Rightarrow> u8 list option \<Rightarrow> bool" where
  "holds_arg m offsets code arg \<longleftrightarrow>
     (\<exists>names n.
        read_u64 m (ptr_add code (if PyCodeObject_co_varnames offsets = -1 then PyCodeObject_co_localsplusnames offsets
                                  else PyCodeObject_co_varnames offsets)) = Some names \<and> names \<noteq> 0 \<and>
        read_u64 m (ptr_add names (PyVarObject_ob_size offsets)) = Some n \<and>
        (case arg of
           None \<Rightarrow> n = 0
         | Some a \<Rightarrow> 1 \<le> n \<and> 0 \<notin> set a \<and>
             (\<exists>str. read_u64 m (ptr_add names (PyTupleObject_ob_item offsets)) = Some str \<and>
                    holds_ascii m offsets str a)))"

text \<open>
  The receiver of a method is its first local variable: an instance, whose type has the name of
  the class, or the class itself. (The unwinder also follows a cell variable; these are frames whose
  receiver is not captured.)
\<close>

definition holds_class :: "mem \<Rightarrow> py_offset_config \<Rightarrow> u64 \<Rightarrow> bool \<Rightarrow> u8 list \<Rightarrow> bool" where
  "holds_class m offsets fp self cls \<longleftrightarrow>
     (\<exists>obj ty str.
        read_u64 m (ptr_add fp (VFrame_localsplus offsets)) = Some obj \<and> obj \<noteq> 0 \<and>
        read_u64 m (ptr_add obj (PyObject_ob_type offsets)) = Some ty \<and> ty \<noteq> PyCell_Type offsets \<and>
        read_u64 m (ptr_add (if self then ty else obj) (PyTypeObject_tp_name offsets)) = Some str \<and>
        holds_at m str (cls @ [0]) \<and> 0 \<notin> set cls)"

definition holds_names :: "mem \<Rightarrow> py_offset_config \<Rightarrow> u64 \<Rightarrow> u64 \<Rightarrow> py_function \<Rightarrow> bool" where
  "holds_names m offsets fp code fn \<longleftrightarrow>
     holds_arg m offsets code (fn_arg fn) \<and>
     (case fn_arg fn of
        None \<Rightarrow> True
      | Some a \<Rightarrow> is_self a \<or> is_cls a \<longrightarrow> holds_class m offsets fp (is_self a) (fn_class fn)) \<and>
     (\<exists>file name.
        read_u64 m (ptr_add code (PyCodeObject_co_filename offsets)) = Some file \<and> file \<noteq> 0 \<and>
        holds_ascii m offsets file (fn_file fn) \<and>
        read_u64 m (ptr_add code (PyCodeObject_co_name offsets)) = Some name \<and>
        holds_ascii m offsets name (fn_name fn))"

text \<open>A frame that runs a function, and the frame that called it.\<close>

definition holds_frame :: "mem \<Rightarrow> py_offset_config \<Rightarrow> u64 \<Rightarrow> py_function \<Rightarrow> u64 \<Rightarrow> bool" where
  "holds_frame m offsets fp fn prev \<longleftrightarrow>
     fp \<noteq> 0 \<and>
     (\<exists>code. read_u64 m (ptr_add fp (VFrame_code offsets)) = Some code \<and> code \<noteq> 0 \<and>
        holds_names m offsets fp code fn) \<and>
     read_u64 m (ptr_add fp (VFrame_previous offsets)) = Some prev"

definition owned_by :: "mem \<Rightarrow> py_offset_config \<Rightarrow> u64 \<Rightarrow> frame_owner set \<Rightarrow> bool" where
  "owned_by m offsets fp owners \<longleftrightarrow>
     (\<exists>owner\<in>owners. bpf_probe_read m 1 (ptr_add fp (PyInterpreterFrame_owner offsets)) = Some [owner_code owner])"

text \<open>
  A stack of frames, innermost first. Versions that mark the owner of a frame put a frame of the C
  stack at each entry of the interpreter.
\<close>

inductive holds_stack :: "mem \<Rightarrow> py_offset_config \<Rightarrow> u64 \<Rightarrow> py_function list \<Rightarrow> bool" for m offsets where
  bottom: "holds_stack m offsets 0 []"
| frame: "holds_frame m offsets fp fn prev \<Longrightarrow>
    PyInterpreterFrame_owner offsets = -1 \<or>
      owned_by m offsets fp {FRAME_OWNED_BY_THREAD, FRAME_OWNED_BY_GENERATOR, FRAME_OWNED_BY_FRAME_OBJECT} \<Longrightarrow>
    holds_stack m offsets prev fns \<Longrightarrow> holds_stack m offsets fp (fn # fns)"
| entry: "PyInterpreterFrame_owner offsets \<noteq> -1 \<Longrightarrow> fp \<noteq> 0 \<Longrightarrow> owned_by m offsets fp {FRAME_OWNED_BY_CSTACK} \<Longrightarrow>
    read_u64 m (ptr_add fp (VFrame_previous offsets)) = Some fp' \<Longrightarrow> holds_frame m offsets fp' fn prev \<Longrightarrow>
    holds_stack m offsets prev fns \<Longrightarrow> holds_stack m offsets fp (fn # fns)"
| entry_bottom: "PyInterpreterFrame_owner offsets \<noteq> -1 \<Longrightarrow> fp \<noteq> 0 \<Longrightarrow> owned_by m offsets fp {FRAME_OWNED_BY_CSTACK} \<Longrightarrow>
    read_u64 m (ptr_add fp (VFrame_previous offsets)) = Some 0 \<Longrightarrow> holds_stack m offsets fp []"

section \<open>Names of frames\<close>

definition ascii_type :: "nat \<Rightarrow> py_str_type" where
  "ascii_type n = \<lparr>pst_type = PYSTR_TYPE_1BYTE OR PYSTR_TYPE_ASCII, pst_size_codepoints = of_nat n\<rparr>"

definition padded :: "nat \<Rightarrow> u8 list \<Rightarrow> u8 list" where
  "padded n bs = take n bs @ replicate (n - length bs) 0"

text \<open>The symbol of a function.\<close>

definition function_symbol :: "py_function \<Rightarrow> py_symbol" where
  "function_symbol fn =
     (let receiver = (case fn_arg fn of None \<Rightarrow> False | Some a \<Rightarrow> is_self a \<or> is_cls a) in
      \<lparr>sym_classname = (if receiver then padded 32 (take 31 (fn_class fn)) else replicate 32 0),
       sym_name = padded 64 (fn_name fn), sym_file = padded 128 (fn_file fn),
       sym_classname_type =
         (if receiver then \<lparr>pst_type = PYSTR_TYPE_UTF8, pst_size_codepoints = of_nat (min (length (fn_class fn)) 31)\<rparr>
          else no_str_type),
       sym_name_type = ascii_type (min (length (fn_name fn)) 64),
       sym_file_type = ascii_type (min (length (fn_file fn)) 128), sym_padding = no_str_type\<rparr>)"

lemma concat_le_bytes_1: "concat (map (le_bytes 1) (map ucast bs :: u32 list)) = bs"
  by (induction bs) (simp_all add: ucast_up_ucast_id is_up)

lemma pystr_read_ascii:
  assumes "holds_ascii (env_mem env) offsets str bs" and "length buf = unat buf_size"
  shows "pystr_read env str offsets buf buf_size typ =
    (True, take (length buf) bs @ drop (length bs) buf, ascii_type (min (length bs) (length buf)))"
  using pystr_read_exact [OF assms(1) [unfolded holds_ascii_def] assms(2), of "typ"]
  by (simp only: concat_le_bytes_1) (auto simp: ascii_type_def min_def)

lemma self_prefix:
  assumes "0 \<notin> set a"
  shows "take 4 (take 64 a @ drop (length a) (replicate 8 0 @ x)) = ascii ''self'' \<longleftrightarrow> is_self a" (is ?self)
    and "take 4 (take 64 a @ drop (length a) (replicate 8 0 @ x)) = ascii ''cls'' @ [0] \<longleftrightarrow> is_cls a" (is ?cls)
proof -
  let ?nz = "filter (\<lambda>b. b \<noteq> 0)"
  have nz: "?nz (a @ replicate k 0) = a" for k
    using assms by (auto simp: filter_id_conv)
  have "?self \<and> ?cls"
  proof (cases "length a < 4")
    case True
    then have pre: "take 4 (take 64 a @ drop (length a) (replicate 8 0 @ x)) = a @ replicate (4 - length a) 0"
      using take_zeros [of a x] by simp
    have eq: "a = ?nz bs" if "a @ replicate (4 - length a) 0 = bs" for bs
      using nz [of "4 - length a"] that by simp
    have "a @ replicate (4 - length a) 0 \<noteq> ascii ''self''"
      using eq [of "ascii ''self''"] True by (auto simp: ascii_def)
    moreover have "a @ replicate (4 - length a) 0 = ascii ''cls'' @ [0] \<longleftrightarrow> a = ascii ''cls''"
      using eq [of "ascii ''cls'' @ [0]"] by (auto simp: ascii_def)
    ultimately show ?thesis using True unfolding pre by (auto simp: is_self_def is_cls_def ascii_def)
  next
    case False
    moreover have "take 4 a \<noteq> ascii ''cls'' @ [0]"
      using assms set_take_subset [of 4 a] by (auto simp: ascii_def)
    ultimately show ?thesis by (auto simp: is_self_def is_cls_def ascii_def)
  qed
  then show ?self and ?cls by simp_all
qed

text \<open>The first argument, and the class name.\<close>

lemma check_first_arg_holds:
  assumes "holds_arg (env_mem env) offsets code arg" and "symbol_wf symb"
  shows "snd (check_first_arg env code offsets symb) =
    Some (case arg of None \<Rightarrow> (False, False) | Some a \<Rightarrow> (is_self a, is_cls a))"
proof (cases arg)
  case None
  then show ?thesis using assms(1) by (auto simp: holds_arg_def check_first_arg_def)
next
  case (Some a)
  let ?buf = "replicate 8 0 @ drop 8 (sym_name symb)"
  have buf: "length ?buf = unat PYTHON_FUNCTION_NAME_LEN" using assms(2) by (simp add: symbol_wf_def)
  from assms(1) Some show ?thesis
    using self_prefix [of a "drop 8 (sym_name symb)"]
    by (auto simp: holds_arg_def check_first_arg_def Let_def pystr_read_ascii [OF _ buf] buf
        simp del: length_append take_append drop_append)
qed

lemma read_class_name_holds:
  assumes "read_u64 (env_mem env) (ptr_add ptr (PyTypeObject_tp_name offsets)) = Some str"
    and "holds_at (env_mem env) str (cls @ [0])" and "0 \<notin> set cls"
  shows "read_class_name env ptr offsets zero_symbol = (True, zero_symbol
    \<lparr>sym_classname := padded 32 (take 31 cls),
     sym_classname_type := \<lparr>pst_type = PYSTR_TYPE_UTF8, pst_size_codepoints = of_nat (min (length cls) 31)\<rparr>\<rparr>)"
proof -
  have "bpf_probe_read_str (env_mem env) 32 str = Some (take 31 cls @ [0])"
    using bpf_probe_read_str_c_string [OF assms(2,3), of 31] by simp
  then show ?thesis
    using assms(1)
    by (simp add: read_class_name_def zero_symbol_def padded_def min_def replicate_append_same
        flip: replicate_Suc) arith
qed

lemma get_class_name_holds:
  assumes "holds_class (env_mem env) offsets fp self cls"
  shows "get_class_name env fp code offsets self zero_symbol = (True, zero_symbol
    \<lparr>sym_classname := padded 32 (take 31 cls),
     sym_classname_type := \<lparr>pst_type = PYSTR_TYPE_UTF8, pst_size_codepoints = of_nat (min (length cls) 31)\<rparr>\<rparr>)"
proof -
  obtain obj ty str where
    "read_u64 (env_mem env) (ptr_add fp (VFrame_localsplus offsets)) = Some obj" "obj \<noteq> 0"
    "read_u64 (env_mem env) (ptr_add obj (PyObject_ob_type offsets)) = Some ty" "ty \<noteq> PyCell_Type offsets"
    and name: "read_u64 (env_mem env) (ptr_add (if self then ty else obj) (PyTypeObject_tp_name offsets)) = Some str"
      "holds_at (env_mem env) str (cls @ [0])" "0 \<notin> set cls"
    using assms unfolding holds_class_def by blast
  then have "get_class_name env fp code offsets self zero_symbol =
      read_class_name env (if self then ty else obj) offsets zero_symbol"
    by (simp add: get_class_name_def)
  then show ?thesis using read_class_name_holds [OF name] by simp
qed

lemma get_names_holds:
  assumes "holds_names (env_mem env) offsets fp code fn"
  shows "get_names env fp code offsets zero_symbol = (None, function_symbol fn)"
proof -
  let ?m = "env_mem env"
  define fs where "fs = (case fn_arg fn of None \<Rightarrow> False | Some a \<Rightarrow> is_self a)"
  define fc where "fc = (case fn_arg fn of None \<Rightarrow> False | Some a \<Rightarrow> is_cls a)"
  obtain fl name where
    fl: "read_u64 ?m (ptr_add code (PyCodeObject_co_filename offsets)) = Some fl" "fl \<noteq> 0"
      "holds_ascii ?m offsets fl (fn_file fn)" and
    name: "read_u64 ?m (ptr_add code (PyCodeObject_co_name offsets)) = Some name"
      "holds_ascii ?m offsets name (fn_name fn)"
    using assms unfolding holds_names_def by blast
  obtain symb1 where arg: "check_first_arg env code offsets zero_symbol = (symb1, Some (fs, fc))"
    using check_first_arg_holds [of env offsets code "fn_arg fn" zero_symbol] assms
    unfolding holds_names_def fs_def fc_def by (cases "fn_arg fn") (auto simp: prod_eq_iff)
  have cls: "(if fs \<or> fc then get_class_name env fp code offsets fs zero_symbol else (True, zero_symbol)) =
      (True, zero_symbol\<lparr>sym_classname := sym_classname (function_symbol fn),
         sym_classname_type := sym_classname_type (function_symbol fn)\<rparr>)" (is "?c = (True, ?symb)")
  proof (cases "fs \<or> fc")
    case True
    then have "holds_class ?m offsets fp fs (fn_class fn)"
      using assms unfolding holds_names_def fs_def fc_def by (cases "fn_arg fn") simp_all
    from get_class_name_holds [OF this] show ?thesis
      using True unfolding fs_def fc_def
      by (cases "fn_arg fn") (auto simp: function_symbol_def Let_def zero_symbol_def)
  next
    case False
    then show ?thesis
      unfolding fs_def fc_def by (cases "fn_arg fn") (auto simp: function_symbol_def Let_def zero_symbol_def)
  qed
  have rf: "pystr_read env fl offsets (replicate 128 0) PYTHON_FILE_NAME_LEN t =
      (True, padded 128 (fn_file fn), ascii_type (min (length (fn_file fn)) 128))" for t
    using pystr_read_ascii [OF fl(3), of "replicate 128 0" PYTHON_FILE_NAME_LEN t]
    by (simp add: padded_def)
  have rn: "pystr_read env name offsets (replicate 64 0) PYTHON_FUNCTION_NAME_LEN t =
      (True, padded 64 (fn_name fn), ascii_type (min (length (fn_name fn)) 64))" for t
    using pystr_read_ascii [OF name(2), of "replicate 64 0" PYTHON_FUNCTION_NAME_LEN t]
    by (simp add: padded_def)
  have "sym_file ?symb = replicate 128 0" "sym_name ?symb = replicate 64 0"
    by (simp_all add: zero_symbol_def)
  then show ?thesis
    unfolding get_names_def arg
    by (simp add: cls Let_def fl name rf rn) (simp add: function_symbol_def zero_symbol_def Let_def)
qed

lemma owner_codes:
  "owner_code FRAME_OWNED_BY_THREAD = 0" "owner_code FRAME_OWNED_BY_GENERATOR = 1"
  "owner_code FRAME_OWNED_BY_FRAME_OBJECT = 2" "owner_code FRAME_OWNED_BY_CSTACK = 3"
  by simp_all

lemma skip_plain_frame:
  assumes "PyInterpreterFrame_owner offsets = -1 \<or>
    owned_by (env_mem env) offsets fp {FRAME_OWNED_BY_THREAD, FRAME_OWNED_BY_GENERATOR, FRAME_OWNED_BY_FRAME_OBJECT}"
  shows "skip_cstack_frame env fp offsets = (None, fp)"
  using assms by (auto simp: skip_cstack_frame_def owned_by_def split: option.splits)

lemma skip_entry_frame:
  assumes "PyInterpreterFrame_owner offsets \<noteq> -1" and "owned_by (env_mem env) offsets fp {FRAME_OWNED_BY_CSTACK}"
    and "read_u64 (env_mem env) (ptr_add fp (VFrame_previous offsets)) = Some fp'"
  shows "skip_cstack_frame env fp offsets = (if fp' = 0 then Some FrameEnd else None, fp')"
  using assms by (auto simp: skip_cstack_frame_def owned_by_def)

lemma get_frame_data_holds:
  assumes "fp \<noteq> 0" and "skip_cstack_frame env fp offsets = (None, fp')"
    and "holds_frame (env_mem env) offsets fp' fn prev"
  shows "get_frame_data env fp offsets zero_symbol = (FrameOk, prev, function_symbol fn)"
  using assms get_names_holds [of env offsets fp' _ fn] by (auto simp: get_frame_data_def holds_frame_def)

lemma unwind_holds:
  "holds_stack (env_mem env) offsets fp fns \<Longrightarrow>
   unwind env offsets n fp = (map function_symbol (take n fns), Some (length fns < n))"
proof (induction arbitrary: n rule: holds_stack.induct)
  case bottom
  then show ?case by (cases n) (simp_all add: get_frame_data_def)
next
  case (frame fp fn prev fns)
  have "fp \<noteq> 0" using frame.hyps(1) by (simp add: holds_frame_def)
  from get_frame_data_holds [OF this skip_plain_frame [OF frame.hyps(2)] frame.hyps(1)]
  show ?case by (cases n) (simp_all add: frame.IH)
next
  case (entry fp fp' fn prev fns)
  have "fp' \<noteq> 0" using entry.hyps(5) by (simp add: holds_frame_def)
  then have "skip_cstack_frame env fp offsets = (None, fp')"
    using skip_entry_frame [OF entry.hyps(1,3,4)] by simp
  from get_frame_data_holds [OF entry.hyps(2) this entry.hyps(5)]
  show ?case by (cases n) (simp_all add: entry.IH)
next
  case (entry_bottom fp)
  then show ?case
    using skip_entry_frame [OF entry_bottom(1,3,4)] by (cases n) (simp_all add: get_frame_data_def)
qed

section \<open>The recorded stack\<close>

lemma push_frames:
  assumes "length (pe_stack ev) = 96" and "unat (pe_stack_len ev) + length ids \<le> 96"
  shows "pe_stack (fold push_frame ids ev) =
      take (unat (pe_stack_len ev)) (pe_stack ev) @ ids @ drop (unat (pe_stack_len ev) + length ids) (pe_stack ev) \<and>
    unat (pe_stack_len (fold push_frame ids ev)) = unat (pe_stack_len ev) + length ids \<and>
    pe_k (fold push_frame ids ev) = pe_k ev"
  using assms
proof (induction ids arbitrary: ev)
  case (Cons i ids)
  let ?ev = "push_frame i ev" and ?n = "unat (pe_stack_len ev)"
  have n: "?n < 96" using Cons.prems(2) by simp
  then have push: "?ev = ev\<lparr>pe_stack := (pe_stack ev)[?n := i], pe_stack_len := pe_stack_len ev + 1\<rparr>"
    by (simp add: push_frame_def word_less_nat_alt)
  have inc: "unat (pe_stack_len ev + 1) = Suc ?n" using n by (simp add: unat_word_ariths)
  have "take (Suc ?n) ((pe_stack ev)[?n := i]) = take ?n (pe_stack ev) @ [i]"
    using n Cons.prems(1) by (simp add: take_Suc_conv_app_nth)
  moreover have "length (pe_stack ?ev) = 96" "unat (pe_stack_len ?ev) + length ids \<le> 96"
    using Cons.prems push inc by simp_all
  ultimately show ?case using Cons.IH [of ?ev] push inc by (simp add: drop_update_cancel)
qed simp

lemma pushed_stack:
  assumes "length (pe_stack ev) = 96" and "pe_stack_len ev = 0" and "length ids \<le> 96" and "0 \<notin> set ids"
    and "ev' = final_event (fold push_frame ids ev)"
  shows "takeWhile (\<lambda>i. i \<noteq> 0) (pe_stack ev') = ids"
proof -
  have p: "pe_stack (fold push_frame ids ev) = ids @ drop (length ids) (pe_stack ev)"
    "unat (pe_stack_len (fold push_frame ids ev)) = length ids"
    using push_frames [of ev ids] assms(1-3) by simp_all
  have nz: "takeWhile (\<lambda>i. i \<noteq> 0) (ids @ rest) = ids @ takeWhile (\<lambda>i. i \<noteq> 0) rest" for rest
    using assms(4) by (intro takeWhile_append2) auto
  show ?thesis
  proof (cases "length ids < 96")
    case True
    then have "pe_stack_len (fold push_frame ids ev) < PYTHON_STACK_MAX_LEN"
      using p(2) by (simp add: word_less_nat_alt)
    then have "pe_stack ev' = (ids @ drop (length ids) (pe_stack ev))[length ids := 0]"
      using assms(5) p by (simp add: final_event_def Let_def)
    also have "\<dots> = ids @ 0 # drop (Suc (length ids)) (pe_stack ev)"
      using True assms(1) by (simp add: list_update_append Cons_nth_drop_Suc [symmetric] del: Cons_nth_drop_Suc)
    finally show ?thesis using nz by simp
  next
    case False
    then have "length ids = 96" "\<not> pe_stack_len (fold push_frame ids ev) < PYTHON_STACK_MAX_LEN"
      using assms(3) p(2) by (simp_all add: word_less_nat_alt)
    then have "pe_stack ev' = ids" using assms(1,5) p by (simp add: final_event_def Let_def)
    then show ?thesis using nz [of "[]"] by simp
  qed
qed

text \<open>The symbol a number stands for.\<close>

definition symbol_of :: "(py_symbol, u32) bpf_map \<Rightarrow> u32 \<Rightarrow> py_symbol option" where
  "symbol_of m i = map_of (map (\<lambda>(symb, i). (i, symb)) m) i"

lemma symbol_of_number:
  assumes "distinct (map snd m)" and "map_of m symb = Some i"
  shows "symbol_of m i = Some symb"
  unfolding symbol_of_def
proof (rule map_of_is_SomeI)
  show "distinct (map fst (map (\<lambda>(symb, i). (i, symb)) m))"
    using assms(1) by (simp add: comp_def case_prod_unfold)
  show "(i, symb) \<in> set (map (\<lambda>(symb, i). (i, symb)) m)"
    using map_of_SomeD [OF assms(2)] by auto
qed

lemma submit_sample_room:
  assumes "length (python_stacks s) < PROFILE_MAPS_SIZE" and "ev = final_event (ps_event st)"
  shows "counts (submit_sample env st s) = count_sample (pe_k ev) (counts s) \<and>
    bpf_map_lookup_elem (python_stacks (submit_sample env st s)) (ucast (sk_user_stack (pe_k ev))) = Some (pe_stack ev)"
proof -
  let ?u = "bpf_hash_update_elem PROFILE_MAPS_SIZE (python_stacks s) (ucast (sk_user_stack (pe_k ev))) (pe_stack ev) BPF_ANY"
  have "fst ?u = 0" using assms(1) by (intro hash.update_room) simp
  then show ?thesis
    using assms(2) hash.update_ok [of PROFILE_MAPS_SIZE "python_stacks s" "ucast (sk_user_stack (pe_k ev))" "pe_stack ev" BPF_ANY]
    by (auto simp: submit_sample_final Let_def split: prod.splits)
qed

lemma final_event_call:
  "pe_stack (final_event (ps_event (with_call c fl st))) = pe_stack (final_event (ps_event st))"
  "sk_pid (pe_k (final_event (ps_event (with_call c fl st)))) = sk_pid (pe_k (ps_event st))"
  "sk_kern_stack (pe_k (final_event (ps_event (with_call c fl st)))) = sk_kern_stack (pe_k (ps_event st))"
  "sk_flags (pe_k (final_event (ps_event (with_call c fl st)))) = fl"
  by (simp_all add: final_event_def with_call_def Let_def)

lemma read_python_stack_sample:
  assumes "unwind env (ps_offsets st) 96 (ps_frame_ptr st) = (symbs, Some ended)"
    and "st = py_state_heap s (env_cpu env)" and "py_state_wf st" and "pe_stack_len (ps_event st) = 0"
    and "ps_prog_call_cnt st = 0" and "2 \<le> calls"
    and "map_within SYMBOL_ENTRIES K (py_symbols s)" and "set symbs \<subseteq> K" and "length symbs \<le> 96"
    and "numbers_ok n s" and "n + 96 < 2 ^ 23" and "unat (env_cpu env) < 512" and "ps_cur_cpu st = env_cpu env"
    and "length (python_stacks s) < PROFILE_MAPS_SIZE" and "s' = read_python_stack env calls s"
  shows "\<exists>key stack. counts s' = count_sample key (counts s) \<and> sk_pid key = sk_pid (pe_k (ps_event st)) \<and>
    sk_kern_stack key = sk_kern_stack (pe_k (ps_event st)) \<and> sk_flags key = python_flags ended \<and>
    bpf_map_lookup_elem (python_stacks s') (ucast (sk_user_stack key)) = Some stack \<and>
    map (symbol_of (py_symbols s')) (takeWhile (\<lambda>i. i \<noteq> 0) stack) = map Some symbs"
proof -
  obtain st1 m where run: "read_frames env 96 st (py_symbols s) = (Some ended, st1, m)"
    "set symbs \<subseteq> dom (map_of m)"
    "ps_event st1 = fold push_frame (map (\<lambda>y. the (map_of m y)) symbs) (ps_event st)"
    using read_frames_unwind [OF assms(1,7,8)] by blast
  obtain c fl where "s' = finish_run env (marked c fl (read_frames env (32 * 3) st (py_symbols s))) s"
    using read_python_stack_loop [of s env 3 calls] assms(2,5,6,15) by auto
  then have s': "s' = submit_sample env (with_call c (python_flags ended) st1) (s\<lparr>py_symbols := m\<rparr>)"
    using run(1) by (simp add: marked_def finish_run_def)
  let ?ids = "map (\<lambda>y. the (map_of m y)) symbs"
  let ?ev = "final_event (ps_event (with_call c (python_flags ended) st1))"
  have ok: "numbers_ok (n + 96) s'"
    unfolding assms(15) by (rule read_python_stack_numbers) (use assms in simp_all)
  then have "counter_of s' cpu \<le> n + 96" for cpu by (simp add: numbers_ok_def)
  then have small: "counter_of s' cpu < 2 ^ 23" for cpu using assms(11) by (rule order_le_less_trans)
  have "numbered (counter_of s') m" using ok s' by (simp add: numbers_ok_def)
  then have num: "distinct (map snd m)" "0 \<notin> snd ` set m"
    using numbered_not_zero [of "counter_of s'" m] small by (simp_all add: numbered_def)
  have look: "map_of m y = Some (the (map_of m y))" if "y \<in> set symbs" for y
    using that run(2) by auto
  have "0 \<notin> set ?ids"
    using num(2) look by (force dest: map_of_SomeD)
  then have ids: "takeWhile (\<lambda>i. i \<noteq> 0) (pe_stack ?ev) = ?ids"
    using pushed_stack [of "ps_event st" ?ids] run(3) assms(3,4,9) by (simp add: py_state_wf_def final_event_call)
  have "map (symbol_of m) ?ids = map Some symbs"
    using symbol_of_number [OF num(1) look] by simp
  then show ?thesis
    using submit_sample_room [of "s\<lparr>py_symbols := m\<rparr>" ?ev "with_call c (python_flags ended) st1" env] assms(14) ids s'
      push_frames [of "ps_event st" ?ids] run(3) assms(3,4,9)
    by (intro exI [of _ "pe_k ?ev"] exI [of _ "pe_stack ?ev"]) (simp add: final_event_call py_state_wf_def)
qed

lemma python_sample:
  assumes "current_pid env ns_pid_ino (le_word (map (env_junk env) [0..<4])) = pid" and "pid \<noteq> 0"
    and "bpf_map_lookup_elem (py_pid_config s) pid = Some pid_data"
    and "pyro_pthread_getspecific env (pd_libc pid_data) (pd_tssKey pid_data) = Some thread_state"
    and "thread_state \<noteq> 0" and "get_top_frame env pid_data 0 thread_state = (True, fp)"
    and "holds_stack (env_mem env) (pd_offsets pid_data) fp fns"
    and "3 \<le> calls" and "py_wf s" and "numbers_ok n s" and "n + 96 < 2 ^ 23" and "unat (env_cpu env) < 512"
    and "map_within SYMBOL_ENTRIES K (py_symbols s)" and "function_symbol ` set fns \<subseteq> K"
    and "length (python_stacks s) < PROFILE_MAPS_SIZE" and "s' = pyperf_collect ns_pid_ino calls env s"
  shows "\<exists>key stack. counts s' = count_sample key (counts s) \<and> sk_pid key = pid \<and>
    sk_kern_stack key = (if pd_collect_kernel pid_data \<noteq> 0 then env_stackid env KERN_STACKID_FLAGS else -1) \<and>
    sk_flags key = (if length fns < 96 then SAMPLE_KEY_FLAG_PYTHON_STACK
      else SAMPLE_KEY_FLAG_PYTHON_STACK OR SAMPLE_KEY_FLAG_STACK_TRUNCATED) \<and>
    bpf_map_lookup_elem (python_stacks s') (ucast (sk_user_stack key)) = Some stack \<and>
    map (symbol_of (py_symbols s')) (takeWhile (\<lambda>i. i \<noteq> 0) stack) = map (\<lambda>fn. Some (function_symbol fn)) (take 96 fns)"
proof -
  let ?cpu = "env_cpu env"
  let ?ev = "ps_event (py_state_heap s ?cpu)"
  define st where "st = (py_state_heap s ?cpu)
    \<lparr>ps_offsets := pd_offsets pid_data, ps_cur_cpu := ?cpu, ps_prog_call_cnt := 0,
     ps_event := ?ev\<lparr>pe_k := (pe_k ?ev)\<lparr>sk_pid := pid,
       sk_kern_stack := (if pd_collect_kernel pid_data \<noteq> 0 then env_stackid env KERN_STACKID_FLAGS else -1)\<rparr>,
       pe_stack_len := 0\<rparr>, ps_frame_ptr := fp\<rparr>"
  obtain k where k: "calls = Suc k" "2 \<le> k" using assms(8) by (cases calls) auto
  have s': "s' = read_python_stack env k (put_state env st s)"
    using assms(1-6,16) k(1)
    by (simp add: pyperf_collect_def pyperf_collect_impl_def bpf_percpu_lookup_def Let_def st_def)
  have wf: "py_state_wf st" using assms(9) by (simp add: py_wf_def py_state_wf_def st_def)
  have heap: "py_state_heap (put_state env st s) ?cpu = st" by simp
  have counter: "ps_symbol_counter st = ps_symbol_counter (py_state_heap s ?cpu)" by (simp add: st_def)
  have walk: "unwind env (ps_offsets st) 96 (ps_frame_ptr st) = (map function_symbol (take 96 fns), Some (length fns < 96))"
    using unwind_holds [OF assms(7), of 96] by (simp add: st_def)
  have K: "set (map function_symbol (take 96 fns)) \<subseteq> K"
    using assms(14) set_take_subset [of 96 fns] by auto
  have "\<exists>key stack. counts s' = count_sample key (counts (put_state env st s)) \<and> sk_pid key = sk_pid (pe_k (ps_event st)) \<and>
    sk_kern_stack key = sk_kern_stack (pe_k (ps_event st)) \<and> sk_flags key = python_flags (length fns < 96) \<and>
    bpf_map_lookup_elem (python_stacks s') (ucast (sk_user_stack key)) = Some stack \<and>
    map (symbol_of (py_symbols s')) (takeWhile (\<lambda>i. i \<noteq> 0) stack) = map Some (map function_symbol (take 96 fns))"
    by (rule read_python_stack_sample [OF walk heap [symmetric] wf _ _ k(2) _ K _
          numbers_ok_put_state [OF assms(10) counter] assms(11,12) _ _ s'])
      (use assms(13,15) in \<open>simp_all add: st_def\<close>)
  then show ?thesis by (simp add: st_def comp_def)
qed

text \<open>
  C5. A sample of a Python process records its stack: when the memory of the process holds a
  stack of functions in CPython's layout, the sample is counted under the process, its kernel stack
  and flags that tell whether the stack was cut at 96 frames; and the stack stored for it, read up
  to its first zero and with each number replaced by the symbol it stands for, consists of the
  symbols of the innermost 96 functions, innermost first.
\<close>

theorem python_sample_recorded:
  assumes "current_pid env ns_pid_ino (le_word (map (env_junk env) [0..<4])) = pid" and "pid \<noteq> 0"
    and "bpf_map_lookup_elem (py_pid_config s) pid = Some pid_data"
    and "pyro_pthread_getspecific env (pd_libc pid_data) (pd_tssKey pid_data) = Some thread_state"
    and "thread_state \<noteq> 0" and "get_top_frame env pid_data 0 thread_state = (True, fp)"
    and "holds_stack (env_mem env) (pd_offsets pid_data) fp fns"
    and "3 \<le> calls" and "py_wf s" and "numbers_ok n s" and "n + 96 < 2 ^ 23" and "unat (env_cpu env) < 512"
    and "map_within SYMBOL_ENTRIES K (py_symbols s)" and "function_symbol ` set fns \<subseteq> K"
    and "length (python_stacks s) < PROFILE_MAPS_SIZE" and "s' = pyperf_collect ns_pid_ino calls env s"
  shows "\<exists>key stack. counts s' = count_sample key (counts s) \<and> sk_pid key = pid \<and>
    sk_kern_stack key = (if pd_collect_kernel pid_data \<noteq> 0 then env_stackid env KERN_STACKID_FLAGS else -1) \<and>
    sk_flags key = (if length fns < 96 then SAMPLE_KEY_FLAG_PYTHON_STACK
      else SAMPLE_KEY_FLAG_PYTHON_STACK OR SAMPLE_KEY_FLAG_STACK_TRUNCATED) \<and>
    bpf_map_lookup_elem (python_stacks s') (ucast (sk_user_stack key)) = Some stack \<and>
    map (symbol_of (py_symbols s')) (takeWhile (\<lambda>i. i \<noteq> 0) stack) = map (\<lambda>fn. Some (function_symbol fn)) (take 96 fns)"
  by (rule python_sample [OF assms])

text \<open>
  A process in which \<^verbatim>\<open>test\<close> of \<^verbatim>\<open>a.py\<close> has called \<^verbatim>\<open>main\<close> of the same file: one image holds the slot of
  the thread-specific key, the thread state, the two frames and code objects, the empty tuple of
  arguments and the three strings.
\<close>

definition ascii_header :: "nat \<Rightarrow> u8 list" where
  "ascii_header n = pystr_header (replicate 16 0) (of_nat n) (replicate 8 0) (pystr_state 0 1 True True) (replicate 4 0)"

definition main_image :: "u8 list" where
  "main_image =
     le_bytes 8 (1 :: u64) @ le_bytes 8 (0x1000 :: u64) @ replicate 8 0 @ le_bytes 8 (0x1008 :: u64) @
     le_bytes 8 (0x10C0 :: u64) @ le_bytes 8 (0xFE8 :: u64) @ le_bytes 8 (0x1050 :: u64) @ replicate 24 0 @
     le_bytes 8 (0x1068 :: u64) @ le_bytes 8 (0x10A0 :: u64) @ le_bytes 8 (0 :: u64) @
     ascii_header 4 @ replicate 8 0 @ ascii ''a.py'' @ replicate 4 0 @
     ascii_header 4 @ replicate 8 0 @ ascii ''main'' @ replicate 4 0 @
     le_bytes 8 (0 :: u64) @ le_bytes 8 (0x10A0 :: u64) @ le_bytes 8 (0x1050 :: u64) @ replicate 24 0 @
     le_bytes 8 (0x1068 :: u64) @ le_bytes 8 (0x1118 :: u64) @
     ascii_header 4 @ replicate 8 0 @ ascii ''test''"

definition main_function :: py_function where
  "main_function = \<lparr>fn_arg = None, fn_class = [], fn_name = ascii ''main'', fn_file = ascii ''a.py''\<rparr>"

definition test_function :: py_function where
  "test_function = \<lparr>fn_arg = None, fn_class = [], fn_name = ascii ''test'', fn_file = ascii ''a.py''\<rparr>"

definition main_env :: prof_env where
  "main_env = (plain_prof_env 0x700000008)\<lparr>env_thread_pointer := Some 0xCF0, env_mem := mem_of 0x1000 main_image\<rparr>"

definition main_pid_data :: py_pid_data where
  "main_pid_data =
     \<lparr>pd_offsets = sample_offsets, pd_version = \<lparr>ver_major = 3, ver_minor = 8, ver_patch = 0\<rparr>,
      pd_libc = \<lparr>lc_musl = False, lc_pthread_size = 0, lc_pthread_specific1stblock = 0x310\<rparr>, pd_tssKey = 0,
      pd_collect_kernel = 0\<rparr>"

lemma length_ascii_header [simp]: "length (ascii_header n) = 40"
  by (simp add: ascii_header_def pystr_header_def)

lemma length_ascii [simp]: "length (ascii s) = length s"
  by (simp add: ascii_def)

lemma length_main_image: "length main_image = 332"
  by (simp add: main_image_def)

lemma holds_main_image: "holds_at (env_mem main_env) 0x1000 main_image"
  by (simp add: main_env_def holds_at_mem_of length_main_image)

lemma main_field:
  "unat off + n \<le> 332 \<Longrightarrow> bpf_probe_read (env_mem main_env) n (0x1000 + off) = Some (field_at (unat off) n main_image)"
  by (rule bpf_probe_read_holds_word [OF holds_main_image]) (simp add: length_main_image)

lemma main_words:
  "read_u64 (env_mem main_env) 0x1008 = Some 0x1000" "read_u64 (env_mem main_env) 0x1018 = Some 0x1008"
  "read_u64 (env_mem main_env) 0x1020 = Some 0x10C0" "read_u64 (env_mem main_env) 0x1028 = Some 0xFE8"
  "read_u64 (env_mem main_env) 0x1030 = Some 0x1050" "read_u64 (env_mem main_env) 0x1050 = Some 0x1068"
  "read_u64 (env_mem main_env) 0x1058 = Some 0x10A0" "read_u64 (env_mem main_env) 0x1060 = Some 0"
  "read_u64 (env_mem main_env) 0x10D8 = Some 0" "read_u64 (env_mem main_env) 0x10E0 = Some 0x10A0"
  "read_u64 (env_mem main_env) 0x10E8 = Some 0x1050" "read_u64 (env_mem main_env) 0x1108 = Some 0x1068"
  "read_u64 (env_mem main_env) 0x1110 = Some 0x1118"
  using main_field [of 8 8] main_field [of 24 8] main_field [of 32 8] main_field [of 40 8] main_field [of 48 8]
    main_field [of 80 8] main_field [of 88 8] main_field [of 96 8] main_field [of 216 8] main_field [of 224 8] main_field [of 232 8]
    main_field [of 264 8] main_field [of 272 8]
  by (simp_all add: read_u64_def main_image_def field_at_simps)

lemma sample_offsets_simps [simp]:
  "PyThreadState_frame sample_offsets = 24" "PyCodeObject_co_filename sample_offsets = 104"
  "PyCodeObject_co_name sample_offsets = 112" "PyCodeObject_co_varnames sample_offsets = 72"
  "PyVarObject_ob_size sample_offsets = 16" "VFrame_code sample_offsets = 32" "VFrame_previous sample_offsets = 24"
  "PyInterpreterFrame_owner sample_offsets = -1" "PyASCIIObject_size sample_offsets = 48"
  by (simp_all add: sample_offsets_def)

lemma holds_ascii_image:
  assumes "holds_at m str (ascii_header n @ replicate 8 0 @ bs)" and "length bs = n" and "n < 2 ^ 32"
  shows "holds_ascii m sample_offsets str bs"
  unfolding holds_ascii_def holds_pystr_def
proof (intro conjI exI)
  show "holds_at m str (pystr_header (replicate 16 0) (of_nat (length (map ucast bs :: u32 list))) (replicate 8 0)
      (pystr_state 0 1 True True) (replicate 4 0))"
    using bpf_probe_read_holds0 [OF assms(1), of 40] unfolding length_map assms(2) ascii_header_def [symmetric]
    by (simp add: holds_at_def)
  have "holds_at m (str + of_nat 48) bs"
    using bpf_probe_read_holds [OF assms(1), of 48 "length bs"] assms(2) by (simp add: holds_at_def field_at_def)
  then show "holds_at m (pystr_data sample_offsets True str) (concat (map (le_bytes 1) (map ucast bs :: u32 list)))"
    unfolding concat_le_bytes_1 by (simp add: pystr_data_def ptr_add_def)
  have "unat b < 2 ^ 8" for b :: u8 using unsigned_less [of b] by simp
  then show "\<forall>c\<in>set (map ucast bs :: u32 list). unat c < 2 ^ (8 * 1)"
    by (auto simp: unsigned_ucast_eq intro: order_le_less_trans [OF take_bit_nat_less_eq_self])
qed (use assms(2,3) in simp_all)

lemma main_strings:
  "holds_ascii (env_mem main_env) sample_offsets 0x1068 (ascii ''a.py'')"
  "holds_ascii (env_mem main_env) sample_offsets 0x10A0 (ascii ''main'')"
  "holds_ascii (env_mem main_env) sample_offsets 0x1118 (ascii ''test'')"
proof -
  have image: "holds_at (env_mem main_env) 0x1068 (ascii_header 4 @ replicate 8 0 @ ascii ''a.py'')"
    "holds_at (env_mem main_env) 0x10A0 (ascii_header 4 @ replicate 8 0 @ ascii ''main'')"
    "holds_at (env_mem main_env) 0x1118 (ascii_header 4 @ replicate 8 0 @ ascii ''test'')"
    using main_field [of 104 52] main_field [of 160 52] main_field [of 280 52]
    by (simp_all add: holds_at_def main_image_def field_at_simps) (simp_all add: field_at_def)
  show "holds_ascii (env_mem main_env) sample_offsets 0x1068 (ascii ''a.py'')"
    by (rule holds_ascii_image [OF image(1)]) simp_all
  show "holds_ascii (env_mem main_env) sample_offsets 0x10A0 (ascii ''main'')"
    by (rule holds_ascii_image [OF image(2)]) simp_all
  show "holds_ascii (env_mem main_env) sample_offsets 0x1118 (ascii ''test'')"
    by (rule holds_ascii_image [OF image(3)]) simp_all
qed

lemma main_stack: "holds_stack (env_mem main_env) sample_offsets 0x1008 [main_function, test_function]"
proof (rule holds_stack.frame [OF _ _ holds_stack.frame [OF _ _ holds_stack.bottom]])
  show "holds_frame (env_mem main_env) sample_offsets 0x1008 main_function 0x10C0"
    unfolding holds_frame_def holds_names_def holds_arg_def main_function_def
    by (simp add: main_words main_strings ptr_add_def)
  show "holds_frame (env_mem main_env) sample_offsets 0x10C0 test_function 0"
    unfolding holds_frame_def holds_names_def holds_arg_def test_function_def
    by (simp add: main_words main_strings ptr_add_def)
qed simp_all

lemma main_env_simps [simp]:
  "env_cpu main_env = 0" "env_task main_env = 0x9000" "env_arch main_env = X86"
  "env_thread_pointer main_env = Some 0xCF0" "env_pid_tgid main_env = 0x700000008"
  by (simp_all add: main_env_def)

lemma main_thread:
  "pyro_pthread_getspecific main_env (pd_libc main_pid_data) (pd_tssKey main_pid_data) = Some 0x1000"
  "get_top_frame main_env main_pid_data 0 0x1000 = (True, 0x1008)"
  using main_words(1,2)
  by (simp_all add: pyro_pthread_getspecific_def pyro_pthread_getspecific_amd64_def pthread_getspecific_glibc_amd64_def
      main_pid_data_def ptr_add_def word_sle_eq get_top_frame_def Let_def)

lemma main_maps:
  assumes "s = empty_py_maps\<lparr>pids := ps, py_pid_config := [(7, main_pid_data)]\<rparr>" and "map_wf PIDS_ENTRIES ps"
  shows "py_wf s" "numbers_ok 0 s"
  using empty_py_maps_wf assms(2)
  by (simp_all add: assms(1) py_wf_def map_wf_def numbers_ok_def numbered_def counter_of_def zero_py_state_def)

theorem python_sample_recorded_witness:
  "\<exists>key stack s'. s' = pyperf_collect 0 32 main_env (empty_py_maps\<lparr>py_pid_config := [(7, main_pid_data)]\<rparr>) \<and>
     counts s' = [(key, 1)] \<and> sk_pid key = 7 \<and> sk_flags key = SAMPLE_KEY_FLAG_PYTHON_STACK \<and>
     bpf_map_lookup_elem (python_stacks s') (ucast (sk_user_stack key)) = Some stack \<and>
     map (symbol_of (py_symbols s')) (takeWhile (\<lambda>i. i \<noteq> 0) stack) =
       [Some (function_symbol main_function), Some (function_symbol test_function)]"
proof -
  let ?s = "empty_py_maps\<lparr>py_pid_config := [(7, main_pid_data)]\<rparr>"
  let ?s' = "pyperf_collect 0 32 main_env ?s"
  let ?fns = "[main_function, test_function]"
  have wf: "py_wf ?s" "numbers_ok 0 ?s"
    using main_maps [of ?s "[]"] by (simp_all add: empty_py_maps_def map_wf_def)
  have "\<exists>key stack. counts ?s' = count_sample key (counts ?s) \<and> sk_pid key = 7 \<and>
    sk_kern_stack key = (if pd_collect_kernel main_pid_data \<noteq> 0 then env_stackid main_env KERN_STACKID_FLAGS else -1) \<and>
    sk_flags key = (if length ?fns < 96 then SAMPLE_KEY_FLAG_PYTHON_STACK
      else SAMPLE_KEY_FLAG_PYTHON_STACK OR SAMPLE_KEY_FLAG_STACK_TRUNCATED) \<and>
    bpf_map_lookup_elem (python_stacks ?s') (ucast (sk_user_stack key)) = Some stack \<and>
    map (symbol_of (py_symbols ?s')) (takeWhile (\<lambda>i. i \<noteq> 0) stack) =
      map (\<lambda>fn. Some (function_symbol fn)) (take 96 ?fns)"
    by (rule python_sample_recorded [OF _ _ _ main_thread(1) _ main_thread(2) _ _ wf _ _ _ _ _ refl,
          where K = "function_symbol ` set ?fns"])
      (simp_all add: current_pid_def bpf_map_lookup_elem_def map_within_def map_wf_def main_pid_data_def main_stack
        card_insert_if)
  then show ?thesis
    by (auto simp: count_sample_def bpf_map_lookup_elem_def bpf_hash_update_elem_def flag_error_def Let_def)
qed

section \<open>Numbers of symbols\<close>

text \<open>
  C18. A number stands for one symbol. From an empty table, over any run of ticks, ends and
  \<^verbatim>\<open>exec\<close>s of processes and changes of the configuration by user space, on up to 512 CPUs: as long
  as before each step the counter of every CPU, which counts the symbols this CPU has numbered, is
  more than 96 below \<^verbatim>\<open>2^23\<close>, all symbols of the table are different and have different numbers, and
  none has the number 0, which ends a stack. One sample has up to 96 frames, and a number has
  23 bits for the counter next to the 9 of the CPU.
\<close>

theorem symbol_numbers_unique:
  assumes "py_symbols s = []" and "\<forall>cpu. counter_of s cpu = 0" and "3 \<le> calls"
    and "\<forall>env. PerfEvent env \<in> set xs \<longrightarrow> unat (env_cpu env) < 512"
    and "\<forall>k<length xs. \<forall>cpu.
      counter_of (fold (prof_step ns_pid_ino (Some (pyperf_collect ns_pid_ino calls))) (take k xs) s) cpu + 96 < 2 ^ 23"
    and "m = py_symbols (fold (prof_step ns_pid_ino (Some (pyperf_collect ns_pid_ino calls))) xs s)"
  shows "distinct (map fst m) \<and> distinct (map snd m) \<and> 0 \<notin> snd ` set m"
proof -
  let ?s = "fold (prof_step ns_pid_ino (Some (pyperf_collect ns_pid_ino calls))) xs s"
  have "numbers_ok (2 ^ 23 - 1) s"
    using assms(1,2) by (simp add: numbers_ok_def numbered_def map_wf_def)
  then have ok: "numbers_ok (2 ^ 23 - 1) ?s"
    using numbers_ok_run [of s calls xs ns_pid_ino] assms(3-5) by simp
  then have "counter_of ?s cpu \<le> 2 ^ 23 - 1" for cpu by (simp add: numbers_ok_def)
  then have "counter_of ?s cpu < 2 ^ 23" for cpu by (rule order_le_less_trans) simp
  then show ?thesis
    using ok assms(6) numbered_not_zero [of "counter_of ?s" m] by (simp add: numbers_ok_def numbered_def map_wf_def)
qed

text \<open>The process above, configured for Python and sampled: both its functions get numbers.\<close>

abbreviation (input) python_config :: pid_config where
  "python_config \<equiv> \<lparr>pc_type = 3, pc_collect_user = 1, pc_collect_kernel = 0, pc_padding = 0\<rparr>"

lemma symbol_of_in: "symbol_of m i = Some symb \<Longrightarrow> symb \<in> fst ` set m"
  unfolding symbol_of_def by (drule map_of_SomeD) (auto intro: rev_image_eqI)

lemma main_symbols:
  assumes "s = empty_py_maps\<lparr>pids := [(7, python_config)], py_pid_config := [(7, main_pid_data)]\<rparr>"
  shows "{function_symbol main_function, function_symbol test_function}
    \<subseteq> fst ` set (py_symbols (pyperf_collect 0 32 main_env s))"
proof -
  let ?fns = "[main_function, test_function]" and ?s' = "pyperf_collect 0 32 main_env s"
  have wf: "py_wf s" "numbers_ok 0 s"
    using main_maps [OF assms] by (simp_all add: map_wf_def)
  have within: "map_within SYMBOL_ENTRIES (function_symbol ` set ?fns) (py_symbols s)"
    and maps: "bpf_map_lookup_elem (py_pid_config s) 7 = Some main_pid_data" "python_stacks s = []"
    and pid: "current_pid main_env 0 (le_word (map (env_junk main_env) [0..<4])) = 7"
    and stack: "holds_stack (env_mem main_env) (pd_offsets main_pid_data) 0x1008 ?fns"
    by (simp_all add: assms current_pid_def bpf_map_lookup_elem_def map_within_def map_wf_def main_pid_data_def
        main_stack card_insert_if)
  obtain i j where "symbol_of (py_symbols ?s') i = Some (function_symbol main_function)"
    "symbol_of (py_symbols ?s') j = Some (function_symbol test_function)"
    using python_sample [OF pid _ maps(1) main_thread(1) _ main_thread(2) stack _ wf _ _ within _ _ refl, of 32] maps(2)
    by auto
  then show ?thesis using symbol_of_in by blast
qed

theorem symbol_numbers_unique_witness:
  "\<exists>m. m = py_symbols (fold (prof_step 0 (Some (pyperf_collect 0 32)))
       [Configure 7 python_config, PerfEvent main_env] (empty_py_maps\<lparr>py_pid_config := [(7, main_pid_data)]\<rparr>)) \<and>
     {function_symbol main_function, function_symbol test_function} \<subseteq> fst ` set m \<and>
     distinct (map fst m) \<and> distinct (map snd m) \<and> 0 \<notin> snd ` set m"
proof -
  let ?s = "empty_py_maps\<lparr>py_pid_config := [(7, main_pid_data)]\<rparr>"
  let ?s1 = "empty_py_maps\<lparr>pids := [(7, python_config)], py_pid_config := [(7, main_pid_data)]\<rparr>"
  let ?xs = "[Configure 7 python_config, PerfEvent main_env]"
  let ?step = "prof_step 0 (Some (pyperf_collect 0 32))"
  have conf: "?step (Configure 7 python_config) ?s = ?s1"
    by (simp add: bpf_hash_update_elem_def bpf_map_lookup_elem_def flag_error_def)
  have tick: "?step (PerfEvent main_env) ?s1 = pyperf_collect 0 32 main_env ?s1"
    by (simp add: do_perf_event_def current_pid_def bpf_map_lookup_elem_def main_env_def)
  have "take k ?xs = [] \<or> take k ?xs = [Configure 7 python_config]" if "k < length ?xs" for k
    using that by (auto simp: less_Suc_eq)
  then have "counter_of (fold ?step (take k ?xs) ?s) cpu + 96 < 2 ^ 23" if "k < length ?xs" for k cpu
    using that conf by (force simp: counter_of_def zero_py_state_def simp del: prof_step.simps)
  then show ?thesis
    using symbol_numbers_unique [of ?s 32 ?xs 0, OF _ _ _ _ _ refl] main_symbols [OF refl] conf tick
    by (auto simp: counter_of_def zero_py_state_def simp del: prof_step.simps)
qed

end
