(* ===== verification/Go_Lib.thy ===== *)
theory Go_Lib
  imports Prelude
begin

unbundle bit_operations_syntax

text \<open>
  What the user space of the agent uses of the language Go and of its standard library: panics,
  indexing and slicing, \<^verbatim>\<open>bytes.Cut\<close>, \<^verbatim>\<open>bytes.HasPrefix\<close>, \<^verbatim>\<open>bytes.TrimSpace\<close>, \<^verbatim>\<open>strings.Split\<close>,
  the conversions of \<^verbatim>\<open>strconv\<close> and the reading of \<^verbatim>\<open>encoding/binary\<close>. A Go string is its list of bytes.
  The facts about searching and about decimal numbers carry the round trips of the decoders; they
  are in the collection \<open>go_simps\<close>.
\<close>

named_theorems go_simps "evaluation of functions of the Go library"

type_synonym gostring = "u8 list"

section \<open>Panics and slices\<close>

datatype 'a go = Ret 'a | Panic

fun go_bind :: "'a go \<Rightarrow> ('a \<Rightarrow> 'b go) \<Rightarrow> 'b go" where
  "go_bind (Ret x) f = f x"
| "go_bind Panic f = Panic"

text \<open>
  \<^verbatim>\<open>s[i]\<close>, \<^verbatim>\<open>s[lo:]\<close> and \<^verbatim>\<open>s[lo:hi]\<close>. The upper bound of a slice may go up to the capacity of its
  array, so the bytes behind the end of the slice are an argument where the source slices
  beyond the end.
\<close>

definition go_index :: "'a list \<Rightarrow> nat \<Rightarrow> 'a go" where
  "go_index s i = (if i < length s then Ret (s ! i) else Panic)"

definition go_slice :: "'a list \<Rightarrow> 'a list \<Rightarrow> nat \<Rightarrow> nat \<Rightarrow> 'a list go" where
  "go_slice s spare lo hi =
     (if lo \<le> hi \<and> hi \<le> length s + length spare then Ret (take (hi - lo) (drop lo (s @ spare))) else Panic)"

definition go_from :: "'a list \<Rightarrow> nat \<Rightarrow> 'a list go" where
  "go_from s lo = (if lo \<le> length s then Ret (drop lo s) else Panic)"

lemma go_slice_inside [go_simps]:
  "lo \<le> hi \<Longrightarrow> hi \<le> length s \<Longrightarrow> go_slice s spare lo hi = Ret (take (hi - lo) (drop lo s))"
  by (simp add: go_slice_def)

lemma go_from_inside [go_simps]: "lo \<le> length s \<Longrightarrow> go_from s lo = Ret (drop lo s)"
  by (simp add: go_from_def)

lemma go_index_inside [go_simps]: "i < length s \<Longrightarrow> go_index s i = Ret (s ! i)"
  by (simp add: go_index_def)

section \<open>Searching bytes\<close>

definition bytes_HasPrefix :: "u8 list \<Rightarrow> u8 list \<Rightarrow> bool" where
  "bytes_HasPrefix s p \<longleftrightarrow> take (length p) s = p"

fun bytes_Index :: "u8 list \<Rightarrow> u8 list \<Rightarrow> nat option" where
  "bytes_Index [] sep = (if sep = [] then Some 0 else None)"
| "bytes_Index (c # s) sep =
     (if bytes_HasPrefix (c # s) sep then Some 0 else map_option Suc (bytes_Index s sep))"

definition bytes_Cut :: "u8 list \<Rightarrow> u8 list \<Rightarrow> u8 list \<times> u8 list \<times> bool" where
  "bytes_Cut s sep =
     (case bytes_Index s sep of
        Some i \<Rightarrow> (take i s, drop (i + length sep) s, True)
      | None \<Rightarrow> (s, [], False))"

text \<open>\<^verbatim>\<open>strings.Split\<close> with a separator of one byte.\<close>

fun strings_Split :: "u8 list \<Rightarrow> u8 \<Rightarrow> u8 list list" where
  "strings_Split [] sep = [[]]"
| "strings_Split (c # s) sep =
     (if c = sep then [] # strings_Split s sep
      else case strings_Split s sep of
        [] \<Rightarrow> [[c]]
      | x # xs \<Rightarrow> (c # x) # xs)"

text \<open>
  \<^verbatim>\<open>bytes.TrimSpace\<close> removes the characters of \<^verbatim>\<open>unicode.IsSpace\<close> in UTF-8 from both ends.
\<close>

definition go_spaces :: "u8 list list" where
  "go_spaces = [[9], [10], [11], [12], [13], [32], [0xC2, 0x85], [0xC2, 0xA0], [0xE1, 0x9A, 0x80],
     [0xE2, 0x80, 0x80], [0xE2, 0x80, 0x81], [0xE2, 0x80, 0x82], [0xE2, 0x80, 0x83], [0xE2, 0x80, 0x84],
     [0xE2, 0x80, 0x85], [0xE2, 0x80, 0x86], [0xE2, 0x80, 0x87], [0xE2, 0x80, 0x88], [0xE2, 0x80, 0x89],
     [0xE2, 0x80, 0x8A], [0xE2, 0x80, 0xA8], [0xE2, 0x80, 0xA9], [0xE2, 0x80, 0xAF], [0xE2, 0x81, 0x9F],
     [0xE3, 0x80, 0x80]]"

function trim_left :: "u8 list list \<Rightarrow> u8 list \<Rightarrow> u8 list" where
  "trim_left sps s =
     (case find (\<lambda>sp. sp \<noteq> [] \<and> bytes_HasPrefix s sp) sps of
        None \<Rightarrow> s
      | Some sp \<Rightarrow> trim_left sps (drop (length sp) s))"
  by pat_completeness auto

lemma HasPrefix_length: "bytes_HasPrefix s p \<Longrightarrow> length p \<le> length s"
  unfolding bytes_HasPrefix_def by (metis length_take min.cobounded1)

termination trim_left
  by (relation "measure (\<lambda>(sps, s). length s)")
    (auto simp: find_Some_iff dest!: HasPrefix_length intro!: diff_less)

declare trim_left.simps [simp del]

definition bytes_TrimSpace :: "u8 list \<Rightarrow> u8 list" where
  "bytes_TrimSpace s = rev (trim_left (map rev go_spaces) (rev (trim_left go_spaces s)))"

lemma HasPrefix_append [go_simps]: "bytes_HasPrefix (p @ s) p"
  by (simp add: bytes_HasPrefix_def)

lemma HasPrefix_Cons [go_simps]: "bytes_HasPrefix (c # s) (d # p) \<longleftrightarrow> c = d \<and> bytes_HasPrefix s p"
  by (auto simp: bytes_HasPrefix_def)

lemma HasPrefix_Nil [go_simps]: "bytes_HasPrefix s []" "bytes_HasPrefix [] (d # p) \<longleftrightarrow> False"
  by (simp_all add: bytes_HasPrefix_def)

text \<open>A separator is found where its first byte first occurs, if it does not occur before.\<close>

lemma bytes_Index_first:
  "sep \<noteq> [] \<Longrightarrow> hd sep \<notin> set x \<Longrightarrow> bytes_Index (x @ sep @ y) sep = Some (length x)"
proof (induction x)
  case Nil
  then show ?case by (cases sep) (simp_all add: go_simps bytes_HasPrefix_def)
next
  case (Cons c x)
  then show ?case by (cases sep) (auto simp: go_simps)
qed

lemma bytes_Index_absent: "sep \<noteq> [] \<Longrightarrow> hd sep \<notin> set x \<Longrightarrow> bytes_Index x sep = None"
proof (induction x)
  case (Cons c x)
  then show ?case by (cases sep) (auto simp: go_simps)
qed simp

lemma bytes_Cut_first:
  "sep \<noteq> [] \<Longrightarrow> hd sep \<notin> set x \<Longrightarrow> bytes_Cut (x @ sep @ y) sep = (x, y, True)"
  by (simp add: bytes_Cut_def bytes_Index_first)

lemma bytes_Cut_absent: "sep \<noteq> [] \<Longrightarrow> hd sep \<notin> set x \<Longrightarrow> bytes_Cut x sep = (x, [], False)"
  by (simp add: bytes_Cut_def bytes_Index_absent)

lemma bytes_Cut_byte [go_simps]:
  "b \<notin> set x \<Longrightarrow> bytes_Cut (x @ b # y) [b] = (x, y, True)"
  "b \<notin> set x \<Longrightarrow> bytes_Cut x [b] = (x, [], False)"
  using bytes_Cut_first [of "[b]" x y] bytes_Cut_absent [of "[b]" x] by simp_all

lemma bytes_Cut_two [go_simps]:
  "b \<notin> set x \<Longrightarrow> bytes_Cut (x @ b # c # y) [b, c] = (x, y, True)"
  "b \<notin> set x \<Longrightarrow> bytes_Cut x [b, c] = (x, [], False)"
  using bytes_Cut_first [of "[b, c]" x y] bytes_Cut_absent [of "[b, c]" x] by simp_all

lemma bytes_Cut_byte_found:
  assumes "b \<in> set x"
  shows "\<exists>y z. x = y @ b # z \<and> b \<notin> set y \<and> bytes_Cut x [b] = (y, z, True)"
  using split_list_first [OF assms] bytes_Cut_byte(1) by blast

lemma bytes_Index_bound: "bytes_Index s sep = Some i \<Longrightarrow> i + length sep \<le> length s"
proof (induction s arbitrary: i)
  case Nil
  then show ?case by (auto split: if_splits)
next
  case (Cons c s)
  show ?case
  proof (cases "bytes_HasPrefix (c # s) sep")
    case True
    then show ?thesis using Cons.prems HasPrefix_length by fastforce
  next
    case False
    then show ?thesis using Cons.prems Cons.IH by fastforce
  qed
qed

lemma bytes_Cut_length:
  assumes "bytes_Cut s sep = (a, r, ok)"
  shows "length a + length r \<le> length s" and "ok \<Longrightarrow> length a + length sep + length r = length s"
  using assms bytes_Index_bound [of s sep]
  by (auto simp: bytes_Cut_def split: option.splits)

lemma strings_Split_not_Nil [simp]: "strings_Split s sep \<noteq> []"
  by (cases s) (auto split: list.splits)

text \<open>Splitting undoes joining.\<close>

fun go_join :: "u8 \<Rightarrow> u8 list list \<Rightarrow> u8 list" where
  "go_join sep [] = []"
| "go_join sep [x] = x"
| "go_join sep (x # xs) = x @ sep # go_join sep xs"

lemma strings_Split_append:
  "sep \<notin> set x \<Longrightarrow> strings_Split (x @ sep # s) sep = x # strings_Split s sep"
  by (induction x) auto

lemma strings_Split_single: "sep \<notin> set x \<Longrightarrow> strings_Split x sep = [x]"
  by (induction x) auto

lemma strings_Split_join:
  "xs \<noteq> [] \<Longrightarrow> \<forall>x\<in>set xs. sep \<notin> set x \<Longrightarrow> strings_Split (go_join sep xs) sep = xs"
  by (induction sep xs rule: go_join.induct)
    (simp_all add: strings_Split_append strings_Split_single)

section \<open>Numbers\<close>

definition is_digit :: "u8 \<Rightarrow> bool" where
  "is_digit c \<longleftrightarrow> 48 \<le> c \<and> c \<le> 57"

definition digits_value :: "u8 list \<Rightarrow> nat" where
  "digits_value s = foldl (\<lambda>n c. 10 * n + (unat c - 48)) 0 s"

text \<open>\<^verbatim>\<open>strconv.ParseUint(s, 10, bits)\<close>: \<open>None\<close> is an error, of syntax or of range.\<close>

definition strconv_ParseUint :: "gostring \<Rightarrow> nat \<Rightarrow> nat option" where
  "strconv_ParseUint s bits =
     (if s = [] \<or> \<not> list_all is_digit s then None
      else if digits_value s < 2 ^ bits then Some (digits_value s) else None)"

text \<open>
  The value \<^verbatim>\<open>strconv.Atoi\<close> returns, also with an error: 0 for a syntax error, the nearest number
  for one that is out of range.
\<close>

definition strconv_Atoi :: "gostring \<Rightarrow> int" where
  "strconv_Atoi s =
     (let neg = (s \<noteq> [] \<and> hd s = 45);
          ds = (if s \<noteq> [] \<and> (hd s = 45 \<or> hd s = 43) then tl s else s) in
      if ds = [] \<or> \<not> list_all is_digit ds then 0
      else if neg then max (- (2 ^ 63)) (- int (digits_value ds))
      else min (2 ^ 63 - 1) (int (digits_value ds)))"

fun strconv_FormatUint :: "nat \<Rightarrow> gostring" where
  "strconv_FormatUint n =
     (if n < 10 then [of_nat (48 + n)]
      else strconv_FormatUint (n div 10) @ [of_nat (48 + n mod 10)])"

declare strconv_FormatUint.simps [simp del]

definition strconv_Itoa :: "int \<Rightarrow> gostring" where
  "strconv_Itoa i = (if i < 0 then 45 # strconv_FormatUint (nat (- i)) else strconv_FormatUint (nat i))"

lemma unat_digit: "d < 10 \<Longrightarrow> unat (of_nat (48 + d) :: u8) = 48 + d"
  by (simp add: unat_of_nat del: of_nat_add)

lemma is_digit_of_nat: "d < 10 \<Longrightarrow> is_digit (of_nat (48 + d))"
  by (simp add: is_digit_def word_le_nat_alt unat_digit del: of_nat_add)

lemma FormatUint_digits: "list_all is_digit (strconv_FormatUint n)"
proof (induction n rule: strconv_FormatUint.induct)
  case (1 n)
  then show ?case
    by (subst strconv_FormatUint.simps) (simp add: is_digit_of_nat del: of_nat_add)
qed

lemma FormatUint_not_Nil [simp]: "strconv_FormatUint n \<noteq> []"
  by (subst strconv_FormatUint.simps) simp

lemma digits_value_snoc: "digits_value (s @ [c]) = 10 * digits_value s + (unat c - 48)"
  by (simp add: digits_value_def)

lemma digits_value_FormatUint [simp]: "digits_value (strconv_FormatUint n) = n"
proof (induction n rule: strconv_FormatUint.induct)
  case (1 n)
  show ?case
  proof (cases "n < 10")
    case True
    then show ?thesis
      by (subst strconv_FormatUint.simps) (simp add: digits_value_def unat_digit del: of_nat_add)
  next
    case False
    then show ?thesis
      using 1 by (subst strconv_FormatUint.simps)
        (simp add: digits_value_snoc unat_digit del: of_nat_add)
  qed
qed

lemma ParseUint_FormatUint [go_simps]: "n < 2 ^ bits \<Longrightarrow> strconv_ParseUint (strconv_FormatUint n) bits = Some n"
  by (simp add: strconv_ParseUint_def FormatUint_digits)

lemma FormatUint_inject [simp]: "strconv_FormatUint m = strconv_FormatUint n \<longleftrightarrow> m = n"
  by (metis digits_value_FormatUint)

lemma FormatUint_no_sep:
  assumes "\<not> is_digit b"
  shows "b \<notin> set (strconv_FormatUint n)"
  using assms FormatUint_digits [of n] by (auto simp: list_all_iff)

lemma Atoi_FormatUint [go_simps]: "n < 2 ^ 63 \<Longrightarrow> strconv_Atoi (strconv_FormatUint n) = int n"
proof -
  assume n: "n < 2 ^ 63"
  have "hd (strconv_FormatUint n) \<noteq> b" if "\<not> is_digit b" for b
    using FormatUint_no_sep [OF that] hd_in_set [OF FormatUint_not_Nil] by metis
  then show ?thesis
    using n FormatUint_digits [of n] by (simp add: strconv_Atoi_def is_digit_def)
qed

section \<open>Reading binary data\<close>

text \<open>
  \<^verbatim>\<open>binary.Read\<close> of a value of \<open>n\<close> bytes takes them off the reader or, when there are fewer, gives
  an error.
\<close>

definition binary_Read :: "nat \<Rightarrow> u8 list \<Rightarrow> (u8 list \<times> u8 list) option" where
  "binary_Read n r = (if length r < n then None else Some (take n r, drop n r))"

lemma binary_Read_append [go_simps]: "length x = n \<Longrightarrow> binary_Read n (x @ y) = Some (x, y)"
  by (simp add: binary_Read_def)

lemma binary_Read_short [go_simps]: "length r < n \<Longrightarrow> binary_Read n r = None"
  by (simp add: binary_Read_def)

end
