(* ===== verification/Event_Reader.thy ===== *)
theory Event_Reader
  imports Tracer Go_Lib
begin

unbundle bit_operations_syntax

text \<open>
  \<^verbatim>\<open>ebpftracer/tracer.go\<close>: the readers of the perf buffers. The programs submit C structs; a reader
  decodes the bytes of each record into a Go struct and sends an \<^verbatim>\<open>Event\<close> on the channel. The
  theory has the layout of the four structs as the compiler lays them out, the readers, and the
  proof that what a program submitted is what arrives.

  The package \<^verbatim>\<open>inet.af/netaddr\<close> is the parameter \<open>net\<close>; addresses have an arbitrary type.
\<close>

section \<open>Events in user space\<close>

record 'ip netaddr =
  FromStdIP :: "u8 list \<Rightarrow> 'ip"
  ZeroIP :: 'ip

type_synonym 'ip ipport = "'ip \<times> u16"

record TrafficStats =
  BytesSent :: u64
  BytesReceived :: u64

record RequestData =
  rd_Protocol :: u8
  rd_Status :: int
  rd_Duration :: s64
  rd_Method :: u8
  rd_StatementId :: u32
  rd_Payload :: "u8 list"

record 'ip Event =
  Ev_Type :: u32
  Ev_Reason :: u32
  Ev_Pid :: u32
  Ev_SrcAddr :: "'ip ipport"
  Ev_DstAddr :: "'ip ipport"
  Ev_ActualDstAddr :: "'ip ipport"
  Ev_Fd :: u64
  Ev_Timestamp :: u64
  Ev_Duration :: s64
  Ev_L7Request :: "RequestData option"
  Ev_TrafficStats :: "TrafficStats option"
  Ev_Mnt :: u64
  Ev_Log :: bool

abbreviation (input) EventTypeConnectionClose :: u32 where "EventTypeConnectionClose \<equiv> 4"
abbreviation (input) EventTypeL7Request :: u32 where "EventTypeL7Request \<equiv> 10"
abbreviation (input) MaxPayloadSize :: nat where "MaxPayloadSize \<equiv> 1024"

abbreviation (input) perfMapTypeProcEvents :: u8 where "perfMapTypeProcEvents \<equiv> 1"
abbreviation (input) perfMapTypeTCPEvents :: u8 where "perfMapTypeTCPEvents \<equiv> 2"
abbreviation (input) perfMapTypeFileEvents :: u8 where "perfMapTypeFileEvents \<equiv> 3"
abbreviation (input) perfMapTypeL7Events :: u8 where "perfMapTypeL7Events \<equiv> 4"

text \<open>The zero value of \<^verbatim>\<open>Event\<close>.\<close>

definition zero_Event :: "('ip, 'b) netaddr_scheme \<Rightarrow> 'ip Event" where
  "zero_Event net =
     \<lparr>Ev_Type = 0, Ev_Reason = 0, Ev_Pid = 0, Ev_SrcAddr = (ZeroIP net, 0), Ev_DstAddr = (ZeroIP net, 0),
      Ev_ActualDstAddr = (ZeroIP net, 0), Ev_Fd = 0, Ev_Timestamp = 0, Ev_Duration = 0,
      Ev_L7Request = None, Ev_TrafficStats = None, Ev_Mnt = 0, Ev_Log = False\<rparr>"

section \<open>The structs of the reader\<close>

record procEvent =
  gp_Type :: u32
  gp_Pid :: u32
  gp_Reason :: u32

record tcpEvent =
  gt_Fd :: u64
  gt_Timestamp :: u64
  gt_Duration :: u64
  gt_Type :: u32
  gt_Pid :: u32
  gt_BytesSent :: u64
  gt_BytesReceived :: u64
  gt_SPort :: u16
  gt_DPort :: u16
  gt_Aport :: u16
  gt_SAddr :: "u8 list"
  gt_DAddr :: "u8 list"
  gt_AAddr :: "u8 list"

record fileEvent =
  gf_Type :: u32
  gf_Pid :: u32
  gf_Fd :: u64
  gf_Mnt :: u64
  gf_Log :: u64

record l7Event =
  gl_Fd :: u64
  gl_ConnectionTimestamp :: u64
  gl_Pid :: u32
  gl_Status :: s32
  gl_Duration :: u64
  gl_Protocol :: u8
  gl_Method :: u8
  gl_Padding :: u16
  gl_StatementId :: u32
  gl_PayloadSize :: u64

text \<open>\<^verbatim>\<open>encoding/binary\<close> reads the fields one after the other, with no gaps.\<close>

definition procEvent_of :: "u8 list \<Rightarrow> procEvent" where
  "procEvent_of b =
     \<lparr>gp_Type = le_word (field_at 0 4 b), gp_Pid = le_word (field_at 4 4 b), gp_Reason = le_word (field_at 8 4 b)\<rparr>"

definition tcpEvent_of :: "u8 list \<Rightarrow> tcpEvent" where
  "tcpEvent_of b =
     \<lparr>gt_Fd = le_word (field_at 0 8 b), gt_Timestamp = le_word (field_at 8 8 b),
      gt_Duration = le_word (field_at 16 8 b), gt_Type = le_word (field_at 24 4 b),
      gt_Pid = le_word (field_at 28 4 b), gt_BytesSent = le_word (field_at 32 8 b),
      gt_BytesReceived = le_word (field_at 40 8 b), gt_SPort = le_word (field_at 48 2 b),
      gt_DPort = le_word (field_at 50 2 b), gt_Aport = le_word (field_at 52 2 b),
      gt_SAddr = field_at 54 16 b, gt_DAddr = field_at 70 16 b, gt_AAddr = field_at 86 16 b\<rparr>"

definition fileEvent_of :: "u8 list \<Rightarrow> fileEvent" where
  "fileEvent_of b =
     \<lparr>gf_Type = le_word (field_at 0 4 b), gf_Pid = le_word (field_at 4 4 b), gf_Fd = le_word (field_at 8 8 b),
      gf_Mnt = le_word (field_at 16 8 b), gf_Log = le_word (field_at 24 8 b)\<rparr>"

definition l7Event_of :: "u8 list \<Rightarrow> l7Event" where
  "l7Event_of b =
     \<lparr>gl_Fd = le_word (field_at 0 8 b), gl_ConnectionTimestamp = le_word (field_at 8 8 b),
      gl_Pid = le_word (field_at 16 4 b), gl_Status = le_word (field_at 20 4 b),
      gl_Duration = le_word (field_at 24 8 b), gl_Protocol = le_word (field_at 32 1 b),
      gl_Method = le_word (field_at 33 1 b), gl_Padding = le_word (field_at 34 2 b),
      gl_StatementId = le_word (field_at 36 4 b), gl_PayloadSize = le_word (field_at 40 8 b)\<rparr>"

section \<open>The readers\<close>

definition ipPort_of :: "('ip, 'b) netaddr_scheme \<Rightarrow> u8 list \<Rightarrow> u16 \<Rightarrow> 'ip ipport" where
  "ipPort_of net addr port = (FromStdIP net addr, port)"

text \<open>
  The body of the loop for one record: \<open>None\<close> where the source continues with the next record.
  \<open>spare\<close> is what the array of the record has behind its end.
\<close>

definition decode_record ::
  "('ip, 'b) netaddr_scheme \<Rightarrow> u8 \<Rightarrow> u8 list \<Rightarrow> u8 list \<Rightarrow> 'ip Event option go" where
  "decode_record net typ raw spare =
     (if typ = perfMapTypeL7Events then
        (case binary_Read 48 raw of
           None \<Rightarrow> Ret None
         | Some (b, payload) \<Rightarrow>
             (let v = l7Event_of b;
                  req = \<lparr>rd_Protocol = gl_Protocol v, rd_Status = sint (gl_Status v), rd_Duration = gl_Duration v,
                         rd_Method = gl_Method v, rd_StatementId = gl_StatementId v, rd_Payload = []\<rparr> in
              go_bind
                (if gl_PayloadSize v = 0 then Ret []
                 else if gl_PayloadSize v > of_nat MaxPayloadSize then go_slice payload spare 0 MaxPayloadSize
                 else go_slice payload spare 0 (unat (gl_PayloadSize v)))
                (\<lambda>p. Ret (Some ((zero_Event net)\<lparr>Ev_Type := EventTypeL7Request, Ev_Pid := gl_Pid v, Ev_Fd := gl_Fd v,
                   Ev_Timestamp := gl_ConnectionTimestamp v, Ev_L7Request := Some (req\<lparr>rd_Payload := p\<rparr>)\<rparr>)))))
      else if typ = perfMapTypeFileEvents then
        (case binary_Read 32 raw of
           None \<Rightarrow> Ret None
         | Some (b, _) \<Rightarrow>
             (let v = fileEvent_of b in
              Ret (Some ((zero_Event net)\<lparr>Ev_Type := gf_Type v, Ev_Pid := gf_Pid v, Ev_Fd := gf_Fd v,
                Ev_Mnt := gf_Mnt v, Ev_Log := (gf_Log v > 0)\<rparr>))))
      else if typ = perfMapTypeProcEvents then
        (case binary_Read 12 raw of
           None \<Rightarrow> Ret None
         | Some (b, _) \<Rightarrow>
             (let v = procEvent_of b in
              Ret (Some ((zero_Event net)\<lparr>Ev_Type := gp_Type v, Ev_Reason := gp_Reason v, Ev_Pid := gp_Pid v\<rparr>))))
      else if typ = perfMapTypeTCPEvents then
        (case binary_Read 102 raw of
           None \<Rightarrow> Ret None
         | Some (b, _) \<Rightarrow>
             (let v = tcpEvent_of b;
                  event = (zero_Event net)\<lparr>Ev_Type := gt_Type v, Ev_Pid := gt_Pid v,
                    Ev_SrcAddr := ipPort_of net (gt_SAddr v) (gt_SPort v),
                    Ev_DstAddr := ipPort_of net (gt_DAddr v) (gt_DPort v),
                    Ev_ActualDstAddr := ipPort_of net (gt_AAddr v) (gt_Aport v),
                    Ev_Fd := gt_Fd v, Ev_Timestamp := gt_Timestamp v, Ev_Duration := gt_Duration v\<rparr> in
              Ret (Some
                (if gt_Type v = EventTypeConnectionClose
                 then event\<lparr>Ev_TrafficStats :=
                   Some \<lparr>BytesSent = gt_BytesSent v, BytesReceived = gt_BytesReceived v\<rparr>\<rparr>
                 else event))))
      else Ret None)"

text \<open>
  What \<^verbatim>\<open>r.Read()\<close> returns: a closed reader ends the loop; a time-out or another error is ignored;
  a record is lost samples or the bytes of a sample.
\<close>

datatype perf_read = ErrClosed | ErrOther | Record (LostSamples: u64) (RawSample: "u8 list") (spare: "u8 list")

text \<open>The loop over what was read so far: the events sent, unless it panics.\<close>

fun runEventsReader :: "('ip, 'b) netaddr_scheme \<Rightarrow> u8 \<Rightarrow> perf_read list \<Rightarrow> 'ip Event list go" where
  "runEventsReader net typ [] = Ret []"
| "runEventsReader net typ (ErrClosed # rs) = Ret []"
| "runEventsReader net typ (ErrOther # rs) = runEventsReader net typ rs"
| "runEventsReader net typ (Record lost raw behind # rs) =
     (if lost > 0 then runEventsReader net typ rs
      else go_bind (decode_record net typ raw behind)
        (\<lambda>e. go_bind (runEventsReader net typ rs) (\<lambda>es. Ret (case e of None \<Rightarrow> es | Some e \<Rightarrow> e # es))))"

section \<open>The structs of the programs\<close>

text \<open>
  The bytes the compiler gives the structs. All fields are at multiples of their size without
  gaps; \<^verbatim>\<open>struct tcp_event\<close> has two bytes of padding at its end, whose contents are not specified.
\<close>

definition proc_event_bytes :: "proc_event \<Rightarrow> u8 list" where
  "proc_event_bytes e = le_bytes 4 (pe_type e) @ le_bytes 4 (pe_pid e) @ le_bytes 4 (pe_reason e)"

definition file_event_bytes :: "file_event \<Rightarrow> u8 list" where
  "file_event_bytes e = le_bytes 4 (fe_type e) @ le_bytes 4 (fe_pid e) @ le_bytes 8 (fe_fd e) @
     le_bytes 8 (fe_mnt e) @ le_bytes 8 (fe_log e)"

definition tcp_event_bytes :: "tcp_event \<Rightarrow> u8 list \<Rightarrow> u8 list" where
  "tcp_event_bytes e pad = le_bytes 8 (te_fd e) @ le_bytes 8 (te_timestamp e) @ le_bytes 8 (te_duration e) @
     le_bytes 4 (te_type e) @ le_bytes 4 (te_pid e) @ le_bytes 8 (te_bytes_sent e) @
     le_bytes 8 (te_bytes_received e) @ le_bytes 2 (te_sport e) @ le_bytes 2 (te_dport e) @
     le_bytes 2 (te_aport e) @ te_saddr e @ te_daddr e @ te_aaddr e @ pad"

definition l7_event_bytes :: "l7_event \<Rightarrow> u8 list" where
  "l7_event_bytes e = le_bytes 8 (ev_fd e) @ le_bytes 8 (ev_connection_timestamp e) @ le_bytes 4 (ev_pid e) @
     le_bytes 4 (ev_status e) @ le_bytes 8 (ev_duration e) @
     [ev_protocol e, ev_method e] @ le_bytes 2 (ev_padding e) @ le_bytes 4 (ev_statement_id e) @
     le_bytes 8 (ev_payload_size e) @ ev_payload e"

section \<open>What arrives\<close>

text \<open>The events of user space, as functions of the events of the programs.\<close>

definition user_proc_event :: "('ip, 'b) netaddr_scheme \<Rightarrow> proc_event \<Rightarrow> 'ip Event" where
  "user_proc_event net e =
     (zero_Event net)\<lparr>Ev_Type := pe_type e, Ev_Reason := pe_reason e, Ev_Pid := pe_pid e\<rparr>"

definition user_file_event :: "('ip, 'b) netaddr_scheme \<Rightarrow> file_event \<Rightarrow> 'ip Event" where
  "user_file_event net e =
     (zero_Event net)\<lparr>Ev_Type := fe_type e, Ev_Pid := fe_pid e, Ev_Fd := fe_fd e, Ev_Mnt := fe_mnt e,
       Ev_Log := (fe_log e \<noteq> 0)\<rparr>"

definition user_tcp_event :: "('ip, 'b) netaddr_scheme \<Rightarrow> tcp_event \<Rightarrow> 'ip Event" where
  "user_tcp_event net e =
     (zero_Event net)\<lparr>Ev_Type := te_type e, Ev_Pid := te_pid e,
       Ev_SrcAddr := (FromStdIP net (te_saddr e), te_sport e),
       Ev_DstAddr := (FromStdIP net (te_daddr e), te_dport e),
       Ev_ActualDstAddr := (FromStdIP net (te_aaddr e), te_aport e),
       Ev_Fd := te_fd e, Ev_Timestamp := te_timestamp e, Ev_Duration := te_duration e,
       Ev_TrafficStats := (if te_type e = EventTypeConnectionClose
         then Some \<lparr>BytesSent = te_bytes_sent e, BytesReceived = te_bytes_received e\<rparr> else None)\<rparr>"

definition user_request :: "l7_event \<Rightarrow> RequestData" where
  "user_request e =
     \<lparr>rd_Protocol = ev_protocol e, rd_Status = sint (ev_status e), rd_Duration = ev_duration e,
      rd_Method = ev_method e, rd_StatementId = ev_statement_id e,
      rd_Payload = take (min (unat (ev_payload_size e)) 1024) (ev_payload e)\<rparr>"

definition user_l7_event :: "('ip, 'b) netaddr_scheme \<Rightarrow> l7_event \<Rightarrow> 'ip Event" where
  "user_l7_event net e =
     (zero_Event net)\<lparr>Ev_Type := EventTypeL7Request, Ev_Pid := ev_pid e, Ev_Fd := ev_fd e,
       Ev_Timestamp := ev_connection_timestamp e, Ev_L7Request := Some (user_request e)\<rparr>"

lemma field_at_exact: "length xs = n \<Longrightarrow> field_at 0 n xs = xs"
  by (simp add: field_at_def)

lemma field_at_byte: "field_at 0 (Suc 0) (x # xs) = [x]"
  by (simp add: field_at_def)

lemmas layout_simps = field_at_simps field_at_exact field_at_byte

lemma decode_proc_event:
  "decode_record net perfMapTypeProcEvents (proc_event_bytes e @ junk) behind = Ret (Some (user_proc_event net e))"
proof -
  have "procEvent_of (proc_event_bytes e) = \<lparr>gp_Type = pe_type e, gp_Pid = pe_pid e, gp_Reason = pe_reason e\<rparr>"
    by (simp add: procEvent_of_def proc_event_bytes_def layout_simps)
  moreover have "length (proc_event_bytes e) = 12" by (simp add: proc_event_bytes_def)
  ultimately show ?thesis
    by (simp add: decode_record_def go_simps user_proc_event_def)
qed

lemma decode_file_event:
  "decode_record net perfMapTypeFileEvents (file_event_bytes e @ junk) behind = Ret (Some (user_file_event net e))"
proof -
  have "fileEvent_of (file_event_bytes e) =
      \<lparr>gf_Type = fe_type e, gf_Pid = fe_pid e, gf_Fd = fe_fd e, gf_Mnt = fe_mnt e, gf_Log = fe_log e\<rparr>"
    by (simp add: fileEvent_of_def file_event_bytes_def layout_simps)
  moreover have "length (file_event_bytes e) = 32" by (simp add: file_event_bytes_def)
  ultimately show ?thesis
    by (simp add: decode_record_def go_simps user_file_event_def word_neq_0_conv)
qed

definition tcp_event_wf :: "tcp_event \<Rightarrow> bool" where
  "tcp_event_wf e \<longleftrightarrow> length (te_saddr e) = 16 \<and> length (te_daddr e) = 16 \<and> length (te_aaddr e) = 16"

lemma decode_tcp_event:
  assumes "tcp_event_wf e"
  shows "decode_record net perfMapTypeTCPEvents (tcp_event_bytes e pad) behind = Ret (Some (user_tcp_event net e))"
proof -
  let ?b = "tcp_event_bytes e []"
  have b: "tcp_event_bytes e pad = ?b @ pad" by (simp add: tcp_event_bytes_def)
  have "tcpEvent_of ?b =
      \<lparr>gt_Fd = te_fd e, gt_Timestamp = te_timestamp e, gt_Duration = te_duration e, gt_Type = te_type e,
       gt_Pid = te_pid e, gt_BytesSent = te_bytes_sent e, gt_BytesReceived = te_bytes_received e,
       gt_SPort = te_sport e, gt_DPort = te_dport e, gt_Aport = te_aport e, gt_SAddr = te_saddr e,
       gt_DAddr = te_daddr e, gt_AAddr = te_aaddr e\<rparr>"
    using assms by (simp add: tcpEvent_of_def tcp_event_bytes_def tcp_event_wf_def layout_simps)
  moreover have "length ?b = 102" using assms by (simp add: tcp_event_bytes_def tcp_event_wf_def)
  ultimately show ?thesis
    unfolding b by (simp add: decode_record_def go_simps user_tcp_event_def ipPort_of_def zero_Event_def)
qed

lemma decode_l7_event:
  assumes "length (ev_payload e) = 1024"
  shows "decode_record net perfMapTypeL7Events (l7_event_bytes e @ junk) behind = Ret (Some (user_l7_event net e))"
proof -
  define h where "h = l7_event_bytes (e\<lparr>ev_payload := []\<rparr>)"
  have b: "l7_event_bytes e @ junk = h @ (ev_payload e @ junk)" by (simp add: l7_event_bytes_def h_def)
  have v: "l7Event_of h =
      \<lparr>gl_Fd = ev_fd e, gl_ConnectionTimestamp = ev_connection_timestamp e, gl_Pid = ev_pid e,
       gl_Status = ev_status e, gl_Duration = ev_duration e, gl_Protocol = ev_protocol e,
       gl_Method = ev_method e, gl_Padding = ev_padding e, gl_StatementId = ev_statement_id e,
       gl_PayloadSize = ev_payload_size e\<rparr>"
    by (simp add: l7Event_of_def h_def l7_event_bytes_def layout_simps)
  have h: "length h = 48" by (simp add: h_def l7_event_bytes_def)
  have "1024 < ev_payload_size e \<longleftrightarrow> \<not> unat (ev_payload_size e) \<le> 1024"
    by (simp add: word_less_nat_alt not_le)
  then show ?thesis
    unfolding b using assms
    by (simp add: decode_record_def go_simps h v Let_def user_l7_event_def user_request_def min_def)
qed

text \<open>
  The samples a reader gets for the events \<open>es\<close>, in any order the buffers of the CPUs give them. A
  sample is the struct with its padding, and may have some garbage behind it. In between the
  reader may time out, or be told that samples were lost.
\<close>

inductive delivered :: "('e \<Rightarrow> u8 list \<Rightarrow> u8 list) \<Rightarrow> 'e list \<Rightarrow> perf_read list \<Rightarrow> bool" where
  waiting: "delivered enc [] []"
| closed: "delivered enc [] (ErrClosed # rs)"
| idle: "delivered enc es rs \<Longrightarrow> delivered enc es (ErrOther # rs)"
| lost: "delivered enc es rs \<Longrightarrow> n > 0 \<Longrightarrow> delivered enc es (Record n raw behind # rs)"
| sample: "delivered enc es rs \<Longrightarrow> delivered enc (e # es) (Record 0 (enc e pad @ junk) behind # rs)"

lemma delivered_reads:
  assumes "delivered enc es rs"
    and "\<And>e pad junk behind. e \<in> set es \<Longrightarrow>
      decode_record net typ (enc e pad @ junk) behind = Ret (Some (user e))"
  shows "runEventsReader net typ rs = Ret (map user es)"
  using assms by (induction rule: delivered.induct) auto

text \<open>
  C12. What the programs of the tracer submit is what user space receives. In every state the
  tracer reaches, whatever samples the readers get of the submitted events, with whatever padding
  and garbage behind them, every one is decoded, in the order of the samples: the requests with
  the first 1024 bytes of their payload at most, the events of files, processes and sockets with
  all their fields, and the traffic of a connection exactly with its close. No reader panics.
\<close>

theorem events_arrive:
  assumes "tracer_step\<^sup>*\<^sup>* init_l7_maps s"
    and "set ls \<subseteq> set (l7_events s)" and "delivered (\<lambda>e _. l7_event_bytes e) ls l7_rs"
    and "set fs \<subseteq> set (file_events s)" and "delivered (\<lambda>e _. file_event_bytes e) fs file_rs"
    and "set ps \<subseteq> set (proc_events s)" and "delivered (\<lambda>e _. proc_event_bytes e) ps proc_rs"
    and "set ts \<subseteq> set (tcp_listen_events s) \<union> set (tcp_connect_events s) \<union> set (tcp_retransmit_events s)"
    and "delivered tcp_event_bytes ts tcp_rs" and "\<forall>e\<in>set ts. tcp_event_wf e"
  shows "runEventsReader net perfMapTypeL7Events l7_rs = Ret (map (user_l7_event net) ls) \<and>
    runEventsReader net perfMapTypeFileEvents file_rs = Ret (map (user_file_event net) fs) \<and>
    runEventsReader net perfMapTypeProcEvents proc_rs = Ret (map (user_proc_event net) ps) \<and>
    runEventsReader net perfMapTypeTCPEvents tcp_rs = Ret (map (user_tcp_event net) ts)"
proof (intro conjI)
  have "tracer_wf s" using assms(1) init_l7_maps_wf by (rule tracer.reachable_inv)
  then have "length (ev_payload e) = 1024" if "e \<in> set ls" for e
    using that assms(2) by (auto simp: tracer_wf_def l7_wf_def event_wf_def payload_wf_def)
  then show "runEventsReader net perfMapTypeL7Events l7_rs = Ret (map (user_l7_event net) ls)"
    by (intro delivered_reads [OF assms(3)] decode_l7_event)
  show "runEventsReader net perfMapTypeFileEvents file_rs = Ret (map (user_file_event net) fs)"
    by (intro delivered_reads [OF assms(5)] decode_file_event)
  show "runEventsReader net perfMapTypeProcEvents proc_rs = Ret (map (user_proc_event net) ps)"
    by (intro delivered_reads [OF assms(7)] decode_proc_event)
  have "decode_record net perfMapTypeTCPEvents (tcp_event_bytes e pad @ junk) behind = Ret (Some (user_tcp_event net e))"
    if "e \<in> set ts" for e pad junk behind
    using decode_tcp_event [of e net "pad @ junk" behind] assms(10) that by (simp add: tcp_event_bytes_def)
  then show "runEventsReader net perfMapTypeTCPEvents tcp_rs = Ret (map (user_tcp_event net) ts)"
    by (intro delivered_reads [OF assms(9)])
qed

text \<open>A library of addresses for the witnesses: an address is its sixteen bytes.\<close>

definition plain_netaddr :: "u8 list netaddr" where
  "plain_netaddr = \<lparr>FromStdIP = (\<lambda>b. b), ZeroIP = []\<rparr>"

theorem events_arrive_witness:
  "runEventsReader plain_netaddr perfMapTypeProcEvents
     [ErrOther, Record 0 (proc_event_bytes \<lparr>pe_type = 1, pe_pid = 7, pe_reason = 0\<rparr> @ [0xAA]) [], Record 3 [] [], ErrClosed] =
   Ret [(zero_Event plain_netaddr)\<lparr>Ev_Type := 1, Ev_Reason := 0, Ev_Pid := 7\<rparr>]"
proof -
  let ?e = "\<lparr>pe_type = 1, pe_pid = 7, pe_reason = 0\<rparr>"
  let ?s = "task_newtask \<lparr>nt_pid = 7, nt_clone_flags = 0\<rparr> init_l7_maps"
  have "tracer_step\<^sup>*\<^sup>* init_l7_maps ?s" by (rule r_into_rtranclp) (rule newtask)
  moreover have "set [?e] \<subseteq> set (proc_events ?s)" by (simp add: task_newtask_def)
  moreover have "delivered (\<lambda>e _. proc_event_bytes e) [?e]
      [ErrOther, Record 0 (proc_event_bytes ?e @ [0xAA]) [], Record 3 [] [], ErrClosed]"
    by (intro delivered.intros) simp
  ultimately show ?thesis
    using events_arrive [of ?s "[]" "[]" "[]" "[]" "[?e]" _ "[]" "[]" plain_netaddr]
    by (simp add: user_proc_event_def waiting del: runEventsReader.simps)
qed

end
