(* ===== verification/Destinations.thy ===== *)
theory Destinations
  imports Event_Reader
begin

unbundle bit_operations_syntax

text \<open>
  \<^verbatim>\<open>common/net.go\<close>: which destinations of connections are of interest, and the keys and names under
  which they appear. Addresses and prefixes are those of the package \<^verbatim>\<open>netaddr\<close>; a prefix is the
  pair that \<^verbatim>\<open>IPPrefixFrom\<close> makes. A compiled glob is its function \<^verbatim>\<open>Match\<close>.
\<close>

section \<open>Addresses\<close>

record 'ip netaddr_ip = "'ip netaddr" +
  IsLoopback :: "'ip \<Rightarrow> bool"
  IsPrivate :: "'ip \<Rightarrow> bool"
  IsLinkLocalUnicast :: "'ip \<Rightarrow> bool"
  IsUnspecified :: "'ip \<Rightarrow> bool"
  Is4 :: "'ip \<Rightarrow> bool"
  Is6 :: "'ip \<Rightarrow> bool"
  As4 :: "'ip \<Rightarrow> u8 list"
  Zone :: "'ip \<Rightarrow> gostring"
  IP_String :: "'ip \<Rightarrow> gostring"
  Prefix_Contains :: "'ip \<times> u8 \<Rightarrow> 'ip \<Rightarrow> bool"
  Prefix_String :: "'ip \<times> u8 \<Rightarrow> gostring"

definition IsIpPrivate :: "('ip, 'b) netaddr_ip_scheme \<Rightarrow> 'ip \<Rightarrow> bool" where
  "IsIpPrivate net a =
     (if IsPrivate net a then True
      else if Is4 net a then (let parts = As4 net a in parts ! 0 = 100 \<and> parts ! 1 AND 0xc0 = 64)
      else False)"

definition IsIpExternal :: "('ip, 'b) netaddr_ip_scheme \<Rightarrow> 'ip \<Rightarrow> bool" where
  "IsIpExternal net a \<longleftrightarrow> \<not> IsLoopback net a \<and> \<not> IsIpPrivate net a"

section \<open>Filters\<close>

type_synonym 'ip whitelist = "(gostring \<times> ('ip \<times> u8)) list"

definition WhitelistPrefix :: "('ip, 'b) netaddr_ip_scheme \<Rightarrow> 'ip \<times> u8 \<Rightarrow> 'ip whitelist \<Rightarrow> 'ip whitelist" where
  "WhitelistPrefix net p f =
     (case map_of f (Prefix_String net p) of
        Some _ \<Rightarrow> f
      | None \<Rightarrow> AList.update (Prefix_String net p) p f)"

definition WhitelistIP :: "('ip, 'b) netaddr_ip_scheme \<Rightarrow> 'ip \<Rightarrow> 'ip whitelist \<Rightarrow> 'ip whitelist" where
  "WhitelistIP net a f = WhitelistPrefix net (a, if Is6 net a then 128 else 32) f"

definition whitelisted :: "('ip, 'b) netaddr_ip_scheme \<Rightarrow> 'ip whitelist \<Rightarrow> 'ip \<Rightarrow> bool" where
  "whitelisted net f a \<longleftrightarrow> list_ex (\<lambda>(_, prefix). Prefix_Contains net prefix a) f"

text \<open>\<^verbatim>\<open>connectionFilter.ShouldBeSkipped\<close>: the answer and the whitelist after the call.\<close>

definition connection_ShouldBeSkipped ::
  "('ip, 'b) netaddr_ip_scheme \<Rightarrow> 'ip \<Rightarrow> 'ip \<Rightarrow> 'ip whitelist \<Rightarrow> bool \<times> 'ip whitelist" where
  "connection_ShouldBeSkipped net dst actualDst f =
     (if IsLinkLocalUnicast net dst then (True, f)
      else if IsIpPrivate net dst \<or> IsLoopback net dst then (False, f)
      else if whitelisted net f dst then (False, f)
      else if IsIpPrivate net actualDst \<or> IsLoopback net actualDst then (False, WhitelistIP net dst f)
      else if whitelisted net f actualDst then (False, WhitelistIP net dst f)
      else (True, f))"

text \<open>\<^verbatim>\<open>portFilter\<close>, which may be nil.\<close>

definition port_ShouldBeSkipped :: "(u16 \<times> u16) option \<Rightarrow> u16 \<Rightarrow> bool" where
  "port_ShouldBeSkipped f port = (case f of None \<Rightarrow> False | Some (from', to) \<Rightarrow> port \<ge> from' \<and> port \<le> to)"

definition http_ShouldBeSkipped :: "(gostring \<Rightarrow> bool) list \<Rightarrow> gostring \<Rightarrow> bool" where
  "http_ShouldBeSkipped globs path = list_ex (\<lambda>match. match path) globs"

section \<open>Names of destinations\<close>

record 'ip HostPort =
  hp_host :: gostring
  hp_ip :: 'ip
  hp_port :: u16

definition HostPortFromIPPort :: "'ip ipport \<Rightarrow> 'ip HostPort" where
  "HostPortFromIPPort a = \<lparr>hp_host = [], hp_ip = fst a, hp_port = snd a\<rparr>"

definition HostPortWithEmptyIP :: "('ip, 'b) netaddr_ip_scheme \<Rightarrow> gostring \<Rightarrow> u16 \<Rightarrow> 'ip HostPort" where
  "HostPortWithEmptyIP net host port = \<lparr>hp_host = host, hp_ip = ZeroIP net, hp_port = port\<rparr>"

definition HostPort_Host :: "('ip, 'b) netaddr_ip_scheme \<Rightarrow> 'ip HostPort \<Rightarrow> gostring" where
  "HostPort_Host net hp = (if hp_ip hp \<noteq> ZeroIP net then IP_String net (hp_ip hp) else hp_host hp)"

text \<open>\<^verbatim>\<open>net.JoinHostPort\<close> puts brackets around a host with a colon.\<close>

definition JoinHostPort :: "gostring \<Rightarrow> gostring \<Rightarrow> gostring" where
  "JoinHostPort host port =
     (if 58 \<in> set host then ascii ''['' @ host @ ascii '']:'' @ port else host @ ascii '':'' @ port)"

definition HostPort_String :: "('ip, 'b) netaddr_ip_scheme \<Rightarrow> 'ip HostPort \<Rightarrow> gostring" where
  "HostPort_String net hp =
     (if hp_port hp = 0 then []
      else JoinHostPort (HostPort_Host net hp) (strconv_Itoa (uint (hp_port hp))))"

record 'ip DestinationKey =
  dk_destination :: "'ip HostPort"
  dk_actualDestination :: "'ip HostPort"

definition ActualDestinationIfKnown :: "'ip DestinationKey \<Rightarrow> 'ip HostPort" where
  "ActualDestinationIfKnown dk =
     (if hp_port (dk_actualDestination dk) \<noteq> 0 then dk_actualDestination dk else dk_destination dk)"

record Domain =
  FQDN :: gostring
  SpecifyIP :: bool

definition NewDomain :: "('ip, 'b) netaddr_ip_scheme \<Rightarrow> gostring \<Rightarrow> 'ip list \<Rightarrow> Domain" where
  "NewDomain net fqdn addrs =
     \<lparr>FQDN = fqdn, SpecifyIP = \<not> (length addrs > 1 \<and> \<not> list_ex (\<lambda>a. \<not> IsIpExternal net a) addrs)\<rparr>"

definition zero_HostPort :: "('ip, 'b) netaddr_ip_scheme \<Rightarrow> 'ip HostPort" where
  "zero_HostPort net = \<lparr>hp_host = [], hp_ip = ZeroIP net, hp_port = 0\<rparr>"

definition NewDestinationKey ::
  "('ip, 'b) netaddr_ip_scheme \<Rightarrow> 'ip ipport \<Rightarrow> 'ip ipport \<Rightarrow> Domain option \<Rightarrow> 'ip DestinationKey" where
  "NewDestinationKey net dst actualDst domain =
     (case domain of
        Some d \<Rightarrow>
          if IsIpExternal net (fst actualDst) \<and> \<not> SpecifyIP d
          then \<lparr>dk_destination = HostPortWithEmptyIP net (FQDN d) (snd dst), dk_actualDestination = zero_HostPort net\<rparr>
          else \<lparr>dk_destination = HostPortFromIPPort dst, dk_actualDestination = HostPortFromIPPort actualDst\<rparr>
      | None \<Rightarrow> \<lparr>dk_destination = HostPortFromIPPort dst, dk_actualDestination = HostPortFromIPPort actualDst\<rparr>)"

text \<open>
  \<^verbatim>\<open>NormalizeFQDN\<close>. The loop of the source goes over runes; the dot and the four names are ASCII, so
  that going over bytes finds the same labels. \<open>i\<close> is the index in the name, \<open>buf\<close> the label so far.
\<close>

definition top_level_names :: "gostring list" where
  "top_level_names = [ascii ''com'', ascii ''net'', ascii ''org'', ascii ''io'']"

fun normalize_labels :: "gostring \<Rightarrow> nat \<Rightarrow> gostring \<Rightarrow> nat \<Rightarrow> u8 list \<Rightarrow> gostring" where
  "normalize_labels fqdn i buf partsCount [] = fqdn"
| "normalize_labels fqdn i buf partsCount (r # rs) =
     (if r \<noteq> 46 then normalize_labels fqdn (Suc i) (buf @ [r]) partsCount rs
      else if partsCount > 0 \<and> length fqdn > i \<and> buf \<in> set top_level_names
      then take i fqdn @ ascii ''.search_path_suffix''
      else normalize_labels fqdn (Suc i) [] (Suc partsCount) rs)"

definition NormalizeFQDN :: "gostring \<Rightarrow> gostring \<Rightarrow> gostring" where
  "NormalizeFQDN fqdn requestType =
     (if requestType = ascii ''TypePTR'' then ascii ''IP.in-addr.arpa''
      else
        (let ec2 = (if bytes_HasPrefix fqdn (ascii ''ip-'')
                    then (case bytes_Index fqdn (ascii ''.'') of
                            Some idx \<Rightarrow>
                              if idx > 0 \<and> bytes_HasPrefix (drop (idx + 1) fqdn) (ascii ''ec2'')
                              then Some (ascii ''IP.ec2'' @ drop (idx + 4) fqdn) else None
                          | None \<Rightarrow> None)
                    else None) in
         case ec2 of Some s \<Rightarrow> s | None \<Rightarrow> normalize_labels fqdn 0 [] 0 fqdn))"

section \<open>What the filter keeps\<close>

text \<open>
  What \<^verbatim>\<open>netaddr\<close> documents of prefixes: the prefix of an address with all its bits has the
  address, except for the zero value and for an address with a zone, which match no prefix; and
  the text of a prefix determines its addresses.
\<close>

definition prefixes_ok :: "('ip, 'b) netaddr_ip_scheme \<Rightarrow> bool" where
  "prefixes_ok net \<longleftrightarrow>
     (\<forall>a. a \<noteq> ZeroIP net \<and> Zone net a = [] \<longrightarrow> Prefix_Contains net (a, if Is6 net a then 128 else 32) a) \<and>
     (\<forall>p a. a = ZeroIP net \<or> Zone net a \<noteq> [] \<longrightarrow> \<not> Prefix_Contains net p a) \<and>
     (\<forall>p q a. Prefix_String net p = Prefix_String net q \<longrightarrow> Prefix_Contains net p a = Prefix_Contains net q a)"

text \<open>The whitelist has each prefix under its text.\<close>

definition whitelist_wf :: "('ip, 'b) netaddr_ip_scheme \<Rightarrow> 'ip whitelist \<Rightarrow> bool" where
  "whitelist_wf net f \<longleftrightarrow> (\<forall>(s, p)\<in>set f. s = Prefix_String net p)"

lemma whitelist_wf_add: "whitelist_wf net f \<Longrightarrow> whitelist_wf net (WhitelistPrefix net p f)"
  using set_alist_update [of "Prefix_String net p" p f]
  by (auto simp: whitelist_wf_def WhitelistPrefix_def split: option.splits)

lemma alist_update_absent: "map_of m k = None \<Longrightarrow> AList.update k v m = m @ [(k, v)]"
  by (induction m) auto

lemma whitelisted_keeps: "whitelisted net f a \<Longrightarrow> whitelisted net (WhitelistPrefix net p f) a"
proof (cases "map_of f (Prefix_String net p)")
  case None
  then show "whitelisted net f a \<Longrightarrow> ?thesis" by (simp add: WhitelistPrefix_def whitelisted_def alist_update_absent)
qed (simp add: WhitelistPrefix_def)

lemma whitelisted_ip:
  assumes "prefixes_ok net" and "whitelist_wf net f" and "a \<noteq> ZeroIP net" and "Zone net a = []"
  shows "whitelisted net (WhitelistIP net a f) a"
proof -
  let ?p = "(a, if Is6 net a then 128 else 32) :: 'a \<times> u8"
  have has: "Prefix_Contains net ?p a" using assms(1,3,4) unfolding prefixes_ok_def by blast
  show ?thesis
  proof (cases "map_of f (Prefix_String net ?p)")
    case None
    then show ?thesis using has by (simp add: WhitelistIP_def WhitelistPrefix_def whitelisted_def alist_update_absent)
  next
    case (Some q)
    then have "(Prefix_String net ?p, q) \<in> set f" by (rule map_of_SomeD)
    moreover from this have "Prefix_String net q = Prefix_String net ?p"
      using assms(2) by (auto simp: whitelist_wf_def)
    then have "Prefix_Contains net q a" using assms(1) has unfolding prefixes_ok_def by blast
    ultimately show ?thesis
      using Some by (auto simp: WhitelistIP_def WhitelistPrefix_def whitelisted_def list_ex_iff)
  qed
qed

text \<open>Calls of the filter, one after the other.\<close>

fun filter_calls :: "('ip, 'b) netaddr_ip_scheme \<Rightarrow> ('ip \<times> 'ip) list \<Rightarrow> 'ip whitelist \<Rightarrow> 'ip whitelist" where
  "filter_calls net [] f = f"
| "filter_calls net ((dst, actualDst) # xs) f = filter_calls net xs (snd (connection_ShouldBeSkipped net dst actualDst f))"

lemma filter_call_keeps:
  assumes "whitelist_wf net f"
  shows "whitelist_wf net (snd (connection_ShouldBeSkipped net dst actualDst f))"
    and "whitelisted net f a \<Longrightarrow> whitelisted net (snd (connection_ShouldBeSkipped net dst actualDst f)) a"
  using assms by (simp_all add: connection_ShouldBeSkipped_def WhitelistIP_def whitelist_wf_add whitelisted_keeps)

lemma filter_calls_keep:
  "whitelist_wf net f \<Longrightarrow> whitelisted net f a \<Longrightarrow> whitelisted net (filter_calls net xs f) a"
  by (induction net xs f rule: filter_calls.induct) (simp_all add: filter_call_keeps)

text \<open>
  C23. A destination whose connections were of interest once stays of interest, whatever other
  connections are filtered later and wherever its own connections are translated to: the counters
  of a destination do not miss some of its connections. The destination is an address proper,
  not the zero value, and has no zone, as every address made of the 16 bytes of a kernel event.
\<close>

theorem destination_stays_accepted:
  assumes "prefixes_ok net" and "whitelist_wf net f"
    and "dst \<noteq> ZeroIP net" and "Zone net dst = []"
    and "connection_ShouldBeSkipped net dst actualDst f = (False, f')"
  shows "\<not> fst (connection_ShouldBeSkipped net dst otherDst (filter_calls net xs f'))"
proof -
  have "\<not> IsLinkLocalUnicast net dst" using assms(5) by (auto simp: connection_ShouldBeSkipped_def)
  moreover have "IsIpPrivate net dst \<or> IsLoopback net dst \<or> whitelisted net f' dst"
    using assms(5) whitelisted_ip [OF assms(1-4)] by (auto simp: connection_ShouldBeSkipped_def split: if_splits)
  moreover have "whitelist_wf net f'" using filter_call_keeps(1) [OF assms(2), of dst actualDst] assms(5) by simp
  ultimately show ?thesis
    using filter_calls_keep [of net f' dst xs] by (auto simp: connection_ShouldBeSkipped_def)
qed

text \<open>A model of \<^verbatim>\<open>netaddr\<close> with IPv4 addresses only, as four bytes.\<close>

definition v4_netaddr :: "u8 list netaddr_ip" where
  "v4_netaddr =
     \<lparr>FromStdIP = drop 12, ZeroIP = [], IsLoopback = (\<lambda>a. take 1 a = [127]),
      IsPrivate = (\<lambda>a. take 1 a = [10] \<or> take 2 a = [192, 168] \<or> take 1 a = [172] \<and> a ! 1 AND 0xf0 = 16),
      IsLinkLocalUnicast = (\<lambda>a. take 2 a = [169, 254]), IsUnspecified = (\<lambda>a. a = [0, 0, 0, 0]),
      Is4 = (\<lambda>a. length a = 4), Is6 = (\<lambda>a. False), As4 = (\<lambda>a. a), Zone = (\<lambda>a. []),
      IP_String = (\<lambda>a. go_join 46 (map (\<lambda>b. strconv_FormatUint (unat b)) a)),
      Prefix_Contains = (\<lambda>(a, n) b. b \<noteq> [] \<and> n = 32 \<and> a = b), Prefix_String = (\<lambda>(a, n). n # a)\<rparr>"

theorem destination_stays_accepted_witness:
  "let f = snd (connection_ShouldBeSkipped v4_netaddr [8, 8, 8, 8] [10, 0, 0, 1] []) in
   \<not> fst (connection_ShouldBeSkipped v4_netaddr [8, 8, 8, 8] [9, 9, 9, 9] (filter_calls v4_netaddr [([1, 1, 1, 1], [2, 2, 2, 2])] f))"
proof -
  let ?first = "connection_ShouldBeSkipped v4_netaddr [8, 8, 8, 8] [10, 0, 0, 1] []"
  have lib: "prefixes_ok v4_netaddr" by (auto simp: prefixes_ok_def v4_netaddr_def)
  have wf: "whitelist_wf v4_netaddr []" by (simp add: whitelist_wf_def)
  have ip: "[8, 8, 8, 8] \<noteq> ZeroIP v4_netaddr" "Zone v4_netaddr [8, 8, 8, 8] = []"
    by (simp_all add: v4_netaddr_def)
  have "?first = (False, snd ?first)"
    by (simp add: connection_ShouldBeSkipped_def IsIpPrivate_def whitelisted_def v4_netaddr_def)
  then show ?thesis
    unfolding Let_def by (rule destination_stays_accepted [OF lib wf ip])
qed

end
