(* ===== verification/Text_Parsers.thy ===== *)
theory Text_Parsers
  imports Go_Lib
begin

unbundle bit_operations_syntax

text \<open>
  The decoders of \<^verbatim>\<open>ebpftracer/l7\<close> that keep no state: \<^verbatim>\<open>http.go\<close>, \<^verbatim>\<open>redis.go\<close>, \<^verbatim>\<open>memcached.go\<close>,
  \<^verbatim>\<open>zookeeper.go\<close>, \<^verbatim>\<open>mongo.go\<close>, \<^verbatim>\<open>clickhouse.go\<close>, \<^verbatim>\<open>dns.go\<close>, and the names of \<^verbatim>\<open>l7.go\<close>. They turn the first
  kilobyte of a request into what is shown of it. The packages for BSON, for the protocol of
  ClickHouse and for DNS messages are parameters.
\<close>

section \<open>Names of protocols, methods and statuses\<close>

definition Protocol_String :: "u8 \<Rightarrow> gostring" where
  "Protocol_String p =
     (if p = 1 then ascii ''HTTP'' else if p = 2 then ascii ''Postgres'' else if p = 3 then ascii ''Redis''
      else if p = 4 then ascii ''Memcached'' else if p = 5 then ascii ''Mysql'' else if p = 6 then ascii ''Mongo''
      else if p = 7 then ascii ''Kafka'' else if p = 8 then ascii ''Cassandra'' else if p = 9 then ascii ''Rabbitmq''
      else if p = 10 then ascii ''NATS'' else if p = 11 then ascii ''HTTP2'' else if p = 12 then ascii ''Dubbo2''
      else if p = 13 then ascii ''DNS'' else if p = 14 then ascii ''ClickHouse'' else if p = 15 then ascii ''Zookeeper''
      else if p = 16 then ascii ''FoundationDB''
      else ascii ''UNKNOWN:'' @ strconv_Itoa (uint p))"

definition Method_String :: "u8 \<Rightarrow> gostring" where
  "Method_String m =
     (if m = 0 then ascii ''unknown'' else if m = 1 then ascii ''produce'' else if m = 2 then ascii ''consume''
      else if m = 3 then ascii ''statement_prepare'' else if m = 4 then ascii ''statement_close''
      else if m = 5 then ascii ''http2_client_frames'' else if m = 6 then ascii ''http2_server_frames''
      else ascii ''UNKNOWN:'' @ strconv_Itoa (uint m))"

definition Status_String :: "int \<Rightarrow> gostring" where
  "Status_String s =
     (if s = 0 then ascii ''unknown'' else if s = 200 then ascii ''ok'' else if s = 500 then ascii ''failed''
      else strconv_Itoa s)"

definition Status_Http :: "int \<Rightarrow> gostring" where
  "Status_Http s =
     (if 100 \<le> s \<and> s < 200 then ascii ''1xx'' else if 200 \<le> s \<and> s < 300 then ascii ''2xx''
      else if 300 \<le> s \<and> s < 400 then ascii ''3xx'' else if 400 \<le> s \<and> s < 500 then ascii ''4xx''
      else if 500 \<le> s \<and> s < 600 then ascii ''5xx'' else ascii ''unknown'')"

definition Status_DNS :: "int \<Rightarrow> gostring" where
  "Status_DNS s =
     (if s = 0 then ascii ''ok'' else if s = 1 then ascii ''format_error'' else if s = 2 then ascii ''servfail''
      else if s = 3 then ascii ''nxdomain'' else if s = 4 then ascii ''not_implemented''
      else if s = 5 then ascii ''refused'' else [])"

definition Status_Zookeeper :: "int \<Rightarrow> gostring" where
  "Status_Zookeeper s =
     (if s \<le> -1 \<and> -9 \<le> s then ascii ''failed'' else if s = -123 then ascii ''failed'' else ascii ''ok'')"

definition Status_GRPC :: "int \<Rightarrow> gostring" where
  "Status_GRPC s =
     (if s = 0 then ascii ''grpc:OK'' else if s = 1 then ascii ''grpc:CANCELLED''
      else if s = 2 then ascii ''grpc:UNKNOWN'' else if s = 3 then ascii ''grpc:INVALID_ARGUMENT''
      else if s = 4 then ascii ''grpc:DEADLINE_EXCEEDED'' else if s = 5 then ascii ''grpc:NOT_FOUND''
      else if s = 6 then ascii ''grpc:ALREADY_EXISTS'' else if s = 7 then ascii ''grpc:PERMISSION_DENIED''
      else if s = 8 then ascii ''grpc:RESOURCE_EXHAUSTED'' else if s = 9 then ascii ''grpc:FAILED_PRECONDITION''
      else if s = 10 then ascii ''grpc:ABORTED'' else if s = 11 then ascii ''grpc:OUT_OF_RANGE''
      else if s = 12 then ascii ''grpc:UNIMPLEMENTED'' else if s = 13 then ascii ''grpc:INTERNAL''
      else if s = 14 then ascii ''grpc:UNAVAILABLE'' else if s = 15 then ascii ''grpc:DATA_LOSS''
      else if s = 16 then ascii ''grpc:UNAUTHENTICATED'' else [])"

definition Status_Error :: "int \<Rightarrow> bool" where
  "Status_Error s \<longleftrightarrow> s = 500"

section \<open>HTTP\<close>

definition go_space :: "u8 list" where "go_space = [32]"
definition go_crlf :: "u8 list" where "go_crlf = [13, 10]"

definition isHttpMethod :: "gostring \<Rightarrow> bool" where
  "isHttpMethod s \<longleftrightarrow> s \<in> set [ascii ''GET'', ascii ''HEAD'', ascii ''POST'', ascii ''PUT'', ascii ''PATCH'',
     ascii ''DELETE'', ascii ''CONNECT'', ascii ''OPTIONS'', ascii ''TRACE'']"

definition ParseHttp :: "u8 list \<Rightarrow> gostring \<times> gostring" where
  "ParseHttp payload =
     (let (method, rest, ok) = bytes_Cut payload go_space in
      if \<not> ok then ([], [])
      else if \<not> isHttpMethod method then ([], [])
      else
        (let (uri, _, ok) = bytes_Cut rest go_space;
             uri = (if ok then uri else uri @ ascii ''...'') in
         (method, uri)))"

section \<open>Redis\<close>

definition redis_readString :: "u8 list \<Rightarrow> gostring \<times> u8 list" where
  "redis_readString rest =
     (let (v, rest, ok) = bytes_Cut rest go_crlf in
      if \<not> ok \<or> \<not> bytes_HasPrefix v (ascii ''$'') then ([], rest)
      else
        (let (v, rest, ok) = bytes_Cut rest go_crlf in
         if ok then (v, rest) else ([], rest)))"

definition ParseRedis :: "u8 list \<Rightarrow> gostring \<times> gostring" where
  "ParseRedis payload =
     (let (v, rest, ok) = bytes_Cut payload go_crlf in
      if \<not> ok \<or> \<not> bytes_HasPrefix v (ascii ''*'') then ([], [])
      else
        (case strconv_ParseUint (tl v) 32 of
           None \<Rightarrow> ([], [])
         | Some arrayLen \<Rightarrow>
             (let (cmd, rest) = redis_readString rest in
              if cmd = [] then (cmd, [])
              else if arrayLen > 1 then
                (let (args, rest) = redis_readString rest in
                 (cmd, if arrayLen > 2 then args @ ascii '' ...'' else args))
              else (cmd, []))))"

section \<open>Memcached\<close>

definition ParseMemcached :: "u8 list \<Rightarrow> gostring \<times> gostring list" where
  "ParseMemcached payload =
     (let (command, rest, ok) = bytes_Cut payload go_space in
      if \<not> ok then ([], [])
      else if command \<in> set [ascii ''set'', ascii ''add'', ascii ''cas'', ascii ''append'', ascii ''prepend'',
          ascii ''replace'', ascii ''delete'', ascii ''incr'', ascii ''decr'', ascii ''touch''] then
        (let (key, _, ok) = bytes_Cut rest go_space in
         if ok then (command, [key]) else ([], []))
      else if command \<in> set [ascii ''gat'', ascii ''gats''] then
        (let (_, rest, ok) = bytes_Cut rest go_space in
         if ok then
           (let (keys, _, ok) = bytes_Cut rest go_crlf in
            if ok then (command, strings_Split keys 32) else ([], []))
         else ([], []))
      else if command \<in> set [ascii ''get'', ascii ''gets''] then
        (let (keys, _, ok) = bytes_Cut rest go_crlf in
         if ok then (command, strings_Split keys 32) else ([], []))
      else ([], []))"

section \<open>ZooKeeper\<close>

definition zkReadString :: "u8 list \<Rightarrow> gostring" where
  "zkReadString r =
     (case binary_Read 4 r of
        None \<Rightarrow> []
      | Some (b, r) \<Rightarrow>
          (let l = unat (be_word b :: u32) in
           if l > 1024 then []
           else if r = [] then []
           else
             (let n = min l (length r); res = take n r in
              if n < l then res @ ascii ''...<TRUNCATED>'' else res)))"

text \<open>The operations whose first argument is a path.\<close>

definition zk_path_ops :: "(int \<times> gostring) list" where
  "zk_path_ops =
     [(1, ascii ''create''), (2, ascii ''delete''), (3, ascii ''exists''), (6, ascii ''getAcl''), (7, ascii ''setAcl''),
      (8, ascii ''getChildren''), (9, ascii ''sync''), (12, ascii ''getChildren2''), (13, ascii ''check''),
      (19, ascii ''createContainer''), (21, ascii ''createTTL''), (4, ascii ''getData''), (5, ascii ''setData'')]"

text \<open>The operations reported without an argument.\<close>

definition zk_plain_ops :: "(int \<times> gostring) list" where
  "zk_plain_ops =
     [(11, ascii ''ping''), (16, ascii ''reconfig''), (-11, ascii ''close''), (100, ascii ''setAuth''),
      (101, ascii ''setWatches'')]"

abbreviation (input) zkOpMulti :: int where "zkOpMulti \<equiv> 14"

function zkParse :: "u8 list \<Rightarrow> int \<Rightarrow> gostring \<times> gostring" where
  "zkParse r opCode =
     (case map_of zk_path_ops opCode of
        Some op \<Rightarrow> (op, zkReadString r)
      | None \<Rightarrow>
          (case map_of zk_plain_ops opCode of
             Some op \<Rightarrow> (op, [])
           | None \<Rightarrow>
               if opCode = zkOpMulti then
                 (case binary_Read 9 r of
                    None \<Rightarrow> ([], [])
                  | Some (h, r) \<Rightarrow>
                      (let (op, arg) = zkParse r (sint (be_word (field_at 0 4 h) :: s32)) in
                       (ascii ''multi('' @ op @ ascii '', ...)'', arg)))
               else ([], [])))"
  by pat_completeness auto
termination
  by (relation "measure (\<lambda>(r, op). length r)") (auto simp: binary_Read_def split: if_splits)

declare zkParse.simps [simp del]

definition ParseZookeeper :: "u8 list \<Rightarrow> gostring \<times> gostring" where
  "ParseZookeeper payload =
     (case binary_Read 12 payload of
        None \<Rightarrow> ([], [])
      | Some (h, r) \<Rightarrow> zkParse r (sint (be_word (field_at 8 4 h) :: s32)))"

section \<open>Mongo\<close>

definition ParseMongo :: "(u8 list \<Rightarrow> gostring) \<Rightarrow> u8 list \<Rightarrow> gostring" where
  "ParseMongo bson_Raw_String payload =
     (let res = ascii ''<truncated>'' in
      if length payload < 20 + 1 + 4 then res
      else if (le_word (field_at 12 4 payload) :: u32) \<noteq> 2013 then res
      else if payload ! 20 \<noteq> 0 then res
      else
        (let sectionData = drop 21 payload;
             sectionLength = (le_word (field_at 0 4 sectionData) :: u32) in
         if sectionLength < 1 \<or> unat sectionLength > length sectionData then res
         else bson_Raw_String sectionData))"

section \<open>DNS\<close>

text \<open>An answer by the type of its header and the type of its body.\<close>

datatype dns_type = TypeA | TypeAAAA | OtherType
datatype dns_body = AResource "u8 list" | AAAAResource "u8 list" | OtherResource

record dns_message =
  Questions :: "(gostring \<times> gostring) list"
  Answers :: "(dns_type \<times> dns_body) list"

record 'addr dns_lib =
  dns_Unpack :: "u8 list \<Rightarrow> dns_message option"
  IPFrom4 :: "u8 list \<Rightarrow> 'addr"
  IPFrom16 :: "u8 list \<Rightarrow> 'addr"

fun dns_answer_ip :: "('addr, 'b) dns_lib_scheme \<Rightarrow> dns_type \<times> dns_body \<Rightarrow> 'addr list" where
  "dns_answer_ip lib (TypeA, AResource a) = [IPFrom4 lib a]"
| "dns_answer_ip lib (TypeAAAA, AAAAResource a) = [IPFrom16 lib a]"
| "dns_answer_ip lib _ = []"

definition strings_TrimSuffix :: "gostring \<Rightarrow> gostring \<Rightarrow> gostring" where
  "strings_TrimSuffix s suf =
     (if drop (length s - length suf) s = suf then take (length s - length suf) s else s)"

definition ParseDns :: "('addr, 'b) dns_lib_scheme \<Rightarrow> u8 list \<Rightarrow> gostring \<times> gostring \<times> 'addr list" where
  "ParseDns lib payload =
     (case dns_Unpack lib payload of
        None \<Rightarrow> ([], [], [])
      | Some msg \<Rightarrow>
          (case Questions msg of
             [] \<Rightarrow> ([], [], [])
           | (t, name) # _ \<Rightarrow>
               (t, strings_TrimSuffix name (ascii ''.''), concat (map (dns_answer_ip lib) (Answers msg)))))"

section \<open>ClickHouse\<close>

text \<open>
  The reader of the package \<^verbatim>\<open>ch-go/proto\<close> over the bytes left. \<open>ch_ClientInfo\<close> is
  \<^verbatim>\<open>DecodeAware\<close> for the given version and gives the version of the protocol; \<open>ch_Setting\<close> gives the key of a
  setting; each fails with \<open>None\<close>. A setting takes at least a byte. \<open>ch_Read\<close> returns what one call of
  \<^verbatim>\<open>Read\<close> yields for a buffer of the given size, also when it ends with an error.
\<close>

record ch_reader =
  ch_Byte :: "u8 list \<Rightarrow> u8 list option"
  ch_Str :: "u8 list \<Rightarrow> u8 list option"
  ch_ClientInfo :: "int \<Rightarrow> u8 list \<Rightarrow> (int \<times> u8 list) option"
  ch_Setting :: "u8 list \<Rightarrow> (gostring \<times> u8 list) option"
  ch_UVarInt :: "u8 list \<Rightarrow> (u64 \<times> u8 list) option"
  ch_StrLen :: "u8 list \<Rightarrow> (int \<times> u8 list) option"
  ch_Read :: "nat \<Rightarrow> u8 list \<Rightarrow> u8 list"

text \<open>The loop over the settings, with the number of rounds left; a payload has at most 1024 bytes.\<close>

fun ch_skip_settings :: "('b) ch_reader_scheme \<Rightarrow> nat \<Rightarrow> u8 list \<Rightarrow> u8 list option" where
  "ch_skip_settings lib 0 r = None"
| "ch_skip_settings lib (Suc n) r =
     (case ch_Setting lib r of
        None \<Rightarrow> None
      | Some (k, r) \<Rightarrow> if k = [] then Some r else ch_skip_settings lib n r)"

definition ch_query :: "('b) ch_reader_scheme \<Rightarrow> int \<Rightarrow> u8 list \<Rightarrow> gostring go" where
  "ch_query lib l r =
     (if l < 0 then Panic
      else
        (let query = ch_Read lib (nat (min l 1024)) r; n = length query; query = bytes_TrimSpace query in
         if query = [] then Ret []
         else Ret (if int n < l then take (length query - 1) query @ ascii ''...<TRUNCATED>'' else query)))"

definition ParseClickhouse :: "('b) ch_reader_scheme \<Rightarrow> int \<Rightarrow> u8 list \<Rightarrow> gostring go" where
  "ParseClickhouse lib version payload =
     (case ch_Byte lib payload of None \<Rightarrow> Ret [] | Some r \<Rightarrow>
      case ch_Str lib r of None \<Rightarrow> Ret [] | Some r \<Rightarrow>
      case ch_ClientInfo lib version r of None \<Rightarrow> Ret [] | Some (protocolVersion, r) \<Rightarrow>
      if protocolVersion > 0 \<and> protocolVersion > version then Ret []
      else case ch_skip_settings lib (Suc (length r)) r of None \<Rightarrow> Ret [] | Some r \<Rightarrow>
      case ch_Str lib r of None \<Rightarrow> Ret [] | Some r \<Rightarrow>
      case ch_UVarInt lib r of None \<Rightarrow> Ret [] | Some (stage, r) \<Rightarrow>
      if stage > 2 then Ret []
      else case ch_UVarInt lib r of None \<Rightarrow> Ret [] | Some (c, r) \<Rightarrow>
      if c > 1 then Ret []
      else case ch_StrLen lib r of None \<Rightarrow> Ret [] | Some (l, r) \<Rightarrow>
      ch_query lib l r)"

text \<open>The rounds are enough: when every setting takes a byte, more of them change nothing.\<close>

lemma ch_skip_settings_enough:
  assumes "\<And>r k r'. ch_Setting lib r = Some (k, r') \<Longrightarrow> length r' < length r" and "length r < n" and "length r < m"
  shows "ch_skip_settings lib n r = ch_skip_settings lib m r"
  using assms(2,3)
proof (induction n arbitrary: r m)
  case (Suc n)
  then obtain m' where m: "m = Suc m'" by (cases m) auto
  show ?case
  proof (cases "ch_Setting lib r")
    case (Some x)
    obtain k r' where x: "x = (k, r')" by fastforce
    then have "length r' < n" "length r' < m'" using assms(1) [of r k r'] Some Suc.prems m by auto
    then show ?thesis using Suc.IH [of r' m'] Some x m by simp
  qed (simp add: m)
qed simp

section \<open>Round trips\<close>

text \<open>A request line of HTTP, complete or cut off within its target.\<close>

lemma http_method_no_space: "isHttpMethod m \<Longrightarrow> 32 \<notin> set m"
  by (auto simp: isHttpMethod_def ascii_def)

lemma ParseHttp_line:
  assumes "isHttpMethod m" and "32 \<notin> set uri"
  shows "ParseHttp (m @ 32 # uri @ 32 # rest) = (m, uri)"
    and "ParseHttp (m @ 32 # uri) = (m, uri @ ascii ''...'')"
  using assms http_method_no_space [OF assms(1)]
  by (simp_all add: ParseHttp_def go_space_def go_simps)

text \<open>A command of Redis as an array of strings.\<close>

definition redis_bulk :: "gostring \<Rightarrow> u8 list" where
  "redis_bulk a = ascii ''$'' @ strconv_FormatUint (length a) @ go_crlf @ a @ go_crlf"

definition redis_command :: "gostring list \<Rightarrow> u8 list" where
  "redis_command args = ascii ''*'' @ strconv_FormatUint (length args) @ go_crlf @ concat (map redis_bulk args)"

lemma cut_crlf: "13 \<notin> set x \<Longrightarrow> bytes_Cut (x @ go_crlf @ y) go_crlf = (x, y, True)"
  by (simp add: go_crlf_def go_simps)

lemma tagged_number: "c \<noteq> 13 \<Longrightarrow> 13 \<notin> set (c # strconv_FormatUint n)"
  using FormatUint_no_sep [of 13 n] by (simp add: is_digit_def)

lemma redis_readString_bulk: "13 \<notin> set a \<Longrightarrow> redis_readString (redis_bulk a @ rest) = (a, rest)"
  using cut_crlf [OF tagged_number [of "36" "length a"], of "a @ go_crlf @ rest"] cut_crlf [of a rest]
  by (simp add: redis_readString_def redis_bulk_def ascii_def go_simps)

lemma ParseRedis_command:
  assumes "cmd \<noteq> []" and "13 \<notin> set cmd" and "\<forall>a\<in>set args. 13 \<notin> set a" and "length args < 2 ^ 32 - 1"
  shows "ParseRedis (redis_command (cmd # args) @ rest) =
    (cmd, case args of [] \<Rightarrow> [] | [a] \<Rightarrow> a | a # _ \<Rightarrow> a @ ascii '' ...'')"
proof -
  let ?r = "concat (map redis_bulk args) @ rest"
  have "ParseRedis (redis_command (cmd # args) @ rest) =
      (if Suc (length args) > 1
       then (cmd, if Suc (length args) > 2 then fst (redis_readString ?r) @ ascii '' ...'' else fst (redis_readString ?r))
       else (cmd, []))"
    using cut_crlf [OF tagged_number [of "42" "Suc (length args)"], of "redis_bulk cmd @ ?r"] assms
    by (simp add: ParseRedis_def redis_command_def ascii_def go_simps redis_readString_bulk split: prod.split)
  then show ?thesis
    using assms(3) by (cases args) (auto simp: redis_readString_bulk split: list.split)
qed

text \<open>Commands of Memcached with one key, and retrievals with several.\<close>

lemma ParseMemcached_commands:
  assumes "\<forall>k\<in>set ks. 32 \<notin> set k \<and> 13 \<notin> set k" and "ks \<noteq> []" and "32 \<notin> set key" and "32 \<notin> set exptime"
  shows "cmd \<in> set [ascii ''set'', ascii ''add'', ascii ''cas'', ascii ''append'', ascii ''prepend'',
      ascii ''replace'', ascii ''delete'', ascii ''incr'', ascii ''decr'', ascii ''touch''] \<Longrightarrow>
    ParseMemcached (cmd @ 32 # key @ 32 # rest) = (cmd, [key])"
    and "cmd \<in> set [ascii ''get'', ascii ''gets''] \<Longrightarrow>
    ParseMemcached (cmd @ 32 # go_join 32 ks @ go_crlf @ rest) = (cmd, ks)"
    and "cmd \<in> set [ascii ''gat'', ascii ''gats''] \<Longrightarrow>
    ParseMemcached (cmd @ 32 # exptime @ 32 # go_join 32 ks @ go_crlf @ rest) = (cmd, ks)"
proof -
  have join: "13 \<notin> set (go_join 32 ks)"
    using assms(1) by (induction "32 :: u8" ks rule: go_join.induct) auto
  have split: "strings_Split (go_join 32 ks) 32 = ks"
    using assms(1,2) by (intro strings_Split_join) auto
  show "ParseMemcached (cmd @ 32 # key @ 32 # rest) = (cmd, [key])"
    if "cmd \<in> set [ascii ''set'', ascii ''add'', ascii ''cas'', ascii ''append'', ascii ''prepend'',
      ascii ''replace'', ascii ''delete'', ascii ''incr'', ascii ''decr'', ascii ''touch'']"
  proof -
    have "32 \<notin> set cmd" using that by (auto simp: ascii_def)
    then show ?thesis using that assms(3) by (simp add: ParseMemcached_def go_space_def go_simps)
  qed
  show "ParseMemcached (cmd @ 32 # go_join 32 ks @ go_crlf @ rest) = (cmd, ks)"
    if "cmd \<in> set [ascii ''get'', ascii ''gets'']"
  proof -
    have "32 \<notin> set cmd" using that by (auto simp: ascii_def)
    then show ?thesis
      using that cut_crlf [OF join] split
      by (auto simp: ParseMemcached_def go_space_def go_simps ascii_def)
  qed
  show "ParseMemcached (cmd @ 32 # exptime @ 32 # go_join 32 ks @ go_crlf @ rest) = (cmd, ks)"
    if "cmd \<in> set [ascii ''gat'', ascii ''gats'']"
  proof -
    have "32 \<notin> set cmd" using that by (auto simp: ascii_def)
    then show ?thesis
      using that cut_crlf [OF join] split assms(4)
      by (auto simp: ParseMemcached_def go_space_def go_simps ascii_def)
  qed
qed

text \<open>Requests of ZooKeeper: on a path, without arguments, or several in one, of which the first is shown.\<close>

datatype zk_op = ZkPath int gostring | ZkPlain int | ZkMulti u8 "u8 list" zk_op

fun zk_code :: "zk_op \<Rightarrow> int" where
  "zk_code (ZkPath i p) = i"
| "zk_code (ZkPlain i) = i"
| "zk_code (ZkMulti d err op) = zkOpMulti"

fun zk_body :: "zk_op \<Rightarrow> u8 list" where
  "zk_body (ZkPath i p) = be_bytes 4 (of_nat (length p) :: u32) @ p"
| "zk_body (ZkPlain i) = []"
| "zk_body (ZkMulti d err op) = be_bytes 4 (word_of_int (zk_code op) :: u32) @ d # err @ zk_body op"

fun zk_valid :: "zk_op \<Rightarrow> bool" where
  "zk_valid (ZkPath i p) \<longleftrightarrow> i \<in> fst ` set zk_path_ops \<and> length p \<le> 1024"
| "zk_valid (ZkPlain i) \<longleftrightarrow> i \<in> fst ` set zk_plain_ops"
| "zk_valid (ZkMulti d err op) \<longleftrightarrow> length err = 4 \<and> zk_valid op"

fun zk_shown :: "zk_op \<Rightarrow> gostring \<times> gostring" where
  "zk_shown (ZkPath i p) = (the (map_of zk_path_ops i), p)"
| "zk_shown (ZkPlain i) = (the (map_of zk_plain_ops i), [])"
| "zk_shown (ZkMulti d err op) = (ascii ''multi('' @ fst (zk_shown op) @ ascii '', ...)'', snd (zk_shown op))"

definition zk_request :: "u8 list \<Rightarrow> u8 list \<Rightarrow> zk_op \<Rightarrow> u8 list" where
  "zk_request len xid op = len @ xid @ be_bytes 4 (word_of_int (zk_code op) :: u32) @ zk_body op"

lemma zk_code_range: "zk_valid op \<Longrightarrow> - (2 ^ 31) \<le> zk_code op \<and> zk_code op < 2 ^ 31"
  by (cases op) (auto simp: zk_path_ops_def zk_plain_ops_def)

lemma zk_code_read:
  assumes "zk_valid op"
  shows "sint (be_word (be_bytes 4 (word_of_int (zk_code op) :: u32)) :: s32) = zk_code op"
  using zk_code_range [OF assms] by (simp add: sint_sbintrunc' signed_take_bit_int_eq_self)

lemma zkReadString_path: "length p \<le> 1024 \<Longrightarrow> zkReadString (be_bytes 4 (of_nat (length p) :: u32) @ p @ rest) = p"
  by (auto simp: zkReadString_def go_simps unat_of_nat Let_def)

lemma zkParse_body: "zk_valid op \<Longrightarrow> zkParse (zk_body op @ rest) (zk_code op) = zk_shown op"
proof (induction op)
  case (ZkPath i p)
  then obtain name where "map_of zk_path_ops i = Some name"
    using map_of_eq_None_iff [of zk_path_ops i] by fastforce
  then show ?case using ZkPath by (subst zkParse.simps) (simp add: zkReadString_path)
next
  case (ZkPlain i)
  then have "map_of zk_path_ops i = None \<and> map_of zk_plain_ops i \<noteq> None"
    by (auto simp: zk_path_ops_def zk_plain_ops_def)
  then show ?case by (subst zkParse.simps) auto
next
  case (ZkMulti d err op)
  have "map_of zk_path_ops zkOpMulti = None" "map_of zk_plain_ops zkOpMulti = None"
    by (simp_all add: zk_path_ops_def zk_plain_ops_def)
  moreover have "binary_Read 9 (zk_body (ZkMulti d err op) @ rest) =
      Some (be_bytes 4 (word_of_int (zk_code op) :: u32) @ d # err, zk_body op @ rest)"
    using ZkMulti.prems binary_Read_append [of "be_bytes 4 (word_of_int (zk_code op) :: u32) @ d # err" 9 "zk_body op @ rest"]
    by simp
  ultimately show ?case
    using ZkMulti zk_code_read [of op]
    by (subst zkParse.simps) (simp add: field_at_here split: prod.split)
qed

lemma ParseZookeeper_request:
  assumes "zk_valid op" and "length len = 4" and "length xid = 4"
  shows "ParseZookeeper (zk_request len xid op @ rest) = zk_shown op"
proof -
  let ?h = "len @ xid @ be_bytes 4 (word_of_int (zk_code op) :: u32)"
  have "binary_Read 12 (zk_request len xid op @ rest) = Some (?h, zk_body op @ rest)"
    using assms(2,3) binary_Read_append [of ?h 12 "zk_body op @ rest"] by (simp add: zk_request_def)
  moreover have "field_at 8 4 ?h = be_bytes 4 (word_of_int (zk_code op) :: u32)"
    using assms(2,3) by (simp add: field_at_def)
  ultimately show ?thesis
    using zkParse_body [OF assms(1)] zk_code_read [OF assms(1)] by (simp add: ParseZookeeper_def)
qed

text \<open>
  C22. What the decoders of text protocols show of a request is what the client sent. An HTTP
  request line gives its method and target, with dots when the payload ends within the target.
  A Redis command, sent as an array of strings without carriage returns, gives its name and first
  argument, with dots when there are more. A Memcached command gives its name and its key or
  keys: for a store, \<^verbatim>\<open>delete\<close>, \<^verbatim>\<open>incr\<close>, \<^verbatim>\<open>decr\<close> or \<^verbatim>\<open>touch\<close> the key, where a further argument
  follows it; for \<^verbatim>\<open>get\<close> and \<^verbatim>\<open>gets\<close> all keys of the line; for \<^verbatim>\<open>gat\<close> and \<^verbatim>\<open>gats\<close> all keys after the
  expiration time. Whatever follows the request in the payload has no influence.
\<close>

theorem requests_shown:
  assumes "isHttpMethod m" and "32 \<notin> set uri"
    and "cmd \<noteq> []" and "13 \<notin> set cmd" and "\<forall>a\<in>set args. 13 \<notin> set a" and "length args < 2 ^ 32 - 1"
    and "\<forall>k\<in>set ks. 32 \<notin> set k \<and> 13 \<notin> set k" and "ks \<noteq> []" and "32 \<notin> set key" and "32 \<notin> set exptime"
    and "store \<in> set [ascii ''set'', ascii ''add'', ascii ''cas'', ascii ''append'', ascii ''prepend'',
      ascii ''replace'', ascii ''delete'', ascii ''incr'', ascii ''decr'', ascii ''touch'']"
    and "get \<in> set [ascii ''get'', ascii ''gets'']" and "gat \<in> set [ascii ''gat'', ascii ''gats'']"
  shows "ParseHttp (m @ 32 # uri @ 32 # rest) = (m, uri) \<and>
    ParseHttp (m @ 32 # uri) = (m, uri @ ascii ''...'') \<and>
    ParseRedis (redis_command (cmd # args) @ rest) =
      (cmd, case args of [] \<Rightarrow> [] | [a] \<Rightarrow> a | a # _ \<Rightarrow> a @ ascii '' ...'') \<and>
    ParseMemcached (store @ 32 # key @ 32 # rest) = (store, [key]) \<and>
    ParseMemcached (get @ 32 # go_join 32 ks @ go_crlf @ rest) = (get, ks) \<and>
    ParseMemcached (gat @ 32 # exptime @ 32 # go_join 32 ks @ go_crlf @ rest) = (gat, ks)"
  using ParseHttp_line [OF assms(1,2)] ParseRedis_command [OF assms(3-6), of rest]
    ParseMemcached_commands [OF assms(7-10), of _ rest] assms(11-13) by blast

theorem requests_shown_witness:
  "ParseHttp (ascii ''HEAD /1 HTTP/1.1'') = (ascii ''HEAD'', ascii ''/1'') \<and>
   ParseRedis (redis_command [ascii ''LLEN'', ascii ''mylist'', ascii ''xy'']) = (ascii ''LLEN'', ascii ''mylist ...'') \<and>
   ParseMemcached (ascii ''incr k 5'' @ [13, 10]) = (ascii ''incr'', [ascii ''k'']) \<and>
   ParseMemcached (ascii ''gets 1111 2222'' @ [13, 10]) = (ascii ''gets'', [ascii ''1111'', ascii ''2222'']) \<and>
   ParseMemcached (ascii ''gat 60 1111 2222'' @ [13, 10]) = (ascii ''gat'', [ascii ''1111'', ascii ''2222''])"
proof -
  let ?ks = "[ascii ''1111'', ascii ''2222'']"
  note shown = requests_shown [of "ascii ''HEAD''" "ascii ''/1''" "ascii ''LLEN''" "[ascii ''mylist'', ascii ''xy'']"
      ?ks "ascii ''k''" "ascii ''60''" "ascii ''incr''" "ascii ''gets''" "ascii ''gat''"]
  have "ParseHttp (ascii ''HEAD'' @ 32 # ascii ''/1'' @ 32 # ascii ''HTTP/1.1'') = (ascii ''HEAD'', ascii ''/1'')"
    using shown [of "ascii ''HTTP/1.1''"] by (simp add: isHttpMethod_def ascii_def)
  moreover have "ParseMemcached (ascii ''incr'' @ 32 # ascii ''k'' @ 32 # (ascii ''5'' @ [13, 10])) =
      (ascii ''incr'', [ascii ''k''])"
    using shown [of "ascii ''5'' @ [13, 10]"] by (simp add: isHttpMethod_def ascii_def)
  moreover have "ParseRedis (redis_command [ascii ''LLEN'', ascii ''mylist'', ascii ''xy''] @ []) =
      (ascii ''LLEN'', ascii ''mylist'' @ ascii '' ...'') \<and>
    ParseMemcached (ascii ''gets'' @ 32 # go_join 32 ?ks @ go_crlf @ []) = (ascii ''gets'', ?ks) \<and>
    ParseMemcached (ascii ''gat'' @ 32 # ascii ''60'' @ 32 # go_join 32 ?ks @ go_crlf @ []) = (ascii ''gat'', ?ks)"
    using shown [of "[]"] by (simp add: isHttpMethod_def ascii_def)
  ultimately show ?thesis
    by (simp add: ascii_def go_crlf_def)
qed

text \<open>
  A \<^verbatim>\<open>delete\<close> with nothing after its key, the usual form, has no second space: the decoder finds
  neither the command nor the key.
\<close>

lemma delete_not_shown:
  assumes "32 \<notin> set key"
  shows "ParseMemcached (ascii ''delete'' @ 32 # key @ go_crlf) = ([], [])"
proof -
  have "32 \<notin> set (ascii ''delete'')" by (simp add: ascii_def)
  moreover have "bytes_Cut (key @ go_crlf) go_space = (key @ go_crlf, [], False)"
    using assms by (simp add: go_space_def go_crlf_def go_simps)
  ultimately show ?thesis by (simp add: ParseMemcached_def go_space_def go_simps)
qed

text \<open>
  The third payload of \<^verbatim>\<open>TestParseZookeeper\<close> in \<^verbatim>\<open>l7_test.go\<close> has the name \<^verbatim>\<open>coroot_3kuq8b3z\<close> in its path, where the
  test expects \<^verbatim>\<open>codexray_3kuq8b3z\<close>: the expected strings were renamed and the bytes were not.
\<close>

lemma zookeeper_test_payload:
  "ParseZookeeper
     ([0x0, 0x0, 0x0, 0x53, 0x0, 0xce, 0x16, 0x90, 0x0, 0x0, 0x0, 0x4, 0x0, 0x0, 0x0, 0x46, 0x2f, 0x63, 0x6c, 0x69, 0x63,
       0x6b, 0x68, 0x6f, 0x75, 0x73, 0x65, 0x2f, 0x74, 0x61, 0x62, 0x6c, 0x65, 0x73, 0x2f, 0x73, 0x68, 0x61, 0x72, 0x64,
       0x2d, 0x31, 0x2f, 0x63, 0x6f, 0x72, 0x6f, 0x6f, 0x74, 0x5f, 0x33, 0x6b, 0x75, 0x71, 0x38, 0x62, 0x33, 0x7a, 0x2f,
       0x6f, 0x74, 0x65, 0x6c, 0x5f, 0x74]) =
   (ascii ''getData'', ascii ''/clickhouse/tables/shard-1/coroot_3kuq8b3z/otel_t...<TRUNCATED>'')"
  by code_simp

end
