(* ===== verification/Spans.thy ===== *)
theory Spans
  imports Destinations Text_Parsers
begin

text \<open>
  \<^verbatim>\<open>tracing/tracing.go\<close>: the spans made of observed requests. A span has a name, a beginning and an
  end, a mark for errors and attributes; the functions that make attributes belong to the package
  \<^verbatim>\<open>semconv\<close> and are constructors here. The spans handed over are kept in order, with the number of
  random numbers that the sampling has drawn.
\<close>

datatype attribute =
  NetPeerName gostring | NetPeerPort int | HTTPURL gostring | HTTPMethod gostring | HTTPStatusCode int |
  RPCGRPCStatusCode int | DBSystem gostring | DBStatement gostring | DBOperation gostring |
  MemcacheDBItem gostring | MemcacheDBItems "gostring list" | ZookeeperStatusCode int

record span =
  sp_name :: gostring
  sp_start :: int
  sp_end :: int
  sp_error :: bool
  sp_attrs :: "attribute list"

record span_log =
  sl_draws :: nat
  sl_spans :: "span list"

text \<open>Finite floating-point numbers of 64 bits are multiples of the smallest one; only their order matters here.\<close>

type_synonym float64 = int

definition float64_one :: float64 where "float64_one = 2 ^ 1074"

text \<open>Whether a collector is configured, the sampling rate, the numbers \<^verbatim>\<open>rand.Float64\<close> gives, and the time of the call.\<close>

record span_env =
  se_otel :: bool
  se_samplingRate :: float64
  se_Float64 :: "nat \<Rightarrow> float64"
  se_now :: int

record 'ip Trace =
  tr_destination :: "'ip HostPort"
  tr_commonAttrs :: "attribute list"

definition NewTrace :: "('ip, 'b) netaddr_ip_scheme \<Rightarrow> 'ip HostPort \<Rightarrow> 'ip Trace" where
  "NewTrace net destination =
     \<lparr>tr_destination = destination,
      tr_commonAttrs = [NetPeerName (HostPort_Host net destination), NetPeerPort (uint (hp_port destination))]\<rparr>"

definition shouldSample :: "span_env \<Rightarrow> span_log \<Rightarrow> bool \<times> span_log" where
  "shouldSample env log =
     (if se_samplingRate env \<ge> float64_one then (True, log)
      else if se_samplingRate env \<le> 0 then (False, log)
      else (se_Float64 env (sl_draws log) < se_samplingRate env, log\<lparr>sl_draws := Suc (sl_draws log)\<rparr>))"

definition createSpan ::
  "span_env \<Rightarrow> 'ip Trace \<Rightarrow> gostring \<Rightarrow> s64 \<Rightarrow> bool \<Rightarrow> attribute list \<Rightarrow> span_log \<Rightarrow> span_log" where
  "createSpan env t name duration err attrs log =
     (if \<not> se_otel env then log
      else
        (let end' = se_now env; (sampled, log) = shouldSample env log in
         if \<not> sampled then log
         else
           (let start = end' + sint (- duration) in
            log\<lparr>sl_spans := sl_spans log @
              [\<lparr>sp_name = name, sp_start = start, sp_end = end', sp_error = err, sp_attrs = attrs @ tr_commonAttrs t\<rparr>]\<rparr>)))"

section \<open>One function per protocol\<close>

text \<open>The trace is nil when traces are disabled.\<close>

definition HttpRequest ::
  "('ip, 'b) netaddr_ip_scheme \<Rightarrow> span_env \<Rightarrow> 'ip Trace option \<Rightarrow> gostring \<Rightarrow> gostring \<Rightarrow> int \<Rightarrow> s64 \<Rightarrow> span_log \<Rightarrow> span_log" where
  "HttpRequest net env t meth path status duration log =
     (case t of
        None \<Rightarrow> log
      | Some t \<Rightarrow>
          if meth = [] then log
          else createSpan env t meth duration (status \<ge> 400)
            [HTTPURL (ascii ''http://'' @ HostPort_String net (tr_destination t) @ path), HTTPMethod meth, HTTPStatusCode status] log)"

definition Http2Request_span ::
  "('ip, 'b) netaddr_ip_scheme \<Rightarrow> span_env \<Rightarrow> 'ip Trace option \<Rightarrow> gostring \<Rightarrow> gostring \<Rightarrow> gostring \<Rightarrow> int \<Rightarrow> int \<Rightarrow> s64 \<Rightarrow>
   span_log \<Rightarrow> span_log" where
  "Http2Request_span net env t meth path scheme status grpcStatus duration log =
     (case t of
        None \<Rightarrow> log
      | Some t \<Rightarrow>
          (let meth = (if meth = [] then ascii ''unknown'' else meth);
               path = (if path = [] then ascii ''/unknown'' else path);
               scheme = (if scheme = [] then ascii ''unknown'' else scheme);
               attrs = [HTTPURL (scheme @ ascii ''://'' @ HostPort_String net (tr_destination t) @ path),
                        HTTPMethod meth, HTTPStatusCode status];
               attrs = (if grpcStatus \<ge> 0 then attrs @ [RPCGRPCStatusCode grpcStatus] else attrs) in
           createSpan env t meth duration (status > 400 \<or> grpcStatus > 0) attrs log))"

text \<open>\<^verbatim>\<open>PostgresQuery\<close>, \<^verbatim>\<open>MysqlQuery\<close> and \<^verbatim>\<open>MongoQuery\<close> differ in the name of the system only.\<close>

definition db_query ::
  "gostring \<Rightarrow> span_env \<Rightarrow> 'ip Trace option \<Rightarrow> gostring \<Rightarrow> bool \<Rightarrow> s64 \<Rightarrow> span_log \<Rightarrow> span_log" where
  "db_query system env t query err duration log =
     (case t of
        None \<Rightarrow> log
      | Some t \<Rightarrow>
          if query = [] then log
          else createSpan env t (ascii ''query'') duration err [DBSystem system, DBStatement query] log)"

definition PostgresQuery :: "span_env \<Rightarrow> 'ip Trace option \<Rightarrow> gostring \<Rightarrow> bool \<Rightarrow> s64 \<Rightarrow> span_log \<Rightarrow> span_log" where
  "PostgresQuery = db_query (ascii ''postgresql'')"

definition MysqlQuery :: "span_env \<Rightarrow> 'ip Trace option \<Rightarrow> gostring \<Rightarrow> bool \<Rightarrow> s64 \<Rightarrow> span_log \<Rightarrow> span_log" where
  "MysqlQuery = db_query (ascii ''mysql'')"

definition MongoQuery :: "span_env \<Rightarrow> 'ip Trace option \<Rightarrow> gostring \<Rightarrow> bool \<Rightarrow> s64 \<Rightarrow> span_log \<Rightarrow> span_log" where
  "MongoQuery = db_query (ascii ''mongodb'')"

definition MemcachedQuery ::
  "span_env \<Rightarrow> 'ip Trace option \<Rightarrow> gostring \<Rightarrow> gostring list \<Rightarrow> bool \<Rightarrow> s64 \<Rightarrow> span_log \<Rightarrow> span_log" where
  "MemcachedQuery env t cmd items err duration log =
     (case t of
        None \<Rightarrow> log
      | Some t \<Rightarrow>
          if cmd = [] then log
          else
            (let attrs = [DBSystem (ascii ''memcached''), DBOperation cmd];
                 attrs = (case items of
                            [] \<Rightarrow> attrs
                          | [item] \<Rightarrow> attrs @ [MemcacheDBItem item]
                          | _ \<Rightarrow> attrs @ [MemcacheDBItems items]) in
             createSpan env t cmd duration err attrs log))"

definition statement_text :: "gostring \<Rightarrow> gostring \<Rightarrow> gostring" where
  "statement_text cmd args = (if args \<noteq> [] then cmd @ ascii '' '' @ args else cmd)"

definition RedisQuery ::
  "span_env \<Rightarrow> 'ip Trace option \<Rightarrow> gostring \<Rightarrow> gostring \<Rightarrow> bool \<Rightarrow> s64 \<Rightarrow> span_log \<Rightarrow> span_log" where
  "RedisQuery env t cmd args err duration log =
     (case t of
        None \<Rightarrow> log
      | Some t \<Rightarrow>
          if cmd = [] then log
          else createSpan env t cmd duration err
            [DBSystem (ascii ''redis''), DBOperation cmd, DBStatement (statement_text cmd args)] log)"

definition ClickhouseQuery :: "span_env \<Rightarrow> 'ip Trace option \<Rightarrow> gostring \<Rightarrow> bool \<Rightarrow> s64 \<Rightarrow> span_log \<Rightarrow> span_log" where
  "ClickhouseQuery env t query err duration log =
     (case t of
        None \<Rightarrow> log
      | Some t \<Rightarrow> createSpan env t (ascii ''query'') duration err [DBSystem (ascii ''clickhouse''), DBStatement query] log)"

definition ZookeeperRequest ::
  "span_env \<Rightarrow> 'ip Trace option \<Rightarrow> gostring \<Rightarrow> gostring \<Rightarrow> int \<Rightarrow> s64 \<Rightarrow> span_log \<Rightarrow> span_log" where
  "ZookeeperRequest env t op args status duration log =
     (case t of
        None \<Rightarrow> log
      | Some t \<Rightarrow>
          if op = [] then log
          else createSpan env t op duration (Status_Zookeeper status \<noteq> ascii ''ok'')
            [DBSystem (ascii ''zookeeper''), DBOperation op, DBStatement (statement_text op args),
             ZookeeperStatusCode status] log)"

section \<open>Errors\<close>

text \<open>
  The status 400 is an error in a span of HTTP/1 and none in a span of HTTP/2.
\<close>

lemma bad_request_marked:
  assumes "se_otel env" and "float64_one \<le> se_samplingRate env" and "meth \<noteq> []" and "path \<noteq> []" and "scheme \<noteq> []"
  shows "map sp_error (sl_spans (HttpRequest net env (Some t) meth path 400 d \<lparr>sl_draws = 0, sl_spans = []\<rparr>)) = [True]"
    and "map sp_error (sl_spans (Http2Request_span net env (Some t) meth path scheme 400 (-1) d \<lparr>sl_draws = 0, sl_spans = []\<rparr>)) =
      [False]"
  using assms
  by (simp_all add: HttpRequest_def Http2Request_span_def createSpan_def shouldSample_def Let_def)

end
