(* ===== verification/Sql_Parsers.thy ===== *)
theory Sql_Parsers
  imports Go_Lib
begin

unbundle bit_operations_syntax

text \<open>
  \<^verbatim>\<open>ebpftracer/l7/postgres.go\<close> and \<^verbatim>\<open>ebpftracer/l7/mysql.go\<close>: the texts of SQL statements from the payloads
  of requests. A parser belongs to a connection and remembers the prepared statements, so that
  the execution of one is reported with the text it was prepared with. What a client relies on is
  the locale \<open>statement_parser\<close>; both parsers provide it.
\<close>

section \<open>The parsers\<close>

type_synonym prepared = "gostring \<rightharpoonup> gostring"

abbreviation (input) PostgresFrameQuery :: u8 where "PostgresFrameQuery \<equiv> 0x51"
abbreviation (input) PostgresFrameBind :: u8 where "PostgresFrameBind \<equiv> 0x42"
abbreviation (input) PostgresFrameParse :: u8 where "PostgresFrameParse \<equiv> 0x50"
abbreviation (input) PostgresFrameClose :: u8 where "PostgresFrameClose \<equiv> 0x43"

definition unknown_statement :: "gostring \<Rightarrow> gostring" where
  "unknown_statement name = ascii ''EXECUTE '' @ name @ ascii '' /* unknown */''"

definition PostgresParser_Parse :: "prepared \<Rightarrow> u8 list \<Rightarrow> (gostring \<times> prepared) go" where
  "PostgresParser_Parse p payload =
     (let l = length payload in
      if l < 5 then Ret ([], p)
      else go_bind (go_index payload 0) (\<lambda>cmd.
        if cmd = PostgresFrameQuery then
          go_bind (go_from payload 5) (\<lambda>b.
            let (q, _, ok) = bytes_Cut b [0] in
            Ret (if ok then q else q @ ascii ''...'', p))
        else if cmd = PostgresFrameBind then
          go_bind (go_from payload 5) (\<lambda>b.
            let (_, rest, ok) = bytes_Cut b [0] in
            if \<not> ok then Ret ([], p)
            else
              (let (name, _, ok) = bytes_Cut rest [0] in
               if \<not> ok then Ret ([], p)
               else Ret (case p name of Some statement \<Rightarrow> statement | None \<Rightarrow> unknown_statement name, p)))
        else if cmd = PostgresFrameParse then
          go_bind (go_from payload 5) (\<lambda>b.
            let (name, rest, ok) = bytes_Cut b [0] in
            if \<not> ok then Ret ([], p)
            else
              (let (q, _, ok) = bytes_Cut rest [0];
                   query = (if ok then q else q @ ascii ''...'') in
               Ret (ascii ''PREPARE '' @ name @ ascii '' AS '' @ query, p(name \<mapsto> query))))
        else if cmd = PostgresFrameClose then
          (if l < 7 then Ret ([], p)
           else go_bind (go_index payload 5) (\<lambda>c.
             if c \<noteq> 0x53 then Ret ([], p)
             else go_bind (go_from payload 6) (\<lambda>b.
               let (name, _, ok) = bytes_Cut b [0] in
               if \<not> ok then Ret ([], p) else Ret ([], p(name := None)))))
        else Ret ([], p)))"

abbreviation (input) MysqlComQuery :: u8 where "MysqlComQuery \<equiv> 3"
abbreviation (input) MysqlComStmtPrepare :: u8 where "MysqlComStmtPrepare \<equiv> 0x16"
abbreviation (input) MysqlComStmtExecute :: u8 where "MysqlComStmtExecute \<equiv> 0x17"
abbreviation (input) MysqlComStmtClose :: u8 where "MysqlComStmtClose \<equiv> 0x19"
abbreviation (input) mysqlMsgHeaderSize :: nat where "mysqlMsgHeaderSize \<equiv> 4"

text \<open>The length in the header of a packet: three bytes, the low one first.\<close>

definition mysql_msg_size :: "u8 list \<Rightarrow> nat" where
  "mysql_msg_size payload = unat (payload ! 0) + unat (payload ! 1) * 2 ^ 8 + unat (payload ! 2) * 2 ^ 16"

definition mysql_readQuery :: "u8 list \<Rightarrow> gostring go" where
  "mysql_readQuery payload =
     (let payloadSize = length payload; to = mysqlMsgHeaderSize + mysql_msg_size payload; partial = payloadSize < to;
          to = (if partial then payloadSize else to) in
      go_bind (go_slice payload [] (mysqlMsgHeaderSize + 1) to) (\<lambda>query.
        Ret (if partial then query @ ascii ''...'' else query)))"

definition mysql_readStatementId :: "u8 list \<Rightarrow> gostring" where
  "mysql_readStatementId payload =
     strconv_FormatUint (unat (le_word (field_at (mysqlMsgHeaderSize + 1) 4 payload) :: u32))"

definition MysqlParser_Parse :: "prepared \<Rightarrow> u8 list \<Rightarrow> u32 \<Rightarrow> (gostring \<times> prepared) go" where
  "MysqlParser_Parse p payload statementId =
     (let payloadSize = length payload in
      if payloadSize < mysqlMsgHeaderSize + 5 then Ret ([], p)
      else
        (let cmd = payload ! 4 in
         if cmd = MysqlComQuery then go_bind (mysql_readQuery payload) (\<lambda>query. Ret (query, p))
         else if cmd = MysqlComStmtExecute then
           (let statementIdStr = mysql_readStatementId payload in
            Ret (case p statementIdStr of
                   Some statement \<Rightarrow> statement
                 | None \<Rightarrow> unknown_statement statementIdStr, p))
         else if cmd = MysqlComStmtPrepare then
           go_bind (mysql_readQuery payload) (\<lambda>query.
             let statementIdStr = strconv_FormatUint (unat statementId) in
             Ret (ascii ''PREPARE '' @ statementIdStr @ ascii '' FROM '' @ query, p(statementIdStr \<mapsto> query)))
         else if cmd = MysqlComStmtClose then
           Ret ([], p(mysql_readStatementId payload := None))
         else Ret ([], p)))"

section \<open>Sessions\<close>

text \<open>
  What happens on a connection, and what should be reported of it: a query with its text, the
  execution of a statement with the text it was last prepared with, if it was and was not closed.
\<close>

datatype 'k action = Query gostring | Prepare 'k gostring | Execute 'k | Close 'k

fun action_text :: "('k \<Rightarrow> gostring \<Rightarrow> gostring) \<Rightarrow> ('k \<Rightarrow> gostring) \<Rightarrow> ('k \<rightharpoonup> gostring) \<Rightarrow> 'k action \<Rightarrow> gostring" where
  "action_text prep unknown st (Query q) = q"
| "action_text prep unknown st (Prepare k q) = prep k q"
| "action_text prep unknown st (Execute k) = (case st k of Some q \<Rightarrow> q | None \<Rightarrow> unknown k)"
| "action_text prep unknown st (Close k) = []"

fun action_effect :: "('k \<rightharpoonup> gostring) \<Rightarrow> 'k action \<Rightarrow> ('k \<rightharpoonup> gostring)" where
  "action_effect st (Prepare k q) = st(k \<mapsto> q)"
| "action_effect st (Close k) = st(k := None)"
| "action_effect st _ = st"

fun session :: "('k \<Rightarrow> gostring \<Rightarrow> gostring) \<Rightarrow> ('k \<Rightarrow> gostring) \<Rightarrow> ('k \<rightharpoonup> gostring) \<Rightarrow> 'k action list \<Rightarrow> gostring list" where
  "session prep unknown st [] = []"
| "session prep unknown st (a # as) =
     action_text prep unknown st a # session prep unknown (action_effect st a) as"

text \<open>A parser over a sequence of messages.\<close>

fun parse_all :: "('st \<Rightarrow> 'm \<Rightarrow> (gostring \<times> 'st) go) \<Rightarrow> 'st \<Rightarrow> 'm list \<Rightarrow> gostring list go" where
  "parse_all parse p [] = Ret []"
| "parse_all parse p (m # ms) =
     go_bind (parse p m) (\<lambda>(text, p). go_bind (parse_all parse p ms) (\<lambda>texts. Ret (text # texts)))"

text \<open>
  The contract of a parser: \<open>wire a m\<close> is that \<open>m\<close> is a message for the action, \<open>known\<close> what the
  parser remembers.
\<close>

locale statement_parser =
  fixes parse :: "'st \<Rightarrow> 'm \<Rightarrow> (gostring \<times> 'st) go"
    and wire :: "'k action \<Rightarrow> 'm \<Rightarrow> bool"
    and known :: "'st \<Rightarrow> 'k \<rightharpoonup> gostring"
    and prep :: "'k \<Rightarrow> gostring \<Rightarrow> gostring"
    and unknown :: "'k \<Rightarrow> gostring"
  assumes parse_wire: "wire a m \<Longrightarrow> \<exists>p'. parse p m = Ret (action_text prep unknown (known p) a, p') \<and>
    known p' = action_effect (known p) a"
begin

lemma session_refined:
  "list_all2 wire as ms \<Longrightarrow> parse_all parse p ms = Ret (session prep unknown (known p) as)"
proof (induction ms arbitrary: as p)
  case Nil
  then show ?case by simp
next
  case (Cons m ms)
  then obtain a as' where as: "as = a # as'" "wire a m" "list_all2 wire as' ms"
    by (auto simp: list_all2_Cons2)
  from parse_wire [OF as(2)] obtain p' where
    "parse p m = Ret (action_text prep unknown (known p) a, p')" "known p' = action_effect (known p) a"
    by blast
  then show ?case using Cons.IH [OF as(3)] as(1) by simp
qed

end

section \<open>Postgres on the wire\<close>

text \<open>
  The frames of Postgres, whose second to fifth bytes are a length the parser does not look at.
  A text may be cut off where the payload ends; then it is reported with three dots.
\<close>

fun pg_text :: "gostring \<Rightarrow> u8 list \<Rightarrow> bool" where
  "pg_text q b \<longleftrightarrow> (\<exists>rest. 0 \<notin> set q \<and> b = q @ 0 # rest) \<or> 0 \<notin> set b \<and> q = b @ ascii ''...''"

fun pg_wire :: "gostring action \<Rightarrow> u8 list \<Rightarrow> bool" where
  "pg_wire (Query q) m \<longleftrightarrow>
     (\<exists>len b. length len = 4 \<and> m = PostgresFrameQuery # len @ b \<and> pg_text q b)"
| "pg_wire (Prepare name q) m \<longleftrightarrow>
     (\<exists>len b. length len = 4 \<and> 0 \<notin> set name \<and> m = PostgresFrameParse # len @ name @ 0 # b \<and> pg_text q b)"
| "pg_wire (Execute name) m \<longleftrightarrow>
     (\<exists>len portal rest. length len = 4 \<and> 0 \<notin> set portal \<and> 0 \<notin> set name \<and>
        m = PostgresFrameBind # len @ portal @ 0 # name @ 0 # rest)"
| "pg_wire (Close name) m \<longleftrightarrow>
     (\<exists>len rest. length len = 4 \<and> 0 \<notin> set name \<and> m = PostgresFrameClose # len @ 0x53 # name @ 0 # rest)"

definition pg_prepare_text :: "gostring \<Rightarrow> gostring \<Rightarrow> gostring" where
  "pg_prepare_text name q = ascii ''PREPARE '' @ name @ ascii '' AS '' @ q"

lemma pg_text_cut:
  "pg_text q b \<Longrightarrow> \<exists>q' rest ok. bytes_Cut b [0] = (q', rest, ok) \<and> q = (if ok then q' else q' @ ascii ''...'')"
proof -
  assume "pg_text q b"
  then consider rest where "0 \<notin> set q" "b = q @ 0 # rest" | "0 \<notin> set b" "q = b @ ascii ''...''" by auto
  then show ?thesis
  proof cases
    case 1
    then have "bytes_Cut b [0] = (q, rest, True)" by (simp add: go_simps)
    then show ?thesis by (intro exI [of _ q] exI [of _ rest] exI [of _ True]) simp
  next
    case 2
    then have "bytes_Cut b [0] = (b, [], False)" by (simp add: go_simps)
    then show ?thesis using 2 by (intro exI [of _ b] exI [of _ "[]"] exI [of _ False]) simp
  qed
qed

lemma drop_5: "length len = 4 \<Longrightarrow> drop 5 (c # len @ b) = b"
  by (simp add: drop_Cons')

lemma pg_parse_wire:
  assumes "pg_wire a m"
  shows "\<exists>p'. PostgresParser_Parse p m = Ret (action_text pg_prepare_text unknown_statement p a, p') \<and>
    p' = action_effect p a"
proof (cases a)
  case (Query q)
  with assms obtain len b where m: "length len = 4" "m = PostgresFrameQuery # len @ b" "pg_text q b" by auto
  from pg_text_cut [OF m(3)] obtain q' rest ok where
    "bytes_Cut b [0] = (q', rest, ok)" "q = (if ok then q' else q' @ ascii ''...'')" by blast
  then show ?thesis using m Query by (simp add: PostgresParser_Parse_def go_simps drop_5)
next
  case (Prepare name q)
  with assms obtain len b where m: "length len = 4" "0 \<notin> set name" "m = PostgresFrameParse # len @ name @ 0 # b"
    "pg_text q b" by auto
  from pg_text_cut [OF m(4)] obtain q' rest ok where
    "bytes_Cut b [0] = (q', rest, ok)" "q = (if ok then q' else q' @ ascii ''...'')" by blast
  then show ?thesis
    using m Prepare by (simp add: PostgresParser_Parse_def go_simps drop_5 pg_prepare_text_def Let_def)
next
  case (Execute name)
  with assms show ?thesis by (auto simp: PostgresParser_Parse_def go_simps drop_5)
next
  case (Close name)
  with assms show ?thesis by (auto simp: PostgresParser_Parse_def go_simps drop_5 nth_append drop_Cons')
qed

interpretation postgres: statement_parser PostgresParser_Parse pg_wire "\<lambda>p. p" pg_prepare_text unknown_statement
  by unfold_locales (rule pg_parse_wire)

section \<open>MySQL on the wire\<close>

text \<open>
  The packets of MySQL with the number the server gave a prepared statement, which the tracer
  takes from the answer. The parser looks at packets of nine bytes or more.
\<close>

definition mysql_packet :: "nat \<Rightarrow> u8 \<Rightarrow> u8 list \<Rightarrow> u8 list" where
  "mysql_packet len cmd b = le_bytes 3 (of_nat len :: u32) @ [0, cmd] @ b"

definition mysql_text :: "gostring \<Rightarrow> nat \<Rightarrow> u8 list \<Rightarrow> bool" where
  "mysql_text q len b \<longleftrightarrow> 4 \<le> length b \<and> 0 < len \<and> len < 2 ^ 24 \<and>
     q = (if length b + 1 < len then b @ ascii ''...'' else take (len - 1) b)"

fun mysql_wire :: "u32 action \<Rightarrow> u8 list \<times> u32 \<Rightarrow> bool" where
  "mysql_wire (Query q) m \<longleftrightarrow> (\<exists>len b. fst m = mysql_packet len MysqlComQuery b \<and> mysql_text q len b)"
| "mysql_wire (Prepare k q) m \<longleftrightarrow>
     (\<exists>len b. fst m = mysql_packet len MysqlComStmtPrepare b \<and> mysql_text q len b) \<and> snd m = k"
| "mysql_wire (Execute k) m \<longleftrightarrow> (\<exists>len rest. fst m = mysql_packet len MysqlComStmtExecute (le_bytes 4 k @ rest))"
| "mysql_wire (Close k) m \<longleftrightarrow> (\<exists>len rest. fst m = mysql_packet len MysqlComStmtClose (le_bytes 4 k @ rest))"

definition mysql_known :: "prepared \<Rightarrow> u32 \<rightharpoonup> gostring" where
  "mysql_known p k = p (strconv_FormatUint (unat k))"

definition mysql_prepare_text :: "u32 \<Rightarrow> gostring \<Rightarrow> gostring" where
  "mysql_prepare_text k q = ascii ''PREPARE '' @ strconv_FormatUint (unat k) @ ascii '' FROM '' @ q"

definition mysql_unknown :: "u32 \<Rightarrow> gostring" where
  "mysql_unknown k = unknown_statement (strconv_FormatUint (unat k))"

lemma le_bytes_3: "le_bytes 3 (w :: u32) = [ucast w, ucast (drop_bit 8 w), ucast (drop_bit 16 w)]"
  by (simp add: numeral_eq_Suc drop_bit_drop_bit)

lemma mysql_packet_parts:
  "length (mysql_packet len cmd b) = 5 + length b" "mysql_packet len cmd b ! 4 = cmd"
  "drop 5 (mysql_packet len cmd b) = b"
  by (simp_all add: mysql_packet_def le_bytes_3)

lemma three_bytes_value: "n mod 256 + n div 256 mod 256 * 256 + n div 65536 * 65536 = (n :: nat)"
proof -
  have "256 * (n div 65536) + (n div 256) mod 256 = n div 256"
    using mult_div_mod_eq [of 256 "n div 256"] by (simp add: div_mult2_eq [symmetric])
  moreover have "256 * (n div 256) + n mod 256 = n" by (rule mult_div_mod_eq)
  ultimately show ?thesis by linarith
qed

lemma mysql_packet_size:
  assumes "len < 2 ^ 24"
  shows "mysql_msg_size (mysql_packet len cmd b) = len"
proof -
  have len: "unat (of_nat len :: u32) = len" using assms by (simp add: unat_of_nat)
  have "unat (ucast (drop_bit k (of_nat len :: u32)) :: u8) = (len div 2 ^ k) mod 256" for k
    using len by (simp add: unsigned_ucast_eq unat_drop_bit_eq take_bit_eq_mod) (simp add: drop_bit_eq_div)
  from this [of 0] this [of 8] this [of 16] show ?thesis
    using three_bytes_value [of len] assms
    by (simp add: mysql_msg_size_def mysql_packet_def le_bytes_3)
qed

lemma mysql_readQuery_text:
  assumes "mysql_text q len b"
  shows "mysql_readQuery (mysql_packet len cmd b) = Ret q"
  using assms mysql_packet_size [of len cmd b]
  by (auto simp: mysql_text_def mysql_readQuery_def go_slice_def mysql_packet_parts)

lemma mysql_readStatementId_packet:
  fixes k :: u32
  shows "mysql_readStatementId (mysql_packet len cmd (le_bytes 4 k @ rest)) = strconv_FormatUint (unat k)"
  by (simp add: mysql_readStatementId_def field_at_def mysql_packet_parts)

lemma mysql_known_update [simp]:
  "mysql_known (p(strconv_FormatUint (unat k) := v)) = (mysql_known p)(k := v)"
  by (auto simp: mysql_known_def fun_eq_iff word_unat_eq_iff)

lemma mysql_parse_wire:
  assumes "mysql_wire a m"
  shows "\<exists>p'. (case m of (payload, i) \<Rightarrow> MysqlParser_Parse p payload i) =
      Ret (action_text mysql_prepare_text mysql_unknown (mysql_known p) a, p') \<and>
    mysql_known p' = action_effect (mysql_known p) a"
proof -
  obtain payload i where m: "m = (payload, i)" by fastforce
  show ?thesis
  proof (cases a)
    case (Query q)
    with assms m obtain len b where "payload = mysql_packet len MysqlComQuery b" "mysql_text q len b" by auto
    moreover from this have "4 \<le> length b" by (simp add: mysql_text_def)
    ultimately show ?thesis
      using m Query by (simp add: MysqlParser_Parse_def mysql_packet_parts mysql_readQuery_text)
  next
    case (Prepare k q)
    with assms m obtain len b where "payload = mysql_packet len MysqlComStmtPrepare b" "mysql_text q len b" "i = k"
      by auto
    moreover from this have "4 \<le> length b" by (simp add: mysql_text_def)
    ultimately show ?thesis
      using m Prepare by (simp add: MysqlParser_Parse_def mysql_packet_parts mysql_readQuery_text
          mysql_prepare_text_def Let_def)
  next
    case (Execute k)
    with assms m show ?thesis
      by (auto simp: MysqlParser_Parse_def mysql_packet_parts mysql_readStatementId_packet mysql_known_def
          mysql_unknown_def Let_def split: option.split)
  next
    case (Close k)
    with assms m show ?thesis
      by (auto simp: MysqlParser_Parse_def mysql_packet_parts mysql_readStatementId_packet)
  qed
qed

interpretation mysql: statement_parser "\<lambda>p (payload, i). MysqlParser_Parse p payload i" mysql_wire mysql_known
    mysql_prepare_text mysql_unknown
  by unfold_locales (rule mysql_parse_wire)

section \<open>Panics\<close>

text \<open>The Postgres parser never panics; the one for MySQL does on a query whose header says it is empty.\<close>

lemma postgres_no_panic: "PostgresParser_Parse p payload \<noteq> Panic"
  by (cases payload) (auto simp: PostgresParser_Parse_def Let_def go_index_def go_from_def split: prod.splits)

lemma mysql_panics_iff:
  "MysqlParser_Parse p payload i = Panic \<longleftrightarrow>
     9 \<le> length payload \<and> mysql_msg_size payload = 0 \<and> payload ! 4 \<in> {MysqlComQuery, MysqlComStmtPrepare}"
proof -
  have "mysql_readQuery payload = Panic \<longleftrightarrow> mysql_msg_size payload = 0" if "9 \<le> length payload"
    using that by (auto simp: mysql_readQuery_def Let_def go_slice_def)
  then show ?thesis
    by (cases "mysql_readQuery payload") (auto simp: MysqlParser_Parse_def Let_def)
qed

section \<open>Both parsers implement the session\<close>

text \<open>
  C21. Over any sequence of queries, preparations, executions and closings on a connection the
  texts that the Postgres and the MySQL parser report are those of the abstract session: the
  execution of a statement is reported with the text it was last prepared with, and as unknown
  when it was never prepared or has been closed. Texts that the payload cuts off end in dots.
\<close>

theorem prepared_statements_refine:
  assumes "list_all2 pg_wire as ms" and "list_all2 mysql_wire bs ns"
  shows "parse_all PostgresParser_Parse p ms = Ret (session pg_prepare_text unknown_statement p as) \<and>
    parse_all (\<lambda>p (payload, i). MysqlParser_Parse p payload i) q ns =
      Ret (session mysql_prepare_text mysql_unknown (mysql_known q) bs)"
  using postgres.session_refined [OF assms(1)] mysql.session_refined [OF assms(2)] by simp

theorem prepared_statements_refine_witness:
  "parse_all PostgresParser_Parse Map.empty
     [ascii ''P'' @ [0, 0, 0, 17] @ ascii ''s1'' @ [0] @ ascii ''SELECT 1'' @ [0, 0, 0],
      ascii ''B'' @ [0, 0, 0, 12, 0] @ ascii ''s1'' @ [0, 0, 0, 0, 0],
      ascii ''C'' @ [0, 0, 0, 8] @ ascii ''S'' @ ascii ''s1'' @ [0],
      ascii ''B'' @ [0, 0, 0, 12, 0] @ ascii ''s1'' @ [0, 0, 0, 0, 0]] =
   Ret [ascii ''PREPARE s1 AS SELECT 1'', ascii ''SELECT 1'', [], ascii ''EXECUTE s1 /* unknown */''] \<and>
   parse_all (\<lambda>p (payload, i). MysqlParser_Parse p payload i) Map.empty
     [(mysql_packet 9 0x16 (ascii ''SELECT 1''), 12), (mysql_packet 5 0x17 [12, 0, 0, 0], 0),
      (mysql_packet 200 3 (ascii ''SELECT 2''), 0)] =
   Ret [ascii ''PREPARE 12 FROM SELECT 1'', ascii ''SELECT 1'', ascii ''SELECT 2...'']"
  (is "?pg \<and> ?my")
proof -
  let ?as = "[Prepare (ascii ''s1'') (ascii ''SELECT 1''), Execute (ascii ''s1''), Close (ascii ''s1''), Execute (ascii ''s1'')]"
  let ?bs = "[Prepare 12 (ascii ''SELECT 1''), Execute 12, Query (ascii ''SELECT 2...'')]"
  let ?ms = "[ascii ''P'' @ [0, 0, 0, 17] @ ascii ''s1'' @ [0] @ ascii ''SELECT 1'' @ [0, 0, 0],
      ascii ''B'' @ [0, 0, 0, 12, 0] @ ascii ''s1'' @ [0, 0, 0, 0, 0],
      ascii ''C'' @ [0, 0, 0, 8] @ ascii ''S'' @ ascii ''s1'' @ [0],
      ascii ''B'' @ [0, 0, 0, 12, 0] @ ascii ''s1'' @ [0, 0, 0, 0, 0]]"
  let ?ns = "[(mysql_packet 9 0x16 (ascii ''SELECT 1''), 12), (mysql_packet 5 0x17 [12, 0, 0, 0], 0),
      (mysql_packet 200 3 (ascii ''SELECT 2''), 0)]"
  have "pg_wire (?as ! 0) (?ms ! 0)"
    by (simp, intro exI [of _ "[0, 0, 0, 17]"] exI [of _ "ascii ''SELECT 1'' @ [0, 0, 0]"]) (simp add: ascii_def)
  moreover have "pg_wire (?as ! 1) (?ms ! 1)"
    by (simp add: ascii_def, intro exI [of _ "[0, 0, 0, 12]"], simp) (intro exI [of _ "[]"], simp)
  moreover have "pg_wire (?as ! 2) (?ms ! 2)"
    by (simp, intro exI [of _ "[0, 0, 0, 8]"] exI [of _ "[]"]) (simp add: ascii_def)
  ultimately have pg: "list_all2 pg_wire ?as ?ms" by (simp del: pg_wire.simps)
  have "le_bytes 4 (12 :: u32) = [12, 0, 0, 0]" by code_simp
  moreover have "mysql_text (ascii ''SELECT 1'') 9 (ascii ''SELECT 1'')"
      "mysql_text (ascii ''SELECT 2...'') 200 (ascii ''SELECT 2'')"
    by (simp_all add: mysql_text_def ascii_def)
  ultimately have "list_all2 mysql_wire ?bs ?ns" by auto
  with pg have "parse_all PostgresParser_Parse Map.empty ?ms =
      Ret (session pg_prepare_text unknown_statement Map.empty ?as) \<and>
    parse_all (\<lambda>p (payload, i). MysqlParser_Parse p payload i) Map.empty ?ns =
      Ret (session mysql_prepare_text mysql_unknown (mysql_known Map.empty) ?bs)"
    by (rule prepared_statements_refine)
  moreover have "session pg_prepare_text unknown_statement Map.empty ?as =
      [ascii ''PREPARE s1 AS SELECT 1'', ascii ''SELECT 1'', [], ascii ''EXECUTE s1 /* unknown */'']"
    by code_simp
  moreover have "session mysql_prepare_text mysql_unknown (mysql_known Map.empty) ?bs =
      [ascii ''PREPARE 12 FROM SELECT 1'', ascii ''SELECT 1'', ascii ''SELECT 2...'']"
    by code_simp
  ultimately show ?thesis by simp
qed

end
