(* ===== verification/Http2_Parser.thy ===== *)
theory Http2_Parser
  imports Text_Parsers
begin

unbundle bit_operations_syntax

text \<open>
  \<^verbatim>\<open>ebpftracer/l7/http2.go\<close>: the frames of an HTTP/2 connection, seen as the payloads of single
  writes and reads, are put together to requests with their answers. The parser of a connection
  keeps the two decoders of header blocks and the requests without an answer, by stream.

  The package \<^verbatim>\<open>hpack\<close> is a parameter: a decoder has a state, a call of \<^verbatim>\<open>Write\<close> gives the header
  fields it emits and whether it succeeds. The order in which Go ranges over a map is the
  parameter \<open>ord\<close>.
\<close>

section \<open>The parser\<close>

abbreviation (input) http2FrameHeaderLength :: nat where "http2FrameHeaderLength \<equiv> 9"
abbreviation (input) http2DecoderGcInterval :: u64 where "http2DecoderGcInterval \<equiv> 600000000000"
abbreviation (input) MethodHttp2ClientFrames :: u8 where "MethodHttp2ClientFrames \<equiv> 5"
abbreviation (input) MethodHttp2ServerFrames :: u8 where "MethodHttp2ServerFrames \<equiv> 6"
abbreviation (input) FrameHeaders :: u8 where "FrameHeaders \<equiv> 1"

definition ClientPreface :: "u8 list" where
  "ClientPreface = ascii ''PRI * HTTP/2.0'' @ [13, 10, 13, 10] @ ascii ''SM'' @ [13, 10, 13, 10]"

type_synonym header_field = "gostring \<times> gostring"

record 'd hpack =
  NewDecoder :: 'd
  hpack_Write :: "'d \<Rightarrow> u8 list \<Rightarrow> header_field list \<times> bool \<times> 'd"
  hpack_Close :: "'d \<Rightarrow> 'd"

record Http2FrameHeader =
  fh_Type :: u8
  fh_Flags :: u8
  fh_Length :: nat
  fh_StreamId :: u32

record Http2Request =
  h2_Method :: gostring
  h2_Path :: gostring
  h2_Scheme :: gostring
  h2_Status :: int
  h2_GrpcStatus :: int
  h2_Duration :: s64
  h2_kernelTime :: u64

record 'd Http2Parser =
  clientDecoder :: 'd
  serverDecoder :: 'd
  activeRequests :: "u32 \<rightharpoonup> Http2Request"
  lastGcTime :: u64

definition NewHttp2Parser :: "('d, 'b) hpack_scheme \<Rightarrow> 'd Http2Parser" where
  "NewHttp2Parser hp =
     \<lparr>clientDecoder = NewDecoder hp, serverDecoder = NewDecoder hp, activeRequests = Map.empty, lastGcTime = 0\<rparr>"

definition isHttpPath :: "gostring \<Rightarrow> bool" where
  "isHttpPath s \<longleftrightarrow> bytes_HasPrefix s (ascii ''/'') \<or> s = ascii ''*''"

definition isHttpScheme :: "gostring \<Rightarrow> bool" where
  "isHttpScheme s \<longleftrightarrow> s = ascii ''http'' \<or> s = ascii ''https''"

definition new_http2_request :: "u64 \<Rightarrow> Http2Request" where
  "new_http2_request kernelTime =
     \<lparr>h2_Method = [], h2_Path = [], h2_Scheme = [], h2_Status = 0, h2_GrpcStatus = 0, h2_Duration = 0,
      h2_kernelTime = kernelTime\<rparr>"

text \<open>What is called for each header field of the client and of the server.\<close>

definition client_field :: "Http2Request \<Rightarrow> header_field \<Rightarrow> Http2Request" where
  "client_field req hf =
     (if fst hf = ascii '':method'' then
        (if h2_Method req = [] \<and> isHttpMethod (snd hf) then req\<lparr>h2_Method := snd hf\<rparr> else req)
      else if fst hf = ascii '':path'' then
        (if h2_Path req = [] \<and> isHttpPath (snd hf) then req\<lparr>h2_Path := snd hf\<rparr> else req)
      else if fst hf = ascii '':scheme'' then
        (if h2_Scheme req = [] \<and> isHttpScheme (snd hf) then req\<lparr>h2_Scheme := snd hf\<rparr> else req)
      else req)"

type_synonym stream_statuses = "(u32 \<times> int) list"

definition server_field ::
  "u32 \<Rightarrow> stream_statuses \<times> stream_statuses \<Rightarrow> header_field \<Rightarrow> stream_statuses \<times> stream_statuses" where
  "server_field streamId st hf =
     (if fst hf = ascii '':status'' then (AList.update streamId (strconv_Atoi (snd hf)) (fst st), snd st)
      else if fst hf = ascii ''grpc-status'' then (fst st, AList.update streamId (strconv_Atoi (snd hf)) (snd st))
      else st)"

definition frame_header :: "u8 list \<Rightarrow> Http2FrameHeader" where
  "frame_header b =
     \<lparr>fh_Type = b ! 3, fh_Flags = b ! 4, fh_Length = unat (drop_bit 8 (be_word (field_at 0 4 b) :: u32)),
      fh_StreamId = be_word (field_at 5 4 b) AND (push_bit 31 1 - 1)\<rparr>"

text \<open>The variables of the loop: the decoder of the side, the requests, and the statuses by stream.\<close>

record 'd h2_state =
  s_decoder :: 'd
  s_requests :: "u32 \<rightharpoonup> Http2Request"
  s_statuses :: stream_statuses
  s_grpcStatuses :: stream_statuses

text \<open>A frame with headers, before and while its block is decoded.\<close>

definition open_stream :: "u8 \<Rightarrow> u64 \<Rightarrow> u32 \<Rightarrow> 'd h2_state \<Rightarrow> 'd h2_state" where
  "open_stream method kernelTime streamId s =
     (if method = MethodHttp2ClientFrames then
        (if s_requests s streamId = None
         then s\<lparr>s_requests := (s_requests s)(streamId \<mapsto> new_http2_request kernelTime)\<rparr> else s)
      else
        (if map_of (s_statuses s) streamId = None
         then s\<lparr>s_statuses := AList.update streamId 0 (s_statuses s)\<rparr> else s))"

definition emit_fields :: "u8 \<Rightarrow> u32 \<Rightarrow> header_field list \<Rightarrow> 'd h2_state \<Rightarrow> 'd h2_state" where
  "emit_fields method streamId hfs s =
     (if method = MethodHttp2ClientFrames then
        s\<lparr>s_requests := (s_requests s)(streamId :=
          map_option (\<lambda>req. foldl client_field req hfs) (s_requests s streamId))\<rparr>
      else
        (let (st, grpc) = foldl (server_field streamId) (s_statuses s, s_grpcStatuses s) hfs in
         s\<lparr>s_statuses := st, s_grpcStatuses := grpc\<rparr>))"

text \<open>
  The loop, on the bytes from the offset on. A block that cannot be decoded does not move the
  offset past it.
\<close>

function http2_frames ::
  "('d, 'b) hpack_scheme \<Rightarrow> u8 \<Rightarrow> u64 \<Rightarrow> u8 list \<Rightarrow> 'd h2_state \<Rightarrow> 'd h2_state" where
  "http2_frames hp method kernelTime b s =
     (if length b < http2FrameHeaderLength then s
      else
        (let h = frame_header b; b = drop http2FrameHeaderLength b in
         if fh_Type h \<noteq> FrameHeaders then
           (if length b < fh_Length h then s
            else http2_frames hp method kernelTime (drop (fh_Length h) b) s)
         else
           (let s = open_stream method kernelTime (fh_StreamId h) s;
                (hfs, ok, dec) = hpack_Write hp (s_decoder s) (take (fh_Length h) b);
                s = (emit_fields method (fh_StreamId h) hfs s)\<lparr>s_decoder := dec\<rparr> in
            if ok then http2_frames hp method kernelTime (drop (fh_Length h) b) s
            else http2_frames hp method kernelTime b s)))"
  by pat_completeness auto
termination
  by (relation "measure (\<lambda>(hp, method, kernelTime, b, s). length b)") auto

declare http2_frames.simps [simp del]

text \<open>The loop over the statuses: the streams with the requests they answer.\<close>

definition answered_request :: "u64 \<Rightarrow> int \<Rightarrow> int option \<Rightarrow> Http2Request \<Rightarrow> Http2Request" where
  "answered_request kernelTime status grpcStatus r =
     r\<lparr>h2_Status := status, h2_GrpcStatus := (case grpcStatus of Some g \<Rightarrow> g | None \<Rightarrow> -1),
       h2_Duration := kernelTime - h2_kernelTime r\<rparr>"

fun collect_answers ::
  "u64 \<Rightarrow> 'd h2_state \<Rightarrow> u32 list \<Rightarrow> (u32 \<rightharpoonup> Http2Request) \<Rightarrow> (u32 \<times> Http2Request) list \<times> (u32 \<rightharpoonup> Http2Request)" where
  "collect_answers kernelTime s [] active = ([], active)"
| "collect_answers kernelTime s (streamId # ids) active =
     (case active streamId of
        None \<Rightarrow> collect_answers kernelTime s ids active
      | Some r \<Rightarrow>
          (let r = answered_request kernelTime (the (map_of (s_statuses s) streamId))
                     (map_of (s_grpcStatuses s) streamId) r;
               (res, active) = collect_answers kernelTime s ids (active(streamId := None)) in
           ((streamId, r) # res, active)))"

definition http2_gc :: "u64 \<Rightarrow> 'd Http2Parser \<Rightarrow> 'd Http2Parser" where
  "http2_gc kernelTime p =
     (if kernelTime - lastGcTime p > http2DecoderGcInterval then
        (let p = (if lastGcTime p > 0
                  then p\<lparr>activeRequests := (\<lambda>streamId. case activeRequests p streamId of
                    None \<Rightarrow> None
                  | Some r \<Rightarrow> if kernelTime - h2_kernelTime r > http2DecoderGcInterval then None else Some r)\<rparr>
                  else p) in
         p\<lparr>lastGcTime := kernelTime\<rparr>)
      else p)"

text \<open>\<^verbatim>\<open>Parse\<close>, with the stream of each request it returns.\<close>

definition http2_body :: "u8 \<Rightarrow> u8 list \<Rightarrow> u8 list" where
  "http2_body method payload =
     (if method = MethodHttp2ClientFrames \<and> bytes_HasPrefix payload ClientPreface
      then drop (length ClientPreface) payload else payload)"

definition http2_parse ::
  "('d, 'b) hpack_scheme \<Rightarrow> (u32 list \<Rightarrow> u32 list) \<Rightarrow> u8 \<Rightarrow> u8 list \<Rightarrow> u64 \<Rightarrow> 'd Http2Parser \<Rightarrow>
   (u32 \<times> Http2Request) list \<times> 'd Http2Parser" where
  "http2_parse hp ord method payload kernelTime p =
     (let payload = http2_body method payload in
      if payload = [] then ([], p)
      else if method \<noteq> MethodHttp2ClientFrames \<and> method \<noteq> MethodHttp2ServerFrames then ([], p)
      else
        (let client = (method = MethodHttp2ClientFrames);
             s = http2_frames hp method kernelTime payload
               \<lparr>s_decoder = (if client then clientDecoder p else serverDecoder p), s_requests = activeRequests p,
                s_statuses = [], s_grpcStatuses = []\<rparr>;
             (res, active) = collect_answers kernelTime s (ord (map fst (s_statuses s))) (s_requests s);
             p = http2_gc kernelTime (p\<lparr>activeRequests := active\<rparr>);
             dec = hpack_Close hp (s_decoder s) in
         (res, if client then p\<lparr>clientDecoder := dec\<rparr> else p\<lparr>serverDecoder := dec\<rparr>)))"

definition Http2Parser_Parse ::
  "('d, 'b) hpack_scheme \<Rightarrow> (u32 list \<Rightarrow> u32 list) \<Rightarrow> u8 \<Rightarrow> u8 list \<Rightarrow> u64 \<Rightarrow> 'd Http2Parser \<Rightarrow>
   Http2Request list \<times> 'd Http2Parser" where
  "Http2Parser_Parse hp ord method payload kernelTime p =
     (let (res, p) = http2_parse hp ord method payload kernelTime p in (map snd res, p))"

section \<open>What the loop sees\<close>

text \<open>The blocks the loop decodes, with their streams and fields, in order.\<close>

function scan_headers ::
  "('d, 'b) hpack_scheme \<Rightarrow> 'd \<Rightarrow> u8 list \<Rightarrow> (u32 \<times> header_field list) list \<times> 'd" where
  "scan_headers hp dec b =
     (if length b < http2FrameHeaderLength then ([], dec)
      else
        (let h = frame_header b; b = drop http2FrameHeaderLength b in
         if fh_Type h \<noteq> FrameHeaders then
           (if length b < fh_Length h then ([], dec) else scan_headers hp dec (drop (fh_Length h) b))
         else
           (let (hfs, ok, dec) = hpack_Write hp dec (take (fh_Length h) b);
                (xs, dec) = scan_headers hp dec (if ok then drop (fh_Length h) b else b) in
            ((fh_StreamId h, hfs) # xs, dec))))"
  by pat_completeness auto
termination
  by (relation "measure (\<lambda>(hp, dec, b). length b)") auto

declare scan_headers.simps [simp del]

definition header_block :: "u8 \<Rightarrow> u64 \<Rightarrow> 'd h2_state \<Rightarrow> u32 \<times> header_field list \<Rightarrow> 'd h2_state" where
  "header_block method kernelTime s x =
     emit_fields method (fst x) (snd x) (open_stream method kernelTime (fst x) s)"

lemma open_stream_decoder [simp]:
  "s_decoder (open_stream m t i s) = s_decoder s"
  "open_stream m t i (s\<lparr>s_decoder := d\<rparr>) = (open_stream m t i s)\<lparr>s_decoder := d\<rparr>"
  by (simp_all add: open_stream_def)

lemma emit_fields_decoder [simp]:
  "s_decoder (emit_fields m i hfs s) = s_decoder s"
  "emit_fields m i hfs (s\<lparr>s_decoder := d\<rparr>) = (emit_fields m i hfs s)\<lparr>s_decoder := d\<rparr>"
  by (simp_all add: emit_fields_def split: prod.split)

lemma header_block_decoder:
  "foldl (header_block m t) (s\<lparr>s_decoder := d\<rparr>) xs = (foldl (header_block m t) s xs)\<lparr>s_decoder := d\<rparr>"
  by (induction xs arbitrary: s) (simp_all add: header_block_def)

lemma http2_frames_scan:
  "http2_frames hp m t b s =
     (foldl (header_block m t) s (fst (scan_headers hp (s_decoder s) b)))\<lparr>s_decoder := snd (scan_headers hp (s_decoder s) b)\<rparr>"
proof (induction hp m t b s rule: http2_frames.induct)
  case (1 hp m t b s)
  let ?h = "frame_header b" and ?b = "drop 9 b"
  show ?case
  proof (cases "length b < 9")
    case True
    then show ?thesis by (simp add: http2_frames.simps [of hp m t b] scan_headers.simps [of hp _ b])
  next
    case long: False
    show ?thesis
    proof (cases "fh_Type ?h = FrameHeaders")
      case False
      then show ?thesis
        using "1.IH"(1) [OF long refl refl False] long
        by (subst (1) http2_frames.simps, subst (1 2) scan_headers.simps) (auto simp: Let_def)
    next
      case True
      let ?s = "open_stream m t (fh_StreamId ?h) s"
      obtain hfs ok dec where w: "hpack_Write hp (s_decoder s) (take (fh_Length ?h) ?b) = (hfs, ok, dec)"
        by (cases "hpack_Write hp (s_decoder s) (take (fh_Length ?h) ?b)")
      let ?s' = "(emit_fields m (fh_StreamId ?h) hfs ?s)\<lparr>s_decoder := dec\<rparr>"
      let ?rest = "if ok then drop (fh_Length ?h) ?b else ?b"
      have step: "http2_frames hp m t b s = http2_frames hp m t ?rest ?s'"
        using long True w by (subst http2_frames.simps) (simp add: Let_def)
      have IH: "http2_frames hp m t ?rest ?s' =
          (foldl (header_block m t) ?s' (fst (scan_headers hp dec ?rest)))\<lparr>s_decoder := snd (scan_headers hp dec ?rest)\<rparr>"
      proof (cases ok)
        case True
        then show ?thesis
          using "1.IH"(2) [OF long refl refl _ refl, of "(hfs, ok, dec)" hfs "(ok, dec)" ok dec ?s'] w
            \<open>fh_Type ?h = FrameHeaders\<close> by simp
      next
        case False
        then show ?thesis
          using "1.IH"(3) [OF long refl refl _ refl, of "(hfs, ok, dec)" hfs "(ok, dec)" ok dec ?s'] w
            \<open>fh_Type ?h = FrameHeaders\<close> by simp
      qed
      have scan: "scan_headers hp (s_decoder s) b =
          ((fh_StreamId ?h, hfs) # fst (scan_headers hp dec ?rest), snd (scan_headers hp dec ?rest))"
        using long True w by (subst scan_headers.simps) (simp add: Let_def split: prod.split)
      show ?thesis
        unfolding step IH scan
        by (simp add: header_block_decoder header_block_def [where x = "(fh_StreamId ?h, hfs)"])
    qed
  qed
qed

section \<open>Header fields\<close>

definition first_valid :: "string \<Rightarrow> (gostring \<Rightarrow> bool) \<Rightarrow> header_field list \<Rightarrow> gostring" where
  "first_valid name valid hfs =
     (case find (\<lambda>hf. fst hf = ascii name \<and> valid (snd hf)) hfs of None \<Rightarrow> [] | Some hf \<Rightarrow> snd hf)"

definition last_value :: "string \<Rightarrow> header_field list \<Rightarrow> gostring option" where
  "last_value name hfs = map_option snd (find (\<lambda>hf. fst hf = ascii name) (rev hfs))"

lemma first_valid_simps:
  "first_valid name valid [] = []"
  "first_valid name valid (hf # hfs) =
     (if fst hf = ascii name \<and> valid (snd hf) then snd hf else first_valid name valid hfs)"
  by (simp_all add: first_valid_def)

lemma valid_not_empty: "\<not> isHttpMethod []" "\<not> isHttpPath []" "\<not> isHttpScheme []"
  by (simp_all add: isHttpMethod_def isHttpPath_def isHttpScheme_def ascii_def bytes_HasPrefix_def)

lemma field_names [simp]:
  "ascii '':method'' \<noteq> ascii '':path''" "ascii '':method'' \<noteq> ascii '':scheme''" "ascii '':path'' \<noteq> ascii '':scheme''"
  "ascii '':path'' \<noteq> ascii '':method''" "ascii '':scheme'' \<noteq> ascii '':method''" "ascii '':scheme'' \<noteq> ascii '':path''"
  "ascii '':status'' \<noteq> ascii ''grpc-status''" "ascii ''grpc-status'' \<noteq> ascii '':status''"
  by (simp_all add: ascii_def)

lemma client_field_parts:
  "h2_Method (client_field req hf) =
     (if h2_Method req = [] \<and> fst hf = ascii '':method'' \<and> isHttpMethod (snd hf) then snd hf else h2_Method req)"
  "h2_Path (client_field req hf) =
     (if h2_Path req = [] \<and> fst hf = ascii '':path'' \<and> isHttpPath (snd hf) then snd hf else h2_Path req)"
  "h2_Scheme (client_field req hf) =
     (if h2_Scheme req = [] \<and> fst hf = ascii '':scheme'' \<and> isHttpScheme (snd hf) then snd hf else h2_Scheme req)"
  "h2_Status (client_field req hf) = h2_Status req" "h2_GrpcStatus (client_field req hf) = h2_GrpcStatus req"
  "h2_Duration (client_field req hf) = h2_Duration req" "h2_kernelTime (client_field req hf) = h2_kernelTime req"
  by (simp_all add: client_field_def)

lemma client_fields_parts:
  "h2_Method (foldl client_field req hfs) =
     (if h2_Method req = [] then first_valid '':method'' isHttpMethod hfs else h2_Method req)"
  "h2_Path (foldl client_field req hfs) =
     (if h2_Path req = [] then first_valid '':path'' isHttpPath hfs else h2_Path req)"
  "h2_Scheme (foldl client_field req hfs) =
     (if h2_Scheme req = [] then first_valid '':scheme'' isHttpScheme hfs else h2_Scheme req)"
  "h2_Status (foldl client_field req hfs) = h2_Status req"
  "h2_GrpcStatus (foldl client_field req hfs) = h2_GrpcStatus req"
  "h2_Duration (foldl client_field req hfs) = h2_Duration req"
  "h2_kernelTime (foldl client_field req hfs) = h2_kernelTime req"
proof (induction hfs arbitrary: req)
  case (Cons hf hfs)
  {
    case 1
    then show ?case
      using valid_not_empty(1) by (cases "snd hf") (simp_all add: Cons.IH(1) client_field_parts(1) first_valid_simps)
  next
    case 2
    then show ?case
      using valid_not_empty(2) by (cases "snd hf") (simp_all add: Cons.IH(2) client_field_parts(2) first_valid_simps)
  next
    case 3
    then show ?case
      using valid_not_empty(3) by (cases "snd hf") (simp_all add: Cons.IH(3) client_field_parts(3) first_valid_simps)
  }
qed (simp_all add: first_valid_simps client_field_parts)

lemma client_fields:
  "foldl client_field (new_http2_request t) hfs =
     \<lparr>h2_Method = first_valid '':method'' isHttpMethod hfs, h2_Path = first_valid '':path'' isHttpPath hfs,
      h2_Scheme = first_valid '':scheme'' isHttpScheme hfs, h2_Status = 0, h2_GrpcStatus = 0, h2_Duration = 0,
      h2_kernelTime = t\<rparr>"
  by (rule Http2Request.equality) (simp_all add: client_fields_parts new_http2_request_def)

lemma last_value_snoc:
  "last_value name [] = None"
  "last_value name (hfs @ [hf]) = (if fst hf = ascii name then Some (snd hf) else last_value name hfs)"
  by (simp_all add: last_value_def)

lemma server_fields:
  "map_of (fst (foldl (server_field i) (st, g) hfs)) j =
     (if j = i then case last_value '':status'' hfs of Some v \<Rightarrow> Some (strconv_Atoi v) | None \<Rightarrow> map_of st j
      else map_of st j)"
  "map_of (snd (foldl (server_field i) (st, g) hfs)) j =
     (if j = i then case last_value ''grpc-status'' hfs of Some v \<Rightarrow> Some (strconv_Atoi v) | None \<Rightarrow> map_of g j
      else map_of g j)"
  by (induction hfs rule: rev_induct)
    (auto simp: last_value_snoc server_field_def update_conv')

lemma server_fields_distinct:
  "distinct (map fst st) \<Longrightarrow> distinct (map fst (fst (foldl (server_field i) (st, g) hfs)))"
  by (induction hfs rule: rev_induct) (auto simp: server_field_def distinct_update)

section \<open>One stream among others\<close>

abbreviation (input) client_block :: "u64 \<Rightarrow> 'd h2_state \<Rightarrow> u32 \<times> header_field list \<Rightarrow> 'd h2_state" where
  "client_block \<equiv> header_block MethodHttp2ClientFrames"

abbreviation (input) server_block :: "u64 \<Rightarrow> 'd h2_state \<Rightarrow> u32 \<times> header_field list \<Rightarrow> 'd h2_state" where
  "server_block \<equiv> header_block MethodHttp2ServerFrames"

lemma client_blocks_statuses [simp]:
  "s_statuses (foldl (client_block t) s xs) = s_statuses s"
  by (induction xs arbitrary: s) (simp_all add: header_block_def emit_fields_def open_stream_def)

lemma client_blocks_other:
  "i \<notin> fst ` set xs \<Longrightarrow> s_requests (foldl (client_block t) s xs) i = s_requests s i"
  by (induction xs arbitrary: s) (auto simp: header_block_def emit_fields_def open_stream_def)

lemma client_blocks_one:
  assumes "s_requests s i = None" and "i \<notin> fst ` set xs" and "i \<notin> fst ` set ys"
  shows "s_requests (foldl (client_block t) s (xs @ (i, hfs) # ys)) i =
    Some (foldl client_field (new_http2_request t) hfs)"
proof -
  let ?s = "foldl (client_block t) s xs"
  have "s_requests ?s i = None" using assms by (simp add: client_blocks_other)
  then have "s_requests (client_block t ?s (i, hfs)) i = Some (foldl client_field (new_http2_request t) hfs)"
    by (simp add: header_block_def emit_fields_def open_stream_def)
  then show ?thesis using assms(3) by (simp add: client_blocks_other)
qed

lemma server_blocks_requests [simp]: "s_requests (foldl (server_block t) s xs) = s_requests s"
  by (induction xs arbitrary: s) (simp_all add: header_block_def emit_fields_def open_stream_def split: prod.split)

lemma server_block_maps:
  fixes s :: "'d h2_state"
  shows "map_of (s_statuses (server_block t s (j, hfs))) i =
     (if i = j then Some (case last_value '':status'' hfs of Some v \<Rightarrow> strconv_Atoi v
        | None \<Rightarrow> case map_of (s_statuses s) j of Some v \<Rightarrow> v | None \<Rightarrow> 0)
      else map_of (s_statuses s) i)"
    and "map_of (s_grpcStatuses (server_block t s (j, hfs))) i =
     (if i = j then case last_value ''grpc-status'' hfs of Some v \<Rightarrow> Some (strconv_Atoi v)
        | None \<Rightarrow> map_of (s_grpcStatuses s) j
      else map_of (s_grpcStatuses s) i)"
    and "distinct (map fst (s_statuses s)) \<Longrightarrow> distinct (map fst (s_statuses (server_block t s (j, hfs))))"
  using server_fields [of j "s_statuses (open_stream MethodHttp2ServerFrames t j s)" "s_grpcStatuses s" hfs i]
    server_fields_distinct [of "s_statuses (open_stream MethodHttp2ServerFrames t j s)" j "s_grpcStatuses s" hfs]
  by (auto simp: header_block_def emit_fields_def open_stream_def update_conv' distinct_update
      split: prod.splits option.splits if_splits)

lemma server_blocks_other:
  "i \<notin> fst ` set xs \<Longrightarrow> map_of (s_statuses (foldl (server_block t) s xs)) i = map_of (s_statuses s) i"
  "i \<notin> fst ` set xs \<Longrightarrow> map_of (s_grpcStatuses (foldl (server_block t) s xs)) i = map_of (s_grpcStatuses s) i"
  by (induction xs arbitrary: s) (auto simp: server_block_maps)

lemma server_blocks_distinct:
  "distinct (map fst (s_statuses s)) \<Longrightarrow> distinct (map fst (s_statuses (foldl (server_block t) s xs)))"
  by (induction xs arbitrary: s) (auto simp: server_block_maps(3))

lemma server_blocks_one:
  assumes "s_statuses s = []" and "s_grpcStatuses s = []" and "i \<notin> fst ` set xs" and "i \<notin> fst ` set ys"
  shows "map_of (s_statuses (foldl (server_block t) s (xs @ (i, hfs) # ys))) i =
      Some (case last_value '':status'' hfs of Some v \<Rightarrow> strconv_Atoi v | None \<Rightarrow> 0)"
    and "map_of (s_grpcStatuses (foldl (server_block t) s (xs @ (i, hfs) # ys))) i =
      map_option strconv_Atoi (last_value ''grpc-status'' hfs)"
  using assms by (simp_all add: server_blocks_other server_block_maps split: option.split)

lemma collect_Cons:
  assumes "collect_answers t s (j # ids) active = (res, active')" and "active j = Some r"
  obtains res' where "collect_answers t s ids (active(j := None)) = (res', active')"
    and "res = (j, answered_request t (the (map_of (s_statuses s) j)) (map_of (s_grpcStatuses s) j) r) # res'"
  using assms by (auto simp: Let_def split: prod.splits)

lemma collect_other:
  "collect_answers t s ids active = (res, active') \<Longrightarrow> i \<notin> set ids \<Longrightarrow>
   filter (\<lambda>x. fst x = i) res = [] \<and> active' i = active i"
proof (induction ids arbitrary: res active active')
  case (Cons j ids)
  show ?case
  proof (cases "active j")
    case None
    then show ?thesis using Cons by simp
  next
    case (Some r)
    from Cons.prems(1) Some obtain res' where res:
      "collect_answers t s ids (active(j := None)) = (res', active')"
      "res = (j, answered_request t (the (map_of (s_statuses s) j)) (map_of (s_grpcStatuses s) j) r) # res'"
      by (rule collect_Cons)
    then show ?thesis using Cons.IH [OF res(1)] Cons.prems(2) by auto
  qed
qed simp

lemma collect_one:
  "collect_answers t s ids active = (res, active') \<Longrightarrow> i \<in> set ids \<Longrightarrow> distinct ids \<Longrightarrow> active i = Some r \<Longrightarrow>
   filter (\<lambda>x. fst x = i) res =
     [(i, answered_request t (the (map_of (s_statuses s) i)) (map_of (s_grpcStatuses s) i) r)] \<and> active' i = None"
proof (induction ids arbitrary: res active active')
  case (Cons j ids)
  show ?case
  proof (cases "active j")
    case None
    then show ?thesis using Cons by auto
  next
    case (Some r')
    from Cons.prems(1) Some obtain res' where res:
      "collect_answers t s ids (active(j := None)) = (res', active')"
      "res = (j, answered_request t (the (map_of (s_statuses s) j)) (map_of (s_grpcStatuses s) j) r') # res'"
      by (rule collect_Cons)
    show ?thesis
    proof (cases "j = i")
      case True
      then show ?thesis using collect_other [OF res(1), of i] res(2) Cons.prems Some by simp
    next
      case False
      then show ?thesis using Cons.IH [OF res(1)] res(2) Cons.prems by simp
    qed
  qed
qed simp

section \<open>Calls\<close>

definition decoder_of :: "u8 \<Rightarrow> 'd Http2Parser \<Rightarrow> 'd" where
  "decoder_of method p = (if method = MethodHttp2ClientFrames then clientDecoder p else serverDecoder p)"

definition call_headers ::
  "('d, 'b) hpack_scheme \<Rightarrow> u8 \<Rightarrow> u8 list \<Rightarrow> 'd Http2Parser \<Rightarrow> (u32 \<times> header_field list) list" where
  "call_headers hp method payload p = fst (scan_headers hp (decoder_of method p) (http2_body method payload))"

definition scan_state :: "u8 \<Rightarrow> 'd Http2Parser \<Rightarrow> 'd h2_state" where
  "scan_state method p = \<lparr>s_decoder = decoder_of method p, s_requests = activeRequests p, s_statuses = [], s_grpcStatuses = []\<rparr>"

lemma gc_keeps:
  "activeRequests p i = Some r \<Longrightarrow> kernelTime - h2_kernelTime r \<le> http2DecoderGcInterval \<Longrightarrow>
   activeRequests (http2_gc kernelTime p) i = Some r"
  "activeRequests p i = None \<Longrightarrow> activeRequests (http2_gc kernelTime p) i = None"
  by (auto simp: http2_gc_def Let_def not_less)

text \<open>A call in terms of the blocks it decodes.\<close>

definition call_state :: "('d, 'b) hpack_scheme \<Rightarrow> u8 \<Rightarrow> u8 list \<Rightarrow> u64 \<Rightarrow> 'd Http2Parser \<Rightarrow> 'd h2_state" where
  "call_state hp method payload t p =
     foldl (header_block method t) (scan_state method p) (call_headers hp method payload p)"

lemma collect_answers_decoder [simp]: "collect_answers t (s\<lparr>s_decoder := d\<rparr>) ids active = collect_answers t s ids active"
  by (induction ids arbitrary: active) (auto split: option.split)

lemma http2_parse_call:
  assumes "http2_body method payload \<noteq> []"
    and "method = MethodHttp2ClientFrames \<or> method = MethodHttp2ServerFrames"
    and "collect_answers t (call_state hp method payload t p) (ord (map fst (s_statuses (call_state hp method payload t p))))
      (s_requests (call_state hp method payload t p)) = (res, active)"
  shows "fst (http2_parse hp ord method payload t p) = res"
    and "activeRequests (snd (http2_parse hp ord method payload t p)) =
       activeRequests (http2_gc t (p\<lparr>activeRequests := active\<rparr>))"
proof -
  have "http2_frames hp method t (http2_body method payload) (scan_state method p) =
      (call_state hp method payload t p)\<lparr>s_decoder := snd (scan_headers hp (decoder_of method p) (http2_body method payload))\<rparr>"
    unfolding http2_frames_scan by (simp add: call_state_def call_headers_def scan_state_def)
  then have "http2_parse hp ord method payload t p =
      (res, let p = http2_gc t (p\<lparr>activeRequests := active\<rparr>);
          dec = hpack_Close hp (snd (scan_headers hp (decoder_of method p) (http2_body method payload))) in
         if method = MethodHttp2ClientFrames then p\<lparr>clientDecoder := dec\<rparr> else p\<lparr>serverDecoder := dec\<rparr>)"
    using assms by (auto simp: http2_parse_def Let_def scan_state_def decoder_of_def http2_gc_def)
  then show "fst (http2_parse hp ord method payload t p) = res"
    and "activeRequests (snd (http2_parse hp ord method payload t p)) =
       activeRequests (http2_gc t (p\<lparr>activeRequests := active\<rparr>))"
    by (auto simp: Let_def)
qed

text \<open>
  Calls that do not see a block of stream \<open>i\<close>, at most ten minutes after its request.
\<close>

fun other_calls ::
  "('d, 'b) hpack_scheme \<Rightarrow> (u32 list \<Rightarrow> u32 list) \<Rightarrow> u32 \<Rightarrow> u64 \<Rightarrow> (u8 \<times> u8 list \<times> u64) list \<Rightarrow> 'd Http2Parser \<Rightarrow> bool" where
  "other_calls hp ord i t0 [] p \<longleftrightarrow> True"
| "other_calls hp ord i t0 ((method, payload, t) # cs) p \<longleftrightarrow>
     i \<notin> fst ` set (call_headers hp method payload p) \<and> t - t0 \<le> http2DecoderGcInterval \<and>
     other_calls hp ord i t0 cs (snd (http2_parse hp ord method payload t p))"

fun run_calls ::
  "('d, 'b) hpack_scheme \<Rightarrow> (u32 list \<Rightarrow> u32 list) \<Rightarrow> (u8 \<times> u8 list \<times> u64) list \<Rightarrow> 'd Http2Parser \<Rightarrow>
   (u32 \<times> Http2Request) list \<times> 'd Http2Parser" where
  "run_calls hp ord [] p = ([], p)"
| "run_calls hp ord ((method, payload, t) # cs) p =
     (let (res, p) = http2_parse hp ord method payload t p; (res', p) = run_calls hp ord cs p in (res @ res', p))"

text \<open>Ranging over a map visits each key once, in some order.\<close>

definition range_order :: "(u32 list \<Rightarrow> u32 list) \<Rightarrow> bool" where
  "range_order ord \<longleftrightarrow> (\<forall>xs. distinct xs \<longrightarrow> distinct (ord xs) \<and> set (ord xs) = set xs)"

lemma statuses_keys: "map_of st i = None \<longleftrightarrow> i \<notin> set (map fst st)"
  by (simp add: map_of_eq_None_iff)

lemma server_keys_distinct:
  "distinct (map fst (s_statuses (foldl (server_block t) (scan_state MethodHttp2ServerFrames p) xs)))"
  by (rule server_blocks_distinct) (simp add: scan_state_def)

lemma other_call:
  assumes ord: "range_order ord"
    and other: "i \<notin> fst ` set (call_headers hp method payload p)" and "t - t0 \<le> http2DecoderGcInterval"
    and r: "activeRequests p i = Some r" "h2_kernelTime r = t0"
  shows "filter (\<lambda>x. fst x = i) (fst (http2_parse hp ord method payload t p)) = [] \<and>
    activeRequests (snd (http2_parse hp ord method payload t p)) i = Some r"
proof (cases "http2_body method payload = [] \<or> method \<noteq> MethodHttp2ClientFrames \<and> method \<noteq> MethodHttp2ServerFrames")
  case True
  then have "http2_parse hp ord method payload t p = ([], p)" by (auto simp: http2_parse_def Let_def)
  then show ?thesis using r by simp
next
  case False
  from False have body: "http2_body method payload \<noteq> []"
      "method = MethodHttp2ClientFrames \<or> method = MethodHttp2ServerFrames" by auto
  define s where "s = call_state hp method payload t p"
  obtain res active where c: "collect_answers t s (ord (map fst (s_statuses s))) (s_requests s) = (res, active)"
    by fastforce
  have "s_requests s i = Some r \<and> i \<notin> set (map fst (s_statuses s)) \<and> distinct (map fst (s_statuses s))"
  proof (cases "method = MethodHttp2ClientFrames")
    case True
    then show ?thesis using other r(1) by (simp add: s_def call_state_def client_blocks_other scan_state_def)
  next
    case server: False
    then have "method = MethodHttp2ServerFrames" using False by simp
    then show ?thesis
      using other r(1) server_keys_distinct [of t p] server_blocks_other(1) [OF other, of t "scan_state method p"]
      by (simp add: s_def call_state_def scan_state_def map_of_eq_None_iff)
  qed
  then have "i \<notin> set (ord (map fst (s_statuses s)))" and "s_requests s i = Some r"
    using ord by (auto simp: range_order_def)
  then show ?thesis
    using collect_other [OF c, of i] assms(3) r(2) http2_parse_call [where ord = ord, OF body c [unfolded s_def]]
      gc_keeps(1) [of "p\<lparr>activeRequests := active\<rparr>" i r t] by simp
qed

lemma headers_body: "call_headers hp method payload p \<noteq> [] \<Longrightarrow> http2_body method payload \<noteq> []"
  by (auto simp: call_headers_def scan_headers.simps [of hp _ "[]"])

lemma request_call:
  assumes ord: "range_order ord" and new: "activeRequests p i = None"
    and request: "call_headers hp MethodHttp2ClientFrames payload p = xs @ (i, rf) # ys"
      "i \<notin> fst ` set xs" "i \<notin> fst ` set ys"
  shows "fst (http2_parse hp ord MethodHttp2ClientFrames payload t p) = [] \<and>
    activeRequests (snd (http2_parse hp ord MethodHttp2ClientFrames payload t p)) i =
      Some (foldl client_field (new_http2_request t) rf)"
proof -
  have body: "http2_body MethodHttp2ClientFrames payload \<noteq> []"
    using headers_body [of hp _ payload p] request(1) by simp
  define s where "s = call_state hp MethodHttp2ClientFrames payload t p"
  have "s_statuses s = []" by (simp add: s_def call_state_def scan_state_def)
  moreover have "ord [] = []" using ord by (simp add: range_order_def) (metis distinct.simps(1) empty_set set_empty)
  ultimately have c: "collect_answers t s (ord (map fst (s_statuses s))) (s_requests s) = ([], s_requests s)" by simp
  have "s_requests s i = Some (foldl client_field (new_http2_request t) rf)"
    unfolding s_def call_state_def request(1)
    using new request(2,3) by (intro client_blocks_one) (simp_all add: scan_state_def)
  then show ?thesis
    using http2_parse_call [where ord = ord, OF body _ c [unfolded s_def]]
      gc_keeps(1) [of "p\<lparr>activeRequests := s_requests s\<rparr>" i _ t] by (simp add: client_fields s_def)
qed

lemma answer_call:
  assumes ord: "range_order ord" and r: "activeRequests p i = Some r"
    and answer: "call_headers hp MethodHttp2ServerFrames payload p = xs @ (i, af) # ys"
      "i \<notin> fst ` set xs" "i \<notin> fst ` set ys"
  shows "filter (\<lambda>x. fst x = i) (fst (http2_parse hp ord MethodHttp2ServerFrames payload t p)) =
      [(i, answered_request t (case last_value '':status'' af of Some v \<Rightarrow> strconv_Atoi v | None \<Rightarrow> 0)
         (map_option strconv_Atoi (last_value ''grpc-status'' af)) r)] \<and>
    activeRequests (snd (http2_parse hp ord MethodHttp2ServerFrames payload t p)) i = None"
proof -
  have body: "http2_body MethodHttp2ServerFrames payload \<noteq> []"
    using headers_body [of hp _ payload p] answer(1) by simp
  define s where "s = call_state hp MethodHttp2ServerFrames payload t p"
  obtain res active where c: "collect_answers t s (ord (map fst (s_statuses s))) (s_requests s) = (res, active)"
    by fastforce
  note one = server_blocks_one [of "scan_state MethodHttp2ServerFrames p" i xs ys t af, OF _ _ answer(2,3)]
  have status: "map_of (s_statuses s) i = Some (case last_value '':status'' af of Some v \<Rightarrow> strconv_Atoi v | None \<Rightarrow> 0)"
      "map_of (s_grpcStatuses s) i = map_option strconv_Atoi (last_value ''grpc-status'' af)"
    using one answer(1) by (simp_all add: s_def call_state_def scan_state_def)
  have "distinct (map fst (s_statuses s))" using server_keys_distinct [of t p] by (simp add: s_def call_state_def)
  moreover have "i \<in> set (map fst (s_statuses s))" using status(1) statuses_keys [of "s_statuses s" i] by simp
  ultimately have "i \<in> set (ord (map fst (s_statuses s)))" "distinct (ord (map fst (s_statuses s)))"
    using ord by (simp_all add: range_order_def)
  moreover have "s_requests s i = Some r" using r by (simp add: s_def call_state_def scan_state_def)
  ultimately show ?thesis
    using collect_one [OF c, of i r] status http2_parse_call [where ord = ord, OF body _ c [unfolded s_def]]
      gc_keeps(2) [of "p\<lparr>activeRequests := active\<rparr>" i t] by simp
qed

lemma other_calls_run:
  assumes "range_order ord" and "other_calls hp ord i t0 cs p" and "activeRequests p i = Some r" and "h2_kernelTime r = t0"
  shows "filter (\<lambda>x. fst x = i) (fst (run_calls hp ord cs p)) = [] \<and>
    activeRequests (snd (run_calls hp ord cs p)) i = Some r"
  using assms(2,3)
proof (induction cs arbitrary: p)
  case (Cons c cs)
  obtain m pl t where c: "c = (m, pl, t)" by (cases c)
  have "filter (\<lambda>x. fst x = i) (fst (http2_parse hp ord m pl t p)) = [] \<and>
      activeRequests (snd (http2_parse hp ord m pl t p)) i = Some r"
    using Cons.prems c by (intro other_call [OF assms(1) _ _ _ assms(4)]) auto
  then show ?case
    using Cons.IH [of "snd (http2_parse hp ord m pl t p)"] Cons.prems c
    by (auto simp: Let_def split: prod.splits)
qed simp

text \<open>
  C13. An exchange on a stream of an HTTP/2 connection is reported once. When the frames of a
  write have a header block of a new stream, then, after any other payloads without a block of
  this stream within ten minutes, the read with the stream's answer returns exactly one request
  of the stream: with the first valid method, path and scheme of the request's fields, the last
  status and gRPC status of the answer's, and the time between the two. The calls before return
  nothing of the stream, and it is forgotten afterwards.
\<close>

theorem http2_exchange_reported:
  assumes "range_order ord" and "activeRequests p i = None"
    and "call_headers hp MethodHttp2ClientFrames request p = xs @ (i, rf) # ys"
    and "i \<notin> fst ` set xs" and "i \<notin> fst ` set ys"
    and "http2_parse hp ord MethodHttp2ClientFrames request t0 p = (res0, p0)"
    and "other_calls hp ord i t0 cs p0" and "run_calls hp ord cs p0 = (res1, p1)"
    and "call_headers hp MethodHttp2ServerFrames response p1 = us @ (i, af) # vs"
    and "i \<notin> fst ` set us" and "i \<notin> fst ` set vs"
    and "http2_parse hp ord MethodHttp2ServerFrames response t1 p1 = (res2, p2)"
  shows "filter (\<lambda>x. fst x = i) (res0 @ res1) = [] \<and>
    filter (\<lambda>x. fst x = i) res2 =
      [(i, \<lparr>h2_Method = first_valid '':method'' isHttpMethod rf, h2_Path = first_valid '':path'' isHttpPath rf,
           h2_Scheme = first_valid '':scheme'' isHttpScheme rf,
           h2_Status = (case last_value '':status'' af of Some v \<Rightarrow> strconv_Atoi v | None \<Rightarrow> 0),
           h2_GrpcStatus = (case last_value ''grpc-status'' af of Some v \<Rightarrow> strconv_Atoi v | None \<Rightarrow> -1),
           h2_Duration = t1 - t0, h2_kernelTime = t0\<rparr>)] \<and>
    activeRequests p2 i = None"
proof -
  let ?r = "foldl client_field (new_http2_request t0) rf"
  have "res0 = []" and p0: "activeRequests p0 i = Some ?r"
    using request_call [OF assms(1-5), of t0] assms(6) by simp_all
  moreover have "filter (\<lambda>x. fst x = i) res1 = []" and p1: "activeRequests p1 i = Some ?r"
    using other_calls_run [OF assms(1,7) p0] assms(8) by (simp_all add: client_fields)
  ultimately show ?thesis
    using answer_call [OF assms(1) p1 assms(9-11), of t1] assms(12)
    by (simp add: client_fields answered_request_def split: option.split)
qed

text \<open>For evaluation, the stream number without its reserved bit as a remainder.\<close>

lemma frame_header_code [code]:
  "frame_header b =
     \<lparr>fh_Type = b ! 3, fh_Flags = b ! 4, fh_Length = unat (drop_bit 8 (be_word (field_at 0 4 b) :: u32)),
      fh_StreamId = word_of_int (uint (be_word (field_at 5 4 b) :: u32) mod 2147483648)\<rparr>"
proof -
  have "w AND (push_bit 31 1 - 1) = word_of_int (uint w mod 2147483648)" for w :: u32
  proof -
    have "(push_bit 31 1 - 1 :: u32) = mask 31" by (simp add: mask_eq_exp_minus_1)
    then have "w AND (push_bit 31 1 - 1) = take_bit 31 w" by (simp only: take_bit_eq_mask)
    also have "\<dots> = word_of_int (uint (take_bit 31 w))" by simp
    also have "uint (take_bit 31 w) = uint w mod 2147483648" by (simp only: unsigned_take_bit_eq) (simp add: take_bit_eq_mod)
    finally show ?thesis .
  qed
  then show ?thesis by (simp only: frame_header_def)
qed

text \<open>A decoder with two indexed blocks, as those of the static table.\<close>

definition sample_hpack :: "unit hpack" where
  "sample_hpack =
     \<lparr>NewDecoder = (),
      hpack_Write = (\<lambda>_ b.
        if b = [0x82] then ([(ascii '':method'', ascii ''GET''), (ascii '':path'', ascii ''/a''), (ascii '':scheme'', ascii ''http'')], True, ())
        else if b = [0x88] then ([(ascii '':status'', ascii ''200''), (ascii ''grpc-status'', ascii ''0'')], True, ())
        else ([], False, ())),
      hpack_Close = (\<lambda>_. ())\<rparr>"

theorem http2_exchange_reported_witness:
  "let request = [0, 0, 1, 1, 4, 0, 0, 0, 1, 0x82]; other = [0, 0, 1, 1, 4, 0, 0, 0, 3, 0x82];
       response = [0, 0, 0, 4, 0, 0, 0, 0, 0, 0, 0, 1, 1, 4, 0, 0, 0, 1, 0x88];
       p0 = snd (http2_parse sample_hpack rev 5 request 1000 (NewHttp2Parser sample_hpack));
       p1 = snd (run_calls sample_hpack rev [(5, other, 2000)] p0) in
   filter (\<lambda>x. fst x = 1) (fst (http2_parse sample_hpack rev 6 response 5000 p1)) =
     [(1, \<lparr>h2_Method = ascii ''GET'', h2_Path = ascii ''/a'', h2_Scheme = ascii ''http'', h2_Status = 200,
          h2_GrpcStatus = 0, h2_Duration = 4000, h2_kernelTime = 1000\<rparr>)]"
proof -
  let ?request = "[0, 0, 1, 1, 4, 0, 0, 0, 1, 0x82] :: u8 list" and ?other = "[0, 0, 1, 1, 4, 0, 0, 0, 3, 0x82] :: u8 list"
  let ?response = "[0, 0, 0, 4, 0, 0, 0, 0, 0, 0, 0, 1, 1, 4, 0, 0, 0, 1, 0x88] :: u8 list"
  let ?pa = "NewHttp2Parser sample_hpack"
  let ?pb = "snd (http2_parse sample_hpack rev 5 ?request 1000 ?pa)"
  let ?cs = "[(5, ?other, 2000)] :: (u8 \<times> u8 list \<times> u64) list"
  let ?pc = "snd (run_calls sample_hpack rev ?cs ?pb)"
  let ?rf = "[(ascii '':method'', ascii ''GET''), (ascii '':path'', ascii ''/a''), (ascii '':scheme'', ascii ''http'')]"
  let ?af = "[(ascii '':status'', ascii ''200''), (ascii ''grpc-status'', ascii ''0'')]"
  have ord: "range_order rev" by (simp add: range_order_def)
  have new: "activeRequests ?pa 1 = None" by code_simp
  have request: "call_headers sample_hpack 5 ?request ?pa = [] @ (1, ?rf) # []" by code_simp
  have other: "other_calls sample_hpack rev 1 1000 ?cs ?pb" by code_simp
  have response: "call_headers sample_hpack 6 ?response ?pc = [] @ (1, ?af) # []" by code_simp
  have r0: "http2_parse sample_hpack rev 5 ?request 1000 ?pa = (fst (http2_parse sample_hpack rev 5 ?request 1000 ?pa), ?pb)"
    and r1: "run_calls sample_hpack rev ?cs ?pb = (fst (run_calls sample_hpack rev ?cs ?pb), ?pc)"
    and r2: "http2_parse sample_hpack rev 6 ?response 5000 ?pc =
      (fst (http2_parse sample_hpack rev 6 ?response 5000 ?pc), snd (http2_parse sample_hpack rev 6 ?response 5000 ?pc))"
    by simp_all
  have "filter (\<lambda>x. fst x = 1) (fst (http2_parse sample_hpack rev 6 ?response 5000 ?pc)) =
      [(1, \<lparr>h2_Method = first_valid '':method'' isHttpMethod ?rf, h2_Path = first_valid '':path'' isHttpPath ?rf,
           h2_Scheme = first_valid '':scheme'' isHttpScheme ?rf,
           h2_Status = (case last_value '':status'' ?af of Some v \<Rightarrow> strconv_Atoi v | None \<Rightarrow> 0),
           h2_GrpcStatus = (case last_value ''grpc-status'' ?af of Some v \<Rightarrow> strconv_Atoi v | None \<Rightarrow> -1),
           h2_Duration = 5000 - 1000, h2_kernelTime = 1000\<rparr>)]"
    using http2_exchange_reported [OF ord new request _ _ r0 other r1 response _ _ r2] by simp
  moreover have "first_valid '':method'' isHttpMethod ?rf = ascii ''GET'' \<and>
      first_valid '':path'' isHttpPath ?rf = ascii ''/a'' \<and> first_valid '':scheme'' isHttpScheme ?rf = ascii ''http''"
    by code_simp
  moreover have "(case last_value '':status'' ?af of Some v \<Rightarrow> strconv_Atoi v | None \<Rightarrow> 0) = 200 \<and>
      (case last_value ''grpc-status'' ?af of Some v \<Rightarrow> strconv_Atoi v | None \<Rightarrow> -1) = 0"
    by code_simp
  ultimately show ?thesis by (simp add: Let_def)
qed

text \<open>
  A block that cannot be decoded is read again as frames: here the bytes of a block that the
  decoder refuses contain the header of a frame of stream 9, and a request of that stream is
  opened which the client never sent.
\<close>

lemma http2_block_read_as_frames:
  "map fst (call_headers sample_hpack 5 [0, 0, 10, 1, 4, 0, 0, 0, 1, 0, 0, 1, 1, 4, 0, 0, 0, 9, 0x82]
     (NewHttp2Parser sample_hpack)) = [1, 9]"
  by code_simp

end
