(* ===== verification/Container.thy ===== *)
theory Container
  imports Spans Sql_Parsers Http2_Parser
begin

text \<open>
  \<^verbatim>\<open>containers/container.go\<close> and \<^verbatim>\<open>containers/l7.go\<close>: what the agent keeps of a container, and the handlers
  of the events about its processes, listening sockets, connections and requests.

  Connections are shared between two maps of the source, one by addresses and one by process and
  descriptor, and are changed through both: they are kept in a list, \<open>c_conns\<close>, whose indices are the
  pointers. Maps that the source goes through are association lists. A time is an integer, with 0
  for the zero time; \<open>now\<close> is the time of a call, and a call takes no time. What a handler asks of the
  system (sockets, addresses of a namespace, the conntrack table of Cilium) is an argument. Counters of
  Prometheus are functions from label values to numbers, with their number of labels; a histogram is
  the list of what it observed. The loop of the registry calls the
  handlers of events one after the other, and so does the model. Of the counters of a container, those of mounts, logs
  and GPUs are left out.
\<close>

section \<open>State\<close>

record Process =
  pr_StartedAt :: int
  pr_NetNsId :: gostring
  pr_EbpfTracesDisabled :: bool
  nodejsPrevStats :: "s64 option"
  pythonPrevStats :: "s64 option"

record ('ip, 'd) ActiveConnection =
  ac_DestinationKey :: "'ip DestinationKey"
  ac_Pid :: u32
  ac_Fd :: u64
  ac_Timestamp :: u64
  ac_Closed :: int
  ac_BytesSent :: u64
  ac_BytesReceived :: u64
  ac_http2Parser :: "'d Http2Parser option"
  ac_postgresParser :: "prepared option"
  ac_mysqlParser :: "prepared option"

record 'ip ListenDetails =
  ld_ClosedAt :: int
  ld_NsIPs :: "'ip list"

record ConnectionStats =
  cs_Count :: u64
  cs_TotalTime :: s64
  cs_Retransmissions :: u64
  cs_BytesSent :: u64
  cs_BytesReceived :: u64

record L7Metrics =
  m_Requests :: "(nat \<times> (gostring list \<Rightarrow> nat)) option"
  m_Latency :: "s64 list option"

type_synonym 'ip ConnectionKey = "'ip ipport \<times> 'ip ipport"
record Delays =
  dl_cpu :: s64
  dl_disk :: s64

type_synonym PidFd = "u32 \<times> u64"

record ('ip, 'd) Container =
  c_processes :: "(u32 \<times> Process) list"
  c_startedAt :: int
  c_zombieAt :: int
  c_restarts :: int
  c_oomKills :: int
  c_delays :: Delays
  c_delaysByPid :: "(u32 \<times> Delays) list"
  c_listens :: "('ip ipport \<times> (u32 \<times> 'ip ListenDetails) list) list"
  c_connectionStats :: "('ip DestinationKey \<times> ConnectionStats) list"
  c_failedConnectionAttempts :: "('ip HostPort \<times> s64) list"
  c_lastConnectionAttempts :: "('ip HostPort \<times> int) list"
  c_activeConnections :: "('ip ConnectionKey \<times> nat) list"
  c_connectionsByPidFd :: "(PidFd \<times> nat) list"
  c_conns :: "('ip, 'd) ActiveConnection list"
  c_l7Stats :: "u8 \<times> 'ip DestinationKey \<rightharpoonup> L7Metrics"
  c_dnsStats :: L7Metrics
  c_nodejsStats :: "s64 option"
  c_pythonStats :: "s64 option"
  c_spans :: span_log
  c_whitelist :: "'ip whitelist"

text \<open>\<open>c_whitelist\<close> is the state of the package variable \<^verbatim>\<open>common.ConnectionFilter\<close>.\<close>

definition zero_Delays :: Delays where "zero_Delays = \<lparr>dl_cpu = 0, dl_disk = 0\<rparr>"

definition NewContainer :: "'ip whitelist \<Rightarrow> ('ip, 'd) Container" where
  "NewContainer wl =
     \<lparr>c_processes = [], c_startedAt = 0, c_zombieAt = 0, c_restarts = 0, c_oomKills = 0,
      c_delays = zero_Delays, c_delaysByPid = [], c_listens = [],
      c_connectionStats = [], c_failedConnectionAttempts = [], c_lastConnectionAttempts = [], c_activeConnections = [],
      c_connectionsByPidFd = [], c_conns = [], c_l7Stats = Map.empty,
      c_dnsStats = \<lparr>m_Requests = None, m_Latency = None\<rparr>, c_nodejsStats = None, c_pythonStats = None,
      c_spans = \<lparr>sl_draws = 0, sl_spans = []\<rparr>, c_whitelist = wl\<rparr>"

text \<open>The packages the handlers call, and the configuration.\<close>

record ('ip, 'd) agent_lib =
  lib_net :: "'ip netaddr_ip"
  lib_hpack :: "'d hpack"
  lib_range :: "u32 list \<Rightarrow> u32 list"
  lib_dns :: "'ip dns_lib"
  lib_bson :: "u8 list \<Rightarrow> gostring"
  lib_ch :: ch_reader
  lib_ch_version :: int
  lib_valid_label :: "gostring \<Rightarrow> bool"

record agent_config =
  PortFilter :: "(u16 \<times> u16) option"
  HttpFilter :: "(gostring \<Rightarrow> bool) list"
  hostNetNsId :: gostring

abbreviation (input) gcInterval :: int where "gcInterval \<equiv> 600000000000"

definition isHostNs :: "agent_config \<Rightarrow> Process \<Rightarrow> bool" where
  "isHostNs cfg p \<longleftrightarrow> pr_NetNsId p = hostNetNsId cfg"

section \<open>Processes\<close>

text \<open>\<open>begin_time\<close> is what the task statistics give, \<open>p\<close> the new process.\<close>

definition onProcessStart :: "u32 \<Rightarrow> int option \<Rightarrow> Process \<Rightarrow> ('ip, 'd) Container \<Rightarrow> ('ip, 'd) Container" where
  "onProcessStart pid begin_time p c =
     (case begin_time of
        None \<Rightarrow> c
      | Some t \<Rightarrow>
          (let c = c\<lparr>c_zombieAt := 0, c_processes := AList.update pid p (c_processes c)\<rparr> in
           if c_startedAt c = 0 then c\<lparr>c_startedAt := t\<rparr>
           else
             (let m = foldl (\<lambda>m (_, p). if pr_StartedAt p < m then pr_StartedAt p else m) t (c_processes c) in
              if m > c_startedAt c then c\<lparr>c_restarts := c_restarts c + 1, c_startedAt := m\<rparr> else c)))"

definition onProcessExit :: "int \<Rightarrow> u32 \<Rightarrow> bool \<Rightarrow> ('ip, 'd) Container \<Rightarrow> ('ip, 'd) Container" where
  "onProcessExit now pid oomKill c =
     (let c = c\<lparr>c_processes := AList.delete pid (c_processes c)\<rparr>;
          c = (if c_processes c = [] then c\<lparr>c_zombieAt := now\<rparr> else c);
          c = c\<lparr>c_delaysByPid := AList.delete pid (c_delaysByPid c)\<rparr> in
      if oomKill then c\<lparr>c_oomKills := c_oomKills c + 1\<rparr> else c)"

definition Dead :: "int \<Rightarrow> ('ip, 'd) Container \<Rightarrow> bool" where
  "Dead now c \<longleftrightarrow> c_zombieAt c \<noteq> 0 \<and> now - c_zombieAt c > gcInterval"

definition updateNodejsStats :: "u32 \<Rightarrow> s64 \<Rightarrow> ('ip, 'd) Container \<Rightarrow> ('ip, 'd) Container" where
  "updateNodejsStats pid blocked c =
     (case map_of (c_processes c) pid of
        None \<Rightarrow> c
      | Some p \<Rightarrow>
          (case nodejsPrevStats p of
             None \<Rightarrow> c
           | Some prev \<Rightarrow>
               (let delta = blocked - prev;
                    c = (if 0 <s delta
                         then c\<lparr>c_nodejsStats := Some ((case c_nodejsStats c of Some t \<Rightarrow> t | None \<Rightarrow> 0) + delta)\<rparr> else c) in
                c\<lparr>c_processes := AList.update pid (p\<lparr>nodejsPrevStats := Some blocked\<rparr>) (c_processes c)\<rparr>)))"

definition updatePythonStats :: "u32 \<Rightarrow> s64 \<Rightarrow> ('ip, 'd) Container \<Rightarrow> ('ip, 'd) Container" where
  "updatePythonStats pid waited c =
     (case map_of (c_processes c) pid of
        None \<Rightarrow> c
      | Some p \<Rightarrow>
          (case pythonPrevStats p of
             None \<Rightarrow> c
           | Some prev \<Rightarrow>
               (let delta = waited - prev;
                    c = (if 0 <s delta
                         then c\<lparr>c_pythonStats := Some ((case c_pythonStats c of Some t \<Rightarrow> t | None \<Rightarrow> 0) + delta)\<rparr> else c) in
                c\<lparr>c_processes := AList.update pid (p\<lparr>pythonPrevStats := Some waited\<rparr>) (c_processes c)\<rparr>)))"

text \<open>\<^verbatim>\<open>updateDelays\<close>: \<open>taskstats\<close> gives the delays of a process so far, \<open>None\<close> when they cannot be read.\<close>

fun add_delays :: "(u32 \<Rightarrow> Delays option) \<Rightarrow> u32 list \<Rightarrow> Delays \<Rightarrow> (u32 \<times> Delays) list \<Rightarrow> Delays \<times> (u32 \<times> Delays) list" where
  "add_delays taskstats [] delays byPid = (delays, byPid)"
| "add_delays taskstats (pid # pids) delays byPid =
     (case taskstats pid of
        None \<Rightarrow> add_delays taskstats pids delays byPid
      | Some stats \<Rightarrow>
          (let d = (case map_of byPid pid of Some d \<Rightarrow> d | None \<Rightarrow> zero_Delays) in
           add_delays taskstats pids
             \<lparr>dl_cpu = dl_cpu delays + (dl_cpu stats - dl_cpu d), dl_disk = dl_disk delays + (dl_disk stats - dl_disk d)\<rparr>
             (AList.update pid stats byPid)))"

definition updateDelays :: "(u32 \<Rightarrow> Delays option) \<Rightarrow> ('ip, 'd) Container \<Rightarrow> ('ip, 'd) Container" where
  "updateDelays taskstats c =
     (let res = add_delays taskstats (map fst (c_processes c)) (c_delays c) (c_delaysByPid c) in
      c\<lparr>c_delays := fst res, c_delaysByPid := snd res\<rparr>)"

section \<open>Listening sockets\<close>

text \<open>\<open>nsIps\<close> are the addresses of the namespace of a process; \<open>None\<close> when they cannot be read.\<close>

definition onListenOpen ::
  "('ip, 'd) agent_lib \<Rightarrow> agent_config \<Rightarrow> (u32 \<Rightarrow> 'ip list option) \<Rightarrow> u32 \<Rightarrow> 'ip ipport \<Rightarrow> ('ip, 'd) Container \<Rightarrow>
   ('ip, 'd) Container" where
  "onListenOpen lib cfg nsIps pid addr c =
     (if port_ShouldBeSkipped (PortFilter cfg) (snd addr) then c
      else
        (let byPid = (case map_of (c_listens c) addr of Some m \<Rightarrow> m | None \<Rightarrow> []);
             addrs = (if IsUnspecified (lib_net lib) (fst addr) then (case nsIps pid of Some l \<Rightarrow> l | None \<Rightarrow> []) else []) in
         c\<lparr>c_listens := AList.update addr (AList.update pid \<lparr>ld_ClosedAt = 0, ld_NsIPs = addrs\<rparr> byPid) (c_listens c)\<rparr>))"

definition onListenClose :: "int \<Rightarrow> u32 \<Rightarrow> 'ip ipport \<Rightarrow> ('ip, 'd) Container \<Rightarrow> ('ip, 'd) Container" where
  "onListenClose now pid addr c =
     (case map_of (c_listens c) addr of
        None \<Rightarrow> c
      | Some byPid \<Rightarrow>
          (case map_of byPid pid of
             None \<Rightarrow> c
           | Some details \<Rightarrow>
               c\<lparr>c_listens := AList.update addr (AList.update pid (details\<lparr>ld_ClosedAt := now\<rparr>) byPid) (c_listens c)\<rparr>))"

text \<open>\<^verbatim>\<open>getListens\<close>: the addresses shown as listening, with 1 when a process has the socket open.\<close>

definition listen_addresses ::
  "('ip, 'd) agent_lib \<Rightarrow> agent_config \<Rightarrow> (u32 \<times> Process) list \<Rightarrow> 'ip ipport \<Rightarrow> (u32 \<times> 'ip ListenDetails) list \<Rightarrow>
   ('ip ipport \<times> nat) list" where
  "listen_addresses lib cfg ps addr byPid =
     (let byPid = filter (\<lambda>(pid, _). map_of ps pid \<noteq> None) byPid;
          isHost = list_ex (\<lambda>(pid, _). case map_of ps pid of Some p \<Rightarrow> isHostNs cfg p | None \<Rightarrow> False) byPid;
          open' = (if list_ex (\<lambda>(_, details). ld_ClosedAt details = 0) byPid then 1 else 0);
          addrs = (if IsUnspecified (lib_net lib) (fst addr) then concat (map (\<lambda>(_, details). ld_NsIPs details) byPid)
                   else [fst addr]) in
      map (\<lambda>a. ((a, snd addr), open')) (filter (\<lambda>a. \<not> (IsLoopback (lib_net lib) a \<and> \<not> isHost)) addrs))"

definition getListens :: "('ip, 'd) agent_lib \<Rightarrow> agent_config \<Rightarrow> ('ip, 'd) Container \<Rightarrow> ('ip ipport \<times> nat) list" where
  "getListens lib cfg c =
     foldl (\<lambda>res (addr, byPid). foldl (\<lambda>res (a, open'). AList.update a open' res) res
       (listen_addresses lib cfg (c_processes c) addr byPid)) [] (c_listens c)"

section \<open>Connections\<close>

definition zero_ConnectionStats :: ConnectionStats where
  "zero_ConnectionStats = \<lparr>cs_Count = 0, cs_TotalTime = 0, cs_Retransmissions = 0, cs_BytesSent = 0, cs_BytesReceived = 0\<rparr>"

definition stats_of :: "('ip, 'd) Container \<Rightarrow> 'ip DestinationKey \<Rightarrow> ConnectionStats" where
  "stats_of c key = (case map_of (c_connectionStats c) key of Some s \<Rightarrow> s | None \<Rightarrow> zero_ConnectionStats)"

text \<open>The branch of \<^verbatim>\<open>onConnectionOpen\<close> for a connection that was established.\<close>

definition add_connection ::
  "int \<Rightarrow> 'ip DestinationKey \<Rightarrow> u32 \<Rightarrow> u64 \<Rightarrow> 'ip ConnectionKey \<Rightarrow> u64 \<Rightarrow> s64 \<Rightarrow> ('ip, 'd) Container \<Rightarrow> ('ip, 'd) Container" where
  "add_connection now key pid fd src_dst timestamp duration c =
     (let stats = stats_of c key;
          stats = stats\<lparr>cs_Count := cs_Count stats + 1, cs_TotalTime := cs_TotalTime stats + duration\<rparr>;
          connection = \<lparr>ac_DestinationKey = key, ac_Pid = pid, ac_Fd = fd, ac_Timestamp = timestamp, ac_Closed = 0,
            ac_BytesSent = 0, ac_BytesReceived = 0, ac_http2Parser = None, ac_postgresParser = None, ac_mysqlParser = None\<rparr>;
          ptr = length (c_conns c);
          conns = c_conns c @ [connection];
          conns = (case map_of (c_connectionsByPidFd c) (pid, fd) of
                     Some prev \<Rightarrow> conns[prev := (conns ! prev)\<lparr>ac_Closed := now\<rparr>]
                   | None \<Rightarrow> conns) in
      c\<lparr>c_connectionStats := AList.update key stats (c_connectionStats c),
        c_conns := conns,
        c_activeConnections := AList.update src_dst ptr (c_activeConnections c),
        c_connectionsByPidFd := AList.update (pid, fd) ptr (c_connectionsByPidFd c)\<rparr>)"

definition onConnectionOpen ::
  "('ip, 'd) agent_lib \<Rightarrow> agent_config \<Rightarrow> ('ip ipport \<Rightarrow> 'ip ipport \<Rightarrow> 'ip ipport option) \<Rightarrow> ('ip \<Rightarrow> Domain option) \<Rightarrow> int \<Rightarrow>
   u32 \<Rightarrow> u64 \<Rightarrow> 'ip ipport \<Rightarrow> 'ip ipport \<Rightarrow> 'ip ipport \<Rightarrow> u64 \<Rightarrow> bool \<Rightarrow> s64 \<Rightarrow> ('ip, 'd) Container \<Rightarrow> ('ip, 'd) Container" where
  "onConnectionOpen lib cfg cilium getDomain now pid fd src dst actualDst timestamp failed duration c =
     (if port_ShouldBeSkipped (PortFilter cfg) (snd dst) then c
      else case map_of (c_processes c) pid of
        None \<Rightarrow> c
      | Some p \<Rightarrow>
          if IsLoopback (lib_net lib) (fst dst) \<and> \<not> isHostNs cfg p then c
          else
            (let actualDst = (if snd actualDst = 0 then (case cilium src dst of Some a \<Rightarrow> a | None \<Rightarrow> dst) else actualDst) in
             if IsLoopback (lib_net lib) (fst actualDst) \<and> \<not> isHostNs cfg p then c
             else
               (let (skip, wl) = connection_ShouldBeSkipped (lib_net lib) (fst dst) (fst actualDst) (c_whitelist c);
                    c = c\<lparr>c_whitelist := wl\<rparr> in
                if skip then c
                else
                  (let key = NewDestinationKey (lib_net lib) dst actualDst (getDomain (fst dst));
                       c = (if failed
                            then c\<lparr>c_failedConnectionAttempts := AList.update (dk_destination key)
                              ((case map_of (c_failedConnectionAttempts c) (dk_destination key) of Some n \<Rightarrow> n | None \<Rightarrow> 0) + 1)
                              (c_failedConnectionAttempts c)\<rparr>
                            else add_connection now key pid fd (src, dst) timestamp duration c) in
                   c\<lparr>c_lastConnectionAttempts := AList.update (dk_destination key) now (c_lastConnectionAttempts c)\<rparr>))))"

definition updateConnectionTrafficStats ::
  "nat option \<Rightarrow> u64 \<Rightarrow> u64 \<Rightarrow> ('ip, 'd) Container \<Rightarrow> ('ip, 'd) Container" where
  "updateConnectionTrafficStats ptr sent received c =
     (case ptr of
        None \<Rightarrow> c
      | Some i \<Rightarrow>
          (let ac = c_conns c ! i;
               stats = stats_of c (ac_DestinationKey ac);
               stats = (if sent > ac_BytesSent ac
                        then stats\<lparr>cs_BytesSent := cs_BytesSent stats + (sent - ac_BytesSent ac)\<rparr> else stats);
               stats = (if received > ac_BytesReceived ac
                        then stats\<lparr>cs_BytesReceived := cs_BytesReceived stats + (received - ac_BytesReceived ac)\<rparr> else stats) in
           c\<lparr>c_connectionStats := AList.update (ac_DestinationKey ac) stats (c_connectionStats c),
             c_conns := (c_conns c)[i := ac\<lparr>ac_BytesSent := sent, ac_BytesReceived := received\<rparr>]\<rparr>))"

record TrafficStatsUpdate =
  tu_Pid :: u32
  tu_FD :: u64
  tu_BytesSent :: u64
  tu_BytesReceived :: u64

definition updateTrafficStats :: "TrafficStatsUpdate option \<Rightarrow> ('ip, 'd) Container \<Rightarrow> ('ip, 'd) Container" where
  "updateTrafficStats u c =
     (case u of
        None \<Rightarrow> c
      | Some u \<Rightarrow>
          updateConnectionTrafficStats (map_of (c_connectionsByPidFd c) (tu_Pid u, tu_FD u)) (tu_BytesSent u) (tu_BytesReceived u) c)"

definition onConnectionClose :: "int \<Rightarrow> 'ip Event \<Rightarrow> ('ip, 'd) Container \<Rightarrow> ('ip, 'd) Container" where
  "onConnectionClose now e c =
     (case map_of (c_connectionsByPidFd c) (Ev_Pid e, Ev_Fd e) of
        None \<Rightarrow> c
      | Some i \<Rightarrow>
          (let conn = c_conns c ! i in
           if ac_Timestamp conn \<noteq> 0 \<and> ac_Timestamp conn \<noteq> Ev_Timestamp e then c
           else if ac_Closed conn = 0 then
             (let c = (case Ev_TrafficStats e of
                         Some t \<Rightarrow> updateConnectionTrafficStats (Some i) (BytesSent t) (BytesReceived t) c
                       | None \<Rightarrow> c) in
              c\<lparr>c_conns := (c_conns c)[i := (c_conns c ! i)\<lparr>ac_Closed := now\<rparr>]\<rparr>)
           else c))"

definition onRetransmission :: "'ip ipport \<Rightarrow> 'ip ipport \<Rightarrow> ('ip, 'd) Container \<Rightarrow> bool \<times> ('ip, 'd) Container" where
  "onRetransmission src dst c =
     (case map_of (c_activeConnections c) (src, dst) of
        None \<Rightarrow> (False, c)
      | Some i \<Rightarrow>
          (let key = ac_DestinationKey (c_conns c ! i);
               stats = stats_of c key;
               stats = stats\<lparr>cs_Retransmissions := cs_Retransmissions stats + 1\<rparr> in
           (True, c\<lparr>c_connectionStats := AList.update key stats (c_connectionStats c)\<rparr>)))"

section \<open>Metrics of requests\<close>

text \<open>
  \<^verbatim>\<open>GetMetricWithLabelValues\<close> fails for a wrong number of label values and for values that are not valid
  text; a counter that is found is incremented.
\<close>

definition counter_Inc ::
  "(gostring \<Rightarrow> bool) \<Rightarrow> gostring list \<Rightarrow> nat \<times> (gostring list \<Rightarrow> nat) \<Rightarrow> nat \<times> (gostring list \<Rightarrow> nat)" where
  "counter_Inc valid labels req =
     (if length labels = fst req \<and> list_all valid labels
      then (fst req, (snd req)(labels := snd req labels + 1)) else req)"

definition observe :: "(gostring \<Rightarrow> bool) \<Rightarrow> gostring \<Rightarrow> gostring \<Rightarrow> s64 \<Rightarrow> L7Metrics \<Rightarrow> L7Metrics" where
  "observe valid status meth duration m =
     (let m = (case m_Requests m of
                 None \<Rightarrow> m
               | Some req \<Rightarrow>
                   m\<lparr>m_Requests := Some (counter_Inc valid (if meth \<noteq> [] then [status, meth] else [status]) req)\<rparr>) in
      case m_Latency m of
        None \<Rightarrow> m
      | Some l \<Rightarrow> if duration \<noteq> 0 then m\<lparr>m_Latency := Some (l @ [duration])\<rparr> else m)"

text \<open>\<^verbatim>\<open>L7Stats.get\<close>: HTTP/2 is counted with HTTP; messages of queues have a method and no latency.\<close>

definition stats_protocol :: "u8 \<Rightarrow> u8" where
  "stats_protocol protocol = (if protocol = PROTOCOL_HTTP2 then PROTOCOL_HTTP else protocol)"

definition new_metrics :: "u8 \<Rightarrow> L7Metrics" where
  "new_metrics protocol =
     (if protocol = PROTOCOL_RABBITMQ \<or> protocol = PROTOCOL_NATS
      then \<lparr>m_Requests = Some (2, \<lambda>_. 0), m_Latency = None\<rparr>
      else \<lparr>m_Requests = Some (1, \<lambda>_. 0), m_Latency = Some []\<rparr>)"

definition L7Stats_get :: "u8 \<Rightarrow> 'ip DestinationKey \<Rightarrow> ('ip, 'd) Container \<Rightarrow> ('ip, 'd) Container" where
  "L7Stats_get protocol key c =
     (let protocol = stats_protocol protocol in
      case c_l7Stats c (protocol, key) of
        Some _ \<Rightarrow> c
      | None \<Rightarrow> c\<lparr>c_l7Stats := (c_l7Stats c)((protocol, key) \<mapsto> new_metrics protocol)\<rparr>)"

definition L7Stats_delete ::
  "'ip HostPort \<Rightarrow> (u8 \<times> 'ip DestinationKey \<rightharpoonup> L7Metrics) \<Rightarrow> u8 \<times> 'ip DestinationKey \<rightharpoonup> L7Metrics" where
  "L7Stats_delete dst s = (\<lambda>(protocol, d). if dk_destination d = dst then None else s (protocol, d))"

text \<open>\<^verbatim>\<open>stats.observe\<close> on what \<^verbatim>\<open>get\<close> returned.\<close>

definition stats_observe ::
  "('ip, 'd) agent_lib \<Rightarrow> u8 \<Rightarrow> 'ip DestinationKey \<Rightarrow> gostring \<Rightarrow> gostring \<Rightarrow> s64 \<Rightarrow> ('ip, 'd) Container \<Rightarrow> ('ip, 'd) Container" where
  "stats_observe lib protocol key status meth duration c =
     c\<lparr>c_l7Stats := (c_l7Stats c)((stats_protocol protocol, key) :=
       map_option (observe (lib_valid_label lib) status meth duration) (c_l7Stats c (stats_protocol protocol, key)))\<rparr>"

section \<open>Requests\<close>

definition onDNSRequest ::
  "('ip, 'd) agent_lib \<Rightarrow> RequestData \<Rightarrow> ('ip, 'd) Container \<Rightarrow> ('ip \<times> Domain) list \<times> ('ip, 'd) Container" where
  "onDNSRequest lib r c =
     (let status = Status_DNS (rd_Status r) in
      if status = [] then ([], c)
      else
        (let (t, fqdn, addrs) = ParseDns (lib_dns lib) (rd_Payload r) in
         if t = [] then ([], c)
         else
           (let fqdn = NormalizeFQDN fqdn t in
            if t = ascii ''TypeAAAA'' \<and> rd_Status r = 0 \<and> addrs = [] then ([], c)
            else
              (let m = c_dnsStats c;
                   req = (case m_Requests m of Some req \<Rightarrow> req | None \<Rightarrow> (3, \<lambda>_. 0));
                   m = m\<lparr>m_Requests := Some (counter_Inc (lib_valid_label lib) [t, fqdn, status] req)\<rparr>;
                   m = (if rd_Duration r \<noteq> 0
                        then m\<lparr>m_Latency := Some ((case m_Latency m of Some l \<Rightarrow> l | None \<Rightarrow> []) @ [rd_Duration r])\<rparr> else m);
                   d = NewDomain (lib_net lib) fqdn addrs in
               (if fqdn \<noteq> [] then map (\<lambda>a. (a, d)) addrs else [], c\<lparr>c_dnsStats := m\<rparr>)))))"

definition update_conn ::
  "nat \<Rightarrow> (('ip, 'd) ActiveConnection \<Rightarrow> ('ip, 'd) ActiveConnection) \<Rightarrow> ('ip, 'd) Container \<Rightarrow> ('ip, 'd) Container" where
  "update_conn i f c = c\<lparr>c_conns := (c_conns c)[i := f (c_conns c ! i)]\<rparr>"

definition add_spans :: "(span_log \<Rightarrow> span_log) \<Rightarrow> ('ip, 'd) Container \<Rightarrow> ('ip, 'd) Container" where
  "add_spans f c = c\<lparr>c_spans := f (c_spans c)\<rparr>"

text \<open>The requests an HTTP/2 parser returned, one after the other.\<close>

fun observe_http2 ::
  "('ip, 'd) agent_lib \<Rightarrow> agent_config \<Rightarrow> span_env \<Rightarrow> 'ip Trace option \<Rightarrow> 'ip DestinationKey \<Rightarrow> Http2Request list \<Rightarrow>
   ('ip, 'd) Container \<Rightarrow> ('ip, 'd) Container" where
  "observe_http2 lib cfg env trace key [] c = c"
| "observe_http2 lib cfg env trace key (req # reqs) c =
     observe_http2 lib cfg env trace key reqs
       (if http_ShouldBeSkipped (HttpFilter cfg) (h2_Path req) then c
        else
          (let status = (if h2_GrpcStatus req \<ge> 0 then Status_GRPC (h2_GrpcStatus req) else Status_Http (h2_Status req)) in
           add_spans (Http2Request_span (lib_net lib) env trace (h2_Method req) (h2_Path req) (h2_Scheme req) (h2_Status req)
               (h2_GrpcStatus req) (h2_Duration req))
             (stats_observe lib PROTOCOL_HTTP2 key status [] (h2_Duration req) c)))"

text \<open>\<^verbatim>\<open>onL7Request\<close> for the connection \<open>i\<close>, from the switch on.\<close>

definition l7_request_of_conn ::
  "('ip, 'd) agent_lib \<Rightarrow> agent_config \<Rightarrow> span_env \<Rightarrow> 'ip Trace option \<Rightarrow> nat \<Rightarrow> RequestData \<Rightarrow> ('ip, 'd) Container \<Rightarrow>
   ('ip, 'd) Container go" where
  "l7_request_of_conn lib cfg env trace i r c =
     (let conn = c_conns c ! i; key = ac_DestinationKey conn; protocol = rd_Protocol r; d = rd_Duration r;
          err = Status_Error (rd_Status r);
          observed = stats_observe lib protocol key (Status_String (rd_Status r)) [] d in
      if protocol = PROTOCOL_HTTP then
        (let (meth, path) = ParseHttp (rd_Payload r) in
         Ret (if http_ShouldBeSkipped (HttpFilter cfg) path then c
              else add_spans (HttpRequest (lib_net lib) env trace meth path (rd_Status r) d)
                (stats_observe lib protocol key (Status_Http (rd_Status r)) [] d c)))
      else if protocol = PROTOCOL_HTTP2 then
        (let parser = (case ac_http2Parser conn of Some p \<Rightarrow> p | None \<Rightarrow> NewHttp2Parser (lib_hpack lib));
             (requests, parser) = Http2Parser_Parse (lib_hpack lib) (lib_range lib) (rd_Method r) (rd_Payload r) d parser in
         Ret (observe_http2 lib cfg env trace key requests
           (update_conn i (\<lambda>conn. conn\<lparr>ac_http2Parser := Some parser\<rparr>) c)))
      else if protocol = PROTOCOL_POSTGRES then
        (let c = (if rd_Method r \<noteq> METHOD_STATEMENT_CLOSE then observed c else c);
             parser = (case ac_postgresParser conn of Some p \<Rightarrow> p | None \<Rightarrow> Map.empty) in
         go_bind (PostgresParser_Parse parser (rd_Payload r)) (\<lambda>(query, parser).
           Ret (add_spans (PostgresQuery env trace query err d)
             (update_conn i (\<lambda>conn. conn\<lparr>ac_postgresParser := Some parser\<rparr>) c))))
      else if protocol = PROTOCOL_MYSQL then
        (let c = (if rd_Method r \<noteq> METHOD_STATEMENT_CLOSE then observed c else c);
             parser = (case ac_mysqlParser conn of Some p \<Rightarrow> p | None \<Rightarrow> Map.empty) in
         go_bind (MysqlParser_Parse parser (rd_Payload r) (rd_StatementId r)) (\<lambda>(query, parser).
           Ret (add_spans (MysqlQuery env trace query err d)
             (update_conn i (\<lambda>conn. conn\<lparr>ac_mysqlParser := Some parser\<rparr>) c))))
      else if protocol = PROTOCOL_MEMCACHED then
        (let (cmd, items) = ParseMemcached (rd_Payload r) in
         Ret (add_spans (MemcachedQuery env trace cmd items err d) (observed c)))
      else if protocol = PROTOCOL_REDIS then
        (let (cmd, args) = ParseRedis (rd_Payload r) in
         Ret (add_spans (RedisQuery env trace cmd args err d) (observed c)))
      else if protocol = PROTOCOL_MONGO then
        Ret (add_spans (MongoQuery env trace (ParseMongo (lib_bson lib) (rd_Payload r)) err d) (observed c))
      else if protocol = PROTOCOL_KAFKA \<or> protocol = PROTOCOL_CASSANDRA then Ret (observed c)
      else if protocol = PROTOCOL_RABBITMQ \<or> protocol = PROTOCOL_NATS then
        Ret (stats_observe lib protocol key (Status_String (rd_Status r)) (Method_String (rd_Method r)) 0 c)
      else if protocol = PROTOCOL_DUBBO2 then Ret (observed c)
      else if protocol = PROTOCOL_CLICKHOUSE then
        go_bind (ParseClickhouse (lib_ch lib) (lib_ch_version lib) (rd_Payload r)) (\<lambda>query.
          Ret (add_spans (ClickhouseQuery env trace query err d) (observed c)))
      else if protocol = PROTOCOL_ZOOKEEPER then
        (let (op, arg) = ParseZookeeper (rd_Payload r) in
         Ret (add_spans (ZookeeperRequest env trace op arg (rd_Status r) d)
           (stats_observe lib protocol key (Status_Zookeeper (rd_Status r)) [] d c)))
      else if protocol = PROTOCOL_FOUNDATIONDB then Ret (observed c)
      else Ret c)"

definition onL7Request ::
  "('ip, 'd) agent_lib \<Rightarrow> agent_config \<Rightarrow> span_env \<Rightarrow> u32 \<Rightarrow> u64 \<Rightarrow> u64 \<Rightarrow> RequestData \<Rightarrow> ('ip, 'd) Container \<Rightarrow>
   (('ip \<times> Domain) list \<times> ('ip, 'd) Container) go" where
  "onL7Request lib cfg env pid fd timestamp r c =
     (if rd_Protocol r = PROTOCOL_DNS then Ret (onDNSRequest lib r c)
      else case map_of (c_connectionsByPidFd c) (pid, fd) of
        None \<Rightarrow> Ret ([], c)
      | Some i \<Rightarrow>
          (let conn = c_conns c ! i in
           if timestamp \<noteq> 0 \<and> ac_Timestamp conn \<noteq> timestamp then Ret ([], c)
           else
             (let c = L7Stats_get (rd_Protocol r) (ac_DestinationKey conn) c;
                  ebpfTracesDisabled = list_ex (\<lambda>(_, p). pr_EbpfTracesDisabled p) (c_processes c);
                  trace = (if ebpfTracesDisabled then None
                           else Some (NewTrace (lib_net lib) (ActualDestinationIfKnown (ac_DestinationKey conn)))) in
              go_bind (l7_request_of_conn lib cfg env trace i r c) (\<lambda>c. Ret ([], c)))))"

section \<open>Garbage collection\<close>

record 'ip Sock =
  so_Listen :: bool
  so_SAddr :: "'ip ipport"
  so_DAddr :: "'ip ipport"
  so_Inode :: gostring

text \<open>The sockets of the namespaces of the processes, each namespace once.\<close>

fun gc_sockets ::
  "(u32 \<Rightarrow> 'ip Sock list option) \<Rightarrow> (u32 \<times> Process) list \<Rightarrow> gostring list \<Rightarrow> 'ip Sock list" where
  "gc_sockets getSockets [] seen = []"
| "gc_sockets getSockets ((pid, p) # ps) seen =
     (if pr_NetNsId p \<in> set seen then gc_sockets getSockets ps seen
      else case getSockets pid of
        None \<Rightarrow> gc_sockets getSockets ps seen
      | Some sockets \<Rightarrow> sockets @ gc_sockets getSockets ps (pr_NetNsId p # seen))"

definition gc_drops :: "int \<Rightarrow> 'ip ConnectionKey list \<Rightarrow> 'ip ConnectionKey \<Rightarrow> ('ip, 'd) ActiveConnection \<Rightarrow> bool" where
  "gc_drops now established k conn \<longleftrightarrow>
     k \<notin> set established \<or> ac_Closed conn \<noteq> 0 \<and> now - ac_Closed conn > gcInterval"

text \<open>The loop over the active connections: the container and the destinations of established ones.\<close>

fun gc_connections ::
  "int \<Rightarrow> 'ip ConnectionKey list \<Rightarrow> ('ip ConnectionKey \<times> nat) list \<Rightarrow> ('ip, 'd) Container \<Rightarrow> ('ip, 'd) Container" where
  "gc_connections now established [] c = c"
| "gc_connections now established ((k, i) # ks) c =
     gc_connections now established ks
       (let conn = c_conns c ! i; pidFd = (ac_Pid conn, ac_Fd conn) in
        if gc_drops now established k conn
        then c\<lparr>c_activeConnections := AList.delete k (c_activeConnections c),
               c_connectionsByPidFd := (if map_of (c_connectionsByPidFd c) pidFd = Some i
                 then AList.delete pidFd (c_connectionsByPidFd c) else c_connectionsByPidFd c)\<rparr>
        else c)"

definition established_destinations ::
  "'ip ConnectionKey list \<Rightarrow> ('ip, 'd) Container \<Rightarrow> 'ip HostPort list" where
  "established_destinations established c =
     map (\<lambda>(_, i). dk_destination (ac_DestinationKey (c_conns c ! i)))
       (filter (\<lambda>(k, _). k \<in> set established) (c_activeConnections c))"

fun gc_destinations ::
  "int \<Rightarrow> 'ip HostPort list \<Rightarrow> ('ip HostPort \<times> int) list \<Rightarrow> ('ip, 'd) Container \<Rightarrow> ('ip, 'd) Container" where
  "gc_destinations now establishedDst [] c = c"
| "gc_destinations now establishedDst ((dst, at) # ds) c =
     gc_destinations now establishedDst ds
       (if dst \<notin> set establishedDst \<and> at \<noteq> 0 \<and> now - at > gcInterval
        then c\<lparr>c_lastConnectionAttempts := AList.delete dst (c_lastConnectionAttempts c),
               c_failedConnectionAttempts := AList.delete dst (c_failedConnectionAttempts c),
               c_connectionStats := filter (\<lambda>(d, _). dk_destination d \<noteq> dst) (c_connectionStats c),
               c_l7Stats := L7Stats_delete dst (c_l7Stats c)\<rparr>
        else c)"

text \<open>
  \<^verbatim>\<open>revalidateListens\<close>: sockets that no longer listen are closed, those missed are opened, those
  closed long ago are forgotten. \<open>readFds\<close> gives the inodes of the sockets of a process.
\<close>

definition close_outdated :: "int \<Rightarrow> ('ip ipport \<times> gostring) list \<Rightarrow> ('ip, 'd) Container \<Rightarrow> ('ip, 'd) Container" where
  "close_outdated now actual c =
     c\<lparr>c_listens := map (\<lambda>(addr, byPid).
        (addr, if map_of actual addr \<noteq> None then byPid
               else map (\<lambda>(pid, details).
                 (pid, if ld_ClosedAt details = 0 then details\<lparr>ld_ClosedAt := now\<rparr> else details)) byPid)) (c_listens c)\<rparr>"

definition missing_listens :: "('ip ipport \<times> gostring) list \<Rightarrow> ('ip, 'd) Container \<Rightarrow> ('ip ipport \<times> gostring) list" where
  "missing_listens actual c =
     filter (\<lambda>(addr, _). case map_of (c_listens c) addr of
        None \<Rightarrow> True
      | Some byPid \<Rightarrow> \<not> list_ex (\<lambda>(_, details). ld_ClosedAt details = 0) byPid) actual"

definition inodes_to_pids :: "(u32 \<Rightarrow> gostring list option) \<Rightarrow> (u32 \<times> Process) list \<Rightarrow> (gostring \<times> u32) list" where
  "inodes_to_pids readFds ps =
     foldl (\<lambda>m (pid, _). case readFds pid of
              None \<Rightarrow> m
            | Some fds \<Rightarrow> foldl (\<lambda>m inode. if inode \<noteq> [] then AList.update inode pid m else m) m fds) [] ps"

definition revalidateListens ::
  "('ip, 'd) agent_lib \<Rightarrow> agent_config \<Rightarrow> (u32 \<Rightarrow> 'ip list option) \<Rightarrow> (u32 \<Rightarrow> gostring list option) \<Rightarrow> int \<Rightarrow>
   ('ip ipport \<times> gostring) list \<Rightarrow> ('ip, 'd) Container \<Rightarrow> ('ip, 'd) Container" where
  "revalidateListens lib cfg nsIps readFds now actual c =
     (let c = close_outdated now actual c;
          missing = missing_listens actual c;
          inodeToPid = inodes_to_pids readFds (c_processes c);
          c = foldl (\<lambda>c (addr, inode). case map_of inodeToPid inode of
                       None \<Rightarrow> c | Some pid \<Rightarrow> onListenOpen lib cfg nsIps pid addr c) c missing in
      c\<lparr>c_listens := filter (\<lambda>(_, byPid). byPid \<noteq> []) (map (\<lambda>(addr, byPid).
        (addr, filter (\<lambda>(_, details). \<not> (ld_ClosedAt details \<noteq> 0 \<and> now - ld_ClosedAt details > gcInterval)) byPid))
        (c_listens c))\<rparr>)"

definition container_gc ::
  "('ip, 'd) agent_lib \<Rightarrow> agent_config \<Rightarrow> (u32 \<Rightarrow> 'ip Sock list option) \<Rightarrow> (u32 \<Rightarrow> 'ip list option) \<Rightarrow>
   (u32 \<Rightarrow> gostring list option) \<Rightarrow> int \<Rightarrow> ('ip, 'd) Container \<Rightarrow> ('ip, 'd) Container" where
  "container_gc lib cfg getSockets nsIps readFds now c =
     (let sockets = gc_sockets getSockets (c_processes c) [];
          listens = foldl (\<lambda>m s. if so_Listen s then AList.update (so_SAddr s) (so_Inode s) m else m) [] sockets;
          established = map (\<lambda>s. (so_SAddr s, so_DAddr s)) (filter (\<lambda>s. \<not> so_Listen s) sockets);
          c = revalidateListens lib cfg nsIps readFds now listens c;
          establishedDst = established_destinations established c;
          c = gc_connections now established (c_activeConnections c) c in
      gc_destinations now establishedDst (c_lastConnectionAttempts c) c)"

end
