(* ===== verification/Container_Traffic.thy ===== *)
theory Container_Traffic
  imports Container
begin

text \<open>
  The bookkeeping of connections: over any sequence of calls of the handlers of a container the two
  maps of connections point to the connections they are meant to, and the traffic of a destination
  is the sum of what was last reported of its connections, however the reports of polls and of
  closed connections are mixed.
\<close>

section \<open>Sequences of calls\<close>

datatype 'ip container_op =
  ProcessStart u32 "int option" Process
| ProcessExit int u32 bool
| NodejsStats u32 s64
| PythonStats u32 s64
| TaskDelays "u32 \<Rightarrow> Delays option"
| ListenOpen "u32 \<Rightarrow> 'ip list option" u32 "'ip ipport"
| ListenClose int u32 "'ip ipport"
| ConnectionOpen "'ip ipport \<Rightarrow> 'ip ipport \<Rightarrow> 'ip ipport option" "'ip \<Rightarrow> Domain option" int u32 u64
    "'ip ipport" "'ip ipport" "'ip ipport" u64 bool s64
| ConnectionClose int "'ip Event"
| Traffic "TrafficStatsUpdate option"
| Retransmission "'ip ipport" "'ip ipport"
| L7Request span_env u32 u64 u64 RequestData
| Gc "u32 \<Rightarrow> 'ip Sock list option" "u32 \<Rightarrow> 'ip list option" "u32 \<Rightarrow> gostring list option" int

fun apply_op :: "('ip, 'd) agent_lib \<Rightarrow> agent_config \<Rightarrow> 'ip container_op \<Rightarrow> ('ip, 'd) Container \<Rightarrow> ('ip, 'd) Container go" where
  "apply_op lib cfg (ProcessStart pid t p) c = Ret (onProcessStart pid t p c)"
| "apply_op lib cfg (ProcessExit now pid oom) c = Ret (onProcessExit now pid oom c)"
| "apply_op lib cfg (NodejsStats pid d) c = Ret (updateNodejsStats pid d c)"
| "apply_op lib cfg (PythonStats pid d) c = Ret (updatePythonStats pid d c)"
| "apply_op lib cfg (TaskDelays taskstats) c = Ret (updateDelays taskstats c)"
| "apply_op lib cfg (ListenOpen nsIps pid a) c = Ret (onListenOpen lib cfg nsIps pid a c)"
| "apply_op lib cfg (ListenClose now pid a) c = Ret (onListenClose now pid a c)"
| "apply_op lib cfg (ConnectionOpen cilium domain now pid fd src dst act ts failed d) c =
     Ret (onConnectionOpen lib cfg cilium domain now pid fd src dst act ts failed d c)"
| "apply_op lib cfg (ConnectionClose now e) c = Ret (onConnectionClose now e c)"
| "apply_op lib cfg (Traffic u) c = Ret (updateTrafficStats u c)"
| "apply_op lib cfg (Retransmission src dst) c = Ret (snd (onRetransmission src dst c))"
| "apply_op lib cfg (L7Request env pid fd ts r) c = go_bind (onL7Request lib cfg env pid fd ts r c) (\<lambda>(_, c). Ret c)"
| "apply_op lib cfg (Gc sockets nsIps readFds now) c = Ret (container_gc lib cfg sockets nsIps readFds now c)"

fun run_ops ::
  "('ip, 'd) agent_lib \<Rightarrow> agent_config \<Rightarrow> 'ip container_op list \<Rightarrow> ('ip, 'd) Container \<Rightarrow> ('ip, 'd) Container go" where
  "run_ops lib cfg [] c = Ret c"
| "run_ops lib cfg (x # xs) c = go_bind (apply_op lib cfg x c) (run_ops lib cfg xs)"

lemma go_bind_Ret: "go_bind m f = Ret y \<longleftrightarrow> (\<exists>x. m = Ret x \<and> f x = Ret y)"
  by (cases m) auto

section \<open>What a request leaves alone\<close>

text \<open>All of a connection but its parsers.\<close>

definition conn_view :: "('ip, 'd) ActiveConnection \<Rightarrow> 'ip DestinationKey \<times> u32 \<times> u64 \<times> u64 \<times> int \<times> u64 \<times> u64" where
  "conn_view ac = (ac_DestinationKey ac, ac_Pid ac, ac_Fd ac, ac_Timestamp ac, ac_Closed ac, ac_BytesSent ac, ac_BytesReceived ac)"

definition books_of where
  "books_of c = (c_processes c, c_connectionStats c, c_activeConnections c, c_connectionsByPidFd c, map conn_view (c_conns c))"

lemma books_nth:
  assumes "books_of c' = books_of c" and "i < length (c_conns c)"
  shows "conn_view (c_conns c' ! i) = conn_view (c_conns c ! i)" and "i < length (c_conns c')"
proof -
  have v: "map conn_view (c_conns c') = map conn_view (c_conns c)" using assms(1) by (simp add: books_of_def)
  then have l: "length (c_conns c') = length (c_conns c)" by (rule map_eq_imp_length_eq)
  then show "i < length (c_conns c')" using assms(2) by simp
  show "conn_view (c_conns c' ! i) = conn_view (c_conns c ! i)"
    using arg_cong [OF v, of "\<lambda>xs. xs ! i"] assms(2) l by simp
qed

lemma books_metrics [simp]:
  "books_of (stats_observe lib p k st m d c) = books_of c" "books_of (add_spans f c) = books_of c"
  "books_of (L7Stats_get p k c) = books_of c"
  by (simp_all add: books_of_def stats_observe_def add_spans_def L7Stats_get_def Let_def split: option.split)

lemma books_update:
  assumes "\<And>ac. conn_view (f ac) = conn_view ac"
  shows "books_of (update_conn i f c) = books_of c"
  using assms list_update_id [of "map conn_view (c_conns c)" i]
  by (cases "i < length (c_conns c)") (simp_all add: books_of_def update_conn_def map_update list_update_beyond)

lemma books_parsers [simp]:
  "books_of (update_conn i (\<lambda>conn. conn\<lparr>ac_http2Parser := x\<rparr>) c) = books_of c"
  "books_of (update_conn i (\<lambda>conn. conn\<lparr>ac_postgresParser := y\<rparr>) c) = books_of c"
  "books_of (update_conn i (\<lambda>conn. conn\<lparr>ac_mysqlParser := y\<rparr>) c) = books_of c"
  by (rule books_update, simp add: conn_view_def)+

lemma books_http2 [simp]: "books_of (observe_http2 lib cfg env trace key reqs c) = books_of c"
  by (induction lib cfg env trace key reqs c rule: observe_http2.induct) (simp_all add: Let_def)

lemma l7_request_of_conn_books:
  "l7_request_of_conn lib cfg env trace i r c = Ret c' \<Longrightarrow> books_of c' = books_of c"
  by (auto simp: l7_request_of_conn_def Let_def go_bind_Ret split: if_splits prod.splits)

lemma onL7Request_books:
  "onL7Request lib cfg env pid fd ts r c = Ret (res, c') \<Longrightarrow> books_of c' = books_of c"
  by (auto simp: onL7Request_def onDNSRequest_def Let_def go_bind_Ret split: if_splits prod.splits option.splits
      dest!: l7_request_of_conn_books) (simp_all add: books_of_def)

section \<open>The maps point to connections\<close>

definition pid_fd :: "('ip, 'd) ActiveConnection \<Rightarrow> PidFd" where
  "pid_fd ac = (ac_Pid ac, ac_Fd ac)"

definition conns_wf :: "('ip, 'd) Container \<Rightarrow> bool" where
  "conns_wf c \<longleftrightarrow>
     (\<forall>x\<in>set (c_activeConnections c). snd x < length (c_conns c)) \<and>
     (\<forall>x\<in>set (c_connectionsByPidFd c). snd x < length (c_conns c) \<and> map pid_fd (c_conns c) ! snd x = fst x)"

lemma conns_wfD:
  "conns_wf c \<Longrightarrow> map_of (c_activeConnections c) k = Some i \<Longrightarrow> i < length (c_conns c)"
  "conns_wf c \<Longrightarrow> map_of (c_connectionsByPidFd c) k' = Some i \<Longrightarrow> i < length (c_conns c) \<and> pid_fd (c_conns c ! i) = k'"
  by (auto simp: conns_wf_def dest!: map_of_SomeD bspec)

text \<open>A change that keeps the process and the descriptor of every connection and adds no entry to the maps.\<close>

definition conns_kept :: "('ip, 'd) Container \<Rightarrow> ('ip, 'd) Container \<Rightarrow> bool" where
  "conns_kept c c' \<longleftrightarrow> set (c_activeConnections c') \<subseteq> set (c_activeConnections c) \<and>
     set (c_connectionsByPidFd c') \<subseteq> set (c_connectionsByPidFd c) \<and>
     map pid_fd (c_conns c') = map pid_fd (c_conns c)"

lemma conns_kept_refl [simp]: "conns_kept c c" by (simp add: conns_kept_def)

lemma conns_kept_wf:
  assumes "conns_kept c c'" and "conns_wf c"
  shows "conns_wf c'"
proof -
  have v: "map pid_fd (c_conns c') = map pid_fd (c_conns c)" using assms(1) by (simp add: conns_kept_def)
  then have "length (c_conns c') = length (c_conns c)" by (rule map_eq_imp_length_eq)
  then show ?thesis using assms v unfolding conns_kept_def conns_wf_def by auto
qed

lemma conns_kept_books: "books_of c' = books_of c \<Longrightarrow> conns_kept c c'"
proof -
  assume "books_of c' = books_of c"
  then have v: "map conn_view (c_conns c') = map conn_view (c_conns c)" and
    "c_activeConnections c' = c_activeConnections c" "c_connectionsByPidFd c' = c_connectionsByPidFd c"
    by (simp_all add: books_of_def)
  moreover have "map pid_fd xs = map (\<lambda>(_, pid, fd, _). (pid, fd)) (map conn_view xs)"
    for xs :: "('a, 'b) ActiveConnection list"
    by (simp add: conn_view_def pid_fd_def o_def)
  ultimately show ?thesis by (simp only: conns_kept_def subset_refl)
qed

lemma conns_kept_update:
  "pid_fd ac = pid_fd (c_conns c ! i) \<Longrightarrow>
   conns_kept c (c\<lparr>c_connectionStats := st, c_conns := (c_conns c)[i := ac]\<rparr>)"
  using list_update_id [of "map pid_fd (c_conns c)" i]
  by (cases "i < length (c_conns c)") (simp_all add: conns_kept_def map_update list_update_beyond)

lemma conns_kept_trans: "conns_kept c c' \<Longrightarrow> conns_kept c' c'' \<Longrightarrow> conns_kept c c''"
  by (auto simp: conns_kept_def)

lemma kept_traffic [simp]: "conns_kept c (updateConnectionTrafficStats p sent recv c)"
  by (auto simp: updateConnectionTrafficStats_def Let_def pid_fd_def split: option.split intro!: conns_kept_update)

lemma kept_close [simp]: "conns_kept c (onConnectionClose now e c)"
proof -
  have "conns_kept x (x\<lparr>c_conns := (c_conns x)[i := (c_conns x ! i)\<lparr>ac_Closed := now\<rparr>]\<rparr>)" for x :: "('a, 'b) Container" and i
    using conns_kept_update [of "(c_conns x ! i)\<lparr>ac_Closed := now\<rparr>" x i "c_connectionStats x"] by (simp add: pid_fd_def)
  then show ?thesis
    by (auto simp: onConnectionClose_def Let_def split: option.split intro: conns_kept_trans [OF kept_traffic])
qed

lemma kept_gc_connections: "conns_kept c (gc_connections now est ks c)"
proof (induction now est ks c rule: gc_connections.induct)
  case (2 now est k i ks c)
  show ?case
    by (subst gc_connections.simps, rule conns_kept_trans [OF _ 2])
      (auto simp: conns_kept_def Let_def AList.delete_eq)
qed simp

lemma kept_gc_destinations: "conns_kept c (gc_destinations now est ds c)"
proof (induction now est ds c rule: gc_destinations.induct)
  case (2 now est dst at ds c)
  show ?case by (subst gc_destinations.simps, rule conns_kept_trans [OF _ 2]) (simp add: conns_kept_def)
qed simp

lemma books_listens [simp]: "books_of (c\<lparr>c_listens := l\<rparr>) = books_of c"
  by (simp add: books_of_def)

lemma books_listen_open [simp]: "books_of (onListenOpen lib cfg nsIps pid a c) = books_of c"
  by (simp add: books_of_def onListenOpen_def Let_def)

lemma books_missing:
  "books_of (foldl (\<lambda>c (addr, inode). case map_of m inode of
      None \<Rightarrow> c | Some pid \<Rightarrow> onListenOpen lib cfg nsIps pid addr c) c xs) = books_of c"
  by (induction xs arbitrary: c) (auto split: option.split)

lemma books_revalidate: "books_of (revalidateListens lib cfg nsIps readFds now actual c) = books_of c"
  by (simp only: revalidateListens_def Let_def books_listens books_missing close_outdated_def)

lemma kept_gc: "conns_kept c (container_gc lib cfg sockets nsIps readFds now c)"
  unfolding container_gc_def Let_def
  by (intro conns_kept_trans [OF conns_kept_trans [OF conns_kept_books [OF books_revalidate] kept_gc_connections]
        kept_gc_destinations])

text \<open>The connections after a new one is added: the previous one of the descriptor is closed.\<close>

definition with_connection :: "int \<Rightarrow> ('ip, 'd) Container \<Rightarrow> PidFd \<Rightarrow> ('ip, 'd) ActiveConnection \<Rightarrow> ('ip, 'd) ActiveConnection list" where
  "with_connection now c k ac =
     (case map_of (c_connectionsByPidFd c) k of
        Some prev \<Rightarrow> (c_conns c)[prev := (c_conns c ! prev)\<lparr>ac_Closed := now\<rparr>] @ [ac]
      | None \<Rightarrow> c_conns c @ [ac])"

lemma add_connection_conns:
  assumes "conns_wf c"
  shows "c_conns (add_connection now key pid fd k ts d c) = with_connection now c (pid, fd)
    \<lparr>ac_DestinationKey = key, ac_Pid = pid, ac_Fd = fd, ac_Timestamp = ts, ac_Closed = 0, ac_BytesSent = 0,
     ac_BytesReceived = 0, ac_http2Parser = None, ac_postgresParser = None, ac_mysqlParser = None\<rparr>"
  using conns_wfD(2) [OF assms, of "(pid, fd)"]
  by (auto simp: add_connection_def with_connection_def Let_def nth_append list_update_append split: option.split)

lemma map_with_connection:
  assumes "\<And>ac t. g (ac\<lparr>ac_Closed := t\<rparr>) = g ac"
  shows "map g (with_connection now c k ac) = map g (c_conns c) @ [g ac]"
proof -
  have "map g ((c_conns c)[i := (c_conns c ! i)\<lparr>ac_Closed := now\<rparr>]) = map g (c_conns c)" for i
    using list_update_id [of "map g (c_conns c)" i]
    by (cases "i < length (c_conns c)") (simp_all add: map_update assms list_update_beyond)
  then show ?thesis by (simp add: with_connection_def split: option.split)
qed

lemma length_with_connection [simp]: "length (with_connection now c k ac) = Suc (length (c_conns c))"
  by (simp add: with_connection_def split: option.split)

lemma with_connection_new [simp]: "with_connection now c k ac ! length (c_conns c) = ac"
  by (simp add: with_connection_def nth_append split: option.split)

lemma add_connection_wf:
  assumes "conns_wf c"
  shows "conns_wf (add_connection now key pid fd k ts d c)"
proof -
  let ?c' = "add_connection now key pid fd k ts d c"
  note conns = add_connection_conns [OF assms, of now key pid fd k ts d]
  have active: "set (c_activeConnections ?c') \<subseteq> insert (k, length (c_conns c)) (set (c_activeConnections c))"
    and byPidFd: "set (c_connectionsByPidFd ?c') \<subseteq> insert ((pid, fd), length (c_conns c)) (set (c_connectionsByPidFd c))"
    by (simp_all add: add_connection_def Let_def set_alist_update)
  have v: "map pid_fd (c_conns ?c') = map pid_fd (c_conns c) @ [(pid, fd)]"
    unfolding conns by (subst map_with_connection) (simp_all add: pid_fd_def)
  have l: "length (c_conns ?c') = Suc (length (c_conns c))" by (simp add: conns)
  have old: "snd x < length (c_conns c) \<and> map pid_fd (c_conns c) ! snd x = fst x"
    if "x \<in> set (c_connectionsByPidFd c)" for x
    using that assms unfolding conns_wf_def by blast
  have "snd x < Suc (length (c_conns c))" if "x \<in> set (c_activeConnections ?c')" for x
    using subsetD [OF active that] assms by (auto simp: conns_wf_def less_Suc_eq)
  moreover have "snd x < Suc (length (c_conns c)) \<and> map pid_fd (c_conns ?c') ! snd x = fst x"
    if "x \<in> set (c_connectionsByPidFd ?c')" for x
    using subsetD [OF byPidFd that] old [of x] unfolding v by (cases "x \<in> set (c_connectionsByPidFd c)") (simp_all add: nth_append)
  ultimately show ?thesis unfolding conns_wf_def l by blast
qed

lemma conns_wf_whitelist [simp]:
  "conns_wf (c\<lparr>c_whitelist := w\<rparr>) = conns_wf c" "conns_wf (c\<lparr>c_lastConnectionAttempts := a\<rparr>) = conns_wf c"
  "conns_wf (c\<lparr>c_failedConnectionAttempts := f\<rparr>) = conns_wf c"
  by (simp_all add: conns_wf_def)

lemma onConnectionOpen_wf:
  "conns_wf c \<Longrightarrow> conns_wf (onConnectionOpen lib cfg cilium domain now pid fd src dst act ts failed d c)"
  by (auto simp: onConnectionOpen_def Let_def split: option.split prod.split intro!: add_connection_wf)

lemma kept_processes [simp]:
  "conns_kept c (onProcessStart pid t p c)" "conns_kept c (onProcessExit now pid oom c)"
  "conns_kept c (updateNodejsStats pid d c)" "conns_kept c (updatePythonStats pid d c)" "conns_kept c (updateDelays ts c)"
  "conns_kept c (onListenClose now pid a c)" "conns_kept c (snd (onRetransmission src dst c))"
  by (auto simp: conns_kept_def onProcessStart_def onProcessExit_def updateNodejsStats_def updatePythonStats_def updateDelays_def
      onListenClose_def onRetransmission_def Let_def split: option.split)

lemma apply_op_wf:
  assumes "apply_op lib cfg x c = Ret c'" and "conns_wf c"
  shows "conns_wf c'"
proof (cases x)
  case (L7Request env pid fd ts r)
  then show ?thesis
    using assms by (auto simp: go_bind_Ret dest!: onL7Request_books intro: conns_kept_wf [OF conns_kept_books])
next
  case (Traffic u)
  then show ?thesis using assms by (auto simp: updateTrafficStats_def split: option.splits intro: conns_kept_wf [OF kept_traffic])
next
  case (ConnectionOpen cilium domain now pid fd src dst act ts failed d)
  then show ?thesis using assms by (auto intro: onConnectionOpen_wf)
next
  case (ListenOpen nsIps pid a)
  then show ?thesis using assms by (auto intro: conns_kept_wf [OF conns_kept_books])
qed (use assms in \<open>auto intro: conns_kept_wf [OF kept_gc] conns_kept_wf [OF kept_close] kept_processes [THEN conns_kept_wf]\<close>)

lemma run_ops_wf: "run_ops lib cfg xs c = Ret c' \<Longrightarrow> conns_wf c \<Longrightarrow> conns_wf c'"
  by (induction xs arbitrary: c) (auto simp: go_bind_Ret dest: apply_op_wf)

lemma new_container_wf: "conns_wf (NewContainer wl)"
  by (simp add: conns_wf_def NewContainer_def)

section \<open>Traffic of destinations\<close>

text \<open>The sum of a counter over the connections to a destination.\<close>

definition traffic_total :: "(('ip, 'd) ActiveConnection \<Rightarrow> u64) \<Rightarrow> 'ip DestinationKey \<Rightarrow> ('ip, 'd) ActiveConnection list \<Rightarrow> u64" where
  "traffic_total f d xs = sum_list (map f (filter (\<lambda>ac. ac_DestinationKey ac = d) xs))"

definition accounted :: "'ip DestinationKey \<Rightarrow> ('ip, 'd) Container \<Rightarrow> bool" where
  "accounted q c \<longleftrightarrow> cs_BytesSent (stats_of c q) = traffic_total ac_BytesSent q (c_conns c) \<and>
     cs_BytesReceived (stats_of c q) = traffic_total ac_BytesReceived q (c_conns c) \<and>
     cs_Count (stats_of c q) = traffic_total (\<lambda>_. 1) q (c_conns c)"

lemma total_Cons [simp]: "traffic_total f d (x # xs) = (if ac_DestinationKey x = d then f x + traffic_total f d xs else traffic_total f d xs)"
  and total_append [simp]: "traffic_total f d (xs @ ys) = traffic_total f d xs + traffic_total f d ys"
  and total_Nil [simp]: "traffic_total f d [] = 0"
  by (simp_all add: traffic_total_def)

lemma total_update:
  "i < length xs \<Longrightarrow> ac_DestinationKey ac = ac_DestinationKey (xs ! i) \<Longrightarrow>
   traffic_total f d (xs[i := ac]) = traffic_total f d xs + (if ac_DestinationKey ac = d then f ac - f (xs ! i) else 0)"
proof (induction xs arbitrary: i)
  case (Cons x xs)
  then show ?case by (cases i) simp_all
qed simp

lemma total_with_connection:
  assumes "\<And>ac t. f (ac\<lparr>ac_Closed := t\<rparr>) = f ac" and "conns_wf c"
  shows "traffic_total f d (with_connection now c k ac) = traffic_total f d (c_conns c) + traffic_total f d [ac]"
  using conns_wfD(2) [OF assms(2), of k]
  by (auto simp: with_connection_def total_update assms(1) split: option.split)

lemma stats_of_update:
  "stats_of (c\<lparr>c_connectionStats := AList.update k st (c_connectionStats c)\<rparr>) d = (if d = k then st else stats_of c d)"
  by (simp add: stats_of_def update_conv')

lemma stats_of_cong: "c_connectionStats c' = c_connectionStats c \<Longrightarrow> stats_of c' d = stats_of c d"
  by (simp add: stats_of_def)

lemma accounted_cong:
  "c_connectionStats c' = c_connectionStats c \<Longrightarrow> c_conns c' = c_conns c \<Longrightarrow> accounted q c' = accounted q c"
  by (simp add: accounted_def stats_of_cong [of c' c])

lemma accounted_view:
  fixes c c' :: "('ip, 'd) Container"
  assumes "books_of c' = books_of c"
  shows "accounted q c' = accounted q c"
proof -
  have "traffic_total ac_BytesSent d xs = sum_list (map (\<lambda>(_, _, _, _, _, s, _). s) (filter (\<lambda>v. fst v = d) (map conn_view xs)))"
    and "traffic_total ac_BytesReceived d xs = sum_list (map (\<lambda>(_, _, _, _, _, _, r). r) (filter (\<lambda>v. fst v = d) (map conn_view xs)))"
    and "traffic_total (\<lambda>_. 1) d xs = sum_list (map (\<lambda>_. 1) (filter (\<lambda>v. fst v = d) (map conn_view xs)))"
    for d and xs :: "('ip, 'd) ActiveConnection list"
    by (simp_all add: traffic_total_def filter_map o_def conn_view_def)
  moreover have "map conn_view (c_conns c') = map conn_view (c_conns c)" and "c_connectionStats c' = c_connectionStats c"
    using assms by (simp_all add: books_of_def)
  ultimately show ?thesis by (simp add: accounted_def stats_of_cong [of c' c])
qed

lemma accounted_open:
  assumes "accounted q c" and "conns_wf c"
  shows "accounted q (add_connection now key pid fd k ts d c)"
proof -
  let ?c' = "add_connection now key pid fd k ts d c"
  have "stats_of ?c' d' = (if d' = key then (stats_of c key)\<lparr>cs_Count := cs_Count (stats_of c key) + 1,
      cs_TotalTime := cs_TotalTime (stats_of c key) + d\<rparr> else stats_of c d')" for d'
    by (simp add: add_connection_def Let_def stats_of_def update_conv')
  then show ?thesis
    using assms(1) unfolding accounted_def add_connection_conns [OF assms(2)]
    by (simp add: total_with_connection [OF _ assms(2)])
qed

lemma accounted_traffic:
  assumes "accounted q c" and "i < length (c_conns c)" and "ac_BytesSent (c_conns c ! i) \<le> sent"
    and "ac_BytesReceived (c_conns c ! i) \<le> recv"
  shows "accounted q (updateConnectionTrafficStats (Some i) sent recv c)"
proof -
  let ?ac = "c_conns c ! i" and ?c' = "updateConnectionTrafficStats (Some i) sent recv c"
  have "cs_BytesSent (stats_of ?c' d) = cs_BytesSent (stats_of c d) + (if ac_DestinationKey ?ac = d then sent - ac_BytesSent ?ac else 0)"
    and "cs_BytesReceived (stats_of ?c' d) =
      cs_BytesReceived (stats_of c d) + (if ac_DestinationKey ?ac = d then recv - ac_BytesReceived ?ac else 0)"
    and "cs_Count (stats_of ?c' d) = cs_Count (stats_of c d)" for d
    using assms(3,4)
    by (auto simp: updateConnectionTrafficStats_def Let_def stats_of_def update_conv' not_less)
  moreover have "c_conns ?c' = (c_conns c)[i := ?ac\<lparr>ac_BytesSent := sent, ac_BytesReceived := recv\<rparr>]"
    by (simp add: updateConnectionTrafficStats_def Let_def)
  ultimately show ?thesis using assms(1,2) by (simp add: accounted_def total_update)
qed

lemma accounted_closed:
  assumes "accounted q c" and "i < length (c_conns c)"
  shows "accounted q (c\<lparr>c_conns := (c_conns c)[i := (c_conns c ! i)\<lparr>ac_Closed := now\<rparr>]\<rparr>)"
  using assms by (simp add: accounted_def total_update stats_of_def)

text \<open>
  A report is not below the last one of the connection it is for: the counters of the kernel only
  grow. A garbage collection does not forget the destination \<open>q\<close>.
\<close>

fun grows :: "('ip, 'd) agent_lib \<Rightarrow> agent_config \<Rightarrow> 'ip DestinationKey \<Rightarrow> 'ip container_op \<Rightarrow> ('ip, 'd) Container \<Rightarrow> bool" where
  "grows lib cfg q (ConnectionClose now e) c =
     (case (map_of (c_connectionsByPidFd c) (Ev_Pid e, Ev_Fd e), Ev_TrafficStats e) of
        (Some i, Some t) \<Rightarrow>
          (let ac = c_conns c ! i in
           ac_Timestamp ac \<noteq> 0 \<and> ac_Timestamp ac \<noteq> Ev_Timestamp e \<or> ac_Closed ac \<noteq> 0 \<or>
           ac_BytesSent ac \<le> BytesSent t \<and> ac_BytesReceived ac \<le> BytesReceived t)
      | _ \<Rightarrow> True)"
| "grows lib cfg q (Traffic u) c =
     (case u of
        None \<Rightarrow> True
      | Some u \<Rightarrow>
          (case map_of (c_connectionsByPidFd c) (tu_Pid u, tu_FD u) of
             None \<Rightarrow> True
           | Some i \<Rightarrow> ac_BytesSent (c_conns c ! i) \<le> tu_BytesSent u \<and> ac_BytesReceived (c_conns c ! i) \<le> tu_BytesReceived u))"
| "grows lib cfg q (Gc sockets nsIps readFds now) c =
     (map_of (c_connectionStats c) q = None \<or>
      map_of (c_connectionStats (container_gc lib cfg sockets nsIps readFds now c)) q \<noteq> None)"
| "grows lib cfg q _ c = True"

fun growing ::
  "('ip, 'd) agent_lib \<Rightarrow> agent_config \<Rightarrow> 'ip DestinationKey \<Rightarrow> 'ip container_op list \<Rightarrow> ('ip, 'd) Container \<Rightarrow> bool" where
  "growing lib cfg q [] c = True"
| "growing lib cfg q (x # xs) c = (grows lib cfg q x c \<and> (case apply_op lib cfg x c of Ret c' \<Rightarrow> growing lib cfg q xs c' | Panic \<Rightarrow> True))"

lemma accounted_frame:
  "accounted q (onProcessStart pid t p c) = accounted q c" "accounted q (onProcessExit now pid oom c) = accounted q c"
  "accounted q (updateNodejsStats pid d c) = accounted q c" "accounted q (updatePythonStats pid d c) = accounted q c"
  "accounted q (updateDelays ts c) = accounted q c"
  "accounted q (onListenClose now pid a c) = accounted q c" "accounted q (onListenOpen lib cfg nsIps pid a c) = accounted q c"
  by (rule accounted_cong;
      auto simp: onProcessStart_def onProcessExit_def updateNodejsStats_def updatePythonStats_def updateDelays_def onListenClose_def
        onListenOpen_def Let_def split: option.split)+

lemma accounted_retransmission: "accounted q c \<Longrightarrow> accounted q (snd (onRetransmission src dst c))"
  by (auto simp: onRetransmission_def accounted_def stats_of_def update_conv' Let_def split: option.split)

lemma accounted_onConnectionOpen:
  assumes "accounted q c" and "conns_wf c"
  shows "accounted q (onConnectionOpen lib cfg cilium domain now pid fd src dst act ts failed d c)"
proof -
  have "accounted q (c'\<lparr>c_lastConnectionAttempts := a\<rparr>) = accounted q c'" "accounted q (c'\<lparr>c_whitelist := w\<rparr>) = accounted q c'"
    "accounted q (c'\<lparr>c_failedConnectionAttempts := f\<rparr>) = accounted q c'" for c' :: "('a, 'b) Container" and a w f
    by (rule accounted_cong; simp)+
  then show ?thesis
    using assms by (auto simp: onConnectionOpen_def Let_def split: option.split prod.split intro!: accounted_open)
qed

lemma accounted_onConnectionClose:
  assumes "accounted q c" and "conns_wf c" and "grows lib cfg q (ConnectionClose now e) c"
  shows "accounted q (onConnectionClose now e c)"
proof (cases "map_of (c_connectionsByPidFd c) (Ev_Pid e, Ev_Fd e)")
  case None
  then show ?thesis using assms(1) by (simp add: onConnectionClose_def)
next
  case (Some i)
  have i: "i < length (c_conns c)" using conns_wfD(2) [OF assms(2) Some] by simp
  have "length (c_conns (updateConnectionTrafficStats (Some i) a b c)) = length (c_conns c)" for a b
    by (simp add: updateConnectionTrafficStats_def Let_def)
  then show ?thesis
    using assms(1,3) Some i
    by (auto simp: onConnectionClose_def Let_def split: option.splits intro!: accounted_closed accounted_traffic)
qed

text \<open>The collection deletes the counters of a destination or leaves them as they are, and keeps the connections.\<close>

lemma conns_missing:
  "c_conns (foldl (\<lambda>c (addr, inode). case map_of m inode of
      None \<Rightarrow> c | Some pid \<Rightarrow> onListenOpen lib cfg nsIps pid addr c) c xs) = c_conns c"
  by (induction xs arbitrary: c) (auto simp: onListenOpen_def Let_def split: option.split)

lemma gc_stats:
  "map_of (c_connectionStats (container_gc lib cfg sockets nsIps readFds now c)) q \<in> {None, map_of (c_connectionStats c) q}"
  "c_conns (container_gc lib cfg sockets nsIps readFds now c) = c_conns c"
proof -
  have d: "map_of (c_connectionStats (gc_destinations now est ds c)) q \<in> {None, map_of (c_connectionStats c) q} \<and>
      c_conns (gc_destinations now est ds c) = c_conns c" for est ds and c :: "('a, 'b) Container"
  proof (induction now est ds c rule: gc_destinations.induct)
    case (2 now est dst at ds c)
    have "map_of (filter (\<lambda>(d, _). dk_destination d \<noteq> dst) xs) q = (if dk_destination q = dst then None else map_of xs q)"
      for xs :: "('a DestinationKey \<times> ConnectionStats) list"
      by (induction xs) auto
    then show ?case using 2 by (auto split: if_splits)
  qed simp
  have k: "c_connectionStats (gc_connections now est ks c) = c_connectionStats c \<and> c_conns (gc_connections now est ks c) = c_conns c"
    for est ks and c :: "('a, 'b) Container"
    by (induction now est ks c rule: gc_connections.induct) (simp_all add: Let_def)
  have r: "c_connectionStats (revalidateListens lib cfg nsIps readFds now actual c) = c_connectionStats c \<and>
      c_conns (revalidateListens lib cfg nsIps readFds now actual c) = c_conns c" for actual
    using books_revalidate [of lib cfg nsIps readFds now actual c]
    by (simp add: books_of_def) (simp add: revalidateListens_def close_outdated_def Let_def conns_missing)
  have "map_of (c_connectionStats (gc_destinations now est ds c1)) q \<in> {None, map_of (c_connectionStats c) q} \<and>
      c_conns (gc_destinations now est ds c1) = c_conns c"
    if "c_connectionStats c1 = c_connectionStats c \<and> c_conns c1 = c_conns c" for est ds c1
    using d [of est ds c1] that by simp
  then have "map_of (c_connectionStats (container_gc lib cfg sockets nsIps readFds now c)) q \<in> {None, map_of (c_connectionStats c) q} \<and>
      c_conns (container_gc lib cfg sockets nsIps readFds now c) = c_conns c"
    unfolding container_gc_def Let_def by (simp only: k r)
  then show "map_of (c_connectionStats (container_gc lib cfg sockets nsIps readFds now c)) q \<in> {None, map_of (c_connectionStats c) q}"
    "c_conns (container_gc lib cfg sockets nsIps readFds now c) = c_conns c" by blast+
qed

lemma accounted_op:
  assumes "apply_op lib cfg x c = Ret c'" and "accounted q c" and "conns_wf c" and "grows lib cfg q x c"
  shows "accounted q c'"
proof (cases x)
  case (L7Request env pid fd ts r)
  then show ?thesis using assms by (auto simp: go_bind_Ret dest!: onL7Request_books accounted_view)
next
  case (Traffic u)
  then show ?thesis
    using assms(1,2,4) conns_wfD(2) [OF assms(3)]
    by (auto simp: updateTrafficStats_def split: option.splits intro!: accounted_traffic)
      (simp_all add: updateConnectionTrafficStats_def)
next
  case (Gc sockets nsIps readFds now)
  then have "stats_of c' q = stats_of c q" and "c_conns c' = c_conns c"
    using assms(1,4) gc_stats(1) [of lib cfg sockets nsIps readFds now c q] gc_stats(2) [of lib cfg sockets nsIps readFds now c]
    by (auto simp: stats_of_def)
  then show ?thesis using assms(2) by (simp add: accounted_def)
next
  case (ConnectionClose now e)
  then show ?thesis using accounted_onConnectionClose [OF assms(2,3)] assms(1,4) by auto
qed (use assms in \<open>auto simp: accounted_frame accounted_retransmission accounted_onConnectionOpen\<close>)

lemma accounted_run:
  assumes "growing lib cfg q xs c" and "run_ops lib cfg xs c = Ret c'" and "accounted q c" and "conns_wf c"
  shows "accounted q c'"
  using assms
proof (induction xs arbitrary: c)
  case (Cons x xs)
  obtain c1 where "apply_op lib cfg x c = Ret c1" and "run_ops lib cfg xs c1 = Ret c'"
    using Cons.prems(2) by (auto simp: go_bind_Ret)
  then show ?case using Cons.IH [of c1] Cons.prems accounted_op [of lib cfg x c c1] apply_op_wf [of lib cfg x c c1] by simp
qed simp

text \<open>
  C6. The traffic of a destination is the sum, over all connections to it, of what was last reported
  of each, and its number of connections is the number of those opened: however many reports of
  polls and of closed connections there are and however they are mixed with each other, with new
  connections, also on descriptors that were used before, with garbage collections and with all
  other events of the container, no byte is counted twice and none is lost, until the destination
  itself is forgotten.
\<close>

theorem traffic_accounted:
  assumes "growing lib cfg d xs (NewContainer wl)" and "run_ops lib cfg xs (NewContainer wl) = Ret c"
  shows "cs_BytesSent (stats_of c d) = (\<Sum>ac\<leftarrow>filter (\<lambda>ac. ac_DestinationKey ac = d) (c_conns c). ac_BytesSent ac) \<and>
    cs_BytesReceived (stats_of c d) = (\<Sum>ac\<leftarrow>filter (\<lambda>ac. ac_DestinationKey ac = d) (c_conns c). ac_BytesReceived ac) \<and>
    cs_Count (stats_of c d) = of_nat (length (filter (\<lambda>ac. ac_DestinationKey ac = d) (c_conns c)))"
proof -
  have "accounted d c"
    by (rule accounted_run [OF assms _ new_container_wf])
      (simp add: accounted_def stats_of_def NewContainer_def zero_ConnectionStats_def)
  then show ?thesis by (simp add: accounted_def traffic_total_def sum_list_triv)
qed

section \<open>Descriptors that are used again\<close>

text \<open>
  The connection a descriptor of a process stands for has the time stamp that tells it from earlier
  connections on the descriptor; only the opening of a connection gives the descriptor another one.
\<close>

definition current_timestamp :: "('ip, 'd) Container \<Rightarrow> PidFd \<Rightarrow> u64 option" where
  "current_timestamp c k = map_option (\<lambda>i. ac_Timestamp (c_conns c ! i)) (map_of (c_connectionsByPidFd c) k)"

fun opens :: "PidFd \<Rightarrow> 'ip container_op \<Rightarrow> bool" where
  "opens k (ConnectionOpen cilium domain now pid fd src dst act ts failed d) \<longleftrightarrow> \<not> failed \<and> (pid, fd) = k"
| "opens k _ \<longleftrightarrow> False"

definition stamped :: "PidFd \<Rightarrow> u64 \<Rightarrow> ('ip, 'd) Container \<Rightarrow> bool" where
  "stamped k ts c \<longleftrightarrow> (\<forall>i. map_of (c_connectionsByPidFd c) k = Some i \<longrightarrow> map ac_Timestamp (c_conns c) ! i = ts)"

text \<open>Changes that keep the time stamps of connections and only delete entries of descriptors.\<close>

definition stamps_kept :: "('ip, 'd) Container \<Rightarrow> ('ip, 'd) Container \<Rightarrow> bool" where
  "stamps_kept c c' \<longleftrightarrow> map ac_Timestamp (c_conns c') = map ac_Timestamp (c_conns c) \<and>
     (\<forall>k i. map_of (c_connectionsByPidFd c') k = Some i \<longrightarrow> map_of (c_connectionsByPidFd c) k = Some i)"

lemma stamps_kept_refl [simp]: "stamps_kept c c" by (simp add: stamps_kept_def)

lemma stamps_kept_trans: "stamps_kept c c' \<Longrightarrow> stamps_kept c' c'' \<Longrightarrow> stamps_kept c c''"
  by (simp add: stamps_kept_def)

lemma stamps_kept_stamped: "stamps_kept c c' \<Longrightarrow> stamped k ts c \<Longrightarrow> stamped k ts c'"
  by (simp add: stamps_kept_def stamped_def del: split_paired_All)

lemma stamps_kept_books:
  fixes c c' :: "('ip, 'd) Container"
  assumes "books_of c' = books_of c"
  shows "stamps_kept c c'"
proof -
  have "map ac_Timestamp xs = map (\<lambda>(_, _, _, ts, _). ts) (map conn_view xs)" for xs :: "('ip, 'd) ActiveConnection list"
    by (simp add: conn_view_def)
  moreover have "map conn_view (c_conns c') = map conn_view (c_conns c)" "c_connectionsByPidFd c' = c_connectionsByPidFd c"
    using assms by (simp_all add: books_of_def)
  ultimately show ?thesis by (simp only: stamps_kept_def simp_thms)
qed

lemma stamps_kept_update:
  "ac_Timestamp ac = ac_Timestamp (c_conns c ! i) \<Longrightarrow>
   stamps_kept c (c\<lparr>c_connectionStats := st, c_conns := (c_conns c)[i := ac]\<rparr>)"
  using list_update_id [of "map ac_Timestamp (c_conns c)" i]
  by (cases "i < length (c_conns c)") (simp_all add: stamps_kept_def map_update list_update_beyond)

lemma stamps_traffic [simp]: "stamps_kept c (updateConnectionTrafficStats p sent recv c)"
  by (auto simp: updateConnectionTrafficStats_def Let_def split: option.split intro!: stamps_kept_update)

lemma stamps_close [simp]: "stamps_kept c (onConnectionClose now e c)"
proof -
  have "stamps_kept x (x\<lparr>c_conns := (c_conns x)[i := (c_conns x ! i)\<lparr>ac_Closed := now\<rparr>]\<rparr>)" for x :: "('a, 'b) Container" and i
    using stamps_kept_update [of "(c_conns x ! i)\<lparr>ac_Closed := now\<rparr>" x i "c_connectionStats x"] by simp
  then show ?thesis
    by (auto simp: onConnectionClose_def Let_def split: option.split intro: stamps_kept_trans [OF stamps_traffic])
qed

lemma stamps_processes [simp]:
  "stamps_kept c (onProcessStart pid t p c)" "stamps_kept c (onProcessExit now pid oom c)"
  "stamps_kept c (updateNodejsStats pid d c)" "stamps_kept c (updatePythonStats pid d c)" "stamps_kept c (updateDelays ts c)"
  "stamps_kept c (onListenClose now pid a c)" "stamps_kept c (snd (onRetransmission src dst c))"
  by (auto simp: stamps_kept_def onProcessStart_def onProcessExit_def updateNodejsStats_def updatePythonStats_def updateDelays_def
      onListenClose_def onRetransmission_def Let_def split: option.split)

lemma stamps_gc_connections: "stamps_kept c (gc_connections now est ks c)"
proof (induction now est ks c rule: gc_connections.induct)
  case (2 now est k i ks c)
  show ?case
    by (subst gc_connections.simps, rule stamps_kept_trans [OF _ 2])
      (auto simp: stamps_kept_def Let_def delete_conv' split: if_splits)
qed simp

lemma stamps_gc_destinations: "stamps_kept c (gc_destinations now est ds c)"
proof (induction now est ds c rule: gc_destinations.induct)
  case (2 now est dst at ds c)
  show ?case by (subst gc_destinations.simps, rule stamps_kept_trans [OF _ 2]) (simp add: stamps_kept_def)
qed simp

lemma stamps_gc: "stamps_kept c (container_gc lib cfg sockets nsIps readFds now c)"
  unfolding container_gc_def Let_def
  by (rule stamps_kept_trans [OF stamps_kept_trans [OF stamps_kept_books [OF books_revalidate] stamps_gc_connections]
        stamps_gc_destinations])

lemma stamped_add_connection:
  assumes "conns_wf c" and "stamped k ts c" and "(pid, fd) \<noteq> k"
  shows "stamped k ts (add_connection now key pid fd k' ts' d c)"
proof -
  let ?c' = "add_connection now key pid fd k' ts' d c"
  have v: "map ac_Timestamp (c_conns ?c') = map ac_Timestamp (c_conns c) @ [ts']"
    unfolding add_connection_conns [OF assms(1)] by (subst map_with_connection) simp_all
  have "map_of (c_connectionsByPidFd ?c') k = map_of (c_connectionsByPidFd c) k"
    using assms(3) by (auto simp: add_connection_def Let_def update_conv')
  then show ?thesis
    using assms(2) conns_wfD(2) [OF assms(1), of k] unfolding stamped_def v by (auto simp: nth_append)
qed

lemma stamped_onConnectionOpen:
  assumes "conns_wf c" and "stamped k ts c" and "failed \<or> (pid, fd) \<noteq> k"
  shows "stamped k ts (onConnectionOpen lib cfg cilium domain now pid fd src dst act ts' failed d c)"
proof -
  have "stamped k ts (c'\<lparr>c_lastConnectionAttempts := a\<rparr>) = stamped k ts c'" "stamped k ts (c'\<lparr>c_whitelist := w\<rparr>) = stamped k ts c'"
    "stamped k ts (c'\<lparr>c_failedConnectionAttempts := f\<rparr>) = stamped k ts c'" for c' :: "('a, 'b) Container" and a w f
    by (simp_all add: stamped_def)
  then show ?thesis
    using assms by (auto simp: onConnectionOpen_def Let_def split: option.split prod.split intro!: stamped_add_connection)
qed

lemma stamped_op:
  assumes "apply_op lib cfg x c = Ret c'" and "conns_wf c" and "stamped k ts c" and "\<not> opens k x"
  shows "stamped k ts c'"
proof (cases x)
  case (L7Request env pid fd t r)
  then show ?thesis using assms by (auto simp: go_bind_Ret dest!: onL7Request_books stamps_kept_books intro: stamps_kept_stamped)
next
  case (Traffic u)
  then show ?thesis
    using assms(1,3) by (auto simp: updateTrafficStats_def split: option.splits intro: stamps_kept_stamped [OF stamps_traffic])
next
  case (ConnectionOpen cilium domain now pid fd src dst act ts' failed d)
  then show ?thesis using assms by (auto intro: stamped_onConnectionOpen)
next
  case (ListenOpen nsIps pid a)
  then show ?thesis using assms by (auto intro: stamps_kept_stamped [OF stamps_kept_books])
qed (use assms in \<open>auto intro: stamps_kept_stamped [OF stamps_gc] stamps_kept_stamped [OF stamps_close]
      stamps_processes [THEN stamps_kept_stamped]\<close>)

lemma stamped_run:
  "run_ops lib cfg xs c = Ret c' \<Longrightarrow> conns_wf c \<Longrightarrow> stamped k ts c \<Longrightarrow> \<forall>x\<in>set xs. \<not> opens k x \<Longrightarrow> stamped k ts c' \<and> conns_wf c'"
  by (induction xs arbitrary: c) (auto simp: go_bind_Ret dest: stamped_op apply_op_wf)

text \<open>
  C14. Once a connection with the time stamp \<open>ts\<close> was opened on a descriptor, events about an earlier
  connection on the descriptor that arrive late change nothing, whatever happens in between short of
  yet another connection on the descriptor: neither a close event nor a request with another time
  stamp has an effect (a request of DNS is not about a connection).
\<close>

theorem late_events_ignored:
  assumes "run_ops lib cfg xs (NewContainer wl) = Ret c"
    and "current_timestamp c (Ev_Pid e, Ev_Fd e) = Some ts" and "ts \<noteq> 0"
    and "\<forall>x\<in>set ys. \<not> opens (Ev_Pid e, Ev_Fd e) x" and "run_ops lib cfg ys c = Ret c'"
    and "Ev_Timestamp e \<noteq> ts" and "Ev_Timestamp e \<noteq> 0"
  shows "onConnectionClose now e c' = c' \<and>
    (\<forall>r. rd_Protocol r \<noteq> PROTOCOL_DNS \<longrightarrow>
       onL7Request lib cfg env (Ev_Pid e) (Ev_Fd e) (Ev_Timestamp e) r c' = Ret ([], c'))"
proof -
  have wf: "conns_wf c" using run_ops_wf [OF assms(1) new_container_wf] .
  then have "stamped (Ev_Pid e, Ev_Fd e) ts c"
    using assms(2) conns_wfD(2) [OF wf, of "(Ev_Pid e, Ev_Fd e)"] by (auto simp: stamped_def current_timestamp_def)
  then have "stamped (Ev_Pid e, Ev_Fd e) ts c'" and "conns_wf c'" using stamped_run [OF assms(5) wf _ assms(4)] by simp_all
  then have "ac_Timestamp (c_conns c' ! i) = ts" if "map_of (c_connectionsByPidFd c') (Ev_Pid e, Ev_Fd e) = Some i" for i
    using that conns_wfD(2) [of c' "(Ev_Pid e, Ev_Fd e)"] by (auto simp: stamped_def)
  then show ?thesis
    using assms(3,6,7) by (auto simp: onConnectionClose_def onL7Request_def Let_def split: option.split)
qed

section \<open>An example\<close>

definition sample_lib :: "(u8 list, unit) agent_lib" where
  "sample_lib =
     \<lparr>lib_net = v4_netaddr, lib_hpack = sample_hpack, lib_range = rev,
      lib_dns = \<lparr>dns_Unpack = (\<lambda>_. None), IPFrom4 = (\<lambda>a. a), IPFrom16 = (\<lambda>a. a)\<rparr>, lib_bson = (\<lambda>b. b),
      lib_ch = \<lparr>ch_Byte = (\<lambda>_. None), ch_Str = (\<lambda>_. None), ch_ClientInfo = (\<lambda>_ _. None), ch_Setting = (\<lambda>_. None),
        ch_UVarInt = (\<lambda>_. None), ch_StrLen = (\<lambda>_. None), ch_Read = take\<rparr>,
      lib_ch_version = 54420, lib_valid_label = (\<lambda>_. True)\<rparr>"

definition sample_config :: agent_config where
  "sample_config = \<lparr>PortFilter = None, HttpFilter = [], hostNetNsId = ascii ''host''\<rparr>"

definition sample_start :: "u8 list container_op" where
  "sample_start = ProcessStart 7 (Some 1) \<lparr>pr_StartedAt = 1, pr_NetNsId = ascii ''pod'', pr_EbpfTracesDisabled = False,
     nodejsPrevStats = None, pythonPrevStats = None\<rparr>"

definition sample_dst :: "u8 list ipport" where "sample_dst = ([10, 0, 0, 2], 80)"

definition sample_key :: "u8 list DestinationKey" where
  "sample_key = \<lparr>dk_destination = HostPortFromIPPort sample_dst, dk_actualDestination = HostPortFromIPPort sample_dst\<rparr>"

text \<open>A connection from port \<open>sport\<close> on descriptor \<open>fd\<close> of process 7, and its close event.\<close>

definition sample_open :: "u64 \<Rightarrow> u16 \<Rightarrow> u64 \<Rightarrow> u8 list container_op" where
  "sample_open fd sport ts = ConnectionOpen (\<lambda>_ _. None) (\<lambda>_. None) 100 7 fd ([10, 0, 0, 1], sport) sample_dst ([], 0) ts False 5"

definition sample_close :: "u64 \<Rightarrow> u64 \<Rightarrow> u64 \<Rightarrow> u64 \<Rightarrow> u8 list Event" where
  "sample_close fd ts sent recv = (zero_Event v4_netaddr)\<lparr>Ev_Type := EventTypeConnectionClose, Ev_Pid := 7, Ev_Fd := fd,
     Ev_Timestamp := ts, Ev_TrafficStats := Some \<lparr>BytesSent = sent, BytesReceived = recv\<rparr>\<rparr>"

definition sample_poll :: "u64 \<Rightarrow> u64 \<Rightarrow> u64 \<Rightarrow> u8 list container_op" where
  "sample_poll fd sent recv = Traffic (Some \<lparr>tu_Pid = 7, tu_FD = fd, tu_BytesSent = sent, tu_BytesReceived = recv\<rparr>)"

definition sample_traffic :: "u8 list container_op list" where
  "sample_traffic =
     [sample_start, sample_open 3 1000 11, sample_poll 3 100 10, ConnectionClose 200 (sample_close 3 11 150 20),
      sample_open 3 1001 22, sample_poll 3 5 6]"

theorem traffic_accounted_witness:
  "case run_ops sample_lib sample_config sample_traffic (NewContainer []) of
     Panic \<Rightarrow> False
   | Ret c \<Rightarrow> (\<Sum>ac\<leftarrow>filter (\<lambda>ac. ac_DestinationKey ac = sample_key) (c_conns c). ac_BytesSent ac) = 155 \<and>
       cs_BytesSent (stats_of c sample_key) = 155"
proof -
  have "growing sample_lib sample_config sample_key sample_traffic (NewContainer [])" by code_simp
  moreover have "case run_ops sample_lib sample_config sample_traffic (NewContainer []) of
      Panic \<Rightarrow> False | Ret c \<Rightarrow> cs_BytesSent (stats_of c sample_key) = 155"
    by code_simp
  ultimately show ?thesis
    using traffic_accounted [of sample_lib sample_config sample_key sample_traffic "[]"] by (auto split: go.splits)
qed

theorem late_events_ignored_witness:
  "case run_ops sample_lib sample_config sample_traffic (NewContainer []) of
     Panic \<Rightarrow> False
   | Ret c \<Rightarrow> onConnectionClose 300 (sample_close 3 11 150 20) c = c"
proof -
  have "case run_ops sample_lib sample_config sample_traffic (NewContainer []) of
      Panic \<Rightarrow> False | Ret c \<Rightarrow> current_timestamp c (7, 3) = Some 22"
    by code_simp
  moreover have "onConnectionClose 300 (sample_close 3 11 150 20) c = c"
    if "run_ops sample_lib sample_config sample_traffic (NewContainer []) = Ret c" and "current_timestamp c (7, 3) = Some 22" for c
    using late_events_ignored [OF that(1), of "sample_close 3 11 150 20" 22 "[]" c] that(2) by (simp add: sample_close_def)
  ultimately show ?thesis by (auto split: go.splits)
qed

text \<open>
  A connection whose entry by addresses was taken over by a later connection from the same port is not
  found by the garbage collection: the entry of its descriptor stays, although no connection is left.
\<close>

lemma stale_descriptor_kept:
  "case run_ops sample_lib sample_config
     [sample_start, sample_open 3 1000 11, ConnectionClose 200 (sample_close 3 11 150 20),
      sample_open 4 1000 22, ConnectionClose 300 (sample_close 4 22 1 1),
      Gc (\<lambda>_. Some []) (\<lambda>_. None) (\<lambda>_. None) 1000000000000000] (NewContainer []) of
     Panic \<Rightarrow> False
   | Ret c \<Rightarrow> c_activeConnections c = [] \<and> c_connectionsByPidFd c = [((7, 3), 0)]"
  by code_simp

end
