(* ===== verification/Agent.thy ===== *)
theory Agent
  imports Container_Traffic L7_Exchange
begin

text \<open>
  The programs in the kernel and the agent in user space together: what a probe submits goes through
  the reader of its buffer to the handler of the container. No event of the kernel makes a handler
  panic, and an exchange on a connection ends up in the metrics and the traces of its destination.
\<close>

section \<open>Nothing the kernel sends makes the agent panic\<close>

text \<open>What \<^verbatim>\<open>ch-go\<close> documents of the length of a string: it is not negative.\<close>

definition lengths_ok :: "('b) ch_reader_scheme \<Rightarrow> bool" where
  "lengths_ok lib \<longleftrightarrow> (\<forall>r l r'. ch_StrLen lib r = Some (l, r') \<longrightarrow> 0 \<le> l)"

lemma ch_query_no_panic: "lengths_ok lib \<Longrightarrow> ch_StrLen lib r = Some (l, r') \<Longrightarrow> ch_query lib' l r'' \<noteq> Panic"
  by (auto simp: ch_query_def lengths_ok_def Let_def not_less)

lemma clickhouse_no_panic: "lengths_ok lib \<Longrightarrow> ParseClickhouse lib v payload \<noteq> Panic"
  by (auto simp: ParseClickhouse_def simp del: ch_skip_settings.simps split: option.splits prod.splits if_splits
      dest: ch_query_no_panic)

lemma go_bind_Panic: "go_bind m f = Panic \<longleftrightarrow> m = Panic \<or> (\<exists>x. m = Ret x \<and> f x = Panic)"
  by (cases m) auto

text \<open>A request is safe when it is not a MySQL packet that announces no content.\<close>

lemma request_no_panic:
  assumes "lengths_ok (lib_ch lib)"
    and "rd_Protocol r = PROTOCOL_MYSQL \<Longrightarrow> 9 \<le> length (rd_Payload r) \<Longrightarrow> mysql_msg_size (rd_Payload r) \<noteq> 0"
  shows "onL7Request lib cfg env pid fd ts r c \<noteq> Panic"
proof -
  have "l7_request_of_conn lib cfg env trace i r c \<noteq> Panic" for trace i c
    using assms postgres_no_panic clickhouse_no_panic [OF assms(1)] mysql_panics_iff
    by (auto simp: l7_request_of_conn_def Let_def go_bind_Panic split: prod.splits)
  then show ?thesis by (auto simp: onL7Request_def Let_def go_bind_Panic split: option.splits)
qed

lemma kernel_request_safe:
  assumes "event_wf e" and "rd_Protocol (user_request e) = PROTOCOL_MYSQL" and "9 \<le> length (rd_Payload (user_request e))"
  shows "mysql_msg_size (rd_Payload (user_request e)) \<noteq> 0"
proof
  assume z: "mysql_msg_size (rd_Payload (user_request e)) = 0"
  have n: "9 \<le> min (unat (ev_payload_size e)) 1024" using assms(3) by (simp add: user_request_def)
  have "ev_payload e ! 0 = 0" "ev_payload e ! 1 = 0" "ev_payload e ! 2 = 0"
    using z n by (simp_all add: mysql_msg_size_def user_request_def unat_eq_zero)
  then have "mysql_length (ev_payload e) = 0" by (simp add: mysql_length_def)
  moreover have "5 \<le> ev_payload_size e" "scast (mysql_length (ev_payload e) + 4) = ev_payload_size e"
    using assms(1,2) by (simp_all add: event_wf_def mysql_sized_def user_request_def)
  ultimately show False by simp
qed

text \<open>
  A query of Postgres that does not fit into the payload is shown without the mark of a cut text: the
  last byte of the payload is 0, which the parser takes for the end of the query.
\<close>

lemma truncated_query_not_marked:
  assumes "event_wf e" and "1024 \<le> unat (ev_payload_size e)" and "ev_payload e ! 0 = PostgresFrameQuery"
  shows "PostgresParser_Parse p (rd_Payload (user_request e)) = Ret (takeWhile (\<lambda>b. b \<noteq> 0) (drop 5 (ev_payload e)), p)"
proof -
  have l: "length (ev_payload e) = 1024" "ev_payload e ! 1023 = 0"
    using assms(1) by (simp_all add: event_wf_def payload_wf_def)
  then have pl: "rd_Payload (user_request e) = ev_payload e" using assms(2) by (simp add: user_request_def)
  have "drop 5 (ev_payload e) ! 1018 = 0" using l by simp
  then have "0 \<in> set (drop 5 (ev_payload e))" using l(1) nth_mem [of 1018 "drop 5 (ev_payload e)"] by simp
  then obtain y z where "drop 5 (ev_payload e) = y @ 0 # z" "0 \<notin> set y" "bytes_Cut (drop 5 (ev_payload e)) [0] = (y, z, True)"
    using bytes_Cut_byte_found by blast
  then show ?thesis
    using assms(3) l(1) unfolding pl by (simp add: PostgresParser_Parse_def go_simps Let_def takeWhile_append)
qed

text \<open>
  C9. No request that the kernel observes makes the agent panic. In every state the tracer
  reaches, whatever samples of its request events are delivered to the reader, the reader returns
  the events, and for each of them the handler of the container returns, whatever the state of the
  container and of the parsers of the connection is.
\<close>

theorem agent_survives_kernel_events:
  assumes "tracer_step\<^sup>*\<^sup>* init_l7_maps s" and "set es \<subseteq> set (l7_events s)"
    and "delivered (\<lambda>e _. l7_event_bytes e) es rs" and "lengths_ok (lib_ch lib)"
  shows "\<exists>evs. runEventsReader (lib_net lib) perfMapTypeL7Events rs = Ret evs \<and> length evs = length es \<and>
    (\<forall>ev\<in>set evs. \<exists>r. Ev_L7Request ev = Some r \<and>
      (\<forall>env c. onL7Request lib cfg env (Ev_Pid ev) (Ev_Fd ev) (Ev_Timestamp ev) r c \<noteq> Panic))"
proof -
  have "tracer_wf s" using assms(1) init_l7_maps_wf by (rule tracer.reachable_inv)
  then have wf: "event_wf e" if "e \<in> set es" for e
    using that assms(2) by (auto simp: tracer_wf_def l7_wf_def)
  have "runEventsReader (lib_net lib) perfMapTypeL7Events rs = Ret (map (user_l7_event (lib_net lib)) es)"
    using wf by (intro delivered_reads [OF assms(3)] decode_l7_event) (simp add: event_wf_def payload_wf_def)
  moreover have "onL7Request lib cfg env pid fd ts (user_request e) c \<noteq> Panic" if "e \<in> set es" for e env pid fd ts c
    using kernel_request_safe [OF wf [OF that]] by (rule request_no_panic [OF assms(4)])
  ultimately show ?thesis by (auto simp: user_l7_event_def)
qed

section \<open>Metrics\<close>

definition requests_counted :: "('ip, 'd) Container \<Rightarrow> u8 \<Rightarrow> 'ip DestinationKey \<Rightarrow> gostring list \<Rightarrow> nat" where
  "requests_counted c p key labels =
     (case c_l7Stats c (p, key) of Some m \<Rightarrow> (case m_Requests m of Some req \<Rightarrow> snd req labels | None \<Rightarrow> 0) | None \<Rightarrow> 0)"

definition latencies :: "('ip, 'd) Container \<Rightarrow> u8 \<Rightarrow> 'ip DestinationKey \<Rightarrow> s64 list" where
  "latencies c p key =
     (case c_l7Stats c (p, key) of Some m \<Rightarrow> (case m_Latency m of Some l \<Rightarrow> l | None \<Rightarrow> []) | None \<Rightarrow> [])"

text \<open>The metrics of a protocol have the labels and the histogram it was created with.\<close>

definition metrics_for :: "u8 \<Rightarrow> L7Metrics \<Rightarrow> bool" where
  "metrics_for p m \<longleftrightarrow> map_option fst (m_Requests m) = map_option fst (m_Requests (new_metrics p)) \<and>
     (m_Latency m = None \<longleftrightarrow> m_Latency (new_metrics p) = None)"

definition stats_wf :: "(u8 \<times> 'ip DestinationKey \<rightharpoonup> L7Metrics) \<Rightarrow> bool" where
  "stats_wf st \<longleftrightarrow> (\<forall>p key m. st (p, key) = Some m \<longrightarrow> metrics_for p m)"

abbreviation (input) metrics_wf :: "('ip, 'd) Container \<Rightarrow> bool" where
  "metrics_wf c \<equiv> stats_wf (c_l7Stats c)"

lemma metrics_for_observe: "metrics_for p m \<Longrightarrow> metrics_for p (observe valid status meth d m)"
  by (auto simp: metrics_for_def observe_def counter_Inc_def Let_def split: option.splits)

lemma metrics_wf_get: "metrics_wf c \<Longrightarrow> metrics_wf (L7Stats_get p k c)"
  by (auto simp: stats_wf_def metrics_for_def L7Stats_get_def Let_def split: option.splits)

lemma metrics_wf_observe: "metrics_wf c \<Longrightarrow> metrics_wf (stats_observe lib p k status meth d c)"
  by (auto simp: stats_wf_def stats_observe_def metrics_for_observe)

lemma metrics_wf_other [simp]:
  "metrics_wf (add_spans f c) = metrics_wf c" "metrics_wf (update_conn i g c) = metrics_wf c"
  by (simp_all add: stats_wf_def add_spans_def update_conn_def)

lemma metrics_wf_http2: "metrics_wf c \<Longrightarrow> metrics_wf (observe_http2 lib cfg env trace key reqs c)"
  by (induction lib cfg env trace key reqs c rule: observe_http2.induct) (auto simp: Let_def metrics_wf_observe)

lemma metrics_wf_request:
  assumes "onL7Request lib cfg env pid fd ts r c = Ret (res, c')" and "metrics_wf c"
  shows "metrics_wf c'"
proof -
  have "metrics_wf c2" if "l7_request_of_conn lib cfg env trace i r c1 = Ret c2" and "metrics_wf c1" for trace i c1 c2
    using that
    by (auto simp: l7_request_of_conn_def Let_def go_bind_Ret metrics_wf_observe metrics_wf_http2 split: if_splits prod.splits)
  moreover have "c_l7Stats (snd (onDNSRequest lib r c)) = c_l7Stats c"
    by (simp add: onDNSRequest_def Let_def split: prod.split)
  then have "onDNSRequest lib r c = (res, c') \<Longrightarrow> metrics_wf c'" using assms(2) by (simp add: stats_wf_def)
  ultimately show ?thesis
    using assms by (auto simp: onL7Request_def Let_def go_bind_Ret metrics_wf_get split: if_splits option.splits)
qed

lemma l7Stats_missing:
  "c_l7Stats (foldl (\<lambda>c (addr, inode). case map_of m inode of
      None \<Rightarrow> c | Some pid \<Rightarrow> onListenOpen lib cfg nsIps pid addr c) c xs) = c_l7Stats c"
  by (induction xs arbitrary: c) (auto simp: onListenOpen_def Let_def split: option.split)

lemma metrics_wf_gc: "metrics_wf c \<Longrightarrow> metrics_wf (container_gc lib cfg sockets nsIps readFds now c)"
proof -
  have delete: "stats_wf st \<Longrightarrow> stats_wf (L7Stats_delete dst st)" for dst and st :: "u8 \<times> 'a DestinationKey \<rightharpoonup> L7Metrics"
    by (simp add: stats_wf_def L7Stats_delete_def)
  have destinations: "metrics_wf c \<Longrightarrow> metrics_wf (gc_destinations now est ds c)" for now est ds and c :: "('a, 'b) Container"
    by (induction now est ds c rule: gc_destinations.induct) (simp_all add: delete)
  have connections: "c_l7Stats (gc_connections now est ks c) = c_l7Stats c" for now est ks and c :: "('a, 'b) Container"
    by (induction now est ks c rule: gc_connections.induct) (simp_all add: Let_def)
  have "c_l7Stats (revalidateListens lib cfg nsIps readFds now actual c) = c_l7Stats c" for actual
    by (simp add: revalidateListens_def close_outdated_def Let_def l7Stats_missing)
  then show "metrics_wf c \<Longrightarrow> ?thesis" by (simp add: container_gc_def Let_def destinations connections)
qed

lemma l7Stats_frame [simp]:
  "c_l7Stats (onProcessStart pid t p c) = c_l7Stats c" "c_l7Stats (onProcessExit now pid oom c) = c_l7Stats c"
  "c_l7Stats (updateNodejsStats pid d c) = c_l7Stats c" "c_l7Stats (updatePythonStats pid d c) = c_l7Stats c"
  "c_l7Stats (updateDelays taskstats c) = c_l7Stats c"
  "c_l7Stats (onListenClose now pid a c) = c_l7Stats c" "c_l7Stats (onListenOpen lib cfg nsIps pid a c) = c_l7Stats c"
  "c_l7Stats (snd (onRetransmission src dst c)) = c_l7Stats c" "c_l7Stats (updateConnectionTrafficStats i x y c) = c_l7Stats c"
  "c_l7Stats (updateTrafficStats u c) = c_l7Stats c" "c_l7Stats (onConnectionClose now e c) = c_l7Stats c"
  "c_l7Stats (onConnectionOpen lib cfg cilium domain now pid fd src dst act ts failed d c) = c_l7Stats c"
  by (simp_all add: onProcessStart_def onProcessExit_def updateNodejsStats_def updatePythonStats_def updateDelays_def onListenClose_def
      onListenOpen_def onRetransmission_def updateTrafficStats_def updateConnectionTrafficStats_def onConnectionClose_def
      onConnectionOpen_def add_connection_def Let_def split: option.split prod.split)

lemma metrics_wf_op: "apply_op lib cfg x c = Ret c' \<Longrightarrow> metrics_wf c \<Longrightarrow> metrics_wf c'"
  by (cases x) (auto simp: metrics_wf_gc go_bind_Ret intro: metrics_wf_request)

lemma metrics_wf_run: "run_ops lib cfg xs c = Ret c' \<Longrightarrow> metrics_wf c \<Longrightarrow> metrics_wf c'"
  by (induction xs arbitrary: c) (auto simp: go_bind_Ret dest: metrics_wf_op)

lemma metrics_wf_new: "metrics_wf (NewContainer wl)"
  by (simp add: stats_wf_def NewContainer_def)

text \<open>A process connects, writes a request of HTTP and reads the response.\<close>

definition sample_connected :: l7_maps where
  "sample_connected =
     inet_sock_set_state (plain_env 0 25) (Some (sample_state_args 2 1))
       (inet_sock_set_state (plain_env 0x700000008 10) (Some (sample_state_args 7 2))
         (sys_enter_connect (plain_env 0x700000008 9) (Some \<lparr>awf_fd = 3\<rparr>) init_l7_maps))"

definition sample_asked :: l7_maps where
  "sample_asked = sys_enter_read (plain_env 0x70000000A 32) \<lparr>rw_fd = 3, rw_buf = 0x1000, rw_size = 100\<rparr>
     (sys_enter_write (env_with 0x700000008 30 sample_request) \<lparr>rw_fd = 3, rw_buf = 0x1000, rw_size = 24\<rparr> sample_connected)"

definition sample_answered :: l7_maps where
  "sample_answered = sys_exit_read (env_with 0x70000000A 62 sample_response) \<lparr>sx_ret = 22\<rparr> sample_asked"

lemma sample_reachable:
  "tracer_step\<^sup>*\<^sup>* init_l7_maps sample_connected" "tracer_step\<^sup>*\<^sup>* init_l7_maps sample_answered"
proof -
  note step = rtranclp.rtrancl_into_rtrancl [where r = tracer_step]
  show "tracer_step\<^sup>*\<^sup>* init_l7_maps sample_connected"
    unfolding sample_connected_def
    by (rule step [OF _ set_state], rule step [OF _ set_state], rule step [OF _ connect_enter], rule rtranclp.rtrancl_refl)
  then show "tracer_step\<^sup>*\<^sup>* init_l7_maps sample_answered"
    unfolding sample_answered_def sample_asked_def
    by (rule step [OF step [OF step [OF _ write_enter] read_enter] read_exit])
qed


lemma sample_connected_simps:
  "active_connections sample_connected =
     [(\<lparr>cid_fd = 3, cid_pid = 7\<rparr>, \<lparr>c_timestamp = 10, c_bytes_sent = 0, c_bytes_received = 0\<rparr>)]"
  "active_l7_requests sample_connected = []" "active_reads sample_connected = []" "l7_events sample_connected = []"
  "iovec_buf_heap sample_connected = (\<lambda>_. replicate 2048 0)"
proof -
  let ?c = "(\<lparr>cid_fd = 3, cid_pid = 7\<rparr>, \<lparr>c_timestamp = 10, c_bytes_sent = 0, c_bytes_received = 0\<rparr>)"
  have 1: "sys_enter_connect (plain_env 0x700000008 9) (Some \<lparr>awf_fd = 3\<rparr>) init_l7_maps =
      init_l7_maps\<lparr>fd_by_pid_tgid := [(0x700000008, 3)]\<rparr>"
    by (simp add: sys_enter_connect_def plain_env_def bpf_hash_update_elem_def bpf_map_lookup_elem_def flag_error_def)
  have 2: "inet_sock_set_state (plain_env 0x700000008 10) (Some (sample_state_args 7 2))
      (init_l7_maps\<lparr>fd_by_pid_tgid := [(0x700000008, 3)]\<rparr>) =
      init_l7_maps\<lparr>fd_by_pid_tgid := [], connection_id_by_socket := [(0x100, fst ?c)], active_connections := [?c]\<rparr>"
    by (simp add: inet_sock_set_state_def set_state_syn_sent_def Let_def sample_state_args_def plain_env_def pid_of_def
        bpf_lru_update_elem_def bpf_map_delete_elem_def bpf_map_lookup_elem_def flag_error_def)
  have 3: "active_connections sample_connected = [?c] \<and>
      active_l7_requests sample_connected = [] \<and> active_reads sample_connected = [] \<and> l7_events sample_connected = [] \<and>
      iovec_buf_heap sample_connected = (\<lambda>_. replicate 2048 0)"
    unfolding sample_connected_def 1 2
    by (simp add: inet_sock_set_state_def set_state_leave_syn_sent_def Let_def sample_state_args_def plain_env_def
        bpf_map_delete_elem_def bpf_map_lookup_elem_def set_state_event_def)
  show "active_connections sample_connected = [?c]"
    "active_l7_requests sample_connected = []" "active_reads sample_connected = []" "l7_events sample_connected = []"
    "iovec_buf_heap sample_connected = (\<lambda>_. replicate 2048 0)"
    using 3 by blast+
qed

lemma sample_request_length: "length sample_request = 24"
  by (simp add: sample_request_def ascii_def)

lemma sample_memory:
  "holds_at (kmem (env_with 0x700000008 30 sample_request) sample_connected) 0x1000 sample_request"
  "is_http_request (kmem (env_with 0x700000008 30 sample_request) sample_connected) 0x1000"
  "is_http_response (kmem (env_with 0x70000000A 62 sample_response) sample_asked) 0x1000 0 = (True, 404)"
proof -
  let ?env1 = "env_with 0x700000008 30 sample_request" and ?env3 = "env_with 0x70000000A 62 sample_response"
  have buf: "iovec_buf_heap sample_asked c = replicate 2048 0" for c
    by (simp add: sample_asked_def plain_write_buffer sys_enter_write_def sys_enter_read_def trace_enter_read_def
        sample_connected_simps Let_def split: option.splits)
  show h1: "holds_at (kmem ?env1 sample_connected) 0x1000 sample_request"
    by (rule kmem_env_with) (simp_all add: sample_connected_simps sample_request_length)
  have h3: "holds_at (kmem ?env3 sample_asked) 0x1000 sample_response"
    by (rule kmem_env_with [OF buf]) (simp add: sample_response_def ascii_def)
  show "is_http_request (kmem ?env1 sample_connected) 0x1000"
    using read_str_16(1) [OF h1] by (simp add: is_http_request_def sample_request_def ascii_def)
  show "is_http_response (kmem ?env3 sample_asked) 0x1000 0 = (True, 404)"
    using read_str_16(1) [OF h3] by (simp add: is_http_response_def sample_response_def ascii_def digit_def)
qed

lemmas sample_simps = sample_connected_simps sample_asked_def sample_request_length bpf_map_lookup_elem_def env_with_def
  plain_env_def pid_of_def room_def calm_l7_def calm_def word_sless_alt

lemma sample_exchange: "\<exists>e. filter (event_of \<lparr>cid_fd = 3, cid_pid = 7\<rparr>) (l7_events sample_answered) = [e]"
proof -
  let ?cid = "\<lparr>cid_fd = 3, cid_pid = 7\<rparr>"
  let ?env1 = "env_with 0x700000008 30 sample_request" and ?env3 = "env_with 0x70000000A 62 sample_response"
  have "(\<exists>e. filter (event_of ?cid) (l7_events sample_answered) = filter (event_of ?cid) (l7_events sample_connected) @ [e] \<and>
      ev_connection_timestamp e = c_timestamp \<lparr>c_timestamp = 10, c_bytes_sent = 0, c_bytes_received = 0\<rparr> \<and>
      ev_protocol e = PROTOCOL_HTTP \<and> ev_status e = 404 \<and>
      ev_duration e = env_ktime ?env3 - env_ktime ?env1 \<and>
      ev_payload_size e = of_nat (length sample_request) \<and> prefix (take 1023 sample_request) (ev_payload e))"
    by (rule http_exchange [where xs = "[]" and ys = "[]" and s = sample_connected and fd = 3 and buf = "0x1000"
        and rbuf = "0x1000" and n = 100 and ?env2.0 = "plain_env 0x70000000A 32", OF _ _ _ _ _ _ sample_memory(1,2) _ _
        refl _ refl _ refl _ _ _ _ sample_memory(3) sample_answered_def, THEN conjunct1])
      (simp_all add: sample_simps)
  then show ?thesis by (auto simp: sample_connected_simps)
qed

theorem agent_survives_kernel_events_witness:
  "\<exists>e evs. e \<in> set (l7_events sample_answered) \<and>
     runEventsReader (lib_net sample_lib) perfMapTypeL7Events [Record 0 (l7_event_bytes e) []] = Ret evs \<and> length evs = 1 \<and>
     (\<forall>ev\<in>set evs. \<exists>r. Ev_L7Request ev = Some r \<and>
       (\<forall>env c. onL7Request sample_lib sample_config env (Ev_Pid ev) (Ev_Fd ev) (Ev_Timestamp ev) r c \<noteq> Panic))"
proof -
  obtain e where "filter (event_of \<lparr>cid_fd = 3, cid_pid = 7\<rparr>) (l7_events sample_answered) = [e]"
    using sample_exchange by blast
  then have "e \<in> set (filter (event_of \<lparr>cid_fd = 3, cid_pid = 7\<rparr>) (l7_events sample_answered))" by simp
  then have e: "e \<in> set (l7_events sample_answered)" by simp
  have d: "delivered (\<lambda>e _. l7_event_bytes e) [e] [Record 0 (l7_event_bytes e) []]"
    using sample [OF waiting, of "\<lambda>e _. l7_event_bytes e" e "[]" "[]" "[]"] by simp
  have "lengths_ok (lib_ch sample_lib)" by (simp add: lengths_ok_def sample_lib_def)
  with e show ?thesis
    using agent_survives_kernel_events [OF sample_reachable(2) _ d, of sample_lib sample_config]
    by (auto simp del: runEventsReader.simps)
qed

section \<open>From the socket to the metrics and the span\<close>

lemma l7_step_wf: "tracer_wf s \<Longrightarrow> tracer_wf (l7_step x s)"
proof (induction x s rule: l7_step.induct)
  case (1 x s)
  then show ?case by (cases x) (simp_all add: base_step_wf)
qed (simp_all add: step_wf)

lemma l7_run_wf: "tracer_wf s \<Longrightarrow> tracer_wf (fold l7_step xs s)"
  by (induction xs arbitrary: s) (simp_all add: l7_step_wf)

text \<open>The payload of the event begins with the first 1023 bytes of the request.\<close>

lemma request_payload:
  assumes "ev_payload_size e = of_nat (length bs)" and "length bs < 2 ^ 64" and "prefix (take 1023 bs) (ev_payload e)"
  shows "prefix (take 1023 bs) (rd_Payload (user_request e))"
proof -
  have "unat (ev_payload_size e) = length bs" using assms(1,2) by (simp add: unat_of_nat)
  then have "prefix (take (min (length bs) 1024) (take 1023 bs)) (rd_Payload (user_request e))"
    using assms(3) by (auto simp: user_request_def prefix_def)
  then show ?thesis by (simp add: min_def split: if_splits)
qed

lemma request_line_shown:
  assumes "prefix (take 1023 (meth @ 32 # uri @ 32 # rest)) bs" and "length meth + length uri + 2 \<le> 1023"
    and "isHttpMethod meth" and "32 \<notin> set uri"
  shows "ParseHttp bs = (meth, uri)"
proof -
  have "take 1023 (meth @ 32 # uri @ 32 # rest) = meth @ 32 # uri @ 32 # take (1021 - length meth - length uri) rest"
    using assms(2) by (simp add: take_Cons')
  then obtain more where "bs = meth @ 32 # uri @ 32 # more" using assms(1) by (auto simp: prefix_def)
  then show ?thesis using ParseHttp_line(1) [OF assms(3,4)] by simp
qed

text \<open>What the observation of one request changes in the metrics.\<close>

lemma observed_metrics:
  assumes "metrics_wf c" and "p \<noteq> PROTOCOL_HTTP2" and "p \<noteq> PROTOCOL_RABBITMQ" and "p \<noteq> PROTOCOL_NATS"
    and "lib_valid_label lib status" and "c' = stats_observe lib p key status [] d (L7Stats_get p key c)"
  shows "requests_counted c' q k labels =
      requests_counted c q k labels + (if q = p \<and> k = key \<and> labels = [status] then 1 else 0)"
    and "latencies c' q k = latencies c q k @ (if q = p \<and> k = key \<and> d \<noteq> 0 then [d] else [])"
proof -
  have mf: "metrics_for p m" if "c_l7Stats c (p, key) = Some m" for m
    using that assms(1) unfolding stats_wf_def by blast
  have m: "m_Latency m \<noteq> None \<and> (\<exists>f. m_Requests m = Some (1, f))" if "c_l7Stats c (p, key) = Some m" for m
    using mf [OF that] assms(3,4) by (cases "m_Requests m") (auto simp: metrics_for_def new_metrics_def)
  show "requests_counted c' q k labels =
      requests_counted c q k labels + (if q = p \<and> k = key \<and> labels = [status] then 1 else 0)"
    using assms(2-6) m
    by (cases "c_l7Stats c (p, key)")
      (auto simp: requests_counted_def stats_observe_def L7Stats_get_def stats_protocol_def observe_def counter_Inc_def
        new_metrics_def Let_def split: option.splits)
  show "latencies c' q k = latencies c q k @ (if q = p \<and> k = key \<and> d \<noteq> 0 then [d] else [])"
    using assms(2-6) m
    by (cases "c_l7Stats c (p, key)")
      (auto simp: latencies_def stats_observe_def L7Stats_get_def stats_protocol_def observe_def counter_Inc_def
        new_metrics_def Let_def split: option.splits)
qed

text \<open>The span of a request of HTTP to a destination.\<close>

definition http_span :: "('ip, 'd) agent_lib \<Rightarrow> int \<Rightarrow> 'ip HostPort \<Rightarrow> gostring \<Rightarrow> gostring \<Rightarrow> int \<Rightarrow> s64 \<Rightarrow> span" where
  "http_span lib now dst meth uri status d =
     \<lparr>sp_name = meth, sp_start = now + sint (- d), sp_end = now, sp_error = (400 \<le> status),
      sp_attrs = [HTTPURL (ascii ''http://'' @ HostPort_String (lib_net lib) dst @ uri), HTTPMethod meth, HTTPStatusCode status,
        NetPeerName (HostPort_Host (lib_net lib) dst), NetPeerPort (uint (hp_port dst))]\<rparr>"

lemma http_request_handled:
  assumes "map_of (c_connectionsByPidFd c) (pid, fd) = Some i" and "c_conns c ! i = ac" and "ac_Timestamp ac = ts"
    and "rd_Protocol r = PROTOCOL_HTTP" and "ParseHttp (rd_Payload r) = (meth, uri)" and "meth \<noteq> []"
    and "\<not> http_ShouldBeSkipped (HttpFilter cfg) uri"
    and "list_all (\<lambda>(_, p). \<not> pr_EbpfTracesDisabled p) (c_processes c)" and "se_otel env" and "float64_one \<le> se_samplingRate env"
  shows "\<exists>c'. onL7Request lib cfg env pid fd ts r c = Ret ([], c') \<and>
    c_l7Stats c' = c_l7Stats (stats_observe lib PROTOCOL_HTTP (ac_DestinationKey ac) (Status_Http (rd_Status r)) [] (rd_Duration r)
      (L7Stats_get PROTOCOL_HTTP (ac_DestinationKey ac) c)) \<and>
    sl_spans (c_spans c') = sl_spans (c_spans c) @ [http_span lib (se_now env)
      (ActualDestinationIfKnown (ac_DestinationKey ac)) meth uri (rd_Status r) (rd_Duration r)]"
proof -
  have "\<not> list_ex (\<lambda>(_, p). pr_EbpfTracesDisabled p) (c_processes c)"
    using assms(8) by (auto simp: list_ex_iff list_all_iff)
  moreover have "c_processes (L7Stats_get p k c) = c_processes c" "c_conns (L7Stats_get p k c) = c_conns c"
    "c_spans (L7Stats_get p k c) = c_spans c" for p k
    by (simp_all add: L7Stats_get_def Let_def split: option.split)
  ultimately show ?thesis
    using assms
    by (simp add: onL7Request_def l7_request_of_conn_def Let_def add_spans_def HttpRequest_def createSpan_def shouldSample_def
        NewTrace_def http_span_def stats_observe_def)
qed

text \<open>
  C1. An exchange of HTTP on a socket becomes one count, one latency and one span of its
  destination. A thread writes a request on a connection that the tracer, in a state it reaches, and
  the container know; any probes of other connections run before and while the response is read;
  the response is read. Then of the events about the connection there is one new one; its sample
  is decoded; and the handler of the container counts the status of the response for the
  destination of the connection and nothing else, observes the time from the write to the end of
  the read when it is not 0, and adds the span with the method, the address and target of the request
  and the status, marked as an error from 400 on.
\<close>

theorem http_exchange_observed:
  fixes s :: l7_maps
  assumes "tracer_step\<^sup>*\<^sup>* init_l7_maps s"
    and conn: "bpf_map_lookup_elem (active_connections s) cid = Some conn" "cid = cid_at env1 fd"
    and "bpf_map_lookup_elem (active_l7_requests s) (plain_key cid 0) = None"
    and "room (length xs + length ys + 2) s" and "calm_l7 env1" and "calm_l7 env2"
    and bs: "bs = meth @ 32 # uri @ 32 # rest" "isHttpMethod meth" "32 \<notin> set uri" "length meth + length uri + 2 \<le> 1023"
    and "holds_at (kmem env1 s) buf bs" and "is_http_request (kmem env1 s) buf" and "length bs < 2 ^ 64"
    and w: "w = sys_enter_write env1 \<lparr>rw_fd = fd, rw_buf = buf, rw_size = of_nat (length bs)\<rparr> s"
    and "apart_run cid {} xs w" and s1: "s1 = fold l7_step xs w"
    and "pid_of (env_pid_tgid env2) = pid_of (env_pid_tgid env1)"
    and r: "r = sys_enter_read env2 \<lparr>rw_fd = fd, rw_buf = rbuf, rw_size = n\<rparr> s1"
    and "apart_run cid {env_pid_tgid env2} ys r" and s2: "s2 = fold l7_step ys r"
    and "env_pid_tgid env3 = env_pid_tgid env2" and "0 <s sx_ret ctx"
    and "is_http_response (kmem env3 s2) rbuf 0 = (True, st)" and s3: "s3 = sys_exit_read env3 ctx s2"
    and "run_ops lib cfg ops (NewContainer wl) = Ret c"
    and known: "map_of (c_connectionsByPidFd c) (cid_pid cid, cid_fd cid) = Some i"
      "ac_Timestamp (c_conns c ! i) = c_timestamp conn" "ac_DestinationKey (c_conns c ! i) = key"
    and "\<not> http_ShouldBeSkipped (HttpFilter cfg) uri" and "lib_valid_label lib (Status_Http (sint st))"
    and "list_all (\<lambda>(_, p). \<not> pr_EbpfTracesDisabled p) (c_processes c)" and "se_otel env" and "float64_one \<le> se_samplingRate env"
    and d: "d = env_ktime env3 - env_ktime env1"
  shows "\<exists>e req c'. filter (event_of cid) (l7_events s3) = filter (event_of cid) (l7_events s) @ [e] \<and>
    decode_record (lib_net lib) perfMapTypeL7Events (l7_event_bytes e @ junk) behind = Ret (Some
      ((zero_Event (lib_net lib))\<lparr>Ev_Type := EventTypeL7Request, Ev_Pid := cid_pid cid, Ev_Fd := cid_fd cid,
        Ev_Timestamp := c_timestamp conn, Ev_L7Request := Some req\<rparr>)) \<and>
    onL7Request lib cfg env (cid_pid cid) (cid_fd cid) (c_timestamp conn) req c = Ret ([], c') \<and>
    (\<forall>p k labels. requests_counted c' p k labels = requests_counted c p k labels +
      (if p = PROTOCOL_HTTP \<and> k = key \<and> labels = [Status_Http (sint st)] then 1 else 0)) \<and>
    (\<forall>p k. latencies c' p k = latencies c p k @ (if p = PROTOCOL_HTTP \<and> k = key \<and> d \<noteq> 0 then [d] else [])) \<and>
    sl_spans (c_spans c') = sl_spans (c_spans c) @
      [http_span lib (se_now env) (ActualDestinationIfKnown key) meth uri (sint st) d]"
proof -
  have "0 < length bs" using bs(1) by simp
  note ex = http_exchange [OF conn assms(4-7,12,13) this assms(14) w assms(16) s1 assms(18) r assms(20) s2 assms(22-24) s3]
  obtain e where e: "filter (event_of cid) (l7_events s3) = filter (event_of cid) (l7_events s) @ [e]"
    "ev_connection_timestamp e = c_timestamp conn" "ev_protocol e = PROTOCOL_HTTP" "ev_status e = st" "ev_duration e = d"
    "ev_payload_size e = of_nat (length bs)" "prefix (take 1023 bs) (ev_payload e)"
    using ex d by blast
  have "tracer_wf s" using assms(1) init_l7_maps_wf by (rule tracer.reachable_inv)
  then have wf: "tracer_wf s3"
    unfolding s3 s2 r s1 w sys_exit_read_def sys_enter_read_def sys_enter_write_def by (intro step_wf l7_run_wf)
  have "e \<in> set (filter (event_of cid) (l7_events s3))" using e(1) by simp
  then have mem: "e \<in> set (l7_events s3)" and cid: "ev_pid e = cid_pid cid" "ev_fd e = cid_fd cid" by (auto simp: event_of_def)
  have "length (ev_payload e) = 1024"
    using wf mem by (auto simp: tracer_wf_def l7_wf_def event_wf_def payload_wf_def)
  then have dec: "decode_record (lib_net lib) perfMapTypeL7Events (l7_event_bytes e @ junk) behind =
      Ret (Some (user_l7_event (lib_net lib) e))" by (rule decode_l7_event)
  let ?r = "user_request e"
  have r: "rd_Protocol ?r = PROTOCOL_HTTP" "rd_Status ?r = sint st" "rd_Duration ?r = d"
    using e by (simp_all add: user_request_def)
  have "ParseHttp (rd_Payload ?r) = (meth, uri)"
    using request_payload [OF e(6) assms(14) e(7)] bs(2-4) unfolding bs(1) by (intro request_line_shown)
  moreover have "meth \<noteq> []" using bs(2) by (auto simp: isHttpMethod_def ascii_def)
  ultimately obtain c' where c': "onL7Request lib cfg env (cid_pid cid) (cid_fd cid) (c_timestamp conn) ?r c = Ret ([], c')"
    "c_l7Stats c' = c_l7Stats (stats_observe lib PROTOCOL_HTTP key (Status_Http (sint st)) [] d (L7Stats_get PROTOCOL_HTTP key c))"
    "sl_spans (c_spans c') = sl_spans (c_spans c) @ [http_span lib (se_now env) (ActualDestinationIfKnown key) meth uri (sint st) d]"
    using http_request_handled [OF known(1) refl known(2) r(1) _ _ assms(30) assms(32-34), of meth lib] r known(3) by auto
  have mwf: "metrics_wf c" using assms(26) metrics_wf_new by (rule metrics_wf_run)
  note obs = observed_metrics [OF mwf _ _ _ assms(31) refl, of PROTOCOL_HTTP key d]
  have "requests_counted c' = requests_counted (stats_observe lib PROTOCOL_HTTP key (Status_Http (sint st)) [] d (L7Stats_get PROTOCOL_HTTP key c))"
    "latencies c' = latencies (stats_observe lib PROTOCOL_HTTP key (Status_Http (sint st)) [] d (L7Stats_get PROTOCOL_HTTP key c))"
    using c'(2) by (simp_all add: fun_eq_iff requests_counted_def latencies_def)
  then show ?thesis
    using e(1,2) dec cid c' obs by (intro exI [of _ e] exI [of _ ?r] exI [of _ c']) (simp add: user_l7_event_def)
qed

definition sample_span_env :: span_env where
  "sample_span_env = \<lparr>se_otel = True, se_samplingRate = float64_one, se_Float64 = (\<lambda>_. 0), se_now = 1000\<rparr>"

theorem http_exchange_observed_witness:
  "case run_ops sample_lib sample_config [sample_start, sample_open 3 1000 10] (NewContainer []) of
     Panic \<Rightarrow> False
   | Ret c \<Rightarrow> \<exists>e req c'. filter (event_of \<lparr>cid_fd = 3, cid_pid = 7\<rparr>) (l7_events sample_answered) = [e] \<and>
       onL7Request sample_lib sample_config sample_span_env 7 3 10 req c = Ret ([], c') \<and>
       requests_counted c' PROTOCOL_HTTP sample_key [ascii ''4xx''] = 1 \<and> latencies c' PROTOCOL_HTTP sample_key = [32] \<and>
       sl_spans (c_spans c') =
         [http_span sample_lib 1000 (ActualDestinationIfKnown sample_key) (ascii ''GET'') (ascii ''/index.html'') 404 32]"
proof -
  let ?ops = "[sample_start, sample_open 3 1000 10]"
  have "case run_ops sample_lib sample_config ?ops (NewContainer []) of
      Panic \<Rightarrow> False
    | Ret c \<Rightarrow> map_of (c_connectionsByPidFd c) (7, 3) = Some 0 \<and> ac_Timestamp (c_conns c ! 0) = 10 \<and>
        ac_DestinationKey (c_conns c ! 0) = sample_key \<and> list_all (\<lambda>(_, p). \<not> pr_EbpfTracesDisabled p) (c_processes c) \<and>
        requests_counted c PROTOCOL_HTTP sample_key [ascii ''4xx''] = 0 \<and> latencies c PROTOCOL_HTTP sample_key = [] \<and>
        sl_spans (c_spans c) = []"
    by code_simp
  then obtain c where c: "run_ops sample_lib sample_config ?ops (NewContainer []) = Ret c"
    "map_of (c_connectionsByPidFd c) (7, 3) = Some 0" "ac_Timestamp (c_conns c ! 0) = 10"
    "ac_DestinationKey (c_conns c ! 0) = sample_key" "list_all (\<lambda>(_, p). \<not> pr_EbpfTracesDisabled p) (c_processes c)"
    "requests_counted c PROTOCOL_HTTP sample_key [ascii ''4xx''] = 0" "latencies c PROTOCOL_HTTP sample_key = []"
    "sl_spans (c_spans c) = []"
    by (auto split: go.splits)
  have line: "sample_request = ascii ''GET'' @ 32 # ascii ''/index.html'' @ 32 # ascii ''HTTP/1.1''"
    by (simp add: sample_request_def ascii_def)
  have st: "Status_Http 404 = ascii ''4xx''" by code_simp
  let ?cid = "\<lparr>cid_fd = 3, cid_pid = 7\<rparr>" and ?conn = "\<lparr>c_timestamp = 10, c_bytes_sent = 0, c_bytes_received = 0\<rparr>"
  have "\<exists>e req c'. filter (event_of ?cid) (l7_events sample_answered) = filter (event_of ?cid) (l7_events sample_connected) @ [e] \<and>
    decode_record (lib_net sample_lib) perfMapTypeL7Events (l7_event_bytes e @ []) [] = Ret (Some
      ((zero_Event (lib_net sample_lib))\<lparr>Ev_Type := EventTypeL7Request, Ev_Pid := cid_pid ?cid, Ev_Fd := cid_fd ?cid,
        Ev_Timestamp := c_timestamp ?conn, Ev_L7Request := Some req\<rparr>)) \<and>
    onL7Request sample_lib sample_config sample_span_env (cid_pid ?cid) (cid_fd ?cid) (c_timestamp ?conn) req c = Ret ([], c') \<and>
    (\<forall>p k labels. requests_counted c' p k labels = requests_counted c p k labels +
      (if p = PROTOCOL_HTTP \<and> k = sample_key \<and> labels = [Status_Http (sint (404 :: s32))] then 1 else 0)) \<and>
    (\<forall>p k. latencies c' p k = latencies c p k @ (if p = PROTOCOL_HTTP \<and> k = sample_key \<and> 32 \<noteq> (0 :: s64) then [32] else [])) \<and>
    sl_spans (c_spans c') = sl_spans (c_spans c) @ [http_span sample_lib (se_now sample_span_env)
      (ActualDestinationIfKnown sample_key) (ascii ''GET'') (ascii ''/index.html'') (sint (404 :: s32)) 32]"
    by (rule http_exchange_observed [where xs = "[]" and ys = "[]" and fd = 3 and buf = "0x1000" and rbuf = "0x1000" and n = 100
        and ?env2.0 = "plain_env 0x70000000A 32" and i = 0, OF sample_reachable(1) _ _ _ _ _ _ line _ _ _ sample_memory(1,2) _
        refl _ refl _ refl _ _ _ _ sample_memory(3) sample_answered_def c(1)])
      (simp_all add: sample_simps c isHttpMethod_def ascii_def sample_config_def sample_lib_def http_ShouldBeSkipped_def
        sample_span_env_def)
  then obtain e req c' where "filter (event_of ?cid) (l7_events sample_answered) = [e]"
      "onL7Request sample_lib sample_config sample_span_env 7 3 10 req c = Ret ([], c')"
      "requests_counted c' PROTOCOL_HTTP sample_key [ascii ''4xx''] = 1" "latencies c' PROTOCOL_HTTP sample_key = [32]"
      "sl_spans (c_spans c') =
        [http_span sample_lib 1000 (ActualDestinationIfKnown sample_key) (ascii ''GET'') (ascii ''/index.html'') 404 32]"
    using c(6-8) by (auto simp: sample_connected_simps st sample_span_env_def)
  then show ?thesis unfolding c(1) go.case by blast
qed

end
