(* ===== verification/Spec2Isabelle.thy ===== *)
theory Spec2Isabelle
  imports Tls_Exchange Traffic L7_Faults Py_Frames Agent
begin

text \<open>
  A verification library for the CodeXRay node agent: the eBPF programs of the tracer under
  \<^verbatim>\<open>src/ebpftracer/ebpf\<close> and of the profiler under \<^verbatim>\<open>src/internal/pyroscope-ebpf/bpf\<close>, and the part of the
  agent in user space, written in Go, that turns what the tracer sends into counters and spans.

  \<^bold>\<open>The program.\<close> The kernel runs small handlers at tracepoints, at entries and exits of library
  functions and on a sampling clock. A handler reads registers and memory of the interrupted
  process, keeps state in maps, and sends records to user space. The tracer has one program for
  each of 46 places (processes, opened files, TCP sockets, address translation, reads and writes
  of sockets, the TLS libraries, the run times of Node.js and Python). The profiler samples stacks;
  for Python processes it calls a second program that walks the interpreter's frames in memory.
  In user space a reader decodes the records of the tracer (\<^verbatim>\<open>tracer.go\<close>). Handlers of the container that
  a record is about keep its connections by process and descriptor, add up traffic, parse the
  payloads of requests (\<^verbatim>\<open>ebpftracer/l7\<close>), count them by destination and status and make spans of them.

  \<^bold>\<open>How it is modelled.\<close> A handler is a function from its context and the state to the state; the state
  is a record of its maps and of the records sent so far, and the records of the components extend
  one another (\<^verbatim>\<open>nodejs_maps\<close>, \<^verbatim>\<open>python_maps\<close>, \<^verbatim>\<open>proc_maps\<close>, \<^verbatim>\<open>file_maps\<close>, \<^verbatim>\<open>conntrack_maps\<close>, \<^verbatim>\<open>tcp_maps\<close>,
  \<^verbatim>\<open>retransmit_maps\<close>, \<^verbatim>\<open>l7_maps\<close>; and \<^verbatim>\<open>prof_maps\<close>, \<^verbatim>\<open>py_maps\<close>). Handlers keep the names of the source.
  What a handler gets from the kernel (thread, time, CPU, memory, what a failed read leaves in a
  buffer, which entries a full map evicts) is an argument, \<^verbatim>\<open>bpf_env\<close> or \<^verbatim>\<open>prof_env\<close>, over which the
  theorems quantify. Machine integers are words of their width; C structs read from memory
  are records with a function that decodes their bytes. Every early return is a branch. In the
  models of Go code a panic is the value \<^verbatim>\<open>Panic\<close> of the type \<^verbatim>\<open>go\<close>, packages the repository does not
  contain (\<^verbatim>\<open>netaddr\<close>, \<^verbatim>\<open>hpack\<close>, the decoders of DNS, BSON and ClickHouse messages) are records of functions
  that the definitions take as arguments (together \<^verbatim>\<open>agent_lib\<close>), and so are the random numbers and the
  time. Connection objects that two maps share are kept once, in a list, and referred to by index.

  \<^bold>\<open>The theories.\<close>

  \<^item> \<^verbatim>\<open>Prelude\<close>: words, bytes and memory; \<^verbatim>\<open>bpf_probe_read\<close>, \<^verbatim>\<open>bpf_probe_read_str\<close> and the byte order
    macros of \<^verbatim>\<open>libbpf\<close>. \<^verbatim>\<open>Bpf_Maps\<close>: hash and LRU maps with their capacities, per-CPU arrays, the
    environment and the registers; the interfaces \<^verbatim>\<open>bpf_map\<close> and \<^verbatim>\<open>bpf_hash\<close>, which both kinds of
    map provide, and \<^verbatim>\<open>step_invariant\<close>, which lifts an invariant from steps to runs.

  \<^item> \<^verbatim>\<open>Runtime_Stats\<close> (\<^verbatim>\<open>nodejs.c\<close>, \<^verbatim>\<open>python.c\<close>), \<^verbatim>\<open>Proc_Events\<close> (\<^verbatim>\<open>proc.c\<close>), \<^verbatim>\<open>File_Events\<close> (\<^verbatim>\<open>file.c\<close>):
    over any interleaving of their probes the counters and events are those of small abstract
    machines (measured intervals, set of killed processes, protocol of an open).

  \<^item> \<^verbatim>\<open>Conntrack\<close> (\<^verbatim>\<open>tcp/conntrack.c\<close>) and \<^verbatim>\<open>Tcp_State\<close> (\<^verbatim>\<open>tcp/state.c\<close>, \<^verbatim>\<open>tcp/retransmit.c\<close>): a connection
    attempt is reported once, with its duration and its translated destination, whatever other
    sockets do in between.

  \<^item> \<^verbatim>\<open>L7_Text\<close> (\<^verbatim>\<open>http.c\<close>, \<^verbatim>\<open>redis.c\<close>, \<^verbatim>\<open>memcached.c\<close>, \<^verbatim>\<open>nats.c\<close>), \<^verbatim>\<open>L7_Binary\<close> (\<^verbatim>\<open>postgres.c\<close>, \<^verbatim>\<open>mysql.c\<close>,
    \<^verbatim>\<open>mongo.c\<close>, \<^verbatim>\<open>kafka.c\<close>, \<^verbatim>\<open>cassandra.c\<close>, \<^verbatim>\<open>rabbitmq.c\<close>, \<^verbatim>\<open>http2.c\<close>, \<^verbatim>\<open>dubbo2.c\<close>, \<^verbatim>\<open>dns.c\<close>, \<^verbatim>\<open>clickhouse.c\<close>,
    \<^verbatim>\<open>zookeeper.c\<close>), \<^verbatim>\<open>Foundationdb\<close> (\<^verbatim>\<open>foundationdb.c\<close>), \<^verbatim>\<open>L7_Wire\<close>: the classifiers of payloads, and
    which messages on the wire they accept. Each classifier is an instance of the locale
    \<^verbatim>\<open>classifier\<close>: its verdict depends on a window of the payload only.

  \<^item> \<^verbatim>\<open>L7\<close> (\<^verbatim>\<open>l7/l7.c\<close>) and \<^verbatim>\<open>Tls\<close> (\<^verbatim>\<open>l7/gotls.c\<close>, \<^verbatim>\<open>l7/openssl.c\<close>): the handlers of reads and writes.
    \<^verbatim>\<open>L7_Requests\<close>: what a handler may change. \<^verbatim>\<open>L7_Iovec\<close>: a vectored write of at most 1023 bytes is
    the write of its assembled data. \<^verbatim>\<open>L7_Exchange\<close>: an HTTP exchange among other connections gives one event.
    \<^verbatim>\<open>Multiplex\<close>: on a Cassandra connection the handlers implement a multiplexer of streams.
    \<^verbatim>\<open>L7_Faults\<close>: payloads that cannot be read. \<^verbatim>\<open>Tracer\<close>: all programs of the tracer as one step
    relation, and the sizes it keeps. \<^verbatim>\<open>Tls_Apart\<close>: plain and encrypted traffic do not
    disturb each other. \<^verbatim>\<open>Tls_Exchange\<close>: an exchange over OpenSSL. \<^verbatim>\<open>Traffic\<close>: the byte counters at
    the close of a connection whose plain calls are not vectored.

  \<^item> \<^verbatim>\<open>Murmur\<close> (\<^verbatim>\<open>hash.h\<close>): on stacks the hash is the published one, and it tells apart stacks that differ in one
    frame. \<^verbatim>\<open>Profile\<close> (\<^verbatim>\<open>profile.bpf.c\<close>, \<^verbatim>\<open>profile.bpf.h\<close>, \<^verbatim>\<open>pid.h\<close>, \<^verbatim>\<open>stacks.h\<close>): the sampling program and
    the bookkeeping of processes, with the steps of user space (\<^verbatim>\<open>session.go\<close>) that configure a process
    and delete a stale one; the locale \<^verbatim>\<open>profiler_program\<close> is what it needs of a program it
    calls. \<^verbatim>\<open>Py_Memory\<close> (\<^verbatim>\<open>pthread.bpf.h\<close>, \<^verbatim>\<open>pthread_amd64.h\<close>, \<^verbatim>\<open>pthread_arm64.h\<close>, \<^verbatim>\<open>pystr.h\<close>,
    \<^verbatim>\<open>pyoffsets.h\<close>): thread-specific values and strings of CPython. \<^verbatim>\<open>Pyperf\<close> (\<^verbatim>\<open>pyperf.bpf.c\<close>): the
    unwinder, which provides \<^verbatim>\<open>profiler_program\<close>. \<^verbatim>\<open>Py_Unwind\<close>: its tail calls and its bounds.
    \<^verbatim>\<open>Py_Stacks\<close>: the numbers of symbols stay apart while the counters of the CPUs have room.
    \<^verbatim>\<open>Py_Frames\<close>: a stack of CPython in memory is recorded, and a number stands for one symbol.

  \<^item> \<^verbatim>\<open>Go_Lib\<close>: strings, slices and panics of Go. \<^verbatim>\<open>Event_Reader\<close> (\<^verbatim>\<open>ebpftracer/tracer.go\<close>): the readers of the
    perf buffers pass on what the programs in the kernel sent, field by field. \<^verbatim>\<open>Sql_Parsers\<close>
    (\<^verbatim>\<open>l7/postgres.go\<close>, \<^verbatim>\<open>l7/mysql.go\<close>): the parsers implement sessions with prepared statements.
    \<^verbatim>\<open>Text_Parsers\<close> (\<^verbatim>\<open>l7/l7.go\<close>, \<^verbatim>\<open>http.go\<close>, \<^verbatim>\<open>redis.go\<close>, \<^verbatim>\<open>memcached.go\<close>, \<^verbatim>\<open>zookeeper.go\<close>, \<^verbatim>\<open>mongo.go\<close>, \<^verbatim>\<open>dns.go\<close>,
    \<^verbatim>\<open>clickhouse.go\<close>): requests are shown as they were built, with the exceptions proved there. \<^verbatim>\<open>Http2_Parser\<close> (\<^verbatim>\<open>l7/http2.go\<close>): an exchange on a
    stream is reported once, among the frames of other streams.

  \<^item> \<^verbatim>\<open>Destinations\<close> (\<^verbatim>\<open>common/net.go\<close>): which destinations are of interest, and that they stay so (by what
    \<^verbatim>\<open>netaddr\<close> documents of prefixes, \<^verbatim>\<open>prefixes_ok\<close>). \<^verbatim>\<open>Spans\<close>
    (\<^verbatim>\<open>tracing/tracing.go\<close>): the spans of requests. \<^verbatim>\<open>Container\<close> (\<^verbatim>\<open>containers/container.go\<close>, \<^verbatim>\<open>l7.go\<close>, \<^verbatim>\<open>process.go\<close>):
    the state of a container, its handlers and its garbage collection. \<^verbatim>\<open>Container_Traffic\<close>: over any run of
    the handlers the traffic of a destination is the sum over its connections, and late events of
    an earlier connection on a descriptor have no effect.

  \<^item> \<^verbatim>\<open>Agent\<close>: kernel and user space together. No event of the kernel makes a handler panic, which rests on
    the sizes that \<^verbatim>\<open>Tracer\<close> shows the kernel to keep; and an HTTP exchange on a socket ends up as one count,
    one latency and one span of its destination.

  \<^bold>\<open>Bounds.\<close> Loops are bounded in the source and recurse on the number of rounds left: 32 entries of
    a vector, 2 messages of \<^verbatim>\<open>sendmmsg\<close>, 4 levels of namespaces, 32 frames in each of the Python
    programs. Tail calls are fuel; three are enough, which is proved (\<^verbatim>\<open>tail_calls_suffice\<close>), and
    the kernel allows 33. The loop over the settings of a ClickHouse query has one round more than
    bytes are left, and more rounds change nothing (\<^verbatim>\<open>ch_skip_settings_enough\<close>). Theorems about exchanges assume that no map evicts an entry meanwhile
    and that there is room for the entries the steps add (\<^verbatim>\<open>calm\<close>, \<^verbatim>\<open>calm_l7\<close>, \<^verbatim>\<open>tracked\<close>, \<^verbatim>\<open>room\<close>); the theorems about
    sizes do not.

  \<^bold>\<open>Not modelled.\<close> The rest of user space: loading and attaching the programs, filling the configuration
  maps (the model has their contents as state), the registry that finds the container of an event,
  the clients of container run times, the log parsers, the host metrics, the export of metrics and
  the profiler's symbol tables; they read files, talk to services or call packages outside the
  repository. Of a container, mounts, logs, pings and GPU usage. The kernel headers and \<^verbatim>\<open>libbpf\<close> beyond
  the helpers, structures and macros the programs use. The debug output (\<^verbatim>\<open>ume.h\<close> and the log macros
  of \<^verbatim>\<open>pyperf.bpf.c\<close>), which changes no state. The register names of other architectures in the
  TLS probes. Races between CPUs: a handler runs to its end before the next one starts, and
  the atomic additions of the source are additions. Likewise the handlers of a container in Go run
  one after the other.
\<close>

end
